(* ===== verification/Prelude.thy ===== *)
theory Prelude
  imports Complex_Main "HOL-Library.List_Lexorder" "HOL-Library.Char_ord"
begin

text \<open>
  What every component of the model shares: Go errors as values, the sequential checks
  and the loops with a "seen" map that the validators are made of, the string functions of
  Go's standard library that the code calls, and time.

  Conventions. A Go string is its bytes, so \<open>string\<close> (a list of 8-bit characters) is
  exact. A Go \<open>int\<close> that the code only compares, counts with or copies is an \<open>int\<close>.
  A function returning \<open>error\<close> returns \<open>go_error option\<close> (\<open>None\<close> is \<open>nil\<close>);
  a function returning a value and an error returns \<open>go_error + 'a\<close>.
\<close>

named_theorems check_simps "equations for sequences of checks and for loops of checks"

section \<open>Errors\<close>

text \<open>
  An error keeps what \<open>errors.New\<close>, \<open>fmt.Errorf\<close> and \<open>%w\<close> were given; the text
  is not rendered. \<open>Sentinel\<close> is a package-level error variable, compared by identity
  (\<open>errors.Is\<close>). \<open>Foreign\<close> is an error of a component outside the model: its text,
  the answer of its \<open>Temporary()\<close> method where it has one, and the error it wraps where
  it wraps one. \<open>Panic\<close> stands for a call that panics instead of returning.
\<close>

datatype fmt_arg = FStr string | FInt int

datatype go_error =
    ErrorsNew string
  | Errorf string "fmt_arg list"
  | Wrapf string "fmt_arg list" go_error
  | Sentinel string
  | DeadlineExceeded
  | Canceled
  | Foreign string "bool option" "go_error option"
  | Panic string

fun errors_is :: "go_error \<Rightarrow> go_error \<Rightarrow> bool" where
  "errors_is (Wrapf f as e) t = (Wrapf f as e = t \<or> errors_is e t)"
| "errors_is (Foreign m b (Some e)) t = (Foreign m b (Some e) = t \<or> errors_is e t)"
| "errors_is e t = (e = t)"

text \<open>
  \<open>errors.As\<close> takes the first error of the chain that has a \<open>Temporary()\<close> method.
  \<open>context.DeadlineExceeded\<close> implements \<open>Temporary()\<close> (it answers true) and
  \<open>context.Canceled\<close> does not.
\<close>

fun errors_temporary :: "go_error \<Rightarrow> bool" where
  "errors_temporary (Wrapf f as e) = errors_temporary e"
| "errors_temporary (Foreign m (Some t) u) = t"
| "errors_temporary (Foreign m None (Some e)) = errors_temporary e"
| "errors_temporary DeadlineExceeded = True"
| "errors_temporary e = False"

section \<open>Sequences of checks\<close>

text \<open>
  \<open>first_err [c1, c2, \<dots>]\<close> is the code's \<open>if err := c1; err != nil { return err }\<close>
  chain, \<open>fail_if b e\<close> is \<open>if b { return e }\<close>.
\<close>

fun first_err :: "go_error option list \<Rightarrow> go_error option" where
  "first_err [] = None"
| "first_err (c # cs) = (case c of Some e \<Rightarrow> Some e | None \<Rightarrow> first_err cs)"

definition fail_if :: "bool \<Rightarrow> go_error \<Rightarrow> go_error option" where
  "fail_if b e = (if b then Some e else None)"

lemma fail_if_None [check_simps, simp]: "fail_if b e = None \<longleftrightarrow> \<not> b"
  by (simp add: fail_if_def)

lemma first_err_Nil [check_simps]: "first_err [] = None"
  by simp

lemma first_err_Cons_None [check_simps, simp]:
  "first_err (c # cs) = None \<longleftrightarrow> c = None \<and> first_err cs = None"
  by (cases c) (auto simp: first_err.simps)

declare first_err.simps(2) [simp del]

lemma first_err_Some [simp]: "first_err (Some e # cs) = Some e"
  and first_err_None [simp]: "first_err (None # cs) = first_err cs"
  and first_err_fail [simp]: "b \<Longrightarrow> first_err (fail_if b e # cs) = Some e"
  and first_err_pass [simp]: "\<not> b \<Longrightarrow> first_err (fail_if b e # cs) = first_err cs"
  by (simp_all add: first_err.simps fail_if_def)

lemma first_err_append: "first_err (xs @ ys) =
    (case first_err xs of Some e \<Rightarrow> Some e | None \<Rightarrow> first_err ys)"
  by (induction xs) (auto simp: first_err.simps split: option.splits)

definition wrap_err :: "string \<Rightarrow> fmt_arg list \<Rightarrow> go_error option \<Rightarrow> go_error option" where
  "wrap_err f as c = map_option (Wrapf f as) c"

lemma wrap_err_None [check_simps, simp]: "wrap_err f as c = None \<longleftrightarrow> c = None"
  by (simp add: wrap_err_def)

section \<open>Loops of checks\<close>

text \<open>
  \<open>range_err f xs\<close> is \<open>for i, x := range xs { if err := f(i, x); \<dots> }\<close>.
\<close>

fun range_from :: "(nat \<Rightarrow> 'a \<Rightarrow> go_error option) \<Rightarrow> nat \<Rightarrow> 'a list \<Rightarrow> go_error option" where
  "range_from f i [] = None"
| "range_from f i (x # xs) =
     (case f i x of Some e \<Rightarrow> Some e | None \<Rightarrow> range_from f (Suc i) xs)"

definition range_err :: "(nat \<Rightarrow> 'a \<Rightarrow> go_error option) \<Rightarrow> 'a list \<Rightarrow> go_error option" where
  "range_err f xs = range_from f 0 xs"

lemma range_from_None:
  "range_from f i xs = None \<longleftrightarrow> (\<forall>k < length xs. f (i + k) (xs ! k) = None)"
proof (induction xs arbitrary: i)
  case Nil
  then show ?case by simp
next
  case (Cons x xs)
  have "(\<forall>k < length (x # xs). f (i + k) ((x # xs) ! k) = None) \<longleftrightarrow>
      f i x = None \<and> (\<forall>k < length xs. f (Suc i + k) (xs ! k) = None)"
    by (simp add: All_less_Suc2)
  with Cons.IH [of "Suc i"] show ?case by (cases "f i x") simp_all
qed

lemma range_from_None_uniform:
  assumes "\<And>i x. f i x = None \<longleftrightarrow> P x"
  shows "range_from f i xs = None \<longleftrightarrow> (\<forall>x \<in> set xs. P x)"
proof (induction xs arbitrary: i)
  case (Cons x xs)
  then show ?case using assms [of i x] by (cases "f i x") auto
qed simp

lemma range_err_None_uniform:
  assumes "\<And>i x. f i x = None \<longleftrightarrow> P x"
  shows "range_err f xs = None \<longleftrightarrow> (\<forall>x \<in> set xs. P x)"
  unfolding range_err_def by (rule range_from_None_uniform [OF assms])

text \<open>
  The loop with a \<open>seen\<close> map: check \<open>pre\<close>, refuse a repeated key, check \<open>post\<close>,
  remember the key. It returns the keys seen, as the code keeps the map for later checks.
\<close>

fun scan_from :: "(nat \<Rightarrow> 'a \<Rightarrow> go_error option) \<Rightarrow> ('a \<Rightarrow> 'k) \<Rightarrow> (nat \<Rightarrow> 'a \<Rightarrow> go_error) \<Rightarrow>
    (nat \<Rightarrow> 'a \<Rightarrow> go_error option) \<Rightarrow> nat \<Rightarrow> 'k list \<Rightarrow> 'a list \<Rightarrow> go_error option" where
  "scan_from pre key dup post i seen [] = None"
| "scan_from pre key dup post i seen (x # xs) =
     (case pre i x of Some e \<Rightarrow> Some e
      | None \<Rightarrow>
          if key x \<in> set seen then Some (dup i x)
          else (case post i x of Some e \<Rightarrow> Some e
                | None \<Rightarrow> scan_from pre key dup post (Suc i) (key x # seen) xs))"

definition scan_unique :: "(nat \<Rightarrow> 'a \<Rightarrow> go_error option) \<Rightarrow> ('a \<Rightarrow> 'k) \<Rightarrow> (nat \<Rightarrow> 'a \<Rightarrow> go_error) \<Rightarrow>
    (nat \<Rightarrow> 'a \<Rightarrow> go_error option) \<Rightarrow> 'a list \<Rightarrow> go_error option" where
  "scan_unique pre key dup post xs = scan_from pre key dup post 0 [] xs"

lemma scan_from_None:
  assumes "\<And>i x. pre i x = None \<longleftrightarrow> P x" and "\<And>i x. post i x = None \<longleftrightarrow> Q x"
  shows "scan_from pre key dup post i seen xs = None \<longleftrightarrow>
    (\<forall>x \<in> set xs. P x \<and> Q x) \<and> distinct (map key xs) \<and> key ` set xs \<inter> set seen = {}"
proof (induction xs arbitrary: i seen)
  case (Cons x xs)
  then show ?case using assms(1) [of i x] assms(2) [of i x]
    by (cases "pre i x"; cases "post i x") auto
qed simp

lemma scan_unique_None:
  assumes "\<And>i x. pre i x = None \<longleftrightarrow> P x" and "\<And>i x. post i x = None \<longleftrightarrow> Q x"
  shows "scan_unique pre key dup post xs = None \<longleftrightarrow>
    (\<forall>x \<in> set xs. P x \<and> Q x) \<and> distinct (map key xs)"
  unfolding scan_unique_def by (simp add: scan_from_None [OF assms])

definition no_check :: "nat \<Rightarrow> 'a \<Rightarrow> go_error option" where
  "no_check i x = None"

lemma no_check_None [check_simps, simp]: "no_check i x = None"
  by (simp add: no_check_def)

section \<open>Values and errors\<close>

fun res_bind :: "go_error + 'a \<Rightarrow> ('a \<Rightarrow> go_error + 'b) \<Rightarrow> go_error + 'b" where
  "res_bind (Inl e) f = Inl e"
| "res_bind (Inr x) f = f x"

definition check_then :: "go_error option \<Rightarrow> (go_error + 'a) \<Rightarrow> go_error + 'a" where
  "check_then c r = (case c of Some e \<Rightarrow> Inl e | None \<Rightarrow> r)"

lemma res_bind_Inr [simp]:
  "res_bind r f = Inr y \<longleftrightarrow> (\<exists>x. r = Inr x \<and> f x = Inr y)"
  by (cases r) auto

lemma check_then_Inr [simp]: "check_then c r = Inr y \<longleftrightarrow> c = None \<and> r = Inr y"
  by (auto simp: check_then_def split: option.splits)

fun map_res :: "('a \<Rightarrow> go_error + 'b) \<Rightarrow> 'a list \<Rightarrow> go_error + 'b list" where
  "map_res f [] = Inr []"
| "map_res f (x # xs) = res_bind (f x) (\<lambda>y. res_bind (map_res f xs) (\<lambda>ys. Inr (y # ys)))"

lemma map_res_Inr: "map_res f xs = Inr ys \<longleftrightarrow> list_all2 (\<lambda>x y. f x = Inr y) xs ys"
  by (induction xs arbitrary: ys) (auto simp: list_all2_Cons1)

end
