(* ===== verification/GoStd.thy ===== *)
theory GoStd
  imports Prelude
begin

text \<open>
  The parts of Go's standard library the modelled code calls: \<open>strings.TrimSpace\<close>,
  \<open>strings.Contains\<close>, \<open>strings.ToLower\<close>, \<open>strings.Join\<close>, \<open>sort.Strings\<close>,
  \<open>strconv.Itoa\<close> and the \<open>%d\<close>, \<open>%02d\<close>, \<open>%t\<close> verbs of \<open>fmt.Sprintf\<close>,
  instants of \<open>time.Time\<close> and the date layout \<open>2006-01-02\<close>, and comparisons of
  \<open>float64\<close> values.
\<close>

section \<open>strings.TrimSpace\<close>

text \<open>
  The UTF-8 encodings of the runes of \<open>unicode.IsSpace\<close>. Each starts with a byte that
  starts a rune, so a string ends in one of these runes exactly if it ends in its bytes.
\<close>

definition space_runes :: "string list" where
  "space_runes =
     [[CHR 0x20], [CHR 0x09], [CHR 0x0A], [CHR 0x0B], [CHR 0x0C], [CHR 0x0D],
      [CHR 0xC2, CHR 0x85], [CHR 0xC2, CHR 0xA0], [CHR 0xE1, CHR 0x9A, CHR 0x80],
      [CHR 0xE2, CHR 0x80, CHR 0x80], [CHR 0xE2, CHR 0x80, CHR 0x81],
      [CHR 0xE2, CHR 0x80, CHR 0x82], [CHR 0xE2, CHR 0x80, CHR 0x83],
      [CHR 0xE2, CHR 0x80, CHR 0x84], [CHR 0xE2, CHR 0x80, CHR 0x85],
      [CHR 0xE2, CHR 0x80, CHR 0x86], [CHR 0xE2, CHR 0x80, CHR 0x87],
      [CHR 0xE2, CHR 0x80, CHR 0x88], [CHR 0xE2, CHR 0x80, CHR 0x89],
      [CHR 0xE2, CHR 0x80, CHR 0x8A], [CHR 0xE2, CHR 0x80, CHR 0xA8],
      [CHR 0xE2, CHR 0x80, CHR 0xA9], [CHR 0xE2, CHR 0x80, CHR 0xAF],
      [CHR 0xE2, CHR 0x81, CHR 0x9F], [CHR 0xE3, CHR 0x80, CHR 0x80]]"

definition starts_with :: "string \<Rightarrow> string \<Rightarrow> bool" where
  "starts_with s p \<longleftrightarrow> take (length p) s = p"

lemma starts_with_code [code]:
  "starts_with s [] = True"
  "starts_with [] (c # p) = False"
  "starts_with (d # s) (c # p) = (d = c \<and> starts_with s p)"
  by (auto simp: starts_with_def)

lemma starts_with_iff: "starts_with s p \<longleftrightarrow> (\<exists>r. s = p @ r)"
  unfolding starts_with_def by (metis append_eq_conv_conj append_take_drop_id)

function strip_any :: "string list \<Rightarrow> string \<Rightarrow> string" where
  "strip_any ps s =
     (case find (\<lambda>p. p \<noteq> [] \<and> starts_with s p) ps of
        None \<Rightarrow> s
      | Some p \<Rightarrow> strip_any ps (drop (length p) s))"
  by pat_completeness auto
termination
proof (relation "measure (\<lambda>(ps, s). length s)")
  fix ps s p
  assume "find (\<lambda>p. p \<noteq> [] \<and> starts_with s p) ps = Some (p :: string)"
  then have "p \<noteq> []" and "take (length p) s = p"
    by (auto simp: find_Some_iff starts_with_def)
  then have "s \<noteq> []" by auto
  with \<open>p \<noteq> []\<close> show "((ps, drop (length p) s), ps, s) \<in> measure (\<lambda>(ps, s). length s)"
    by simp
qed simp

declare strip_any.simps [simp del]

definition trim_left :: "string \<Rightarrow> string" where
  "trim_left s = strip_any space_runes s"

definition trim_right :: "string \<Rightarrow> string" where
  "trim_right s = rev (strip_any (map rev space_runes) (rev s))"

definition trim_space :: "string \<Rightarrow> string" where
  "trim_space s = trim_right (trim_left s)"

abbreviation blank :: "string \<Rightarrow> bool" where
  "blank s \<equiv> trim_space s = []"

lemma strip_any_suffix: "\<exists>p. s = p @ strip_any ps s"
proof (induction ps s rule: strip_any.induct)
  case (1 ps s)
  show ?case
  proof (cases "find (\<lambda>p. p \<noteq> [] \<and> starts_with s p) ps")
    case None
    then show ?thesis by (simp add: strip_any.simps [of ps s])
  next
    case (Some p)
    then have p: "starts_with s p" by (auto simp: find_Some_iff)
    from "1.IH" [OF Some] obtain q where "drop (length p) s = q @ strip_any ps (drop (length p) s)"
      by blast
    moreover have "s = p @ drop (length p) s"
      using p by (metis append_take_drop_id starts_with_def)
    ultimately have "s = (p @ q) @ strip_any ps (drop (length p) s)" by simp
    with Some show ?thesis
      by (simp add: strip_any.simps [of ps s]) (metis append.assoc)
  qed
qed

lemma strip_any_Nil [simp]: "strip_any ps [] = []"
  using strip_any_suffix [of "[]" ps] by simp

lemma trim_space_Nil [simp]: "trim_space [] = []"
  by (simp add: trim_space_def trim_left_def trim_right_def)

lemma not_blank_not_Nil: "\<not> blank s \<Longrightarrow> s \<noteq> []"
  by auto

text \<open>A string that starts with a byte no space rune starts with is not blank.\<close>

lemma strip_any_keeps_last:
  assumes "\<forall>p \<in> set ps. p = [] \<or> hd p \<noteq> c"
  shows "strip_any (map rev ps) (t @ [c]) \<noteq> []"
proof (induction "length t" arbitrary: t rule: less_induct)
  case less
  show ?case
  proof (cases "find (\<lambda>p. p \<noteq> [] \<and> starts_with (t @ [c]) p) (map rev ps)")
    case None
    then show ?thesis by (simp add: strip_any.simps [of "map rev ps" "t @ [c]"])
  next
    case (Some q)
    then have q: "q \<in> set (map rev ps)" "q \<noteq> []" "take (length q) (t @ [c]) = q"
      by (auto simp: find_Some_iff starts_with_def)
    have "length q \<le> length t"
    proof (rule ccontr)
      assume "\<not> length q \<le> length t"
      with q(3) have "q = t @ [c]" by simp
      with q(1) obtain p where p: "p \<in> set ps" "rev p = t @ [c]" by auto
      then have "p = c # rev t" by (metis rev_rev_ident rev_append rev_singleton_conv append_Cons append_Nil)
      with assms p(1) show False by auto
    qed
    then have "drop (length q) (t @ [c]) = drop (length q) t @ [c]" by simp
    moreover have "length (drop (length q) t) < length t"
      using q(2) \<open>length q \<le> length t\<close> by (cases q) auto
    ultimately show ?thesis
      using less [of "drop (length q) t"] Some by (simp add: strip_any.simps [of "map rev ps" "t @ [c]"])
  qed
qed

lemma not_blank_Cons:
  assumes "list_all (\<lambda>p. hd p \<noteq> c) space_runes"
  shows "\<not> blank (c # s)"
proof -
  have none: "find (\<lambda>p. p \<noteq> [] \<and> starts_with (c # s) p) space_runes = None"
    using assms by (auto simp: find_None_iff list_all_iff starts_with_iff Cons_eq_append_conv)
  have "strip_any space_runes (c # s) = c # s"
    by (subst strip_any.simps) (simp add: none)
  moreover have "strip_any (map rev space_runes) (rev s @ [c]) \<noteq> []"
    using assms by (intro strip_any_keeps_last) (auto simp: list_all_iff)
  ultimately show ?thesis by (simp add: trim_space_def trim_left_def trim_right_def)
qed

section \<open>Substrings, case and joining\<close>

fun str_contains :: "string \<Rightarrow> string \<Rightarrow> bool" where
  "str_contains [] t = (t = [])"
| "str_contains (c # s) t = (starts_with (c # s) t \<or> str_contains s t)"

lemma str_contains_iff: "str_contains s t \<longleftrightarrow> (\<exists>p r. s = p @ t @ r)"
proof (induction s)
  case (Cons c s)
  have "(\<exists>p r. c # s = p @ t @ r) \<longleftrightarrow> (\<exists>r. c # s = t @ r) \<or> (\<exists>p r. s = p @ t @ r)"
    by (metis append_Cons append_eq_Cons_conv append_Nil)
  with Cons show ?case by (simp add: starts_with_iff)
qed auto

text \<open>
  \<open>strings.ToLower\<close> as far as a search for an ASCII term can tell: ASCII letters are
  lowered, the two non-ASCII runes whose lower case is ASCII (U+0130 to \<open>i\<close>, U+212A to
  \<open>k\<close>) are mapped, and every other byte of a non-ASCII rune stays a non-ASCII byte.
\<close>

fun to_lower :: "string \<Rightarrow> string" where
  "to_lower [] = []"
| "to_lower (c # s) =
     (if starts_with (c # s) [CHR 0xC4, CHR 0xB0] then CHR ''i'' # to_lower (drop 1 s)
      else if starts_with (c # s) [CHR 0xE2, CHR 0x84, CHR 0xAA] then CHR ''k'' # to_lower (drop 2 s)
      else if CHR ''A'' \<le> c \<and> c \<le> CHR ''Z'' then char_of (of_char c + 32 :: nat) # to_lower s
      else c # to_lower s)"

fun join :: "string \<Rightarrow> string list \<Rightarrow> string" where
  "join sep [] = []"
| "join sep [x] = x"
| "join sep (x # y # xs) = x @ sep @ join sep (y # xs)"

section \<open>Decimal numbers\<close>

fun dec_nat :: "nat \<Rightarrow> string" where
  "dec_nat n = (if n < 10 then [char_of (48 + n)] else dec_nat (n div 10) @ [char_of (48 + n mod 10)])"

declare dec_nat.simps [simp del]

definition itoa :: "int \<Rightarrow> string" where
  "itoa i = (if i < 0 then CHR ''-'' # dec_nat (nat (- i)) else dec_nat (nat i))"

definition pad_zero :: "nat \<Rightarrow> string \<Rightarrow> string" where
  "pad_zero w s = replicate (w - length s) (CHR ''0'') @ s"

definition fmt_02d :: "nat \<Rightarrow> string" where
  "fmt_02d n = pad_zero 2 (dec_nat n)"

definition fmt_bool :: "bool \<Rightarrow> string" where
  "fmt_bool b = (if b then ''true'' else ''false'')"

definition dec_value :: "string \<Rightarrow> nat" where
  "dec_value s = foldl (\<lambda>a c. 10 * a + (of_char c - 48)) 0 s"

lemma dec_value_dec_nat: "dec_value (dec_nat n) = n"
proof (induction n rule: dec_nat.induct)
  case (1 n)
  show ?case
  proof (cases "n < 10")
    case True
    then show ?thesis by (subst dec_nat.simps) (simp add: dec_value_def)
  next
    case False
    with "1.IH" have "dec_value (dec_nat (n div 10)) = n div 10" by simp
    with False show ?thesis
      by (subst dec_nat.simps) (simp add: dec_value_def)
  qed
qed

lemma dec_nat_inject: "dec_nat m = dec_nat n \<longleftrightarrow> m = n"
  by (metis dec_value_dec_nat)

lemma dec_value_pad_zero: "dec_value (pad_zero w s) = dec_value s"
proof -
  have "foldl (\<lambda>a c. 10 * a + (of_char c - 48)) 0 (replicate k (CHR ''0'')) = (0 :: nat)" for k
    by (induction k) simp_all
  then show ?thesis by (simp add: dec_value_def pad_zero_def)
qed

lemma fmt_02d_inject [simp]: "fmt_02d m = fmt_02d n \<longleftrightarrow> m = n"
  by (metis dec_value_dec_nat dec_value_pad_zero fmt_02d_def)

section \<open>Lists as the code uses slices and maps\<close>

text \<open>The \<open>appendUnique\<close> helper, copied in several packages of the source.\<close>

definition append_unique :: "'a list \<Rightarrow> 'a \<Rightarrow> 'a list" where
  "append_unique xs x = (if x \<in> set xs then xs else xs @ [x])"

lemma set_append_unique [simp]: "set (append_unique xs x) = insert x (set xs)"
  by (auto simp: append_unique_def)

lemma distinct_append_unique [simp]: "distinct (append_unique xs x) = distinct xs"
  by (auto simp: append_unique_def)

lemma foldl_append_unique:
  "set (foldl append_unique xs ys) = set xs \<union> set ys"
  "distinct xs \<Longrightarrow> distinct (foldl append_unique xs ys)"
  by (induction ys arbitrary: xs) auto

lemma append_unique_prefix: "\<exists>zs. append_unique xs x = xs @ zs"
  by (auto simp: append_unique_def)

text \<open>
  A Go map filled by \<open>m[key(x)] = x\<close> over a slice: the last element with a key wins.
\<close>

definition index_by :: "('a \<Rightarrow> 'k) \<Rightarrow> 'a list \<Rightarrow> 'k \<Rightarrow> 'a option" where
  "index_by key xs k = find (\<lambda>x. key x = k) (rev xs)"

lemma index_by_Some: "index_by key xs k = Some x \<Longrightarrow> x \<in> set xs \<and> key x = k"
  by (auto simp: index_by_def find_Some_iff) (metis nth_mem set_rev length_rev)

lemma index_by_None: "index_by key xs k = None \<longleftrightarrow> k \<notin> key ` set xs"
  by (auto simp: index_by_def find_None_iff)

lemma index_by_distinct:
  assumes "distinct (map key xs)" and "x \<in> set xs"
  shows "index_by key xs (key x) = Some x"
proof -
  obtain y where y: "index_by key xs (key x) = Some y"
    using assms(2) by (cases "index_by key xs (key x)") (auto simp: index_by_None)
  then have "y \<in> set xs \<and> key y = key x" by (rule index_by_Some)
  with assms have "y = x" by (metis distinct_map inj_onD)
  with y show ?thesis by simp
qed

section \<open>Time\<close>

text \<open>
  An instant is the number of nanoseconds since January 1 of year 1, 00:00 UTC, which is
  Go's zero \<open>time.Time\<close>. \<open>Before\<close>, \<open>After\<close> and \<open>Equal\<close> compare instants.
\<close>

type_synonym gotime = int

abbreviation is_zero_time :: "gotime \<Rightarrow> bool" where
  "is_zero_time t \<equiv> t = 0"

abbreviation (input) time_after :: "gotime \<Rightarrow> gotime \<Rightarrow> bool" where
  "time_after t u \<equiv> u < t"

abbreviation (input) time_before :: "gotime \<Rightarrow> gotime \<Rightarrow> bool" where
  "time_before t u \<equiv> t < u"

definition unix_epoch :: gotime where
  "unix_epoch = 62135596800 * 1000000000"

text \<open>\<open>UnixNano\<close> is an \<open>int64\<close>: it wraps for instants far from 1970.\<close>

definition unix_nano :: "gotime \<Rightarrow> int" where
  "unix_nano t = (t - unix_epoch + 2 ^ 63) mod 2 ^ 64 - 2 ^ 63"

text \<open>Year, month and day of an instant in the proleptic Gregorian calendar.\<close>

definition civil_date :: "gotime \<Rightarrow> int \<times> int \<times> int" where
  "civil_date t =
     (let z = t div 86400000000000 + 306;
          era = z div 146097;
          doe = z mod 146097;
          yoe = (doe - doe div 1460 + doe div 36524 - doe div 146096) div 365;
          doy = doe - (365 * yoe + yoe div 4 - yoe div 100);
          mp = (5 * doy + 2) div 153;
          d = doy - (153 * mp + 2) div 5 + 1;
          m = (if mp < 10 then mp + 3 else mp - 9);
          y = yoe + era * 400
      in (if m \<le> 2 then y + 1 else y, m, d))"

definition date_only :: "gotime \<Rightarrow> string" where
  "date_only t =
     (case civil_date t of (y, m, d) \<Rightarrow>
        (if y < 0 then ''-'' @ pad_zero 4 (dec_nat (nat (- y))) else pad_zero 4 (dec_nat (nat y)))
        @ ''-'' @ fmt_02d (nat m) @ ''-'' @ fmt_02d (nat d))"

lemma date_only_epoch: "date_only unix_epoch = ''1970-01-01''"
  by code_simp

lemma date_only_zero: "date_only 0 = ''0001-01-01''"
  by code_simp

lemma date_only_leap: "date_only (unix_epoch + 951782400 * 1000000000) = ''2000-02-29''"
  by code_simp

lemma unix_nano_in_range:
  "- (2 ^ 63) \<le> unix_nano t \<and> unix_nano t < 2 ^ 63"
  by (simp add: unix_nano_def)

section \<open>float64 comparisons\<close>

text \<open>
  A \<open>float64\<close> that is only stored and compared: a finite value is a rational number, and
  every comparison with NaN is false.
\<close>

datatype float64 = Finite rat | PosInf | NegInf | NaN

fun float_lt :: "float64 \<Rightarrow> float64 \<Rightarrow> bool" where
  "float_lt (Finite x) (Finite y) = (x < y)"
| "float_lt (Finite x) PosInf = True"
| "float_lt NegInf (Finite y) = True"
| "float_lt NegInf PosInf = True"
| "float_lt _ _ = False"

end
