(* ===== verification/Roles.thy ===== *)
theory Roles
  imports GoStd
begin

text \<open>
  Package \<open>internal/roles\<close>: the role definitions, their registry (\<open>registry.go\<close>) and
  which roles consume an investor-relations document (\<open>ir_policy.go\<close>). A registry is the
  list of its entries, looked up by identifier; the locale \<open>keyed_registry\<close> states what
  the clients of a registry rely on and is interpreted here for roles and in \<open>Capability\<close>
  for operations. \<open>Get\<close> copies the slices of an entry (\<open>cloneRole\<close>), which is the
  identity on values.
\<close>

section \<open>The registry interface\<close>

locale keyed_registry =
  fixes key :: "'a \<Rightarrow> string"
    and accept :: "'a \<Rightarrow> bool"
    and build :: "'a list \<Rightarrow> go_error + 'a list"
    and get :: "'a list \<Rightarrow> string \<Rightarrow> 'a option"
    and listed :: "'a list \<Rightarrow> 'a list"
  assumes build_Inr: "build xs = Inr r \<longleftrightarrow> (\<forall>x \<in> set xs. accept x) \<and> distinct (map key xs) \<and> r = xs"
    and get_index: "get r k = index_by key r k"
    and listed_def: "distinct (map key r) \<Longrightarrow> listed r = sort_key key r"
begin

lemma get_registered:
  "build xs = Inr r \<Longrightarrow> x \<in> set xs \<Longrightarrow> get r (key x) = Some x"
  using index_by_distinct [of key xs x] by (auto simp: build_Inr get_index)

lemma get_accepted:
  "build xs = Inr r \<Longrightarrow> get r k = Some x \<Longrightarrow> accept x \<and> key x = k \<and> x \<in> set xs"
  using index_by_Some [of key xs k x] by (auto simp: build_Inr get_index)

lemma get_unknown: "build xs = Inr r \<Longrightarrow> get r k = None \<longleftrightarrow> k \<notin> key ` set xs"
  by (auto simp: build_Inr get_index index_by_None)

lemma listed_sorted:
  assumes "build xs = Inr r"
  shows "sorted (map key (listed r)) \<and> set (listed r) = set xs \<and> distinct (map key (listed r))"
proof -
  have "distinct (map key xs)" and "r = xs" using assms by (auto simp: build_Inr)
  then have "inj_on key (set xs)" and "distinct xs" by (simp_all add: distinct_map)
  with \<open>r = xs\<close> \<open>distinct (map key xs)\<close> show ?thesis
    by (simp add: listed_def distinct_map)
qed

end

section \<open>Roles\<close>

abbreviation RequestInterpreter :: string where "RequestInterpreter \<equiv> ''request-interpreter/v1''"
abbreviation ResearchOrchestrator :: string where "ResearchOrchestrator \<equiv> ''research-orchestrator/v1''"
abbreviation BusinessStrategy :: string where "BusinessStrategy \<equiv> ''business-strategy/v1''"
abbreviation AccountingReporting :: string where "AccountingReporting \<equiv> ''accounting-reporting/v1''"
abbreviation FinancialQuality :: string where "FinancialQuality \<equiv> ''financial-quality/v1''"
abbreviation EconomicsTransmission :: string where "EconomicsTransmission \<equiv> ''economics-transmission/v1''"
abbreviation ValuationRole :: string where "ValuationRole \<equiv> ''valuation/v1''"
abbreviation MarketBehavior :: string where "MarketBehavior \<equiv> ''market-behavior/v1''"
abbreviation RiskContrarian :: string where "RiskContrarian \<equiv> ''risk-contrarian/v1''"
abbreviation EvidenceCritic :: string where "EvidenceCritic \<equiv> ''evidence-critic/v1''"
abbreviation FinalResearchAnalyst :: string where "FinalResearchAnalyst \<equiv> ''final-research-analyst/v1''"

abbreviation ClassControl :: string where "ClassControl \<equiv> ''control''"
abbreviation ClassContext :: string where "ClassContext \<equiv> ''context''"
abbreviation ClassReview :: string where "ClassReview \<equiv> ''review''"
abbreviation ClassSynthesis :: string where "ClassSynthesis \<equiv> ''synthesis''"

record ArtifactPermission =
  ap_request :: "string list"
  ap_produce :: "string list"
  ap_validate :: "string list"
  ap_repair :: "string list"
  ap_release :: "string list"
  ap_remember :: "string list"

record Role =
  rl_role_id :: string
  rl_class :: string
  rl_mission :: string
  rl_triggers :: "string list"
  rl_anti_triggers :: "string list"
  rl_allowed_tools :: "string list"
  rl_evidence_classes :: "string list"
  rl_context_budget_tokens :: int
  rl_timeout_ms :: int
  rl_max_retries :: int
  rl_output_artifact :: string
  rl_permissions :: ArtifactPermission

definition validateRole :: "Role \<Rightarrow> go_error option" where
  "validateRole role = first_err
     [fail_if (rl_role_id role = [] \<or> rl_mission role = [] \<or> rl_output_artifact role = [])
        (ErrorsNew ''role_id, mission, and output_artifact are required''),
      fail_if (rl_class role \<notin> {ClassControl, ClassContext, ClassReview, ClassSynthesis})
        (Errorf ''invalid class %q'' [FStr (rl_class role)]),
      fail_if (rl_triggers role = [] \<or> rl_anti_triggers role = [])
        (ErrorsNew ''triggers and anti_triggers are required''),
      fail_if (rl_context_budget_tokens role \<le> 0 \<or> rl_timeout_ms role \<le> 0 \<or>
          rl_max_retries role < 0 \<or> rl_max_retries role > 1)
        (ErrorsNew ''invalid context, timeout, or retry budget'')]"

type_synonym RoleRegistry = "Role list"

fun register_roles :: "RoleRegistry \<Rightarrow> Role list \<Rightarrow> go_error + RoleRegistry" where
  "register_roles registry [] = Inr registry"
| "register_roles registry (role # definitions) =
     (case wrap_err ''role %q: %w'' [FStr (rl_role_id role)] (validateRole role) of
        Some e \<Rightarrow> Inl e
      | None \<Rightarrow>
          if rl_role_id role \<in> rl_role_id ` set registry then
            Inl (Errorf ''duplicate role %q'' [FStr (rl_role_id role)])
          else register_roles (registry @ [role]) definitions)"

definition NewRoleRegistry :: "Role list \<Rightarrow> go_error + RoleRegistry" where
  "NewRoleRegistry definitions = register_roles [] definitions"

definition GetRole :: "RoleRegistry \<Rightarrow> string \<Rightarrow> Role option" where
  "GetRole registry roleID = index_by rl_role_id registry roleID"

definition ListRoles :: "RoleRegistry \<Rightarrow> Role list" where
  "ListRoles registry = concat (map (\<lambda>id. case GetRole registry id of Some role \<Rightarrow> [role] | None \<Rightarrow> [])
     (sort (map rl_role_id registry)))"

lemma register_roles_Inr:
  "register_roles reg defs = Inr r \<longleftrightarrow> (\<forall>x \<in> set defs. validateRole x = None) \<and>
     distinct (map rl_role_id defs) \<and> rl_role_id ` set defs \<inter> rl_role_id ` set reg = {} \<and> r = reg @ defs"
proof (induction defs arbitrary: reg)
  case (Cons x defs)
  show ?case
  proof (cases "validateRole x")
    case None
    then show ?thesis by (auto simp: Cons.IH wrap_err_def)
  qed (simp add: wrap_err_def)
qed auto

lemma listed_by_sorted_keys:
  assumes "distinct (map key r)"
  shows "concat (map (\<lambda>k. case index_by key r k of Some x \<Rightarrow> [x] | None \<Rightarrow> []) (sort (map key r)))
    = sort_key key r"
proof -
  have "sort (map key r) = map key (sort_key key r)"
    using assms by (intro sorted_distinct_set_unique) (simp_all add: distinct_map)
  moreover have "concat (map (\<lambda>k. case index_by key r k of Some x \<Rightarrow> [x] | None \<Rightarrow> []) (map key xs)) = xs"
    if "set xs \<subseteq> set r" for xs
    using that
  proof (induction xs)
    case (Cons x xs)
    then show ?case using index_by_distinct [OF assms, of x] by simp
  qed simp
  ultimately show ?thesis by simp
qed

interpretation role_registry: keyed_registry rl_role_id "\<lambda>x. validateRole x = None"
  NewRoleRegistry GetRole ListRoles
proof
  show "NewRoleRegistry xs = Inr r \<longleftrightarrow>
      (\<forall>x \<in> set xs. validateRole x = None) \<and> distinct (map rl_role_id xs) \<and> r = xs" for xs r
    by (auto simp: NewRoleRegistry_def register_roles_Inr)
  show "GetRole r k = index_by rl_role_id r k" for r k
    by (simp add: GetRole_def)
  show "ListRoles r = sort_key rl_role_id r" if "distinct (map rl_role_id r)" for r
    using listed_by_sorted_keys [OF that] by (simp add: ListRoles_def GetRole_def)
qed

section \<open>The default roles\<close>

abbreviation primary_evidence :: "string list" where
  "primary_evidence \<equiv> [''sec_filing'', ''sec_xbrl'', ''official_investor_relations'', ''official_macro'',
     ''licensed_market'', ''calculation_receipt'']"

abbreviation no_permissions :: ArtifactPermission where
  "no_permissions \<equiv> \<lparr>ap_request = [], ap_produce = [], ap_validate = [], ap_repair = [],
     ap_release = [], ap_remember = []\<rparr>"

definition context_role :: "string \<Rightarrow> string \<Rightarrow> string list \<Rightarrow> string list \<Rightarrow> string list \<Rightarrow> Role" where
  "context_role roleID mission triggers anti tools =
     \<lparr>rl_role_id = roleID, rl_class = ClassContext, rl_mission = mission, rl_triggers = triggers,
      rl_anti_triggers = anti, rl_allowed_tools = tools, rl_evidence_classes = primary_evidence,
      rl_context_budget_tokens = 5000, rl_timeout_ms = 30000, rl_max_retries = 1,
      rl_output_artifact = ''ContextPacket'',
      rl_permissions = no_permissions\<lparr>ap_request := [''EvidenceBundle'', ''ToolReceipt''],
        ap_produce := [''ContextPacket''], ap_repair := [''ContextPacket'']\<rparr>\<rparr>"

definition defaultRoles :: "Role list" where
  "defaultRoles =
     [\<lparr>rl_role_id = RequestInterpreter, rl_class = ClassControl,
        rl_mission = ''Convert user language into a bounded typed research request without answering it.'',
        rl_triggers = [''new_user_request'', ''clarified_request''],
        rl_anti_triggers = [''evidence_synthesis'', ''calculation''],
        rl_allowed_tools = [], rl_evidence_classes = [],
        rl_context_budget_tokens = 2500, rl_timeout_ms = 15000, rl_max_retries = 1,
        rl_output_artifact = ''ResearchRequest'',
        rl_permissions = no_permissions\<lparr>ap_produce := [''ResearchRequest''],
          ap_repair := [''ResearchRequest'']\<rparr>\<rparr>,
      \<lparr>rl_role_id = ResearchOrchestrator, rl_class = ClassControl,
        rl_mission = ''Transform an approved request into a bounded dependency-aware research plan.'',
        rl_triggers = [''valid_research_request'', ''bounded_repair''],
        rl_anti_triggers = [''final_answer'', ''authoritative_calculation''],
        rl_allowed_tools = [''capability.registry.read'', ''role.registry.read''], rl_evidence_classes = primary_evidence,
        rl_context_budget_tokens = 3500, rl_timeout_ms = 20000, rl_max_retries = 1,
        rl_output_artifact = ''ResearchPlan'',
        rl_permissions = no_permissions\<lparr>ap_request := [''ResearchRequest''],
          ap_produce := [''ResearchPlan'', ''ContextRequest''],
          ap_repair := [''ResearchPlan'']\<rparr>\<rparr>,
      context_role BusinessStrategy
        ''Explain the business and convert strategy narratives into testable claims.''
        [''business_model'', ''segments'', ''competition'', ''company_history'']
        [''accounting_measurement'', ''market_only'']
        [''evidence.retrieve''],
      context_role AccountingReporting
        ''Interpret reported figures, policy, presentation, and comparability boundaries.''
        [''accounting_policy'', ''non_gaap'', ''comparability'', ''filing_disclosure'']
        [''price_prediction'', ''portfolio_allocation'']
        [''evidence.retrieve'', ''engine.execute''],
      context_role FinancialQuality
        ''Interpret verified growth, cash generation, reinvestment, returns, leverage, and dilution.''
        [''financial_quality'', ''margins'', ''cash_flow'', ''returns'']
        [''unsupported_accounting_opinion'', ''price_prediction'']
        [''evidence.retrieve'', ''engine.execute''],
      context_role EconomicsTransmission
        ''Explain mechanisms connecting economic variables to operations and valuation.''
        [''rates'', ''inflation'', ''currency'', ''demand_regime'']
        [''correlation_as_causation'', ''technical_price_only'']
        [''evidence.retrieve'', ''macro.read'', ''engine.execute''],
      context_role ValuationRole
        ''Select valuation methods and explain explicit assumptions, sensitivities, and reverse expectations.''
        [''valuation'', ''dcf'', ''multiples'', ''implied_expectations'']
        [''personalized_advice'', ''calculation_in_prose'']
        [''evidence.retrieve'', ''engine.execute'', ''market.read''],
      context_role MarketBehavior
        ''Interpret price behavior and sensitivity without inventing business causality.''
        [''price'', ''return'', ''volatility'', ''drawdown'', ''beta'']
        [''pure_accounting'', ''business_model_only'']
        [''market.read'', ''engine.execute''],
      \<lparr>rl_role_id = RiskContrarian, rl_class = ClassReview,
        rl_mission = ''Challenge the research thesis with disconfirming evidence and alternative explanations.'',
        rl_triggers = [''material_research_decision'', ''compiled_context''],
        rl_anti_triggers = [''schema_only_validation'', ''calculation_execution''],
        rl_allowed_tools = [''evidence.retrieve''], rl_evidence_classes = primary_evidence,
        rl_context_budget_tokens = 4000, rl_timeout_ms = 25000, rl_max_retries = 1,
        rl_output_artifact = ''CritiqueReport'',
        rl_permissions = no_permissions\<lparr>ap_request := [''ContextPacket'', ''EvidenceBundle''],
          ap_produce := [''CritiqueReport'']\<rparr>\<rparr>,
      \<lparr>rl_role_id = EvidenceCritic, rl_class = ClassReview,
        rl_mission = ''Approve, narrow, repair, or reject claims against evidence, receipts, and policy.'',
        rl_triggers = [''compiled_context'', ''repair_result''],
        rl_anti_triggers = [''investment_thesis_ownership'', ''new_calculation''],
        rl_allowed_tools = [''evidence.resolve'', ''receipt.replay''], rl_evidence_classes = primary_evidence,
        rl_context_budget_tokens = 4000, rl_timeout_ms = 25000, rl_max_retries = 1,
        rl_output_artifact = ''CritiqueReport'',
        rl_permissions = no_permissions\<lparr>ap_request := [''ContextPacket'', ''ToolReceipt'', ''EvidenceBundle''],
          ap_produce := [''CritiqueReport''],
          ap_validate := [''ContextPacket'', ''FinalAnswer'']\<rparr>\<rparr>,
      \<lparr>rl_role_id = FinalResearchAnalyst, rl_class = ClassSynthesis,
        rl_mission = ''Produce the sole normal user-facing answer from approved context and critique artifacts.'',
        rl_triggers = [''approved_context''],
        rl_anti_triggers = [''unapproved_claim'', ''receipt_mutation''],
        rl_allowed_tools = [''evidence.resolve'', ''receipt.read''], rl_evidence_classes = primary_evidence,
        rl_context_budget_tokens = 7000, rl_timeout_ms = 30000, rl_max_retries = 1,
        rl_output_artifact = ''FinalAnswer'',
        rl_permissions = no_permissions\<lparr>ap_request := [''ContextPacket'', ''CritiqueReport'', ''ToolReceipt''],
          ap_produce := [''FinalAnswer'', ''MemoryCandidate''],
          ap_repair := [''FinalAnswer''],
          ap_release := [''FinalAnswer''],
          ap_remember := [''MemoryCandidate'']\<rparr>\<rparr>]"

lemma NewRoleRegistry_default: "NewRoleRegistry defaultRoles = Inr defaultRoles"
  by code_simp

text \<open>\<open>DefaultRegistry\<close> panics if the definitions are refused; \<open>NewRoleRegistry_default\<close>
  shows that they are not.\<close>

definition DefaultRegistry :: "go_error + RoleRegistry" where
  "DefaultRegistry = (case NewRoleRegistry defaultRoles of
     Inl e \<Rightarrow> Inl (Panic ''default roles'') | Inr registry \<Rightarrow> Inr registry)"

lemma DefaultRegistry_eq: "DefaultRegistry = Inr defaultRoles"
  by (simp add: DefaultRegistry_def NewRoleRegistry_default)

section \<open>Consumers of investor-relations documents (ir_policy.go)\<close>

definition IRConsumerRoles :: "string \<Rightarrow> string list" where
  "IRConsumerRoles documentType =
     (if documentType \<in> {''corporate_profile_and_history'', ''business_products_and_segments'',
           ''official_strategy_or_risk_update''} then
        [BusinessStrategy, RiskContrarian] @ [EvidenceCritic]
      else if documentType \<in> {''earnings_release'', ''prepared_remarks'', ''official_earnings_transcript''} then
        [AccountingReporting, FinancialQuality, RiskContrarian] @ [EvidenceCritic]
      else if documentType \<in> {''shareholder_letter'', ''investor_presentation'',
           ''investor_day_and_conference_material'', ''guidance_and_outlook'', ''capital_allocation_update''} then
        [BusinessStrategy, FinancialQuality, RiskContrarian] @ [EvidenceCritic]
      else if documentType \<in> {''governance_document'', ''board_and_committee_material'',
           ''annual_meeting_material''} then
        [RiskContrarian] @ [EvidenceCritic]
      else [])"

end
