(* ===== verification/Taxonomy.thy ===== *)
theory Taxonomy
  imports Roles
begin

text \<open>
  Package \<open>internal/taxonomy\<close>: question intents and their definitions
  (\<open>taxonomy.go\<close>), the versioned route policies (\<open>route_policy.go\<close>), the lexical
  interpretation of a question and the routing of a question to roles (\<open>router.go\<close>).
\<close>

section \<open>Intents (taxonomy.go)\<close>

abbreviation IntentCompanyUnderstanding :: string where "IntentCompanyUnderstanding \<equiv> ''company_understanding''"
abbreviation IntentFinancialQuality :: string where "IntentFinancialQuality \<equiv> ''financial_quality''"
abbreviation IntentEconomicTransmission :: string where "IntentEconomicTransmission \<equiv> ''economic_transmission''"
abbreviation IntentValuation :: string where "IntentValuation \<equiv> ''valuation''"
abbreviation IntentCompanyComparison :: string where "IntentCompanyComparison \<equiv> ''company_comparison''"
abbreviation IntentConceptEducation :: string where "IntentConceptEducation \<equiv> ''concept_education''"
abbreviation IntentMarketBehavior :: string where "IntentMarketBehavior \<equiv> ''market_behavior''"
abbreviation IntentThesisReview :: string where "IntentThesisReview \<equiv> ''thesis_review''"

record TaxonomyDefinition =
  df_intent :: string
  df_persona_job :: string
  df_decision :: string
  df_positive_examples :: "string list"
  df_negative_examples :: "string list"

definition taxonomyDefinitions :: "TaxonomyDefinition list" where
  "taxonomyDefinitions =
     [\<lparr>df_intent = IntentCompanyUnderstanding, df_persona_job = ''Understand the business'',
        df_decision = ''Determine whether the business is understandable and merits deeper research.'',
        df_positive_examples = [''What does Microsoft sell?'', ''How does NVIDIA make money?''],
        df_negative_examples = [''What is Microsoft's beta?'', ''Estimate NVIDIA's fair value.'']\<rparr>,
      \<lparr>df_intent = IntentFinancialQuality, df_persona_job = ''Assess financial quality'',
        df_decision = ''Judge growth, margins, cash conversion, reinvestment, returns, leverage, and dilution.'',
        df_positive_examples = [''Why did free cash flow decline?'', ''Are margins and returns durable?''],
        df_negative_examples = [''What products does it sell?'', ''Should I buy it today?'']\<rparr>,
      \<lparr>df_intent = IntentEconomicTransmission, df_persona_job = ''Understand external economic exposure'',
        df_decision = ''Trace an external variable through operations, financing, and valuation without claiming causality from correlation.'',
        df_positive_examples = [''How do higher rates affect Microsoft?'', ''How could a stronger dollar affect NVIDIA?''],
        df_negative_examples = [''Calculate the current gross margin.'', ''Predict tomorrow's share price.'']\<rparr>,
      \<lparr>df_intent = IntentValuation, df_persona_job = ''Estimate a defensible value range'',
        df_decision = ''Estimate a scenario-dependent range and expose assumptions, sensitivity, and implied expectations.'',
        df_positive_examples = [''Build an FCFF valuation range.'', ''What growth does the current price imply?''],
        df_negative_examples = [''Explain deferred revenue.'', ''Tell me exactly when to buy.'']\<rparr>,
      \<lparr>df_intent = IntentCompanyComparison, df_persona_job = ''Compare alternatives'',
        df_decision = ''Compare companies on aligned definitions, periods, quality, resilience, valuation, and risk.'',
        df_positive_examples = [''Compare Microsoft and NVIDIA.'', ''Which has stronger cash conversion?''],
        df_negative_examples = [''Summarize Microsoft's history.'', ''Define operating leverage.'']\<rparr>,
      \<lparr>df_intent = IntentConceptEducation, df_persona_job = ''Learn in context'',
        df_decision = ''Teach accounting, finance, or economics using cited company evidence without turning education into advice.'',
        df_positive_examples = [''Explain stock-based compensation using NVIDIA.'', ''Teach me operating leverage with Microsoft.''],
        df_negative_examples = [''Update my existing thesis.'', ''Calculate a five-year beta.'']\<rparr>,
      \<lparr>df_intent = IntentMarketBehavior, df_persona_job = ''Understand observed market behavior'',
        df_decision = ''Measure returns, volatility, drawdowns, beta, and price sensitivity without inventing business causality.'',
        df_positive_examples = [''Compare their drawdowns.'', ''How sensitive has NVIDIA been to the Nasdaq?''],
        df_negative_examples = [''Explain revenue recognition.'', ''Forecast next quarter's earnings.'']\<rparr>,
      \<lparr>df_intent = IntentThesisReview, df_persona_job = ''Monitor and reassess a thesis'',
        df_decision = ''Challenge a saved thesis against current evidence, disconfirming facts, and explicit invalidation conditions.'',
        df_positive_examples = [''What would invalidate my Microsoft thesis?'', ''Reassess my thesis after the latest filing.''],
        df_negative_examples = [''What does the company sell?'', ''Guarantee that my position will rise.'']\<rparr>]"

text \<open>The map \<open>definitions\<close> has one entry per intent, keyed by the intent.\<close>

definition intentDefinition :: "string \<Rightarrow> TaxonomyDefinition option" where
  "intentDefinition intent = index_by df_intent taxonomyDefinitions intent"

definition Definitions :: "TaxonomyDefinition list" where
  "Definitions = concat (map (\<lambda>intent. case intentDefinition intent of Some d \<Rightarrow> [d] | None \<Rightarrow> [])
     (sort (map df_intent taxonomyDefinitions)))"

definition ValidateIntent :: "string \<Rightarrow> go_error option" where
  "ValidateIntent intent =
     fail_if (intentDefinition intent = None) (Errorf ''unknown intent %q'' [FStr intent])"

definition ValidateAndReturnIntent :: "string \<Rightarrow> go_error + string" where
  "ValidateAndReturnIntent value = check_then (ValidateIntent value) (Inr value)"

section \<open>Route policies (route_policy.go)\<close>

record RoutePolicy =
  rp_policy_id :: string
  rp_version :: string
  rp_context_roles :: "string list"
  rp_selection_code :: string

definition routePolicies :: "(string \<times> RoutePolicy) list" where
  "routePolicies =
     [(IntentCompanyUnderstanding, \<lparr>rp_policy_id = ''route-company-understanding'', rp_version = ''1.0.0'',
        rp_context_roles = [BusinessStrategy], rp_selection_code = ''PLAN_BUSINESS_MINIMAL''\<rparr>),
      (IntentFinancialQuality, \<lparr>rp_policy_id = ''route-financial-quality'', rp_version = ''1.0.0'',
        rp_context_roles = [FinancialQuality, AccountingReporting], rp_selection_code = ''PLAN_FINANCIAL_QUALITY''\<rparr>),
      (IntentEconomicTransmission, \<lparr>rp_policy_id = ''route-economic-transmission'', rp_version = ''1.0.0'',
        rp_context_roles = [EconomicsTransmission, BusinessStrategy], rp_selection_code = ''PLAN_MACRO_TRANSMISSION''\<rparr>),
      (IntentValuation, \<lparr>rp_policy_id = ''route-valuation'', rp_version = ''1.0.0'',
        rp_context_roles = [ValuationRole, FinancialQuality], rp_selection_code = ''PLAN_VALUATION_RECEIPTS''\<rparr>),
      (IntentCompanyComparison, \<lparr>rp_policy_id = ''route-company-comparison'', rp_version = ''1.0.0'',
        rp_context_roles = [BusinessStrategy, FinancialQuality], rp_selection_code = ''PLAN_COMPARISON_CORE''\<rparr>),
      (IntentConceptEducation, \<lparr>rp_policy_id = ''route-concept-education'', rp_version = ''1.0.0'',
        rp_context_roles = [AccountingReporting], rp_selection_code = ''PLAN_EDUCATION_GROUNDED''\<rparr>),
      (IntentMarketBehavior, \<lparr>rp_policy_id = ''route-market-behavior'', rp_version = ''1.0.0'',
        rp_context_roles = [MarketBehavior], rp_selection_code = ''PLAN_MARKET_CONTEXT''\<rparr>),
      (IntentThesisReview, \<lparr>rp_policy_id = ''route-thesis-review'', rp_version = ''1.0.0'',
        rp_context_roles = [BusinessStrategy], rp_selection_code = ''PLAN_THESIS_CHALLENGE''\<rparr>)]"

definition PolicyFor :: "string \<Rightarrow> RoutePolicy option" where
  "PolicyFor intent = map_of routePolicies intent"

section \<open>Routing (router.go)\<close>

record Route =
  ru_primary_intent :: string
  ru_context_roles :: "string list"
  ru_review_roles :: "string list"
  ru_policy_codes :: "string list"
  ru_clarify_first :: bool
  ru_advice_boundary :: bool

definition containsAny :: "string \<Rightarrow> string list \<Rightarrow> bool" where
  "containsAny value terms = list_ex (\<lambda>term. str_contains value term) terms"

definition interpretRules :: "(string \<times> string list) list" where
  "interpretRules =
     [(IntentThesisReview, [''thesis'', ''contrary evidence'', ''invalidate'']),
      (IntentConceptEducation, [''explain stock-based compensation'', ''teach me'', ''what is'']),
      (IntentMarketBehavior, [''drawdown'', ''volatility'', ''nasdaq'', ''share price fell'', ''sensitivity change'']),
      (IntentCompanyComparison, [''compare'', ''comparison'', ''which company'', ''these two companies'']),
      (IntentEconomicTransmission, [''macro'', ''interest rates'', ''inflation'', ''stronger us dollar'', ''economic'']),
      (IntentValuation, [''valuation'', ''value range'', ''current price imply'', ''embedded in'', ''price at which'', ''wacc'', ''terminal growth'']),
      (IntentFinancialQuality, [''revenue growth'', ''operating margin'', ''margin improvement'', ''cash generation'', ''cash-generation'', ''simple fcf'', ''free cash flow'', ''cash conversion'', ''balance-sheet identity'', ''balance sheet identity'', ''earnings quality'', ''capex'', ''reinvestment'', ''dilution'']),
      (IntentCompanyUnderstanding, [''makes money'', ''operating segments'', ''operating risks'', ''what does'', ''business model'', ''recurring revenue'', ''customer concentration'', ''who pays''])]"

definition Interpret :: "string \<Rightarrow> go_error + string" where
  "Interpret question =
     (case find (\<lambda>(intent, terms). containsAny (to_lower question) terms) interpretRules of
        Some (intent, terms) \<Rightarrow> Inr intent
      | None \<Rightarrow> Inl (Errorf ''intent is ambiguous'' []))"

definition MinimalRoute :: "string \<Rightarrow> bool \<Rightarrow> go_error + Route" where
  "MinimalRoute intent materialDecision = check_then (ValidateIntent intent)
     (case PolicyFor intent of
        None \<Rightarrow> Inl (Errorf ''no versioned route policy for %q'' [FStr intent])
      | Some policy \<Rightarrow>
          let risk = materialDecision \<or> intent = IntentThesisReview;
              codes = [rp_selection_code policy];
              codes = (if risk then append_unique codes ''PLAN_RISK_REVIEW'' else codes);
              codes = append_unique codes ''PLAN_EVIDENCE_RELEASE_GATE'';
              codes = append_unique codes ''PLAN_SINGLE_SYNTHESIS''
          in Inr \<lparr>ru_primary_intent = intent, ru_context_roles = rp_context_roles policy,
                  ru_review_roles = (if risk then [RiskContrarian] else []) @ [EvidenceCritic],
                  ru_policy_codes = codes, ru_clarify_first = False, ru_advice_boundary = False\<rparr>)"

text \<open>One conditional refinement of \<open>Plan\<close>: add a role and a policy code.\<close>

definition refine_route :: "bool \<Rightarrow> string \<Rightarrow> string \<Rightarrow> Route \<Rightarrow> Route" where
  "refine_route condition role code route =
     (if condition then route\<lparr>ru_context_roles := append_unique (ru_context_roles route) role,
        ru_policy_codes := append_unique (ru_policy_codes route) code\<rparr>
      else route)"

definition PlanRoute :: "string \<Rightarrow> string \<Rightarrow> bool \<Rightarrow> go_error + Route" where
  "PlanRoute question intent materialDecision = res_bind (MinimalRoute intent materialDecision)
     (\<lambda>result.
       let text = to_lower question;
           comparison = (intent = IntentCompanyComparison);
           result = result\<lparr>
             ru_clarify_first := \<not> containsAny text [''microsoft'', ''nvidia''] \<and>
               containsAny text [''this company'', ''this stock'', ''the share price'', ''my thesis''],
             ru_advice_boundary := containsAny text
               [''guarantee'', ''must buy'', ''tell me to sell'', ''invest all my savings'']\<rparr>;
           result = refine_route (comparison \<and> containsAny text
               [''balance sheet'', ''same fiscal periods'', ''same definitions''])
             AccountingReporting ''PLAN_ACCOUNTING_COMPARABILITY'' result;
           result = refine_route (comparison \<and> containsAny text
               [''higher-for-longer'', ''interest rates'', ''economic''])
             EconomicsTransmission ''PLAN_MACRO_TRANSMISSION'' result;
           result = refine_route (comparison \<and> containsAny text
               [''valuation'', ''market price'', ''market prices'', ''dcf'', ''multiples''])
             ValuationRole ''PLAN_VALUATION_RECEIPTS'' result;
           result = refine_route (comparison \<and> containsAny text
               [''market behavior'', ''share price'', ''market price'', ''market prices''])
             MarketBehavior ''PLAN_MARKET_CONTEXT'' result;
           result = refine_route (comparison \<and> containsAny text
               [''slower ai infrastructure'', ''accounting'', ''reported'', ''fiscal''])
             AccountingReporting ''PLAN_ACCOUNTING_COMPARABILITY'' result;
           result = refine_route (intent = IntentThesisReview \<and> containsAny text
               [''10-q'', ''10-k'', ''reported'', ''filing''])
             AccountingReporting ''PLAN_ACCOUNTING_COMPARABILITY'' result
       in Inr result)"

section \<open>What every route contains\<close>

lemma taxonomy_intents:
  "map df_intent taxonomyDefinitions = [IntentCompanyUnderstanding, IntentFinancialQuality,
     IntentEconomicTransmission, IntentValuation, IntentCompanyComparison, IntentConceptEducation,
     IntentMarketBehavior, IntentThesisReview]"
  by (simp add: taxonomyDefinitions_def)

lemma ValidateIntent_None:
  "ValidateIntent intent = None \<longleftrightarrow> intent \<in> set (map df_intent taxonomyDefinitions)"
  by (simp add: ValidateIntent_def intentDefinition_def index_by_None)

abbreviation contextRoleIDs :: "string list" where
  "contextRoleIDs \<equiv> [BusinessStrategy, AccountingReporting, FinancialQuality, EconomicsTransmission,
     ValuationRole, MarketBehavior]"

definition route_ok :: "Route \<Rightarrow> bool" where
  "route_ok r \<longleftrightarrow> set (ru_context_roles r) \<subseteq> set contextRoleIDs \<and> distinct (ru_context_roles r) \<and>
     ru_context_roles r \<noteq> [] \<and> set (ru_review_roles r) \<subseteq> {RiskContrarian, EvidenceCritic}"

lemma refine_route_ok:
  "route_ok r \<Longrightarrow> role \<in> set contextRoleIDs \<Longrightarrow> route_ok (refine_route c role code r)"
  by (auto simp: refine_route_def route_ok_def append_unique_def)

lemma policies_ok: "list_all (\<lambda>(i, p). set (rp_context_roles p) \<subseteq> set contextRoleIDs \<and>
     distinct (rp_context_roles p) \<and> rp_context_roles p \<noteq> []) routePolicies"
  by code_simp

lemma policy_ok:
  assumes "map_of routePolicies intent = Some p"
  shows "set (rp_context_roles p) \<subseteq> set contextRoleIDs" and "distinct (rp_context_roles p)"
    and "rp_context_roles p \<noteq> []"
  using policies_ok map_of_SomeD [OF assms] unfolding list_all_iff by blast+

lemma MinimalRoute_ok:
  assumes "MinimalRoute intent m = Inr r"
  shows "route_ok r"
proof -
  obtain p where p: "map_of routePolicies intent = Some p"
    and r: "ru_context_roles r = rp_context_roles p"
      "ru_review_roles r = (if m \<or> intent = IntentThesisReview then [RiskContrarian] else []) @ [EvidenceCritic]"
    using assms by (auto simp: MinimalRoute_def PolicyFor_def Let_def split: option.splits)
  have "set (ru_review_roles r) \<subseteq> {RiskContrarian, EvidenceCritic}"
    unfolding r(2) by (simp only: set_append list.set split: if_splits) blast
  then show ?thesis unfolding route_ok_def r(1) by (intro conjI policy_ok [OF p])
qed

lemma MinimalRoute_total:
  assumes "ValidateIntent intent = None"
  shows "\<exists>r. MinimalRoute intent m = Inr r"
proof -
  have "set (map df_intent taxonomyDefinitions) \<subseteq> fst ` set routePolicies"
    by (simp add: taxonomy_intents routePolicies_def)
  with assms have "map_of routePolicies intent \<noteq> None"
    by (auto simp: ValidateIntent_None map_of_eq_None_iff)
  with assms show ?thesis by (auto simp: MinimalRoute_def PolicyFor_def check_then_def Let_def)
qed

text \<open>
  The refinements only ever add roles: the route stays well formed, whatever the question.
\<close>

lemma PlanRoute_Inr:
  "PlanRoute question intent m = Inr r \<Longrightarrow> \<exists>r0 c a b1 b2 b3 b4 b5 b6. MinimalRoute intent m = Inr r0 \<and>
     r = refine_route b6 AccountingReporting ''PLAN_ACCOUNTING_COMPARABILITY''
          (refine_route b5 AccountingReporting ''PLAN_ACCOUNTING_COMPARABILITY''
          (refine_route b4 MarketBehavior ''PLAN_MARKET_CONTEXT''
          (refine_route b3 ValuationRole ''PLAN_VALUATION_RECEIPTS''
          (refine_route b2 EconomicsTransmission ''PLAN_MACRO_TRANSMISSION''
          (refine_route b1 AccountingReporting ''PLAN_ACCOUNTING_COMPARABILITY''
            (r0\<lparr>ru_clarify_first := c, ru_advice_boundary := a\<rparr>))))))"
  unfolding PlanRoute_def Let_def by (simp only: res_bind_Inr sum.inject) blast

lemma PlanRoute_ok:
  assumes "PlanRoute question intent m = Inr r"
  shows "route_ok r"
proof -
  obtain r0 c a b1 b2 b3 b4 b5 b6 where r0: "MinimalRoute intent m = Inr r0"
    and r: "r = refine_route b6 AccountingReporting ''PLAN_ACCOUNTING_COMPARABILITY''
          (refine_route b5 AccountingReporting ''PLAN_ACCOUNTING_COMPARABILITY''
          (refine_route b4 MarketBehavior ''PLAN_MARKET_CONTEXT''
          (refine_route b3 ValuationRole ''PLAN_VALUATION_RECEIPTS''
          (refine_route b2 EconomicsTransmission ''PLAN_MACRO_TRANSMISSION''
          (refine_route b1 AccountingReporting ''PLAN_ACCOUNTING_COMPARABILITY''
            (r0\<lparr>ru_clarify_first := c, ru_advice_boundary := a\<rparr>))))))"
    using PlanRoute_Inr [OF assms] by blast
  have "route_ok (r0\<lparr>ru_clarify_first := c, ru_advice_boundary := a\<rparr>)"
    using MinimalRoute_ok [OF r0] unfolding route_ok_def by (cases r0) (simp only: Route.select_convs Route.update_convs simp_thms)
  then show ?thesis unfolding r by (intro refine_route_ok) (simp_all only: list.set insert_iff simp_thms)
qed

lemma PlanRoute_total:
  assumes "ValidateIntent intent = None"
  shows "\<exists>r. PlanRoute question intent m = Inr r"
proof -
  obtain r0 where r0: "MinimalRoute intent m = Inr r0" using MinimalRoute_total [OF assms] by blast
  show ?thesis unfolding PlanRoute_def r0 res_bind.simps Let_def by blast
qed

end
