(* ===== verification/Capability.thy ===== *)
theory Capability
  imports Roles
begin

text \<open>
  Package \<open>internal/capability\<close>: deterministic operations, their registry
  (\<open>registry.go\<close>) and the registered operations (\<open>tier0.go\<close>); and the gate of
  \<open>internal/orchestrator/toolgate.go\<close> that lets a role run an operation.
\<close>

section \<open>Operations and their registry\<close>

record Operation =
  op_operation_id :: string
  op_engine :: string
  op_formula_version :: string
  op_description :: string
  op_numerical_policy :: string
  op_required_inputs :: "string list"
  op_outputs :: "string list"
  op_allowed_roles :: "string list"
  op_assumptions_allowed :: bool
  op_input_schema :: string
  op_output_schema :: string
  op_timeout_ms :: int
  op_side_effect_class :: string

definition lower_alpha :: "char \<Rightarrow> bool" where
  "lower_alpha c \<longleftrightarrow> CHR ''a'' \<le> c \<and> c \<le> CHR ''z''"

definition ident_tail :: "char \<Rightarrow> bool" where
  "ident_tail c \<longleftrightarrow> lower_alpha c \<or> CHR ''0'' \<le> c \<and> c \<le> CHR ''9'' \<or> c = CHR ''_''"

definition ident :: "string \<Rightarrow> bool" where
  "ident s = (case s of [] \<Rightarrow> False | c # r \<Rightarrow> lower_alpha c \<and> list_all ident_tail r)"

text \<open>The pattern \<open>^[a-z][a-z0-9_]*\.[a-z][a-z0-9_]*$\<close>: two identifiers around the first dot.\<close>

definition operationIDPattern :: "string \<Rightarrow> bool" where
  "operationIDPattern s =
     (let engine = takeWhile (\<lambda>c. c \<noteq> CHR ''.'') s; rest = dropWhile (\<lambda>c. c \<noteq> CHR ''.'') s
      in rest \<noteq> [] \<and> ident engine \<and> ident (tl rest))"

definition validateOperation :: "Operation \<Rightarrow> go_error option" where
  "validateOperation operation = first_err
     [fail_if (\<not> operationIDPattern (op_operation_id operation))
        (Errorf ''invalid operation ID %q'' [FStr (op_operation_id operation)]),
      fail_if (op_engine operation = [] \<or> op_formula_version operation = [] \<or>
          op_description operation = [] \<or> op_numerical_policy operation = [] \<or>
          op_input_schema operation = [] \<or> op_output_schema operation = [])
        (ErrorsNew ''engine, formula_version, description, numerical_policy, and schemas are required''),
      fail_if (op_required_inputs operation = [] \<or> op_outputs operation = [] \<or>
          op_allowed_roles operation = [])
        (ErrorsNew ''inputs, outputs, and allowed_roles cannot be empty''),
      fail_if (op_timeout_ms operation \<le> 0 \<or> op_side_effect_class operation \<noteq> ''none'')
        (ErrorsNew ''deterministic operations require a positive timeout and side_effect_class none'')]"

type_synonym CapabilityRegistry = "Operation list"

fun register_operations :: "CapabilityRegistry \<Rightarrow> Operation list \<Rightarrow> go_error + CapabilityRegistry" where
  "register_operations registry [] = Inr registry"
| "register_operations registry (operation # operations) =
     (case validateOperation operation of
        Some e \<Rightarrow> Inl e
      | None \<Rightarrow>
          if op_operation_id operation \<in> op_operation_id ` set registry then
            Inl (Errorf ''duplicate operation %q'' [FStr (op_operation_id operation)])
          else register_operations (registry @ [operation]) operations)"

definition NewCapabilityRegistry :: "Operation list \<Rightarrow> go_error + CapabilityRegistry" where
  "NewCapabilityRegistry operations = register_operations [] operations"

definition GetOperation :: "CapabilityRegistry \<Rightarrow> string \<Rightarrow> Operation option" where
  "GetOperation registry operationID = index_by op_operation_id registry operationID"

definition Authorizes :: "CapabilityRegistry \<Rightarrow> string \<Rightarrow> string \<Rightarrow> bool" where
  "Authorizes registry role operationID =
     (case index_by op_operation_id registry operationID of
        None \<Rightarrow> False
      | Some operation \<Rightarrow> role \<in> set (op_allowed_roles operation))"

definition ListOperations :: "CapabilityRegistry \<Rightarrow> Operation list" where
  "ListOperations registry = concat (map
     (\<lambda>id. case GetOperation registry id of Some operation \<Rightarrow> [operation] | None \<Rightarrow> [])
     (sort (map op_operation_id registry)))"

lemma register_operations_Inr:
  "register_operations reg ops = Inr r \<longleftrightarrow> (\<forall>x \<in> set ops. validateOperation x = None) \<and>
     distinct (map op_operation_id ops) \<and>
     op_operation_id ` set ops \<inter> op_operation_id ` set reg = {} \<and> r = reg @ ops"
proof (induction ops arbitrary: reg)
  case (Cons x ops)
  show ?case
  proof (cases "validateOperation x")
    case None
    then show ?thesis by (auto simp: Cons.IH)
  qed simp
qed auto

interpretation capability_registry: keyed_registry op_operation_id "\<lambda>x. validateOperation x = None"
  NewCapabilityRegistry GetOperation ListOperations
proof
  show "NewCapabilityRegistry xs = Inr r \<longleftrightarrow>
      (\<forall>x \<in> set xs. validateOperation x = None) \<and> distinct (map op_operation_id xs) \<and> r = xs" for xs r
    by (auto simp: NewCapabilityRegistry_def register_operations_Inr)
  show "GetOperation r k = index_by op_operation_id r k" for r k
    by (simp add: GetOperation_def)
  show "ListOperations r = sort_key op_operation_id r" if "distinct (map op_operation_id r)" for r
    using listed_by_sorted_keys [OF that] by (simp add: ListOperations_def GetOperation_def)
qed

section \<open>The registered operations (tier0.go)\<close>

definition op :: "string \<Rightarrow> string \<Rightarrow> string \<Rightarrow> string \<Rightarrow> string list \<Rightarrow> string list \<Rightarrow> string list \<Rightarrow> bool \<Rightarrow> Operation" where
  "op operationID engine description policy inputs outputs roles assumptions =
     \<lparr>op_operation_id = operationID, op_engine = engine, op_formula_version = ''1.0.0'',
      op_description = description, op_numerical_policy = policy, op_required_inputs = inputs,
      op_outputs = outputs, op_allowed_roles = roles, op_assumptions_allowed = assumptions,
      op_input_schema = ''contracts/engine-request.schema.json'',
      op_output_schema = ''contracts/calculation-receipt.schema.json'',
      op_timeout_ms = 5000, op_side_effect_class = ''none''\<rparr>"

abbreviation financialRoles :: "string list" where
  "financialRoles \<equiv> [AccountingReporting, FinancialQuality, ValuationRole, EvidenceCritic]"

abbreviation valuationRoles :: "string list" where
  "valuationRoles \<equiv> [ValuationRole, EvidenceCritic]"

abbreviation marketRoles :: "string list" where
  "marketRoles \<equiv> [MarketBehavior, EconomicsTransmission, EvidenceCritic]"

definition tier0Operations :: "Operation list" where
  "tier0Operations =
     [op ''accounting.balance_sheet_identity'' ''accounting''
        ''Validate assets against liabilities plus equity.''
        ''money-decimal/v1''
        [''assets'', ''liabilities'', ''equity'']
        [''difference'', ''within_tolerance''] financialRoles False,
      op ''financial.revenue_growth'' ''financial''
        ''Calculate period-aligned revenue growth.''
        ''ratio-decimal/v1''
        [''revenue_current'', ''revenue_prior'']
        [''growth_rate''] financialRoles False,
      op ''financial.cagr'' ''financial''
        ''Calculate compound annual growth over a valid duration.''
        ''ratio-decimal/v1''
        [''value_start'', ''value_end'', ''years'']
        [''cagr''] financialRoles False,
      op ''financial.margin'' ''financial''
        ''Calculate a named profit or cash-flow margin.''
        ''ratio-decimal/v1''
        [''numerator'', ''revenue'']
        [''margin''] financialRoles False,
      op ''financial.free_cash_flow'' ''financial''
        ''Calculate normalized free cash flow from registered inputs.''
        ''money-decimal/v1''
        [''operating_cash_flow'', ''capital_expenditure'']
        [''free_cash_flow''] financialRoles False,
      op ''financial.cash_conversion'' ''financial''
        ''Compare cash generation with earnings on aligned periods.''
        ''ratio-decimal/v1''
        [''operating_cash_flow'', ''net_income'']
        [''cash_conversion''] financialRoles False,
      op ''financial.capex_intensity'' ''financial''
        ''Calculate capital expenditure relative to revenue.''
        ''ratio-decimal/v1''
        [''capital_expenditure'', ''revenue'']
        [''capex_intensity''] financialRoles False,
      op ''financial.net_debt'' ''financial''
        ''Bridge gross debt and cash to net debt.''
        ''money-decimal/v1''
        [''debt'', ''cash_and_equivalents'']
        [''net_debt''] financialRoles False,
      op ''financial.dilution'' ''financial''
        ''Calculate period-aligned change in diluted shares.''
        ''ratio-decimal/v1''
        [''shares_current'', ''shares_prior'']
        [''dilution_rate''] financialRoles False,
      op ''financial.roic_proxy'' ''financial''
        ''Calculate the disclosed Tier 0 return-on-invested-capital proxy.''
        ''ratio-decimal/v1''
        [''nopat'', ''invested_capital'']
        [''roic_proxy''] financialRoles False,
      op ''financial.current_ratio'' ''financial''
        ''Calculate current assets relative to current liabilities.''
        ''ratio-decimal/v1''
        [''current_assets'', ''current_liabilities'']
        [''current_ratio''] financialRoles False,
      op ''financial.debt_to_equity'' ''financial''
        ''Calculate debt relative to equity on an aligned balance-sheet date.''
        ''ratio-decimal/v1''
        [''debt'', ''equity'']
        [''debt_to_equity''] financialRoles False,
      op ''financial.earnings_per_share'' ''financial''
        ''Calculate earnings per diluted share on an aligned period.''
        ''money-decimal/v1''
        [''net_income'', ''diluted_shares'']
        [''earnings_per_share''] financialRoles False,
      op ''financial.quality_of_earnings'' ''financial''
        ''Bridge operating cash flow to net income and cash conversion.''
        ''mixed-numeric/v1''
        [''operating_cash_flow'', ''net_income'']
        [''accrual_gap'', ''cash_conversion''] financialRoles False,
      op ''valuation.fcff_dcf'' ''valuation''
        ''Calculate enterprise value from explicit FCFF forecasts and terminal assumptions.''
        ''money-decimal/v1''
        [''fcff_forecast'', ''discount_rate'', ''terminal_growth'']
        [''enterprise_value'', ''present_values''] valuationRoles True,
      op ''valuation.reverse_dcf'' ''valuation''
        ''Solve for the terminal-growth assumption implied by an enterprise value.''
        ''mixed-numeric/v1''
        [''enterprise_value'', ''base_fcff'', ''discount_rate'', ''years'']
        [''implied_growth''] valuationRoles True,
      op ''valuation.enterprise_to_equity'' ''valuation''
        ''Bridge enterprise value to equity value and per-share value.''
        ''money-decimal/v1''
        [''enterprise_value'', ''net_debt'', ''non_operating_assets'', ''diluted_shares'']
        [''equity_value'', ''value_per_share''] valuationRoles True,
      op ''valuation.peer_multiple'' ''valuation''
        ''Calculate aligned P/E or EV-based comparison statistics.''
        ''mixed-numeric/v1''
        [''market_value'', ''metric_value'']
        [''multiple''] valuationRoles False,
      op ''valuation.wacc'' ''valuation''
        ''Calculate capital-weighted after-tax cost of capital from explicit inputs.''
        ''ratio-decimal/v1''
        [''equity_value'', ''debt_value'', ''cost_of_equity'', ''pre_tax_cost_of_debt'', ''tax_rate'']
        [''wacc''] valuationRoles True,
      op ''economics.real_rate'' ''economics''
        ''Calculate an explicitly defined real-rate transform.''
        ''ratio-float64/v1''
        [''nominal_rate'', ''inflation_measure'']
        [''real_rate''] [EconomicsTransmission, ValuationRole, EvidenceCritic] False,
      op ''economics.yield_curve'' ''economics''
        ''Calculate a named yield-curve spread.''
        ''ratio-float64/v1''
        [''long_yield'', ''short_yield'']
        [''spread''] [EconomicsTransmission, ValuationRole, EvidenceCritic] False,
      op ''market.total_return'' ''market''
        ''Calculate point-to-point total return from start price, end price, and distributions.''
        ''statistics-float64/v1''
        [''start_price'', ''end_price'', ''distributions'']
        [''total_return''] marketRoles False,
      op ''market.volatility'' ''market''
        ''Calculate annualized volatility from an aligned return series.''
        ''statistics-float64/v1''
        [''returns'', ''periods_per_year'']
        [''volatility''] marketRoles False,
      op ''market.drawdown'' ''market''
        ''Calculate drawdown and maximum drawdown under the registered convention.''
        ''statistics-float64/v1''
        [''wealth_index'']
        [''drawdown_series'', ''maximum_drawdown''] marketRoles False,
      op ''market.beta'' ''market''
        ''Calculate beta against an aligned benchmark return series.''
        ''statistics-float64/v1''
        [''security_returns'', ''benchmark_returns'']
        [''beta'', ''observations''] marketRoles False,
      op ''market.rolling_correlation'' ''market''
        ''Calculate rolling correlation over an explicit window.''
        ''statistics-float64/v1''
        [''series_x'', ''series_y'', ''window'']
        [''rolling_correlation''] marketRoles False,
      op ''comparison.period_aligned'' ''comparison''
        ''Compare company metrics under the exact period, unit, and currency policy.''
        ''mixed-numeric/v1''
        [''company_metrics'']
        [''comparison'', ''warnings''] [FinancialQuality, ValuationRole, EvidenceCritic] False,
      op ''scenario.sensitivity_matrix'' ''comparison''
        ''Evaluate FCFF DCF across explicit discount-rate and terminal-growth axes.''
        ''mixed-numeric/v1''
        [''fcff_forecast'', ''discount_rates'', ''terminal_growth_rates'']
        [''scenario_matrix''] valuationRoles True]"

definition financialIntelligenceOperations :: "Operation list" where
  "financialIntelligenceOperations =
     [op ''financial.nopat'' ''financial''
        ''Calculate after-tax operating profit from an explicit tax rate.''
        ''money-decimal/v1''
        [''operating_income'', ''tax_rate'']
        [''nopat''] financialRoles True,
      op ''financial.invested_capital'' ''financial''
        ''Reconcile operating and financing definitions of invested capital.''
        ''mixed-numeric/v1''
        [''operating_assets'', ''non_interest_bearing_operating_liabilities'', ''debt'', ''equity'', ''cash_and_equivalents'', ''non_operating_assets'']
        [''operating_approach'', ''financing_approach'', ''difference''] financialRoles False,
      op ''financial.average_invested_capital'' ''financial''
        ''Calculate average invested capital from beginning and ending balances.''
        ''money-decimal/v1''
        [''invested_capital_beginning'', ''invested_capital_ending'']
        [''average_invested_capital''] financialRoles False,
      op ''financial.operating_working_capital'' ''financial''
        ''Calculate operating working capital from registered operating components.''
        ''money-decimal/v1''
        [''accounts_receivable'', ''inventory'', ''other_operating_current_assets'', ''accounts_payable'', ''other_operating_current_liabilities'']
        [''operating_working_capital''] financialRoles False,
      op ''financial.change_in_working_capital'' ''financial''
        ''Calculate the period change in operating working capital.''
        ''money-decimal/v1''
        [''operating_working_capital_ending'', ''operating_working_capital_beginning'']
        [''change_in_working_capital''] financialRoles False,
      op ''financial.net_capex'' ''financial''
        ''Calculate net capital expenditure after depreciation and amortization.''
        ''money-decimal/v1''
        [''capital_expenditure'', ''depreciation_and_amortization'']
        [''net_capex''] financialRoles False,
      op ''financial.reinvestment'' ''financial''
        ''Calculate reinvestment from net capex, working-capital change, and acquisitions.''
        ''money-decimal/v1''
        [''net_capex'', ''change_in_working_capital'', ''acquisitions'']
        [''reinvestment''] financialRoles False,
      op ''financial.fcff_from_nopat'' ''financial''
        ''Calculate free cash flow to the firm from NOPAT and reinvestment.''
        ''money-decimal/v1''
        [''nopat'', ''reinvestment'']
        [''fcff''] financialRoles False,
      op ''financial.fcfe'' ''financial''
        ''Calculate free cash flow to equity from earnings, reinvestment, and borrowing.''
        ''money-decimal/v1''
        [''net_income'', ''capital_expenditure'', ''depreciation_and_amortization'', ''change_in_working_capital'', ''net_borrowing'']
        [''fcfe''] financialRoles False,
      op ''financial.roic'' ''financial''
        ''Calculate governed return on invested capital.''
        ''ratio-decimal/v1''
        [''nopat'', ''average_invested_capital'']
        [''roic''] financialRoles False,
      op ''financial.incremental_roic'' ''financial''
        ''Calculate incremental return on newly invested capital.''
        ''ratio-decimal/v1''
        [''change_in_nopat'', ''change_in_invested_capital'']
        [''incremental_roic''] financialRoles False,
      op ''financial.roce'' ''financial''
        ''Calculate EBIT relative to governed capital employed.''
        ''ratio-decimal/v1''
        [''ebit'', ''total_assets'', ''current_liabilities'']
        [''roce''] financialRoles False,
      op ''financial.value_creation_spread'' ''financial''
        ''Calculate ROIC less WACC under aligned definitions.''
        ''ratio-decimal/v1''
        [''roic'', ''wacc'']
        [''value_creation_spread''] financialRoles False,
      op ''financial.reinvestment_rate'' ''financial''
        ''Calculate reinvestment relative to positive NOPAT.''
        ''ratio-decimal/v1''
        [''reinvestment'', ''nopat'']
        [''reinvestment_rate''] financialRoles False,
      op ''financial.fundamental_growth'' ''financial''
        ''Calculate fundamental growth from return on capital and reinvestment rate.''
        ''ratio-decimal/v1''
        [''return_on_capital'', ''reinvestment_rate'']
        [''fundamental_growth''] financialRoles True,
      op ''financial.operating_margin'' ''financial''
        ''Calculate typed operating margin.''
        ''ratio-decimal/v1''
        [''operating_income'', ''revenue'']
        [''operating_margin''] financialRoles False,
      op ''financial.incremental_margin'' ''financial''
        ''Calculate incremental operating margin across aligned periods.''
        ''ratio-decimal/v1''
        [''operating_income_current'', ''operating_income_prior'', ''revenue_current'', ''revenue_prior'']
        [''incremental_margin''] financialRoles False,
      op ''financial.accrual_intensity'' ''financial''
        ''Calculate accrual intensity relative to average assets.''
        ''ratio-decimal/v1''
        [''net_income'', ''operating_cash_flow'', ''average_assets'']
        [''accrual_intensity''] financialRoles False,
      op ''financial.cash_conversion_cycle'' ''financial''
        ''Calculate the cash conversion cycle from DSO, DIO, and DPO.''
        ''mixed-numeric/v1''
        [''days_sales_outstanding'', ''days_inventory_outstanding'', ''days_payables_outstanding'']
        [''cash_conversion_cycle''] financialRoles False,
      op ''financial.quick_ratio'' ''financial''
        ''Calculate liquid current assets relative to current liabilities.''
        ''ratio-decimal/v1''
        [''cash_and_equivalents'', ''marketable_securities'', ''accounts_receivable'', ''current_liabilities'']
        [''quick_ratio''] financialRoles False,
      op ''financial.cash_ratio'' ''financial''
        ''Calculate cash and marketable securities relative to current liabilities.''
        ''ratio-decimal/v1''
        [''cash_and_equivalents'', ''marketable_securities'', ''current_liabilities'']
        [''cash_ratio''] financialRoles False,
      op ''financial.interest_coverage'' ''financial''
        ''Calculate EBIT coverage of positive interest expense.''
        ''ratio-decimal/v1''
        [''ebit'', ''interest_expense'']
        [''interest_coverage''] financialRoles False,
      op ''financial.net_debt_to_ebitda'' ''financial''
        ''Calculate net debt relative to positive EBITDA.''
        ''ratio-decimal/v1''
        [''net_debt'', ''ebitda'']
        [''net_debt_to_ebitda''] financialRoles False,
      op ''financial.cash_conversion_ebitda'' ''financial''
        ''Calculate operating-cash-flow conversion against EBITDA.''
        ''ratio-decimal/v1''
        [''operating_cash_flow'', ''ebitda'']
        [''cash_conversion_ebitda''] financialRoles False,
      op ''financial.cash_conversion_operating_profit'' ''financial''
        ''Calculate operating-cash-flow conversion against operating profit.''
        ''ratio-decimal/v1''
        [''operating_cash_flow'', ''operating_profit'']
        [''cash_conversion_operating_profit''] financialRoles False,
      op ''financial.buyback_yield'' ''financial''
        ''Calculate net repurchases relative to equity market value.''
        ''ratio-decimal/v1''
        [''net_repurchases'', ''market_capitalization'']
        [''buyback_yield''] financialRoles False,
      op ''financial.dividend_yield'' ''financial''
        ''Calculate dividends paid relative to equity market value.''
        ''ratio-decimal/v1''
        [''dividends_paid'', ''market_capitalization'']
        [''dividend_yield''] financialRoles False,
      op ''financial.net_payout_yield'' ''financial''
        ''Calculate dividends plus net repurchases relative to equity market value.''
        ''ratio-decimal/v1''
        [''net_repurchases'', ''dividends_paid'', ''market_capitalization'']
        [''net_payout_yield''] financialRoles False,
      op ''financial.shareholder_yield'' ''financial''
        ''Calculate dividends, net repurchases, and net debt reduction relative to market capitalization.''
        ''ratio-decimal/v1''
        [''net_repurchases'', ''dividends_paid'', ''net_debt_reduction'', ''market_capitalization'']
        [''shareholder_yield''] financialRoles False,
      op ''financial.capital_allocation_bridge'' ''financial''
        ''Reconcile cash sources, capital uses, and the reported change in cash.''
        ''mixed-numeric/v1''
        [''operating_cash_flow'', ''debt_issuance'', ''equity_issuance'', ''asset_sales'', ''capital_expenditure'', ''acquisitions'', ''debt_repayment'', ''dividends'', ''repurchases'', ''reported_change_in_cash'', ''tolerance'']
        [''total_sources'', ''total_uses'', ''implied_change_in_cash'', ''reconciliation_gap'', ''within_tolerance''] financialRoles False,
      op ''valuation.capm'' ''valuation''
        ''Calculate cost of equity from risk-free rate, beta, and equity risk premium.''
        ''ratio-decimal/v1''
        [''risk_free_rate'', ''beta'', ''equity_risk_premium'']
        [''cost_of_equity''] valuationRoles True,
      op ''valuation.unlever_beta'' ''valuation''
        ''Remove the registered debt and tax effect from levered beta.''
        ''ratio-decimal/v1''
        [''levered_beta'', ''debt'', ''equity'', ''tax_rate'']
        [''unlevered_beta''] valuationRoles True,
      op ''valuation.relever_beta'' ''valuation''
        ''Apply the registered debt and tax effect to unlevered beta.''
        ''ratio-decimal/v1''
        [''unlevered_beta'', ''debt'', ''equity'', ''tax_rate'']
        [''relevered_beta''] valuationRoles True,
      op ''valuation.multistage_dcf_perpetuity'' ''valuation''
        ''Calculate multi-stage DCF using a perpetuity-growth terminal value.''
        ''mixed-numeric/v1''
        [''fcff_forecast'', ''discount_rate'', ''terminal_growth'', ''mid_year'']
        [''enterprise_value'', ''explicit_present_value'', ''terminal_value'', ''terminal_present_value'', ''terminal_value_share''] valuationRoles True,
      op ''valuation.multistage_dcf_exit'' ''valuation''
        ''Calculate multi-stage DCF using an exit-multiple terminal value.''
        ''mixed-numeric/v1''
        [''fcff_forecast'', ''discount_rate'', ''exit_metric'', ''exit_multiple'', ''mid_year'']
        [''enterprise_value'', ''explicit_present_value'', ''terminal_value'', ''terminal_present_value'', ''terminal_value_share''] valuationRoles True,
      op ''valuation.dividend_discount'' ''valuation''
        ''Calculate an applicable multi-stage dividend discount model.''
        ''mixed-numeric/v1''
        [''dividend_forecast'', ''cost_of_equity'', ''terminal_growth'', ''mid_year'']
        [''equity_value'', ''explicit_present_value'', ''terminal_value'', ''terminal_present_value'', ''terminal_value_share''] valuationRoles True,
      op ''valuation.reverse_revenue_growth'' ''valuation''
        ''Solve the revenue growth implied by enterprise value under explicit operating assumptions.''
        ''mixed-numeric/v1''
        [''enterprise_value'', ''base_revenue'', ''operating_margin'', ''tax_rate'', ''reinvestment_rate'', ''discount_rate'', ''terminal_growth'', ''years'']
        [''implied_revenue_growth'', ''iterations''] valuationRoles True,
      op ''valuation.reverse_operating_margin'' ''valuation''
        ''Solve the operating margin implied by enterprise value.''
        ''mixed-numeric/v1''
        [''enterprise_value'', ''base_revenue'', ''revenue_growth'', ''tax_rate'', ''reinvestment_rate'', ''discount_rate'', ''terminal_growth'', ''years'']
        [''implied_operating_margin'', ''iterations''] valuationRoles True,
      op ''valuation.reverse_reinvestment_rate'' ''valuation''
        ''Solve the reinvestment rate implied by enterprise value.''
        ''mixed-numeric/v1''
        [''enterprise_value'', ''base_revenue'', ''revenue_growth'', ''operating_margin'', ''tax_rate'', ''discount_rate'', ''terminal_growth'', ''years'']
        [''implied_reinvestment_rate'', ''iterations''] valuationRoles True,
      op ''valuation.implied_roic'' ''valuation''
        ''Calculate return on capital implied by growth and reinvestment.''
        ''ratio-decimal/v1''
        [''growth_rate'', ''reinvestment_rate'']
        [''implied_roic''] valuationRoles True,
      op ''valuation.enterprise_to_equity_detailed'' ''valuation''
        ''Bridge enterprise value to diluted equity value with explicit debt, cash, investments, minority interest, and options.''
        ''mixed-numeric/v1''
        [''enterprise_value'', ''debt'', ''cash'', ''investments'', ''minority_interest'', ''option_value'', ''diluted_shares'']
        [''equity_value'', ''value_per_diluted_share''] valuationRoles True,
      op ''valuation.ev_to_ebitda'' ''valuation''
        ''Calculate enterprise value to positive EBITDA.''
        ''ratio-decimal/v1''
        [''enterprise_value'', ''ebitda'']
        [''ev_to_ebitda''] valuationRoles False,
      op ''valuation.ev_to_revenue'' ''valuation''
        ''Calculate enterprise value to positive revenue.''
        ''ratio-decimal/v1''
        [''enterprise_value'', ''revenue'']
        [''ev_to_revenue''] valuationRoles False,
      op ''valuation.ev_to_ebit'' ''valuation''
        ''Calculate enterprise value to positive EBIT.''
        ''ratio-decimal/v1''
        [''enterprise_value'', ''ebit'']
        [''ev_to_ebit''] valuationRoles False,
      op ''valuation.price_to_earnings'' ''valuation''
        ''Calculate equity market value to positive net income.''
        ''ratio-decimal/v1''
        [''equity_market_value'', ''net_income'']
        [''price_to_earnings''] valuationRoles False,
      op ''valuation.price_to_book'' ''valuation''
        ''Calculate equity market value to positive book equity.''
        ''ratio-decimal/v1''
        [''equity_market_value'', ''book_equity'']
        [''price_to_book''] valuationRoles False,
      op ''valuation.price_to_fcf'' ''valuation''
        ''Calculate equity market value to positive free cash flow to equity.''
        ''ratio-decimal/v1''
        [''equity_market_value'', ''free_cash_flow_to_equity'']
        [''price_to_fcf''] valuationRoles False,
      op ''valuation.fcf_yield'' ''valuation''
        ''Calculate free cash flow to equity relative to equity market value.''
        ''ratio-decimal/v1''
        [''free_cash_flow_to_equity'', ''equity_market_value'']
        [''fcf_yield''] valuationRoles False,
      op ''valuation.earnings_yield'' ''valuation''
        ''Calculate net income relative to equity market value.''
        ''ratio-decimal/v1''
        [''net_income'', ''equity_market_value'']
        [''earnings_yield''] valuationRoles False,
      op ''comparison.dupont'' ''comparison''
        ''Decompose return on equity into margin, turnover, and leverage.''
        ''mixed-numeric/v1''
        [''net_income'', ''revenue'', ''average_assets'', ''average_equity'']
        [''net_margin'', ''asset_turnover'', ''financial_leverage'', ''return_on_equity''] financialRoles False,
      op ''comparison.peer_statistics'' ''comparison''
        ''Calculate robust peer context for a subject multiple.''
        ''statistics-float64/v1''
        [''peer_values'', ''subject_value'', ''minimum_sample'']
        [''median'', ''percentile'', ''median_absolute_deviation'', ''robust_z_score'', ''observations''] valuationRoles False,
      op ''economics.lagged_association'' ''economics''
        ''Estimate a lagged linear association without causal attribution.''
        ''statistics-float64/v1''
        [''driver_series'', ''outcome_series'', ''lag'', ''minimum_sample'']
        [''slope'', ''intercept'', ''correlation'', ''r_squared'', ''observations'', ''lag''] marketRoles False]"

lemma tier0_ids: "map op_operation_id tier0Operations =
  [''accounting.balance_sheet_identity'', ''financial.revenue_growth'',
   ''financial.cagr'', ''financial.margin'',
   ''financial.free_cash_flow'', ''financial.cash_conversion'',
   ''financial.capex_intensity'', ''financial.net_debt'',
   ''financial.dilution'', ''financial.roic_proxy'',
   ''financial.current_ratio'', ''financial.debt_to_equity'',
   ''financial.earnings_per_share'', ''financial.quality_of_earnings'',
   ''valuation.fcff_dcf'', ''valuation.reverse_dcf'',
   ''valuation.enterprise_to_equity'', ''valuation.peer_multiple'',
   ''valuation.wacc'', ''economics.real_rate'',
   ''economics.yield_curve'', ''market.total_return'',
   ''market.volatility'', ''market.drawdown'',
   ''market.beta'', ''market.rolling_correlation'',
   ''comparison.period_aligned'', ''scenario.sensitivity_matrix'']"
  by (simp add: tier0Operations_def op_def)

lemma intelligence_ids: "map op_operation_id financialIntelligenceOperations =
  [''financial.nopat'', ''financial.invested_capital'',
   ''financial.average_invested_capital'', ''financial.operating_working_capital'',
   ''financial.change_in_working_capital'', ''financial.net_capex'',
   ''financial.reinvestment'', ''financial.fcff_from_nopat'',
   ''financial.fcfe'', ''financial.roic'',
   ''financial.incremental_roic'', ''financial.roce'',
   ''financial.value_creation_spread'', ''financial.reinvestment_rate'',
   ''financial.fundamental_growth'', ''financial.operating_margin'',
   ''financial.incremental_margin'', ''financial.accrual_intensity'',
   ''financial.cash_conversion_cycle'', ''financial.quick_ratio'',
   ''financial.cash_ratio'', ''financial.interest_coverage'',
   ''financial.net_debt_to_ebitda'', ''financial.cash_conversion_ebitda'',
   ''financial.cash_conversion_operating_profit'', ''financial.buyback_yield'',
   ''financial.dividend_yield'', ''financial.net_payout_yield'',
   ''financial.shareholder_yield'', ''financial.capital_allocation_bridge'',
   ''valuation.capm'', ''valuation.unlever_beta'',
   ''valuation.relever_beta'', ''valuation.multistage_dcf_perpetuity'',
   ''valuation.multistage_dcf_exit'', ''valuation.dividend_discount'',
   ''valuation.reverse_revenue_growth'', ''valuation.reverse_operating_margin'',
   ''valuation.reverse_reinvestment_rate'', ''valuation.implied_roic'',
   ''valuation.enterprise_to_equity_detailed'', ''valuation.ev_to_ebitda'',
   ''valuation.ev_to_revenue'', ''valuation.ev_to_ebit'',
   ''valuation.price_to_earnings'', ''valuation.price_to_book'',
   ''valuation.price_to_fcf'', ''valuation.fcf_yield'',
   ''valuation.earnings_yield'', ''comparison.dupont'',
   ''comparison.peer_statistics'', ''economics.lagged_association'']"
  by (simp add: financialIntelligenceOperations_def op_def)

lemma runtime_ids_distinct:
  "distinct (map op_operation_id (tier0Operations @ financialIntelligenceOperations))"
  unfolding map_append tier0_ids intelligence_ids by simp

lemma tier0_valid: "list_all (\<lambda>x. validateOperation x = None) tier0Operations"
  by code_simp

lemma intelligence_valid: "list_all (\<lambda>x. validateOperation x = None) financialIntelligenceOperations"
  by code_simp

lemma NewCapabilityRegistry_runtime:
  "NewCapabilityRegistry (tier0Operations @ financialIntelligenceOperations) =
     Inr (tier0Operations @ financialIntelligenceOperations)"
  using tier0_valid intelligence_valid runtime_ids_distinct
  by (auto simp: capability_registry.build_Inr list_all_iff)

lemma NewCapabilityRegistry_tier0: "NewCapabilityRegistry tier0Operations = Inr tier0Operations"
  using tier0_valid runtime_ids_distinct by (auto simp: capability_registry.build_Inr list_all_iff)

lemma NewCapabilityRegistry_intelligence:
  "NewCapabilityRegistry financialIntelligenceOperations = Inr financialIntelligenceOperations"
  using intelligence_valid runtime_ids_distinct
  by (auto simp: capability_registry.build_Inr list_all_iff)

definition Tier0Registry :: "go_error + CapabilityRegistry" where
  "Tier0Registry = (case NewCapabilityRegistry tier0Operations of
     Inl e \<Rightarrow> Inl (Panic ''tier 0 operations'') | Inr registry \<Rightarrow> Inr registry)"

definition FinancialIntelligenceRegistry :: "go_error + CapabilityRegistry" where
  "FinancialIntelligenceRegistry = (case NewCapabilityRegistry financialIntelligenceOperations of
     Inl e \<Rightarrow> Inl (Panic ''financial intelligence operations'') | Inr registry \<Rightarrow> Inr registry)"

definition RuntimeRegistry :: "go_error + CapabilityRegistry" where
  "RuntimeRegistry = (case NewCapabilityRegistry (tier0Operations @ financialIntelligenceOperations) of
     Inl e \<Rightarrow> Inl (Panic ''runtime operations'') | Inr registry \<Rightarrow> Inr registry)"

lemma Tier0Registry_eq: "Tier0Registry = Inr tier0Operations"
  by (simp add: Tier0Registry_def NewCapabilityRegistry_tier0)

section \<open>The tool gate (orchestrator/toolgate.go)\<close>

record ToolGate =
  tg_capabilities :: CapabilityRegistry
  tg_roles :: RoleRegistry

definition Authorize :: "ToolGate \<Rightarrow> string \<Rightarrow> string \<Rightarrow> go_error + Operation" where
  "Authorize gate roleID operationID =
     (case GetRole (tg_roles gate) roleID of
        None \<Rightarrow> Inl (Errorf ''unknown role %q'' [FStr roleID])
      | Some role \<Rightarrow>
          if ''engine.execute'' \<notin> set (rl_allowed_tools role) then
            Inl (ErrorsNew ''role cannot invoke the deterministic engine'')
          else (case GetOperation (tg_capabilities gate) operationID of
              None \<Rightarrow> Inl (ErrorsNew ''operation is not registered'')
            | Some operation \<Rightarrow>
                if \<not> Authorizes (tg_capabilities gate) roleID operationID then
                  Inl (ErrorsNew ''operation is not authorized for role'')
                else if op_side_effect_class operation \<noteq> ''none'' \<or> op_timeout_ms operation \<le> 0 \<or>
                    op_input_schema operation = [] \<or> op_output_schema operation = [] then
                  Inl (ErrorsNew ''operation metadata is unsafe'')
                else Inr operation))"

lemma Authorize_Inr:
  "Authorize gate roleID operationID = Inr operation \<longleftrightarrow>
     (\<exists>role. GetRole (tg_roles gate) roleID = Some role \<and>
        ''engine.execute'' \<in> set (rl_allowed_tools role)) \<and>
     GetOperation (tg_capabilities gate) operationID = Some operation \<and>
     roleID \<in> set (op_allowed_roles operation) \<and>
     op_side_effect_class operation = ''none'' \<and> 0 < op_timeout_ms operation \<and>
     op_input_schema operation \<noteq> [] \<and> op_output_schema operation \<noteq> []"
  by (auto simp: Authorize_def Authorizes_def GetOperation_def not_le split: option.splits if_splits)

end
