(* ===== verification/Contracts_Data.thy ===== *)
theory Contracts_Data
  imports GoStd
begin

text \<open>
  The data of package \<open>internal/contracts\<close>: one record per struct of
  \<open>types.go\<close>, \<open>numerical.go\<close>, \<open>evidence.go\<close> and \<open>research.go\<close>, with the
  source's type name and, for each field, a prefix for the struct and the field's JSON name.
  A \<open>*T\<close> field is an option; a slice or a nil slice is a list (the code only ranges over
  slices and takes their length); a \<open>map[string]string\<close> is an association list. A Go
  \<open>type X string\<close> stays a string, because values outside the declared constants occur
  and are refused by the validators; the constants are the abbreviations below.
\<close>

section \<open>Shared artifacts (types.go)\<close>

abbreviation SchemaVersionV1 :: string where
  "SchemaVersionV1 \<equiv> ''signalforge/v1''"

abbreviation ClaimFact :: string where "ClaimFact \<equiv> ''fact''"
abbreviation ClaimCalculation :: string where "ClaimCalculation \<equiv> ''calculation''"
abbreviation ClaimInference :: string where "ClaimInference \<equiv> ''inference''"
abbreviation ClaimHypothesis :: string where "ClaimHypothesis \<equiv> ''hypothesis''"

abbreviation FindingOriginDeterministic :: string where
  "FindingOriginDeterministic \<equiv> ''deterministic_engine''"
abbreviation FindingOriginSourceExtraction :: string where
  "FindingOriginSourceExtraction \<equiv> ''source_extraction''"

abbreviation ReceiptSuccess :: string where "ReceiptSuccess \<equiv> ''success''"

record Scope =
  sc_company_ids :: "string list"
  sc_security_ids :: "string list"
  sc_periods :: "string list"
  sc_as_of :: gotime

record EvidenceRef =
  ev_evidence_id :: string
  ev_source_type :: string
  ev_document_section :: string
  ev_locator :: string
  ev_content_sha256 :: string
  ev_as_of :: gotime

record Finding =
  fd_claim_id :: string
  fd_claim_type :: string
  fd_origin :: string
  fd_statement :: string
  fd_evidence_refs :: "string list"
  fd_calculation_refs :: "string list"
  fd_numerical_refs :: "string list"
  fd_assumption_refs :: "string list"
  fd_confidence :: float64
  fd_valid_as_of :: gotime

record Quantity =
  qt_value :: string
  qt_unit :: string
  qt_currency :: string
  qt_scale :: int
  qt_period :: string
  qt_as_of :: "gotime option"

record EngineInput =
  ei_input_id :: string
  ei_quantity :: Quantity
  ei_status :: string
  ei_evidence_refs :: "string list"

record EngineRequest =
  er_schema_version :: string
  er_request_id :: string
  er_run_id :: string
  er_step_id :: string
  er_requested_by :: string
  er_engine_id :: string
  er_operation_id :: string
  er_formula_version :: string
  er_scope :: Scope
  er_inputs :: "EngineInput list"
  er_assumptions :: "string list"
  er_precision_policy :: string
  er_requested_outputs :: "string list"

record ReceiptOutput =
  ro_output_id :: string
  ro_quantity :: Quantity
  ro_status :: string

record InvariantResult =
  iv_invariant_id :: string
  iv_passed :: bool
  iv_detail :: string

record CalculationReceipt =
  cr_schema_version :: string
  cr_receipt_id :: string
  cr_request_id :: string
  cr_engine_id :: string
  cr_engine_version :: string
  cr_operation_id :: string
  cr_formula_version :: string
  cr_scope :: Scope
  cr_status :: string
  cr_normalized_inputs :: "EngineInput list"
  cr_assumptions :: "string list"
  cr_intermediate_values :: "ReceiptOutput list"
  cr_outputs :: "ReceiptOutput list"
  cr_invariant_results :: "InvariantResult list"
  cr_tolerance_policy :: string
  cr_warnings :: "string list"
  cr_evidence_refs :: "string list"
  cr_dataset_versions :: "string list"
  cr_source_as_of :: gotime
  cr_code_commit :: string
  cr_input_sha256 :: string
  cr_receipt_sha256 :: string
  cr_generated_at :: gotime

record EvidenceArtifact =
  ea_artifact_id :: string
  ea_kind :: string
  ea_path :: string
  ea_sha256 :: string
  ea_metrics :: "(string \<times> string) list"

section \<open>Numerical context (numerical.go)\<close>

abbreviation NumericalContextVersionV1 :: string where
  "NumericalContextVersionV1 \<equiv> ''numerical-silence/v1''"

abbreviation NumericalActual :: string where "NumericalActual \<equiv> ''actual''"
abbreviation NumericalDerivedView :: string where "NumericalDerivedView \<equiv> ''derived_view''"

abbreviation PeriodBasisFiscalExact :: string where
  "PeriodBasisFiscalExact \<equiv> ''fiscal_period_exact''"
abbreviation PeriodBasisAnalysisAsOf :: string where
  "PeriodBasisAnalysisAsOf \<equiv> ''analysis_as_of''"
abbreviation PeriodBasisNominalLabel :: string where
  "PeriodBasisNominalLabel \<equiv> ''nominal_label''"

abbreviation NormalizationNone :: string where "NormalizationNone \<equiv> ''none''"
abbreviation NormalizationIndexBase100 :: string where
  "NormalizationIndexBase100 \<equiv> ''index_base_100''"
abbreviation NormalizationPeerPercentile :: string where
  "NormalizationPeerPercentile \<equiv> ''peer_percentile''"
abbreviation NormalizationZScore :: string where "NormalizationZScore \<equiv> ''z_score''"

abbreviation RelationGreaterThan :: string where "RelationGreaterThan \<equiv> ''greater_than''"
abbreviation RelationLessThan :: string where "RelationLessThan \<equiv> ''less_than''"
abbreviation RelationEqual :: string where "RelationEqual \<equiv> ''equal_within_tolerance''"
abbreviation RelationIncomparable :: string where "RelationIncomparable \<equiv> ''incomparable''"

record NumericalVariable =
  nv_variable_id :: string
  nv_entity_id :: string
  nv_entity_label :: string
  nv_metric_id :: string
  nv_period :: string
  nv_period_basis :: string
  nv_period_start :: "gotime option"
  nv_period_end :: "gotime option"
  nv_comparison_key :: string
  nv_value_kind :: string
  nv_value :: Quantity
  nv_method :: string
  nv_formula_version :: string
  nv_baseline_refs :: "string list"
  nv_cohort_id :: string
  nv_evidence_refs :: "string list"
  nv_receipt_refs :: "string list"
  nv_warnings :: "string list"
  nv_as_of :: gotime

record NumericalRelation =
  nr_relation_id :: string
  nr_metric_id :: string
  nr_left_variable_id :: string
  nr_operator :: string
  nr_right_variable_id :: string
  nr_difference :: "Quantity option"
  nr_tolerance :: string
  nr_comparable :: bool
  nr_formula_version :: string
  nr_evidence_refs :: "string list"
  nr_receipt_refs :: "string list"
  nr_warnings :: "string list"

record NumericalContext =
  nc_schema_version :: string
  nc_context_id :: string
  nc_run_id :: string
  nc_version :: string
  nc_as_of :: gotime
  nc_variables :: "NumericalVariable list"
  nc_relations :: "NumericalRelation list"

record ContextPacket =
  pk_schema_version :: string
  pk_packet_id :: string
  pk_run_id :: string
  pk_step_id :: string
  pk_specialist_role :: string
  pk_objective :: string
  pk_scope :: Scope
  pk_findings :: "Finding list"
  pk_evidence :: "EvidenceRef list"
  pk_calculation_receipts :: "CalculationReceipt list"
  pk_numerical_context :: "NumericalContext option"
  pk_counterevidence :: "Finding list"
  pk_assumptions :: "string list"
  pk_missing_evidence :: "string list"
  pk_conflicts :: "string list"
  pk_uncertainties :: "string list"
  pk_handoff_notes :: "string list"
  pk_authority_state :: string
  pk_authority_refs :: "string list"

section \<open>Run evidence (evidence.go)\<close>

record RuntimeIdentity =
  ri_os :: string
  ri_architecture :: string
  ri_go_version :: string
  ri_python_version :: string
  ri_container_image :: string
  ri_rocm_version :: string
  ri_engine_version :: string

record GPUIdentity =
  gp_vendor :: string
  gp_product :: string
  gp_architecture :: string
  gp_vram_bytes :: int
  gp_driver :: string

record ModelIdentity =
  mi_model_id :: string
  mi_revision :: string
  mi_artifact_sha256 :: string
  mi_tokenizer_sha256 :: string
  mi_quantization :: string
  mi_runtime :: string

record DatasetIdentity =
  di_dataset_id :: string
  di_version :: string
  di_manifest_sha256 :: string
  di_split :: string

record EvidenceManifest =
  em_schema_version :: string
  em_run_id :: string
  em_code_commit :: string
  em_code_tree_sha256 :: string
  em_code_dirty :: bool
  em_created_at :: gotime
  em_runtime :: RuntimeIdentity
  em_gpu :: "GPUIdentity option"
  em_models :: "ModelIdentity list"
  em_datasets :: "DatasetIdentity list"
  em_artifacts :: "EvidenceArtifact list"
  em_manifest_sha256 :: string

record BenchmarkRow =
  br_schema_version :: string
  br_run_id :: string
  br_benchmark_id :: string
  br_case_id :: string
  br_workload_class :: string
  br_model_id :: string
  br_started_at :: gotime
  br_duration_ms :: float64
  br_success :: bool
  br_quality :: "(string \<times> float64) list"
  br_runtime :: "(string \<times> float64) list"
  br_artifact_refs :: "string list"

record TraceEvent =
  te_event_id :: string
  te_run_id :: string
  te_parent_id :: string
  te_component_id :: string
  te_artifact_id :: string
  te_event_type :: string
  te_status :: string
  te_occurred_at :: gotime
  te_duration_ms :: int
  te_safe_metadata :: "(string \<times> string) list"

record ResearchTrace =
  rt_schema_version :: string
  rt_run_id :: string
  rt_request_id :: string
  rt_started_at :: gotime
  rt_completed_at :: "gotime option"
  rt_status :: string
  rt_events :: "TraceEvent list"

record DemoEvidence =
  de_schema_version :: string
  de_demo_id :: string
  de_run_id :: string
  de_scenario_id :: string
  de_recorded_at :: gotime
  de_video_sha256 :: string
  de_trace_ref :: string
  de_manifest_ref :: string
  de_claims :: "string list"

section \<open>Research artifacts (research.go)\<close>

abbreviation EvidenceConflicting :: string where "EvidenceConflicting \<equiv> ''conflicting''"

abbreviation CritiqueApprove :: string where "CritiqueApprove \<equiv> ''approve''"
abbreviation CritiqueRepair :: string where "CritiqueRepair \<equiv> ''repair''"
abbreviation CritiqueNarrow :: string where "CritiqueNarrow \<equiv> ''narrow''"
abbreviation CritiqueReject :: string where "CritiqueReject \<equiv> ''reject''"

record EntityRef =
  en_entity_type :: string
  en_entity_id :: string
  en_mention :: string
  en_resolved :: bool

record PeriodScope =
  ps_kind :: string
  ps_lookback_years :: int
  ps_start :: "gotime option"
  ps_end :: "gotime option"
  ps_fiscal_years :: "int list"
  ps_fiscal_periods :: "string list"

record ComparisonScope =
  cs_mode :: string
  cs_entity_ids :: "string list"
  cs_metrics :: "string list"

record ResearchRequest =
  rq_schema_version :: string
  rq_request_id :: string
  rq_run_id :: string
  rq_parent_request_id :: string
  rq_lineage_evidence_refs :: "string list"
  rq_lineage_receipt_refs :: "string list"
  rq_user_text :: string
  rq_primary_intent :: string
  rq_secondary_intents :: "string list"
  rq_entities :: "EntityRef list"
  rq_period :: PeriodScope
  rq_as_of :: gotime
  rq_comparison :: ComparisonScope
  rq_answer_depth :: string
  rq_requested_outputs :: "string list"
  rq_assumptions :: "string list"
  rq_ambiguities :: "string list"
  rq_risk_flags :: "string list"
  rq_authority_state :: string
  rq_authority_refs :: "string list"
  rq_authority_reason_codes :: "string list"

record PlanStep =
  st_step_id :: string
  st_kind :: string
  st_wave :: int
  st_objective :: string
  st_role_id :: string
  st_capability_ids :: "string list"
  st_evidence_requirements :: "string list"
  st_depends_on :: "string list"
  st_mandatory :: bool
  st_context_budget_tokens :: int
  st_timeout_ms :: int

record ResearchPlan =
  pl_schema_version :: string
  pl_plan_id :: string
  pl_run_id :: string
  pl_request_id :: string
  pl_steps :: "PlanStep list"
  pl_max_parallel_specialists :: int
  pl_max_repair_passes :: int
  pl_deadline_ms :: int
  pl_completion_conditions :: "string list"
  pl_abstention_conditions :: "string list"

record ContextRequest =
  cq_schema_version :: string
  cq_context_request_id :: string
  cq_run_id :: string
  cq_step_id :: string
  cq_specialist_role :: string
  cq_objective :: string
  cq_research_question :: string
  cq_scope :: Scope
  cq_capability_ids :: "string list"
  cq_evidence_refs :: "string list"
  cq_receipt_refs :: "string list"
  cq_assumptions :: "string list"
  cq_authority_state :: string
  cq_authority_refs :: "string list"
  cq_authority_reason_codes :: "string list"
  cq_token_budget :: int

record EvidenceItem =
  eit_evidence_ref :: EvidenceRef
  eit_state :: string
  eit_statement :: string
  eit_conflict_refs :: "string list"
  eit_warnings :: "string list"

record EvidenceBundle =
  eb_schema_version :: string
  eb_bundle_id :: string
  eb_run_id :: string
  eb_step_id :: string
  eb_as_of :: gotime
  eb_items :: "EvidenceItem list"
  eb_missing :: "string list"

record ToolReceipt =
  tr_schema_version :: string
  tr_receipt_id :: string
  tr_run_id :: string
  tr_step_id :: string
  tr_tool_id :: string
  tr_status :: string
  tr_input_sha256 :: string
  tr_output_sha256 :: string
  tr_evidence_refs :: "string list"
  tr_warnings :: "string list"
  tr_started_at :: gotime
  tr_completed_at :: gotime

record CritiqueIssue =
  ci_issue_id :: string
  ci_severity :: string
  ci_claim_refs :: "string list"
  ci_description :: string
  ci_repair_hint :: string

record CritiqueReport =
  cp_schema_version :: string
  cp_report_id :: string
  cp_run_id :: string
  cp_reviewer_role :: string
  cp_decision :: string
  cp_approved_claims :: "string list"
  cp_rejected_claims :: "string list"
  cp_issues :: "CritiqueIssue list"
  cp_repair_pass :: int
  cp_created_at :: gotime

record AnswerSection =
  as_section_type :: string
  as_title :: string
  as_content :: string
  as_claim_refs :: "string list"
  as_evidence_refs :: "string list"
  as_receipt_refs :: "string list"
  as_numerical_refs :: "string list"

record FinalAnswer =
  fa_schema_version :: string
  fa_answer_id :: string
  fa_run_id :: string
  fa_request_id :: string
  fa_primary_intent :: string
  fa_as_of :: gotime
  fa_sections :: "AnswerSection list"
  fa_critique_refs :: "string list"
  fa_assumptions :: "string list"
  fa_limitations :: "string list"
  fa_next_actions :: "string list"
  fa_released_by :: string
  fa_released_at :: gotime

record MemoryCandidate =
  mc_schema_version :: string
  mc_candidate_id :: string
  mc_run_id :: string
  mc_content :: string
  mc_source_artifact_ids :: "string list"
  mc_sensitivity :: string
  mc_requires_approval :: bool
  mc_expires_at :: "gotime option"
  mc_created_at :: gotime

record FailureReceipt =
  fr_schema_version :: string
  fr_failure_id :: string
  fr_run_id :: string
  fr_step_id :: string
  fr_component_id :: string
  fr_failure_code :: string
  fr_message :: string
  fr_retryable :: bool
  fr_evidence_refs :: "string list"
  fr_created_at :: gotime

end
