(* ===== verification/Contracts_Validate.thy ===== *)
theory Contracts_Validate
  imports Contracts_Data
begin

text \<open>
  The validators of \<open>internal/contracts/validate.go\<close> and \<open>numerical.go\<close>, check by
  check in the order of the source, and what an accepted artifact satisfies: references
  resolve, identifiers are unique, nothing is later than the packet's \<open>as_of\<close>.

  The decimal library (\<open>github.com/cockroachdb/apd\<close>) is a parameter: the record
  \<open>apd_lib\<close> has the operations the validators call.
\<close>

record 'd apd_lib =
  apd_parse :: "string \<Rightarrow> 'd option"
  apd_is_finite :: "'d \<Rightarrow> bool"
  apd_negative :: "'d \<Rightarrow> bool"
  apd_make_positive :: "'d \<Rightarrow> 'd"
  apd_base_sub :: "'d \<Rightarrow> 'd \<Rightarrow> 'd"
  apd_cmp :: "'d \<Rightarrow> 'd \<Rightarrow> int"

section \<open>Envelopes, unique strings and quantities\<close>

definition validateEnvelope :: "string \<Rightarrow> string \<Rightarrow> string \<Rightarrow> go_error option" where
  "validateEnvelope schemaVersion objectID runID = first_err
     [fail_if (schemaVersion \<noteq> SchemaVersionV1)
        (Errorf ''unsupported schema_version %q'' [FStr schemaVersion]),
      fail_if (blank objectID \<or> blank runID)
        (ErrorsNew ''object identifier and run_id are required'')]"

lemma validateEnvelope_None [check_simps]:
  "validateEnvelope v o' r = None \<longleftrightarrow> v = SchemaVersionV1 \<and> \<not> blank o' \<and> \<not> blank r"
  by (simp add: validateEnvelope_def)

definition validateUniqueStrings :: "string list \<Rightarrow> string \<Rightarrow> go_error option" where
  "validateUniqueStrings values name = scan_unique
     (\<lambda>i value. fail_if (blank value) (Errorf ''%s[%d] is empty'' [FStr name, FInt (int i)]))
     trim_space
     (\<lambda>i value. Errorf ''%s[%d] duplicates %q'' [FStr name, FInt (int i), FStr (trim_space value)])
     no_check values"

lemma validateUniqueStrings_None [check_simps]:
  "validateUniqueStrings values name = None \<longleftrightarrow>
     (\<forall>v \<in> set values. \<not> blank v) \<and> distinct (map trim_space values)"
  unfolding validateUniqueStrings_def
  by (subst scan_unique_None [where P = "\<lambda>v. \<not> blank v" and Q = "\<lambda>_. True"]) auto

text \<open>The pattern \<open>^[A-Z]{3}$\<close>.\<close>

definition currencyPattern :: "string \<Rightarrow> bool" where
  "currencyPattern s \<longleftrightarrow> length s = 3 \<and> list_all (\<lambda>c. CHR ''A'' \<le> c \<and> c \<le> CHR ''Z'') s"

definition validateQuantity :: "'d apd_lib \<Rightarrow> Quantity \<Rightarrow> gotime \<Rightarrow> go_error option" where
  "validateQuantity L quantity scopeAsOf = first_err
     [fail_if (blank (qt_value quantity) \<or> blank (qt_unit quantity))
        (ErrorsNew ''value and unit are required''),
      (case apd_parse L (trim_space (qt_value quantity)) of
         None \<Rightarrow> Some (ErrorsNew ''value must be a finite decimal'')
       | Some d \<Rightarrow> fail_if (\<not> apd_is_finite L d) (ErrorsNew ''value must be a finite decimal'')),
      fail_if (qt_currency quantity \<noteq> [] \<and> \<not> currencyPattern (qt_currency quantity))
        (ErrorsNew ''currency must be an uppercase ISO-style code''),
      (case qt_as_of quantity of
         None \<Rightarrow> None
       | Some t \<Rightarrow> fail_if (\<not> is_zero_time scopeAsOf \<and> time_after t scopeAsOf)
           (ErrorsNew ''as_of cannot be later than scope.as_of''))]"

definition quantity_ok :: "'d apd_lib \<Rightarrow> gotime \<Rightarrow> Quantity \<Rightarrow> bool" where
  "quantity_ok L scopeAsOf q \<longleftrightarrow>
     \<not> blank (qt_value q) \<and> \<not> blank (qt_unit q) \<and>
     (\<exists>d. apd_parse L (trim_space (qt_value q)) = Some d \<and> apd_is_finite L d) \<and>
     (qt_currency q = [] \<or> currencyPattern (qt_currency q)) \<and>
     (\<forall>t. qt_as_of q = Some t \<longrightarrow> scopeAsOf = 0 \<or> t \<le> scopeAsOf)"

lemma validateQuantity_None [check_simps]:
  "validateQuantity L q t = None \<longleftrightarrow> quantity_ok L t q"
  by (auto simp: validateQuantity_def quantity_ok_def split: option.splits)

section \<open>Engine requests\<close>

definition check_engine_input :: "'d apd_lib \<Rightarrow> gotime \<Rightarrow> nat \<Rightarrow> EngineInput \<Rightarrow> go_error option" where
  "check_engine_input L asOf i input = first_err
     [fail_if (ei_status input \<notin> {''reported'', ''normalized'', ''derived'', ''assumed''})
        (Errorf ''inputs[%d] has unsupported status %q'' [FInt (int i), FStr (ei_status input)]),
      fail_if (ei_evidence_refs input = [] \<and> ei_status input \<noteq> ''assumed'')
        (Errorf ''inputs[%d] requires evidence or assumed status'' [FInt (int i)]),
      wrap_err ''inputs[%d].quantity: %w'' [FInt (int i)]
        (validateQuantity L (ei_quantity input) asOf),
      wrap_err ''inputs[%d]: %w'' [FInt (int i)]
        (validateUniqueStrings (ei_evidence_refs input) ''evidence_refs'')]"

definition ValidateEngineRequest :: "'d apd_lib \<Rightarrow> EngineRequest \<Rightarrow> go_error option" where
  "ValidateEngineRequest L request = first_err
     [validateEnvelope (er_schema_version request) (er_request_id request) (er_run_id request),
      fail_if (er_step_id request = [] \<or> er_requested_by request = [] \<or>
          er_engine_id request = [] \<or> er_operation_id request = [])
        (ErrorsNew ''step_id, requested_by, engine_id, and operation_id are required''),
      fail_if (er_formula_version request = [] \<or> er_precision_policy request = [])
        (ErrorsNew ''formula_version and precision_policy are required''),
      fail_if (is_zero_time (sc_as_of (er_scope request))) (ErrorsNew ''scope.as_of is required''),
      fail_if (er_inputs request = [] \<or> er_requested_outputs request = [])
        (ErrorsNew ''at least one input and requested output are required''),
      scan_unique
        (\<lambda>i input. fail_if (ei_input_id input = [] \<or> qt_value (ei_quantity input) = [] \<or>
             qt_unit (ei_quantity input) = [] \<or> ei_status input = [])
           (Errorf ''inputs[%d] is incomplete'' [FInt (int i)]))
        ei_input_id
        (\<lambda>i input. Errorf ''inputs[%d] duplicates input_id %q'' [FInt (int i), FStr (ei_input_id input)])
        (check_engine_input L (sc_as_of (er_scope request)))
        (er_inputs request),
      scan_unique
        (\<lambda>i output. fail_if (blank output) (Errorf ''requested_outputs[%d] is empty'' [FInt (int i)]))
        id
        (\<lambda>i output. Errorf ''requested_outputs[%d] duplicates %q'' [FInt (int i), FStr output])
        no_check
        (er_requested_outputs request)]"

section \<open>Calculation receipts\<close>

definition check_receipt_outputs :: "'d apd_lib \<Rightarrow> gotime \<Rightarrow> ReceiptOutput list \<Rightarrow> go_error option" where
  "check_receipt_outputs L asOf outputs = scan_unique
     (\<lambda>i output. fail_if (blank (ro_output_id output) \<or> blank (ro_status output))
        (Errorf ''outputs[%d] is incomplete'' [FInt (int i)]))
     ro_output_id
     (\<lambda>i output. Errorf ''outputs[%d] duplicates output_id %q'' [FInt (int i), FStr (ro_output_id output)])
     (\<lambda>i output. wrap_err ''outputs[%d].quantity: %w'' [FInt (int i)]
        (validateQuantity L (ro_quantity output) asOf))
     outputs"

definition ValidateCalculationReceipt :: "'d apd_lib \<Rightarrow> CalculationReceipt \<Rightarrow> go_error option" where
  "ValidateCalculationReceipt L receipt = first_err
     [fail_if (cr_schema_version receipt \<noteq> SchemaVersionV1)
        (Errorf ''unsupported schema_version %q'' [FStr (cr_schema_version receipt)]),
      fail_if (cr_receipt_id receipt = [] \<or> cr_request_id receipt = [] \<or>
          cr_engine_id receipt = [] \<or> cr_operation_id receipt = [])
        (ErrorsNew ''receipt_id, request_id, engine_id, and operation_id are required''),
      fail_if (is_zero_time (cr_generated_at receipt) \<or> is_zero_time (cr_source_as_of receipt))
        (ErrorsNew ''generated_at and source_as_of are required''),
      fail_if (cr_code_commit receipt = [] \<or> cr_input_sha256 receipt = [] \<or> cr_receipt_sha256 receipt = [])
        (ErrorsNew ''reproducibility hashes and code_commit are required''),
      fail_if (time_before (cr_generated_at receipt) (cr_source_as_of receipt))
        (ErrorsNew ''generated_at cannot precede source_as_of''),
      fail_if (\<not> is_zero_time (sc_as_of (cr_scope receipt)) \<and>
          time_after (cr_source_as_of receipt) (sc_as_of (cr_scope receipt)))
        (ErrorsNew ''source_as_of cannot be later than scope.as_of''),
      validateUniqueStrings (cr_evidence_refs receipt) ''evidence_refs'',
      check_receipt_outputs L (cr_source_as_of receipt)
        (cr_intermediate_values receipt @ cr_outputs receipt),
      (if cr_status receipt = ReceiptSuccess then first_err
         [fail_if (cr_outputs receipt = []) (ErrorsNew ''successful receipt requires outputs''),
          range_err (\<lambda>_ invariant. fail_if (\<not> iv_passed invariant)
              (Errorf ''successful receipt has failed invariant %q'' [FStr (iv_invariant_id invariant)]))
            (cr_invariant_results receipt)]
       else None)]"

section \<open>Numerical contexts\<close>

definition validNormalizationMethod :: "string \<Rightarrow> bool" where
  "validNormalizationMethod method \<longleftrightarrow> method \<in>
     {NormalizationNone, ''common_size'', ''temporal_growth'', ''cagr'',
      NormalizationIndexBase100, NormalizationPeerPercentile, NormalizationZScore,
      ''scenario_output'', ''market_statistic'', ''multiple'', ''absolute_derived''}"

definition check_period_basis :: "NumericalVariable \<Rightarrow> gotime \<Rightarrow> go_error option" where
  "check_period_basis variable contextAsOf =
     (if nv_period_basis variable = PeriodBasisFiscalExact then
        (case (nv_period_start variable, nv_period_end variable) of
           (Some start, Some end') \<Rightarrow>
             fail_if (\<not> time_after end' start \<or> time_after end' contextAsOf)
               (ErrorsNew ''exact fiscal period requires valid non-future start and end'')
         | _ \<Rightarrow> Some (ErrorsNew ''exact fiscal period requires valid non-future start and end''))
      else if nv_period_basis variable \<in> {PeriodBasisAnalysisAsOf, PeriodBasisNominalLabel} then
        fail_if (nv_period_start variable \<noteq> None \<or> nv_period_end variable \<noteq> None)
          (ErrorsNew ''non-fiscal period basis cannot carry exact fiscal boundaries'')
      else Some (Errorf ''unsupported numerical period basis %q'' [FStr (nv_period_basis variable)]))"

definition finite_decimal :: "'d apd_lib \<Rightarrow> string \<Rightarrow> bool" where
  "finite_decimal L s = (case apd_parse L s of None \<Rightarrow> False | Some d \<Rightarrow> apd_is_finite L d)"

definition validateNumericalVariable ::
  "'d apd_lib \<Rightarrow> NumericalVariable \<Rightarrow> gotime \<Rightarrow> go_error option" where
  "validateNumericalVariable L variable contextAsOf = first_err
     [fail_if (nv_variable_id variable = [] \<or> nv_entity_id variable = [] \<or>
          nv_metric_id variable = [] \<or> nv_period variable = [] \<or>
          nv_comparison_key variable = [] \<or> is_zero_time (nv_as_of variable))
        (ErrorsNew ''variable_id, entity_id, metric_id, period, comparison_key, and as_of are required''),
      fail_if (time_after (nv_as_of variable) contextAsOf \<or>
          (case qt_as_of (nv_value variable) of None \<Rightarrow> False | Some t \<Rightarrow> time_after t contextAsOf))
        (ErrorsNew ''numerical variable leaks information after context as_of''),
      check_period_basis variable contextAsOf,
      fail_if (\<not> finite_decimal L (qt_value (nv_value variable)) \<or> qt_unit (nv_value variable) = [])
        (ErrorsNew ''numerical variable requires a finite decimal value and unit''),
      (if nv_value_kind variable = NumericalActual then
         fail_if (nv_method variable \<noteq> NormalizationNone \<or> nv_evidence_refs variable = [])
           (ErrorsNew ''actual variable requires method none and evidence_refs'')
       else first_err
         [fail_if (nv_value_kind variable \<noteq> NumericalDerivedView \<or>
              \<not> validNormalizationMethod (nv_method variable) \<or> nv_method variable = NormalizationNone)
            (ErrorsNew ''derived variable requires an allowed normalization method''),
          fail_if (nv_formula_version variable = [] \<or> nv_receipt_refs variable = [])
            (ErrorsNew ''derived variable requires formula_version and receipt_refs''),
          fail_if (nv_method variable = NormalizationIndexBase100 \<and> nv_baseline_refs variable = [])
            (ErrorsNew ''index-base-100 variable requires baseline_refs''),
          fail_if (nv_method variable \<in> {NormalizationPeerPercentile, NormalizationZScore} \<and>
              nv_cohort_id variable = [])
            (ErrorsNew ''peer-normalized variable requires cohort_id'')])]"

definition NumericalVariablesComparable :: "NumericalVariable \<Rightarrow> NumericalVariable \<Rightarrow> bool" where
  "NumericalVariablesComparable left right \<longleftrightarrow>
     qt_unit (nv_value left) = qt_unit (nv_value right) \<and>
     qt_currency (nv_value left) = qt_currency (nv_value right) \<and>
     nv_period_basis left = nv_period_basis right \<and>
     nv_comparison_key left = nv_comparison_key right"

definition defaultTolerance :: "string \<Rightarrow> string" where
  "defaultTolerance value = (if blank value then ''0'' else value)"

text \<open>
  The last part of \<open>validateNumericalRelation\<close>: the difference and the operator are
  recomputed from the values. A value that does not parse would be a nil pointer there.
\<close>

definition recomputed_difference :: "'d apd_lib \<Rightarrow> 'd \<Rightarrow> 'd \<Rightarrow> 'd" where
  "recomputed_difference L leftValue rightValue =
     (let difference = apd_base_sub L leftValue rightValue
      in if apd_negative L difference then apd_make_positive L difference else difference)"

definition recomputed_operator :: "'d apd_lib \<Rightarrow> 'd \<Rightarrow> 'd \<Rightarrow> 'd \<Rightarrow> string" where
  "recomputed_operator L leftValue rightValue tolerance =
     (let order = (if apd_cmp L (recomputed_difference L leftValue rightValue) tolerance \<le> 0 then 0
                   else apd_cmp L leftValue rightValue)
      in if order > 0 then RelationGreaterThan
         else if order < 0 then RelationLessThan else RelationEqual)"

definition check_relation_values ::
  "'d apd_lib \<Rightarrow> NumericalRelation \<Rightarrow> NumericalVariable \<Rightarrow> NumericalVariable \<Rightarrow> Quantity \<Rightarrow> go_error option"
where
  "check_relation_values L relation left right recorded =
     (case (apd_parse L (qt_value (nv_value left)), apd_parse L (qt_value (nv_value right))) of
        (Some leftValue, Some rightValue) \<Rightarrow>
          (case apd_parse L (defaultTolerance (nr_tolerance relation)) of
             None \<Rightarrow> Some (ErrorsNew ''relation tolerance must be a non-negative decimal'')
           | Some tolerance \<Rightarrow> first_err
               [fail_if (\<not> apd_is_finite L tolerance \<or> apd_negative L tolerance)
                  (ErrorsNew ''relation tolerance must be a non-negative decimal''),
                (case apd_parse L (qt_value recorded) of
                   None \<Rightarrow> Some (ErrorsNew ''relation difference does not match the underlying values'')
                 | Some recordedDifference \<Rightarrow> fail_if
                     (apd_cmp L recordedDifference (recomputed_difference L leftValue rightValue) \<noteq> 0 \<or>
                      qt_unit recorded \<noteq> qt_unit (nv_value left) \<or>
                      qt_currency recorded \<noteq> qt_currency (nv_value left))
                     (ErrorsNew ''relation difference does not match the underlying values'')),
                fail_if (nr_operator relation \<noteq> recomputed_operator L leftValue rightValue tolerance)
                  (Errorf ''relation operator %q contradicts recomputed operator %q''
                     [FStr (nr_operator relation),
                      FStr (recomputed_operator L leftValue rightValue tolerance)])])
      | _ \<Rightarrow> Some (Panic ''nil decimal''))"

definition validateNumericalRelation ::
  "'d apd_lib \<Rightarrow> NumericalRelation \<Rightarrow> (string \<Rightarrow> NumericalVariable option) \<Rightarrow> go_error option" where
  "validateNumericalRelation L relation variables = first_err
     [fail_if (nr_relation_id relation = [] \<or> nr_metric_id relation = [] \<or>
          nr_left_variable_id relation = [] \<or> nr_right_variable_id relation = [] \<or>
          nr_formula_version relation = [])
        (ErrorsNew ''relation identity and formula_version are required''),
      fail_if (nr_left_variable_id relation = nr_right_variable_id relation)
        (ErrorsNew ''relation requires two distinct variables''),
      (case (variables (nr_left_variable_id relation), variables (nr_right_variable_id relation)) of
         (Some left, Some right) \<Rightarrow> first_err
           [fail_if (nr_metric_id relation \<noteq> nv_metric_id left \<or>
                nr_metric_id relation \<noteq> nv_metric_id right)
              (ErrorsNew ''relation metric differs from variable metrics''),
            (if \<not> nr_comparable relation then
               fail_if (nr_operator relation \<noteq> RelationIncomparable \<or>
                   NumericalVariablesComparable left right \<or> nr_warnings relation = [] \<or>
                   nr_difference relation \<noteq> None)
                 (ErrorsNew ''incomparable relation requires incompatibility, warning, and no difference'')
             else if \<not> NumericalVariablesComparable left right \<or>
                 nr_operator relation = RelationIncomparable \<or> nr_receipt_refs relation = [] then
               Some (ErrorsNew ''comparable relation requires compatible variables, operator, difference, and receipts'')
             else (case nr_difference relation of
                 None \<Rightarrow> Some (ErrorsNew ''comparable relation requires compatible variables, operator, difference, and receipts'')
               | Some recorded \<Rightarrow> check_relation_values L relation left right recorded))]
       | _ \<Rightarrow> Some (ErrorsNew ''relation references an unknown variable''))]"

definition check_baselines :: "NumericalVariable list \<Rightarrow> go_error option" where
  "check_baselines vars =
     range_err (\<lambda>i variable. range_err (\<lambda>_ reference.
         fail_if (reference \<notin> nv_variable_id ` set vars)
           (Errorf ''variables[%d] references unknown baseline %q'' [FInt (int i), FStr reference]))
         (nv_baseline_refs variable))
       vars"

text \<open>
  In the loop over relations the duplicate test comes first, then the collision with a
  variable identifier, then the relation's own checks.
\<close>

definition check_relations ::
  "'d apd_lib \<Rightarrow> NumericalVariable list \<Rightarrow> NumericalRelation list \<Rightarrow> go_error option" where
  "check_relations L vars relations = scan_unique
     no_check nr_relation_id
     (\<lambda>i relation. Errorf ''relations[%d] duplicates %q'' [FInt (int i), FStr (nr_relation_id relation)])
     (\<lambda>i relation. first_err
        [fail_if (nr_relation_id relation \<in> nv_variable_id ` set vars)
           (Errorf ''relations[%d] identifier %q collides with a variable''
              [FInt (int i), FStr (nr_relation_id relation)]),
         wrap_err ''relations[%d]: %w'' [FInt (int i)]
           (validateNumericalRelation L relation (index_by nv_variable_id vars))])
     relations"

definition ValidateNumericalContext :: "'d apd_lib \<Rightarrow> NumericalContext \<Rightarrow> go_error option" where
  "ValidateNumericalContext L context = first_err
     [validateEnvelope (nc_schema_version context) (nc_context_id context) (nc_run_id context),
      fail_if (nc_version context \<noteq> NumericalContextVersionV1 \<or>
          is_zero_time (nc_as_of context) \<or> nc_variables context = [])
        (ErrorsNew ''numerical context requires version, as_of, and variables''),
      scan_unique
        (\<lambda>i variable. wrap_err ''variables[%d]: %w'' [FInt (int i)]
           (validateNumericalVariable L variable (nc_as_of context)))
        nv_variable_id
        (\<lambda>i variable. Errorf ''variables[%d] duplicates %q'' [FInt (int i), FStr (nv_variable_id variable)])
        no_check
        (nc_variables context),
      check_baselines (nc_variables context),
      check_relations L (nc_variables context) (nc_relations context)]"

text \<open>\<open>SortNumericalContext\<close> sorts both slices by identifier, not stably.\<close>

definition SortNumericalContext :: "NumericalContext \<Rightarrow> NumericalContext" where
  "SortNumericalContext context = context
     \<lparr>nc_variables := sort_key nv_variable_id (nc_variables context),
      nc_relations := sort_key nr_relation_id (nc_relations context)\<rparr>"

section \<open>Findings\<close>

definition validateFinding :: "Finding \<Rightarrow> go_error option" where
  "validateFinding finding = first_err
     [fail_if (fd_claim_id finding = [] \<or> blank (fd_statement finding))
        (ErrorsNew ''claim_id and statement are required''),
      fail_if (float_lt (fd_confidence finding) (Finite 0) \<or> float_lt (Finite 1) (fd_confidence finding))
        (ErrorsNew ''confidence must be between 0 and 1''),
      fail_if (is_zero_time (fd_valid_as_of finding)) (ErrorsNew ''valid_as_of is required''),
      fail_if (fd_origin finding \<notin> {[], FindingOriginDeterministic, FindingOriginSourceExtraction})
        (Errorf ''unsupported finding origin %q'' [FStr (fd_origin finding)]),
      fail_if (fd_origin finding = FindingOriginDeterministic \<and> fd_claim_type finding \<noteq> ClaimCalculation)
        (ErrorsNew ''deterministic finding origin requires calculation claim_type''),
      fail_if (fd_origin finding = FindingOriginSourceExtraction \<and> fd_claim_type finding \<noteq> ClaimFact)
        (ErrorsNew ''source extraction origin requires fact claim_type''),
      (if fd_claim_type finding = ClaimFact then
         fail_if (fd_evidence_refs finding = []) (ErrorsNew ''fact requires evidence_refs'')
       else if fd_claim_type finding = ClaimCalculation then
         fail_if (fd_calculation_refs finding = []) (ErrorsNew ''calculation requires calculation_refs'')
       else if fd_claim_type finding = ClaimInference then
         fail_if (length (fd_evidence_refs finding) + length (fd_calculation_refs finding) +
              length (fd_numerical_refs finding) = 0 \<or> fd_assumption_refs finding = [])
           (ErrorsNew ''inference requires support and assumption_refs'')
       else if fd_claim_type finding = ClaimHypothesis then
         fail_if (length (fd_evidence_refs finding) + length (fd_calculation_refs finding) +
              length (fd_numerical_refs finding) + length (fd_assumption_refs finding) = 0)
           (ErrorsNew ''hypothesis requires support or an explicit assumption'')
       else Some (Errorf ''unsupported claim_type %q'' [FStr (fd_claim_type finding)]))]"

definition validateFindingReferences ::
  "Finding \<Rightarrow> string list \<Rightarrow> string list \<Rightarrow> go_error option" where
  "validateFindingReferences finding evidence assumptions = first_err
     [validateUniqueStrings (fd_evidence_refs finding) ''evidence_refs'',
      validateUniqueStrings (fd_calculation_refs finding) ''calculation_refs'',
      validateUniqueStrings (fd_numerical_refs finding) ''numerical_refs'',
      validateUniqueStrings (fd_assumption_refs finding) ''assumption_refs'',
      range_err (\<lambda>_ reference. fail_if (reference \<notin> set evidence)
          (Errorf ''references missing evidence %q'' [FStr reference])) (fd_evidence_refs finding),
      range_err (\<lambda>_ reference. fail_if (reference \<notin> set assumptions)
          (Errorf ''references missing assumption %q'' [FStr reference])) (fd_assumption_refs finding)]"

section \<open>Context packets\<close>

definition check_packet_evidence :: "gotime \<Rightarrow> EvidenceRef list \<Rightarrow> go_error option" where
  "check_packet_evidence asOf evidence = scan_unique
     (\<lambda>i item. first_err
        [fail_if (blank (ev_evidence_id item) \<or> blank (ev_source_type item) \<or>
             blank (ev_locator item) \<or> blank (ev_content_sha256 item) \<or> is_zero_time (ev_as_of item))
           (Errorf ''evidence[%d] is incomplete'' [FInt (int i)]),
         fail_if (time_after (ev_as_of item) asOf)
           (Errorf ''evidence[%d] is later than scope.as_of'' [FInt (int i)])])
     ev_evidence_id
     (\<lambda>i item. Errorf ''evidence[%d] duplicates %q'' [FInt (int i), FStr (ev_evidence_id item)])
     no_check evidence"

definition check_packet_assumptions :: "string list \<Rightarrow> go_error option" where
  "check_packet_assumptions assumptions = scan_unique
     (\<lambda>i a. fail_if (blank a) (Errorf ''assumptions[%d] is empty'' [FInt (int i)]))
     trim_space
     (\<lambda>i a. Errorf ''assumptions[%d] duplicates %q'' [FInt (int i), FStr (trim_space a)])
     no_check assumptions"

definition check_packet_receipts ::
  "'d apd_lib \<Rightarrow> gotime \<Rightarrow> CalculationReceipt list \<Rightarrow> go_error option" where
  "check_packet_receipts L asOf receipts = scan_unique
     (\<lambda>i receipt. wrap_err ''calculation_receipts[%d]: %w'' [FInt (int i)]
        (ValidateCalculationReceipt L receipt))
     cr_receipt_id
     (\<lambda>i receipt. Errorf ''calculation_receipts[%d] duplicates %q'' [FInt (int i), FStr (cr_receipt_id receipt)])
     (\<lambda>i receipt. fail_if (time_after (cr_source_as_of receipt) asOf)
        (Errorf ''calculation_receipts[%d] is later than scope.as_of'' [FInt (int i)]))
     receipts"

definition missing_receipt :: "string \<Rightarrow> string \<Rightarrow> string list \<Rightarrow> string list \<Rightarrow> go_error option" where
  "missing_receipt label item receipts refs = range_err (\<lambda>_ receiptID.
     fail_if (receiptID \<notin> set receipts)
       (Errorf (''numerical '' @ label @ '' %q references missing calculation receipt %q'')
          [FStr item, FStr receiptID])) refs"

definition check_packet_numerical ::
  "'d apd_lib \<Rightarrow> string \<Rightarrow> gotime \<Rightarrow> string list \<Rightarrow> NumericalContext option \<Rightarrow> go_error option" where
  "check_packet_numerical L runID asOf receipts numerical =
     (case numerical of None \<Rightarrow> None
      | Some context \<Rightarrow> first_err
          [fail_if (nc_run_id context \<noteq> runID \<or> time_after (nc_as_of context) asOf)
             (ErrorsNew ''numerical context does not match packet run or as_of''),
           wrap_err ''numerical_context: %w'' [] (ValidateNumericalContext L context),
           range_err (\<lambda>_ variable. missing_receipt ''variable'' (nv_variable_id variable) receipts
               (nv_receipt_refs variable)) (nc_variables context),
           range_err (\<lambda>_ relation. missing_receipt ''relation'' (nr_relation_id relation) receipts
               (nr_receipt_refs relation)) (nc_relations context)])"

definition numerical_ids :: "NumericalContext option \<Rightarrow> string list" where
  "numerical_ids numerical =
     (case numerical of None \<Rightarrow> []
      | Some context \<Rightarrow> map nv_variable_id (nc_variables context) @ map nr_relation_id (nc_relations context))"

text \<open>The two loops over findings and counterevidence differ only in the label of errors.\<close>

definition check_packet_finding ::
  "string \<Rightarrow> gotime \<Rightarrow> string list \<Rightarrow> string list \<Rightarrow> string list \<Rightarrow> string list \<Rightarrow>
   nat \<Rightarrow> Finding \<Rightarrow> go_error option" where
  "check_packet_finding label asOf evidence assumptions receipts numericalRefs i finding = first_err
     [wrap_err (label @ ''[%d]: %w'') [FInt (int i)] (validateFinding finding),
      fail_if (time_after (fd_valid_as_of finding) asOf)
        (Errorf (label @ ''[%d] is later than scope.as_of'') [FInt (int i)]),
      wrap_err (label @ ''[%d]: %w'') [FInt (int i)]
        (validateFindingReferences finding evidence assumptions),
      range_err (\<lambda>_ receiptID. fail_if (receiptID \<notin> set receipts)
          (Errorf (label @ ''[%d] references missing calculation receipt %q'')
             [FInt (int i), FStr receiptID])) (fd_calculation_refs finding),
      range_err (\<lambda>_ numericalID. fail_if (numericalID \<notin> set numericalRefs)
          (Errorf (label @ ''[%d] references missing numerical item %q'')
             [FInt (int i), FStr numericalID])) (fd_numerical_refs finding)]"

definition check_packet_conflicts :: "string list \<Rightarrow> go_error option" where
  "check_packet_conflicts conflicts = scan_unique
     (\<lambda>i conflict. fail_if (blank conflict) (Errorf ''conflicts[%d] is empty'' [FInt (int i)]))
     id
     (\<lambda>i conflict. Errorf ''conflicts[%d] duplicates %q'' [FInt (int i), FStr conflict])
     no_check conflicts"

definition ValidateContextPacket :: "'d apd_lib \<Rightarrow> ContextPacket \<Rightarrow> go_error option" where
  "ValidateContextPacket L packet =
     (let asOf = sc_as_of (pk_scope packet);
          evidence = map ev_evidence_id (pk_evidence packet);
          assumptions = map trim_space (pk_assumptions packet);
          receipts = map cr_receipt_id (pk_calculation_receipts packet);
          numericalRefs = numerical_ids (pk_numerical_context packet)
      in first_err
     [validateEnvelope (pk_schema_version packet) (pk_packet_id packet) (pk_run_id packet),
      fail_if (blank (pk_step_id packet) \<or> blank (pk_specialist_role packet))
        (ErrorsNew ''step_id and specialist_role are required''),
      fail_if (blank (pk_objective packet)) (ErrorsNew ''objective is required''),
      fail_if (is_zero_time asOf) (ErrorsNew ''scope.as_of is required''),
      check_packet_evidence asOf (pk_evidence packet),
      check_packet_assumptions (pk_assumptions packet),
      check_packet_receipts L asOf (pk_calculation_receipts packet),
      check_packet_numerical L (pk_run_id packet) asOf receipts (pk_numerical_context packet),
      range_err (check_packet_finding ''findings'' asOf evidence assumptions receipts numericalRefs)
        (pk_findings packet),
      range_err (check_packet_finding ''counterevidence'' asOf evidence assumptions receipts numericalRefs)
        (pk_counterevidence packet),
      check_packet_conflicts (pk_conflicts packet)])"

end
