(* ===== verification/Research_Validate.thy ===== *)
theory Research_Validate
  imports Contracts_Validate
begin

text \<open>
  The validators of \<open>internal/contracts/validate_research.go\<close>: requests, plans with the
  search for dependency cycles, context requests, evidence bundles, tool receipts, critiques,
  final answers, memory candidates and failure receipts.
\<close>

section \<open>Research requests\<close>

abbreviation researchIntents :: "string list" where
  "researchIntents \<equiv> [''company_understanding'', ''financial_quality'', ''economic_transmission'',
     ''valuation'', ''company_comparison'', ''concept_education'', ''market_behavior'', ''thesis_review'']"

definition validResearchIntents :: "string \<Rightarrow> bool" where
  "validResearchIntents intent \<longleftrightarrow> intent \<in> set researchIntents"

text \<open>
  The loops over \<open>map[string][]string{\<dots>}\<close> visit the labelled slices in an unspecified
  order; here the order is that of the argument, and \<open>labelled_unique_None\<close> shows that
  acceptance does not depend on it.
\<close>

definition labelled_unique :: "(string \<times> string list) list \<Rightarrow> go_error option" where
  "labelled_unique labelled = range_err (\<lambda>_ (label, values). scan_unique
       (\<lambda>i value. fail_if (blank value) (Errorf ''%s[%d] is empty or duplicated'' [FStr label, FInt (int i)]))
       id
       (\<lambda>i value. Errorf ''%s[%d] is empty or duplicated'' [FStr label, FInt (int i)])
       no_check values) labelled"

definition labelled_ok :: "(string \<times> string list) list \<Rightarrow> bool" where
  "labelled_ok labelled \<longleftrightarrow>
     (\<forall>(label, values) \<in> set labelled. (\<forall>v \<in> set values. \<not> blank v) \<and> distinct values)"

lemma labelled_unique_None [check_simps]:
  "labelled_unique labelled = None \<longleftrightarrow> labelled_ok labelled"
  unfolding labelled_unique_def labelled_ok_def
proof (rule range_err_None_uniform, clarify)
  fix l and vs :: "string list"
  show "scan_unique (\<lambda>i value. fail_if (blank value)
      (Errorf ''%s[%d] is empty or duplicated'' [FStr l, FInt (int i)])) id
      (\<lambda>i value. Errorf ''%s[%d] is empty or duplicated'' [FStr l, FInt (int i)]) no_check vs = None
    \<longleftrightarrow> (\<forall>v \<in> set vs. \<not> blank v) \<and> distinct vs"
    by (subst scan_unique_None [where P = "\<lambda>v. \<not> blank v" and Q = "\<lambda>_. True"]) auto
qed

definition validateAuthority :: "string \<Rightarrow> string list \<Rightarrow> string list \<Rightarrow> go_error option" where
  "validateAuthority state refs reasons =
     (if state = [] then
        fail_if (refs \<noteq> [] \<or> reasons \<noteq> [])
          (ErrorsNew ''authority references and reasons require authority_state'')
      else first_err
        [fail_if (state \<notin> {''data_ready'', ''research_ready'', ''comparison_ready'', ''limited'', ''quarantined''})
           (Errorf ''unsupported authority_state %q'' [FStr state]),
         fail_if (refs = [])
           (ErrorsNew ''authority_state requires at least one immutable authority reference''),
         labelled_unique [(''authority_refs'', refs), (''authority_reason_codes'', reasons)]])"

text \<open>
  In the loop over entities the map records an identifier only when it is not empty, so
  several entities may have none.
\<close>

fun check_entities :: "nat \<Rightarrow> string list \<Rightarrow> EntityRef list \<Rightarrow> go_error option" where
  "check_entities i entityIDs [] = None"
| "check_entities i entityIDs (entity # entities) =
     (if en_entity_type entity = [] \<or> en_mention entity = [] \<or>
         (en_resolved entity \<and> en_entity_id entity = []) then
        Some (Errorf ''entities[%d] is incomplete'' [FInt (int i)])
      else if en_entity_id entity \<noteq> [] \<and> en_entity_id entity \<in> set entityIDs then
        Some (Errorf ''entities[%d] duplicates entity_id %q'' [FInt (int i), FStr (en_entity_id entity)])
      else check_entities (Suc i)
        (if en_entity_id entity \<noteq> [] then en_entity_id entity # entityIDs else entityIDs) entities)"

definition ValidateResearchRequest :: "ResearchRequest \<Rightarrow> go_error option" where
  "ValidateResearchRequest request = first_err
     [validateEnvelope (rq_schema_version request) (rq_request_id request) (rq_run_id request),
      fail_if (blank (rq_user_text request) \<or> rq_primary_intent request = [] \<or>
          is_zero_time (rq_as_of request))
        (ErrorsNew ''user_text, primary_intent, and as_of are required''),
      fail_if (\<not> validResearchIntents (rq_primary_intent request))
        (Errorf ''unsupported primary_intent %q'' [FStr (rq_primary_intent request)]),
      fail_if (rq_parent_request_id request = [] \<and>
          (rq_lineage_evidence_refs request \<noteq> [] \<or> rq_lineage_receipt_refs request \<noteq> []))
        (ErrorsNew ''lineage references require parent_request_id''),
      labelled_unique
        [(''lineage_evidence_refs'', rq_lineage_evidence_refs request),
         (''lineage_receipt_refs'', rq_lineage_receipt_refs request),
         (''authority_refs'', rq_authority_refs request),
         (''authority_reason_codes'', rq_authority_reason_codes request)],
      range_err (\<lambda>_ intent. fail_if (\<not> validResearchIntents intent \<or> intent = rq_primary_intent request)
          (Errorf ''unsupported or duplicate secondary_intent %q'' [FStr intent]))
        (rq_secondary_intents request),
      fail_if (ps_kind (rq_period request) = [] \<or> ps_lookback_years (rq_period request) < 0 \<or>
          ps_lookback_years (rq_period request) > 20)
        (ErrorsNew ''period kind and a bounded lookback are required''),
      fail_if (cs_mode (rq_comparison request) \<notin> {''none'', ''peer'', ''benchmark''})
        (Errorf ''unsupported comparison mode %q'' [FStr (cs_mode (rq_comparison request))]),
      check_entities 0 [] (rq_entities request),
      fail_if (rq_answer_depth request \<notin> {''brief'', ''standard'', ''deep''})
        (Errorf ''unsupported answer_depth %q'' [FStr (rq_answer_depth request)]),
      fail_if (rq_requested_outputs request = []) (ErrorsNew ''requested_outputs cannot be empty''),
      validateAuthority (rq_authority_state request) (rq_authority_refs request)
        (rq_authority_reason_codes request)]"

section \<open>Research plans\<close>

definition effectiveWave :: "int \<Rightarrow> int" where
  "effectiveWave wave = (if wave = 0 then 1 else wave)"

text \<open>The counters the loop over the steps keeps.\<close>

record plan_counters =
  pc_seen :: "string list"
  pc_waves :: "int list"
  pc_context :: nat
  pc_synthesis :: nat

definition check_step_kind :: "ResearchPlan \<Rightarrow> plan_counters \<Rightarrow> PlanStep \<Rightarrow> go_error + plan_counters" where
  "check_step_kind plan c step =
     (if st_kind step = ''context'' then
        (let wave = effectiveWave (st_wave step);
             c1 = c\<lparr>pc_context := Suc (pc_context c), pc_waves := wave # pc_waves c\<rparr>
         in if wave < 1 \<or> wave > 4 then
              Inl (Errorf ''context step %q has invalid wave %d'' [FStr (st_step_id step), FInt (st_wave step)])
            else if int (count_list (pc_waves c1) wave) > pl_max_parallel_specialists plan then
              Inl (Errorf ''context wave %d exceeds max_parallel_specialists'' [FInt wave])
            else Inr c1)
      else if st_kind step = ''review'' then Inr c
      else if st_kind step = ''synthesis'' then
        (if st_capability_ids step \<noteq> [] then
           Inl (ErrorsNew ''synthesis steps cannot execute capabilities'')
         else Inr (c\<lparr>pc_synthesis := Suc (pc_synthesis c)\<rparr>))
      else Inl (Errorf ''step %q has unsupported kind %q'' [FStr (st_step_id step), FStr (st_kind step)]))"

definition check_step_capabilities :: "PlanStep \<Rightarrow> go_error option" where
  "check_step_capabilities step = scan_unique
     (\<lambda>_ capabilityID. fail_if (blank capabilityID)
        (Errorf ''step %q has an empty or duplicate capability'' [FStr (st_step_id step)]))
     id
     (\<lambda>_ capabilityID. Errorf ''step %q has an empty or duplicate capability'' [FStr (st_step_id step)])
     no_check (st_capability_ids step)"

definition check_plan_step :: "ResearchPlan \<Rightarrow> plan_counters \<Rightarrow> PlanStep \<Rightarrow> go_error + plan_counters" where
  "check_plan_step plan c step =
     (if st_step_id step = [] \<or> st_objective step = [] \<or> st_role_id step = [] \<or>
         st_context_budget_tokens step \<le> 0 \<or> st_timeout_ms step \<le> 0 \<or>
         st_timeout_ms step > pl_deadline_ms plan then
        Inl (Errorf ''invalid step %q'' [FStr (st_step_id step)])
      else res_bind (check_step_kind plan c step) (\<lambda>c1.
        check_then (check_step_capabilities step)
          (if st_step_id step \<in> set (pc_seen c1) then
             Inl (Errorf ''duplicate step %q'' [FStr (st_step_id step)])
           else Inr (c1\<lparr>pc_seen := st_step_id step # pc_seen c1\<rparr>))))"

fun check_plan_steps :: "ResearchPlan \<Rightarrow> plan_counters \<Rightarrow> PlanStep list \<Rightarrow> go_error + plan_counters" where
  "check_plan_steps plan c [] = Inr c"
| "check_plan_steps plan c (step # steps) =
     res_bind (check_plan_step plan c step) (\<lambda>c1. check_plan_steps plan c1 steps)"

definition check_dependencies :: "PlanStep list \<Rightarrow> go_error option" where
  "check_dependencies steps = range_err (\<lambda>_ step. range_err (\<lambda>_ dependency.
      (case index_by st_step_id steps dependency of
         None \<Rightarrow> Some (Errorf ''step %q has unknown dependency %q'' [FStr (st_step_id step), FStr dependency])
       | Some dependencyStep \<Rightarrow> fail_if
           (st_kind step = ''context'' \<and> st_kind dependencyStep = ''context'' \<and>
            effectiveWave (st_wave dependencyStep) \<ge> effectiveWave (st_wave step))
           (Errorf ''context step %q must depend only on an earlier context wave'' [FStr (st_step_id step)])))
      (st_depends_on step)) steps"

section \<open>Critiques\<close>

definition ValidateCritiqueReport :: "CritiqueReport \<Rightarrow> go_error option" where
  "ValidateCritiqueReport report = first_err
     [validateEnvelope (cp_schema_version report) (cp_report_id report) (cp_run_id report),
      fail_if (cp_reviewer_role report = [] \<or> is_zero_time (cp_created_at report) \<or>
          cp_repair_pass report < 0 \<or> cp_repair_pass report > 1)
        (ErrorsNew ''critique report is incomplete''),
      (if cp_decision report = CritiqueApprove then
         fail_if (cp_approved_claims report = []) (ErrorsNew ''approval requires approved_claims'')
       else if cp_decision report \<in> {CritiqueRepair, CritiqueNarrow, CritiqueReject} then
         fail_if (cp_issues report = []) (ErrorsNew ''non-approval decision requires issues'')
       else Some (Errorf ''invalid critique decision %q'' [FStr (cp_decision report)]))]"

section \<open>Context requests, evidence bundles and tool receipts\<close>

definition ValidateContextRequest :: "ContextRequest \<Rightarrow> go_error option" where
  "ValidateContextRequest request = first_err
     [validateEnvelope (cq_schema_version request) (cq_context_request_id request) (cq_run_id request),
      fail_if (cq_step_id request = [] \<or> cq_specialist_role request = [] \<or> cq_objective request = [] \<or>
          blank (cq_research_question request) \<or> is_zero_time (sc_as_of (cq_scope request)) \<or>
          cq_token_budget request \<le> 0)
        (ErrorsNew ''context request is incomplete''),
      scan_unique
        (\<lambda>i c. fail_if (blank c) (Errorf ''capability_ids[%d] is empty or duplicated'' [FInt (int i)]))
        id
        (\<lambda>i c. Errorf ''capability_ids[%d] is empty or duplicated'' [FInt (int i)])
        no_check (cq_capability_ids request),
      scan_unique
        (\<lambda>i a. fail_if (blank a) (Errorf ''assumptions[%d] is empty or duplicated'' [FInt (int i)]))
        id
        (\<lambda>i a. Errorf ''assumptions[%d] is empty or duplicated'' [FInt (int i)])
        no_check (cq_assumptions request),
      validateAuthority (cq_authority_state request) (cq_authority_refs request)
        (cq_authority_reason_codes request)]"

definition ValidateEvidenceBundle :: "EvidenceBundle \<Rightarrow> go_error option" where
  "ValidateEvidenceBundle bundle = first_err
     [validateEnvelope (eb_schema_version bundle) (eb_bundle_id bundle) (eb_run_id bundle),
      fail_if (eb_step_id bundle = [] \<or> is_zero_time (eb_as_of bundle))
        (ErrorsNew ''step_id and as_of are required''),
      range_err (\<lambda>i item. first_err
          [fail_if (eit_state item \<notin>
               {''available'', ''stale'', EvidenceConflicting, ''missing'', ''incomparable''})
             (Errorf ''items[%d] has invalid evidence state %q'' [FInt (int i), FStr (eit_state item)]),
           fail_if (eit_state item = EvidenceConflicting \<and> eit_conflict_refs item = [])
             (Errorf ''items[%d] conflicting evidence requires conflict_refs'' [FInt (int i)])])
        (eb_items bundle)]"

definition ValidateToolReceipt :: "ToolReceipt \<Rightarrow> go_error option" where
  "ValidateToolReceipt receipt = first_err
     [validateEnvelope (tr_schema_version receipt) (tr_receipt_id receipt) (tr_run_id receipt),
      fail_if (tr_step_id receipt = [] \<or> tr_tool_id receipt = [] \<or> tr_input_sha256 receipt = [] \<or>
          is_zero_time (tr_started_at receipt) \<or> is_zero_time (tr_completed_at receipt))
        (ErrorsNew ''tool receipt is incomplete''),
      fail_if (time_before (tr_completed_at receipt) (tr_started_at receipt))
        (ErrorsNew ''completed_at cannot precede started_at''),
      fail_if (tr_status receipt = ReceiptSuccess \<and> tr_output_sha256 receipt = [])
        (ErrorsNew ''successful tool receipt requires output_sha256'')]"

section \<open>Final answers, memory candidates and failure receipts\<close>

definition RequiredFinalSections :: "string \<Rightarrow> string list" where
  "RequiredFinalSections primaryIntent =
     (if primaryIntent = ''company_understanding'' then [''business_overview'', ''evidence'', ''limitations'']
      else if primaryIntent = ''financial_quality'' then [''financial_quality'', ''evidence'', ''limitations'']
      else if primaryIntent = ''economic_transmission'' then
        [''transmission_mechanisms'', ''scenarios'', ''evidence'', ''limitations'']
      else if primaryIntent = ''valuation'' then
        [''assumptions'', ''valuation_range'', ''sensitivity'', ''evidence'', ''limitations'']
      else if primaryIntent = ''company_comparison'' then [''comparison'', ''evidence'', ''limitations'']
      else if primaryIntent = ''concept_education'' then
        [''concept'', ''company_example'', ''evidence'', ''limitations'']
      else if primaryIntent = ''market_behavior'' then [''market_measurement'', ''evidence'', ''limitations'']
      else if primaryIntent = ''thesis_review'' then
        [''thesis'', ''counterevidence'', ''invalidation_conditions'', ''evidence'', ''limitations'']
      else [])"

definition check_section :: "nat \<Rightarrow> AnswerSection \<Rightarrow> go_error option" where
  "check_section i section = first_err
     [fail_if (as_section_type section = [] \<or> as_title section = [] \<or> blank (as_content section))
        (Errorf ''sections[%d] is incomplete'' [FInt (int i)]),
      fail_if (as_claim_refs section \<noteq> [] \<and> length (as_evidence_refs section) +
           length (as_receipt_refs section) + length (as_numerical_refs section) = 0)
        (Errorf ''sections[%d] has claims without evidence, receipts, or numerical authority'' [FInt (int i)])]"

definition ValidateFinalAnswer :: "FinalAnswer \<Rightarrow> go_error option" where
  "ValidateFinalAnswer answer = first_err
     [validateEnvelope (fa_schema_version answer) (fa_answer_id answer) (fa_run_id answer),
      fail_if (fa_request_id answer = [] \<or> fa_primary_intent answer = [] \<or>
          is_zero_time (fa_as_of answer) \<or> is_zero_time (fa_released_at answer) \<or> fa_released_by answer = [])
        (ErrorsNew ''final answer is incomplete''),
      fail_if (fa_sections answer = [] \<or> fa_critique_refs answer = [])
        (ErrorsNew ''final answer requires sections and critique_refs''),
      range_err check_section (fa_sections answer),
      range_err (\<lambda>_ required. fail_if (required \<notin> as_section_type ` set (fa_sections answer))
          (Errorf ''primary intent %q requires section %q'' [FStr (fa_primary_intent answer), FStr required]))
        (RequiredFinalSections (fa_primary_intent answer))]"

definition ValidateMemoryCandidate :: "MemoryCandidate \<Rightarrow> go_error option" where
  "ValidateMemoryCandidate candidate = first_err
     [validateEnvelope (mc_schema_version candidate) (mc_candidate_id candidate) (mc_run_id candidate),
      fail_if (blank (mc_content candidate) \<or> mc_source_artifact_ids candidate = [] \<or>
          mc_sensitivity candidate = [] \<or> is_zero_time (mc_created_at candidate))
        (ErrorsNew ''memory candidate is incomplete''),
      fail_if (\<not> mc_requires_approval candidate) (ErrorsNew ''memory candidate must require approval'')]"

definition ValidateFailureReceipt :: "FailureReceipt \<Rightarrow> go_error option" where
  "ValidateFailureReceipt receipt = first_err
     [validateEnvelope (fr_schema_version receipt) (fr_failure_id receipt) (fr_run_id receipt),
      fail_if (fr_step_id receipt = [] \<or> fr_component_id receipt = [] \<or> fr_failure_code receipt = [] \<or>
          blank (fr_message receipt) \<or> is_zero_time (fr_created_at receipt))
        (ErrorsNew ''failure receipt is incomplete'')]"

end
