(* ===== verification/Plan_Cycle.thy ===== *)
theory Plan_Cycle
  imports Research_Validate
begin

text \<open>
  The cycle search of \<open>hasPlanCycle\<close> (\<open>internal/contracts/validate_research.go\<close>): a
  depth-first search with three colours. The recursion carries fuel, one unit per nested
  call; the locale \<open>dependency_graph\<close> proves that one unit per node and one more is
  enough and that the search answers true exactly if the graph has a cycle.
\<close>

datatype visit_state = Unseen | Visiting | Done

function (sequential) visit ::
  "('k \<Rightarrow> 'k list) \<Rightarrow> nat \<Rightarrow> 'k \<Rightarrow> ('k \<Rightarrow> visit_state) \<Rightarrow> (bool \<times> ('k \<Rightarrow> visit_state)) option"
and visit_deps ::
  "('k \<Rightarrow> 'k list) \<Rightarrow> nat \<Rightarrow> 'k list \<Rightarrow> ('k \<Rightarrow> visit_state) \<Rightarrow> (bool \<times> ('k \<Rightarrow> visit_state)) option"
where
  "visit deps 0 x state = None"
| "visit deps (Suc fuel) x state =
     (case state x of
        Visiting \<Rightarrow> Some (True, state)
      | Done \<Rightarrow> Some (False, state)
      | Unseen \<Rightarrow>
          (case visit_deps deps fuel (deps x) (state(x := Visiting)) of
             None \<Rightarrow> None
           | Some (found, state') \<Rightarrow>
               if found then Some (True, state') else Some (False, state'(x := Done))))"
| "visit_deps deps fuel [] state = Some (False, state)"
| "visit_deps deps fuel (d # ds) state =
     (case visit deps fuel d state of
        None \<Rightarrow> None
      | Some (found, state') \<Rightarrow>
          if found then Some (True, state') else visit_deps deps fuel ds state')"
  by pat_completeness auto
termination
  by (relation "measures
      [\<lambda>x. case x of Inl (_, fuel, _) \<Rightarrow> fuel | Inr (_, fuel, _) \<Rightarrow> fuel,
       \<lambda>x. case x of Inl _ \<Rightarrow> 0 | Inr (_, _, ds, _) \<Rightarrow> Suc (length ds)]") auto

fun visit_all ::
  "('k \<Rightarrow> 'k list) \<Rightarrow> nat \<Rightarrow> 'k list \<Rightarrow> ('k \<Rightarrow> visit_state) \<Rightarrow> bool option" where
  "visit_all deps fuel [] state = Some False"
| "visit_all deps fuel (x # xs) state =
     (if state x = Unseen then
        (case visit deps fuel x state of
           None \<Rightarrow> None
         | Some (found, state') \<Rightarrow> if found then Some True else visit_all deps fuel xs state')
      else visit_all deps fuel xs state)"

definition plan_deps :: "PlanStep list \<Rightarrow> string \<Rightarrow> string list" where
  "plan_deps steps x = (case index_by st_step_id steps x of None \<Rightarrow> [] | Some s \<Rightarrow> st_depends_on s)"

definition plan_nodes :: "PlanStep list \<Rightarrow> string list" where
  "plan_nodes steps = map st_step_id steps @ concat (map st_depends_on steps)"

text \<open>The source ranges over the identifiers in an unspecified order; here in plan order.\<close>

definition hasPlanCycle_run :: "PlanStep list \<Rightarrow> bool option" where
  "hasPlanCycle_run steps = visit_all (plan_deps steps) (Suc (length (plan_nodes steps)))
     (map st_step_id steps) (\<lambda>_. Unseen)"

definition hasPlanCycle :: "PlanStep list \<Rightarrow> bool" where
  "hasPlanCycle steps = (hasPlanCycle_run steps = Some True)"

section \<open>The search on any finite dependency graph\<close>

lemma visit_keeps_seen:
  "visit deps fuel x s = Some (b, s') \<Longrightarrow> s v \<noteq> Unseen \<Longrightarrow> s' v \<noteq> Unseen"
  "visit_deps deps fuel ds s = Some (b, s') \<Longrightarrow> s v \<noteq> Unseen \<Longrightarrow> s' v \<noteq> Unseen"
proof (induction deps fuel x s and deps fuel ds s arbitrary: b s' and b s' rule: visit_visit_deps.induct)
  case (2 deps fuel x s)
  then show ?case by (fastforce split: visit_state.splits option.splits if_splits)
next
  case (4 deps fuel d ds s)
  then show ?case by (fastforce split: option.splits if_splits)
qed auto

lemma visit_keeps_done:
  "visit deps fuel x s = Some (b, s') \<Longrightarrow> s v = Done \<Longrightarrow> s' v = Done"
  "visit_deps deps fuel ds s = Some (b, s') \<Longrightarrow> s v = Done \<Longrightarrow> s' v = Done"
proof (induction deps fuel x s and deps fuel ds s arbitrary: b s' and b s' rule: visit_visit_deps.induct)
  case (2 deps fuel x s)
  then show ?case by (fastforce split: visit_state.splits option.splits if_splits)
next
  case (4 deps fuel d ds s)
  then show ?case by (fastforce split: option.splits if_splits)
qed auto

lemma visit_false:
  "visit deps fuel x s = Some (False, s') \<Longrightarrow>
     (\<forall>v. s' v = Visiting \<longleftrightarrow> s v = Visiting) \<and> s' x = Done"
  "visit_deps deps fuel ds s = Some (False, s') \<Longrightarrow>
     (\<forall>v. s' v = Visiting \<longleftrightarrow> s v = Visiting) \<and> (\<forall>d \<in> set ds. s' d = Done)"
proof (induction deps fuel x s and deps fuel ds s arbitrary: s' and s' rule: visit_visit_deps.induct)
  case (2 deps fuel x s)
  show ?case
  proof (cases "s x")
    case Unseen
    with "2.prems" obtain t where t: "visit_deps deps fuel (deps x) (s(x := Visiting)) = Some (False, t)"
      and s': "s' = t(x := Done)"
      by (auto split: option.splits if_splits)
    from "2.IH" [OF Unseen t] Unseen s' show ?thesis by auto
  next
    case Visiting
    with "2.prems" show ?thesis by simp
  next
    case Done
    with "2.prems" show ?thesis by simp
  qed
next
  case (4 deps fuel d ds s)
  then obtain t where t: "visit deps fuel d s = Some (False, t)"
    and ds: "visit_deps deps fuel ds t = Some (False, s')"
    by (auto split: option.splits if_splits)
  from "4.IH"(1) [OF t] "4.IH"(2) [OF t _ _ ds] visit_keeps_done(2) [OF ds, of d]
  show ?case by auto
qed auto

locale dependency_graph =
  fixes deps :: "'k \<Rightarrow> 'k list" and roots :: "'k list" and nodes :: "'k list"
  assumes deps_in_nodes: "set (deps x) \<subseteq> set nodes"
    and roots_in_nodes: "set roots \<subseteq> set nodes"
    and deps_of_roots: "deps x \<noteq> [] \<Longrightarrow> x \<in> set roots"
begin

definition edges :: "('k \<times> 'k) set" where
  "edges = {(x, y). y \<in> set (deps x)}"

definition unseen :: "('k \<Rightarrow> visit_state) \<Rightarrow> nat" where
  "unseen s = card {v \<in> set nodes. s v = Unseen}"

lemma unseen_mono: "(\<And>v. s v \<noteq> Unseen \<Longrightarrow> s' v \<noteq> Unseen) \<Longrightarrow> unseen s' \<le> unseen s"
  unfolding unseen_def by (intro card_mono) auto

lemma unseen_mark: "x \<in> set nodes \<Longrightarrow> s x = Unseen \<Longrightarrow> unseen (s(x := Visiting)) < unseen s"
  unfolding unseen_def by (intro psubset_card_mono) auto

lemma unseen_bound: "unseen s \<le> length nodes"
proof -
  have "unseen s \<le> card (set nodes)" unfolding unseen_def by (intro card_mono) auto
  then show ?thesis using card_length [of nodes] by simp
qed

text \<open>Enough fuel: each nested call marks one more node.\<close>

lemma visit_returns:
  "deps' = deps \<Longrightarrow> x \<in> set nodes \<Longrightarrow> unseen s < fuel \<Longrightarrow> visit deps' fuel x s \<noteq> None"
  "deps' = deps \<Longrightarrow> set ds \<subseteq> set nodes \<Longrightarrow> unseen s < fuel \<Longrightarrow> visit_deps deps' fuel ds s \<noteq> None"
proof (induction deps' fuel x s and deps' fuel ds s rule: visit_visit_deps.induct)
  case (2 deps' fuel x s)
  show ?case
  proof (cases "s x")
    case Unseen
    then have "unseen (s(x := Visiting)) < fuel"
      using "2.prems" unseen_mark [of x s] by simp
    moreover have "set (deps' x) \<subseteq> set nodes" using deps_in_nodes "2.prems"(1) by simp
    ultimately have "visit_deps deps' fuel (deps' x) (s(x := Visiting)) \<noteq> None"
      using "2.IH" [OF Unseen "2.prems"(1)] by blast
    with Unseen show ?thesis by auto
  qed simp_all
next
  case (4 deps' fuel d ds s)
  from 4 obtain b t where t: "visit deps' fuel d s = Some (b, t)" by fastforce
  have "unseen t < fuel"
    using "4.prems" unseen_mono [of s t] visit_keeps_seen(1) [OF t] by fastforce
  with 4 t show ?case by auto
qed auto

text \<open>An answer true is a cycle: every node being visited reaches the node visited next.\<close>

lemma visit_true_cycle:
  "deps' = deps \<Longrightarrow> visit deps' fuel x s = Some (True, s') \<Longrightarrow>
     (\<And>v. s v = Visiting \<Longrightarrow> (v, x) \<in> edges\<^sup>+) \<Longrightarrow> \<exists>y. (y, y) \<in> edges\<^sup>+"
  "deps' = deps \<Longrightarrow> visit_deps deps' fuel ds s = Some (True, s') \<Longrightarrow>
     (\<And>v d. s v = Visiting \<Longrightarrow> d \<in> set ds \<Longrightarrow> (v, d) \<in> edges\<^sup>+) \<Longrightarrow> \<exists>y. (y, y) \<in> edges\<^sup>+"
proof (induction deps' fuel x s and deps' fuel ds s arbitrary: s' and s' rule: visit_visit_deps.induct)
  case (2 deps' fuel x s)
  show ?case
  proof (cases "s x")
    case Unseen
    with "2.prems" obtain t where t: "visit_deps deps' fuel (deps' x) (s(x := Visiting)) = Some (True, t)"
      by (auto split: option.splits if_splits)
    have "(v, d) \<in> edges\<^sup>+" if v: "(s(x := Visiting)) v = Visiting" and d: "d \<in> set (deps' x)" for v d
    proof -
      have e: "(x, d) \<in> edges" using d "2.prems"(1) by (simp add: edges_def)
      show ?thesis
      proof (cases "v = x")
        case False
        with v "2.prems"(3) have "(v, x) \<in> edges\<^sup>+" by simp
        with e show ?thesis by (rule trancl_into_trancl [rotated])
      qed (use e in auto)
    qed
    with "2.IH" [OF Unseen "2.prems"(1) t] show ?thesis by blast
  next
    case Visiting
    with "2.prems" show ?thesis by blast
  next
    case Done
    with "2.prems" show ?thesis by simp
  qed
next
  case (4 deps' fuel d ds s)
  then obtain b t where t: "visit deps' fuel d s = Some (b, t)"
    by (auto split: option.splits)
  show ?case
  proof (cases b)
    case True
    with "4.IH"(1) [OF "4.prems"(1)] t "4.prems"(3) show ?thesis by auto
  next
    case False
    with t have "visit deps' fuel d s = Some (False, t)" by simp
    then have same: "t v = Visiting \<longleftrightarrow> s v = Visiting" for v by (simp add: visit_false(1))
    from False t "4.prems"(2) have "visit_deps deps' fuel ds t = Some (True, s')" by simp
    from "4.IH"(2) [OF t refl False "4.prems"(1) this] same "4.prems"(3)
    show ?thesis by auto
  qed
qed auto

text \<open>What the search keeps of its finished nodes: closed under edges, on no cycle.\<close>

definition finished_ok :: "('k \<Rightarrow> visit_state) \<Rightarrow> bool" where
  "finished_ok s \<longleftrightarrow>
     (\<forall>v. s v = Done \<longrightarrow> (\<forall>w \<in> set (deps v). s w = Done) \<and> (v, v) \<notin> edges\<^sup>+)"

lemma finished_reach: "finished_ok s \<Longrightarrow> (v, w) \<in> edges\<^sup>* \<Longrightarrow> s v = Done \<Longrightarrow> s w = Done"
  by (rotate_tac 1, induction rule: rtrancl_induct) (auto simp: finished_ok_def edges_def)

lemma finished_mark: "finished_ok s \<Longrightarrow> s x = Unseen \<Longrightarrow> finished_ok (s(x := Visiting))"
  by (auto simp: finished_ok_def)

lemma finished_close:
  assumes "finished_ok s" and "s x = Visiting" and "\<forall>d \<in> set (deps x). s d = Done"
  shows "finished_ok (s(x := Done))"
proof -
  have "(x, x) \<notin> edges\<^sup>+"
  proof
    assume "(x, x) \<in> edges\<^sup>+"
    then obtain d where "(x, d) \<in> edges" "(d, x) \<in> edges\<^sup>*" by (auto dest: tranclD)
    with assms have "s x = Done" using finished_reach [of s d x] by (auto simp: edges_def)
    with assms(2) show False by simp
  qed
  with assms show ?thesis by (auto simp: finished_ok_def)
qed

lemma visit_finished:
  "deps' = deps \<Longrightarrow> visit deps' fuel x s = Some (False, s') \<Longrightarrow> finished_ok s \<Longrightarrow> finished_ok s'"
  "deps' = deps \<Longrightarrow> visit_deps deps' fuel ds s = Some (False, s') \<Longrightarrow> finished_ok s \<Longrightarrow> finished_ok s'"
proof (induction deps' fuel x s and deps' fuel ds s arbitrary: s' and s' rule: visit_visit_deps.induct)
  case (2 deps' fuel x s)
  show ?case
  proof (cases "s x")
    case Unseen
    with "2.prems" obtain t where t: "visit_deps deps' fuel (deps' x) (s(x := Visiting)) = Some (False, t)"
      and s': "s' = t(x := Done)"
      by (auto split: option.splits if_splits)
    have "finished_ok t"
      by (rule "2.IH" [OF Unseen "2.prems"(1) t finished_mark [OF "2.prems"(3) Unseen]])
    moreover have "t x = Visiting" and "\<forall>d \<in> set (deps x). t d = Done"
      using visit_false(2) [OF t] "2.prems"(1) by auto
    ultimately show ?thesis unfolding s' by (rule finished_close)
  qed (use "2.prems" in simp_all)
next
  case (4 deps' fuel d ds s)
  then show ?case by (auto split: option.splits if_splits)
qed auto

lemma visit_all_correct:
  assumes "set xs \<subseteq> set nodes" and "length nodes < fuel" and "finished_ok s" and "\<forall>v. s v \<noteq> Visiting"
  shows "\<exists>b. visit_all deps fuel xs s = Some b \<and>
    (b \<longrightarrow> (\<exists>y. (y, y) \<in> edges\<^sup>+)) \<and>
    (\<not> b \<longrightarrow> (\<exists>t. finished_ok t \<and> (\<forall>x \<in> set xs. t x = Done) \<and> (\<forall>v. s v = Done \<longrightarrow> t v = Done)))"
  using assms
proof (induction xs arbitrary: s)
  case Nil
  then show ?case by auto
next
  case (Cons x xs)
  show ?case
  proof (cases "s x")
    case Unseen
    obtain b t where t: "visit deps fuel x s = Some (b, t)"
      using visit_returns(1) [OF refl, of x s fuel] Cons.prems unseen_bound [of s] by fastforce
    show ?thesis
    proof (cases b)
      case True
      with t have "\<exists>y. (y, y) \<in> edges\<^sup>+"
        using visit_true_cycle(1) [OF refl, of fuel x s t] Cons.prems(4) by simp
      with Unseen t True show ?thesis by (intro exI [of _ True]) simp
    next
      case False
      with t have f: "visit deps fuel x s = Some (False, t)" by simp
      have "finished_ok t" "\<forall>v. t v \<noteq> Visiting" "t x = Done"
        using visit_finished(1) [OF refl f] visit_false(1) [OF f] Cons.prems by auto
      then obtain b' where b': "visit_all deps fuel xs t = Some b'"
          "b' \<longrightarrow> (\<exists>y. (y, y) \<in> edges\<^sup>+)"
          "\<not> b' \<longrightarrow> (\<exists>u. finished_ok u \<and> (\<forall>x \<in> set xs. u x = Done) \<and>
             (\<forall>v. t v = Done \<longrightarrow> u v = Done))"
        using Cons.IH [of t] Cons.prems by auto
      moreover have "visit_all deps fuel (x # xs) s = Some b'"
        using Unseen f b'(1) by simp
      ultimately show ?thesis
        using \<open>t x = Done\<close> visit_keeps_done(1) [OF f] by auto
    qed
  next
    case Visiting
    with Cons.prems show ?thesis by blast
  next
    case Done
    obtain b' where b': "visit_all deps fuel xs s = Some b'"
        "b' \<longrightarrow> (\<exists>y. (y, y) \<in> edges\<^sup>+)"
        "\<not> b' \<longrightarrow> (\<exists>u. finished_ok u \<and> (\<forall>x \<in> set xs. u x = Done) \<and>
           (\<forall>v. s v = Done \<longrightarrow> u v = Done))"
      using Cons.IH [of s] Cons.prems by auto
    moreover have "visit_all deps fuel (x # xs) s = Some b'"
      using Done b'(1) by simp
    ultimately show ?thesis using Done by auto
  qed
qed

theorem search_correct:
  "visit_all deps (Suc (length nodes)) roots (\<lambda>_. Unseen) = Some (\<exists>y. (y, y) \<in> edges\<^sup>+)"
proof -
  obtain b where b: "visit_all deps (Suc (length nodes)) roots (\<lambda>_. Unseen) = Some b"
      "b \<longrightarrow> (\<exists>y. (y, y) \<in> edges\<^sup>+)"
      "\<not> b \<longrightarrow> (\<exists>t. finished_ok t \<and> (\<forall>x \<in> set roots. t x = Done))"
    using visit_all_correct [of roots "Suc (length nodes)" "\<lambda>_. Unseen"] roots_in_nodes
    by (auto simp: finished_ok_def)
  have "\<not> (\<exists>y. (y, y) \<in> edges\<^sup>+)" if nb: "\<not> b"
  proof
    assume "\<exists>y. (y, y) \<in> edges\<^sup>+"
    then obtain y where y: "(y, y) \<in> edges\<^sup>+" ..
    then obtain d where "(y, d) \<in> edges" by (auto dest: tranclD)
    then have "y \<in> set roots" using deps_of_roots [of y] by (cases "deps y") (auto simp: edges_def)
    with nb b(3) y show False by (auto simp: finished_ok_def)
  qed
  with b show ?thesis by auto
qed

end

section \<open>The dependency graph of a plan\<close>

interpretation plan_graph:
  dependency_graph "plan_deps steps" "map st_step_id steps" "plan_nodes steps" for steps
proof
  show "set (plan_deps steps x) \<subseteq> set (plan_nodes steps)" for x
  proof (cases "index_by st_step_id steps x")
    case (Some s)
    then have "s \<in> set steps" using index_by_Some by fast
    with Some show ?thesis by (auto simp: plan_deps_def plan_nodes_def)
  qed (simp add: plan_deps_def)
  show "set (map st_step_id steps) \<subseteq> set (plan_nodes steps)"
    by (simp add: plan_nodes_def)
  show "x \<in> set (map st_step_id steps)" if "plan_deps steps x \<noteq> []" for x
  proof (rule ccontr)
    assume "x \<notin> set (map st_step_id steps)"
    then have "index_by st_step_id steps x = None" by (simp add: index_by_None)
    with that show False by (simp add: plan_deps_def)
  qed
qed

text \<open>The relation "depends on" between the identifiers of a plan's steps.\<close>

definition depends_on :: "PlanStep list \<Rightarrow> (string \<times> string) set" where
  "depends_on steps = {(x, y). y \<in> set (plan_deps steps x)}"

lemma depends_on_edges: "depends_on steps = plan_graph.edges steps"
  by (simp add: depends_on_def plan_graph.edges_def)

lemma hasPlanCycle_run_eq: "hasPlanCycle_run steps = Some (\<not> acyclic (depends_on steps))"
  using plan_graph.search_correct [of steps]
  by (simp add: hasPlanCycle_run_def depends_on_edges acyclic_def)

lemma hasPlanCycle_iff: "hasPlanCycle steps \<longleftrightarrow> \<not> acyclic (depends_on steps)"
  by (simp add: hasPlanCycle_def hasPlanCycle_run_eq)

end
