(* ===== verification/Plan_Validate.thy ===== *)
theory Plan_Validate
  imports Plan_Cycle
begin

text \<open>
  \<open>ValidateResearchPlan\<close> (\<open>internal/contracts/validate_research.go\<close>) and the contract
  \<open>plan_ok\<close> it decides: unique steps with positive budgets, bounded waves, one synthesis
  step, dependencies that exist, point to earlier waves and have no cycle.
\<close>

abbreviation no_counters :: plan_counters where
  "no_counters \<equiv> \<lparr>pc_seen = [], pc_waves = [], pc_context = 0, pc_synthesis = 0\<rparr>"

definition ValidateResearchPlan :: "ResearchPlan \<Rightarrow> go_error option" where
  "ValidateResearchPlan plan = first_err
     [validateEnvelope (pl_schema_version plan) (pl_plan_id plan) (pl_run_id plan),
      fail_if (pl_request_id plan = [] \<or> pl_steps plan = [] \<or> pl_deadline_ms plan \<le> 0)
        (ErrorsNew ''request_id, steps, and positive deadline_ms are required''),
      fail_if (pl_max_parallel_specialists plan < 1 \<or> pl_max_parallel_specialists plan > 4)
        (ErrorsNew ''max_parallel_specialists must be between one and four''),
      fail_if (pl_max_repair_passes plan < 0 \<or> pl_max_repair_passes plan > 1)
        (ErrorsNew ''max_repair_passes must be zero or one''),
      (case check_plan_steps plan no_counters (pl_steps plan) of
         Inl e \<Rightarrow> Some e
       | Inr c \<Rightarrow> fail_if (pc_context c > 8 \<or> pc_synthesis c \<noteq> 1)
           (ErrorsNew ''plan requires at most eight context steps and exactly one synthesis step'')),
      check_dependencies (pl_steps plan),
      fail_if (hasPlanCycle (pl_steps plan)) (ErrorsNew ''research plan must be acyclic'')]"

section \<open>What the loop over the steps accepts\<close>

definition step_ok :: "ResearchPlan \<Rightarrow> PlanStep \<Rightarrow> bool" where
  "step_ok plan s \<longleftrightarrow>
     st_step_id s \<noteq> [] \<and> st_objective s \<noteq> [] \<and> st_role_id s \<noteq> [] \<and>
     0 < st_context_budget_tokens s \<and> 0 < st_timeout_ms s \<and> st_timeout_ms s \<le> pl_deadline_ms plan \<and>
     (st_kind s = ''context'' \<and> 1 \<le> effectiveWave (st_wave s) \<and> effectiveWave (st_wave s) \<le> 4 \<or>
      st_kind s = ''review'' \<or> st_kind s = ''synthesis'' \<and> st_capability_ids s = []) \<and>
     (\<forall>c \<in> set (st_capability_ids s). \<not> blank c) \<and> distinct (st_capability_ids s)"

abbreviation steps_of_kind :: "string \<Rightarrow> PlanStep list \<Rightarrow> PlanStep list" where
  "steps_of_kind k steps \<equiv> filter (\<lambda>s. st_kind s = k) steps"

abbreviation context_waves :: "PlanStep list \<Rightarrow> int list" where
  "context_waves steps \<equiv> map (\<lambda>s. effectiveWave (st_wave s)) (steps_of_kind ''context'' steps)"

lemma check_step_capabilities_None [check_simps]:
  "check_step_capabilities s = None \<longleftrightarrow>
     (\<forall>c \<in> set (st_capability_ids s). \<not> blank c) \<and> distinct (st_capability_ids s)"
  unfolding check_step_capabilities_def
  by (subst scan_unique_None [where P = "\<lambda>v. \<not> blank v" and Q = "\<lambda>_. True"]) auto

definition count_step :: "plan_counters \<Rightarrow> PlanStep \<Rightarrow> plan_counters" where
  "count_step c s =
     \<lparr>pc_seen = st_step_id s # pc_seen c,
      pc_waves = (if st_kind s = ''context'' then effectiveWave (st_wave s) # pc_waves c else pc_waves c),
      pc_context = pc_context c + (if st_kind s = ''context'' then 1 else 0),
      pc_synthesis = pc_synthesis c + (if st_kind s = ''synthesis'' then 1 else 0)\<rparr>"

lemma count_step_fields:
  "pc_seen (count_step c s) = st_step_id s # pc_seen c"
  "pc_waves (count_step c s) =
    (if st_kind s = ''context'' then effectiveWave (st_wave s) # pc_waves c else pc_waves c)"
  by (simp_all add: count_step_def)

lemma check_plan_step_Inr:
  "check_plan_step plan c s = Inr c' \<longleftrightarrow>
     step_ok plan s \<and> st_step_id s \<notin> set (pc_seen c) \<and> c' = count_step c s \<and>
     (st_kind s = ''context'' \<longrightarrow>
        int (count_list (pc_waves (count_step c s)) (effectiveWave (st_wave s)))
          \<le> pl_max_parallel_specialists plan)"
  by (cases c) (auto simp: check_plan_step_def check_step_kind_def step_ok_def count_step_def Let_def
      check_step_capabilities_None not_less not_le)

lemma check_plan_steps_Inr:
  "check_plan_steps plan c steps = Inr c' \<longleftrightarrow>
     (\<forall>s \<in> set steps. step_ok plan s) \<and> distinct (map st_step_id steps) \<and>
     st_step_id ` set steps \<inter> set (pc_seen c) = {} \<and> c' = foldl count_step c steps \<and>
     (\<forall>w \<in> set (context_waves steps).
        int (count_list (pc_waves c) w + count_list (context_waves steps) w)
          \<le> pl_max_parallel_specialists plan)"
proof (induction steps arbitrary: c)
  case (Cons s steps)
  have waves: "(st_kind s = ''context'' \<longrightarrow>
        int (count_list (pc_waves (count_step c s)) (effectiveWave (st_wave s))) \<le> m) \<and>
      (\<forall>w \<in> set (context_waves steps).
        int (count_list (pc_waves (count_step c s)) w + count_list (context_waves steps) w) \<le> m) \<longleftrightarrow>
      (\<forall>w \<in> set (context_waves (s # steps)).
        int (count_list (pc_waves c) w + count_list (context_waves (s # steps)) w) \<le> m)" for m
  proof (cases "st_kind s = ''context''")
    case True
    let ?w = "effectiveWave (st_wave s)"
    have "?w \<notin> set (context_waves steps) \<Longrightarrow> count_list (context_waves steps) ?w = 0"
      by (rule count_notin)
    with True show ?thesis
      by (cases "?w \<in> set (context_waves steps)") (fastforce simp: count_step_fields)+
  qed (simp add: count_step_fields)
  have "check_plan_steps plan c (s # steps) = Inr c' \<longleftrightarrow>
      step_ok plan s \<and> st_step_id s \<notin> set (pc_seen c) \<and>
      (\<forall>s \<in> set steps. step_ok plan s) \<and> distinct (map st_step_id steps) \<and>
      st_step_id ` set steps \<inter> set (st_step_id s # pc_seen c) = {} \<and>
      c' = foldl count_step (count_step c s) steps \<and>
      (\<forall>w \<in> set (context_waves (s # steps)).
        int (count_list (pc_waves c) w + count_list (context_waves (s # steps)) w)
          \<le> pl_max_parallel_specialists plan)"
    unfolding check_plan_steps.simps res_bind_Inr check_plan_step_Inr Cons.IH waves [symmetric]
    by (auto simp: count_step_fields)
  then show ?case by auto
qed auto

lemma foldl_count_step:
  "pc_context (foldl count_step c steps) = pc_context c + length (steps_of_kind ''context'' steps)"
  "pc_synthesis (foldl count_step c steps) = pc_synthesis c + length (steps_of_kind ''synthesis'' steps)"
  by (induction steps arbitrary: c) (simp_all add: count_step_def)

section \<open>The plan contract\<close>

definition plan_ok :: "ResearchPlan \<Rightarrow> bool" where
  "plan_ok plan \<longleftrightarrow>
     validateEnvelope (pl_schema_version plan) (pl_plan_id plan) (pl_run_id plan) = None \<and>
     pl_request_id plan \<noteq> [] \<and> 0 < pl_deadline_ms plan \<and>
     1 \<le> pl_max_parallel_specialists plan \<and> pl_max_parallel_specialists plan \<le> 4 \<and>
     0 \<le> pl_max_repair_passes plan \<and> pl_max_repair_passes plan \<le> 1 \<and>
     (\<forall>s \<in> set (pl_steps plan). step_ok plan s) \<and> distinct (map st_step_id (pl_steps plan)) \<and>
     (\<forall>w. int (count_list (context_waves (pl_steps plan)) w) \<le> pl_max_parallel_specialists plan) \<and>
     length (steps_of_kind ''context'' (pl_steps plan)) \<le> 8 \<and>
     length (steps_of_kind ''synthesis'' (pl_steps plan)) = 1 \<and>
     (\<forall>s \<in> set (pl_steps plan). \<forall>d \<in> set (st_depends_on s). \<exists>s' \<in> set (pl_steps plan).
        st_step_id s' = d \<and>
        (st_kind s = ''context'' \<and> st_kind s' = ''context'' \<longrightarrow>
           effectiveWave (st_wave s') < effectiveWave (st_wave s))) \<and>
     acyclic (depends_on (pl_steps plan))"

lemma check_dependencies_None:
  assumes "distinct (map st_step_id steps)"
  shows "check_dependencies steps = None \<longleftrightarrow>
    (\<forall>s \<in> set steps. \<forall>d \<in> set (st_depends_on s). \<exists>s' \<in> set steps. st_step_id s' = d \<and>
      (st_kind s = ''context'' \<and> st_kind s' = ''context'' \<longrightarrow>
         effectiveWave (st_wave s') < effectiveWave (st_wave s)))"
proof -
  have one: "(case index_by st_step_id steps d of None \<Rightarrow> Some e
      | Some t \<Rightarrow> fail_if (st_kind s = ''context'' \<and> st_kind t = ''context'' \<and>
          effectiveWave (st_wave t) \<ge> effectiveWave (st_wave s)) e') = None \<longleftrightarrow>
    (\<exists>s' \<in> set steps. st_step_id s' = d \<and> (st_kind s = ''context'' \<and> st_kind s' = ''context'' \<longrightarrow>
         effectiveWave (st_wave s') < effectiveWave (st_wave s)))" for s :: PlanStep and d e e'
  proof (cases "index_by st_step_id steps d")
    case None
    then have "\<not> (\<exists>s' \<in> set steps. st_step_id s' = d)" by (auto simp: index_by_None)
    with None show ?thesis by auto
  next
    case (Some t)
    then have t: "t \<in> set steps" "st_step_id t = d" using index_by_Some by fast+
    then have "s' \<in> set steps \<and> st_step_id s' = d \<longleftrightarrow> s' = t" for s'
      using assms by (auto simp: distinct_map inj_on_def)
    then have "(\<exists>s' \<in> set steps. st_step_id s' = d \<and> Q s') \<longleftrightarrow> Q t" for Q
      by (simp add: Bex_def flip: conj_assoc)
    with Some show ?thesis by (simp add: not_le) blast
  qed
  show ?thesis
    unfolding check_dependencies_def
    by (rule range_err_None_uniform, rule range_err_None_uniform, rule one)
qed

lemma ValidateResearchPlan_None:
  "ValidateResearchPlan plan = None \<longleftrightarrow> plan_ok plan"
proof -
  let ?P = "\<lambda>w. int (count_list (context_waves (pl_steps plan)) w) \<le> pl_max_parallel_specialists plan"
  have waves: "(\<forall>w \<in> set (context_waves (pl_steps plan)). ?P w) \<longleftrightarrow> (\<forall>w. ?P w)"
    if "1 \<le> pl_max_parallel_specialists plan"
  proof
    assume all: "\<forall>w \<in> set (context_waves (pl_steps plan)). ?P w"
    show "\<forall>w. ?P w"
    proof
      fix w
      show "?P w"
      proof (cases "w \<in> set (context_waves (pl_steps plan))")
        case False
        then have "count_list (context_waves (pl_steps plan)) w = 0" by (rule count_notin)
        with that show ?thesis by simp
      qed (use all in blast)
    qed
  qed blast
  have steps: "(case check_plan_steps plan no_counters (pl_steps plan) of Inl e \<Rightarrow> Some e
       | Inr c \<Rightarrow> fail_if (pc_context c > 8 \<or> pc_synthesis c \<noteq> 1) e') = None \<longleftrightarrow>
     (\<exists>c. check_plan_steps plan no_counters (pl_steps plan) = Inr c \<and>
        pc_context c \<le> 8 \<and> pc_synthesis c = 1)" for e'
    by (auto split: sum.splits simp: not_less)
  show ?thesis
    unfolding ValidateResearchPlan_def plan_ok_def
    using waves
    by (auto simp: steps check_plan_steps_Inr foldl_count_step not_less not_le
        check_dependencies_None hasPlanCycle_iff simp del: set_map)
qed

end
