(* ===== verification/Planner.thy ===== *)
theory Planner
  imports Taxonomy Capability Plan_Validate
begin

text \<open>
  Package \<open>internal/planner\<close> (\<open>plan.go\<close>): from a validated request to a research
  plan. The loops that number the steps keep the accumulators of the code (the identifiers
  so far, the steps so far); \<open>context_steps_Inr\<close> and \<open>review_steps_Inr\<close> say what they
  build.
\<close>

section \<open>The builder and its helpers\<close>

record Builder =
  bd_roles :: RoleRegistry
  bd_capabilities :: CapabilityRegistry
  bd_deadline_ms :: int
  bd_context_timeout_ms :: int
  bd_review_timeout_ms :: int
  bd_synthesis_timeout_ms :: int

definition ErrClarificationRequired :: go_error where
  "ErrClarificationRequired = Sentinel ''clarification required before planning''"

definition DefaultBuilder :: "go_error + Builder" where
  "DefaultBuilder = res_bind DefaultRegistry (\<lambda>roles. res_bind Tier0Registry (\<lambda>capabilities.
     Inr \<lparr>bd_roles = roles, bd_capabilities = capabilities, bd_deadline_ms = 90000,
       bd_context_timeout_ms = 0, bd_review_timeout_ms = 0, bd_synthesis_timeout_ms = 0\<rparr>))"

definition containsIntent :: "string list \<Rightarrow> string \<Rightarrow> bool" where
  "containsIntent values target \<longleftrightarrow> list_ex (\<lambda>value. value = target) values"

definition configuredTimeout :: "int \<Rightarrow> int \<Rightarrow> int" where
  "configuredTimeout defaultValue configured = (if configured > 0 then configured else defaultValue)"

definition output_authority :: "ResearchRequest \<Rightarrow> string list \<Rightarrow> string \<Rightarrow> string list" where
  "output_authority request contextRoles output =
     (if output = ''business_overview'' then append_unique contextRoles BusinessStrategy
      else if output = ''financial_quality'' then
        append_unique (append_unique contextRoles FinancialQuality) AccountingReporting
      else if output = ''transmission_mechanisms'' then append_unique contextRoles EconomicsTransmission
      else if output = ''market_measurement'' then append_unique contextRoles MarketBehavior
      else if output \<in> {''valuation_range'', ''sensitivity''} then append_unique contextRoles ValuationRole
      else if output = ''comparison'' then
        append_unique (append_unique (append_unique contextRoles BusinessStrategy)
          AccountingReporting) FinancialQuality
      else if output \<in> {''concept'', ''company_example''} then append_unique contextRoles AccountingReporting
      else if output = ''scenarios'' then
        (let contextRoles = append_unique contextRoles ValuationRole
         in if rq_assumptions request \<noteq> [] then append_unique contextRoles EconomicsTransmission
            else contextRoles)
      else contextRoles)"

definition ensureOutputAuthority :: "string list \<Rightarrow> ResearchRequest \<Rightarrow> string list" where
  "ensureOutputAuthority contextRoles request =
     foldl (output_authority request) contextRoles (rq_requested_outputs request)"

definition operationRules :: "(string list \<times> string) list" where
  "operationRules =
     [([''revenue growth'', ''sales growth'', ''top-line growth''], ''financial.revenue_growth''),
      ([''free cash flow'', ''simple fcf'', '' fcf ''], ''financial.free_cash_flow''),
      ([''cash conversion'', ''supported by cash'', ''backed by cash''], ''financial.cash_conversion''),
      ([''quality of earnings'', ''earnings quality''], ''financial.quality_of_earnings''),
      ([''operating margin''], ''financial.operating_margin''),
      ([''margin'', ''operating leverage''], ''financial.margin''),
      ([''balance-sheet identity'', ''balance sheet identity''], ''accounting.balance_sheet_identity''),
      ([''dilution''], ''financial.dilution''),
      ([''net debt'', ''balance sheet'', ''balance-sheet''], ''financial.net_debt''),
      ([''reinvestment burden'', ''capex intensity'', ''approved capex'', ''capex''], ''financial.capex_intensity''),
      ([''dcf'', ''value range''], ''valuation.fcff_dcf''),
      ([''current price imply'', ''embedded in''], ''valuation.reverse_dcf''),
      ([''wacc''], ''valuation.wacc''),
      ([''sensitivity''], ''scenario.sensitivity_matrix''),
      ([''drawdown''], ''market.drawdown''),
      ([''volatility''], ''market.volatility''),
      ([''beta'', ''sensitive''], ''market.beta''),
      ([''rolling correlation'', ''sensitivity change''], ''market.rolling_correlation''),
      ([''compare'', ''which company'', ''same fiscal periods''], ''comparison.period_aligned'')]"

text \<open>The closure \<open>add\<close> with its map \<open>seen\<close> is \<open>append_unique\<close>.\<close>

definition detectOperations :: "string \<Rightarrow> string list" where
  "detectOperations text =
     (let lower = to_lower text;
          result = [];
          result = (if containsAny lower [''compare'', ''financial quality'', ''long-term businesses'']
            then foldl append_unique result
              [''financial.revenue_growth'', ''financial.margin'', ''financial.free_cash_flow'',
               ''financial.cash_conversion'', ''financial.capex_intensity'', ''comparison.period_aligned'']
            else result);
          result = (if containsAny lower [''valuation'', ''dcf'', ''value range'']
            then append_unique (append_unique result ''valuation.fcff_dcf'') ''scenario.sensitivity_matrix''
            else result);
          result = (if containsAny lower [''multiple'', ''market price'', ''market prices'']
            then append_unique result ''valuation.peer_multiple'' else result);
          result = (if containsAny lower [''higher-for-longer'', ''yield curve'']
            then append_unique result ''economics.yield_curve'' else result)
      in foldl (\<lambda>result (terms, operation). if containsAny lower terms
           then append_unique result operation else result) result operationRules)"

section \<open>The loops of Build\<close>

fun classify_roles :: "RoleRegistry \<Rightarrow> string list \<Rightarrow> string list \<Rightarrow> string list \<Rightarrow>
    go_error + (string list \<times> string list)" where
  "classify_roles registry contextRoles reviewRoles [] = Inr (contextRoles, reviewRoles)"
| "classify_roles registry contextRoles reviewRoles (roleID # roleIDs) =
     (case GetRole registry roleID of
        None \<Rightarrow> Inl (Errorf ''unknown role %q'' [FStr roleID])
      | Some role \<Rightarrow>
          if rl_class role = ClassReview then
            classify_roles registry contextRoles (append_unique reviewRoles roleID) roleIDs
          else classify_roles registry (contextRoles @ [roleID]) reviewRoles roleIDs)"

text \<open>The plan under construction bounds a wave by \<open>MaxParallelSpecialists: 4\<close>.\<close>

abbreviation planParallel :: nat where "planParallel \<equiv> 4"

definition context_step :: "Builder \<Rightarrow> string list \<Rightarrow> string list \<Rightarrow> nat \<Rightarrow> string \<Rightarrow> Role \<Rightarrow> PlanStep" where
  "context_step builder operations contextIDs index roleID role =
     (let wave = index div planParallel + 1 in
      \<lparr>st_step_id = ''context-'' @ fmt_02d (index + 1), st_kind = ''context'', st_wave = int wave,
       st_objective = rl_mission role, st_role_id = roleID,
       st_capability_ids = filter (Authorizes (bd_capabilities builder) roleID) operations,
       st_evidence_requirements = rl_evidence_classes role,
       st_depends_on = (if wave > 1 then take planParallel contextIDs else []),
       st_mandatory = True, st_context_budget_tokens = rl_context_budget_tokens role,
       st_timeout_ms = configuredTimeout (rl_timeout_ms role) (bd_context_timeout_ms builder)\<rparr>)"

fun context_steps :: "Builder \<Rightarrow> string list \<Rightarrow> nat \<Rightarrow> string list \<Rightarrow> PlanStep list \<Rightarrow> string list \<Rightarrow>
    go_error + (string list \<times> PlanStep list)" where
  "context_steps builder operations index contextIDs steps [] = Inr (contextIDs, steps)"
| "context_steps builder operations index contextIDs steps (roleID # roleIDs) =
     (case GetRole (bd_roles builder) roleID of
        None \<Rightarrow> Inl (Errorf ''unknown role %q'' [FStr roleID])
      | Some role \<Rightarrow>
          let contextIDs = contextIDs @ [''context-'' @ fmt_02d (index + 1)]
          in context_steps builder operations (index + 1) contextIDs
               (steps @ [context_step builder operations contextIDs index roleID role]) roleIDs)"

definition review_step :: "Builder \<Rightarrow> string list \<Rightarrow> string list \<Rightarrow> nat \<Rightarrow> string \<Rightarrow> Role \<Rightarrow> PlanStep" where
  "review_step builder contextIDs reviewIDs index roleID role =
     \<lparr>st_step_id = ''review-'' @ fmt_02d (index + 1), st_kind = ''review'', st_wave = 0,
      st_objective = rl_mission role, st_role_id = roleID, st_capability_ids = [],
      st_evidence_requirements = [],
      st_depends_on = (if 1 < length reviewIDs then contextIDs @ [reviewIDs ! (length reviewIDs - 2)]
                       else contextIDs),
      st_mandatory = True, st_context_budget_tokens = rl_context_budget_tokens role,
      st_timeout_ms = configuredTimeout (rl_timeout_ms role) (bd_review_timeout_ms builder)\<rparr>"

fun review_steps :: "Builder \<Rightarrow> string list \<Rightarrow> nat \<Rightarrow> string list \<Rightarrow> PlanStep list \<Rightarrow> string list \<Rightarrow>
    go_error + (string list \<times> PlanStep list)" where
  "review_steps builder contextIDs index reviewIDs steps [] = Inr (reviewIDs, steps)"
| "review_steps builder contextIDs index reviewIDs steps (roleID # roleIDs) =
     (case GetRole (bd_roles builder) roleID of
        None \<Rightarrow> Inl (Errorf ''invalid review role %q'' [FStr roleID])
      | Some role \<Rightarrow>
          if rl_class role \<noteq> ClassReview then Inl (Errorf ''invalid review role %q'' [FStr roleID])
          else
            let reviewIDs = reviewIDs @ [''review-'' @ fmt_02d (index + 1)]
            in review_steps builder contextIDs (index + 1) reviewIDs
                 (steps @ [review_step builder contextIDs reviewIDs index roleID role]) roleIDs)"

text \<open>\<open>finalRole, _ := Get(\<dots>)\<close>: an unregistered final role is the zero value of \<open>Role\<close>.\<close>

definition zeroRole :: Role where
  "zeroRole = \<lparr>rl_role_id = [], rl_class = [], rl_mission = [], rl_triggers = [], rl_anti_triggers = [],
     rl_allowed_tools = [], rl_evidence_classes = [], rl_context_budget_tokens = 0, rl_timeout_ms = 0,
     rl_max_retries = 0, rl_output_artifact = [], rl_permissions = no_permissions\<rparr>"

definition synthesis_step :: "Builder \<Rightarrow> string list \<Rightarrow> string list \<Rightarrow> PlanStep" where
  "synthesis_step builder contextIDs reviewIDs =
     (let finalRole = (case GetRole (bd_roles builder) FinalResearchAnalyst of
            Some role \<Rightarrow> role | None \<Rightarrow> zeroRole);
          dependencies = (if reviewIDs = [] then contextIDs else reviewIDs)
      in \<lparr>st_step_id = ''synthesis-01'', st_kind = ''synthesis'', st_wave = 0,
          st_objective = rl_mission finalRole, st_role_id = FinalResearchAnalyst,
          st_capability_ids = [], st_evidence_requirements = [], st_depends_on = dependencies,
          st_mandatory = True, st_context_budget_tokens = rl_context_budget_tokens finalRole,
          st_timeout_ms = configuredTimeout (rl_timeout_ms finalRole) (bd_synthesis_timeout_ms builder)\<rparr>)"

section \<open>Build\<close>

definition material_decision :: "ResearchRequest \<Rightarrow> string \<Rightarrow> bool" where
  "material_decision request intent \<longleftrightarrow>
     rq_risk_flags request \<noteq> [] \<or> intent = IntentValuation \<or> intent = IntentThesisReview \<or>
     containsIntent (rq_secondary_intents request) IntentValuation \<or>
     containsIntent (rq_secondary_intents request) IntentThesisReview"

definition plan_context_roles :: "ResearchRequest \<Rightarrow> string \<Rightarrow> string list \<Rightarrow> string list" where
  "plan_context_roles request intent contextRoles =
     (let contextRoles = (if intent = IntentCompanyComparison then
            append_unique (append_unique (append_unique contextRoles BusinessStrategy)
              AccountingReporting) FinancialQuality
          else contextRoles)
      in ensureOutputAuthority contextRoles request)"

definition assemble_plan :: "Builder \<Rightarrow> ResearchRequest \<Rightarrow> PlanStep list \<Rightarrow> ResearchPlan" where
  "assemble_plan builder request steps =
     \<lparr>pl_schema_version = SchemaVersionV1, pl_plan_id = ''plan-'' @ rq_request_id request,
      pl_run_id = rq_run_id request, pl_request_id = rq_request_id request, pl_steps = steps,
      pl_max_parallel_specialists = int planParallel, pl_max_repair_passes = 1,
      pl_deadline_ms = bd_deadline_ms builder,
      pl_completion_conditions = [''risk_contrarian_approved'', ''evidence_critic_approved'', ''single_final_answer''],
      pl_abstention_conditions = [''missing_primary_evidence'', ''unresolved_material_conflict'', ''deadline_exceeded'']\<rparr>"

text \<open>
  \<open>Build\<close> in three stretches: validation and routing, the choice of roles, and the
  numbered steps.
\<close>

definition build_steps :: "Builder \<Rightarrow> ResearchRequest \<Rightarrow> string list \<Rightarrow> string list \<Rightarrow>
    go_error + ResearchPlan" where
  "build_steps builder request contextRoles reviewRoles =
     res_bind (context_steps builder (detectOperations (rq_user_text request)) 0 [] [] contextRoles)
       (\<lambda>(contextIDs, steps).
     res_bind (review_steps builder contextIDs 0 [] steps reviewRoles) (\<lambda>(reviewIDs, steps).
     let plan = assemble_plan builder request (steps @ [synthesis_step builder contextIDs reviewIDs])
     in check_then (ValidateResearchPlan plan) (Inr plan)))"

definition build_roles :: "Builder \<Rightarrow> ResearchRequest \<Rightarrow> string \<Rightarrow> Route \<Rightarrow> go_error + ResearchPlan" where
  "build_roles builder request intent route =
     (if ru_clarify_first route \<or> rq_ambiguities request \<noteq> [] then Inl ErrClarificationRequired
      else
        res_bind (classify_roles (bd_roles builder) []
            (foldl append_unique [RiskContrarian, EvidenceCritic] (ru_review_roles route))
            (ru_context_roles route)) (\<lambda>(contextRoles, reviewRoles).
        let contextRoles = plan_context_roles request intent contextRoles in
        if length contextRoles > 8 then
          Inl (ErrorsNew ''route exceeds bounded context specialist capacity'')
        else build_steps builder request contextRoles reviewRoles))"

definition Build :: "Builder \<Rightarrow> ResearchRequest \<Rightarrow> go_error + ResearchPlan" where
  "Build builder request = check_then (ValidateResearchRequest request)
     (res_bind (ValidateAndReturnIntent (rq_primary_intent request)) (\<lambda>intent.
      res_bind (PlanRoute (rq_user_text request) intent (material_decision request intent))
        (build_roles builder request intent)))"

end
