(* ===== verification/Packet_Laws.thy ===== *)
theory Packet_Laws
  imports Contracts_Validate
begin

text \<open>
  What the packet validator accepts, as a predicate over the packet's references: the
  abstract contract of a context packet, and the proof that \<open>ValidateContextPacket\<close>
  accepts exactly the packets that satisfy it.
\<close>

section \<open>References of a packet\<close>

abbreviation packet_findings :: "ContextPacket \<Rightarrow> Finding list" where
  "packet_findings p \<equiv> pk_findings p @ pk_counterevidence p"

definition finding_ok ::
  "gotime \<Rightarrow> string set \<Rightarrow> string set \<Rightarrow> string set \<Rightarrow> string set \<Rightarrow> Finding \<Rightarrow> bool" where
  "finding_ok asOf evidence assumptions receipts numericals f \<longleftrightarrow>
     validateFinding f = None \<and> fd_valid_as_of f \<le> asOf \<and>
     validateUniqueStrings (fd_evidence_refs f) ''evidence_refs'' = None \<and>
     validateUniqueStrings (fd_calculation_refs f) ''calculation_refs'' = None \<and>
     validateUniqueStrings (fd_numerical_refs f) ''numerical_refs'' = None \<and>
     validateUniqueStrings (fd_assumption_refs f) ''assumption_refs'' = None \<and>
     set (fd_evidence_refs f) \<subseteq> evidence \<and> set (fd_assumption_refs f) \<subseteq> assumptions \<and>
     set (fd_calculation_refs f) \<subseteq> receipts \<and> set (fd_numerical_refs f) \<subseteq> numericals"

definition evidence_item_ok :: "gotime \<Rightarrow> EvidenceRef \<Rightarrow> bool" where
  "evidence_item_ok asOf e \<longleftrightarrow>
     \<not> blank (ev_evidence_id e) \<and> \<not> blank (ev_source_type e) \<and> \<not> blank (ev_locator e) \<and>
     \<not> blank (ev_content_sha256 e) \<and> ev_as_of e \<noteq> 0 \<and> ev_as_of e \<le> asOf"

definition variables_ok :: "'d apd_lib \<Rightarrow> gotime \<Rightarrow> NumericalVariable list \<Rightarrow> bool" where
  "variables_ok L asOf vars \<longleftrightarrow>
     (\<forall>v \<in> set vars. validateNumericalVariable L v asOf = None) \<and>
     distinct (map nv_variable_id vars) \<and>
     (\<forall>v \<in> set vars. set (nv_baseline_refs v) \<subseteq> nv_variable_id ` set vars)"

definition relations_ok ::
  "'d apd_lib \<Rightarrow> NumericalVariable list \<Rightarrow> NumericalRelation list \<Rightarrow> bool" where
  "relations_ok L vars rels \<longleftrightarrow>
     distinct (map nr_relation_id rels) \<and>
     (\<forall>r \<in> set rels. nr_relation_id r \<notin> nv_variable_id ` set vars \<and>
        validateNumericalRelation L r (index_by nv_variable_id vars) = None)"

definition numerical_ok :: "'d apd_lib \<Rightarrow> NumericalContext \<Rightarrow> bool" where
  "numerical_ok L c \<longleftrightarrow>
     validateEnvelope (nc_schema_version c) (nc_context_id c) (nc_run_id c) = None \<and>
     nc_version c = NumericalContextVersionV1 \<and> nc_as_of c \<noteq> 0 \<and> nc_variables c \<noteq> [] \<and>
     variables_ok L (nc_as_of c) (nc_variables c) \<and>
     relations_ok L (nc_variables c) (nc_relations c)"

definition packet_numerical_ok ::
  "'d apd_lib \<Rightarrow> string \<Rightarrow> gotime \<Rightarrow> string set \<Rightarrow> NumericalContext option \<Rightarrow> bool" where
  "packet_numerical_ok L runID asOf receipts n \<longleftrightarrow>
     (\<forall>c. n = Some c \<longrightarrow> nc_run_id c = runID \<and> nc_as_of c \<le> asOf \<and> numerical_ok L c \<and>
        (\<forall>v \<in> set (nc_variables c). set (nv_receipt_refs v) \<subseteq> receipts) \<and>
        (\<forall>r \<in> set (nc_relations c). set (nr_receipt_refs r) \<subseteq> receipts))"

definition packet_header_ok :: "ContextPacket \<Rightarrow> bool" where
  "packet_header_ok p \<longleftrightarrow>
     validateEnvelope (pk_schema_version p) (pk_packet_id p) (pk_run_id p) = None \<and>
     \<not> blank (pk_step_id p) \<and> \<not> blank (pk_specialist_role p) \<and> \<not> blank (pk_objective p) \<and>
     sc_as_of (pk_scope p) \<noteq> 0 \<and>
     (\<forall>a \<in> set (pk_assumptions p). \<not> blank a) \<and> distinct (map trim_space (pk_assumptions p)) \<and>
     (\<forall>c \<in> set (pk_conflicts p). \<not> blank c) \<and> distinct (pk_conflicts p)"

definition receipts_ok :: "'d apd_lib \<Rightarrow> gotime \<Rightarrow> CalculationReceipt list \<Rightarrow> bool" where
  "receipts_ok L asOf rs \<longleftrightarrow> distinct (map cr_receipt_id rs) \<and>
     (\<forall>r \<in> set rs. ValidateCalculationReceipt L r = None \<and> cr_source_as_of r \<le> asOf)"

definition packet_ok :: "'d apd_lib \<Rightarrow> ContextPacket \<Rightarrow> bool" where
  "packet_ok L p \<longleftrightarrow> packet_header_ok p \<and>
     (\<forall>e \<in> set (pk_evidence p). evidence_item_ok (sc_as_of (pk_scope p)) e) \<and>
     distinct (map ev_evidence_id (pk_evidence p)) \<and>
     receipts_ok L (sc_as_of (pk_scope p)) (pk_calculation_receipts p) \<and>
     packet_numerical_ok L (pk_run_id p) (sc_as_of (pk_scope p))
       (cr_receipt_id ` set (pk_calculation_receipts p)) (pk_numerical_context p) \<and>
     (\<forall>f \<in> set (packet_findings p). finding_ok (sc_as_of (pk_scope p))
        (ev_evidence_id ` set (pk_evidence p)) (trim_space ` set (pk_assumptions p))
        (cr_receipt_id ` set (pk_calculation_receipts p))
        (set (numerical_ids (pk_numerical_context p))) f)"

section \<open>The validators accept exactly these\<close>

lemma subset_range_err [check_simps]:
  "range_err (\<lambda>i x. fail_if (x \<notin> S) (e i x)) xs = None \<longleftrightarrow> set xs \<subseteq> S"
  by (subst range_err_None_uniform [where P = "\<lambda>x. x \<in> S"]) auto

lemma validateFindingReferences_None [check_simps]:
  "validateFindingReferences f ev as = None \<longleftrightarrow>
     validateUniqueStrings (fd_evidence_refs f) ''evidence_refs'' = None \<and>
     validateUniqueStrings (fd_calculation_refs f) ''calculation_refs'' = None \<and>
     validateUniqueStrings (fd_numerical_refs f) ''numerical_refs'' = None \<and>
     validateUniqueStrings (fd_assumption_refs f) ''assumption_refs'' = None \<and>
     set (fd_evidence_refs f) \<subseteq> set ev \<and> set (fd_assumption_refs f) \<subseteq> set as"
  by (simp add: validateFindingReferences_def subset_range_err)

lemma check_packet_finding_None [check_simps]:
  "check_packet_finding lbl t ev as rs ns i f = None \<longleftrightarrow>
     finding_ok t (set ev) (set as) (set rs) (set ns) f"
  by (auto simp: check_packet_finding_def finding_ok_def subset_range_err
      validateFindingReferences_None)

lemma check_packet_evidence_None [check_simps]:
  "check_packet_evidence t es = None \<longleftrightarrow>
     (\<forall>e \<in> set es. evidence_item_ok t e) \<and> distinct (map ev_evidence_id es)"
  unfolding check_packet_evidence_def
  by (subst scan_unique_None [where P = "evidence_item_ok t" and Q = "\<lambda>_. True"])
    (auto simp: evidence_item_ok_def)

lemma check_packet_assumptions_None [check_simps]:
  "check_packet_assumptions as = None \<longleftrightarrow>
     (\<forall>a \<in> set as. \<not> blank a) \<and> distinct (map trim_space as)"
  unfolding check_packet_assumptions_def
  by (subst scan_unique_None [where P = "\<lambda>a. \<not> blank a" and Q = "\<lambda>_. True"]) auto

lemma check_packet_conflicts_None [check_simps]:
  "check_packet_conflicts cs = None \<longleftrightarrow> (\<forall>c \<in> set cs. \<not> blank c) \<and> distinct cs"
  unfolding check_packet_conflicts_def
  by (subst scan_unique_None [where P = "\<lambda>a. \<not> blank a" and Q = "\<lambda>_. True"]) auto

lemma check_packet_receipts_None [check_simps]:
  "check_packet_receipts L t rs = None \<longleftrightarrow> receipts_ok L t rs"
  unfolding check_packet_receipts_def
  by (subst scan_unique_None [where P = "\<lambda>r. ValidateCalculationReceipt L r = None"
        and Q = "\<lambda>r. cr_source_as_of r \<le> t"])
    (auto simp: receipts_ok_def)

lemma missing_receipt_None [check_simps]:
  "missing_receipt l n rs refs = None \<longleftrightarrow> set refs \<subseteq> set rs"
  by (simp add: missing_receipt_def subset_range_err)

lemma missing_receipt_range_None [check_simps]:
  "range_err (\<lambda>_ v. missing_receipt l (i v) rs (g v)) xs = None \<longleftrightarrow> (\<forall>v \<in> set xs. set (g v) \<subseteq> set rs)"
  by (rule range_err_None_uniform) (simp add: missing_receipt_None)

lemma check_baselines_None [check_simps]:
  "check_baselines vars = None \<longleftrightarrow>
     (\<forall>v \<in> set vars. set (nv_baseline_refs v) \<subseteq> nv_variable_id ` set vars)"
  unfolding check_baselines_def
  by (subst range_err_None_uniform
      [where P = "\<lambda>v. set (nv_baseline_refs v) \<subseteq> nv_variable_id ` set vars"])
    (simp_all add: subset_range_err)

lemma check_relations_None [check_simps]:
  "check_relations L vars rels = None \<longleftrightarrow> relations_ok L vars rels"
  unfolding check_relations_def
  by (subst scan_unique_None [where P = "\<lambda>_. True"
        and Q = "\<lambda>r. nr_relation_id r \<notin> nv_variable_id ` set vars \<and>
          validateNumericalRelation L r (index_by nv_variable_id vars) = None"])
    (auto simp: relations_ok_def)

lemma ValidateNumericalContext_None [check_simps]:
  "ValidateNumericalContext L c = None \<longleftrightarrow> numerical_ok L c"
proof -
  have "scan_unique (\<lambda>i variable. wrap_err f (as i) (validateNumericalVariable L variable t))
      nv_variable_id d no_check vars = None \<longleftrightarrow>
      (\<forall>v \<in> set vars. validateNumericalVariable L v t = None) \<and> distinct (map nv_variable_id vars)"
    for f as t d vars
    by (subst scan_unique_None [where P = "\<lambda>v. validateNumericalVariable L v t = None"
          and Q = "\<lambda>_. True"]) auto
  then show ?thesis
    unfolding ValidateNumericalContext_def
    by (simp add: numerical_ok_def variables_ok_def check_baselines_None check_relations_None conj_assoc)
qed

lemma check_packet_numerical_None [check_simps]:
  "check_packet_numerical L run t rs n = None \<longleftrightarrow> packet_numerical_ok L run t (set rs) n"
proof (cases n)
  case None
  then show ?thesis by (simp add: check_packet_numerical_def packet_numerical_ok_def)
next
  case (Some c)
  then show ?thesis
    by (auto simp: check_packet_numerical_def packet_numerical_ok_def ValidateNumericalContext_None
        missing_receipt_range_None)
qed

lemma ValidateContextPacket_None:
  "ValidateContextPacket L p = None \<longleftrightarrow> packet_ok L p"
proof -
  let ?t = "sc_as_of (pk_scope p)"
  let ?ev = "map ev_evidence_id (pk_evidence p)" and ?as = "map trim_space (pk_assumptions p)"
  let ?rs = "map cr_receipt_id (pk_calculation_receipts p)"
  let ?ns = "numerical_ids (pk_numerical_context p)"
  have loop: "range_err (check_packet_finding lbl ?t ?ev ?as ?rs ?ns) fs = None \<longleftrightarrow>
      (\<forall>f \<in> set fs. finding_ok ?t (set ?ev) (set ?as) (set ?rs) (set ?ns) f)" for lbl fs
    by (rule range_err_None_uniform) (rule check_packet_finding_None)
  show ?thesis
    unfolding ValidateContextPacket_def Let_def
    by (simp only: first_err_Cons_None first_err_Nil fail_if_None loop check_packet_evidence_None
        check_packet_assumptions_None check_packet_receipts_None check_packet_numerical_None
        check_packet_conflicts_None packet_ok_def packet_header_ok_def set_append set_map)
      auto
qed

end
