(* ===== verification/Pruning.thy ===== *)
theory Pruning
  imports Packet_Laws Research_Validate
begin

text \<open>
  How the orchestrator removes claims from context packets
  (\<open>internal/orchestrator/runtime.go\<close>: \<open>prunePacketReferences\<close>,
  \<open>narrowContextPackets\<close>, \<open>filterClaims\<close>, \<open>closeExplicitlyApprovedSubset\<close>), and the
  proof that pruning keeps a packet valid.

  Packets are values here, so \<open>clonePackets\<close>, which unshares the slices before they are
  replaced, is the identity. The recursive closure \<open>retainVariable\<close> is written with its
  pending calls as an explicit stack.
\<close>

section \<open>Retaining variables and their baselines\<close>

function retainVariable :: "NumericalVariable list \<Rightarrow> string list \<Rightarrow> string list \<Rightarrow> string list" where
  "retainVariable vars [] retained = retained"
| "retainVariable vars (x # pending) retained =
     (if x \<in> set retained then retainVariable vars pending retained
      else (case index_by nv_variable_id vars x of
              None \<Rightarrow> retainVariable vars pending retained
            | Some variable \<Rightarrow>
                retainVariable vars (nv_baseline_refs variable @ pending) (x # retained)))"
  by pat_completeness auto
termination
proof (relation "measures [\<lambda>(vars, pending, retained).
    card (nv_variable_id ` set vars - set retained), \<lambda>(vars, pending, retained). length pending]",
    goal_cases)
  case (4 vars x pending retained variable)
  then have "x \<in> nv_variable_id ` set vars - set retained"
    using index_by_Some by fastforce
  then have "card (nv_variable_id ` set vars - set (x # retained)) <
      card (nv_variable_id ` set vars - set retained)"
    by (intro psubset_card_mono) auto
  then show ?case by simp
qed auto

definition baseline_edges :: "NumericalVariable list \<Rightarrow> (string \<times> string) set" where
  "baseline_edges vars =
     {(x, y). \<exists>v. index_by nv_variable_id vars x = Some v \<and> y \<in> set (nv_baseline_refs v)}"

text \<open>The contract of the closure: what is reachable through baselines, among the variables.\<close>

definition baseline_closure :: "NumericalVariable list \<Rightarrow> string set \<Rightarrow> string set" where
  "baseline_closure vars start = (baseline_edges vars)\<^sup>* `` start \<inter> nv_variable_id ` set vars"

lemma retainVariable_keeps:
  "set retained \<subseteq> set (retainVariable vars pending retained)"
  by (induction vars pending retained rule: retainVariable.induct) (auto split: option.splits)

lemma retainVariable_roots:
  "set pending \<inter> nv_variable_id ` set vars \<subseteq> set (retainVariable vars pending retained)"
proof (induction vars pending retained rule: retainVariable.induct)
  case (2 vars x pending retained)
  show ?case
  proof (cases "x \<in> set retained")
    case True
    with "2.IH"(1) retainVariable_keeps [of retained vars pending] show ?thesis by auto
  next
    case False
    show ?thesis
    proof (cases "index_by nv_variable_id vars x")
      case None
      then have "x \<notin> nv_variable_id ` set vars" by (simp add: index_by_None)
      with False None "2.IH"(2) show ?thesis by simp
    next
      case (Some v)
      with False "2.IH"(3) [OF False Some]
        retainVariable_keeps [of "x # retained" vars "nv_baseline_refs v @ pending"]
      show ?thesis by auto
    qed
  qed
qed simp

lemma retainVariable_closed:
  assumes "baseline_edges vars `` set retained \<inter> nv_variable_id ` set vars \<subseteq> set pending \<union> set retained"
  shows "baseline_edges vars `` set (retainVariable vars pending retained) \<inter> nv_variable_id ` set vars
    \<subseteq> set (retainVariable vars pending retained)"
  using assms
proof (induction vars pending retained rule: retainVariable.induct)
  case (2 vars x pending retained)
  show ?case
  proof (cases "x \<in> set retained")
    case True
    with "2.prems" have "baseline_edges vars `` set retained \<inter> nv_variable_id ` set vars
        \<subseteq> set pending \<union> set retained" by auto
    from "2.IH"(1) [OF True this] True show ?thesis by simp
  next
    case False
    show ?thesis
    proof (cases "index_by nv_variable_id vars x")
      case None
      with "2.prems" have "baseline_edges vars `` set retained \<inter> nv_variable_id ` set vars
          \<subseteq> set pending \<union> set retained" by (auto simp: index_by_None)
      from "2.IH"(2) [OF False None this] False None show ?thesis by simp
    next
      case (Some v)
      with "2.prems" have "baseline_edges vars `` set (x # retained) \<inter> nv_variable_id ` set vars
          \<subseteq> set (nv_baseline_refs v @ pending) \<union> set (x # retained)"
        by (auto simp: baseline_edges_def)
      from "2.IH"(3) [OF False Some this] False Some show ?thesis by simp
    qed
  qed
qed simp

lemma retainVariable_reachable:
  "set (retainVariable vars pending retained) \<subseteq> set retained \<union> baseline_closure vars (set pending)"
proof (induction vars pending retained rule: retainVariable.induct)
  case (2 vars x pending retained)
  have mono: "baseline_closure vars (set pending) \<subseteq> baseline_closure vars (set (x # pending))"
    by (auto simp: baseline_closure_def)
  show ?case
  proof (cases "x \<in> set retained \<or> index_by nv_variable_id vars x = None")
    case True
    with "2.IH"(1,2) mono show ?thesis by (auto split: option.splits)
  next
    case False
    then obtain v where v: "index_by nv_variable_id vars x = Some v" and x: "x \<notin> set retained"
      by auto
    have edge: "(x, y) \<in> baseline_edges vars" if "y \<in> set (nv_baseline_refs v)" for y
      using that v by (auto simp: baseline_edges_def)
    have "baseline_closure vars (set (nv_baseline_refs v @ pending)) \<subseteq>
        baseline_closure vars (set (x # pending))"
      by (auto simp: baseline_closure_def intro: converse_rtrancl_into_rtrancl edge)
    moreover have "x \<in> baseline_closure vars (set (x # pending))"
      using index_by_Some [OF v] by (auto simp: baseline_closure_def)
    ultimately show ?thesis using "2.IH"(3) [OF x v] x v by auto
  qed
qed simp

lemma baseline_edges_source: "(x, y) \<in> baseline_edges vars \<Longrightarrow> x \<in> nv_variable_id ` set vars"
  using index_by_Some by (fastforce simp: baseline_edges_def)

text \<open>
  From a set that is already closed the loop adds exactly what is reachable, whatever the
  order in which the identifiers are visited.
\<close>

lemma retainVariable_closure:
  assumes "set retained = baseline_closure vars S"
  shows "set (retainVariable vars pending retained) = baseline_closure vars (S \<union> set pending)"
proof
  let ?X = "nv_variable_id ` set vars" and ?R = "retainVariable vars pending retained"
  show "set ?R \<subseteq> baseline_closure vars (S \<union> set pending)"
    using retainVariable_reachable [of vars pending retained] assms
    by (auto simp: baseline_closure_def)
  have "baseline_edges vars `` set retained \<inter> ?X \<subseteq> set retained"
    using assms by (auto simp: baseline_closure_def intro: rtrancl_into_rtrancl)
  then have closed: "baseline_edges vars `` set ?R \<inter> ?X \<subseteq> set ?R"
    by (intro retainVariable_closed) auto
  have step: "y \<in> ?X \<longrightarrow> y \<in> set ?R"
    if "(x, y) \<in> (baseline_edges vars)\<^sup>*" and "x \<in> set ?R \<or> x \<notin> ?X" for x y
    using that
  proof (induction rule: rtrancl_induct)
    case (step y z)
    then show ?case using closed baseline_edges_source by blast
  qed auto
  have roots: "x \<in> set ?R" if "x \<in> set pending \<union> S" "x \<in> ?X" for x
    using that retainVariable_roots [of pending vars retained]
      retainVariable_keeps [of retained vars pending] assms
    by (auto simp: baseline_closure_def)
  show "baseline_closure vars (S \<union> set pending) \<subseteq> set ?R"
    using step roots by (auto simp: baseline_closure_def)
qed

lemma baseline_closure_empty [simp]: "baseline_closure vars {} = {}"
  by (simp add: baseline_closure_def)

lemma baseline_closure_baselines:
  assumes "x \<in> baseline_closure vars S" and "index_by nv_variable_id vars x = Some v"
    and "y \<in> set (nv_baseline_refs v)" and "y \<in> nv_variable_id ` set vars"
  shows "y \<in> baseline_closure vars S"
proof -
  have "(x, y) \<in> baseline_edges vars" using assms by (auto simp: baseline_edges_def)
  with assms show ?thesis by (auto simp: baseline_closure_def intro: rtrancl_into_rtrancl)
qed

section \<open>prunePacketReferences\<close>

definition finding_numerical_refs :: "Finding list \<Rightarrow> string list" where
  "finding_numerical_refs fs = concat (map fd_numerical_refs fs)"

text \<open>
  The loop over the cited numerical identifiers: a relation keeps itself and both its
  variables, any other identifier keeps a variable. The source ranges over a map, so in an
  unspecified order; the state is the pair of retained variables and retained relations.
\<close>

fun retain_cited ::
  "NumericalVariable list \<Rightarrow> NumericalRelation list \<Rightarrow> string list \<Rightarrow>
   string list \<times> string list \<Rightarrow> string list \<times> string list" where
  "retain_cited vars rels [] st = st"
| "retain_cited vars rels (n # ns) (keptV, keptR) =
     (case index_by nr_relation_id rels n of
        Some relation \<Rightarrow> retain_cited vars rels ns
          (retainVariable vars [nr_right_variable_id relation]
             (retainVariable vars [nr_left_variable_id relation] keptV), n # keptR)
      | None \<Rightarrow> retain_cited vars rels ns (retainVariable vars [n] keptV, keptR))"

definition prune_numerical :: "string list \<Rightarrow> NumericalContext \<Rightarrow> NumericalVariable list \<times> NumericalRelation list" where
  "prune_numerical cited context =
     (case retain_cited (nc_variables context) (nc_relations context) cited ([], []) of
        (keptV, keptR) \<Rightarrow>
          (filter (\<lambda>v. nv_variable_id v \<in> set keptV) (nc_variables context),
           filter (\<lambda>r. nr_relation_id r \<in> set keptR) (nc_relations context)))"

definition prunePacketReferences :: "ContextPacket \<Rightarrow> ContextPacket" where
  "prunePacketReferences packet =
     (let findings = packet_findings packet;
          evidence = concat (map fd_evidence_refs findings);
          receipts = concat (map fd_calculation_refs findings);
          (vars, rels) = (case pk_numerical_context packet of None \<Rightarrow> ([], [])
            | Some context \<Rightarrow> prune_numerical (finding_numerical_refs findings) context);
          evidence = evidence @ concat (map nv_evidence_refs vars) @ concat (map nr_evidence_refs rels);
          receipts = receipts @ concat (map nv_receipt_refs vars) @ concat (map nr_receipt_refs rels);
          numerical = (case pk_numerical_context packet of None \<Rightarrow> None
            | Some context \<Rightarrow> if vars = [] then None
                else Some (context\<lparr>nc_variables := vars, nc_relations := rels\<rparr>));
          keptReceipts = filter (\<lambda>r. cr_receipt_id r \<in> set receipts) (pk_calculation_receipts packet);
          evidence = evidence @ concat (map cr_evidence_refs keptReceipts);
          keptEvidence = filter (\<lambda>e. ev_evidence_id e \<in> set evidence) (pk_evidence packet)
      in packet\<lparr>pk_numerical_context := numerical, pk_calculation_receipts := keptReceipts,
                pk_evidence := keptEvidence\<rparr>)"

section \<open>Narrowing and the approved subset\<close>

text \<open>\<open>filterClaims\<close> threads the flag that says whether a claim was dropped.\<close>

definition filterClaims :: "Finding list \<Rightarrow> string list \<Rightarrow> bool \<Rightarrow> Finding list \<times> bool" where
  "filterClaims findings rejected changed =
     (filter (\<lambda>f. fd_claim_id f \<notin> set rejected) findings,
      changed \<or> (\<exists>f \<in> set findings. fd_claim_id f \<in> set rejected))"

text \<open>The loop of \<open>narrowContextPackets\<close>; \<open>None\<close> is its early return on an invalid packet.\<close>

fun narrow_loop ::
  "'d apd_lib \<Rightarrow> string list \<Rightarrow> bool \<Rightarrow> ContextPacket list \<Rightarrow> (ContextPacket list \<times> bool) option" where
  "narrow_loop L rejected changed [] = Some ([], changed)"
| "narrow_loop L rejected changed (packet # packets) =
     (let (findings, changed1) = filterClaims (pk_findings packet) rejected changed;
          (counter, changed2) = filterClaims (pk_counterevidence packet) rejected changed1;
          pruned = prunePacketReferences
            (packet\<lparr>pk_findings := findings, pk_counterevidence := counter\<rparr>)
      in if ValidateContextPacket L pruned \<noteq> None then None
         else (case narrow_loop L rejected changed2 packets of
                 None \<Rightarrow> None
               | Some (rest, changed3) \<Rightarrow> Some (pruned # rest, changed3)))"

definition rejected_claims :: "CritiqueReport \<Rightarrow> string list" where
  "rejected_claims report =
     cp_rejected_claims report @ concat (map ci_claim_refs (cp_issues report))"

definition narrowContextPackets ::
  "'d apd_lib \<Rightarrow> ContextPacket list \<Rightarrow> CritiqueReport \<Rightarrow> ContextPacket list \<times> bool" where
  "narrowContextPackets L packets report =
     (let rejected = rejected_claims report
      in if rejected = [] then (packets, False)
         else (case narrow_loop L rejected False packets of
                 None \<Rightarrow> (packets, False)
               | Some result \<Rightarrow> result))"

definition restrict_claims :: "string list \<Rightarrow> ContextPacket \<Rightarrow> ContextPacket" where
  "restrict_claims approved packet = prunePacketReferences
     (packet\<lparr>pk_findings := filter (\<lambda>f. fd_claim_id f \<in> set approved) (pk_findings packet),
             pk_counterevidence := filter (\<lambda>f. fd_claim_id f \<in> set approved) (pk_counterevidence packet)\<rparr>)"

text \<open>
  \<open>len(retained) != len(approved)\<close> compares the sizes of two sets of identifiers, the
  first a subset of the second. \<open>None\<close> is the code's \<open>false\<close> result.
\<close>

definition closeExplicitlyApprovedSubset ::
  "'d apd_lib \<Rightarrow> ContextPacket list \<Rightarrow> CritiqueReport \<Rightarrow> (ContextPacket list \<times> CritiqueReport) option" where
  "closeExplicitlyApprovedSubset L packets report =
     (if cp_approved_claims report = [] then None
      else let approved = remdups (cp_approved_claims report);
               result = map (restrict_claims approved) packets;
               retained = remdups (filter (\<lambda>c. c \<in> set approved)
                 (concat (map (\<lambda>p. map fd_claim_id (packet_findings p)) packets)));
               approval = report\<lparr>cp_report_id := cp_report_id report @ ''-approved-subset'',
                 cp_decision := CritiqueApprove, cp_rejected_claims := [], cp_issues := []\<rparr>
           in if list_ex (\<lambda>p. ValidateContextPacket L p \<noteq> None) result then None
              else if length retained \<noteq> length approved then None
              else if ValidateCritiqueReport approval \<noteq> None then None
              else Some (result, approval))"

section \<open>What the loop over cited identifiers keeps\<close>

definition cited_roots :: "NumericalRelation list \<Rightarrow> string set \<Rightarrow> string set" where
  "cited_roots rels ns = (\<Union>n \<in> ns. case index_by nr_relation_id rels n of
     Some r \<Rightarrow> {nr_left_variable_id r, nr_right_variable_id r} | None \<Rightarrow> {n})"

lemma cited_roots_insert [simp]:
  "cited_roots rels (insert n ns) = (case index_by nr_relation_id rels n of
     Some r \<Rightarrow> {nr_left_variable_id r, nr_right_variable_id r} | None \<Rightarrow> {n}) \<union> cited_roots rels ns"
  by (simp add: cited_roots_def)

lemma cited_roots_empty [simp]: "cited_roots rels {} = {}"
  by (simp add: cited_roots_def)

lemma retain_cited_variables:
  assumes "set keptV = baseline_closure vars S"
  shows "set (fst (retain_cited vars rels ns (keptV, keptR))) =
    baseline_closure vars (S \<union> cited_roots rels (set ns))"
  using assms
proof (induction ns arbitrary: keptV keptR S)
  case (Cons n ns)
  show ?case
  proof (cases "index_by nr_relation_id rels n")
    case None
    from Cons.IH [OF retainVariable_closure [OF Cons.prems, of "[n]"]] None show ?thesis
      by (simp add: insert_commute)
  next
    case (Some r)
    from Cons.IH [OF retainVariable_closure [OF retainVariable_closure
          [OF Cons.prems, of "[nr_left_variable_id r]"], of "[nr_right_variable_id r]"]] Some
    show ?thesis by (simp add: insert_commute)
  qed
qed simp

lemma retain_cited_relations:
  "set (snd (retain_cited vars rels ns (keptV, keptR))) =
     set keptR \<union> (set ns \<inter> nr_relation_id ` set rels)"
proof (induction ns arbitrary: keptV keptR)
  case (Cons n ns)
  show ?case
  proof (cases "index_by nr_relation_id rels n")
    case None
    then have "n \<notin> nr_relation_id ` set rels" by (simp add: index_by_None)
    with None Cons.IH show ?thesis by simp
  next
    case (Some r)
    with index_by_Some [OF Some] Cons.IH show ?thesis by auto
  qed
qed simp

lemma prune_numerical_eq:
  "prune_numerical cited c =
    (filter (\<lambda>v. nv_variable_id v \<in>
        baseline_closure (nc_variables c) (cited_roots (nc_relations c) (set cited))) (nc_variables c),
     filter (\<lambda>r. nr_relation_id r \<in> set cited) (nc_relations c))"
proof -
  obtain V R where VR: "retain_cited (nc_variables c) (nc_relations c) cited ([], []) = (V, R)"
    by (cases "retain_cited (nc_variables c) (nc_relations c) cited ([], [])")
  have "set V = baseline_closure (nc_variables c) (cited_roots (nc_relations c) (set cited))"
    using retain_cited_variables [of "[]" "nc_variables c" "{}" "nc_relations c" cited "[]"] VR by simp
  moreover have "set R = set cited \<inter> nr_relation_id ` set (nc_relations c)"
    using retain_cited_relations [of "nc_variables c" "nc_relations c" cited "[]" "[]"] VR by simp
  ultimately show ?thesis
    using VR by (auto simp: prune_numerical_def intro!: filter_cong)
qed

section \<open>Pruning keeps a numerical context valid\<close>

lemma index_by_filter:
  assumes "distinct (map key xs)"
  shows "index_by key (filter P xs) k =
    (case index_by key xs k of None \<Rightarrow> None | Some x \<Rightarrow> if P x then Some x else None)"
proof (cases "index_by key xs k")
  case None
  then have "index_by key (filter P xs) k = None" by (auto simp: index_by_None)
  with None show ?thesis by simp
next
  case (Some x)
  then have x: "x \<in> set xs" "key x = k" using index_by_Some by fast+
  show ?thesis
  proof (cases "P x")
    case True
    have "distinct (map key (filter P xs))" using assms by (simp add: distinct_map inj_on_def)
    with True x have "index_by key (filter P xs) k = Some x"
      using index_by_distinct [of key "filter P xs" x] by simp
    with Some True show ?thesis by simp
  next
    case False
    have "index_by key (filter P xs) k = None"
      using x False assms by (auto simp: index_by_None distinct_map dest: inj_onD)
    with Some False show ?thesis by simp
  qed
qed

lemma validateNumericalRelation_cong:
  assumes "m (nr_left_variable_id r) = m' (nr_left_variable_id r)"
    and "m (nr_right_variable_id r) = m' (nr_right_variable_id r)"
  shows "validateNumericalRelation L r m = validateNumericalRelation L r m'"
  using assms by (simp add: validateNumericalRelation_def)

lemma validateNumericalRelation_endpoints:
  assumes "validateNumericalRelation L r (index_by nv_variable_id vars) = None"
  shows "nr_left_variable_id r \<in> nv_variable_id ` set vars"
    and "nr_right_variable_id r \<in> nv_variable_id ` set vars"
proof -
  have "index_by nv_variable_id vars (nr_left_variable_id r) \<noteq> None \<and>
      index_by nv_variable_id vars (nr_right_variable_id r) \<noteq> None"
    using assms
    by (cases "index_by nv_variable_id vars (nr_left_variable_id r)";
        cases "index_by nv_variable_id vars (nr_right_variable_id r)")
      (simp_all add: validateNumericalRelation_def)
  then show "nr_left_variable_id r \<in> nv_variable_id ` set vars"
    and "nr_right_variable_id r \<in> nv_variable_id ` set vars"
    by (simp_all add: index_by_None)
qed

lemma variables_ok_prune:
  assumes "variables_ok L t vars"
  shows "variables_ok L t (filter (\<lambda>v. nv_variable_id v \<in> baseline_closure vars S) vars)"
  unfolding variables_ok_def
proof (intro conjI ballI subsetI)
  fix v y
  assume v: "v \<in> set (filter (\<lambda>v. nv_variable_id v \<in> baseline_closure vars S) vars)"
    and y: "y \<in> set (nv_baseline_refs v)"
  from assms v have "index_by nv_variable_id vars (nv_variable_id v) = Some v"
    by (intro index_by_distinct) (auto simp: variables_ok_def)
  moreover have "y \<in> nv_variable_id ` set vars"
    using assms v y by (auto simp: variables_ok_def)
  ultimately have "y \<in> baseline_closure vars S"
    using v y baseline_closure_baselines [of "nv_variable_id v" vars S v y] by simp
  with \<open>y \<in> nv_variable_id ` set vars\<close>
  show "y \<in> nv_variable_id ` set (filter (\<lambda>v. nv_variable_id v \<in> baseline_closure vars S) vars)"
    by auto
next
  show "distinct (map nv_variable_id (filter (\<lambda>v. nv_variable_id v \<in> baseline_closure vars S) vars))"
    using assms by (auto simp: variables_ok_def distinct_map inj_on_def)
next
  fix v
  assume "v \<in> set (filter (\<lambda>v. nv_variable_id v \<in> baseline_closure vars S) vars)"
  with assms show "validateNumericalVariable L v t = None" by (simp add: variables_ok_def)
qed

lemma relations_ok_prune:
  assumes vars: "distinct (map nv_variable_id vars)" and rels: "relations_ok L vars rels"
    and cited: "cited_roots rels cs \<subseteq> S"
  shows "relations_ok L (filter (\<lambda>v. nv_variable_id v \<in> baseline_closure vars S) vars)
    (filter (\<lambda>r. nr_relation_id r \<in> cs) rels)"
proof -
  let ?vs = "filter (\<lambda>v. nv_variable_id v \<in> baseline_closure vars S) vars"
  have "validateNumericalRelation L r (index_by nv_variable_id ?vs) = None"
    if r: "r \<in> set rels" "nr_relation_id r \<in> cs" for r
  proof -
    have ok: "validateNumericalRelation L r (index_by nv_variable_id vars) = None"
      using rels r by (auto simp: relations_ok_def)
    have "index_by nr_relation_id rels (nr_relation_id r) = Some r"
      using rels r by (intro index_by_distinct) (auto simp: relations_ok_def)
    then have roots: "nr_left_variable_id r \<in> S" "nr_right_variable_id r \<in> S"
      using cited r by (force simp: cited_roots_def)+
    have "index_by nv_variable_id ?vs x = index_by nv_variable_id vars x"
      if "x \<in> S" "x \<in> nv_variable_id ` set vars" for x
      using that index_by_Some [of nv_variable_id vars x]
      by (auto simp: index_by_filter [OF vars] baseline_closure_def index_by_None split: option.splits)
    then show ?thesis
      using ok roots validateNumericalRelation_endpoints [OF ok]
        validateNumericalRelation_cong [of "index_by nv_variable_id ?vs" r "index_by nv_variable_id vars" L]
      by simp
  qed
  with rels show ?thesis by (auto simp: relations_ok_def distinct_map inj_on_def)
qed

lemma numerical_ok_prune:
  assumes "numerical_ok L c" and "prune_numerical cited c = (vs, rs)" and "vs \<noteq> []"
  shows "numerical_ok L (c\<lparr>nc_variables := vs, nc_relations := rs\<rparr>)"
  using assms
    variables_ok_prune [of L "nc_as_of c" "nc_variables c" "cited_roots (nc_relations c) (set cited)"]
    relations_ok_prune [of "nc_variables c" L "nc_relations c" "set cited"
      "cited_roots (nc_relations c) (set cited)"]
  by (auto simp: prune_numerical_eq numerical_ok_def variables_ok_def)

section \<open>Pruning keeps a packet valid\<close>

lemma prune_numerical_keeps_cited:
  assumes c: "numerical_ok L c" and n: "n \<in> set cited" "n \<in> set (numerical_ids (Some c))"
    and prune: "prune_numerical cited c = (vs, rs)"
  shows "vs \<noteq> [] \<and> n \<in> nv_variable_id ` set vs \<union> nr_relation_id ` set rs"
proof -
  let ?S = "cited_roots (nc_relations c) (set cited)"
  let ?vars = "nc_variables c" and ?rels = "nc_relations c"
  have vs: "vs = filter (\<lambda>v. nv_variable_id v \<in> baseline_closure ?vars ?S) ?vars"
    and rs: "rs = filter (\<lambda>r. nr_relation_id r \<in> set cited) ?rels"
    using prune by (simp_all add: prune_numerical_eq)
  have kept: "x \<in> nv_variable_id ` set vs" if "x \<in> ?S" "x \<in> nv_variable_id ` set ?vars" for x
    using that by (auto simp: vs baseline_closure_def)
  show ?thesis
  proof (cases "index_by nr_relation_id ?rels n")
    case None
    then have "n \<in> nv_variable_id ` set ?vars"
      using n(2) by (auto simp: numerical_ids_def index_by_None)
    moreover have "n \<in> ?S" using None n(1) by (force simp: cited_roots_def)
    ultimately have "n \<in> nv_variable_id ` set vs" by (rule kept [rotated])
    then show ?thesis by auto
  next
    case (Some r)
    then have r: "r \<in> set ?rels" "nr_relation_id r = n" using index_by_Some by fast+
    with c have "validateNumericalRelation L r (index_by nv_variable_id ?vars) = None"
      by (auto simp: numerical_ok_def relations_ok_def)
    then have "nr_left_variable_id r \<in> nv_variable_id ` set ?vars"
      by (rule validateNumericalRelation_endpoints)
    moreover have "nr_left_variable_id r \<in> ?S" using Some n(1) by (force simp: cited_roots_def)
    ultimately have "nr_left_variable_id r \<in> nv_variable_id ` set vs" by (rule kept [rotated])
    with r n(1) show ?thesis by (auto simp: rs)
  qed
qed

lemma receipts_ok_filter: "receipts_ok L t rs \<Longrightarrow> receipts_ok L t (filter P rs)"
  by (auto simp: receipts_ok_def distinct_map inj_on_def)

lemma finding_ok_mono:
  assumes "finding_ok t E A R N f" and "set (fd_evidence_refs f) \<subseteq> E'"
    and "set (fd_calculation_refs f) \<subseteq> R'" and "set (fd_numerical_refs f) \<subseteq> N'"
  shows "finding_ok t E' A R' N' f"
  using assms by (auto simp: finding_ok_def)

lemma packet_ok_restrict:
  "packet_ok L p \<Longrightarrow> packet_ok L (p\<lparr>pk_findings := filter P (pk_findings p),
     pk_counterevidence := filter Q (pk_counterevidence p)\<rparr>)"
  by (auto simp: packet_ok_def packet_header_ok_def)

lemma prunePacketReferences_shape:
  assumes "pk_numerical_context p = None \<Longrightarrow> vs = [] \<and> rs = []"
    and "\<And>c. pk_numerical_context p = Some c \<Longrightarrow>
      prune_numerical (finding_numerical_refs (packet_findings p)) c = (vs, rs)"
  obtains E R where
    "prunePacketReferences p = p\<lparr>pk_numerical_context :=
         (case pk_numerical_context p of None \<Rightarrow> None | Some c \<Rightarrow>
            if vs = [] then None else Some (c\<lparr>nc_variables := vs, nc_relations := rs\<rparr>)),
       pk_calculation_receipts := filter (\<lambda>r. cr_receipt_id r \<in> R) (pk_calculation_receipts p),
       pk_evidence := filter (\<lambda>e. ev_evidence_id e \<in> E) (pk_evidence p)\<rparr>"
    and "R = (\<Union>f \<in> set (packet_findings p). set (fd_calculation_refs f)) \<union>
        (\<Union>v \<in> set vs. set (nv_receipt_refs v)) \<union> (\<Union>r \<in> set rs. set (nr_receipt_refs r))"
    and "E = (\<Union>f \<in> set (packet_findings p). set (fd_evidence_refs f)) \<union>
        (\<Union>v \<in> set vs. set (nv_evidence_refs v)) \<union> (\<Union>r \<in> set rs. set (nr_evidence_refs r)) \<union>
        (\<Union>r \<in> {r \<in> set (pk_calculation_receipts p). cr_receipt_id r \<in> R}. set (cr_evidence_refs r))"
proof (rule that [OF _ refl refl])
  have "(case pk_numerical_context p of None \<Rightarrow> ([], [])
      | Some c \<Rightarrow> prune_numerical (finding_numerical_refs (packet_findings p)) c) = (vs, rs)"
    using assms by (cases "pk_numerical_context p") auto
  then show "prunePacketReferences p = p\<lparr>pk_numerical_context :=
         (case pk_numerical_context p of None \<Rightarrow> None | Some c \<Rightarrow>
            if vs = [] then None else Some (c\<lparr>nc_variables := vs, nc_relations := rs\<rparr>)),
       pk_calculation_receipts := filter (\<lambda>r. cr_receipt_id r \<in>
         (\<Union>f \<in> set (packet_findings p). set (fd_calculation_refs f)) \<union>
        (\<Union>v \<in> set vs. set (nv_receipt_refs v)) \<union> (\<Union>r \<in> set rs. set (nr_receipt_refs r)))
         (pk_calculation_receipts p),
       pk_evidence := filter (\<lambda>e. ev_evidence_id e \<in>
         (\<Union>f \<in> set (packet_findings p). set (fd_evidence_refs f)) \<union>
        (\<Union>v \<in> set vs. set (nv_evidence_refs v)) \<union> (\<Union>r \<in> set rs. set (nr_evidence_refs r)) \<union>
        (\<Union>r \<in> {r \<in> set (pk_calculation_receipts p). cr_receipt_id r \<in>
          (\<Union>f \<in> set (packet_findings p). set (fd_calculation_refs f)) \<union>
        (\<Union>v \<in> set vs. set (nv_receipt_refs v)) \<union> (\<Union>r \<in> set rs. set (nr_receipt_refs r))}.
          set (cr_evidence_refs r))) (pk_evidence p)\<rparr>"
    unfolding prunePacketReferences_def Let_def
    by (simp add: Un_assoc Un_commute Un_left_commute cong: filter_cong)
qed

lemma subset_filter_image:
  "A \<subseteq> key ` set xs \<Longrightarrow> A \<subseteq> S \<Longrightarrow> A \<subseteq> key ` set (filter (\<lambda>x. key x \<in> S) xs)"
  by auto

lemma pruned_numerical_ok:
  assumes p: "packet_numerical_ok L run t (cr_receipt_id ` set crs) n"
    and vs: "\<And>c. n = Some c \<Longrightarrow> prune_numerical cited c = (vs, rs)"
    and R: "(\<Union>v \<in> set vs. set (nv_receipt_refs v)) \<union> (\<Union>r \<in> set rs. set (nr_receipt_refs r)) \<subseteq> R"
  shows "packet_numerical_ok L run t (cr_receipt_id ` set (filter (\<lambda>r. cr_receipt_id r \<in> R) crs))
    (case n of None \<Rightarrow> None | Some c \<Rightarrow>
       if vs = [] then None else Some (c\<lparr>nc_variables := vs, nc_relations := rs\<rparr>))"
proof (cases n)
  case None
  then show ?thesis by (simp add: packet_numerical_ok_def)
next
  case (Some c)
  then have c: "numerical_ok L c" "prune_numerical cited c = (vs, rs)"
    using p vs by (auto simp: packet_numerical_ok_def)
  have sub: "set vs \<subseteq> set (nc_variables c)" "set rs \<subseteq> set (nc_relations c)"
    using c(2) by (auto simp: prune_numerical_eq)
  have V: "set (nv_receipt_refs v) \<subseteq> cr_receipt_id ` set (filter (\<lambda>r. cr_receipt_id r \<in> R) crs)"
    if "v \<in> set vs" for v
  proof -
    have "set (nv_receipt_refs v) \<subseteq> cr_receipt_id ` set crs"
      using p sub that Some by (auto simp: packet_numerical_ok_def)
    then show ?thesis using R that by (intro subset_filter_image) auto
  qed
  have W: "set (nr_receipt_refs r) \<subseteq> cr_receipt_id ` set (filter (\<lambda>r. cr_receipt_id r \<in> R) crs)"
    if "r \<in> set rs" for r
  proof -
    have "set (nr_receipt_refs r) \<subseteq> cr_receipt_id ` set crs"
      using p sub that Some by (auto simp: packet_numerical_ok_def)
    then show ?thesis using R that by (intro subset_filter_image) auto
  qed
  show ?thesis
    using Some p V W numerical_ok_prune [OF c]
    unfolding packet_numerical_ok_def by simp
qed

lemma pruned_numerical_ids:
  assumes p: "packet_numerical_ok L run t S n"
    and vs: "\<And>c. n = Some c \<Longrightarrow> prune_numerical cited c = (vs, rs)"
    and x: "x \<in> set cited" "x \<in> set (numerical_ids n)"
  shows "x \<in> set (numerical_ids (case n of None \<Rightarrow> None | Some c \<Rightarrow>
       if vs = [] then None else Some (c\<lparr>nc_variables := vs, nc_relations := rs\<rparr>)))"
proof (cases n)
  case None
  with x show ?thesis by (simp add: numerical_ids_def)
next
  case (Some c)
  with p have c: "numerical_ok L c" by (simp add: packet_numerical_ok_def)
  have "vs \<noteq> [] \<and> x \<in> nv_variable_id ` set vs \<union> nr_relation_id ` set rs"
    using prune_numerical_keeps_cited [OF c x(1) _ vs [OF Some]] x(2) Some by simp
  with Some show ?thesis by (auto simp: numerical_ids_def)
qed

lemma packet_ok_prune:
  assumes p: "packet_ok L p"
  shows "packet_ok L (prunePacketReferences p)"
proof -
  let ?cited = "finding_numerical_refs (packet_findings p)"
  obtain vs rs where N: "pk_numerical_context p = None \<Longrightarrow> vs = [] \<and> rs = []"
    "\<And>c. pk_numerical_context p = Some c \<Longrightarrow> prune_numerical ?cited c = (vs, rs)"
    by (cases "pk_numerical_context p"; cases "prune_numerical ?cited (the (pk_numerical_context p))") auto
  from N obtain E R where
    eq: "prunePacketReferences p = p\<lparr>pk_numerical_context :=
         (case pk_numerical_context p of None \<Rightarrow> None | Some c \<Rightarrow>
            if vs = [] then None else Some (c\<lparr>nc_variables := vs, nc_relations := rs\<rparr>)),
       pk_calculation_receipts := filter (\<lambda>r. cr_receipt_id r \<in> R) (pk_calculation_receipts p),
       pk_evidence := filter (\<lambda>e. ev_evidence_id e \<in> E) (pk_evidence p)\<rparr>" (is "_ = ?p'")
    and R: "R = (\<Union>f \<in> set (packet_findings p). set (fd_calculation_refs f)) \<union>
        (\<Union>v \<in> set vs. set (nv_receipt_refs v)) \<union> (\<Union>r \<in> set rs. set (nr_receipt_refs r))"
    and E: "E = (\<Union>f \<in> set (packet_findings p). set (fd_evidence_refs f)) \<union>
        (\<Union>v \<in> set vs. set (nv_evidence_refs v)) \<union> (\<Union>r \<in> set rs. set (nr_evidence_refs r)) \<union>
        (\<Union>r \<in> {r \<in> set (pk_calculation_receipts p). cr_receipt_id r \<in> R}. set (cr_evidence_refs r))"
    by (rule prunePacketReferences_shape)
  have num: "packet_numerical_ok L (pk_run_id p) (sc_as_of (pk_scope p))
      (cr_receipt_id ` set (pk_calculation_receipts p)) (pk_numerical_context p)"
    using p by (simp add: packet_ok_def)
  have findings: "finding_ok (sc_as_of (pk_scope p)) (ev_evidence_id ` set (pk_evidence ?p'))
      (trim_space ` set (pk_assumptions p)) (cr_receipt_id ` set (pk_calculation_receipts ?p'))
      (set (numerical_ids (pk_numerical_context ?p'))) f" if f: "f \<in> set (packet_findings p)" for f
  proof (rule finding_ok_mono)
    show ok: "finding_ok (sc_as_of (pk_scope p)) (ev_evidence_id ` set (pk_evidence p))
      (trim_space ` set (pk_assumptions p)) (cr_receipt_id ` set (pk_calculation_receipts p))
      (set (numerical_ids (pk_numerical_context p))) f"
      using p f by (simp only: packet_ok_def)
    have "set (fd_evidence_refs f) \<subseteq> E" "set (fd_calculation_refs f) \<subseteq> R"
      using f by (auto simp: E R)
    with ok show "set (fd_evidence_refs f) \<subseteq> ev_evidence_id ` set (pk_evidence ?p')"
      and "set (fd_calculation_refs f) \<subseteq> cr_receipt_id ` set (pk_calculation_receipts ?p')"
      by (simp_all add: finding_ok_def subset_filter_image del: set_filter)
    have "x \<in> set ?cited" if "x \<in> set (fd_numerical_refs f)" for x
      using that f by (auto simp: finding_numerical_refs_def)
    then show "set (fd_numerical_refs f) \<subseteq> set (numerical_ids (pk_numerical_context ?p'))"
      using ok pruned_numerical_ids [OF num N(2)] by (auto simp: finding_ok_def)
  qed
  have "packet_numerical_ok L (pk_run_id p) (sc_as_of (pk_scope p))
      (cr_receipt_id ` set (pk_calculation_receipts ?p')) (pk_numerical_context ?p')"
    using pruned_numerical_ok [OF num N(2), of R] R by auto
  with p findings have "packet_ok L ?p'"
    unfolding packet_ok_def
    by (auto simp: packet_header_ok_def receipts_ok_filter distinct_map inj_on_def)
  with eq show ?thesis by simp
qed

end
