(* ===== verification/Runtime_Data.thy ===== *)
theory Runtime_Data
  imports Planner Pruning
begin

text \<open>
  The data of \<open>internal/orchestrator/runtime.go\<close>: events and traces, the lifecycle
  notifications of observed specialists, the operational attributes of events, failure
  receipts and the classification of errors.

  A map of attributes is the list of its entries, in the order the code writes them; its
  keys are distinct.
\<close>

section \<open>Events, traces and results\<close>

type_synonym attributes = "(string \<times> string) list"

record Event =
  evt_sequence :: int
  evt_run_id :: string
  evt_step_id :: string
  evt_type :: string
  evt_status :: string
  evt_at :: gotime
  evt_attributes :: attributes

record Trace =
  trc_schema_version :: string
  trc_run_id :: string
  trc_request_id :: string
  trc_plan_id :: string
  trc_events :: "Event list"
  trc_packet_ids :: "string list"
  trc_critique_ids :: "string list"
  trc_answer_id :: string
  trc_failures :: "string list"
  trc_max_concurrent_context :: int
  trc_started_at :: gotime
  trc_completed_at :: gotime

record ReviewInput =
  rin_request :: ResearchRequest
  rin_plan :: ResearchPlan
  rin_step :: PlanStep
  rin_packets :: "ContextPacket list"
  rin_prior :: "CritiqueReport list"
  rin_repair_pass :: int

record SynthesisInput =
  sin_request :: ResearchRequest
  sin_plan :: ResearchPlan
  sin_packets :: "ContextPacket list"
  sin_critiques :: "CritiqueReport list"

record RetrievalLifecycle =
  rtl_retrieval_id :: string
  rtl_bundle_id :: string
  rtl_method :: string
  rtl_evidence_count :: int
  rtl_source_classes :: "string list"
  rtl_as_of :: gotime
  rtl_missing_evidence_count :: int
  rtl_candidate_count :: int
  rtl_selected_candidate_count :: int
  rtl_rejected_candidate_count :: int
  rtl_candidate_counts_known :: bool
  rtl_failure_code :: string

record ToolLifecycle =
  tl_tool_execution_id :: string
  tl_receipt_id :: string
  tl_receipt_sha :: string
  tl_receipt_verification :: string
  tl_engine_id :: string
  tl_operation_id :: string
  tl_formula_version :: string
  tl_input_ref_ids :: "string list"
  tl_output_ref_ids :: "string list"
  tl_input_count :: int
  tl_output_count :: int
  tl_invariant_count :: int
  tl_invariants_passed :: bool
  tl_warning_count :: int
  tl_failure_code :: string

record Result =
  res_answer :: "FinalAnswer option"
  res_failure :: "FailureReceipt option"
  res_context_failures :: "FailureReceipt list"
  res_packets :: "ContextPacket list"
  res_critiques :: "CritiqueReport list"
  res_trace :: Trace

text \<open>The calls of \<open>SpecialistLifecycleObserver\<close>.\<close>

datatype lifecycle_call =
    RetrievalStarted RetrievalLifecycle
  | RetrievalPassed RetrievalLifecycle
  | RetrievalDegraded RetrievalLifecycle
  | RetrievalFailed RetrievalLifecycle
  | ToolStarted ToolLifecycle
  | ToolPassed ToolLifecycle
  | ToolFailed ToolLifecycle

section \<open>Classification of errors and failure receipts\<close>

definition retryable :: "go_error \<Rightarrow> bool" where
  "retryable err \<longleftrightarrow> errors_temporary err"

definition classify :: "go_error \<Rightarrow> string" where
  "classify err =
     (if errors_is err DeadlineExceeded then ''deadline_exceeded''
      else if errors_is err Canceled then ''cancelled''
      else if errors_is err ErrClarificationRequired then ''clarification_required''
      else ''component_failure'')"

text \<open>The text of an error, \<open>err.Error()\<close>, is a parameter.\<close>

definition failure :: "(go_error \<Rightarrow> string) \<Rightarrow> string \<Rightarrow> string \<Rightarrow> string \<Rightarrow> go_error \<Rightarrow> bool \<Rightarrow> gotime \<Rightarrow>
    FailureReceipt" where
  "failure error_text runID stepID code err canRetry created =
     \<lparr>fr_schema_version = SchemaVersionV1, fr_failure_id = ''failure-'' @ itoa (unix_nano created),
      fr_run_id = runID, fr_step_id = (if stepID = [] then ''run'' else stepID),
      fr_component_id = ResearchOrchestrator, fr_failure_code = code, fr_message = error_text err,
      fr_retryable = canRetry, fr_evidence_refs = [], fr_created_at = created\<rparr>"

section \<open>Emitting events\<close>

text \<open>
  What a caller hands to \<open>emit\<close>: step, type, status and attributes. \<open>emit\<close> holds the
  mutex, so the events of a trace are numbered in the order of the calls; \<open>clock n\<close> is the
  time read for the event with \<open>n\<close> events before it. Handing the event to the sink has no
  effect on the runtime (\<open>emitSafely\<close> recovers from its panics).
\<close>

type_synonym emission = "string \<times> string \<times> string \<times> attributes"

definition emit :: "(nat \<Rightarrow> gotime) \<Rightarrow> string \<Rightarrow> Event list \<Rightarrow> emission \<Rightarrow> Event list" where
  "emit clock runID events = (\<lambda>(stepID, eventType, status, attributes).
     events @ [\<lparr>evt_sequence = int (length events) + 1, evt_run_id = runID, evt_step_id = stepID,
       evt_type = eventType, evt_status = status, evt_at = clock (length events),
       evt_attributes = attributes\<rparr>])"

definition emit_all :: "(nat \<Rightarrow> gotime) \<Rightarrow> string \<Rightarrow> Event list \<Rightarrow> emission list \<Rightarrow> Event list" where
  "emit_all clock runID events emissions = foldl (emit clock runID) events emissions"

section \<open>Operational attributes\<close>

definition sprint_len :: "'a list \<Rightarrow> string" where
  "sprint_len xs = itoa (int (length xs))"

definition sourceClasses :: "EvidenceRef list \<Rightarrow> string" where
  "sourceClasses evidence = join ''+''
     (sort (remdups (filter (\<lambda>value. value \<noteq> []) (map (\<lambda>item. trim_space (ev_source_type item)) evidence))))"

definition boundedSafeIDs :: "string list \<Rightarrow> string" where
  "boundedSafeIDs values = join ''+''
     (sort (take 12 (filter (\<lambda>value. value \<noteq> []) (map trim_space values))))"

definition packetOperationalAttributes :: "ContextPacket \<Rightarrow> attributes" where
  "packetOperationalAttributes packet =
     (let findings = pk_findings packet @ pk_counterevidence packet;
          claims = (\<lambda>t. sprint_len (filter (\<lambda>f. fd_claim_type f = t) findings))
      in [(''packet_id'', pk_packet_id packet),
          (''evidence_count'', sprint_len (pk_evidence packet)),
          (''source_classes'', sourceClasses (pk_evidence packet)),
          (''as_of'', date_only (sc_as_of (pk_scope packet))),
          (''freshness_state'', ''bounded_by_as_of''),
          (''finding_count'', sprint_len (pk_findings packet)),
          (''counterevidence_count'', sprint_len (pk_counterevidence packet)),
          (''fact_count'', claims ClaimFact),
          (''calculation_count'', claims ClaimCalculation),
          (''inference_count'', claims ClaimInference),
          (''hypothesis_count'', claims ClaimHypothesis),
          (''assumption_count'', sprint_len (pk_assumptions packet)),
          (''missing_evidence_count'', sprint_len (pk_missing_evidence packet)),
          (''conflict_count'', sprint_len (pk_conflicts packet)),
          (''uncertainty_count'', sprint_len (pk_uncertainties packet)),
          (''evidence_coverage'', sprint_len (filter (\<lambda>f. fd_evidence_refs f \<noteq> []) findings) @ ''_of_'' @ sprint_len findings),
          (''authority_state'', pk_authority_state packet)])"

definition interpretationAttributes :: "ResearchRequest \<Rightarrow> attributes" where
  "interpretationAttributes request =
     (let entityIDs = sort (map en_entity_id
            (filter (\<lambda>entity. en_resolved entity \<and> \<not> blank (en_entity_id entity)) (rq_entities request)))
      in [(''primary_intent'', rq_primary_intent request),
          (''entity_count'', sprint_len entityIDs),
          (''entity_ids'', join ''+'' entityIDs),
          (''as_of'', date_only (rq_as_of request)),
          (''answer_depth'', rq_answer_depth request),
          (''ambiguity_count'', sprint_len (rq_ambiguities request)),
          (''requested_output_count'', sprint_len (rq_requested_outputs request))])"

definition planningAttributes :: "ResearchPlan \<Rightarrow> attributes" where
  "planningAttributes plan =
     (let rolesSeen = remdups (filter (\<lambda>role. role \<noteq> []) (map st_role_id (pl_steps plan)));
          maximumWave = foldl (\<lambda>m step. if st_wave step > m then st_wave step else m) 0 (pl_steps plan)
      in [(''role_count'', sprint_len rolesSeen),
          (''wave_count'', itoa maximumWave),
          (''max_parallel_specialists'', itoa (pl_max_parallel_specialists plan)),
          (''max_repair_passes'', itoa (pl_max_repair_passes plan)),
          (''deadline_ms'', itoa (pl_deadline_ms plan)),
          (''completion_condition_count'', sprint_len (pl_completion_conditions plan)),
          (''abstention_condition_count'', sprint_len (pl_abstention_conditions plan)),
          (''completion_conditions'', join ''+'' (pl_completion_conditions plan)),
          (''abstention_conditions'', join ''+'' (pl_abstention_conditions plan))])"

definition invariantsPassed :: "InvariantResult list \<Rightarrow> bool" where
  "invariantsPassed results \<longleftrightarrow> results \<noteq> [] \<and> list_all iv_passed results"

definition receiptInputIDs :: "CalculationReceipt \<Rightarrow> string" where
  "receiptInputIDs receipt = boundedSafeIDs (map ei_input_id (cr_normalized_inputs receipt))"

definition receiptOutputIDs :: "CalculationReceipt \<Rightarrow> string" where
  "receiptOutputIDs receipt = boundedSafeIDs (map ro_output_id (cr_outputs receipt))"

text \<open>
  \<open>engine.VerifyReceipt\<close>: the digest of the canonical JSON (\<open>receiptDigest\<close>, SHA-256 of
  \<open>encoding/json\<close> output) is a parameter.
\<close>

definition VerifyReceipt :: "'d apd_lib \<Rightarrow> (CalculationReceipt \<Rightarrow> go_error + string) \<Rightarrow>
    CalculationReceipt \<Rightarrow> go_error option" where
  "VerifyReceipt L receiptDigest receipt =
     (case ValidateCalculationReceipt L receipt of Some e \<Rightarrow> Some e
      | None \<Rightarrow> (case receiptDigest receipt of Inl e \<Rightarrow> Some e
          | Inr digest \<Rightarrow> fail_if (digest \<noteq> cr_receipt_sha256 receipt)
              (ErrorsNew ''receipt hash does not match canonical content'')))"

definition calculationReceiptAttributes :: "'d apd_lib \<Rightarrow> (CalculationReceipt \<Rightarrow> go_error + string) \<Rightarrow>
    CalculationReceipt \<Rightarrow> attributes" where
  "calculationReceiptAttributes L receiptDigest receipt =
     [(''tool_execution_id'', cr_request_id receipt),
      (''engine_id'', cr_engine_id receipt),
      (''formula_version'', cr_formula_version receipt),
      (''input_count'', sprint_len (cr_normalized_inputs receipt)),
      (''input_ref_ids'', receiptInputIDs receipt),
      (''invariant_count'', sprint_len (cr_invariant_results receipt)),
      (''invariants_passed'', fmt_bool (invariantsPassed (cr_invariant_results receipt))),
      (''operation_id'', cr_operation_id receipt),
      (''output_count'', sprint_len (cr_outputs receipt)),
      (''output_ref_ids'', receiptOutputIDs receipt),
      (''receipt_id'', cr_receipt_id receipt),
      (''receipt_sha256'', cr_receipt_sha256 receipt),
      (''receipt_verification'', if VerifyReceipt L receiptDigest receipt = None
         then ''canonical_verified'' else ''metadata_only''),
      (''warning_count'', sprint_len (cr_warnings receipt))]"

definition reviewOperationalAttributes :: "CritiqueReport \<Rightarrow> attributes" where
  "reviewOperationalAttributes report =
     [(''report_id'', cp_report_id report),
      (''approved_claim_count'', sprint_len (cp_approved_claims report)),
      (''rejected_claim_count'', sprint_len (cp_rejected_claims report)),
      (''issue_count'', sprint_len (cp_issues report)),
      (''repair_pass'', itoa (cp_repair_pass report))]"

definition releaseOperationalAttributes :: "FinalAnswer \<Rightarrow> CritiqueReport list \<Rightarrow> attributes" where
  "releaseOperationalAttributes answer critiques =
     (let answerClaims = remdups (concat (map as_claim_refs (fa_sections answer)));
          evidenceRefs = remdups (concat (map as_evidence_refs (fa_sections answer)));
          receiptRefs = remdups (concat (map as_receipt_refs (fa_sections answer)));
          approved = concat (map cp_approved_claims critiques);
          supported = filter (\<lambda>claim. claim \<in> set approved) answerClaims
      in [(''answer_id'', fa_answer_id answer),
          (''mandatory_review_count'', sprint_len critiques),
          (''claim_count'', sprint_len answerClaims),
          (''supported_claim_coverage'', sprint_len supported @ ''_of_'' @ sprint_len answerClaims),
          (''evidence_ref_count'', sprint_len evidenceRefs),
          (''receipt_ref_count'', sprint_len receiptRefs),
          (''limitation_count'', sprint_len (fa_limitations answer)),
          (''section_count'', sprint_len (fa_sections answer))])"

definition routeAttributes :: "PlanStep \<Rightarrow> attributes" where
  "routeAttributes step =
     (let reason =
            (if st_kind step = ''review'' then
               (if st_role_id step = EvidenceCritic then ''evidence_release_gate''
                else if st_role_id step = RiskContrarian then ''risk_contrarian_gate''
                else ''independent_review_gate'')
             else if st_kind step = ''synthesis'' then ''single_release_authority''
             else ''intent_requires_specialist'');
          wave = (if st_wave step \<le> 0 \<and> st_kind step = ''context'' then 1 else st_wave step)
      in [(''role_id'', st_role_id step), (''route_reason_code'', reason),
          (''capability_ids'', join '','' (st_capability_ids step))]
         @ (if wave > 0 then [(''wave'', itoa wave)] else []))"

section \<open>The lifecycle adapter\<close>

definition emitRetrieval :: "string \<Rightarrow> string \<Rightarrow> RetrievalLifecycle \<Rightarrow> emission" where
  "emitRetrieval stepID status lifecycle = (stepID, ''retrieval'', status,
     [(''retrieval_id'', rtl_retrieval_id lifecycle),
      (''bundle_id'', rtl_bundle_id lifecycle),
      (''retrieval_method'', rtl_method lifecycle),
      (''evidence_count'', itoa (rtl_evidence_count lifecycle)),
      (''source_classes'', boundedSafeIDs (rtl_source_classes lifecycle)),
      (''missing_evidence_count'', itoa (rtl_missing_evidence_count lifecycle))]
     @ (if is_zero_time (rtl_as_of lifecycle) then [] else [(''as_of'', date_only (rtl_as_of lifecycle))])
     @ (if rtl_candidate_counts_known lifecycle then
          [(''candidate_count'', itoa (rtl_candidate_count lifecycle)),
           (''selected_candidate_count'', itoa (rtl_selected_candidate_count lifecycle)),
           (''rejected_candidate_count'', itoa (rtl_rejected_candidate_count lifecycle)),
           (''candidate_count_state'', ''available'')]
        else [(''candidate_count_state'', ''unavailable'')])
     @ (if rtl_failure_code lifecycle \<noteq> [] then [(''code'', rtl_failure_code lifecycle)] else []))"

definition emitTool :: "string \<Rightarrow> string \<Rightarrow> ToolLifecycle \<Rightarrow> emission" where
  "emitTool stepID status lifecycle = (stepID, ''tool'', status,
     [(''tool_execution_id'', tl_tool_execution_id lifecycle),
      (''receipt_id'', tl_receipt_id lifecycle),
      (''receipt_sha256'', tl_receipt_sha lifecycle),
      (''receipt_verification'', tl_receipt_verification lifecycle),
      (''engine_id'', tl_engine_id lifecycle),
      (''operation_id'', tl_operation_id lifecycle),
      (''formula_version'', tl_formula_version lifecycle),
      (''input_ref_ids'', boundedSafeIDs (tl_input_ref_ids lifecycle)),
      (''output_ref_ids'', boundedSafeIDs (tl_output_ref_ids lifecycle)),
      (''input_count'', itoa (tl_input_count lifecycle)),
      (''output_count'', itoa (tl_output_count lifecycle)),
      (''invariant_count'', itoa (tl_invariant_count lifecycle)),
      (''invariants_passed'', fmt_bool (tl_invariants_passed lifecycle)),
      (''warning_count'', itoa (tl_warning_count lifecycle))]
     @ (if tl_failure_code lifecycle \<noteq> [] then [(''code'', tl_failure_code lifecycle)] else []))"

fun lifecycle_emission :: "string \<Rightarrow> lifecycle_call \<Rightarrow> emission" where
  "lifecycle_emission stepID (RetrievalStarted l) = emitRetrieval stepID ''started'' l"
| "lifecycle_emission stepID (RetrievalPassed l) = emitRetrieval stepID ''passed'' l"
| "lifecycle_emission stepID (RetrievalDegraded l) = emitRetrieval stepID ''degraded'' l"
| "lifecycle_emission stepID (RetrievalFailed l) = emitRetrieval stepID ''failed'' l"
| "lifecycle_emission stepID (ToolStarted l) = emitTool stepID ''started'' l"
| "lifecycle_emission stepID (ToolPassed l) = emitTool stepID ''passed'' l"
| "lifecycle_emission stepID (ToolFailed l) = emitTool stepID ''failed'' l"

end
