(* ===== verification/Interleaving.thy ===== *)
theory Interleaving
  imports "HOL-Library.Sublist" "HOL-Library.Multiset"
begin

text \<open>
  Goroutines as scripts of actions: \<open>merge_by\<close> runs scripts under a schedule, the relation
  \<open>interleaves\<close> says which orders of the actions are possible, and the two agree
  (\<open>interleaves_merge_by\<close>, \<open>interleaves_scheduled\<close>). The slots that the goroutines of a
  wave fill do not depend on the order of arrival (\<open>fill_slots_eq\<close>).
\<close>

section \<open>Interleavings of scripts\<close>

text \<open>
  A schedule is a list of choices: which script moves next. A choice of a finished script is
  skipped, and when the choices are used up the scripts finish one after the other.
\<close>

fun merge_by :: "nat list \<Rightarrow> 'a list list \<Rightarrow> 'a list" where
  "merge_by [] scripts = concat scripts"
| "merge_by (c # cs) scripts =
     (if scripts = [] then []
      else let k = c mod length scripts in
        (case scripts ! k of
           [] \<Rightarrow> merge_by cs scripts
         | a # script \<Rightarrow> a # merge_by cs (scripts[k := script])))"

inductive interleaves :: "'a list list \<Rightarrow> 'a list \<Rightarrow> bool" where
  all_done: "(\<And>s. s \<in> set scripts \<Longrightarrow> s = []) \<Longrightarrow> interleaves scripts []"
| one_moves: "i < length scripts \<Longrightarrow> scripts ! i = a # script \<Longrightarrow>
     interleaves (scripts[i := script]) actions \<Longrightarrow> interleaves scripts (a # actions)"

inductive_cases interleaves_ConsE: "interleaves scripts (a # actions)"

lemma interleaves_finished: "interleaves scripts actions \<Longrightarrow> interleaves ([] # scripts) actions"
proof (induction rule: interleaves.induct)
  case (all_done scripts)
  then show ?case by (intro interleaves.all_done) auto
next
  case (one_moves i scripts a script actions)
  then show ?case by (intro interleaves.one_moves [where i = "Suc i"]) auto
qed

lemma interleaves_prepend: "interleaves scripts actions \<Longrightarrow> interleaves (s # scripts) (s @ actions)"
proof (induction s)
  case (Cons a s)
  then show ?case by (auto intro: interleaves.one_moves [where i = 0])
qed (simp add: interleaves_finished)

lemma interleaves_concat: "interleaves scripts (concat scripts)"
  by (induction scripts) (auto intro: interleaves.all_done interleaves_prepend)

theorem interleaves_merge_by: "interleaves scripts (merge_by cs scripts)"
proof (induction cs scripts rule: merge_by.induct)
  case (2 c cs scripts)
  show ?case
  proof (cases "scripts = []")
    case False
    let ?k = "c mod length scripts"
    have "?k < length scripts" using False by simp
    with False 2 show ?thesis
      by (cases "scripts ! ?k")
        (simp_all add: Let_def interleaves.one_moves [where i = ?k])
  qed (auto intro: interleaves.all_done)
qed (simp add: interleaves_concat)

theorem interleaves_scheduled:
  assumes "interleaves scripts actions"
  shows "\<exists>cs. merge_by cs scripts = actions"
  using assms
proof (induction rule: interleaves.induct)
  case (all_done scripts)
  then have "merge_by [] scripts = []" by auto
  then show ?case by blast
next
  case (one_moves i scripts a script actions)
  then obtain cs where "merge_by cs (scripts[i := script]) = actions" by blast
  with one_moves.hyps have "merge_by (i # cs) scripts = a # actions" by auto
  then show ?case by blast
qed

section \<open>What every interleaving has in common\<close>

lemma mset_concat_update:
  "i < length scripts \<Longrightarrow> scripts ! i = a # script \<Longrightarrow>
     mset (concat scripts) = add_mset a (mset (concat (scripts[i := script])))"
proof (induction scripts arbitrary: i)
  case (Cons s scripts)
  then show ?case by (cases i) auto
qed simp

lemma interleaves_mset: "interleaves scripts actions \<Longrightarrow> mset actions = mset (concat scripts)"
proof (induction rule: interleaves.induct)
  case (all_done scripts)
  then have "concat scripts = []" by auto
  then show ?case by simp
next
  case (one_moves i scripts a script actions)
  then show ?case by (simp add: mset_concat_update)
qed

lemma interleaves_order:
  "interleaves scripts actions \<Longrightarrow> k < length scripts \<Longrightarrow> subseq (scripts ! k) actions"
proof (induction arbitrary: k rule: interleaves.induct)
  case (one_moves i scripts a script actions)
  from one_moves.IH [of k] one_moves.prems have "subseq (scripts[i := script] ! k) actions" by simp
  with one_moves.hyps one_moves.prems show ?case
    by (cases "k = i") (auto simp: nth_list_update)
qed (metis nth_mem subseq_order.order_refl)

lemma merge_by_mset: "mset (merge_by cs scripts) = mset (concat scripts)"
  by (rule interleaves_mset [OF interleaves_merge_by])

lemma merge_by_order: "k < length scripts \<Longrightarrow> subseq (scripts ! k) (merge_by cs scripts)"
  by (rule interleaves_order [OF interleaves_merge_by])

section \<open>Slots filled by arrivals\<close>

text \<open>
  The goroutines send an outcome with their index; the receiver stores a failure in one
  array and a value in the other, at that index.
\<close>

fun fill_slot :: "'v option list \<times> 'e option list \<Rightarrow> nat \<times> ('e + 'v) \<Rightarrow> 'v option list \<times> 'e option list" where
  "fill_slot (values, failures) (i, Inl e) = (values, failures[i := Some e])"
| "fill_slot (values, failures) (i, Inr v) = (values[i := Some v], failures)"

definition fill_slots :: "nat \<Rightarrow> (nat \<times> ('e + 'v)) list \<Rightarrow> 'v option list \<times> 'e option list" where
  "fill_slots n arrivals = foldl fill_slot (replicate n None, replicate n None) arrivals"

definition filled :: "'a option list \<Rightarrow> 'a list" where
  "filled slots = concat (map (\<lambda>slot. case slot of Some x \<Rightarrow> [x] | None \<Rightarrow> []) slots)"

definition slot_value :: "nat \<Rightarrow> (nat \<times> ('e + 'v)) list \<Rightarrow> 'v option" where
  "slot_value i arrivals = (case map_of arrivals i of Some (Inr v) \<Rightarrow> Some v | _ \<Rightarrow> None)"

definition slot_failure :: "nat \<Rightarrow> (nat \<times> ('e + 'v)) list \<Rightarrow> 'e option" where
  "slot_failure i arrivals = (case map_of arrivals i of Some (Inl e) \<Rightarrow> Some e | _ \<Rightarrow> None)"

lemma fill_slots_map_of:
  assumes "distinct (map fst arrivals)"
  shows "fill_slots n arrivals =
    (map (\<lambda>i. slot_value i arrivals) [0..<n], map (\<lambda>i. slot_failure i arrivals) [0..<n])"
  using assms
proof (induction arrivals rule: rev_induct)
  case Nil
  show ?case
    by (simp add: fill_slots_def slot_value_def slot_failure_def map_replicate_const)
next
  case (snoc x arrivals)
  obtain i r where x: "x = (i, r)" by (cases x)
  with snoc.prems have new: "map_of arrivals i = None"
    by (auto simp: map_of_eq_None_iff)
  have m: "map_of (arrivals @ [(i, r')]) j = (if j = i then Some r' else map_of arrivals j)" for j r'
    using new by (auto simp: map_add_def split: option.splits)
  have upd: "xs[i := y] ! j = (if j = i then y else xs ! j)" if "j < length xs" for xs y j
    using that by (auto simp: nth_list_update)
  show ?case
    using snoc
    by (cases r) (auto simp: fill_slots_def x slot_value_def slot_failure_def m upd new
        simp del: upt_Suc map_of_append intro!: nth_equalityI)
qed

theorem fill_slots_eq:
  assumes "distinct (map fst arrivals)" and "mset arrivals = mset arrivals'"
  shows "fill_slots n arrivals = fill_slots n arrivals'"
proof -
  have "mset (map fst arrivals) = mset (map fst arrivals')" using assms(2) by (simp only: mset_map)
  then have "distinct (map fst arrivals')" using assms(1) mset_eq_imp_distinct_iff by blast
  moreover have "set arrivals = set arrivals'" using assms(2) by (rule mset_eq_setD)
  ultimately have "map_of arrivals = map_of arrivals'"
    using assms(1) by (simp add: map_of_inject_set)
  with assms(1) \<open>distinct (map fst arrivals')\<close> show ?thesis
    by (simp add: fill_slots_map_of slot_value_def slot_failure_def)
qed

end
