(* ===== verification/Runtime_Env.thy ===== *)
theory Runtime_Env
  imports Runtime_Data Interleaving
begin

text \<open>
  The runtime with the components it is given (\<open>internal/orchestrator/runtime.go\<close>): the
  specialist, reviewer and synthesizer, the trace store, the clock and the cancellation of
  the context, all arbitrary functions, and the bounded retries of their calls.

  The deadlines of \<open>context.WithTimeout\<close> reach the runtime only as the errors its
  components return and as \<open>ctx.Err()\<close>, which is read at the points \<open>ctx_point\<close>.
\<close>

section \<open>The runtime and what it is given\<close>

datatype clock_point = AtStart | AtEvent nat | AtOutcome string | AtFailure | AtFailed | AtCompleted

datatype ctx_point = BeforeStep string | AfterWave int

text \<open>
  A specialist implements \<open>Run\<close> and may implement the three optional interfaces. A call is
  given its attempt, since an adapter may answer each attempt differently; an observed call
  also returns the notifications it made.
\<close>

record Specialist =
  sp_run :: "ContextRequest \<Rightarrow> nat \<Rightarrow> go_error + ContextPacket"
  sp_run_attempt :: "(ContextRequest \<Rightarrow> nat \<Rightarrow> go_error + ContextPacket) option"
  sp_run_observed :: "(ContextRequest \<Rightarrow> nat \<Rightarrow> lifecycle_call list \<times> (go_error + ContextPacket)) option"
  sp_run_observed_attempt :: "(ContextRequest \<Rightarrow> nat \<Rightarrow> lifecycle_call list \<times> (go_error + ContextPacket)) option"

record Dependencies =
  dep_specialist :: Specialist
  dep_reviewer :: "ReviewInput \<Rightarrow> nat \<Rightarrow> go_error + CritiqueReport"
  dep_synthesizer :: "SynthesisInput \<Rightarrow> nat \<Rightarrow> go_error + FinalAnswer"
  dep_save :: "Trace \<Rightarrow> go_error option"

record 'd Runtime =
  rt_planner :: Builder
  rt_roles :: RoleRegistry
  rt_tools :: ToolGate
  rt_deps :: Dependencies
  rt_now :: "clock_point \<Rightarrow> gotime"
  rt_context_concurrency :: int
  rt_ctx_err :: "ctx_point \<Rightarrow> go_error option"
  rt_schedule :: "int \<Rightarrow> nat \<Rightarrow> nat list"
  rt_error_text :: "go_error \<Rightarrow> string"
  rt_decimal :: "'d apd_lib"
  rt_receipt_digest :: "CalculationReceipt \<Rightarrow> go_error + string"

text \<open>
  \<open>New\<close> refuses a missing adapter and installs the default registries; the last
  parameters are what the process provides (clock, cancellation, scheduling, libraries).
\<close>

definition New :: "Specialist option \<Rightarrow> (ReviewInput \<Rightarrow> nat \<Rightarrow> go_error + CritiqueReport) option \<Rightarrow>
    (SynthesisInput \<Rightarrow> nat \<Rightarrow> go_error + FinalAnswer) option \<Rightarrow> (Trace \<Rightarrow> go_error option) option \<Rightarrow>
    (clock_point \<Rightarrow> gotime) \<Rightarrow> (ctx_point \<Rightarrow> go_error option) \<Rightarrow> (int \<Rightarrow> nat \<Rightarrow> nat list) \<Rightarrow>
    (go_error \<Rightarrow> string) \<Rightarrow> 'd apd_lib \<Rightarrow> (CalculationReceipt \<Rightarrow> go_error + string) \<Rightarrow>
    go_error + 'd Runtime" where
  "New specialist reviewer synthesizer save now ctx_err schedule error_text decimal digest =
     (case (specialist, reviewer, synthesizer, save) of
        (Some sp, Some rv, Some sy, Some st) \<Rightarrow>
          res_bind DefaultRegistry (\<lambda>roleRegistry. res_bind DefaultBuilder (\<lambda>planner.
          res_bind Tier0Registry (\<lambda>capabilities.
            Inr \<lparr>rt_planner = planner, rt_roles = roleRegistry,
              rt_tools = \<lparr>tg_capabilities = capabilities, tg_roles = roleRegistry\<rparr>,
              rt_deps = \<lparr>dep_specialist = sp, dep_reviewer = rv, dep_synthesizer = sy, dep_save = st\<rparr>,
              rt_now = now, rt_context_concurrency = 4, rt_ctx_err = ctx_err, rt_schedule = schedule,
              rt_error_text = error_text, rt_decimal = decimal, rt_receipt_digest = digest\<rparr>)))
      | _ \<Rightarrow> Inl (ErrorsNew ''specialist, reviewer, synthesizer, and trace store adapters are required''))"

section \<open>Bounded retries\<close>

text \<open>
  The loop \<open>for attempt := 0; attempt <= role.MaxRetries; attempt++\<close> around a call,
  left at the first success and at the first error that is not retryable: the results of
  the attempts that are made, in order. The last one decides.
\<close>

fun attempts :: "(nat \<Rightarrow> 'r) \<Rightarrow> ('r \<Rightarrow> go_error option) \<Rightarrow> nat \<Rightarrow> nat \<Rightarrow> 'r list" where
  "attempts call error 0 attempt = []"
| "attempts call error (Suc budget) attempt =
     (let r = call attempt in
      r # (case error r of
             None \<Rightarrow> []
           | Some e \<Rightarrow> if retryable e then attempts call error budget (attempt + 1) else []))"

definition registered_role :: "RoleRegistry \<Rightarrow> string \<Rightarrow> Role" where
  "registered_role registry roleID = (case GetRole registry roleID of Some role \<Rightarrow> role | None \<Rightarrow> zeroRole)"

definition attempt_budget :: "RoleRegistry \<Rightarrow> string \<Rightarrow> nat" where
  "attempt_budget registry roleID = nat (rl_max_retries (registered_role registry roleID) + 1)"

fun result_error :: "go_error + 'a \<Rightarrow> go_error option" where
  "result_error (Inl e) = Some e"
| "result_error (Inr x) = None"

text \<open>
  Without any attempt the error stays \<open>nil\<close> and the value is the zero value of its type.
\<close>

definition last_result :: "'a \<Rightarrow> (go_error + 'a) list \<Rightarrow> go_error + 'a" where
  "last_result zero made = (if made = [] then Inr zero else last made)"

lemma attempts_bounded: "length (attempts call error budget attempt) \<le> budget"
  by (induction budget arbitrary: attempt) (auto simp: Let_def split: option.splits)

lemma attempts_calls:
  "k < length (attempts call error budget attempt) \<Longrightarrow>
     attempts call error budget attempt ! k = call (attempt + k)"
proof (induction budget arbitrary: attempt k)
  case (Suc budget)
  then show ?case
    by (cases k) (auto simp: Let_def split: option.splits if_splits)
qed simp

lemma attempts_retried:
  "Suc k < length (attempts call error budget attempt) \<Longrightarrow>
     \<exists>e. error (attempts call error budget attempt ! k) = Some e \<and> retryable e"
proof (induction budget arbitrary: attempt k)
  case (Suc budget)
  then show ?case
    by (cases k) (auto simp: Let_def split: option.splits if_splits)
qed simp

lemma attempts_stopped:
  assumes "length (attempts call error budget attempt) < budget"
  shows "error (last (attempts call error budget attempt)) = None \<or>
    (\<exists>e. error (last (attempts call error budget attempt)) = Some e \<and> \<not> retryable e)"
  using assms
proof (induction budget arbitrary: attempt)
  case (Suc budget)
  show ?case
  proof (cases "error (call attempt)")
    case (Some e)
    show ?thesis
    proof (cases "retryable e")
      case True
      with Some Suc.prems have "length (attempts call error budget (attempt + 1)) < budget"
        by (simp add: Let_def)
      with Suc.IH [OF this] Some True show ?thesis
        by (cases budget) (auto simp: Let_def)
    qed (simp add: Some Let_def)
  qed (simp add: Let_def)
qed simp

lemma attempts_nonempty: "0 < budget \<Longrightarrow> attempts call error budget attempt \<noteq> []"
  by (cases budget) (auto simp: Let_def)

lemma attempts_last:
  assumes "0 < budget"
  obtains k where "k < budget" "last (attempts call error budget attempt) = call (attempt + k)"
proof -
  let ?made = "attempts call error budget attempt"
  have ne: "?made \<noteq> []" using assms by (rule attempts_nonempty)
  then have len: "length ?made - 1 < length ?made" by simp
  have "last ?made = call (attempt + (length ?made - 1))"
    using attempts_calls [OF len] ne by (simp add: last_conv_nth)
  moreover have "length ?made - 1 < budget" using attempts_bounded [of call error budget attempt] len by linarith
  ultimately show thesis using that by blast
qed

section \<open>Zero values\<close>

definition zeroContextPacket :: ContextPacket where
  "zeroContextPacket = \<lparr>pk_schema_version = [], pk_packet_id = [], pk_run_id = [], pk_step_id = [],
     pk_specialist_role = [], pk_objective = [],
     pk_scope = \<lparr>sc_company_ids = [], sc_security_ids = [], sc_periods = [], sc_as_of = 0\<rparr>,
     pk_findings = [], pk_evidence = [], pk_calculation_receipts = [], pk_numerical_context = None,
     pk_counterevidence = [], pk_assumptions = [], pk_missing_evidence = [], pk_conflicts = [],
     pk_uncertainties = [], pk_handoff_notes = [], pk_authority_state = [], pk_authority_refs = []\<rparr>"

definition zeroCritiqueReport :: CritiqueReport where
  "zeroCritiqueReport = \<lparr>cp_schema_version = [], cp_report_id = [], cp_run_id = [], cp_reviewer_role = [],
     cp_decision = [], cp_approved_claims = [], cp_rejected_claims = [], cp_issues = [],
     cp_repair_pass = 0, cp_created_at = 0\<rparr>"

definition zeroFinalAnswer :: FinalAnswer where
  "zeroFinalAnswer = \<lparr>fa_schema_version = [], fa_answer_id = [], fa_run_id = [], fa_request_id = [],
     fa_primary_intent = [], fa_as_of = 0, fa_sections = [], fa_critique_refs = [], fa_assumptions = [],
     fa_limitations = [], fa_next_actions = [], fa_released_by = [], fa_released_at = 0\<rparr>"

end
