(* ===== verification/Context_Waves.thy ===== *)
theory Context_Waves
  imports Runtime_Env
begin

text \<open>
  Calling a specialist and running the context steps of a plan
  (\<open>callSpecialist\<close>, \<open>runContextWave\<close> and \<open>runContextWaves\<close> of
  \<open>internal/orchestrator/runtime.go\<close>): waves in order, each wave in batches of bounded size
  whose goroutines run concurrently.
\<close>

section \<open>A call of a specialist\<close>

definition contextRequest :: "ResearchRequest \<Rightarrow> PlanStep \<Rightarrow> ContextRequest" where
  "contextRequest request step =
     \<lparr>cq_schema_version = SchemaVersionV1, cq_context_request_id = ''context-request-'' @ st_step_id step,
      cq_run_id = rq_run_id request, cq_step_id = st_step_id step, cq_specialist_role = st_role_id step,
      cq_objective = st_objective step, cq_research_question = rq_user_text request,
      cq_scope = \<lparr>sc_company_ids = map en_entity_id (filter (\<lambda>entity. en_entity_type entity = ''company'' \<and>
                     en_resolved entity) (rq_entities request)),
                  sc_security_ids = [], sc_periods = [], sc_as_of = rq_as_of request\<rparr>,
      cq_capability_ids = st_capability_ids step,
      cq_evidence_refs = rq_lineage_evidence_refs request,
      cq_receipt_refs = rq_lineage_receipt_refs request,
      cq_assumptions = rq_assumptions request,
      cq_authority_state = rq_authority_state request,
      cq_authority_refs = rq_authority_refs request,
      cq_authority_reason_codes = rq_authority_reason_codes request,
      cq_token_budget = st_context_budget_tokens step\<rparr>"

fun stringSlicesEqual :: "string list \<Rightarrow> string list \<Rightarrow> bool" where
  "stringSlicesEqual left right \<longleftrightarrow>
     length left = length right \<and> list_all (\<lambda>(l, r). l = r) (zip left right)"

lemma stringSlicesEqual_iff: "stringSlicesEqual left right \<longleftrightarrow> left = right"
  by (subst list_all2_eq) (simp add: list_all_iff list_all2_iff)

declare stringSlicesEqual.simps [simp del]

definition bindPacketAuthority :: "ContextPacket \<Rightarrow> ContextRequest \<Rightarrow> go_error + ContextPacket" where
  "bindPacketAuthority packet request =
     (if pk_authority_state packet \<noteq> [] \<and> pk_authority_state packet \<noteq> cq_authority_state request then
        Inl (ErrorsNew ''specialist attempted to mutate deterministic authority state'')
      else if pk_authority_refs packet \<noteq> [] \<and>
          \<not> stringSlicesEqual (pk_authority_refs packet) (cq_authority_refs request) then
        Inl (ErrorsNew ''specialist attempted to mutate deterministic authority references'')
      else Inr (packet\<lparr>pk_authority_state := cq_authority_state request,
        pk_authority_refs := cq_authority_refs request\<rparr>))"

definition validatePacket :: "'d apd_lib \<Rightarrow> ContextPacket \<Rightarrow> ContextRequest \<Rightarrow> go_error option" where
  "validatePacket L packet request = first_err
     [fail_if (pk_run_id packet \<noteq> cq_run_id request \<or> pk_step_id packet \<noteq> cq_step_id request \<or>
          pk_specialist_role packet \<noteq> cq_specialist_role request)
        (ErrorsNew ''context packet does not match orchestration request''),
      ValidateContextPacket L packet]"

definition specialist_attempt :: "Specialist \<Rightarrow> ContextRequest \<Rightarrow> nat \<Rightarrow>
    lifecycle_call list \<times> (go_error + ContextPacket)" where
  "specialist_attempt specialist request attempt =
     (case sp_run_observed_attempt specialist of
        Some run \<Rightarrow> run request attempt
      | None \<Rightarrow> (case sp_run_observed specialist of
            Some run \<Rightarrow> run request attempt
          | None \<Rightarrow> (case sp_run_attempt specialist of
                Some run \<Rightarrow> ([], run request attempt)
              | None \<Rightarrow> ([], sp_run specialist request attempt))))"

definition callSpecialist :: "('d, 'm) Runtime_scheme \<Rightarrow> ContextRequest \<Rightarrow> PlanStep \<Rightarrow>
    emission list \<times> (go_error + ContextPacket)" where
  "callSpecialist runtime request step =
     (let made = attempts (specialist_attempt (dep_specialist (rt_deps runtime)) request)
            (result_error \<circ> snd) (attempt_budget (rt_roles runtime) (st_role_id step)) 0;
          lifecycle = map (lifecycle_emission (st_step_id step)) (concat (map fst made))
      in (lifecycle,
          if made = [] then Inr zeroContextPacket
          else res_bind (snd (last made)) (\<lambda>packet.
            res_bind (bindPacketAuthority packet request) (\<lambda>packet.
              check_then (validatePacket (rt_decimal runtime) packet request) (Inr packet)))))"

section \<open>One goroutine\<close>

text \<open>What a goroutine does that others can see: emit an event, or send its outcome.\<close>

datatype step_action = Emits emission | Sends "nat \<times> (FailureReceipt + ContextPacket)"

definition observed_specialist :: "Specialist \<Rightarrow> bool" where
  "observed_specialist specialist \<longleftrightarrow>
     sp_run_observed specialist \<noteq> None \<or> sp_run_observed_attempt specialist \<noteq> None"

definition step_script :: "('d, 'm) Runtime_scheme \<Rightarrow> ResearchRequest \<Rightarrow> nat \<times> PlanStep \<Rightarrow>
    step_action list" where
  "step_script runtime request = (\<lambda>(index, step).
     let stepID = st_step_id step;
         fails = (\<lambda>runID code err canRetry. failure (rt_error_text runtime) runID stepID code err
           canRetry (rt_now runtime (AtOutcome stepID)))
     in case rt_ctx_err runtime (BeforeStep stepID) of
          Some err \<Rightarrow> [Sends (index, Inl (fails (rq_run_id request) ''cancelled'' err False))]
        | None \<Rightarrow>
            let contextRequest = contextRequest request step;
                (lifecycle, result) = callSpecialist runtime contextRequest step
            in Emits (stepID, ''context'', ''started'', routeAttributes step) # map Emits lifecycle @
               (case result of
                  Inl err \<Rightarrow>
                    [Sends (index, Inl (fails (cq_run_id contextRequest) (classify err) err (retryable err))),
                     Emits (stepID, ''context'', ''failed'', [(''code'', classify err)])]
                | Inr packet \<Rightarrow>
                    (if observed_specialist (dep_specialist (rt_deps runtime)) then []
                     else Emits (stepID, ''retrieval'', ''completed'', packetOperationalAttributes packet) #
                       map (\<lambda>receipt. Emits (stepID, ''tool'', ''completed'',
                         calculationReceiptAttributes (rt_decimal runtime) (rt_receipt_digest runtime) receipt))
                         (pk_calculation_receipts packet)) @
                    [Sends (index, Inr packet),
                     Emits (stepID, ''context'', ''completed'', packetOperationalAttributes packet)]))"

section \<open>A wave\<close>

text \<open>
  The loop \<open>for start := 0; start < len(steps); start += limit\<close>. With a limit below one
  it would not end (zero) or panic (negative); \<open>runContextWave\<close> is then \<open>None\<close>.
\<close>

function batches :: "nat \<Rightarrow> 'a list \<Rightarrow> 'a list list" where
  "batches limit xs = (if xs = [] \<or> limit = 0 then [] else take limit xs # batches limit (drop limit xs))"
  by pat_completeness auto
termination by (relation "measure (\<lambda>(limit, xs). length xs)") auto

declare batches.simps [simp del]

definition wave_actions :: "('d, 'm) Runtime_scheme \<Rightarrow> ResearchRequest \<Rightarrow> int \<Rightarrow> PlanStep list \<Rightarrow> nat \<Rightarrow>
    step_action list" where
  "wave_actions runtime request wave steps limit =
     concat (map (\<lambda>(batch, group). merge_by (rt_schedule runtime wave batch)
         (map (step_script runtime request) group))
       (enumerate 0 (batches limit (enumerate 0 steps))))"

definition emitted :: "step_action list \<Rightarrow> emission list" where
  "emitted actions = concat (map (\<lambda>action. case action of Emits e \<Rightarrow> [e] | Sends _ \<Rightarrow> []) actions)"

definition sent :: "step_action list \<Rightarrow> (nat \<times> (FailureReceipt + ContextPacket)) list" where
  "sent actions = concat (map (\<lambda>action. case action of Emits _ \<Rightarrow> [] | Sends outcome \<Rightarrow> [outcome]) actions)"

record wave_outcome =
  wo_emissions :: "emission list"
  wo_packets :: "ContextPacket list"
  wo_failures :: "FailureReceipt list"
  wo_maximum :: nat

definition runContextWave :: "('d, 'm) Runtime_scheme \<Rightarrow> ResearchRequest \<Rightarrow> int \<Rightarrow> PlanStep list \<Rightarrow> int \<Rightarrow>
    wave_outcome option" where
  "runContextWave runtime request wave steps limit =
     (if steps = [] then
        Some \<lparr>wo_emissions = [], wo_packets = [], wo_failures = [], wo_maximum = 0\<rparr>
      else if limit < 1 then None
      else
        let actions = wave_actions runtime request wave steps (nat limit);
            (orderedPackets, orderedFailures) = fill_slots (length steps) (sent actions);
            maximum = foldl (\<lambda>m group. if length group > m then length group else m) 0
              (batches (nat limit) steps)
        in Some \<lparr>wo_emissions = emitted actions, wo_packets = filled orderedPackets,
             wo_failures = filled orderedFailures, wo_maximum = maximum\<rparr>)"

section \<open>All waves\<close>

definition wave_steps :: "PlanStep list \<Rightarrow> int \<Rightarrow> PlanStep list" where
  "wave_steps steps wave = filter (\<lambda>step. effectiveWave (st_wave step) = wave) steps"

definition maximum_wave :: "PlanStep list \<Rightarrow> int" where
  "maximum_wave steps = foldl (\<lambda>m step. if effectiveWave (st_wave step) > m
     then effectiveWave (st_wave step) else m) 0 steps"

definition wave_status :: "wave_outcome \<Rightarrow> string" where
  "wave_status outcome =
     (if wo_packets outcome = [] then ''failed''
      else if wo_failures outcome \<noteq> [] then ''degraded'' else ''completed'')"

definition append_wave :: "int \<Rightarrow> PlanStep list \<Rightarrow> int \<Rightarrow> wave_outcome \<Rightarrow> wave_outcome \<Rightarrow> wave_outcome" where
  "append_wave wave waveSteps limit sofar outcome =
     (let waveStepID = ''context-wave-'' @ itoa wave;
          waveAttributes = [(''wave'', itoa wave), (''specialist_count'', sprint_len waveSteps),
            (''concurrency_limit'', itoa limit)]
      in \<lparr>wo_emissions = wo_emissions sofar @
            [(waveStepID, ''wave'', ''started'', waveAttributes)] @ wo_emissions outcome @
            [(waveStepID, ''wave'', wave_status outcome, waveAttributes @
               [(''succeeded_count'', sprint_len (wo_packets outcome)),
                (''failed_count'', sprint_len (wo_failures outcome)),
                (''observed_concurrency'', itoa (int (wo_maximum outcome)))])],
          wo_packets = wo_packets sofar @ wo_packets outcome,
          wo_failures = wo_failures sofar @ wo_failures outcome,
          wo_maximum = (if wo_maximum outcome > wo_maximum sofar then wo_maximum outcome
                        else wo_maximum sofar)\<rparr>)"

fun run_waves :: "('d, 'm) Runtime_scheme \<Rightarrow> ResearchRequest \<Rightarrow> PlanStep list \<Rightarrow> int \<Rightarrow> int list \<Rightarrow>
    wave_outcome \<Rightarrow> wave_outcome option" where
  "run_waves runtime request steps limit [] sofar = Some sofar"
| "run_waves runtime request steps limit (wave # waves) sofar =
     (let waveSteps = wave_steps steps wave in
      if waveSteps = [] then run_waves runtime request steps limit waves sofar
      else (case runContextWave runtime request wave waveSteps limit of
          None \<Rightarrow> None
        | Some outcome \<Rightarrow>
            let sofar = append_wave wave waveSteps limit sofar outcome
            in if rt_ctx_err runtime (AfterWave wave) \<noteq> None then Some sofar
               else run_waves runtime request steps limit waves sofar))"

definition runContextWaves :: "('d, 'm) Runtime_scheme \<Rightarrow> ResearchRequest \<Rightarrow> PlanStep list \<Rightarrow> int \<Rightarrow>
    wave_outcome option" where
  "runContextWaves runtime request steps limit =
     run_waves runtime request steps limit [1..maximum_wave steps]
       \<lparr>wo_emissions = [], wo_packets = [], wo_failures = [], wo_maximum = 0\<rparr>"

end
