(* ===== verification/Review.thy ===== *)
theory Review
  imports Runtime_Env
begin

text \<open>
  The review of the context packets (\<open>callReviewer\<close>, \<open>runReview\<close> of
  \<open>internal/orchestrator/runtime.go\<close>): a reviewer approves, rejects, asks for a repair or
  narrows the packets, within the repair budget of the plan. \<open>clonePackets\<close> copies slices,
  the identity on values.
\<close>

definition callReviewer :: "('d, 'm) Runtime_scheme \<Rightarrow> ReviewInput \<Rightarrow> go_error + CritiqueReport" where
  "callReviewer runtime input = last_result zeroCritiqueReport
     (attempts (dep_reviewer (rt_deps runtime) input) result_error
       (attempt_budget (rt_roles runtime) (st_role_id (rin_step input))) 0)"

text \<open>
  What the reviewer is asked and what may be wrong with the answer, before it is acted upon.
\<close>

definition reviewed :: "('d, 'm) Runtime_scheme \<Rightarrow> ResearchRequest \<Rightarrow> ResearchPlan \<Rightarrow> PlanStep \<Rightarrow>
    ContextPacket list \<Rightarrow> CritiqueReport list \<Rightarrow> int \<Rightarrow> go_error + CritiqueReport" where
  "reviewed runtime request plan step working reviewContext pass =
     res_bind (callReviewer runtime \<lparr>rin_request = request, rin_plan = plan, rin_step = step,
         rin_packets = working, rin_prior = reviewContext, rin_repair_pass = pass\<rparr>) (\<lambda>report.
       if cp_run_id report \<noteq> rq_run_id request \<or> cp_reviewer_role report \<noteq> st_role_id step \<or>
           cp_repair_pass report \<noteq> pass then
         Inl (ErrorsNew ''review contract does not match orchestration step'')
       else check_then (ValidateCritiqueReport report) (Inr report))"

type_synonym review_outcome = "emission list \<times> (go_error + (CritiqueReport list \<times> ContextPacket list))"

definition review_emission :: "PlanStep \<Rightarrow> string \<Rightarrow> CritiqueReport \<Rightarrow> emission" where
  "review_emission step status report =
     (st_step_id step, ''review'', status, reviewOperationalAttributes report)"

definition prepend_emission :: "emission \<Rightarrow> review_outcome \<Rightarrow> review_outcome" where
  "prepend_emission e outcome = (e # fst outcome, snd outcome)"

text \<open>
  One pass decides (\<open>Decides\<close>) or leads to the next pass with other packets and one more
  report for the reviewer to see (\<open>Continues\<close>); either way with one event.
\<close>

datatype review_step =
    Decides emission "CritiqueReport list" "ContextPacket list"
  | Continues emission "ContextPacket list"

definition narrow_pass :: "'d apd_lib \<Rightarrow> PlanStep \<Rightarrow> ContextPacket list \<Rightarrow> CritiqueReport \<Rightarrow>
    review_step" where
  "narrow_pass L step working report =
     (case narrowContextPackets L working report of (narrowed, changed) \<Rightarrow>
        if \<not> changed then Decides (review_emission step ''repair_unresolved'' report) [report] working
        else Continues (review_emission step ''narrowed'' report) narrowed)"

definition review_pass :: "'d apd_lib \<Rightarrow> PlanStep \<Rightarrow> bool \<Rightarrow> ContextPacket list \<Rightarrow> CritiqueReport \<Rightarrow>
    review_step" where
  "review_pass L step final working report =
     (let decided = Decides (review_emission step (cp_decision report) report) [report] working in
      case (if final \<and> cp_decision report \<noteq> CritiqueApprove \<and> cp_decision report \<noteq> CritiqueReject
            then closeExplicitlyApprovedSubset L working report else None) of
        Some (approvedPackets, approval) \<Rightarrow>
          Decides (review_emission step ''approved_subset'' approval) [report, approval] approvedPackets
      | None \<Rightarrow>
          if cp_decision report = CritiqueApprove \<or> cp_decision report = CritiqueReject \<or> final then decided
          else if cp_decision report = CritiqueRepair then
            Continues (review_emission step ''repair_requested'' report) working
          else narrow_pass L step working report)"

text \<open>
  The loop \<open>for pass := 0; pass <= plan.MaxRepairPasses; pass++\<close>, with the number of passes
  left as its first argument.
\<close>

fun review_passes :: "('d, 'm) Runtime_scheme \<Rightarrow> ResearchRequest \<Rightarrow> ResearchPlan \<Rightarrow> PlanStep \<Rightarrow> nat \<Rightarrow>
    int \<Rightarrow> ContextPacket list \<Rightarrow> CritiqueReport list \<Rightarrow> CritiqueReport list \<Rightarrow> review_outcome" where
  "review_passes runtime request plan step 0 pass working history reviewContext =
     ([], Inl (ErrorsNew ''review exhausted repair budget''))"
| "review_passes runtime request plan step (Suc left) pass working history reviewContext =
     (case reviewed runtime request plan step working reviewContext pass of
        Inl err \<Rightarrow> ([], Inl err)
      | Inr report \<Rightarrow>
          (case review_pass (rt_decimal runtime) step (pass = pl_max_repair_passes plan) working report of
             Decides e reports packets \<Rightarrow> ([e], Inr (history @ reports, packets))
           | Continues e packets \<Rightarrow> prepend_emission e
               (review_passes runtime request plan step left (pass + 1) packets
                 (history @ [report]) (reviewContext @ [report]))))"

definition runReview :: "('d, 'm) Runtime_scheme \<Rightarrow> ResearchRequest \<Rightarrow> ResearchPlan \<Rightarrow> PlanStep \<Rightarrow>
    ContextPacket list \<Rightarrow> CritiqueReport list \<Rightarrow> review_outcome" where
  "runReview runtime request plan step packets prior =
     prepend_emission (st_step_id step, ''review'', ''started'', routeAttributes step)
       (review_passes runtime request plan step (nat (pl_max_repair_passes plan + 1)) 0 packets [] prior)"

end
