(* ===== verification/Runtime.thy ===== *)
theory Runtime
  imports Context_Waves Review
begin

text \<open>
  \<open>Run\<close> of \<open>internal/orchestrator/runtime.go\<close>: the stages of a run composed, with every
  failing path. A run returns its result and the traces it handed to the trace store, in
  order; \<open>None\<close> means that it does not return.
\<close>

section \<open>Failing\<close>

type_synonym run_outcome = "Result \<times> Trace list"

definition trace_emit :: "('d, 'm) Runtime_scheme \<Rightarrow> Trace \<Rightarrow> emission list \<Rightarrow> Trace" where
  "trace_emit runtime trace emissions =
     trace\<lparr>trc_events := emit_all (\<lambda>n. rt_now runtime (AtEvent n)) (trc_run_id trace) (trc_events trace) emissions\<rparr>"

definition fail :: "('d, 'm) Runtime_scheme \<Rightarrow> Trace \<Rightarrow> string \<Rightarrow> string \<Rightarrow> go_error \<Rightarrow> bool \<Rightarrow>
    run_outcome" where
  "fail runtime trace stepID code err canRetry =
     (let receipt = failure (rt_error_text runtime) (trc_run_id trace) stepID code err canRetry
            (rt_now runtime AtFailure);
          trace = trace\<lparr>trc_failures := trc_failures trace @ [fr_failure_id receipt]\<rparr>;
          trace = trace_emit runtime trace [(stepID, ''run'', ''failed'', [(''code'', code)])];
          trace = trace\<lparr>trc_completed_at := rt_now runtime AtFailed\<rparr>;
          receipt = (case dep_save (rt_deps runtime) trace of
              None \<Rightarrow> receipt
            | Some saveErr \<Rightarrow> receipt\<lparr>fr_failure_code := ''trace_persistence_failed'',
                fr_message := fr_message receipt @ ''; persist trace: '' @ rt_error_text runtime saveErr\<rparr>)
      in (\<lparr>res_answer = None, res_failure = Some receipt, res_context_failures = [], res_packets = [],
           res_critiques = [], res_trace = trace\<rparr>, [trace]))"

definition attachPartial :: "run_outcome \<Rightarrow> ContextPacket list \<Rightarrow> CritiqueReport list \<Rightarrow> FailureReceipt list \<Rightarrow>
    run_outcome" where
  "attachPartial outcome packets critiques failures =
     ((fst outcome)\<lparr>res_packets := packets, res_critiques := critiques, res_context_failures := failures\<rparr>,
      snd outcome)"

section \<open>The steps of a plan\<close>

fun splitSteps :: "PlanStep list \<Rightarrow> PlanStep list \<times> PlanStep list \<times> PlanStep option" where
  "splitSteps [] = ([], [], None)"
| "splitSteps (step # steps) =
     (let (contexts, reviews, synthesis) = splitSteps steps in
      if st_kind step = ''context'' then (step # contexts, reviews, synthesis)
      else if st_kind step = ''review'' then (contexts, step # reviews, synthesis)
      else if st_kind step = ''synthesis'' then (contexts, reviews, Some step)
      else (contexts, reviews, synthesis))"

section \<open>Synthesis\<close>

definition runSynthesis :: "('d, 'm) Runtime_scheme \<Rightarrow> ResearchRequest \<Rightarrow> ResearchPlan \<Rightarrow> PlanStep \<Rightarrow>
    ContextPacket list \<Rightarrow> CritiqueReport list \<Rightarrow> go_error + FinalAnswer" where
  "runSynthesis runtime request plan step packets critiques =
     res_bind (last_result zeroFinalAnswer
         (attempts (dep_synthesizer (rt_deps runtime) \<lparr>sin_request = request, sin_plan = plan,
             sin_packets = packets, sin_critiques = critiques\<rparr>) result_error
           (attempt_budget (rt_roles runtime) (st_role_id step)) 0)) (\<lambda>answer.
       if fa_run_id answer \<noteq> rq_run_id request \<or> fa_request_id answer \<noteq> rq_request_id request \<or>
           fa_released_by answer \<noteq> FinalResearchAnalyst then
         Inl (ErrorsNew ''final answer violates sole-synthesis boundary'')
       else check_then (ValidateFinalAnswer answer) (Inr answer))"

section \<open>The stages\<close>

text \<open>What a run has gathered when it reaches a stage.\<close>

record run_state =
  rs_trace :: Trace
  rs_packets :: "ContextPacket list"
  rs_failures :: "FailureReceipt list"
  rs_critiques :: "CritiqueReport list"
  rs_approved :: "CritiqueReport list"

definition fail_at :: "('d, 'm) Runtime_scheme \<Rightarrow> run_state \<Rightarrow> string \<Rightarrow> string \<Rightarrow> go_error \<Rightarrow> bool \<Rightarrow>
    run_outcome" where
  "fail_at runtime s stepID code err canRetry =
     attachPartial (fail runtime (rs_trace s) stepID code err canRetry)
       (rs_packets s) (rs_critiques s) (rs_failures s)"

definition review_stage :: "('d, 'm) Runtime_scheme \<Rightarrow> ResearchRequest \<Rightarrow> ResearchPlan \<Rightarrow> PlanStep \<Rightarrow>
    run_state \<Rightarrow> run_outcome + run_state" where
  "review_stage runtime request plan step s =
     (case runReview runtime request plan step (rs_packets s) (rs_critiques s) of (emissions, result) \<Rightarrow>
        let s = s\<lparr>rs_trace := trace_emit runtime (rs_trace s) emissions\<rparr> in
        case result of
          Inl err \<Rightarrow> Inl (fail_at runtime s (st_step_id step) (classify err) err (retryable err))
        | Inr (reports, packets) \<Rightarrow>
            let s = s\<lparr>rs_packets := packets, rs_critiques := rs_critiques s @ reports,
                  rs_trace := (rs_trace s)\<lparr>trc_critique_ids := trc_critique_ids (rs_trace s) @
                    map cp_report_id reports\<rparr>\<rparr>;
                finalReport = last reports
            in if cp_decision finalReport \<noteq> CritiqueApprove then
                 Inl (fail_at runtime s (st_step_id step) ''evidence_rejected''
                   (ErrorsNew ''review did not approve evidence'') False)
               else Inr (s\<lparr>rs_approved := rs_approved s @ [finalReport]\<rparr>))"

fun review_stages :: "('d, 'm) Runtime_scheme \<Rightarrow> ResearchRequest \<Rightarrow> ResearchPlan \<Rightarrow> PlanStep list \<Rightarrow>
    run_state \<Rightarrow> run_outcome + run_state" where
  "review_stages runtime request plan [] s = Inr s"
| "review_stages runtime request plan (step # steps) s =
     (case review_stage runtime request plan step s of
        Inl outcome \<Rightarrow> Inl outcome
      | Inr s \<Rightarrow> review_stages runtime request plan steps s)"

definition released_trace :: "('d, 'm) Runtime_scheme \<Rightarrow> PlanStep \<Rightarrow> run_state \<Rightarrow> FinalAnswer \<Rightarrow> Trace" where
  "released_trace runtime step s answer =
     (let attributes = releaseOperationalAttributes answer (rs_approved s);
          trace = trace_emit runtime ((rs_trace s)\<lparr>trc_answer_id := fa_answer_id answer\<rparr>)
            [(st_step_id step, ''synthesis'', ''passed'', attributes),
             (st_step_id step, ''run'', ''completed'', attributes)]
      in trace\<lparr>trc_completed_at := rt_now runtime AtCompleted\<rparr>)"

definition release :: "('d, 'm) Runtime_scheme \<Rightarrow> PlanStep \<Rightarrow> run_state \<Rightarrow> FinalAnswer \<Rightarrow> run_outcome" where
  "release runtime step s answer =
     (let trace = released_trace runtime step s answer
      in case dep_save (rt_deps runtime) trace of
           Some err \<Rightarrow>
             (case fail_at runtime (s\<lparr>rs_trace := trace\<rparr>) ''trace'' ''trace_persistence_failed'' err False of
                (result, saves) \<Rightarrow> (result, trace # saves))
         | None \<Rightarrow> (\<lparr>res_answer = Some answer, res_failure = None, res_context_failures = rs_failures s,
             res_packets = rs_packets s, res_critiques = rs_critiques s, res_trace = trace\<rparr>, [trace]))"

definition synthesis_stage :: "('d, 'm) Runtime_scheme \<Rightarrow> ResearchRequest \<Rightarrow> ResearchPlan \<Rightarrow>
    PlanStep option \<Rightarrow> run_state \<Rightarrow> run_outcome" where
  "synthesis_stage runtime request plan synthesisStep s =
     (case synthesisStep of
        None \<Rightarrow> fail_at runtime s ''synthesis'' ''invalid_plan'' (ErrorsNew ''plan has no synthesis step'') False
      | Some step \<Rightarrow>
          let s = s\<lparr>rs_trace := trace_emit runtime (rs_trace s)
                [(st_step_id step, ''synthesis'', ''started'', routeAttributes step)]\<rparr>
          in (case runSynthesis runtime request plan step (rs_packets s) (rs_approved s) of
                Inl err \<Rightarrow> fail_at runtime s (st_step_id step) (classify err) err (retryable err)
              | Inr answer \<Rightarrow> release runtime step s answer))"

section \<open>Run\<close>

definition context_limit :: "('d, 'm) Runtime_scheme \<Rightarrow> ResearchPlan \<Rightarrow> int" where
  "context_limit runtime plan =
     (if rt_context_concurrency runtime > 0 \<and> rt_context_concurrency runtime < pl_max_parallel_specialists plan
      then rt_context_concurrency runtime else pl_max_parallel_specialists plan)"

definition accepted_trace :: "('d, 'm) Runtime_scheme \<Rightarrow> ResearchRequest \<Rightarrow> Trace \<Rightarrow> ResearchPlan \<Rightarrow>
    Trace" where
  "accepted_trace runtime request trace plan =
     trace_emit runtime (trace\<lparr>trc_plan_id := pl_plan_id plan\<rparr>)
       [(''interpret-request'', ''interpretation'', ''completed'', interpretationAttributes request),
        (''build-plan'', ''planning'', ''completed'', planningAttributes plan),
        ([], ''plan'', ''accepted'', [(''plan_id'', pl_plan_id plan)])]"

definition waves_state :: "('d, 'm) Runtime_scheme \<Rightarrow> Trace \<Rightarrow> wave_outcome \<Rightarrow> run_state" where
  "waves_state runtime trace outcome =
     (let trace = trace_emit runtime trace (wo_emissions outcome);
          trace = trace\<lparr>trc_max_concurrent_context := int (wo_maximum outcome)\<rparr>;
          trace = trace\<lparr>trc_packet_ids := trc_packet_ids trace @ map pk_packet_id (wo_packets outcome)\<rparr>;
          trace = trace\<lparr>trc_failures := trc_failures trace @ map fr_failure_id (wo_failures outcome)\<rparr>
      in \<lparr>rs_trace = trace, rs_packets = wo_packets outcome, rs_failures = wo_failures outcome,
          rs_critiques = [], rs_approved = []\<rparr>)"

definition after_waves :: "('d, 'm) Runtime_scheme \<Rightarrow> ResearchRequest \<Rightarrow> ResearchPlan \<Rightarrow>
    run_state \<Rightarrow> run_outcome" where
  "after_waves runtime request plan s =
     (case splitSteps (pl_steps plan) of (contextSteps, reviewSteps, synthesisStep) \<Rightarrow>
        if contextSteps \<noteq> [] \<and> rs_packets s = [] then
          fail_at runtime s ''context-wave'' ''context_unavailable''
            (ErrorsNew ''all context specialists failed'') False
        else (case review_stages runtime request plan reviewSteps s of
            Inl outcome \<Rightarrow> outcome
          | Inr s \<Rightarrow> synthesis_stage runtime request plan synthesisStep s))"

definition run_plan :: "('d, 'm) Runtime_scheme \<Rightarrow> ResearchRequest \<Rightarrow> Trace \<Rightarrow> ResearchPlan \<Rightarrow>
    run_outcome option" where
  "run_plan runtime request trace plan =
     map_option (\<lambda>outcome. after_waves runtime request plan
         (waves_state runtime (accepted_trace runtime request trace plan) outcome))
       (runContextWaves runtime request (fst (splitSteps (pl_steps plan))) (context_limit runtime plan))"

definition start_trace :: "('d, 'm) Runtime_scheme \<Rightarrow> ResearchRequest \<Rightarrow> Trace" where
  "start_trace runtime request =
     \<lparr>trc_schema_version = ''signalforge/orchestration-trace/v1'', trc_run_id = rq_run_id request,
      trc_request_id = rq_request_id request, trc_plan_id = [], trc_events = [], trc_packet_ids = [],
      trc_critique_ids = [], trc_answer_id = [], trc_failures = [], trc_max_concurrent_context = 0,
      trc_started_at = rt_now runtime AtStart, trc_completed_at = 0\<rparr>"

definition Run :: "('d, 'm) Runtime_scheme \<Rightarrow> ResearchRequest \<Rightarrow> run_outcome option" where
  "Run runtime request =
     (let trace = start_trace runtime request in
      case ValidateResearchRequest request of
        Some err \<Rightarrow> Some (fail runtime trace ''request'' ''invalid_request'' err False)
      | None \<Rightarrow>
          (case Build (rt_planner runtime) request of
             Inl err \<Rightarrow>
               if errors_is err ErrClarificationRequired then
                 Some (fail runtime (trace_emit runtime trace [(''interpret-request'', ''interpretation'',
                     ''clarification_required'', interpretationAttributes request)])
                   ''interpret-request'' ''clarification_required'' err False)
               else Some (fail runtime trace ''planning'' (classify err) err False)
           | Inr plan \<Rightarrow> run_plan runtime request trace plan))"

end
