(* ===== verification/Trace_Laws.thy ===== *)
theory Trace_Laws
  imports Runtime
begin

text \<open>
  The event log of a run. The locale \<open>event_log\<close> is what the readers of a trace rely on
  (each emission appends one event with the next number); its interpretation on \<open>emit\<close>
  carries the numbering through every stage of a run.
\<close>

section \<open>The log interface\<close>

locale event_log =
  fixes append_event :: "'e list \<Rightarrow> 'm \<Rightarrow> 'e list"
    and number :: "'e \<Rightarrow> int"
    and tagged :: "'e \<Rightarrow> bool"
  assumes record_appends: "\<exists>e. append_event es m = es @ [e] \<and> number e = int (length es) + 1 \<and> tagged e"
begin

definition well_numbered :: "'e list \<Rightarrow> bool" where
  "well_numbered es \<longleftrightarrow> map number es = [1..int (length es)] \<and> (\<forall>e \<in> set es. tagged e)"

lemma well_numbered_Nil: "well_numbered []"
  by (simp add: well_numbered_def)

lemma well_numbered_record:
  assumes "well_numbered es"
  shows "well_numbered (append_event es m)"
proof -
  obtain e where e: "append_event es m = es @ [e]" "number e = int (length es) + 1" "tagged e"
    using record_appends by blast
  have "[1..int (length es) + 1] = [1..int (length es)] @ [int (length es) + 1]"
    by (simp add: upto_rec2)
  with e assms show ?thesis by (simp add: well_numbered_def add.commute)
qed

lemma well_numbered_records: "well_numbered es \<Longrightarrow> well_numbered (foldl append_event es ms)"
  by (induction ms arbitrary: es) (simp_all add: well_numbered_record)

lemma records_append: "\<exists>new. foldl append_event es ms = es @ new \<and> length new = length ms"
proof (induction ms arbitrary: es)
  case (Cons m ms)
  obtain e where "append_event es m = es @ [e]" using record_appends by blast
  with Cons [of "append_event es m"] show ?case by auto
qed simp

end

interpretation trace_log: event_log "emit clock runID" evt_sequence "\<lambda>e. evt_run_id e = runID"
  for clock runID
proof
  show "\<exists>e. emit clock runID es m = es @ [e] \<and> evt_sequence e = int (length es) + 1 \<and> evt_run_id e = runID"
    for es m by (cases m) (simp add: emit_def)
qed

section \<open>Traces of a run\<close>

definition trace_numbered :: "Trace \<Rightarrow> bool" where
  "trace_numbered trace \<longleftrightarrow> map evt_sequence (trc_events trace) = [1..int (length (trc_events trace))] \<and>
     (\<forall>e \<in> set (trc_events trace). evt_run_id e = trc_run_id trace)"

lemma trace_numbered_log:
  "trace_numbered trace \<longleftrightarrow> trace_log.well_numbered (trc_run_id trace) (trc_events trace)"
  by (simp add: trace_numbered_def trace_log.well_numbered_def)

lemma trace_emit_fields [simp]:
  "trc_run_id (trace_emit runtime trace emissions) = trc_run_id trace"
  "trc_request_id (trace_emit runtime trace emissions) = trc_request_id trace"
  "trc_failures (trace_emit runtime trace emissions) = trc_failures trace"
  by (simp_all add: trace_emit_def)

lemma trace_numbered_emit:
  "trace_numbered trace \<Longrightarrow> trace_numbered (trace_emit runtime trace emissions)"
  by (simp add: trace_numbered_log trace_emit_def emit_all_def trace_log.well_numbered_records)

lemma trace_numbered_update [simp]:
  "trace_numbered (trace\<lparr>trc_plan_id := a\<rparr>) = trace_numbered trace"
  "trace_numbered (trace\<lparr>trc_packet_ids := b\<rparr>) = trace_numbered trace"
  "trace_numbered (trace\<lparr>trc_critique_ids := b\<rparr>) = trace_numbered trace"
  "trace_numbered (trace\<lparr>trc_answer_id := a\<rparr>) = trace_numbered trace"
  "trace_numbered (trace\<lparr>trc_failures := b\<rparr>) = trace_numbered trace"
  "trace_numbered (trace\<lparr>trc_max_concurrent_context := c\<rparr>) = trace_numbered trace"
  "trace_numbered (trace\<lparr>trc_completed_at := t\<rparr>) = trace_numbered trace"
  by (simp_all add: trace_numbered_def)

text \<open>
  What every way of ending a run establishes: one of answer and failure, a trace that is
  well numbered, belongs to the request and was handed to the store last, and a failure
  receipt for the run.
\<close>

definition outcome_ok :: "string \<Rightarrow> string \<Rightarrow> run_outcome \<Rightarrow> bool" where
  "outcome_ok runID requestID outcome \<longleftrightarrow>
     trace_numbered (res_trace (fst outcome)) \<and>
     trc_run_id (res_trace (fst outcome)) = runID \<and> trc_request_id (res_trace (fst outcome)) = requestID \<and>
     snd outcome \<noteq> [] \<and> last (snd outcome) = res_trace (fst outcome) \<and> length (snd outcome) \<le> 2 \<and>
     (res_answer (fst outcome) = None \<longleftrightarrow> res_failure (fst outcome) \<noteq> None) \<and>
     (\<forall>receipt. res_failure (fst outcome) = Some receipt \<longrightarrow>
        fr_run_id receipt = runID \<and> fr_failure_id receipt \<in> set (trc_failures (res_trace (fst outcome))))"

definition state_ok :: "string \<Rightarrow> string \<Rightarrow> Trace \<Rightarrow> bool" where
  "state_ok runID requestID trace \<longleftrightarrow>
     trace_numbered trace \<and> trc_run_id trace = runID \<and> trc_request_id trace = requestID"

lemma state_ok_emit [intro]:
  "state_ok run req trace \<Longrightarrow> state_ok run req (trace_emit runtime trace emissions)"
  by (simp add: state_ok_def trace_numbered_emit)

lemma state_ok_update [simp]:
  "state_ok run req (trace\<lparr>trc_plan_id := a\<rparr>) = state_ok run req trace"
  "state_ok run req (trace\<lparr>trc_packet_ids := b\<rparr>) = state_ok run req trace"
  "state_ok run req (trace\<lparr>trc_critique_ids := b\<rparr>) = state_ok run req trace"
  "state_ok run req (trace\<lparr>trc_answer_id := a\<rparr>) = state_ok run req trace"
  "state_ok run req (trace\<lparr>trc_failures := b\<rparr>) = state_ok run req trace"
  "state_ok run req (trace\<lparr>trc_max_concurrent_context := c\<rparr>) = state_ok run req trace"
  "state_ok run req (trace\<lparr>trc_completed_at := t\<rparr>) = state_ok run req trace"
  by (simp_all add: state_ok_def)

lemma state_ok_start: "state_ok (rq_run_id request) (rq_request_id request) (start_trace runtime request)"
  by (simp add: state_ok_def start_trace_def trace_numbered_def)

lemma outcome_ok_fail:
  assumes "state_ok run req trace"
  shows "outcome_ok run req (fail runtime trace stepID code err canRetry)"
proof -
  obtain t' r' where f: "fail runtime trace stepID code err canRetry =
      (\<lparr>res_answer = None, res_failure = Some r', res_context_failures = [], res_packets = [],
        res_critiques = [], res_trace = t'\<rparr>, [t'])"
    and t': "state_ok run req t'" and r': "fr_run_id r' = run" "fr_failure_id r' \<in> set (trc_failures t')"
    using assms by (auto simp: fail_def Let_def failure_def state_ok_def trace_numbered_emit split: option.splits)
  from t' r' show ?thesis by (simp add: f outcome_ok_def state_ok_def)
qed

lemma outcome_ok_attach [simp]:
  "outcome_ok run req (attachPartial outcome packets critiques failures) = outcome_ok run req outcome"
  by (simp add: outcome_ok_def attachPartial_def)

lemma outcome_ok_fail_at:
  "state_ok run req (rs_trace s) \<Longrightarrow> outcome_ok run req (fail_at runtime s stepID code err canRetry)"
  by (simp add: fail_at_def outcome_ok_fail)

lemma outcome_ok_release:
  assumes "state_ok run req (rs_trace s)"
  shows "outcome_ok run req (release runtime step s answer)"
proof -
  let ?t = "released_trace runtime step s answer"
  have t: "state_ok run req ?t"
    using assms by (simp add: released_trace_def Let_def state_ok_emit)
  show ?thesis
  proof (cases "dep_save (rt_deps runtime) ?t")
    case None
    with t show ?thesis by (simp add: release_def Let_def outcome_ok_def state_ok_def)
  next
    case (Some err)
    have "length (snd (fail_at runtime (s\<lparr>rs_trace := ?t\<rparr>) ''trace'' ''trace_persistence_failed'' err False)) = 1"
      by (simp add: fail_at_def attachPartial_def fail_def Let_def)
    moreover have "outcome_ok run req (fail_at runtime (s\<lparr>rs_trace := ?t\<rparr>) ''trace'' ''trace_persistence_failed'' err False)"
      using t by (intro outcome_ok_fail_at) simp
    ultimately show ?thesis
      by (cases "fail_at runtime (s\<lparr>rs_trace := ?t\<rparr>) ''trace'' ''trace_persistence_failed'' err False")
        (simp add: release_def Let_def Some outcome_ok_def)
  qed
qed

lemma outcome_ok_synthesis:
  assumes "state_ok run req (rs_trace s)"
  shows "outcome_ok run req (synthesis_stage runtime request plan synthesisStep s)"
  using assms
  by (auto simp: synthesis_stage_def Let_def state_ok_emit outcome_ok_fail_at outcome_ok_release
      split: option.splits sum.splits)

lemma review_stage_ok:
  assumes "state_ok run req (rs_trace s)"
  shows "case review_stage runtime request plan step s of
    Inl outcome \<Rightarrow> outcome_ok run req outcome | Inr s' \<Rightarrow> state_ok run req (rs_trace s')"
proof -
  obtain emissions result where r: "runReview runtime request plan step (rs_packets s) (rs_critiques s) =
      (emissions, result)" by fastforce
  show ?thesis
  proof (cases result)
    case (Inl err)
    with assms show ?thesis by (simp add: review_stage_def r Let_def outcome_ok_fail_at state_ok_emit)
  next
    case (Inr reviewed)
    with assms show ?thesis
      by (cases reviewed) (simp add: review_stage_def r Let_def outcome_ok_fail_at state_ok_emit)
  qed
qed

lemma review_stages_ok:
  assumes "state_ok run req (rs_trace s)"
  shows "case review_stages runtime request plan steps s of
    Inl outcome \<Rightarrow> outcome_ok run req outcome | Inr s' \<Rightarrow> state_ok run req (rs_trace s')"
  using assms
proof (induction steps arbitrary: s)
  case (Cons step steps)
  from review_stage_ok [OF Cons.prems, of runtime request plan step] Cons.IH show ?case
    by (cases "review_stage runtime request plan step s") auto
qed simp

lemma after_waves_ok:
  assumes s: "state_ok run req (rs_trace s)"
  shows "outcome_ok run req (after_waves runtime request plan s)"
proof -
  obtain contexts reviews synthesis where split: "splitSteps (pl_steps plan) = (contexts, reviews, synthesis)"
    by (metis prod_cases3)
  from review_stages_ok [OF s, of runtime request plan reviews] show ?thesis
    by (cases "review_stages runtime request plan reviews s")
      (auto simp: after_waves_def split outcome_ok_fail_at [OF s] outcome_ok_synthesis)
qed

lemma run_plan_ok:
  assumes "state_ok run req trace" and "run_plan runtime request trace plan = Some outcome"
  shows "outcome_ok run req outcome"
proof -
  obtain waves where outcome: "outcome = after_waves runtime request plan
      (waves_state runtime (accepted_trace runtime request trace plan) waves)"
    using assms(2) unfolding run_plan_def map_option_eq_Some by blast
  show ?thesis unfolding outcome
    by (rule after_waves_ok) (simp add: waves_state_def Let_def accepted_trace_def state_ok_emit assms(1))
qed

lemma Run_outcome_ok:
  assumes "Run runtime request = Some outcome"
  shows "outcome_ok (rq_run_id request) (rq_request_id request) outcome"
proof -
  let ?start = "start_trace runtime request"
  have start: "state_ok (rq_run_id request) (rq_request_id request) ?start" by (rule state_ok_start)
  show ?thesis
  proof (cases "ValidateResearchRequest request")
    case (Some err)
    with assms start show ?thesis by (auto simp: Run_def Let_def outcome_ok_fail)
  next
    case None
    show ?thesis
    proof (cases "Build (rt_planner runtime) request")
      case (Inl err)
      with assms None start show ?thesis
        by (auto simp: Run_def Let_def state_ok_emit intro!: outcome_ok_fail split: if_splits)
    next
      case (Inr plan)
      with assms None have "run_plan runtime request ?start plan = Some outcome" by (simp add: Run_def Let_def)
      with start show ?thesis by (rule run_plan_ok)
    qed
  qed
qed

end
