(* ===== verification/Context_Laws.thy ===== *)
theory Context_Laws
  imports Context_Waves
begin

text \<open>
  What the context stage guarantees: an accepted packet is valid and carries the authority of
  the request, whatever the specialist claimed; the packets and failures of a wave are those
  of its steps in order, whatever the schedule; every step of a wave has exactly one outcome.
\<close>

section \<open>An accepted packet\<close>

definition runtime_ok :: "('d, 'm) Runtime_scheme \<Rightarrow> bool" where
  "runtime_ok runtime \<longleftrightarrow> (\<exists>definitions. NewRoleRegistry definitions = Inr (rt_roles runtime))"

lemma attempt_budget_bounds:
  assumes "NewRoleRegistry definitions = Inr registry"
  shows "1 \<le> attempt_budget registry roleID \<and> attempt_budget registry roleID \<le> 2"
proof (cases "GetRole registry roleID")
  case None
  then show ?thesis by (simp add: attempt_budget_def registered_role_def zeroRole_def)
next
  case (Some role)
  with role_registry.get_accepted [OF assms Some]
  have "0 \<le> rl_max_retries role" "rl_max_retries role \<le> 1" by (simp_all add: validateRole_def)
  with Some show ?thesis by (simp add: attempt_budget_def registered_role_def) linarith
qed

definition packet_bound :: "'d apd_lib \<Rightarrow> ContextRequest \<Rightarrow> ContextPacket \<Rightarrow> bool" where
  "packet_bound L request packet \<longleftrightarrow> packet_ok L packet \<and>
     pk_run_id packet = cq_run_id request \<and> pk_step_id packet = cq_step_id request \<and>
     pk_specialist_role packet = cq_specialist_role request \<and>
     pk_authority_state packet = cq_authority_state request \<and>
     pk_authority_refs packet = cq_authority_refs request"

lemma bindPacketAuthority_Inr:
  "bindPacketAuthority packet request = Inr bound \<longleftrightarrow>
     pk_authority_state packet \<in> {[], cq_authority_state request} \<and>
     pk_authority_refs packet \<in> {[], cq_authority_refs request} \<and>
     bound = packet\<lparr>pk_authority_state := cq_authority_state request,
       pk_authority_refs := cq_authority_refs request\<rparr>"
  by (auto simp: bindPacketAuthority_def stringSlicesEqual_iff)

lemma callSpecialist_bound:
  assumes "1 \<le> attempt_budget (rt_roles runtime) (st_role_id step)"
    and "snd (callSpecialist runtime request step) = Inr packet"
  shows "packet_bound (rt_decimal runtime) request packet"
proof -
  let ?made = "attempts (specialist_attempt (dep_specialist (rt_deps runtime)) request)
    (result_error \<circ> snd) (attempt_budget (rt_roles runtime) (st_role_id step)) 0"
  have "?made \<noteq> []" using assms(1) by (intro attempts_nonempty) simp
  with assms(2) show ?thesis
    by (auto simp: callSpecialist_def Let_def bindPacketAuthority_Inr validatePacket_def packet_bound_def
        ValidateContextPacket_None)
qed

section \<open>One outcome per step\<close>

definition step_outcome :: "('d, 'm) Runtime_scheme \<Rightarrow> ResearchRequest \<Rightarrow> PlanStep \<Rightarrow>
    FailureReceipt + ContextPacket" where
  "step_outcome runtime request step =
     (let fails = (\<lambda>code err canRetry. failure (rt_error_text runtime) (rq_run_id request) (st_step_id step)
            code err canRetry (rt_now runtime (AtOutcome (st_step_id step))))
      in case rt_ctx_err runtime (BeforeStep (st_step_id step)) of
           Some err \<Rightarrow> Inl (fails ''cancelled'' err False)
         | None \<Rightarrow> (case snd (callSpecialist runtime (contextRequest request step) step) of
               Inl err \<Rightarrow> Inl (fails (classify err) err (retryable err))
             | Inr packet \<Rightarrow> Inr packet))"

lemma sent_simps [simp]:
  "sent [] = []" "sent (Emits e # actions) = sent actions" "sent (Sends x # actions) = x # sent actions"
  "sent (xs @ ys) = sent xs @ sent ys" "sent (map Emits es) = []"
  "sent (map (\<lambda>r. Emits (f r)) rs) = []"
  by (simp_all add: sent_def)

lemma emitted_simps [simp]:
  "emitted [] = []" "emitted (Emits e # actions) = e # emitted actions"
  "emitted (Sends x # actions) = emitted actions" "emitted (xs @ ys) = emitted xs @ emitted ys"
  by (simp_all add: emitted_def)

lemma sent_script: "sent (step_script runtime request (i, step)) = [(i, step_outcome runtime request step)]"
proof (cases "rt_ctx_err runtime (BeforeStep (st_step_id step))")
  case None
  obtain lifecycle result where call: "callSpecialist runtime (contextRequest request step) step =
      (lifecycle, result)" by fastforce
  have "cq_run_id (contextRequest request step) = rq_run_id request" by (simp add: contextRequest_def)
  with None call show ?thesis
    by (cases result) (simp_all add: step_script_def step_outcome_def Let_def)
qed (simp add: step_script_def step_outcome_def Let_def)

lemma sent_mset: "mset actions = mset actions' \<Longrightarrow> mset (sent actions) = mset (sent actions')"
  and emitted_mset: "mset actions = mset actions' \<Longrightarrow> mset (emitted actions) = mset (emitted actions')"
  unfolding sent_def emitted_def mset_concat mset_map by (simp_all flip: sum_mset_sum_list add: image_mset.compositionality)

lemma concat_batches: "0 < limit \<Longrightarrow> concat (batches limit xs) = xs"
proof (induction limit xs rule: batches.induct)
  case (1 limit xs)
  then show ?case by (cases "xs = []") (simp_all add: batches.simps [of limit xs] batches.simps [of limit "[]"])
qed

lemma wave_actions_mset:
  assumes "0 < limit"
  shows "mset (wave_actions runtime request wave steps limit) =
    mset (concat (map (step_script runtime request) (enumerate 0 steps)))"
proof -
  have one: "mset (concat (map (\<lambda>(b, group). merge_by (f b) (map g group)) (enumerate k groups))) =
      mset (concat (map g (concat groups)))" for f :: "nat \<Rightarrow> nat list" and g :: "'x \<Rightarrow> 'y list" and k groups
  proof (induction groups arbitrary: k)
    case (Cons group groups)
    then show ?case by (simp add: merge_by_mset)
  qed simp
  show ?thesis
    using one [of "rt_schedule runtime wave" "step_script runtime request" 0 "batches limit (enumerate 0 steps)"]
    by (simp add: wave_actions_def concat_batches [OF assms])
qed

lemma sent_scripts:
  "sent (concat (map (step_script runtime request) (enumerate i steps))) =
     map (\<lambda>(i, step). (i, step_outcome runtime request step)) (enumerate i steps)"
  by (induction steps arbitrary: i) (simp_all add: sent_script)

text \<open>
  A wave returns the packets and the failures of its steps, in the order of the steps.
\<close>

lemma filled_map: "filled (map f xs) = concat (map (\<lambda>x. case f x of Some y \<Rightarrow> [y] | None \<Rightarrow> []) xs)"
  by (simp add: filled_def comp_def)

definition successes :: "('e + 'v) list \<Rightarrow> 'v list" where
  "successes rs = concat (map (\<lambda>r. case r of Inr v \<Rightarrow> [v] | Inl e \<Rightarrow> []) rs)"

definition errors :: "('e + 'v) list \<Rightarrow> 'e list" where
  "errors rs = concat (map (\<lambda>r. case r of Inl e \<Rightarrow> [e] | Inr v \<Rightarrow> []) rs)"

lemma length_successes_errors: "length (successes rs) + length (errors rs) = length rs"
  by (induction rs) (auto simp: successes_def errors_def split: sum.splits)

lemma successes_simps [simp]:
  "successes [] = []" "successes (Inr v # rs) = v # successes rs" "successes (Inl e # rs) = successes rs"
  "errors [] = []" "errors (Inl e # rs) = e # errors rs" "errors (Inr v # rs) = errors rs"
  by (simp_all add: successes_def errors_def)

lemma in_successes: "v \<in> set (successes rs) \<longleftrightarrow> Inr v \<in> set rs"
  and in_errors: "e \<in> set (errors rs) \<longleftrightarrow> Inl e \<in> set rs"
  by (auto simp: successes_def errors_def split: sum.splits)

lemma map_of_outcomes:
  "k < length rs \<Longrightarrow> map_of (enumerate 0 rs) k = Some (rs ! k)"
  by (intro map_of_is_SomeI) (auto simp: in_set_enumerate_eq)

lemma filled_outcomes:
  assumes "distinct (map fst arrivals)" and "mset arrivals = mset (enumerate 0 rs)"
  shows "filled (fst (fill_slots (length rs) arrivals)) = successes rs"
    and "filled (snd (fill_slots (length rs) arrivals)) = errors rs"
proof -
  have "fill_slots (length rs) arrivals = fill_slots (length rs) (enumerate 0 rs)"
    using assms by (intro fill_slots_eq)
  then have slots: "fill_slots (length rs) arrivals =
      (map (\<lambda>i. slot_value i (enumerate 0 rs)) [0..<length rs],
       map (\<lambda>i. slot_failure i (enumerate 0 rs)) [0..<length rs])"
    by (simp add: fill_slots_map_of)
  have "map (\<lambda>i. slot_value i (enumerate 0 rs)) [0..<length rs] =
      map (\<lambda>r. case r of Inr v \<Rightarrow> Some v | Inl e \<Rightarrow> None) rs"
    "map (\<lambda>i. slot_failure i (enumerate 0 rs)) [0..<length rs] =
      map (\<lambda>r. case r of Inl e \<Rightarrow> Some e | Inr v \<Rightarrow> None) rs"
    by (auto intro!: nth_equalityI simp: slot_value_def slot_failure_def map_of_outcomes split: sum.splits)
  moreover have "filled (map (\<lambda>r. case r of Inr v \<Rightarrow> Some v | Inl e \<Rightarrow> None) rs) = successes rs"
    "filled (map (\<lambda>r. case r of Inl e \<Rightarrow> Some e | Inr v \<Rightarrow> None) rs) = errors rs"
    by (induction rs) (auto simp: filled_def split: sum.splits)
  ultimately show "filled (fst (fill_slots (length rs) arrivals)) = successes rs"
    and "filled (snd (fill_slots (length rs) arrivals)) = errors rs"
    by (simp_all add: slots del: map_map)
qed

lemma largest_batch:
  assumes "0 < limit" and "steps \<noteq> []"
  shows "foldl (\<lambda>m group. if length group > m then length group else m) m (batches limit steps) =
    max m (min limit (length steps))"
  using assms
proof (induction limit steps arbitrary: m rule: batches.induct)
  case (1 limit xs)
  show ?case
  proof (cases "length xs \<le> limit")
    case True
    with 1(2,3) show ?thesis
      by (simp add: batches.simps [of limit xs] batches.simps [of limit "[]"])
  next
    case False
    with 1 show ?thesis by (auto simp: batches.simps [of limit xs])
  qed
qed

lemma runContextWave_eq:
  assumes "1 \<le> limit" and "steps \<noteq> []"
  shows "\<exists>emissions. runContextWave runtime request wave steps limit =
      Some \<lparr>wo_emissions = emissions,
        wo_packets = successes (map (step_outcome runtime request) steps),
        wo_failures = errors (map (step_outcome runtime request) steps),
        wo_maximum = min (nat limit) (length steps)\<rparr> \<and>
    mset emissions = mset (emitted (concat (map (step_script runtime request) (enumerate 0 steps))))"
proof -
  let ?actions = "wave_actions runtime request wave steps (nat limit)"
  let ?outcomes = "map (step_outcome runtime request) steps"
  have actions: "mset ?actions = mset (concat (map (step_script runtime request) (enumerate 0 steps)))"
    using assms(1) by (intro wave_actions_mset) simp
  have outcomes: "map (\<lambda>(i, step). (i, step_outcome runtime request step)) (enumerate 0 steps) = enumerate 0 ?outcomes"
    by (auto intro!: nth_equalityI simp: nth_enumerate_eq)
  have sent: "mset (sent ?actions) = mset (enumerate 0 ?outcomes)"
    using sent_mset [OF actions] by (simp only: sent_scripts outcomes)
  have "mset (map fst (sent ?actions)) = mset (map fst (enumerate 0 ?outcomes))"
    using sent by (simp only: mset_map)
  then have "distinct (map fst (sent ?actions))"
    by (simp only: map_fst_enumerate mset_eq_imp_distinct_iff distinct_upt)
  from filled_outcomes [OF this sent] emitted_mset [OF actions] show ?thesis
    using assms largest_batch [of "nat limit" steps 0]
    by (cases "fill_slots (length steps) (sent ?actions)") (simp add: runContextWave_def Let_def)
qed

section \<open>All waves\<close>

text \<open>
  The waves that are run are a prefix of the waves of the plan, all of them unless the
  context is cancelled; every step of a wave that is run has its outcome.
\<close>

definition steps_of_waves :: "PlanStep list \<Rightarrow> int list \<Rightarrow> PlanStep list" where
  "steps_of_waves steps waves = concat (map (wave_steps steps) waves)"

definition waves_done :: "('d, 'm) Runtime_scheme \<Rightarrow> ResearchRequest \<Rightarrow> PlanStep list \<Rightarrow> nat \<Rightarrow>
    wave_outcome \<Rightarrow> int list \<Rightarrow> wave_outcome \<Rightarrow> bool" where
  "waves_done runtime request steps limit sofar waves outcome \<longleftrightarrow>
     wo_packets outcome = wo_packets sofar @
       successes (map (step_outcome runtime request) (steps_of_waves steps waves)) \<and>
     wo_failures outcome = wo_failures sofar @
       errors (map (step_outcome runtime request) (steps_of_waves steps waves)) \<and>
     wo_maximum outcome \<le> max (wo_maximum sofar) limit"

lemma successes_append: "successes (xs @ ys) = successes xs @ successes ys"
  and errors_append: "errors (xs @ ys) = errors xs @ errors ys"
  by (simp_all add: successes_def errors_def)

lemma waves_done_append:
  assumes "waves_done runtime request steps limit x ws y" and "waves_done runtime request steps limit y vs z"
  shows "waves_done runtime request steps limit x (ws @ vs) z"
proof -
  have "wo_maximum z \<le> max (wo_maximum x) limit"
    using assms by (simp add: waves_done_def) linarith
  with assms show ?thesis
    by (simp add: waves_done_def steps_of_waves_def successes_append errors_append)
qed

lemma run_waves_done:
  assumes "1 \<le> limit"
  shows "\<exists>outcome ran rest. waves = ran @ rest \<and>
    run_waves runtime request steps limit waves sofar = Some outcome \<and>
    waves_done runtime request steps (nat limit) sofar ran outcome \<and>
    ((\<forall>w. rt_ctx_err runtime (AfterWave w) = None) \<longrightarrow> rest = [])"
proof (induction waves arbitrary: sofar)
  case Nil
  then show ?case by (simp add: waves_done_def steps_of_waves_def)
next
  case (Cons wave waves)
  let ?ws = "wave_steps steps wave"
  show ?case
  proof (cases "?ws = []")
    case True
    from Cons [of sofar] obtain outcome ran rest where IH: "waves = ran @ rest"
      "run_waves runtime request steps limit waves sofar = Some outcome"
      "waves_done runtime request steps (nat limit) sofar ran outcome"
      "(\<forall>w. rt_ctx_err runtime (AfterWave w) = None) \<longrightarrow> rest = []" by blast
    with True show ?thesis
      by (intro exI [of _ outcome] exI [of _ "wave # ran"] exI [of _ rest])
        (simp add: waves_done_def steps_of_waves_def Let_def)
  next
    case False
    then obtain emissions where one: "runContextWave runtime request wave ?ws limit =
        Some \<lparr>wo_emissions = emissions, wo_packets = successes (map (step_outcome runtime request) ?ws),
          wo_failures = errors (map (step_outcome runtime request) ?ws),
          wo_maximum = min (nat limit) (length ?ws)\<rparr>" (is "_ = Some ?o")
      using runContextWave_eq [OF assms] by blast
    let ?next = "append_wave wave ?ws limit sofar ?o"
    have next_done: "waves_done runtime request steps (nat limit) sofar [wave] ?next"
      by (simp add: waves_done_def append_wave_def Let_def steps_of_waves_def)
    show ?thesis
    proof (cases "rt_ctx_err runtime (AfterWave wave)")
      case (Some e)
      with False one next_done show ?thesis
        by (intro exI [of _ ?next] exI [of _ "[wave]"] exI [of _ waves]) (auto simp: Let_def)
    next
      case None
      from Cons [of ?next] obtain outcome ran rest where IH: "waves = ran @ rest"
        "run_waves runtime request steps limit waves ?next = Some outcome"
        "waves_done runtime request steps (nat limit) ?next ran outcome"
        "(\<forall>w. rt_ctx_err runtime (AfterWave w) = None) \<longrightarrow> rest = []" by blast
      have "waves_done runtime request steps (nat limit) sofar (wave # ran) outcome"
        using waves_done_append [OF next_done IH(3)] by simp
      with False one None IH show ?thesis
        by (intro exI [of _ outcome] exI [of _ "wave # ran"] exI [of _ rest]) (simp add: Let_def)
    qed
  qed
qed

lemma runContextWaves_done:
  assumes "1 \<le> limit"
  obtains outcome ran rest where "runContextWaves runtime request steps limit = Some outcome"
    "[1..maximum_wave steps] = ran @ rest"
    "wo_packets outcome = successes (map (step_outcome runtime request) (steps_of_waves steps ran))"
    "wo_failures outcome = errors (map (step_outcome runtime request) (steps_of_waves steps ran))"
    "wo_maximum outcome \<le> nat limit"
    "(\<forall>w. rt_ctx_err runtime (AfterWave w) = None) \<Longrightarrow> rest = []"
proof -
  let ?zero = "\<lparr>wo_emissions = [], wo_packets = [], wo_failures = [], wo_maximum = 0\<rparr> :: wave_outcome"
  define waves where "waves = [1..maximum_wave steps]"
  obtain outcome ran rest where split: "waves = ran @ rest"
    and run: "run_waves runtime request steps limit waves ?zero = Some outcome"
    and ran: "waves_done runtime request steps (nat limit) ?zero ran outcome"
    and all: "(\<forall>w. rt_ctx_err runtime (AfterWave w) = None) \<longrightarrow> rest = []"
    using run_waves_done [OF assms, of waves runtime request steps ?zero] by auto
  show thesis
  proof (rule that)
    show "runContextWaves runtime request steps limit = Some outcome"
      using run by (simp only: runContextWaves_def waves_def)
    show "[1..maximum_wave steps] = ran @ rest" using split by (simp only: waves_def)
    show "wo_packets outcome = successes (map (step_outcome runtime request) (steps_of_waves steps ran))"
      and "wo_failures outcome = errors (map (step_outcome runtime request) (steps_of_waves steps ran))"
      and "wo_maximum outcome \<le> nat limit"
      using ran by (simp_all add: waves_done_def)
    show "rest = []" if "\<forall>w. rt_ctx_err runtime (AfterWave w) = None" using all that by blast
  qed
qed

section \<open>The schedule does not matter\<close>

definition same_outcome :: "wave_outcome \<Rightarrow> wave_outcome \<Rightarrow> bool" where
  "same_outcome x y \<longleftrightarrow> wo_packets x = wo_packets y \<and> wo_failures x = wo_failures y \<and>
     wo_maximum x = wo_maximum y \<and> mset (wo_emissions x) = mset (wo_emissions y)"

lemma schedule_fields:
  "rt_ctx_err (runtime\<lparr>rt_schedule := schedule\<rparr>) = rt_ctx_err runtime"
  "rt_now (runtime\<lparr>rt_schedule := schedule\<rparr>) = rt_now runtime"
  "rt_deps (runtime\<lparr>rt_schedule := schedule\<rparr>) = rt_deps runtime"
  "rt_roles (runtime\<lparr>rt_schedule := schedule\<rparr>) = rt_roles runtime"
  "rt_decimal (runtime\<lparr>rt_schedule := schedule\<rparr>) = rt_decimal runtime"
  "rt_error_text (runtime\<lparr>rt_schedule := schedule\<rparr>) = rt_error_text runtime"
  "rt_receipt_digest (runtime\<lparr>rt_schedule := schedule\<rparr>) = rt_receipt_digest runtime"
  by simp_all

lemma step_script_schedule:
  "step_script (runtime\<lparr>rt_schedule := schedule\<rparr>) = step_script runtime"
  by (intro ext, unfold step_script_def callSpecialist_def schedule_fields) (rule refl)

lemma step_outcome_schedule:
  "step_outcome (runtime\<lparr>rt_schedule := schedule\<rparr>) = step_outcome runtime"
  by (intro ext, unfold step_outcome_def callSpecialist_def schedule_fields) (rule refl)

lemma runContextWave_schedule:
  assumes "1 \<le> limit" and "steps \<noteq> []"
  shows "\<exists>x y. runContextWave runtime request wave steps limit = Some x \<and>
    runContextWave (runtime\<lparr>rt_schedule := schedule\<rparr>) request wave steps limit = Some y \<and> same_outcome x y"
  using runContextWave_eq [OF assms, of runtime request wave]
    runContextWave_eq [OF assms, of "runtime\<lparr>rt_schedule := schedule\<rparr>" request wave]
  unfolding step_script_schedule step_outcome_schedule
  by (auto simp: same_outcome_def)

lemma append_wave_same:
  "same_outcome s t \<Longrightarrow> same_outcome x y \<Longrightarrow>
     same_outcome (append_wave wave steps limit s x) (append_wave wave steps limit t y)"
  by (simp add: same_outcome_def append_wave_def wave_status_def Let_def)

lemma run_waves_schedule:
  assumes "1 \<le> limit" and "same_outcome s t"
  shows "\<exists>x y. run_waves runtime request steps limit waves s = Some x \<and>
    run_waves (runtime\<lparr>rt_schedule := schedule\<rparr>) request steps limit waves t = Some y \<and> same_outcome x y"
  using assms(2)
proof (induction waves arbitrary: s t)
  case (Cons wave waves)
  show ?case
  proof (cases "wave_steps steps wave = []")
    case False
    from runContextWave_schedule [OF assms(1) this, of runtime request wave schedule]
    obtain x y where xy: "runContextWave runtime request wave (wave_steps steps wave) limit = Some x"
      "runContextWave (runtime\<lparr>rt_schedule := schedule\<rparr>) request wave (wave_steps steps wave) limit = Some y"
      "same_outcome x y" by blast
    note same = append_wave_same [OF Cons.prems xy(3), of wave "wave_steps steps wave" limit]
    show ?thesis
      using Cons.IH [OF same] same False xy by (cases "rt_ctx_err runtime (AfterWave wave)") (auto simp: Let_def)
  qed (use Cons in \<open>simp add: Let_def\<close>)
qed simp

end
