(* ===== verification/Review_Laws.thy ===== *)
theory Review_Laws
  imports Review "HOL-Library.Sublist"
begin

text \<open>
  What a review guarantees: narrowing and the explicitly approved subset only ever remove
  claims and keep packets valid, a review makes at most one pass more than the repair budget
  and always decides, and its reports are valid reports of the step's role.
\<close>

section \<open>Packets with fewer claims\<close>

text \<open>Everything of a packet that a review may not touch.\<close>

definition packet_frame :: "ContextPacket \<Rightarrow> string list \<times> Scope \<times> string list list" where
  "packet_frame p =
     ([pk_schema_version p, pk_packet_id p, pk_run_id p, pk_step_id p, pk_specialist_role p,
       pk_objective p, pk_authority_state p], pk_scope p,
      [pk_assumptions p, pk_missing_evidence p, pk_conflicts p, pk_uncertainties p,
       pk_handoff_notes p, pk_authority_refs p])"

definition narrower :: "ContextPacket \<Rightarrow> ContextPacket \<Rightarrow> bool" where
  "narrower q p \<longleftrightarrow>
     subseq (pk_findings q) (pk_findings p) \<and> subseq (pk_counterevidence q) (pk_counterevidence p) \<and>
     subseq (pk_evidence q) (pk_evidence p) \<and>
     subseq (pk_calculation_receipts q) (pk_calculation_receipts p) \<and> packet_frame q = packet_frame p"

lemma narrower_refl [simp]: "narrower p p"
  by (simp add: narrower_def)

lemma narrower_trans: "narrower r q \<Longrightarrow> narrower q p \<Longrightarrow> narrower r p"
  unfolding narrower_def by (metis subseq_order.order_trans)

lemma narrower_run: "narrower q p \<Longrightarrow> pk_run_id q = pk_run_id p"
  by (simp add: narrower_def packet_frame_def)

lemma narrower_claims:
  "narrower q p \<Longrightarrow> set (packet_findings q) \<subseteq> set (packet_findings p)"
  unfolding narrower_def by (auto elim: list_emb_set)

lemma narrower_prune:
  assumes "q = p\<lparr>pk_findings := filter P (pk_findings p), pk_counterevidence := filter Q (pk_counterevidence p)\<rparr>"
  shows "narrower (prunePacketReferences q) p"
    and "pk_findings (prunePacketReferences q) = filter P (pk_findings p)"
    and "pk_counterevidence (prunePacketReferences q) = filter Q (pk_counterevidence p)"
  by (simp_all add: assms narrower_def packet_frame_def prunePacketReferences_def Let_def split: prod.split)

section \<open>Narrowing\<close>

definition drop_claims :: "string list \<Rightarrow> ContextPacket \<Rightarrow> ContextPacket" where
  "drop_claims rejected p = prunePacketReferences
     (p\<lparr>pk_findings := filter (\<lambda>f. fd_claim_id f \<notin> set rejected) (pk_findings p),
        pk_counterevidence := filter (\<lambda>f. fd_claim_id f \<notin> set rejected) (pk_counterevidence p)\<rparr>)"

abbreviation claims_of :: "ContextPacket list \<Rightarrow> string set" where
  "claims_of ps \<equiv> (\<Union>p \<in> set ps. fd_claim_id ` set (packet_findings p))"

lemma drop_claims_narrower: "narrower (drop_claims rejected p) p"
  and restrict_claims_narrower: "narrower (restrict_claims approved p) p"
  unfolding drop_claims_def restrict_claims_def by (rule narrower_prune(1) [OF refl])+

lemma claims_drop: "claims_of (map (drop_claims rejected) ps) = claims_of ps - set rejected"
  unfolding drop_claims_def by (auto simp: narrower_prune(2,3) [OF refl])

lemma claims_restrict: "claims_of (map (restrict_claims approved) ps) = claims_of ps \<inter> set approved"
  unfolding restrict_claims_def by (auto simp: narrower_prune(2,3) [OF refl])

lemma packet_ok_drop: "packet_ok L p \<Longrightarrow> packet_ok L (drop_claims rejected p)"
  and packet_ok_restrict_claims: "packet_ok L p \<Longrightarrow> packet_ok L (restrict_claims approved p)"
  unfolding drop_claims_def restrict_claims_def by (simp_all add: packet_ok_prune packet_ok_restrict)

lemma narrow_loop_eq:
  assumes "\<forall>p \<in> set ps. packet_ok L p"
  shows "narrow_loop L rejected changed ps =
    Some (map (drop_claims rejected) ps, changed \<or> claims_of ps \<inter> set rejected \<noteq> {})"
  using assms
proof (induction ps arbitrary: changed)
  case (Cons p ps)
  have "ValidateContextPacket L (drop_claims rejected p) = None"
    unfolding ValidateContextPacket_None using Cons.prems by (intro packet_ok_drop) simp
  moreover have "((changed \<or> (\<exists>f \<in> set (pk_findings p). fd_claim_id f \<in> set rejected)) \<or>
      (\<exists>f \<in> set (pk_counterevidence p). fd_claim_id f \<in> set rejected)) \<longleftrightarrow>
    changed \<or> fd_claim_id ` set (packet_findings p) \<inter> set rejected \<noteq> {}" (is "?changed \<longleftrightarrow> ?changed'")
    by auto
  ultimately have "narrow_loop L rejected changed (p # ps) = (case narrow_loop L rejected ?changed' ps of
      None \<Rightarrow> None | Some (rest, c) \<Rightarrow> Some (drop_claims rejected p # rest, c))"
    by (simp add: filterClaims_def Let_def del: set_append flip: drop_claims_def) (simp only: drop_claims_def)
  also have "narrow_loop L rejected ?changed' ps = Some (map (drop_claims rejected) ps,
      ?changed' \<or> claims_of ps \<inter> set rejected \<noteq> {})"
    using Cons.prems by (intro Cons.IH) simp
  finally show ?case
    by (simp only: option.case prod.case list.map list.set UN_insert Int_Un_distrib2 Un_empty de_Morgan_conj disj_assoc)
qed simp

lemma narrowContextPackets_eq:
  assumes "\<forall>p \<in> set ps. packet_ok L p"
  shows "narrowContextPackets L ps report =
    (if rejected_claims report = [] then (ps, False)
     else (map (drop_claims (rejected_claims report)) ps,
           claims_of ps \<inter> set (rejected_claims report) \<noteq> {}))"
  by (simp add: narrowContextPackets_def Let_def narrow_loop_eq [OF assms])

section \<open>The approved subset\<close>

definition approval_of :: "CritiqueReport \<Rightarrow> CritiqueReport" where
  "approval_of report = report\<lparr>cp_report_id := cp_report_id report @ ''-approved-subset'',
     cp_decision := CritiqueApprove, cp_rejected_claims := [], cp_issues := []\<rparr>"

lemma card_Int_full: "finite A \<Longrightarrow> card (A \<inter> B) = card A \<longleftrightarrow> A \<subseteq> B"
  by (metis Int_lower1 card_subset_eq inf.absorb_iff1)

lemma closeExplicitlyApprovedSubset_eq:
  assumes "\<forall>p \<in> set ps. packet_ok L p"
  shows "closeExplicitlyApprovedSubset L ps report =
    (if cp_approved_claims report \<noteq> [] \<and> set (cp_approved_claims report) \<subseteq> claims_of ps \<and>
        ValidateCritiqueReport (approval_of report) = None
     then Some (map (restrict_claims (cp_approved_claims report)) ps, approval_of report) else None)"
proof -
  let ?approved = "cp_approved_claims report"
  have restrict: "restrict_claims (remdups ?approved) = restrict_claims ?approved"
    by (rule ext) (simp add: restrict_claims_def)
  have "ValidateContextPacket L (restrict_claims ?approved p) = None" if "p \<in> set ps" for p
    unfolding ValidateContextPacket_None using assms that by (intro packet_ok_restrict_claims) blast
  then have valid: "list_ex (\<lambda>p. ValidateContextPacket L p \<noteq> None) (map (restrict_claims ?approved) ps) = False"
    by (simp add: list_ex_iff)
  let ?retained = "remdups (filter (\<lambda>c. c \<in> set (remdups ?approved))
    (concat (map (\<lambda>p. map fd_claim_id (packet_findings p)) ps)))"
  have "length ?retained = card (set ?approved \<inter> claims_of ps)"
    unfolding length_remdups_card_conv by (rule arg_cong [where f = card]) auto
  moreover have "length (remdups ?approved) = card (set ?approved)" by (simp add: length_remdups_card_conv)
  moreover have "card (set ?approved \<inter> claims_of ps) = card (set ?approved) \<longleftrightarrow> set ?approved \<subseteq> claims_of ps"
    by (rule card_Int_full) simp
  ultimately have all: "length ?retained = length (remdups ?approved) \<longleftrightarrow> set ?approved \<subseteq> claims_of ps"
    by (simp only:)
  show ?thesis
    unfolding closeExplicitlyApprovedSubset_def Let_def restrict approval_of_def [symmetric] valid all
    by simp
qed

section \<open>The passes of a review\<close>

definition report_ok :: "ResearchRequest \<Rightarrow> PlanStep \<Rightarrow> CritiqueReport \<Rightarrow> bool" where
  "report_ok request step report \<longleftrightarrow> ValidateCritiqueReport report = None \<and>
     cp_run_id report = rq_run_id request \<and> cp_reviewer_role report = st_role_id step"

lemma reviewed_ok:
  "reviewed runtime request plan step working context pass = Inr report \<Longrightarrow>
     report_ok request step report \<and> cp_repair_pass report = pass"
  by (auto simp: reviewed_def report_ok_def split: if_splits)

definition packets_ok :: "'d apd_lib \<Rightarrow> ContextPacket list \<Rightarrow> bool" where
  "packets_ok L ps \<longleftrightarrow> (\<forall>p \<in> set ps. packet_ok L p)"

lemma narrower_map: "(\<And>p. narrower (f p) p) \<Longrightarrow> list_all2 narrower (map f ps) ps"
  by (simp add: list_all2_map1 list_all2_refl)

lemma narrower_list_refl: "list_all2 narrower ps ps"
  by (simp add: list_all2_refl)

lemma narrower_list_trans:
  "list_all2 narrower rs qs \<Longrightarrow> list_all2 narrower qs ps \<Longrightarrow> list_all2 narrower rs ps"
  by (rule list_all2_trans) (rule narrower_trans)

text \<open>A pass keeps packets valid and only narrows them; its reports are valid reports.\<close>

definition packets_follow :: "'d apd_lib \<Rightarrow> ContextPacket list \<Rightarrow> ContextPacket list \<Rightarrow> bool" where
  "packets_follow L qs ps \<longleftrightarrow> packets_ok L qs \<and> list_all2 narrower qs ps"

lemma packets_follow_refl: "packets_ok L ps \<Longrightarrow> packets_follow L ps ps"
  by (simp add: packets_follow_def narrower_list_refl)

lemma packets_follow_trans: "packets_follow L rs qs \<Longrightarrow> packets_follow L qs ps \<Longrightarrow> packets_follow L rs ps"
  unfolding packets_follow_def using narrower_list_trans by blast

lemma packets_follow_drop: "packets_ok L ps \<Longrightarrow> packets_follow L (map (drop_claims rejected) ps) ps"
  and packets_follow_restrict: "packets_ok L ps \<Longrightarrow> packets_follow L (map (restrict_claims approved) ps) ps"
  by (auto simp: packets_follow_def packets_ok_def packet_ok_drop packet_ok_restrict_claims
      intro!: narrower_map drop_claims_narrower restrict_claims_narrower)

lemma narrow_pass_cases:
  assumes "packets_ok L ps"
  shows "narrow_pass L step ps report = Decides (review_emission step ''repair_unresolved'' report) [report] ps \<or>
    narrow_pass L step ps report = Continues (review_emission step ''narrowed'' report)
      (map (drop_claims (rejected_claims report)) ps)"
  using assms by (auto simp: narrow_pass_def narrowContextPackets_eq packets_ok_def)

lemma review_pass_follows:
  assumes "packets_ok L ps" and "report_ok request step report"
  shows "case review_pass L step final ps report of
      Decides e reports qs \<Rightarrow> packets_follow L qs ps \<and> hd reports = report \<and> reports \<noteq> [] \<and>
        length reports \<le> 2 \<and> (\<forall>r \<in> set reports. report_ok request step r)
    | Continues e qs \<Rightarrow> packets_follow L qs ps \<and> \<not> final"
proof (cases "if final \<and> cp_decision report \<noteq> CritiqueApprove \<and> cp_decision report \<noteq> CritiqueReject
    then closeExplicitlyApprovedSubset L ps report else None")
  case None
  have "packets_follow L ps ps" using assms(1) by (rule packets_follow_refl)
  with None assms narrow_pass_cases [OF assms(1), of step report] packets_follow_drop [OF assms(1)]
  show ?thesis by (auto simp: review_pass_def Let_def)
next
  case (Some r)
  then have "r = (map (restrict_claims (cp_approved_claims report)) ps, approval_of report)"
    and "ValidateCritiqueReport (approval_of report) = None"
    using closeExplicitlyApprovedSubset_eq [of ps L report] assms(1)
    by (auto simp: packets_ok_def split: if_splits)
  moreover have "report_ok request step (approval_of report)"
    using assms(2) calculation(2) by (simp add: report_ok_def approval_of_def)
  ultimately show ?thesis
    using Some assms packets_follow_restrict [OF assms(1)] by (simp add: review_pass_def Let_def)
qed

lemma review_passes_follow:
  assumes "packets_ok (rt_decimal runtime) working"
    and "snd (review_passes runtime request plan step left pass working history context) = Inr (reports, packets)"
  shows "packets_follow (rt_decimal runtime) packets working \<and>
    (\<exists>new. reports = history @ new \<and> new \<noteq> [] \<and> length new \<le> left + 1 \<and>
       (\<forall>r \<in> set new. report_ok request step r))"
  using assms
proof (induction left arbitrary: pass working history "context")
  case (Suc left)
  let ?L = "rt_decimal runtime"
  obtain report where report: "reviewed runtime request plan step working context pass = Inr report"
    using Suc.prems(2) by (auto split: sum.splits)
  then have ok: "report_ok request step report" using reviewed_ok by blast
  note follows = review_pass_follows [OF Suc.prems(1) ok, of "pass = pl_max_repair_passes plan"]
  show ?case
  proof (cases "review_pass ?L step (pass = pl_max_repair_passes plan) working report")
    case (Decides e rs qs)
    with Suc.prems(2) report follows show ?thesis by auto
  next
    case (Continues e qs)
    with follows have qs: "packets_follow ?L qs working" by simp
    then have "packets_ok ?L qs" by (simp add: packets_follow_def)
    moreover have "snd (review_passes runtime request plan step left (pass + 1) qs (history @ [report])
        (context @ [report])) = Inr (reports, packets)"
      using Suc.prems(2) report Continues by (simp add: prepend_emission_def)
    ultimately obtain new where new: "packets_follow ?L packets qs" "reports = (history @ [report]) @ new"
      "new \<noteq> []" "length new \<le> left + 1" "\<forall>r \<in> set new. report_ok request step r"
      using Suc.IH by blast
    with ok packets_follow_trans [OF new(1) qs] show ?thesis
      by (intro conjI exI [of _ "report # new"]) auto
  qed
qed simp

text \<open>The budget of passes is never exhausted: the last pass always decides.\<close>

lemma review_passes_enough:
  assumes "packets_ok (rt_decimal runtime) working" and "pass \<le> pl_max_repair_passes plan"
    and "left = nat (pl_max_repair_passes plan - pass + 1)"
  shows "review_passes runtime request plan step (left + extra) pass working history context =
    review_passes runtime request plan step left pass working history context"
  using assms
proof (induction left arbitrary: pass working history "context")
  case (Suc left)
  let ?L = "rt_decimal runtime"
  show ?case
  proof (cases "reviewed runtime request plan step working context pass")
    case (Inr report)
    then have ok: "report_ok request step report" using reviewed_ok by blast
    note follows = review_pass_follows [OF Suc.prems(1) ok, of "pass = pl_max_repair_passes plan"]
    show ?thesis
    proof (cases "review_pass ?L step (pass = pl_max_repair_passes plan) working report")
      case (Continues e qs)
      with follows have qs: "packets_ok ?L qs" "pass \<noteq> pl_max_repair_passes plan"
        by (simp_all add: packets_follow_def)
      with Suc.prems have "pass + 1 \<le> pl_max_repair_passes plan"
        "left = nat (pl_max_repair_passes plan - (pass + 1) + 1)" by linarith+
      note IH = Suc.IH [OF qs(1) this, of "history @ [report]" "context @ [report]"]
      show ?thesis by (simp only: add_Suc review_passes.simps Inr sum.case Continues review_step.case IH)
    qed (simp add: Inr)
  qed simp
qed simp

end
