(* ===== verification/Planner_Laws.thy ===== *)
theory Planner_Laws
  imports Planner
begin

text \<open>
  What \<open>Build\<close> guarantees of a plan: how its steps are numbered and linked, that both
  review gates are present and wait for every specialist, and that with the default builder
  the only refusals are an invalid request and a request that needs clarification.
\<close>

abbreviation context_id :: "nat \<Rightarrow> string" where "context_id k \<equiv> ''context-'' @ fmt_02d (k + 1)"
abbreviation review_id :: "nat \<Rightarrow> string" where "review_id k \<equiv> ''review-'' @ fmt_02d (k + 1)"

definition registered :: "Builder \<Rightarrow> string \<Rightarrow> Role" where
  "registered builder roleID = the (GetRole (bd_roles builder) roleID)"

section \<open>What the numbering loops build\<close>

definition planned_context :: "Builder \<Rightarrow> string list \<Rightarrow> nat \<times> string \<Rightarrow> PlanStep" where
  "planned_context builder operations = (\<lambda>(k, roleID).
     context_step builder operations (map context_id [0..<k + 1]) k roleID (registered builder roleID))"

definition planned_review :: "Builder \<Rightarrow> nat \<Rightarrow> nat \<times> string \<Rightarrow> PlanStep" where
  "planned_review builder n = (\<lambda>(k, roleID).
     review_step builder (map context_id [0..<n]) (map review_id [0..<k + 1]) k roleID
       (registered builder roleID))"

lemma context_steps_Inr:
  "context_steps builder operations i (map context_id [0..<i]) steps roleIDs = Inr (ids, out) \<longleftrightarrow>
     (\<forall>r \<in> set roleIDs. GetRole (bd_roles builder) r \<noteq> None) \<and>
     ids = map context_id [0..<i + length roleIDs] \<and>
     out = steps @ map (planned_context builder operations) (enumerate i roleIDs)"
proof (induction roleIDs arbitrary: i steps)
  case (Cons r roleIDs)
  show ?case
  proof (cases "GetRole (bd_roles builder) r")
    case (Some role)
    have "map context_id [0..<i] @ [context_id i] = map context_id [0..<i + 1]" by simp
    with Some show ?thesis
      using Cons.IH [of "i + 1"]
      by (auto simp: Let_def planned_context_def registered_def simp del: upt_Suc)
  qed simp
qed auto

lemma review_steps_Inr:
  "review_steps builder (map context_id [0..<n]) i (map review_id [0..<i]) steps roleIDs = Inr (ids, out) \<longleftrightarrow>
     (\<forall>r \<in> set roleIDs. \<exists>role. GetRole (bd_roles builder) r = Some role \<and> rl_class role = ClassReview) \<and>
     ids = map review_id [0..<i + length roleIDs] \<and>
     out = steps @ map (planned_review builder n) (enumerate i roleIDs)"
proof (induction roleIDs arbitrary: i steps)
  case (Cons r roleIDs)
  show ?case
  proof (cases "GetRole (bd_roles builder) r")
    case (Some role)
    have "map review_id [0..<i] @ [review_id i] = map review_id [0..<i + 1]" by simp
    with Some show ?thesis
      using Cons.IH [of "i + 1"]
      by (auto simp: Let_def planned_review_def registered_def simp del: upt_Suc)
  qed simp
qed auto

lemma classify_roles_Inr:
  "classify_roles registry cs rs ids = Inr (cs', rs') \<longleftrightarrow>
     (\<forall>r \<in> set ids. GetRole registry r \<noteq> None) \<and>
     cs' = cs @ filter (\<lambda>r. rl_class (the (GetRole registry r)) \<noteq> ClassReview) ids \<and>
     rs' = foldl append_unique rs (filter (\<lambda>r. rl_class (the (GetRole registry r)) = ClassReview) ids)"
  by (induction ids arbitrary: cs rs) (auto split: option.splits)

section \<open>The shape of a plan\<close>

definition planned_steps :: "Builder \<Rightarrow> string list \<Rightarrow> string list \<Rightarrow> string list \<Rightarrow> PlanStep list" where
  "planned_steps builder operations contextRoles reviewRoles =
     map (planned_context builder operations) (enumerate 0 contextRoles) @
     map (planned_review builder (length contextRoles)) (enumerate 0 reviewRoles) @
     [synthesis_step builder (map context_id [0..<length contextRoles])
        (map review_id [0..<length reviewRoles])]"

lemma foldl_append_unique_prefix: "\<exists>zs. foldl append_unique xs ys = xs @ zs"
proof (induction ys arbitrary: xs)
  case (Cons y ys)
  then show ?case using append_unique_prefix [of xs y] by (metis append_assoc foldl_Cons)
qed simp

lemmas steps_from_zero =
  context_steps_Inr [where i = 0, unfolded upt_0 upt_conv_Nil [OF order_refl] list.map(1) add_0]
  review_steps_Inr [where i = 0, unfolded upt_0 upt_conv_Nil [OF order_refl] list.map(1) add_0]

lemma build_steps_Inr:
  "build_steps builder request contextRoles reviewRoles = Inr plan \<longleftrightarrow>
     (\<forall>r \<in> set contextRoles. GetRole (bd_roles builder) r \<noteq> None) \<and>
     (\<forall>r \<in> set reviewRoles. \<exists>role. GetRole (bd_roles builder) r = Some role \<and> rl_class role = ClassReview) \<and>
     plan = assemble_plan builder request
       (planned_steps builder (detectOperations (rq_user_text request)) contextRoles reviewRoles) \<and>
     plan_ok plan"
proof -
  have "build_steps builder request contextRoles reviewRoles = Inr plan \<longleftrightarrow>
     (\<exists>ids out. context_steps builder (detectOperations (rq_user_text request)) 0 [] [] contextRoles = Inr (ids, out) \<and>
       (\<exists>rids out'. review_steps builder ids 0 [] out reviewRoles = Inr (rids, out') \<and>
          ValidateResearchPlan plan = None \<and>
          plan = assemble_plan builder request (out' @ [synthesis_step builder ids rids])))"
    by (auto simp: build_steps_def Let_def)
  also have "\<dots> \<longleftrightarrow> (\<forall>r \<in> set contextRoles. GetRole (bd_roles builder) r \<noteq> None) \<and>
     (\<exists>rids out'. review_steps builder (map context_id [0..<length contextRoles]) 0 []
           (map (planned_context builder (detectOperations (rq_user_text request))) (enumerate 0 contextRoles))
           reviewRoles = Inr (rids, out') \<and>
          ValidateResearchPlan plan = None \<and>
          plan = assemble_plan builder request
            (out' @ [synthesis_step builder (map context_id [0..<length contextRoles]) rids]))"
    unfolding steps_from_zero(1) append_Nil by blast
  finally show ?thesis
    unfolding steps_from_zero(2) planned_steps_def ValidateResearchPlan_None append_assoc by auto
qed

lemma build_roles_Inr:
  "build_roles builder request intent route = Inr plan \<longleftrightarrow>
     \<not> ru_clarify_first route \<and> rq_ambiguities request = [] \<and>
     (\<exists>cs rs. classify_roles (bd_roles builder) []
         (foldl append_unique [RiskContrarian, EvidenceCritic] (ru_review_roles route))
         (ru_context_roles route) = Inr (cs, rs) \<and>
       length (plan_context_roles request intent cs) \<le> 8 \<and>
       build_steps builder request (plan_context_roles request intent cs) rs = Inr plan)"
  by (auto simp: build_roles_def Let_def not_less split: if_splits)

lemma Build_Inr:
  "Build builder request = Inr plan \<longleftrightarrow>
     ValidateResearchRequest request = None \<and> ValidateIntent (rq_primary_intent request) = None \<and>
     (\<exists>route. PlanRoute (rq_user_text request) (rq_primary_intent request)
         (material_decision request (rq_primary_intent request)) = Inr route \<and>
       build_roles builder request (rq_primary_intent request) route = Inr plan)"
  by (auto simp: Build_def ValidateAndReturnIntent_def)

text \<open>What the later stages rely on: the steps of a plan that was built.\<close>

lemma Build_planned:
  assumes "Build builder request = Inr plan"
  obtains contextRoles reviewRoles zs where
    "reviewRoles = [RiskContrarian, EvidenceCritic] @ zs"
    "plan = assemble_plan builder request
       (planned_steps builder (detectOperations (rq_user_text request)) contextRoles reviewRoles)"
    "plan_ok plan" "length contextRoles \<le> 8"
    "\<exists>cs. contextRoles = plan_context_roles request (rq_primary_intent request) cs"
proof -
  obtain route :: Route and cs rs where classified: "classify_roles (bd_roles builder) []
      (foldl append_unique [RiskContrarian, EvidenceCritic] (ru_review_roles route))
      (ru_context_roles route) = Inr (cs, rs)"
    and size: "length (plan_context_roles request (rq_primary_intent request) cs) \<le> 8"
    and built: "build_steps builder request
      (plan_context_roles request (rq_primary_intent request) cs) rs = Inr plan"
    using assms unfolding Build_Inr build_roles_Inr by auto
  have "\<exists>ys. rs = foldl append_unique [RiskContrarian, EvidenceCritic] ys"
    using classified unfolding classify_roles_Inr by (metis foldl_append)
  then obtain zs where "rs = [RiskContrarian, EvidenceCritic] @ zs"
    using foldl_append_unique_prefix by metis
  with that size built show thesis unfolding build_steps_Inr by blast
qed

section \<open>Gates, dependencies and authority\<close>

lemma set_plan_context_roles:
  "set (plan_context_roles request intent cs) =
     set cs \<union> (if intent = IntentCompanyComparison
                then {FinancialQuality, AccountingReporting, BusinessStrategy} else {}) \<union>
     (\<Union>out \<in> set (rq_requested_outputs request). set (output_authority request [] out))"
proof -
  have one: "set (output_authority request rs out) = set rs \<union> set (output_authority request [] out)"
    for rs out by (simp add: output_authority_def Let_def)
  have "set (foldl (output_authority request) rs outputs) =
      set rs \<union> (\<Union>out \<in> set outputs. set (output_authority request [] out))"
    for rs outputs
  proof (induction outputs arbitrary: rs)
    case (Cons out outputs)
    show ?case by (simp only: foldl_Cons Cons.IH list.set UN_insert one [of rs out] Un_assoc)
  qed simp
  then show ?thesis by (simp add: plan_context_roles_def ensureOutputAuthority_def)
qed

lemma distinct_plan_context_roles:
  assumes "distinct cs"
  shows "distinct (plan_context_roles request intent cs)"
proof -
  have one: "distinct rs \<Longrightarrow> distinct (output_authority request rs out)" for rs out
    by (simp add: output_authority_def Let_def)
  have "distinct rs \<Longrightarrow> distinct (foldl (output_authority request) rs outputs)" for rs outputs
    by (induction outputs arbitrary: rs) (auto simp: one)
  with assms show ?thesis by (simp add: plan_context_roles_def ensureOutputAuthority_def)
qed

lemma planned_fields [simp]:
  "st_step_id (planned_context builder ops (k, r)) = context_id k"
  "st_kind (planned_context builder ops (k, r)) = ''context''"
  "st_wave (planned_context builder ops (k, r)) = int (k div planParallel + 1)"
  "st_role_id (planned_context builder ops (k, r)) = r"
  "st_capability_ids (planned_context builder ops (k, r)) = filter (Authorizes (bd_capabilities builder) r) ops"
  "st_step_id (planned_review builder n (k, r)) = review_id k"
  "st_kind (planned_review builder n (k, r)) = ''review''"
  "st_role_id (planned_review builder n (k, r)) = r"
  "st_capability_ids (planned_review builder n (k, r)) = []"
  "st_step_id (synthesis_step builder cids rids) = ''synthesis-01''"
  "st_kind (synthesis_step builder cids rids) = ''synthesis''"
  "st_role_id (synthesis_step builder cids rids) = FinalResearchAnalyst"
  "st_capability_ids (synthesis_step builder cids rids) = []"
  "st_depends_on (synthesis_step builder cids rids) = (if rids = [] then cids else rids)"
  by (simp_all add: planned_context_def planned_review_def context_step_def review_step_def
      synthesis_step_def Let_def)

lemma planned_context_depends:
  "st_depends_on (planned_context builder ops (k, r)) =
     (if k < planParallel then [] else map context_id [0..<planParallel])"
  by (auto simp: planned_context_def context_step_def Let_def take_map simp del: upt_Suc)

lemma planned_review_depends:
  "st_depends_on (planned_review builder n (k, r)) =
     map context_id [0..<n] @ (if k = 0 then [] else [review_id (k - 1)])"
  by (cases k) (simp_all add: planned_review_def review_step_def nth_append del: upt_Suc)

lemma in_planned_steps:
  "s \<in> set (planned_steps builder ops cs rs) \<longleftrightarrow>
     (\<exists>k < length cs. s = planned_context builder ops (k, cs ! k)) \<or>
     (\<exists>k < length rs. s = planned_review builder (length cs) (k, rs ! k)) \<or>
     s = synthesis_step builder (map context_id [0..<length cs]) (map review_id [0..<length rs])"
  by (auto simp: planned_steps_def in_set_enumerate_eq image_iff simp del: upt_Suc)

text \<open>
  Every plan that is built has both review gates and one synthesis: a risk review and an
  evidence review, each waiting for every specialist step, the evidence review waiting for the
  risk review, and the synthesis step waiting for every review step.
\<close>

lemma gates_of_plan:
  assumes "Build builder request = Inr plan"
  shows "\<exists>risk critic synthesis. {risk, critic, synthesis} \<subseteq> set (pl_steps plan) \<and>
    st_kind risk = ''review'' \<and> st_role_id risk = RiskContrarian \<and>
    st_kind critic = ''review'' \<and> st_role_id critic = EvidenceCritic \<and>
    st_kind synthesis = ''synthesis'' \<and> st_role_id synthesis = FinalResearchAnalyst \<and>
    st_step_id risk \<in> set (st_depends_on critic) \<and>
    (\<forall>s \<in> set (pl_steps plan). st_kind s = ''context'' \<longrightarrow>
       st_step_id s \<in> set (st_depends_on risk) \<inter> set (st_depends_on critic)) \<and>
    (\<forall>s \<in> set (pl_steps plan). st_kind s = ''review'' \<longrightarrow> st_step_id s \<in> set (st_depends_on synthesis))"
proof -
  obtain cs rs zs where rs: "rs = [RiskContrarian, EvidenceCritic] @ zs"
    and plan: "plan = assemble_plan builder request
       (planned_steps builder (detectOperations (rq_user_text request)) cs rs)"
    using assms by (rule Build_planned)
  let ?n = "length cs"
  let ?risk = "planned_review builder ?n (0, RiskContrarian)"
  let ?critic = "planned_review builder ?n (1, EvidenceCritic)"
  let ?synthesis = "synthesis_step builder (map context_id [0..<?n]) (map review_id [0..<length rs])"
  have steps: "pl_steps plan = planned_steps builder (detectOperations (rq_user_text request)) cs rs"
    by (simp add: plan assemble_plan_def)
  have nths: "rs ! 0 = RiskContrarian" "rs ! 1 = EvidenceCritic" "0 < length rs" "1 < length rs"
    by (simp_all add: rs)
  then have "?risk \<in> set (pl_steps plan)" "?critic \<in> set (pl_steps plan)" "?synthesis \<in> set (pl_steps plan)"
    unfolding steps in_planned_steps by metis+
  moreover have "\<forall>s \<in> set (pl_steps plan). st_kind s = ''context'' \<longrightarrow>
       st_step_id s \<in> set (st_depends_on ?risk) \<inter> set (st_depends_on ?critic)"
    unfolding steps Ball_def in_planned_steps planned_review_depends by (auto simp del: upt_Suc)
  moreover have "\<forall>s \<in> set (pl_steps plan). st_kind s = ''review'' \<longrightarrow>
       st_step_id s \<in> set (st_depends_on ?synthesis)"
    unfolding steps Ball_def in_planned_steps using nths(3) by (auto simp del: upt_Suc)
  moreover have "st_step_id ?risk \<in> set (st_depends_on ?critic)"
    by (simp add: planned_review_depends del: upt_Suc)
  ultimately show ?thesis
    by (intro exI [of _ ?risk] exI [of _ ?critic] exI [of _ ?synthesis] conjI) simp_all
qed

text \<open>
  A plan gives a step only the operations the question asks for and the capability registry
  authorizes for the step's role, and every role that a requested output needs has a specialist
  step.
\<close>

lemma authority_of_plan:
  assumes "Build builder request = Inr plan"
  shows "(\<forall>s \<in> set (pl_steps plan). \<forall>c \<in> set (st_capability_ids s).
        Authorizes (bd_capabilities builder) (st_role_id s) c \<and>
        c \<in> set (detectOperations (rq_user_text request))) \<and>
    (\<forall>out \<in> set (rq_requested_outputs request). \<forall>r \<in> set (output_authority request [] out).
        \<exists>s \<in> set (pl_steps plan). st_kind s = ''context'' \<and> st_role_id s = r)"
proof -
  obtain cs rs zs cs0 where plan: "plan = assemble_plan builder request
       (planned_steps builder (detectOperations (rq_user_text request)) cs rs)"
    and cs: "cs = plan_context_roles request (rq_primary_intent request) cs0"
    using assms by (rule Build_planned) blast
  have steps: "pl_steps plan = planned_steps builder (detectOperations (rq_user_text request)) cs rs"
    by (simp add: plan assemble_plan_def)
  have "\<exists>s \<in> set (pl_steps plan). st_kind s = ''context'' \<and> st_role_id s = r" if "r \<in> set cs" for r
  proof -
    from that obtain k where "k < length cs" "cs ! k = r" by (auto simp: in_set_conv_nth)
    then show ?thesis unfolding steps Bex_def in_planned_steps by (metis planned_fields(2,4))
  qed
  moreover have "\<forall>s \<in> set (pl_steps plan). \<forall>c \<in> set (st_capability_ids s).
        Authorizes (bd_capabilities builder) (st_role_id s) c \<and>
        c \<in> set (detectOperations (rq_user_text request))"
    unfolding steps Ball_def in_planned_steps by auto
  ultimately show ?thesis by (auto simp: cs set_plan_context_roles)
qed

section \<open>The default builder refuses nothing else\<close>

text \<open>Steps that only depend on earlier steps have no dependency cycle.\<close>

fun deps_before :: "string set \<Rightarrow> PlanStep list \<Rightarrow> bool" where
  "deps_before seen [] = True"
| "deps_before seen (s # steps) =
     (set (st_depends_on s) \<subseteq> seen \<and> deps_before (insert (st_step_id s) seen) steps)"

lemma deps_before_append:
  "deps_before seen (xs @ ys) \<longleftrightarrow> deps_before seen xs \<and> deps_before (st_step_id ` set xs \<union> seen) ys"
  by (induction xs arbitrary: seen) auto

lemma deps_before_mono: "deps_before seen xs \<Longrightarrow> seen \<subseteq> seen' \<Longrightarrow> deps_before seen' xs"
  by (induction xs arbitrary: seen seen') (auto, meson insert_mono subset_trans)

lemma deps_before_known:
  "deps_before {} (xs @ s # ys) \<Longrightarrow> set (st_depends_on s) \<subseteq> st_step_id ` set xs"
  by (auto simp: deps_before_append)

lemma deps_before_acyclic:
  assumes "deps_before {} steps" and "distinct (map st_step_id steps)"
  shows "acyclic (depends_on steps)"
proof (rule acyclicI_order [where f = "\<lambda>x. LEAST k. k < length steps \<and> st_step_id (steps ! k) = x"])
  have least: "(LEAST k. k < length steps \<and> st_step_id (steps ! k) = st_step_id (steps ! j)) = j"
    if "j < length steps" for j
    using assms(2) that
    by (intro Least_equality) (metis length_map nth_eq_iff_index_eq nth_map order_refl)+
  fix x y
  assume "(x, y) \<in> depends_on steps"
  then obtain s where s: "index_by st_step_id steps x = Some s" "y \<in> set (st_depends_on s)"
    by (cases "index_by st_step_id steps x") (simp_all add: depends_on_def plan_deps_def)
  from index_by_Some [OF s(1)] obtain i where i: "i < length steps" "steps ! i = s" "st_step_id s = x"
    by (auto simp: in_set_conv_nth)
  have "steps = take i steps @ s # drop (Suc i) steps" using id_take_nth_drop [OF i(1)] i(2) by simp
  with assms(1) deps_before_known have "set (st_depends_on s) \<subseteq> st_step_id ` set (take i steps)" by metis
  with s(2) have "y \<in> st_step_id ` set (take i steps)" by blast
  then obtain j where j: "j < i" "st_step_id (steps ! j) = y"
    using i(1) by (auto simp: in_set_conv_nth)
  show "(LEAST k. k < length steps \<and> st_step_id (steps ! k) = y)
      < (LEAST k. k < length steps \<and> st_step_id (steps ! k) = x)"
    using least [of i] least [of j] i j by auto
qed

lemma planned_ids:
  "map st_step_id (map (planned_context builder ops) (enumerate 0 cs)) = map context_id [0..<length cs]"
  "map st_step_id (map (planned_review builder n) (enumerate 0 rs)) = map review_id [0..<length rs]"
  by (auto intro!: nth_equalityI simp: nth_enumerate_eq simp del: upt_Suc)

lemma planned_deps_before:
  assumes "rs \<noteq> []"
  shows "deps_before {} (planned_steps builder ops cs rs)"
proof -
  have ctx: "deps_before seen (map (planned_context builder ops) (enumerate i xs))"
    if "\<forall>k < i. context_id k \<in> seen" for i seen xs
    using that
  proof (induction xs arbitrary: i seen)
    case (Cons x xs)
    have "\<forall>k < Suc i. context_id k \<in> insert (context_id i) seen"
      using Cons.prems by (auto simp: less_Suc_eq)
    from Cons.IH [OF this] Cons.prems show ?case
      by (auto simp: planned_context_depends simp del: upt_Suc)
  qed simp
  have rev: "deps_before seen (map (planned_review builder n) (enumerate i xs))"
    if "\<forall>k < n. context_id k \<in> seen" "\<forall>k < i. review_id k \<in> seen" for n i seen xs
    using that
  proof (induction xs arbitrary: i seen)
    case (Cons x xs)
    have "\<forall>k < Suc i. review_id k \<in> insert (review_id i) seen"
      using Cons.prems by (auto simp: less_Suc_eq)
    moreover have "\<forall>k < n. context_id k \<in> insert (review_id i) seen" using Cons.prems by auto
    ultimately have "deps_before (insert (review_id i) seen) (map (planned_review builder n) (enumerate (Suc i) xs))"
      by (intro Cons.IH)
    moreover have "k \<noteq> 0 \<Longrightarrow> review_id (k - 1) \<in> seen" if "k = i" for k
      using Cons.prems(2) that by (metis diff_less less_one not_gr_zero)
    ultimately show ?case
      using Cons.prems(1) by (auto simp: planned_review_depends simp del: upt_Suc)
  qed simp
  have ids: "st_step_id ` set (map (planned_context builder ops) (enumerate 0 cs)) = set (map context_id [0..<length cs])"
    "st_step_id ` set (map (planned_review builder n) (enumerate 0 rs)) = set (map review_id [0..<length rs])" for n
    by (simp_all only: planned_ids set_map [symmetric])
  show ?thesis
    using assms unfolding planned_steps_def deps_before_append ids
    by (auto intro!: ctx rev simp del: upt_Suc)
qed

lemma planned_ids_distinct:
  "distinct (map st_step_id (planned_steps builder ops cs rs))"
  unfolding planned_steps_def map_append planned_ids
  by (auto simp: distinct_map inj_on_def simp del: upt_Suc)

lemma default_role:
  assumes "r \<in> set contextRoleIDs"
  shows "\<exists>role. GetRole defaultRoles r = Some role \<and> rl_class role = ClassContext \<and>
    rl_mission role \<noteq> [] \<and> rl_context_budget_tokens role = 5000 \<and> rl_timeout_ms role = 30000"
proof -
  have "list_all (\<lambda>r. case GetRole defaultRoles r of None \<Rightarrow> False | Some role \<Rightarrow>
      rl_class role = ClassContext \<and> rl_mission role \<noteq> [] \<and>
      rl_context_budget_tokens role = 5000 \<and> rl_timeout_ms role = 30000) contextRoleIDs"
    by code_simp
  with assms show ?thesis unfolding list_all_iff by (auto split: option.splits)
qed

lemma default_review:
  assumes "r \<in> {RiskContrarian, EvidenceCritic}"
  shows "\<exists>role. GetRole defaultRoles r = Some role \<and> rl_class role = ClassReview \<and>
    rl_mission role \<noteq> [] \<and> rl_context_budget_tokens role = 4000 \<and> rl_timeout_ms role = 25000"
proof -
  have "list_all (\<lambda>r. case GetRole defaultRoles r of None \<Rightarrow> False | Some role \<Rightarrow>
      rl_class role = ClassReview \<and> rl_mission role \<noteq> [] \<and>
      rl_context_budget_tokens role = 4000 \<and> rl_timeout_ms role = 25000) [RiskContrarian, EvidenceCritic]"
    by code_simp
  with assms show ?thesis unfolding list_all_iff by (auto split: option.splits)
qed

lemma default_final:
  "\<exists>role. GetRole defaultRoles FinalResearchAnalyst = Some role \<and>
    rl_mission role \<noteq> [] \<and> rl_context_budget_tokens role = 7000 \<and> rl_timeout_ms role = 30000"
proof -
  have "case GetRole defaultRoles FinalResearchAnalyst of None \<Rightarrow> False | Some role \<Rightarrow>
      rl_mission role \<noteq> [] \<and> rl_context_budget_tokens role = 7000 \<and> rl_timeout_ms role = 30000"
    by code_simp
  then show ?thesis by (auto split: option.splits)
qed

lemma PlanRoute_default_roles:
  assumes "PlanRoute question intent m = Inr route"
  shows "classify_roles defaultRoles []
      (foldl append_unique [RiskContrarian, EvidenceCritic] (ru_review_roles route)) (ru_context_roles route) =
    Inr (ru_context_roles route, [RiskContrarian, EvidenceCritic])"
proof -
  have ok: "route_ok route" using assms by (rule PlanRoute_ok)
  have "foldl append_unique xs ys = xs" if "set ys \<subseteq> set xs" for xs ys :: "string list"
    using that by (induction ys) (auto simp: append_unique_def)
  then have reviews: "foldl append_unique [RiskContrarian, EvidenceCritic] (ru_review_roles route) =
      [RiskContrarian, EvidenceCritic]"
    using ok unfolding route_ok_def by auto
  have "\<forall>r \<in> set (ru_context_roles route). \<exists>role. GetRole defaultRoles r = Some role \<and> rl_class role = ClassContext"
    using ok default_role unfolding route_ok_def by blast
  then have "\<forall>r \<in> set (ru_context_roles route). GetRole defaultRoles r \<noteq> None \<and>
      rl_class (the (GetRole defaultRoles r)) \<noteq> ClassReview"
    by fastforce
  then show ?thesis
    unfolding reviews classify_roles_Inr by (auto simp: filter_empty_conv intro!: filter_True [symmetric])
qed

lemma letters_not_blank: "c \<in> set ''aefmsvcp'' \<Longrightarrow> \<not> blank (c # s)"
proof (rule not_blank_Cons)
  have "list_all (\<lambda>c. list_all (\<lambda>p. hd p \<noteq> c) space_runes) ''aefmsvcp''" by code_simp
  then show "c \<in> set ''aefmsvcp'' \<Longrightarrow> list_all (\<lambda>p. hd p \<noteq> c) space_runes"
    unfolding list_all_iff by blast
qed

lemma tier0_authorized_not_blank:
  assumes "Authorizes tier0Operations roleID c"
  shows "\<not> blank c"
proof -
  have "list_all (\<lambda>id. id \<noteq> [] \<and> hd id \<in> set ''aefmsvc'') (map op_operation_id tier0Operations)"
    unfolding tier0_ids by simp
  then have all: "list_all (\<lambda>x. \<not> blank (op_operation_id x)) tier0Operations"
    using letters_not_blank by (auto simp: list_all_iff neq_Nil_conv)
  obtain x where x: "index_by op_operation_id tier0Operations c = Some x"
    using assms by (auto simp: Authorizes_def GetOperation_def split: option.splits)
  from all index_by_Some [OF x] show ?thesis unfolding list_all_iff by blast
qed

lemma distinct_detectOperations: "distinct (detectOperations question)"
proof -
  have rules: "distinct (foldl (\<lambda>result (terms, operation). if f terms then append_unique result operation else result) xs rules)"
    if "distinct xs" for f and xs :: "string list" and rules :: "(string list \<times> string) list"
    using that by (induction rules arbitrary: xs) auto
  have add: "distinct (if c then foldl append_unique xs ys else xs)"
    "distinct (if c then append_unique xs y else xs)"
    "distinct (if c then append_unique (append_unique xs y) z else xs)"
    if "distinct xs" for c and xs ys :: "string list" and y z
    using that by (simp_all add: foldl_append_unique(2))
  show ?thesis unfolding detectOperations_def Let_def by (intro rules add distinct.simps(1) [THEN iffD2] TrueI)
qed

text \<open>The builder that \<open>Default\<close> returns.\<close>

definition default_builder :: Builder where
  "default_builder = \<lparr>bd_roles = defaultRoles, bd_capabilities = tier0Operations, bd_deadline_ms = 90000,
     bd_context_timeout_ms = 0, bd_review_timeout_ms = 0, bd_synthesis_timeout_ms = 0\<rparr>"

lemma DefaultBuilder_eq: "DefaultBuilder = Inr default_builder"
  by (simp add: DefaultBuilder_def default_builder_def DefaultRegistry_eq Tier0Registry_eq)

lemma default_steps_ok:
  assumes cs: "set cs \<subseteq> set contextRoleIDs" and size: "length cs \<le> 8"
    and s: "s \<in> set (planned_steps default_builder (detectOperations question) cs [RiskContrarian, EvidenceCritic])"
  shows "step_ok (assemble_plan default_builder request steps) s"
proof -
  from s consider (specialist) k where "k < length cs" "s = planned_context default_builder (detectOperations question) (k, cs ! k)"
    | (review) k where "k < length [RiskContrarian, EvidenceCritic]"
      "s = planned_review default_builder (length cs) (k, [RiskContrarian, EvidenceCritic] ! k)"
    | (synthesis) cids rids where "s = synthesis_step default_builder cids rids"
    unfolding in_planned_steps by blast
  then show ?thesis
  proof cases
    case specialist
    with cs have "cs ! k \<in> set contextRoleIDs" by (meson nth_mem subsetD)
    from default_role [OF this] obtain role where role: "GetRole defaultRoles (cs ! k) = Some role"
      "rl_mission role \<noteq> []" "rl_context_budget_tokens role = 5000" "rl_timeout_ms role = 30000" by blast
    have "cs ! k \<noteq> []" using \<open>cs ! k \<in> set contextRoleIDs\<close> by auto
    moreover have "int (k div 4) \<le> 1" using specialist(1) size by linarith
    moreover have "\<forall>c \<in> set (st_capability_ids s). \<not> blank c" and "distinct (st_capability_ids s)"
      using tier0_authorized_not_blank distinct_detectOperations [of question]
      by (auto simp: specialist(2) default_builder_def simp del: list.set(2))
    ultimately show ?thesis
      using role by (simp add: step_ok_def specialist(2) planned_context_def context_step_def Let_def
          registered_def default_builder_def assemble_plan_def configuredTimeout_def effectiveWave_def)
  next
    case review
    let ?r = "[RiskContrarian, EvidenceCritic] ! k"
    have r: "?r \<in> {RiskContrarian, EvidenceCritic}" using nth_mem [OF review(1)] by (simp only: list.set)
    from default_review [OF r] obtain role where role: "GetRole defaultRoles ?r = Some role"
      "rl_mission role \<noteq> []" "rl_context_budget_tokens role = 4000" "rl_timeout_ms role = 25000" by blast
    have "?r \<noteq> []" using r by auto
    with role show ?thesis
      by (simp add: step_ok_def review(2) planned_review_def review_step_def registered_def
          default_builder_def assemble_plan_def configuredTimeout_def)
  next
    case synthesis
    obtain role where role: "GetRole defaultRoles FinalResearchAnalyst = Some role"
      "rl_mission role \<noteq> []" "rl_context_budget_tokens role = 7000" "rl_timeout_ms role = 30000"
      using default_final by blast
    then show ?thesis
      by (simp add: step_ok_def synthesis synthesis_step_def Let_def
          default_builder_def assemble_plan_def configuredTimeout_def)
  qed
qed

lemma default_plan_ok:
  assumes cs: "set cs \<subseteq> set contextRoleIDs" and "distinct cs"
    and request: "validateEnvelope SchemaVersionV1 (rq_request_id request) (rq_run_id request) = None"
  shows "plan_ok (assemble_plan default_builder request
    (planned_steps default_builder (detectOperations question) cs [RiskContrarian, EvidenceCritic]))"
    (is "plan_ok (assemble_plan _ _ ?steps)")
proof -
  have size: "length cs \<le> 6"
    using card_mono [OF _ cs] distinct_card [OF assms(2)] by simp
  then have "length cs \<le> 8" by simp
  have ids: "distinct (map st_step_id ?steps)" by (rule planned_ids_distinct)
  have before: "deps_before {} ?steps" by (intro planned_deps_before) simp
  have steps: "\<forall>s \<in> set ?steps. step_ok (assemble_plan default_builder request ?steps) s"
    using default_steps_ok [OF cs \<open>length cs \<le> 8\<close>] by blast
  have context_only: "steps_of_kind ''context'' ?steps =
      map (planned_context default_builder (detectOperations question)) (enumerate 0 cs)"
    and "length (steps_of_kind ''synthesis'' ?steps) = 1"
    unfolding planned_steps_def
    by (auto simp: filter_empty_conv in_set_enumerate_eq simp del: upt_Suc intro!: filter_True)
  moreover have waves: "context_waves ?steps = map (\<lambda>k. int (k div 4 + 1)) [0..<length cs]"
    unfolding context_only
    by (auto intro!: nth_equalityI simp: nth_enumerate_eq effectiveWave_def simp del: upt_Suc)
  have "int (count_list (context_waves ?steps) w) \<le> 4" for w
  proof -
    have "count_list (context_waves ?steps) w = card {k. k < length cs \<and> int (k div 4 + 1) = w}"
      unfolding waves count_list_eq_length_filter length_filter_conv_card
      by (intro arg_cong [where f = card]) auto
    also have "\<dots> \<le> card (if w = 1 then {0..<4} else {4..<6 :: nat})"
      using size by (intro card_mono) auto
    finally show ?thesis by (auto split: if_splits)
  qed
  moreover have "\<exists>s' \<in> set ?steps. st_step_id s' = d \<and>
      (st_kind s = ''context'' \<and> st_kind s' = ''context'' \<longrightarrow>
         effectiveWave (st_wave s') < effectiveWave (st_wave s))"
    if s: "s \<in> set ?steps" and d: "d \<in> set (st_depends_on s)" for s d
  proof (cases "st_kind s = ''context''")
    case True
    with s obtain k where k: "k < length cs"
      "s = planned_context default_builder (detectOperations question) (k, cs ! k)"
      unfolding in_planned_steps by auto
    with d obtain j where j: "j < 4" "d = context_id j" "4 \<le> k"
      by (auto simp: planned_context_depends split: if_splits simp del: upt_Suc)
    let ?t = "planned_context default_builder (detectOperations question) (j, cs ! j)"
    have "?t \<in> set ?steps" unfolding in_planned_steps using j k by (metis less_le_trans less_trans)
    moreover have "j div 4 < k div 4" using j by (simp add: div_greater_zero_iff)
    ultimately show ?thesis using j k(2) by (intro bexI [of _ ?t]) (auto simp: effectiveWave_def)
  next
    case False
    obtain xs ys where split: "?steps = xs @ s # ys" using s by (meson split_list)
    then have "set (st_depends_on s) \<subseteq> st_step_id ` set xs" using before deps_before_known by metis
    with d False split show ?thesis by auto
  qed
  moreover have "acyclic (depends_on ?steps)" using before ids by (rule deps_before_acyclic)
  ultimately show ?thesis
    using request ids steps \<open>length cs \<le> 8\<close>
    unfolding plan_ok_def
    by (simp add: assemble_plan_def default_builder_def validateEnvelope_None context_only
        letters_not_blank not_blank_not_Nil)
qed

definition needs_clarification :: "ResearchRequest \<Rightarrow> bool" where
  "needs_clarification request \<longleftrightarrow> rq_ambiguities request \<noteq> [] \<or>
     (\<not> containsAny (to_lower (rq_user_text request)) [''microsoft'', ''nvidia''] \<and>
      containsAny (to_lower (rq_user_text request))
        [''this company'', ''this stock'', ''the share price'', ''my thesis''])"

lemma PlanRoute_clarify:
  assumes "PlanRoute question intent m = Inr route"
  shows "ru_clarify_first route \<longleftrightarrow>
    \<not> containsAny (to_lower question) [''microsoft'', ''nvidia''] \<and>
    containsAny (to_lower question) [''this company'', ''this stock'', ''the share price'', ''my thesis'']"
proof -
  have refine: "ru_clarify_first (refine_route c role code r) = ru_clarify_first r" for c role code r
    by (simp add: refine_route_def)
  show ?thesis using assms unfolding PlanRoute_def Let_def res_bind_Inr sum.inject
    by (elim exE conjE) (hypsubst, simp add: refine)
qed

text \<open>
  For a valid request the default builder fails in exactly one way: it asks for
  clarification if and only if the request names ambiguities or leaves its company open, and
  returns a valid plan otherwise, never an error of its own.
\<close>

lemma default_plan_total:
  assumes "ValidateResearchRequest request = None"
  shows "if needs_clarification request
    then res_bind DefaultBuilder (\<lambda>b. Build b request) = Inl ErrClarificationRequired
    else \<exists>plan. res_bind DefaultBuilder (\<lambda>b. Build b request) = Inr plan \<and>
      ValidateResearchPlan plan = None \<and> pl_run_id plan = rq_run_id request \<and>
      pl_request_id plan = rq_request_id request"
proof -
  let ?intent = "rq_primary_intent request"
  have intent: "ValidateIntent ?intent = None"
    and envelope: "validateEnvelope SchemaVersionV1 (rq_request_id request) (rq_run_id request) = None"
    using assms by (simp_all add: ValidateResearchRequest_def ValidateIntent_None validResearchIntents_def
        taxonomy_intents validateEnvelope_None)
  obtain route where route: "PlanRoute (rq_user_text request) ?intent (material_decision request ?intent) = Inr route"
    using PlanRoute_total [OF intent] by blast
  have build: "Build default_builder request = build_roles default_builder request ?intent route"
    using assms intent route by (simp add: Build_def check_then_def ValidateAndReturnIntent_def)
  show ?thesis
  proof (cases "needs_clarification request")
    case True
    then have "ru_clarify_first route \<or> rq_ambiguities request \<noteq> []"
      using PlanRoute_clarify [OF route] unfolding needs_clarification_def by blast
    with True show ?thesis by (simp add: DefaultBuilder_eq build build_roles_def)
  next
    case False
    have ok: "route_ok route" using route by (rule PlanRoute_ok)
    let ?cs = "plan_context_roles request ?intent (ru_context_roles route)"
    have one: "set (output_authority request [] out) \<subseteq> set contextRoleIDs" for out
      by (cases "out = ''scenarios''")
        (simp_all add: output_authority_def Let_def subset_iff imp_disjL all_conj_distrib)
    have sub: "set ?cs \<subseteq> set contextRoleIDs"
      using ok one unfolding set_plan_context_roles route_ok_def by (simp add: UN_subset_iff)
    have dist: "distinct ?cs"
      using ok unfolding route_ok_def by (intro distinct_plan_context_roles) simp
    have plan: "plan_ok (assemble_plan default_builder request (planned_steps default_builder
        (detectOperations (rq_user_text request)) ?cs [RiskContrarian, EvidenceCritic]))" (is "plan_ok ?plan")
      by (rule default_plan_ok [OF sub dist envelope])
    have registered: "GetRole (bd_roles default_builder) r \<noteq> None" if "r \<in> set ?cs" for r
      using default_role [of r] subsetD [OF sub that] by (auto simp: default_builder_def simp del: list.set(2))
    have "card (set ?cs) \<le> card (set contextRoleIDs)" using sub by (intro card_mono) simp_all
    then have size: "length ?cs \<le> 8" using distinct_card [OF dist] by simp
    have reviews: "\<exists>role. GetRole (bd_roles default_builder) r = Some role \<and> rl_class role = ClassReview"
      if "r \<in> set [RiskContrarian, EvidenceCritic]" for r
      using default_review [of r] that by (auto simp: default_builder_def)
    have "build_steps default_builder request ?cs [RiskContrarian, EvidenceCritic] = Inr ?plan"
      unfolding build_steps_Inr using plan registered reviews by (intro conjI ballI refl)
    then have "build_roles default_builder request ?intent route = Inr ?plan"
      unfolding build_roles_Inr using PlanRoute_clarify [OF route] False size
      by (intro conjI exI [of _ "ru_context_roles route"] exI [of _ "[RiskContrarian, EvidenceCritic]"])
        (simp_all only: needs_clarification_def default_builder_def Builder.select_convs
          PlanRoute_default_roles [OF route], simp_all)
    with False plan show ?thesis
      by (simp add: DefaultBuilder_eq build ValidateResearchPlan_None assemble_plan_def)
  qed
qed

end
