(* ===== verification/Run_Laws.thy ===== *)
theory Run_Laws
  imports Trace_Laws Context_Laws Review_Laws Planner_Laws
begin

text \<open>
  What a run guarantees from end to end: an answer is released only after every review step
  of the plan approved, from valid packets that carry the authority of the request, and a run
  always returns.
\<close>

section \<open>The review stages\<close>

definition approves :: "ResearchRequest \<Rightarrow> PlanStep \<Rightarrow> CritiqueReport \<Rightarrow> bool" where
  "approves request step report \<longleftrightarrow> report_ok request step report \<and> cp_decision report = CritiqueApprove"

lemma approvals_of_steps:
  "list_all2 (approves request) steps cs \<Longrightarrow> step \<in> set steps \<Longrightarrow> \<exists>c \<in> set cs. approves request step c"
  by (induction rule: list_all2_induct) auto

definition stages_done :: "('d, 'm) Runtime_scheme \<Rightarrow> ResearchRequest \<Rightarrow> PlanStep list \<Rightarrow> run_state \<Rightarrow>
    run_state \<Rightarrow> bool" where
  "stages_done runtime request steps s t \<longleftrightarrow>
     packets_follow (rt_decimal runtime) (rs_packets t) (rs_packets s) \<and>
     (\<exists>cs. rs_approved t = rs_approved s @ cs \<and> list_all2 (approves request) steps cs \<and>
        set cs \<subseteq> set (rs_critiques t)) \<and>
     set (rs_critiques s) \<subseteq> set (rs_critiques t)"

lemma stages_done_refl:
  "packets_ok (rt_decimal runtime) (rs_packets s) \<Longrightarrow> stages_done runtime request [] s s"
  by (simp add: stages_done_def packets_follow_refl)

lemma stages_done_append:
  assumes "stages_done runtime request xs s t" and "stages_done runtime request ys t u"
  shows "stages_done runtime request (xs @ ys) s u"
proof -
  obtain cs ds where cs: "rs_approved t = rs_approved s @ cs" "list_all2 (approves request) xs cs"
      "set cs \<subseteq> set (rs_critiques t)"
    and ds: "rs_approved u = rs_approved t @ ds" "list_all2 (approves request) ys ds"
      "set ds \<subseteq> set (rs_critiques u)"
    using assms unfolding stages_done_def by blast
  have "set (rs_critiques t) \<subseteq> set (rs_critiques u)" using assms(2) by (simp add: stages_done_def)
  with cs ds have "set (cs @ ds) \<subseteq> set (rs_critiques u)" by auto
  moreover have "list_all2 (approves request) (xs @ ys) (cs @ ds)"
    using cs(2) ds(2) by (rule list_all2_appendI)
  moreover have "rs_approved u = rs_approved s @ cs @ ds" using cs(1) ds(1) by simp
  ultimately show ?thesis
    using assms packets_follow_trans unfolding stages_done_def by blast
qed

lemma review_stage_done:
  assumes "packets_ok (rt_decimal runtime) (rs_packets s)"
    and "review_stage runtime request plan step s = Inr t"
  shows "stages_done runtime request [step] s t"
proof -
  obtain emissions result where run: "runReview runtime request plan step (rs_packets s) (rs_critiques s) =
      (emissions, result)" by fastforce
  then obtain reports packets where r: "result = Inr (reports, packets)"
    using assms(2) by (cases result) (auto simp: review_stage_def Let_def)
  have "snd (review_passes runtime request plan step (nat (pl_max_repair_passes plan + 1)) 0 (rs_packets s) []
      (rs_critiques s)) = Inr (reports, packets)"
    using run r by (simp add: runReview_def prepend_emission_def)
  from review_passes_follow [OF assms(1) this]
  have follow: "packets_follow (rt_decimal runtime) packets (rs_packets s)"
    and reports: "reports \<noteq> []" "\<forall>r \<in> set reports. report_ok request step r" by auto
  have t: "cp_decision (last reports) = CritiqueApprove" "rs_packets t = packets"
    "rs_approved t = rs_approved s @ [last reports]" "rs_critiques t = rs_critiques s @ reports"
    using assms(2) run r by (auto simp: review_stage_def Let_def split: if_splits)
  have "approves request step (last reports)" using reports t(1) by (simp add: approves_def)
  with follow reports t show ?thesis by (auto simp: stages_done_def)
qed

lemma stages_done_packets:
  "stages_done runtime request steps s t \<Longrightarrow> packets_ok (rt_decimal runtime) (rs_packets t)"
  by (simp add: stages_done_def packets_follow_def)

lemma review_stages_done:
  assumes "packets_ok (rt_decimal runtime) (rs_packets s)"
    and "review_stages runtime request plan steps s = Inr t"
  shows "stages_done runtime request steps s t"
  using assms
proof (induction steps arbitrary: s)
  case Nil
  then show ?case by (simp add: stages_done_refl)
next
  case (Cons step steps)
  then obtain u where u: "review_stage runtime request plan step s = Inr u"
    "review_stages runtime request plan steps u = Inr t"
    by (auto split: sum.splits)
  note one = review_stage_done [OF Cons.prems(1) u(1)]
  from stages_done_append [OF one Cons.IH [OF stages_done_packets [OF one] u(2)]] show ?case by simp
qed

section \<open>Release\<close>

lemma no_answer_fail [simp]: "res_answer (fst (fail runtime trace stepID code err canRetry)) = None"
  by (simp add: fail_def Let_def)

lemma no_answer_fail_at [simp]: "res_answer (fst (fail_at runtime s stepID code err canRetry)) = None"
  by (simp add: fail_at_def attachPartial_def)

lemma no_answer_review_stages:
  "review_stages runtime request plan steps s = Inl outcome \<Longrightarrow> res_answer (fst outcome) = None"
proof (induction steps arbitrary: s)
  case (Cons step steps)
  show ?case
  proof (cases "review_stage runtime request plan step s")
    case (Inl o')
    obtain emissions result where run: "runReview runtime request plan step (rs_packets s) (rs_critiques s) =
        (emissions, result)" by fastforce
    with Inl have "res_answer (fst o') = None"
      by (cases result) (auto simp: review_stage_def Let_def split: if_splits)
    with Inl Cons.prems show ?thesis by simp
  qed (use Cons in simp)
qed simp

definition released :: "('d, 'm) Runtime_scheme \<Rightarrow> ResearchRequest \<Rightarrow> ResearchPlan \<Rightarrow> run_state \<Rightarrow>
    Result \<Rightarrow> FinalAnswer \<Rightarrow> bool" where
  "released runtime request plan s result answer \<longleftrightarrow>
     res_failure result = None \<and> dep_save (rt_deps runtime) (res_trace result) = None \<and>
     res_packets result = rs_packets s \<and> res_critiques result = rs_critiques s \<and>
     ValidateFinalAnswer answer = None \<and> fa_run_id answer = rq_run_id request \<and>
     fa_request_id answer = rq_request_id request \<and> fa_released_by answer = FinalResearchAnalyst \<and>
     (\<exists>attempt \<in> {0, 1}. dep_synthesizer (rt_deps runtime) \<lparr>sin_request = request, sin_plan = plan,
        sin_packets = rs_packets s, sin_critiques = rs_approved s\<rparr> attempt = Inr answer)"

lemma runSynthesis_ok:
  assumes "runtime_ok runtime" and "runSynthesis runtime request plan step packets critiques = Inr answer"
  shows "ValidateFinalAnswer answer = None \<and> fa_run_id answer = rq_run_id request \<and>
     fa_request_id answer = rq_request_id request \<and> fa_released_by answer = FinalResearchAnalyst \<and>
     (\<exists>attempt \<in> {0, 1}. dep_synthesizer (rt_deps runtime) \<lparr>sin_request = request, sin_plan = plan,
        sin_packets = packets, sin_critiques = critiques\<rparr> attempt = Inr answer)"
proof -
  let ?call = "dep_synthesizer (rt_deps runtime) \<lparr>sin_request = request, sin_plan = plan,
        sin_packets = packets, sin_critiques = critiques\<rparr>"
  let ?n = "attempt_budget (rt_roles runtime) (st_role_id step)"
  have n: "1 \<le> ?n" "?n \<le> 2" using assms(1) attempt_budget_bounds by (auto simp: runtime_ok_def)
  then obtain k where k: "k < ?n" "last (attempts ?call result_error ?n 0) = ?call (0 + k)"
    using attempts_last [of ?n ?call result_error 0] by (metis less_le_trans zero_less_one)
  have "attempts ?call result_error ?n 0 \<noteq> []" using n by (intro attempts_nonempty) simp
  with assms(2) k(2) have "?call k = Inr answer \<and> ValidateFinalAnswer answer = None \<and>
      fa_run_id answer = rq_run_id request \<and> fa_request_id answer = rq_request_id request \<and>
      fa_released_by answer = FinalResearchAnalyst"
    by (auto simp: runSynthesis_def last_result_def split: if_splits)
  moreover have "k \<in> {0, 1}" using k(1) n(2) by auto
  ultimately show ?thesis by blast
qed

lemma synthesis_released:
  assumes "runtime_ok runtime"
    and "res_answer (fst (synthesis_stage runtime request plan synthesisStep s)) = Some answer"
  shows "released runtime request plan s (fst (synthesis_stage runtime request plan synthesisStep s)) answer"
proof (cases synthesisStep)
  case (Some step)
  define t where "t = s\<lparr>rs_trace := trace_emit runtime (rs_trace s)
    [(st_step_id step, ''synthesis'', ''started'', routeAttributes step)]\<rparr>"
  have t: "rs_packets t = rs_packets s" "rs_critiques t = rs_critiques s" "rs_approved t = rs_approved s"
    by (simp_all add: t_def)
  have stage: "synthesis_stage runtime request plan synthesisStep s =
      (case runSynthesis runtime request plan step (rs_packets t) (rs_approved t) of
         Inl err \<Rightarrow> fail_at runtime t (st_step_id step) (classify err) err (retryable err)
       | Inr answer \<Rightarrow> release runtime step t answer)"
    unfolding synthesis_stage_def Some option.case Let_def t_def [symmetric] by (simp only: t)
  show ?thesis
  proof (cases "runSynthesis runtime request plan step (rs_packets t) (rs_approved t)")
    case (Inl err)
    with assms(2) show ?thesis by (simp add: stage)
  next
    case (Inr a)
    let ?trace = "released_trace runtime step t a"
    show ?thesis
    proof (cases "dep_save (rt_deps runtime) ?trace")
      case None
      with assms(2) Inr have "a = answer" by (simp add: stage release_def Let_def)
      with None Inr runSynthesis_ok [OF assms(1) Inr] t show ?thesis
        unfolding released_def by (simp add: stage release_def Let_def)
    next
      case (Some err)
      with assms(2) Inr no_answer_fail_at [of runtime "t\<lparr>rs_trace := ?trace\<rparr>" "''trace''"
          "''trace_persistence_failed''" err False] show ?thesis
        by (cases "fail_at runtime (t\<lparr>rs_trace := ?trace\<rparr>) ''trace'' ''trace_persistence_failed'' err False")
          (simp add: stage release_def Let_def)
    qed
  qed
qed (use assms(2) in \<open>simp add: synthesis_stage_def\<close>)

section \<open>From request to answer\<close>

lemma splitSteps_eq:
  "splitSteps steps = (steps_of_kind ''context'' steps, steps_of_kind ''review'' steps,
     find (\<lambda>s. st_kind s = ''synthesis'') steps)"
  by (induction steps) (auto simp: Let_def)

lemma context_packets_bound:
  assumes "runtime_ok runtime" and "1 \<le> limit"
    and "runContextWaves runtime request steps limit = Some outcome" and "packet \<in> set (wo_packets outcome)"
  shows "\<exists>step \<in> set steps. packet_bound (rt_decimal runtime) (contextRequest request step) packet"
proof -
  obtain o' ran rest where o': "runContextWaves runtime request steps limit = Some o'"
    "wo_packets o' = successes (map (step_outcome runtime request) (steps_of_waves steps ran))"
    using runContextWaves_done [OF assms(2), of runtime request steps] by metis
  with assms(3,4) obtain step where step: "step \<in> set (steps_of_waves steps ran)"
    "step_outcome runtime request step = Inr packet"
    by (auto simp: in_successes)
  then have "step \<in> set steps" by (auto simp: steps_of_waves_def wave_steps_def)
  moreover have "1 \<le> attempt_budget (rt_roles runtime) (st_role_id step)"
    using assms(1) attempt_budget_bounds by (auto simp: runtime_ok_def)
  moreover have "snd (callSpecialist runtime (contextRequest request step) step) = Inr packet"
    using step(2) by (auto simp: step_outcome_def Let_def split: option.splits sum.splits)
  ultimately show ?thesis using callSpecialist_bound by blast
qed

definition context_limit_ok :: "int \<Rightarrow> int \<Rightarrow> bool" where
  "context_limit_ok limit maximum \<longleftrightarrow> 1 \<le> limit \<and> limit \<le> maximum"

lemma context_limit_bounds:
  "plan_ok plan \<Longrightarrow> 1 \<le> context_limit runtime plan \<and> context_limit runtime plan \<le> 4"
  by (auto simp: context_limit_def plan_ok_def)

definition safe_release :: "('d, 'm) Runtime_scheme \<Rightarrow> ResearchRequest \<Rightarrow> ResearchPlan \<Rightarrow> Result \<Rightarrow>
    FinalAnswer \<Rightarrow> bool" where
  "safe_release runtime request plan result answer \<longleftrightarrow>
     res_failure result = None \<and> dep_save (rt_deps runtime) (res_trace result) = None \<and>
     ValidateFinalAnswer answer = None \<and> fa_run_id answer = rq_run_id request \<and>
     fa_request_id answer = rq_request_id request \<and> fa_released_by answer = FinalResearchAnalyst \<and>
     (\<forall>packet \<in> set (res_packets result). ValidateContextPacket (rt_decimal runtime) packet = None \<and>
        pk_run_id packet = rq_run_id request \<and> pk_authority_state packet = rq_authority_state request \<and>
        pk_authority_refs packet = rq_authority_refs request) \<and>
     (\<exists>approvals. list_all2 (approves request) (steps_of_kind ''review'' (pl_steps plan)) approvals \<and>
        set approvals \<subseteq> set (res_critiques result) \<and>
        (\<exists>attempt \<in> {0, 1}. dep_synthesizer (rt_deps runtime) \<lparr>sin_request = request, sin_plan = plan,
           sin_packets = res_packets result, sin_critiques = approvals\<rparr> attempt = Inr answer))"

lemma narrower_bound:
  assumes "list_all2 narrower qs ps" and "\<forall>p \<in> set ps. pk_run_id p = run \<and> pk_authority_state p = st \<and>
    pk_authority_refs p = refs" and "q \<in> set qs"
  shows "pk_run_id q = run \<and> pk_authority_state q = st \<and> pk_authority_refs q = refs"
proof -
  obtain k where k: "k < length qs" "qs ! k = q" using assms(3) by (auto simp: in_set_conv_nth)
  with assms(1) have "narrower q (ps ! k)" "k < length ps" by (auto simp: list_all2_conv_all_nth)
  moreover from this assms(2) have "pk_run_id (ps ! k) = run \<and> pk_authority_state (ps ! k) = st \<and>
      pk_authority_refs (ps ! k) = refs" by simp
  ultimately show ?thesis by (simp add: narrower_def packet_frame_def)
qed

lemma Run_safe_release:
  assumes ok: "runtime_ok runtime" and run: "Run runtime request = Some (result, saves)"
    and answer: "res_answer result = Some answer"
  shows "\<exists>plan. Build (rt_planner runtime) request = Inr plan \<and> safe_release runtime request plan result answer"
proof -
  obtain plan where plan: "Build (rt_planner runtime) request = Inr plan"
    and rp: "run_plan runtime request (start_trace runtime request) plan = Some (result, saves)"
  proof (cases "ValidateResearchRequest request")
    case (Some err)
    with run have "(result, saves) = fail runtime (start_trace runtime request) ''request'' ''invalid_request'' err False"
      by (simp add: Run_def Let_def)
    then have "res_answer result = None" by (metis fst_conv no_answer_fail)
    with answer show thesis by simp
  next
    case None
    show thesis
    proof (cases "Build (rt_planner runtime) request")
      case (Inl err)
      with None run have "\<exists>trace stepID code. fail runtime trace stepID code err False = (result, saves)"
        by (auto simp: Run_def Let_def split: if_splits)
      then have "res_answer result = None" by (metis fst_conv no_answer_fail)
      with answer show thesis by simp
    next
      case (Inr plan)
      with None run that show thesis by (auto simp: Run_def Let_def)
    qed
  qed
  have "plan_ok plan" using plan by (rule Build_planned)
  then have limit: "1 \<le> context_limit runtime plan" using context_limit_bounds by blast
  let ?contexts = "steps_of_kind ''context'' (pl_steps plan)"
  let ?reviews = "steps_of_kind ''review'' (pl_steps plan)"
  obtain waves where waves: "runContextWaves runtime request ?contexts (context_limit runtime plan) = Some waves"
    and result: "(result, saves) = after_waves runtime request plan
      (waves_state runtime (accepted_trace runtime request (start_trace runtime request) plan) waves)"
    using rp unfolding run_plan_def map_option_eq_Some splitSteps_eq fst_conv by metis
  define s where "s = waves_state runtime (accepted_trace runtime request (start_trace runtime request) plan) waves"
  have s: "rs_packets s = wo_packets waves" "rs_approved s = []" "rs_critiques s = []"
    by (simp_all add: s_def waves_state_def Let_def)
  have bound: "packet_ok (rt_decimal runtime) p \<and> pk_run_id p = rq_run_id request \<and>
      pk_authority_state p = rq_authority_state request \<and> pk_authority_refs p = rq_authority_refs request"
    if "p \<in> set (rs_packets s)" for p
    using context_packets_bound [OF ok limit waves] that s(1)
    by (fastforce simp: packet_bound_def contextRequest_def)
  obtain t where t: "review_stages runtime request plan ?reviews s = Inr t"
    and stage: "(result, saves) = synthesis_stage runtime request plan (find (\<lambda>s. st_kind s = ''synthesis'') (pl_steps plan)) t"
  proof (cases "?contexts \<noteq> [] \<and> rs_packets s = []")
    case True
    with result have "(result, saves) = fail_at runtime s ''context-wave'' ''context_unavailable''
        (ErrorsNew ''all context specialists failed'') False"
      by (simp add: s_def [symmetric] after_waves_def splitSteps_eq)
    then have "res_answer result = None" by (metis fst_conv no_answer_fail_at)
    with answer show thesis by simp
  next
    case False
    then have r: "(result, saves) = (case review_stages runtime request plan ?reviews s of Inl outcome \<Rightarrow> outcome
        | Inr t \<Rightarrow> synthesis_stage runtime request plan (find (\<lambda>s. st_kind s = ''synthesis'') (pl_steps plan)) t)"
      using result unfolding s_def [symmetric] after_waves_def splitSteps_eq prod.case by (simp only: if_False)
    show thesis
    proof (cases "review_stages runtime request plan ?reviews s")
      case (Inl outcome)
      with r have "res_answer result = None"
        using no_answer_review_stages [OF Inl] by (metis fst_conv sum.case(1))
      with answer show thesis by simp
    qed (use r that in simp)
  qed
  have "packets_ok (rt_decimal runtime) (rs_packets s)" using bound by (simp add: packets_ok_def)
  from review_stages_done [OF this t]
  have follow: "packets_follow (rt_decimal runtime) (rs_packets t) (rs_packets s)"
    and approved: "list_all2 (approves request) ?reviews (rs_approved t)" "set (rs_approved t) \<subseteq> set (rs_critiques t)"
    by (auto simp: stages_done_def s(2,3))
  have "released runtime request plan t result answer"
    using synthesis_released [OF ok, of request plan _ t] stage answer by (metis fst_conv)
  moreover have "pk_run_id q = rq_run_id request \<and> pk_authority_state q = rq_authority_state request \<and>
      pk_authority_refs q = rq_authority_refs request" if "q \<in> set (rs_packets t)" for q
    using follow bound that unfolding packets_follow_def by (intro narrower_bound) blast+
  ultimately have "safe_release runtime request plan result answer"
    using approved follow
    unfolding released_def safe_release_def packets_follow_def packets_ok_def ValidateContextPacket_None
    by auto
  with plan show ?thesis by blast
qed

text \<open>A run always returns: the batches of a wave are never empty.\<close>

lemma Run_returns: "\<exists>outcome. Run runtime request = Some outcome"
proof (cases "ValidateResearchRequest request")
  case None
  show ?thesis
  proof (cases "Build (rt_planner runtime) request")
    case (Inr plan)
    have "plan_ok plan" using Inr by (rule Build_planned)
    then have "1 \<le> context_limit runtime plan" using context_limit_bounds by blast
    then obtain waves where "runContextWaves runtime request (fst (splitSteps (pl_steps plan)))
        (context_limit runtime plan) = Some waves"
      using runContextWaves_done by metis
    with None Inr show ?thesis by (simp add: Run_def Let_def run_plan_def)
  qed (simp add: Run_def Let_def None)
qed (simp add: Run_def Let_def)

section \<open>Components that cooperate\<close>

text \<open>
  A run releases an answer although specialists fail, as long as one step of the plan has a
  packet, the reviewers approve, the synthesizer answers and the trace is saved.
\<close>

definition cooperative :: "('d, 'm) Runtime_scheme \<Rightarrow> ResearchRequest \<Rightarrow> ResearchPlan \<Rightarrow> bool" where
  "cooperative runtime request plan \<longleftrightarrow>
     (\<forall>point. rt_ctx_err runtime point = None) \<and>
     (\<exists>step \<in> set (steps_of_kind ''context'' (pl_steps plan)). \<exists>packet.
        step_outcome runtime request step = Inr packet) \<and>
     (\<forall>step \<in> set (steps_of_kind ''review'' (pl_steps plan)). \<forall>packets prior. \<exists>report.
        reviewed runtime request plan step packets prior 0 = Inr report \<and> cp_decision report = CritiqueApprove) \<and>
     (\<forall>step packets critiques. \<exists>answer. runSynthesis runtime request plan step packets critiques = Inr answer) \<and>
     (\<forall>trace. dep_save (rt_deps runtime) trace = None)"

lemma review_stage_cooperates:
  assumes "0 \<le> pl_max_repair_passes plan"
    and "reviewed runtime request plan step (rs_packets s) (rs_critiques s) 0 = Inr report"
    and "cp_decision report = CritiqueApprove"
  shows "\<exists>t. review_stage runtime request plan step s = Inr t \<and> rs_packets t = rs_packets s"
proof -
  obtain n where n: "nat (pl_max_repair_passes plan + 1) = Suc n"
    using assms(1) by (cases "nat (pl_max_repair_passes plan + 1)") auto
  show ?thesis
    using assms by (simp add: review_stage_def runReview_def n review_pass_def prepend_emission_def Let_def)
qed

lemma review_stages_cooperate:
  assumes "0 \<le> pl_max_repair_passes plan"
    and "\<forall>step \<in> set steps. \<forall>packets prior. \<exists>report.
      reviewed runtime request plan step packets prior 0 = Inr report \<and> cp_decision report = CritiqueApprove"
  shows "\<exists>t. review_stages runtime request plan steps s = Inr t"
  using assms(2)
proof (induction steps arbitrary: s)
  case (Cons step steps)
  then obtain report where "reviewed runtime request plan step (rs_packets s) (rs_critiques s) 0 = Inr report"
    "cp_decision report = CritiqueApprove" by fastforce
  from review_stage_cooperates [OF assms(1) this] Cons show ?case by fastforce
qed simp

lemma synthesis_present:
  assumes "plan_ok plan"
  shows "\<exists>step. find (\<lambda>s. st_kind s = ''synthesis'') (pl_steps plan) = Some step"
proof -
  have "steps_of_kind ''synthesis'' (pl_steps plan) \<noteq> []" using assms by (auto simp: plan_ok_def)
  then show ?thesis
    by (cases "find (\<lambda>s. st_kind s = ''synthesis'') (pl_steps plan)") (auto simp: find_None_iff filter_empty_conv)
qed

lemma wave_bounds:
  assumes "plan_ok plan" and "s \<in> set (steps_of_kind ''context'' (pl_steps plan))"
  shows "1 \<le> effectiveWave (st_wave s) \<and>
    effectiveWave (st_wave s) \<le> maximum_wave (steps_of_kind ''context'' (pl_steps plan))"
proof -
  have "foldl (\<lambda>m step. if effectiveWave (st_wave step) > m then effectiveWave (st_wave step) else m) m xs \<ge> m \<and>
      (\<forall>x \<in> set xs. effectiveWave (st_wave x) \<le>
        foldl (\<lambda>m step. if effectiveWave (st_wave step) > m then effectiveWave (st_wave step) else m) m xs)"
    for m and xs :: "PlanStep list"
  proof (induction xs arbitrary: m)
    case (Cons x xs)
    from Cons [of "if effectiveWave (st_wave x) > m then effectiveWave (st_wave x) else m"] show ?case
      by (auto split: if_splits)
  qed simp
  then show ?thesis using assms by (auto simp: maximum_wave_def plan_ok_def step_ok_def)
qed

lemma Run_cooperates:
  assumes plan: "Build (rt_planner runtime) request = Inr plan" and coop: "cooperative runtime request plan"
  shows "\<exists>result saves answer. Run runtime request = Some (result, saves) \<and> res_answer result = Some answer"
proof -
  have ok: "plan_ok plan" using plan by (rule Build_planned)
  then have limit: "1 \<le> context_limit runtime plan" using context_limit_bounds by blast
  let ?contexts = "steps_of_kind ''context'' (pl_steps plan)"
  obtain waves ran rest where waves: "runContextWaves runtime request ?contexts (context_limit runtime plan) = Some waves"
    and ran: "[1..maximum_wave ?contexts] = ran @ rest"
    and packets: "wo_packets waves = successes (map (step_outcome runtime request) (steps_of_waves ?contexts ran))"
    and rest: "(\<forall>w. rt_ctx_err runtime (AfterWave w) = None) \<Longrightarrow> rest = []"
    using runContextWaves_done [OF limit] by metis
  obtain step packet where step: "step \<in> set ?contexts" "step_outcome runtime request step = Inr packet"
    using coop unfolding cooperative_def by blast
  have "ran = [1..maximum_wave ?contexts]" using ran rest coop unfolding cooperative_def by auto
  then have "effectiveWave (st_wave step) \<in> set ran" using wave_bounds [OF ok step(1)] by simp
  then have "step \<in> set (steps_of_waves ?contexts ran)"
    using step(1) unfolding steps_of_waves_def wave_steps_def by auto
  then have nonempty: "packet \<in> set (wo_packets waves)" using step(2) by (force simp: packets in_successes)
  define s where "s = waves_state runtime (accepted_trace runtime request (start_trace runtime request) plan) waves"
  have s: "rs_packets s \<noteq> []" using nonempty by (auto simp: s_def waves_state_def Let_def)
  obtain t where t: "review_stages runtime request plan (steps_of_kind ''review'' (pl_steps plan)) s = Inr t"
    using review_stages_cooperate [of plan "steps_of_kind ''review'' (pl_steps plan)" runtime request s] ok coop
    unfolding cooperative_def plan_ok_def by blast
  obtain final where final: "find (\<lambda>s. st_kind s = ''synthesis'') (pl_steps plan) = Some final"
    using synthesis_present [OF ok] by blast
  obtain answer where answer: "runSynthesis runtime request plan final (rs_packets t) (rs_approved t) = Inr answer"
    using coop unfolding cooperative_def by blast
  have save: "dep_save (rt_deps runtime) trace = None" for trace using coop unfolding cooperative_def by blast
  have valid: "ValidateResearchRequest request = None" using plan by (simp add: Build_Inr)
  have "after_waves runtime request plan s = synthesis_stage runtime request plan (Some final) t"
    using s t by (simp add: after_waves_def splitSteps_eq final)
  moreover have "\<exists>result saves. synthesis_stage runtime request plan (Some final) t = (result, saves) \<and>
      res_answer result = Some answer"
    using answer by (simp add: synthesis_stage_def Let_def release_def save)
  ultimately show ?thesis
    using plan valid waves by (auto simp: Run_def Let_def run_plan_def splitSteps_eq s_def)
qed

end
