(* ===== verification/Samples.thy ===== *)
theory Samples
  imports Run_Laws
begin

text \<open>
  Concrete inputs at which the properties are applied: a request, a runtime whose components
  cooperate, packets with claims to narrow.
\<close>

section \<open>A request and its plan\<close>

definition sample_request :: ResearchRequest where
  "sample_request = \<lparr>rq_schema_version = SchemaVersionV1, rq_request_id = ''request-1'', rq_run_id = ''run-1'',
     rq_parent_request_id = [], rq_lineage_evidence_refs = [], rq_lineage_receipt_refs = [],
     rq_user_text = ''compare'', rq_primary_intent = IntentCompanyUnderstanding, rq_secondary_intents = [],
     rq_entities = [], rq_period = \<lparr>ps_kind = ''annual'', ps_lookback_years = 1, ps_start = None, ps_end = None,
       ps_fiscal_years = [], ps_fiscal_periods = []\<rparr>,
     rq_as_of = 1, rq_comparison = \<lparr>cs_mode = ''none'', cs_entity_ids = [], cs_metrics = []\<rparr>,
     rq_answer_depth = ''brief'', rq_requested_outputs = [''business_overview'', ''scenarios''],
     rq_assumptions = [], rq_ambiguities = [], rq_risk_flags = [], rq_authority_state = ''data_ready'',
     rq_authority_refs = [''activation-1''], rq_authority_reason_codes = []\<rparr>"

lemma sample_request_valid: "ValidateResearchRequest sample_request = None"
  by code_simp

lemma sample_request_clear: "\<not> needs_clarification sample_request"
  by code_simp

lemma sample_plan: "\<exists>plan. Build default_builder sample_request = Inr plan"
  using default_plan_total [OF sample_request_valid] sample_request_clear by (auto simp: DefaultBuilder_eq)

section \<open>A cooperative runtime\<close>

definition no_decimals :: "unit apd_lib" where
  "no_decimals = \<lparr>apd_parse = \<lambda>_. None, apd_is_finite = \<lambda>_. False, apd_negative = \<lambda>_. False,
     apd_make_positive = id, apd_base_sub = \<lambda>x y. x, apd_cmp = \<lambda>x y. 0\<rparr>"

definition sample_packet :: "ContextRequest \<Rightarrow> ContextPacket" where
  "sample_packet request = zeroContextPacket\<lparr>pk_schema_version := SchemaVersionV1, pk_packet_id := ''packet-1'',
     pk_run_id := cq_run_id request, pk_step_id := cq_step_id request,
     pk_specialist_role := cq_specialist_role request, pk_objective := ''objective'',
     pk_scope := cq_scope request\<rparr>"

definition sample_report :: "ReviewInput \<Rightarrow> CritiqueReport" where
  "sample_report input = zeroCritiqueReport\<lparr>cp_schema_version := SchemaVersionV1, cp_report_id := ''critique-1'',
     cp_run_id := rq_run_id (rin_request input), cp_reviewer_role := st_role_id (rin_step input),
     cp_decision := CritiqueApprove, cp_approved_claims := [''claim-1''], cp_repair_pass := rin_repair_pass input,
     cp_created_at := 1\<rparr>"

definition sample_section :: "string \<Rightarrow> AnswerSection" where
  "sample_section kind = \<lparr>as_section_type = kind, as_title = ''title'', as_content = ''content'',
     as_claim_refs = [''claim-1''], as_evidence_refs = [''evidence-1''], as_receipt_refs = [], as_numerical_refs = []\<rparr>"

definition sample_answer :: FinalAnswer where
  "sample_answer = zeroFinalAnswer\<lparr>fa_schema_version := SchemaVersionV1, fa_answer_id := ''answer-1'',
     fa_run_id := ''run-1'', fa_request_id := ''request-1'',
     fa_primary_intent := IntentCompanyUnderstanding, fa_as_of := 1,
     fa_sections := map sample_section (RequiredFinalSections IntentCompanyUnderstanding),
     fa_critique_refs := [''critique-1''], fa_released_by := FinalResearchAnalyst, fa_released_at := 1\<rparr>"

definition sample_runtime :: "unit Runtime" where
  "sample_runtime = \<lparr>rt_planner = default_builder, rt_roles = defaultRoles,
     rt_tools = \<lparr>tg_capabilities = tier0Operations, tg_roles = defaultRoles\<rparr>,
     rt_deps = \<lparr>dep_specialist = \<lparr>sp_run = \<lambda>q _. Inr (sample_packet q), sp_run_attempt = None,
         sp_run_observed = None, sp_run_observed_attempt = None\<rparr>,
       dep_reviewer = \<lambda>i _. Inr (sample_report i), dep_synthesizer = \<lambda>i _. Inr sample_answer,
       dep_save = \<lambda>_. None\<rparr>,
     rt_now = \<lambda>_. 1, rt_context_concurrency = 4, rt_ctx_err = \<lambda>_. None, rt_schedule = \<lambda>_ _. [],
     rt_error_text = \<lambda>_. [], rt_decimal = no_decimals, rt_receipt_digest = \<lambda>_. Inr []\<rparr>"

lemma sample_runtime_fields [simp]:
  "rt_planner sample_runtime = default_builder" "rt_roles sample_runtime = defaultRoles"
  "rt_ctx_err sample_runtime point = None" "rt_decimal sample_runtime = no_decimals"
  "dep_save (rt_deps sample_runtime) = (\<lambda>_. None)"
  "dep_reviewer (rt_deps sample_runtime) = (\<lambda>i _. Inr (sample_report i))"
  "dep_synthesizer (rt_deps sample_runtime) = (\<lambda>i _. Inr sample_answer)"
  "specialist_attempt (dep_specialist (rt_deps sample_runtime)) q k = ([], Inr (sample_packet q))"
  by (simp_all add: sample_runtime_def specialist_attempt_def)

lemma sample_runtime_ok: "runtime_ok sample_runtime"
  unfolding runtime_ok_def using NewRoleRegistry_default by auto

lemma sample_budget: "\<exists>n. attempt_budget defaultRoles roleID = Suc n"
  using attempt_budget_bounds [OF NewRoleRegistry_default, of roleID] by (cases "attempt_budget defaultRoles roleID") auto

lemma attempts_first: "error (call 0) = None \<Longrightarrow> attempts call error (Suc n) 0 = [call 0]"
  by simp

lemma sample_names_not_blank: "\<not> blank ''run-1''" "\<not> blank ''critique-1''" "\<not> blank ''packet-1''"
    "\<not> blank ''objective''"
  by code_simp+

lemma sample_report_valid:
  assumes "rq_run_id (rin_request input) = ''run-1''" and "st_role_id (rin_step input) \<noteq> []"
    and "rin_repair_pass input = 0"
  shows "ValidateCritiqueReport (sample_report input) = None"
  using assms
  by (simp add: ValidateCritiqueReport_def sample_report_def zeroCritiqueReport_def validateEnvelope_None
      letters_not_blank sample_names_not_blank)

lemma sample_answer_valid: "ValidateFinalAnswer sample_answer = None"
  by code_simp

text \<open>The steps of the sample plan all have names, and one of them is a specialist step.\<close>

definition sample_steps_ok :: "ResearchPlan \<Rightarrow> bool" where
  "sample_steps_ok plan \<longleftrightarrow> list_ex (\<lambda>s. st_kind s = ''context'') (pl_steps plan) \<and>
     list_all (\<lambda>s. \<not> blank (st_step_id s) \<and> \<not> blank (st_role_id s)) (pl_steps plan)"

lemma sample_steps: "case Build default_builder sample_request of Inl e \<Rightarrow> False | Inr p \<Rightarrow> sample_steps_ok p"
  by code_simp

lemma sample_steps_Inr: "Build default_builder sample_request = Inr plan \<Longrightarrow> sample_steps_ok plan"
  using sample_steps by simp

lemma sample_request_fields [simp]: "rq_run_id sample_request = ''run-1''" "rq_as_of sample_request = 1"
  "rq_request_id sample_request = ''request-1''"
  by (simp_all add: sample_request_def)

lemma sample_packet_ok:
  assumes "\<not> blank (st_step_id step)" and "\<not> blank (st_role_id step)"
  shows "step_outcome sample_runtime sample_request step \<noteq> Inl e"
proof -
  obtain n where n: "attempt_budget defaultRoles (st_role_id step) = Suc n" using sample_budget by blast
  let ?q = "contextRequest sample_request step"
  let ?p = "(sample_packet ?q)\<lparr>pk_authority_state := cq_authority_state ?q, pk_authority_refs := cq_authority_refs ?q\<rparr>"
  have "packet_ok no_decimals ?p"
    using assms by (simp add: packet_ok_def packet_header_ok_def sample_packet_def zeroContextPacket_def
        contextRequest_def validateEnvelope_None receipts_ok_def packet_numerical_ok_def sample_names_not_blank)
  then have "validatePacket no_decimals ?p ?q = None"
    by (simp add: validatePacket_def ValidateContextPacket_None) (simp add: sample_packet_def)
  moreover have "bindPacketAuthority (sample_packet ?q) ?q = Inr ?p"
    by (simp add: bindPacketAuthority_Inr) (simp add: sample_packet_def zeroContextPacket_def)
  ultimately have "snd (callSpecialist sample_runtime ?q step) = Inr ?p"
    by (simp add: callSpecialist_def n Let_def)
  then show ?thesis by (simp add: step_outcome_def)
qed

lemma sample_reviewed:
  assumes "\<not> blank (st_role_id s)"
  shows "\<exists>report. reviewed sample_runtime sample_request plan s packets prior 0 = Inr report \<and>
    cp_decision report = CritiqueApprove"
proof -
  let ?i = "\<lparr>rin_request = sample_request, rin_plan = plan, rin_step = s, rin_packets = packets,
    rin_prior = prior, rin_repair_pass = 0\<rparr>"
  obtain n where n: "attempt_budget defaultRoles (st_role_id s) = Suc n" using sample_budget by blast
  have "ValidateCritiqueReport (sample_report ?i) = None"
    using assms by (intro sample_report_valid) auto
  moreover have "callReviewer sample_runtime ?i = Inr (sample_report ?i)"
    by (simp add: callReviewer_def n last_result_def)
  ultimately have "reviewed sample_runtime sample_request plan s packets prior 0 = Inr (sample_report ?i)"
    by (simp add: reviewed_def) (simp add: sample_report_def zeroCritiqueReport_def)
  then show ?thesis by (simp add: sample_report_def)
qed

lemma sample_cooperates:
  assumes "Build default_builder sample_request = Inr plan"
  shows "cooperative sample_runtime sample_request plan"
proof -
  from sample_steps_Inr [OF assms] obtain step where step: "step \<in> set (steps_of_kind ''context'' (pl_steps plan))"
    "\<not> blank (st_step_id step)" "\<not> blank (st_role_id step)"
    by (auto simp: sample_steps_ok_def list_ex_iff list_all_iff)
  obtain packet where "step_outcome sample_runtime sample_request step = Inr packet"
    using sample_packet_ok [OF step(2,3)] by (cases "step_outcome sample_runtime sample_request step") auto
  moreover have "\<exists>report. reviewed sample_runtime sample_request plan s packets prior 0 = Inr report \<and>
      cp_decision report = CritiqueApprove"
    if "s \<in> set (steps_of_kind ''review'' (pl_steps plan))" for s packets prior
    using that sample_steps_Inr [OF assms] sample_reviewed
    by (auto simp: sample_steps_ok_def list_all_iff)
  moreover have "\<exists>answer. runSynthesis sample_runtime sample_request plan s packets critiques = Inr answer"
    for s packets critiques
  proof -
    obtain n where n: "attempt_budget defaultRoles (st_role_id s) = Suc n" using sample_budget by blast
    show ?thesis
      by (simp add: runSynthesis_def n last_result_def sample_answer_valid)
        (simp add: sample_answer_def zeroFinalAnswer_def)
  qed
  ultimately show ?thesis using step(1) unfolding cooperative_def by auto
qed

lemma sample_release:
  "\<exists>result saves answer. Run sample_runtime sample_request = Some (result, saves) \<and> res_answer result = Some answer"
proof -
  obtain plan where plan: "Build default_builder sample_request = Inr plan" using sample_plan by blast
  with Run_cooperates [of sample_runtime sample_request plan] sample_cooperates [OF plan] show ?thesis by simp
qed

definition sample_step :: PlanStep where
  "sample_step = \<lparr>st_step_id = ''context-1'', st_kind = ''context'', st_wave = 1, st_objective = ''objective'',
     st_role_id = BusinessStrategy, st_capability_ids = [], st_evidence_requirements = [], st_depends_on = [],
     st_mandatory = True, st_context_budget_tokens = 1000, st_timeout_ms = 1000\<rparr>"

lemma sample_call:
  "\<exists>packet. snd (callSpecialist sample_runtime (contextRequest sample_request sample_step) sample_step) = Inr packet"
proof -
  have names: "\<not> blank (st_step_id sample_step)" "\<not> blank (st_role_id sample_step)" by code_simp+
  from sample_packet_ok [OF this] show ?thesis
    by (cases "snd (callSpecialist sample_runtime (contextRequest sample_request sample_step) sample_step)")
      (auto simp: step_outcome_def)
qed

section \<open>Packets with claims\<close>

definition sample_claim :: "string \<Rightarrow> Finding" where
  "sample_claim claim = \<lparr>fd_claim_id = claim, fd_claim_type = ClaimFact, fd_origin = [], fd_statement = ''statement'',
     fd_evidence_refs = [claim @ ''-evidence''], fd_calculation_refs = [], fd_numerical_refs = [],
     fd_assumption_refs = [], fd_confidence = Finite 0, fd_valid_as_of = 1\<rparr>"

definition sample_evidence :: "string \<Rightarrow> EvidenceRef" where
  "sample_evidence claim = \<lparr>ev_evidence_id = claim @ ''-evidence'', ev_source_type = ''filing'',
     ev_document_section = [], ev_locator = ''locator'', ev_content_sha256 = ''digest'', ev_as_of = 1\<rparr>"

definition sample_findings_packet :: ContextPacket where
  "sample_findings_packet = (sample_packet (contextRequest sample_request sample_step))\<lparr>
     pk_findings := [sample_claim ''claim-1'', sample_claim ''claim-2''],
     pk_counterevidence := [sample_claim ''claim-3''],
     pk_evidence := map sample_evidence [''claim-1'', ''claim-2'', ''claim-3'']\<rparr>"

lemma sample_findings_valid: "ValidateContextPacket no_decimals sample_findings_packet = None"
  by code_simp

definition sample_narrowing :: CritiqueReport where
  "sample_narrowing = zeroCritiqueReport\<lparr>cp_schema_version := SchemaVersionV1, cp_report_id := ''critique-1'',
     cp_run_id := ''run-1'', cp_reviewer_role := EvidenceCritic, cp_decision := ''narrow'',
     cp_approved_claims := [''claim-1''], cp_rejected_claims := [''claim-2''], cp_created_at := 1\<rparr>"

definition sample_review_plan :: ResearchPlan where
  "sample_review_plan = \<lparr>pl_schema_version = SchemaVersionV1, pl_plan_id = ''plan-1'', pl_run_id = ''run-1'',
     pl_request_id = ''request-1'', pl_steps = [], pl_max_parallel_specialists = 4,
     pl_max_repair_passes = 1, pl_deadline_ms = 1000, pl_completion_conditions = [], pl_abstention_conditions = []\<rparr>"

lemma sample_review:
  "\<exists>reports. snd (runReview sample_runtime sample_request sample_review_plan sample_step [sample_findings_packet] []) =
     Inr (reports, [sample_findings_packet])"
proof -
  have "\<not> blank (st_role_id sample_step)" by code_simp
  then obtain report where "reviewed sample_runtime sample_request sample_review_plan sample_step
      [sample_findings_packet] [] 0 = Inr report" "cp_decision report = CritiqueApprove"
    using sample_reviewed by blast
  moreover have "nat (pl_max_repair_passes sample_review_plan + 1) = Suc 1"
    by (simp add: sample_review_plan_def)
  ultimately show ?thesis
    by (simp add: runReview_def review_pass_def prepend_emission_def Let_def)
qed

end
