(* ===== verification/Guards.thy ===== *)
theory Guards
  imports GoStd
begin

text \<open>
  Two small guards of the workspace: the local permission policy
  (\<open>internal/permissions/policy.go\<close>) and the circuit breaker of an unreliable provider
  (\<open>internal/resilience/breaker.go\<close>). The mutex of the breaker makes its operations atomic, so
  a run of the breaker is a sequence of operations.
\<close>

section \<open>Permissions\<close>

abbreviation AuthoritySystem :: string where "AuthoritySystem \<equiv> ''system''"
abbreviation AuthorityUser :: string where "AuthorityUser \<equiv> ''user''"
abbreviation AuthorityModel :: string where "AuthorityModel \<equiv> ''model''"

abbreviation SourceRead :: string where "SourceRead \<equiv> ''source.read''"
abbreviation Compute :: string where "Compute \<equiv> ''calculation.execute''"
abbreviation CaseRead :: string where "CaseRead \<equiv> ''case.read''"
abbreviation CaseSave :: string where "CaseSave \<equiv> ''case.save''"
abbreviation CaseExport :: string where "CaseExport \<equiv> ''case.export''"
abbreviation CaseDelete :: string where "CaseDelete \<equiv> ''case.delete''"
abbreviation ExternalWrite :: string where "ExternalWrite \<equiv> ''external.write''"

definition ErrDenied :: go_error where
  "ErrDenied = Sentinel ''operation denied by local permission policy''"

definition AuthorizePermission :: "string \<Rightarrow> string \<Rightarrow> go_error option" where
  "AuthorizePermission authority operation =
     (if operation \<in> {SourceRead, Compute} then
        (if authority = AuthoritySystem \<or> authority = AuthorityUser \<or> authority = AuthorityModel
         then None else Some ErrDenied)
      else if operation = CaseRead then
        (if authority = AuthoritySystem \<or> authority = AuthorityUser then None else Some ErrDenied)
      else if operation \<in> {CaseSave, CaseExport, CaseDelete} then
        (if authority = AuthorityUser then None else Some ErrDenied)
      else if operation = ExternalWrite then Some ErrDenied
      else Some ErrDenied)"

text \<open>
  A model is authorized to read sources and to calculate and nothing else, only the user may
  change, export or delete saved cases, and nobody may write outside.
\<close>

theorem permission_policy:
  "(AuthorizePermission AuthorityModel operation = None) = (operation = SourceRead \<or> operation = Compute) \<and>
   (AuthorizePermission authority CaseSave = None) = (authority = AuthorityUser) \<and>
   (AuthorizePermission authority CaseExport = None) = (authority = AuthorityUser) \<and>
   (AuthorizePermission authority CaseDelete = None) = (authority = AuthorityUser) \<and>
   AuthorizePermission authority ExternalWrite = Some ErrDenied"
  by (simp add: AuthorizePermission_def)

section \<open>The circuit breaker\<close>

record Breaker =
  bk_threshold :: int
  bk_cooldown :: int
  bk_failures :: int
  bk_open_until :: gotime

definition NewBreaker :: "int \<Rightarrow> int \<Rightarrow> Breaker" where
  "NewBreaker threshold cooldown =
     \<lparr>bk_threshold = (if threshold < 1 then 3 else threshold),
      bk_cooldown = (if cooldown \<le> 0 then 30 * 1000000000 else cooldown),
      bk_failures = 0, bk_open_until = 0\<rparr>"

definition Allow :: "gotime \<Rightarrow> Breaker \<Rightarrow> bool \<times> Breaker" where
  "Allow now breaker =
     (if is_zero_time (bk_open_until breaker) \<or> \<not> time_before now (bk_open_until breaker) then
        (True, if \<not> is_zero_time (bk_open_until breaker)
               then breaker\<lparr>bk_failures := 0, bk_open_until := 0\<rparr> else breaker)
      else (False, breaker))"

definition Success :: "Breaker \<Rightarrow> Breaker" where
  "Success breaker = breaker\<lparr>bk_failures := 0, bk_open_until := 0\<rparr>"

definition Failure :: "gotime \<Rightarrow> Breaker \<Rightarrow> Breaker" where
  "Failure now breaker =
     (let breaker = breaker\<lparr>bk_failures := bk_failures breaker + 1\<rparr> in
      if bk_failures breaker \<ge> bk_threshold breaker
      then breaker\<lparr>bk_open_until := now + bk_cooldown breaker\<rparr> else breaker)"

section \<open>Histories of a breaker\<close>

datatype breaker_call = Asked gotime | Succeeded | Failed gotime

fun breaker_step :: "Breaker \<Rightarrow> breaker_call \<Rightarrow> Breaker" where
  "breaker_step breaker (Asked now) = snd (Allow now breaker)"
| "breaker_step breaker Succeeded = Success breaker"
| "breaker_step breaker (Failed now) = Failure now breaker"

definition breaker_after :: "Breaker \<Rightarrow> breaker_call list \<Rightarrow> Breaker" where
  "breaker_after breaker calls = foldl breaker_step breaker calls"

fun call_time :: "breaker_call \<Rightarrow> gotime" where
  "call_time (Asked now) = now"
| "call_time Succeeded = 1"
| "call_time (Failed now) = now"

text \<open>
  The abstract breaker: the instants of the failures since the last reset. It is open when there
  are at least \<open>threshold\<close> of them, until the cooldown after the last one has passed.
\<close>

fun abstract_step :: "int \<Rightarrow> int \<Rightarrow> gotime list \<Rightarrow> breaker_call \<Rightarrow> gotime list" where
  "abstract_step threshold cooldown fs (Asked now) =
     (if threshold \<le> int (length fs) \<and> last fs + cooldown \<le> now then [] else fs)"
| "abstract_step threshold cooldown fs Succeeded = []"
| "abstract_step threshold cooldown fs (Failed now) = fs @ [now]"

definition abstract_after :: "int \<Rightarrow> int \<Rightarrow> breaker_call list \<Rightarrow> gotime list" where
  "abstract_after threshold cooldown calls = foldl (abstract_step threshold cooldown) [] calls"

definition breaker_refines :: "int \<Rightarrow> int \<Rightarrow> Breaker \<Rightarrow> gotime list \<Rightarrow> bool" where
  "breaker_refines threshold cooldown breaker fs \<longleftrightarrow>
     1 \<le> threshold \<and> 0 < cooldown \<and> bk_threshold breaker = threshold \<and> bk_cooldown breaker = cooldown \<and>
     bk_failures breaker = int (length fs) \<and> (\<forall>t \<in> set fs. 0 < t) \<and>
     bk_open_until breaker = (if threshold \<le> int (length fs) then last fs + cooldown else 0)"

lemma refines_open:
  assumes "breaker_refines threshold cooldown breaker fs"
  shows "bk_open_until breaker \<noteq> 0 \<longleftrightarrow> threshold \<le> int (length fs)"
proof (cases "fs = []")
  case False
  then have "0 < last fs" using assms by (simp add: breaker_refines_def)
  with assms show ?thesis by (auto simp: breaker_refines_def)
qed (use assms in \<open>auto simp: breaker_refines_def\<close>)

lemma refines_step:
  assumes "breaker_refines threshold cooldown breaker fs" and "0 < call_time call"
  shows "breaker_refines threshold cooldown (breaker_step breaker call)
    (abstract_step threshold cooldown fs call)"
proof (cases call)
  case (Asked now)
  with refines_open [OF assms(1)] assms(1) show ?thesis
    by (auto simp: Allow_def breaker_refines_def)
next
  case (Failed now)
  with assms show ?thesis by (auto simp: Failure_def breaker_refines_def Let_def)
qed (use assms in \<open>auto simp: Success_def breaker_refines_def\<close>)

lemma refines_new:
  "breaker_refines (bk_threshold (NewBreaker threshold cooldown)) (bk_cooldown (NewBreaker threshold cooldown))
     (NewBreaker threshold cooldown) []"
  by (auto simp: breaker_refines_def NewBreaker_def)

lemma refines_after:
  assumes "\<forall>call \<in> set calls. 0 < call_time call"
  shows "breaker_refines (bk_threshold (NewBreaker threshold cooldown)) (bk_cooldown (NewBreaker threshold cooldown))
    (breaker_after (NewBreaker threshold cooldown) calls)
    (abstract_after (bk_threshold (NewBreaker threshold cooldown)) (bk_cooldown (NewBreaker threshold cooldown)) calls)"
  using assms
proof (induction calls rule: rev_induct)
  case (snoc call calls)
  then show ?case using refines_step by (simp add: breaker_after_def abstract_after_def)
qed (simp add: breaker_after_def abstract_after_def refines_new)

text \<open>
  C35: The breaker implements its abstract specification: after any sequence of calls it refuses
  exactly while at least \<open>threshold\<close> failures have been reported since the last reset and the
  cooldown after the last of them has not passed; threshold and cooldown of a new breaker are
  positive.
\<close>

theorem breaker_refuses_exactly:
  assumes "\<forall>call \<in> set calls. 0 < call_time call"
  shows "let new = NewBreaker threshold cooldown;
      failures = abstract_after (bk_threshold new) (bk_cooldown new) calls
    in fst (Allow now (breaker_after new calls)) =
        (int (length failures) < bk_threshold new \<or> last failures + bk_cooldown new \<le> now) \<and>
      1 \<le> bk_threshold new \<and> 0 < bk_cooldown new"
  using refines_after [OF assms, of threshold cooldown] refines_open [OF refines_after [OF assms, of threshold cooldown]]
  by (auto simp: Allow_def breaker_refines_def Let_def)

theorem breaker_refuses_exactly_witness:
  "\<not> fst (Allow 10 (breaker_after (NewBreaker 2 100) [Failed 1, Asked 2, Failed 3])) \<and>
   fst (Allow 103 (breaker_after (NewBreaker 2 100) [Failed 1, Asked 2, Failed 3]))"
proof -
  have times: "\<forall>call \<in> set [Failed 1, Asked 2, Failed 3]. 0 < call_time call" by simp
  show ?thesis
    using breaker_refuses_exactly [OF times, of 2 100 10] breaker_refuses_exactly [OF times, of 2 100 103]
    by (simp add: NewBreaker_def abstract_after_def Let_def)
qed

text \<open>
  The breaker never stays open: in any state a call at or after the instant until which it is
  open is allowed and leaves it closed, so that it takes new failures to open it again.
\<close>

theorem breaker_recovers:
  "fst (Allow (max now (bk_open_until breaker)) breaker) \<and>
   bk_open_until (snd (Allow (max now (bk_open_until breaker)) breaker)) = 0 \<and>
   (bk_open_until breaker \<noteq> 0 \<longrightarrow> bk_failures (snd (Allow (max now (bk_open_until breaker)) breaker)) = 0)"
  by (auto simp: Allow_def)

theorem breaker_recovers_witness:
  "bk_failures (snd (Allow (max 500 (bk_open_until (Failure 3 (NewBreaker 1 100)))) (Failure 3 (NewBreaker 1 100)))) = 0"
  using breaker_recovers [of 500 "Failure 3 (NewBreaker 1 100)"] by (simp add: NewBreaker_def Failure_def Let_def)

end
