(* ===== verification/Hex.thy ===== *)
theory Hex
  imports GoStd
begin

text \<open>
  Hexadecimal numbers: the verb \<open>%0wx\<close> of \<open>fmt.Sprintf\<close>, \<open>hex.EncodeToString\<close>,
  \<open>hex.DecodeString\<close> as far as its error goes, and the hexadecimal digits that \<open>fmt.Sscanf\<close>
  reads.
\<close>

section \<open>Digits\<close>

definition hex_digit :: "nat \<Rightarrow> char" where
  "hex_digit n = char_of (if n < 10 then 48 + n else 87 + n)"

definition hex_digit_value :: "char \<Rightarrow> nat option" where
  "hex_digit_value c =
     (let n = of_char c :: nat in
      if 48 \<le> n \<and> n \<le> 57 then Some (n - 48)
      else if 97 \<le> n \<and> n \<le> 102 then Some (n - 87)
      else if 65 \<le> n \<and> n \<le> 70 then Some (n - 55) else None)"

definition is_hex :: "char \<Rightarrow> bool" where
  "is_hex c \<longleftrightarrow> hex_digit_value c \<noteq> None"

definition is_lower_hex :: "char \<Rightarrow> bool" where
  "is_lower_hex c \<longleftrightarrow> CHR ''0'' \<le> c \<and> c \<le> CHR ''9'' \<or> CHR ''a'' \<le> c \<and> c \<le> CHR ''f''"

lemma hex_digit_value_digit [simp]: "n < 16 \<Longrightarrow> hex_digit_value (hex_digit n) = Some n"
  by (auto simp: hex_digit_value_def hex_digit_def Let_def)

lemma is_hex_digit [simp]: "n < 16 \<Longrightarrow> is_hex (hex_digit n)"
  by (simp add: is_hex_def)

lemma char_le_iff: "c \<le> d \<longleftrightarrow> (of_char c :: nat) \<le> of_char d"
  by (simp add: less_eq_char_def)

lemma char_less_iff: "c < d \<longleftrightarrow> (of_char c :: nat) < of_char d"
  by (simp add: less_char_def)

lemma is_lower_hex_digit [simp]: "n < 16 \<Longrightarrow> is_lower_hex (hex_digit n)"
  by (auto simp: is_lower_hex_def char_le_iff hex_digit_def)

lemma hex_digit_less: "m < n \<Longrightarrow> n < 16 \<Longrightarrow> hex_digit m < hex_digit n"
  by (auto simp: char_less_iff hex_digit_def)

section \<open>Numbers of a fixed width\<close>

fun hex_fixed :: "nat \<Rightarrow> nat \<Rightarrow> string" where
  "hex_fixed 0 n = []"
| "hex_fixed (Suc w) n = hex_fixed w (n div 16) @ [hex_digit (n mod 16)]"

fun hex_nat :: "nat \<Rightarrow> string" where
  "hex_nat n = (if n < 16 then [hex_digit n] else hex_nat (n div 16) @ [hex_digit (n mod 16)])"

declare hex_nat.simps [simp del]

text \<open>The verb \<open>%0wx\<close>: at least \<open>w\<close> digits.\<close>

definition fmt_hex :: "nat \<Rightarrow> nat \<Rightarrow> string" where
  "fmt_hex w n = pad_zero w (hex_nat n)"

definition hex_value :: "string \<Rightarrow> nat" where
  "hex_value s = foldl (\<lambda>a c. 16 * a + (case hex_digit_value c of Some d \<Rightarrow> d | None \<Rightarrow> 0)) 0 s"

lemma length_hex_fixed [simp]: "length (hex_fixed w n) = w"
  by (induction w arbitrary: n) simp_all

lemma hex_fixed_hex: "c \<in> set (hex_fixed w n) \<Longrightarrow> is_hex c \<and> is_lower_hex c"
  by (induction w arbitrary: n) auto

lemma hex_value_fixed: "hex_value (hex_fixed w n) = n mod 16 ^ w"
proof (induction w arbitrary: n)
  case (Suc w)
  have "hex_value (hex_fixed (Suc w) n) = 16 * hex_value (hex_fixed w (n div 16)) + n mod 16"
    by (simp add: hex_value_def)
  also have "\<dots> = n mod 16 ^ Suc w"
    unfolding Suc.IH power_Suc by (rule mod_mult2_eq [symmetric])
  finally show ?case .
qed (simp add: hex_value_def)

lemma hex_fixed_zeros: "hex_fixed w 0 = replicate w (CHR ''0'')"
proof (induction w)
  case (Suc w)
  have "hex_digit 0 = CHR ''0''" by code_simp
  with Suc show ?case by (simp add: replicate_append_same)
qed simp

lemma hex_nat_pos: "hex_nat n \<noteq> []"
  by (subst hex_nat.simps) simp

lemma pad_zero_snoc: "xs \<noteq> [] \<Longrightarrow> pad_zero (Suc w) (xs @ [c]) = pad_zero w xs @ [c]"
  by (simp add: pad_zero_def)

lemma fmt_hex_fixed:
  assumes "0 < w" and "n < 16 ^ w"
  shows "fmt_hex w n = hex_fixed w n"
  using assms
proof (induction w arbitrary: n)
  case (Suc w)
  show ?case
  proof (cases "n < 16")
    case True
    then show ?thesis
      by (simp add: fmt_hex_def hex_nat.simps [of n] pad_zero_def hex_fixed_zeros)
  next
    case False
    then have "0 < w" using Suc.prems(2) by (cases w) auto
    moreover have "n div 16 < 16 ^ w" using Suc.prems(2) by (simp add: less_mult_imp_div_less mult.commute)
    ultimately have "fmt_hex w (n div 16) = hex_fixed w (n div 16)" by (rule Suc.IH)
    with False show ?thesis
      by (simp add: fmt_hex_def hex_nat.simps [of n] pad_zero_snoc hex_nat_pos)
  qed
qed simp

text \<open>Numbers of the same width are ordered like their digits.\<close>

lemma list_less_snoc: "length xs = length ys \<Longrightarrow> xs < ys \<Longrightarrow> xs @ us < ys @ vs" for xs ys :: string
  by (induction xs ys rule: list_induct2) (auto simp: less_le)

lemma list_less_same_prefix: "us < vs \<Longrightarrow> xs @ us < xs @ vs" for xs us vs :: string
  by (induction xs) auto

lemma hex_fixed_less:
  assumes "m < n" and "n < 16 ^ w"
  shows "hex_fixed w m < hex_fixed w n"
  using assms
proof (induction w arbitrary: m n)
  case (Suc w)
  show ?case
  proof (cases "m div 16 < n div 16")
    case True
    moreover have "n div 16 < 16 ^ w" using Suc.prems(2) by (simp add: less_mult_imp_div_less mult.commute)
    ultimately have "hex_fixed w (m div 16) < hex_fixed w (n div 16)" by (rule Suc.IH)
    then show ?thesis by (simp add: list_less_snoc)
  next
    case False
    then have eq: "m div 16 = n div 16" using Suc.prems(1) by (simp add: div_le_mono le_antisym)
    then have "m mod 16 < n mod 16"
      using Suc.prems(1) by (metis div_mult_mod_eq nat_add_left_cancel_less)
    then have "[hex_digit (m mod 16)] < [hex_digit (n mod 16)]" by (simp add: hex_digit_less)
    then show ?thesis using eq by (simp add: list_less_same_prefix)
  qed
qed simp

end
