(* ===== verification/Activation_Data.thy ===== *)
theory Activation_Data
  imports Hex "HOL-Library.Word"
begin

text \<open>
  The data of \<open>internal/contracts/activation.go\<close>: activation of companies and peer lanes,
  comparability of metrics, and comparison bundles, with the content hashes that seal them.
\<close>

section \<open>Names\<close>

abbreviation CompanyActivationSchemaV1 :: string where
  "CompanyActivationSchemaV1 \<equiv> ''signalforge/company-activation/v1''"
abbreviation CompanyResearchProfileV1 :: string where
  "CompanyResearchProfileV1 \<equiv> ''signalforge/company-research-profile/v1''"
abbreviation PeerLaneSchemaV1 :: string where "PeerLaneSchemaV1 \<equiv> ''signalforge/peer-lane/v1''"
abbreviation ComparabilityRequestSchemaV1 :: string where
  "ComparabilityRequestSchemaV1 \<equiv> ''signalforge/metric-comparability-request/v1''"
abbreviation ComparabilityRequestSchemaV2 :: string where
  "ComparabilityRequestSchemaV2 \<equiv> ''signalforge/metric-comparability-request/v2''"
abbreviation ComparabilityReceiptSchemaV1 :: string where
  "ComparabilityReceiptSchemaV1 \<equiv> ''signalforge/metric-comparability-receipt/v1''"
abbreviation ComparabilityReceiptSchemaV2 :: string where
  "ComparabilityReceiptSchemaV2 \<equiv> ''signalforge/metric-comparability-receipt/v2''"
abbreviation ComparisonBundleSchemaV1 :: string where
  "ComparisonBundleSchemaV1 \<equiv> ''signalforge/comparison-bundle/v1''"
abbreviation TypedAbstentionSchemaV1 :: string where
  "TypedAbstentionSchemaV1 \<equiv> ''signalforge/typed-abstention/v1''"

abbreviation ActivationIdentityValidated :: string where "ActivationIdentityValidated \<equiv> ''identity_validated''"
abbreviation ActivationDataReady :: string where "ActivationDataReady \<equiv> ''data_ready''"
abbreviation ActivationMetricReady :: string where "ActivationMetricReady \<equiv> ''metric_ready''"
abbreviation ActivationResearchReady :: string where "ActivationResearchReady \<equiv> ''research_ready''"
abbreviation ActivationComparisonReady :: string where "ActivationComparisonReady \<equiv> ''comparison_ready''"
abbreviation ActivationLimited :: string where "ActivationLimited \<equiv> ''limited''"
abbreviation ActivationQuarantined :: string where "ActivationQuarantined \<equiv> ''quarantined''"

abbreviation ActivationScopeCompany :: string where "ActivationScopeCompany \<equiv> ''company''"
abbreviation ActivationScopePeerLane :: string where "ActivationScopePeerLane \<equiv> ''peer_lane''"

abbreviation AvailabilityCovered :: string where "AvailabilityCovered \<equiv> ''covered''"
abbreviation AvailabilityPartial :: string where "AvailabilityPartial \<equiv> ''partial''"
abbreviation AvailabilityUnknown :: string where "AvailabilityUnknown \<equiv> ''unknown''"
abbreviation AvailabilityNotApplicable :: string where "AvailabilityNotApplicable \<equiv> ''not_applicable''"
abbreviation AvailabilityMissing :: string where "AvailabilityMissing \<equiv> ''missing''"
abbreviation AvailabilityStale :: string where "AvailabilityStale \<equiv> ''stale''"
abbreviation AvailabilityNotComparable :: string where "AvailabilityNotComparable \<equiv> ''not_comparable''"
abbreviation AvailabilityQuarantined :: string where "AvailabilityQuarantined \<equiv> ''quarantined''"

abbreviation ComparisonComparable :: string where "ComparisonComparable \<equiv> ''comparable''"
abbreviation ComparisonComparableWithCaveat :: string where
  "ComparisonComparableWithCaveat \<equiv> ''comparable_with_caveat''"
abbreviation ComparisonContextOnly :: string where "ComparisonContextOnly \<equiv> ''context_only''"
abbreviation ComparisonNotComparable :: string where "ComparisonNotComparable \<equiv> ''not_comparable''"

section \<open>Records\<close>

record SecurityIdentity =
  si_security_id :: string
  si_ticker :: string
  si_exchange :: string
  si_share_class :: string
  si_primary :: bool

record CompanyActivation =
  ca_schema_version :: string
  ca_activation_id :: string
  ca_universe_id :: string
  ca_scope :: string
  ca_subject_id :: string
  ca_company_ids :: "string list"
  ca_previous_state :: string
  ca_state :: string
  ca_policy_version :: string
  ca_evidence_hashes :: "string list"
  ca_reason_codes :: "string list"
  ca_effective_as_of :: gotime
  ca_generated_at :: gotime
  ca_record_sha256 :: string

record MetricAvailability =
  ma_metric_id :: string
  ma_state :: string
  ma_reason_codes :: "string list"
  ma_evidence_hashes :: "string list"
  ma_available_at :: "gotime option"
  ma_fresh_until :: "gotime option"

record CompanyResearchProfile =
  crp_schema_version :: string
  crp_profile_id :: string
  crp_universe_id :: string
  crp_company_id :: string
  crp_cik :: string
  crp_display_name :: string
  crp_securities :: "SecurityIdentity list"
  crp_research_cluster :: string
  crp_peer_group :: string
  crp_research_role :: string
  crp_activation :: CompanyActivation
  crp_metrics :: "MetricAvailability list"
  crp_source_registry_sha256 :: string
  crp_policy_version :: string
  crp_as_of :: gotime
  crp_profile_sha256 :: string

record PeerLane =
  ln_schema_version :: string
  ln_lane_id :: string
  ln_universe_id :: string
  ln_company_ids :: "string list"
  ln_security_ids :: "string list"
  ln_comparison_type :: string
  ln_decision_question :: string
  ln_allowed_question_ids :: "string list"
  ln_allowed_metric_ids :: "string list"
  ln_policy_version :: string
  ln_evidence_hashes :: "string list"
  ln_enabled :: bool
  ln_as_of :: gotime
  ln_lane_sha256 :: string

record AccountingInputComparisonAuthority =
  aa_input_id :: string
  aa_canonical_input :: string
  aa_mapping_key :: string
  aa_taxonomy_concept :: string
  aa_accounting_perimeter :: string
  aa_disposition :: string
  aa_product_label :: string
  aa_pair_ranking_eligible :: bool

record MetricComparisonOperand =
  mo_company_id :: string
  mo_security_id :: string
  mo_source_observation_ids :: "string list"
  mo_filing_accessions :: "string list"
  mo_source_hashes :: "string list"
  mo_available_at :: gotime
  mo_retrieved_at :: gotime
  mo_canonical_metric_id :: string
  mo_metric_version :: string
  mo_taxonomy_concept :: string
  mo_extension_mapping_id :: string
  mo_value :: string
  mo_numerator :: string
  mo_denominator :: string
  mo_unit :: string
  mo_currency :: string
  mo_scale :: int
  mo_sign_policy :: string
  mo_dimensional_identity :: string
  mo_period_type :: string
  mo_fiscal_start :: "gotime option"
  mo_fiscal_end :: gotime
  mo_filing_date :: gotime
  mo_market_observation_date :: "gotime option"
  mo_accounting_perimeter :: string
  mo_accounting_inputs :: "AccountingInputComparisonAuthority list"
  mo_output_class :: string
  mo_product_label :: string
  mo_pair_ranking_eligible :: bool
  mo_definition_id :: string
  mo_restatement_state :: string
  mo_supersession_state :: string

record MetricComparabilityRequest =
  mq_schema_version :: string
  mq_request_id :: string
  mq_run_id :: string
  mq_lane_id :: string
  mq_as_of :: gotime
  mq_reviewer_policy_version :: string
  mq_operands :: "MetricComparisonOperand list"
  mq_request_sha256 :: string

record ComparabilityInvariant =
  cv_invariant_id :: string
  cv_passed :: bool
  cv_detail :: string

record MetricComparabilityReceipt =
  mr_schema_version :: string
  mr_receipt_id :: string
  mr_request_id :: string
  mr_run_id :: string
  mr_lane_id :: string
  mr_as_of :: gotime
  mr_operands :: "MetricComparisonOperand list"
  mr_disposition :: string
  mr_invariants :: "ComparabilityInvariant list"
  mr_required_caveat_ids :: "string list"
  mr_reason_codes :: "string list"
  mr_reviewer_policy_version :: string
  mr_request_sha256 :: string
  mr_generated_at :: gotime
  mr_receipt_sha256 :: string

record TypedAbstention =
  ta_schema_version :: string
  ta_abstention_id :: string
  ta_request_id :: string
  ta_run_id :: string
  ta_code :: string
  ta_message :: string
  ta_company_ids :: "string list"
  ta_metric_ids :: "string list"
  ta_evidence_refs :: "string list"
  ta_generated_at :: gotime

record ComparisonBundle =
  cb_schema_version :: string
  cb_bundle_id :: string
  cb_request_id :: string
  cb_run_id :: string
  cb_peer_lane :: PeerLane
  cb_activation_refs :: "string list"
  cb_receipts :: "MetricComparabilityReceipt list"
  cb_abstentions :: "TypedAbstention list"
  cb_released_metric_ids :: "string list"
  cb_generated_at :: gotime
  cb_bundle_sha256 :: string

section \<open>Content hashes\<close>

text \<open>
  \<open>structHash\<close> is the SHA-256 digest of the JSON text of a value: the digest, a 32 byte number,
  or the error of \<open>json.Marshal\<close>, is a parameter for each type; its hexadecimal form is not.
\<close>

type_synonym 'a hasher = "'a \<Rightarrow> go_error + 256 word"

definition structHash :: "'a hasher \<Rightarrow> 'a \<Rightarrow> go_error + string" where
  "structHash hash value = (case hash value of Inl err \<Rightarrow> Inl err | Inr digest \<Rightarrow> Inr (hex_fixed 64 (unat digest)))"

text \<open>\<open>hex.DecodeString\<close> fails on an odd length and on a byte that is no digit.\<close>

definition hex_decodes :: "string \<Rightarrow> bool" where
  "hex_decodes value \<longleftrightarrow> even (length value) \<and> list_all is_hex value"

definition validHash :: "string \<Rightarrow> bool" where
  "validHash value \<longleftrightarrow> length value = 64 \<and> to_lower value = value \<and> hex_decodes value"

definition validHashes :: "string list \<Rightarrow> bool" where
  "validHashes values \<longleftrightarrow> values \<noteq> [] \<and> list_all validHash values"

definition verifyStructHash :: "'a hasher \<Rightarrow> 'a \<Rightarrow> string \<Rightarrow> ('a \<Rightarrow> 'a) \<Rightarrow> go_error option" where
  "verifyStructHash hash value expected clear =
     (if \<not> validHash expected then Some (ErrorsNew ''record requires a lowercase SHA-256 content hash'')
      else (case structHash hash (clear value) of
          Inl err \<Rightarrow> Some err
        | Inr actual \<Rightarrow> fail_if (actual \<noteq> expected) (ErrorsNew ''record content hash does not match payload'')))"

text \<open>
  The \<open>Populate\<close> functions clear the hash field, hash, and set the field to the digest, the empty
  string if hashing failed.
\<close>

definition populate_hash :: "'a hasher \<Rightarrow> ((string \<Rightarrow> string) \<Rightarrow> 'a \<Rightarrow> 'a) \<Rightarrow> 'a \<Rightarrow> 'a \<times> go_error option" where
  "populate_hash hash update value =
     (let value = update (\<lambda>_. []) value in
      case structHash hash value of
        Inl err \<Rightarrow> (update (\<lambda>_. []) value, Some err)
      | Inr digest \<Rightarrow> (update (\<lambda>_. digest) value, None))"

end
