(* ===== verification/Run_Id.thy ===== *)
theory Run_Id
  imports Hex "HOL-Library.Word"
begin

unbundle bit_operations_syntax

text \<open>
  Package \<open>internal/runid\<close>: identifiers of runs, which are UUIDs of version 7 made from the
  time and random bytes. \<open>Timestamp\<close> reads the time back with \<open>fmt.Sscanf\<close>, whose verb
  \<open>%0wx\<close> skips white space, reads one to \<open>w\<close> digits of either case and leaves the rest.
\<close>

section \<open>Bytes\<close>

text \<open>Big-endian numbers, as \<open>binary.BigEndian\<close> and the shifts of the code read and write them.\<close>

definition be_value :: "8 word list \<Rightarrow> nat" where
  "be_value bytes = foldl (\<lambda>n b. 256 * n + unat b) 0 bytes"

fun be_bytes :: "nat \<Rightarrow> nat \<Rightarrow> 8 word list" where
  "be_bytes 0 n = []"
| "be_bytes (Suc k) n = be_bytes k (n div 256) @ [word_of_nat n]"

lemma be_value_snoc [simp]: "be_value (bs @ [b]) = 256 * be_value bs + unat b"
  by (simp add: be_value_def)

lemma be_value_Nil [simp]: "be_value [] = 0"
  by (simp add: be_value_def)

lemma be_bytes_value: "be_bytes (length bs) (be_value bs) = bs"
proof (induction bs rule: rev_induct)
  case (snoc b bs)
  have "unat b < 256" using unsigned_less [of b] by simp
  then have "(256 * be_value bs + unat b) div 256 = be_value bs" by simp
  moreover have zero: "(256 :: 8 word) = 0" by code_simp
  have "word_of_nat (256 * be_value bs + unat b) = b"
    unfolding of_nat_add of_nat_mult of_nat_numeral zero by simp
  ultimately show ?case using snoc by simp
qed simp

lemma be_value_less: "be_value bs < 256 ^ length bs"
proof (induction bs rule: rev_induct)
  case (snoc b bs)
  have "unat b < 256" using unsigned_less [of b] by simp
  with snoc show ?case by simp
qed simp

lemma length_be_bytes [simp]: "length (be_bytes k n) = k"
  by (induction k arbitrary: n) simp_all

section \<open>New\<close>

definition format_uuid :: "8 word list \<Rightarrow> string" where
  "format_uuid uuid = fmt_hex 8 (be_value (take 4 uuid)) @ ''-'' @
     fmt_hex 4 (be_value (take 2 (drop 4 uuid))) @ ''-'' @ fmt_hex 4 (be_value (take 2 (drop 6 uuid))) @ ''-'' @
     fmt_hex 4 (be_value (take 2 (drop 8 uuid))) @ ''-'' @ fmt_hex 12 (be_value (take 6 (drop 10 uuid)))"

definition unix_milli :: "gotime \<Rightarrow> int" where
  "unix_milli t = (t - unix_epoch) div 1000000"

definition time_bytes :: "64 word \<Rightarrow> 8 word list" where
  "time_bytes milliseconds = map (\<lambda>k. ucast (drop_bit k milliseconds)) [40, 32, 24, 16, 8, 0]"

text \<open>The ten random bytes that \<open>rand.Read\<close> fills in, or its error, are a parameter.\<close>

definition NewRunID :: "gotime \<Rightarrow> go_error + 8 word list \<Rightarrow> go_error + string" where
  "NewRunID now random =
     (case random of
        Inl err \<Rightarrow> Inl (Wrapf ''generate run ID: %w'' [] err)
      | Inr bytes \<Rightarrow>
          let uuid = time_bytes (word_of_int (unix_milli now)) @ bytes;
              uuid = uuid[6 := (uuid ! 6 AND 0x0f) OR 0x70];
              uuid = uuid[8 := (uuid ! 8 AND 0x3f) OR 0x80]
          in Inr (format_uuid uuid))"

section \<open>Timestamp\<close>

definition scan_space :: "string \<Rightarrow> go_error + string" where
  "scan_space s =
     (let rest = strip_any (filter (\<lambda>p. p \<noteq> [CHR 0x0A]) space_runes) s
      in if starts_with rest [CHR 0x0A] then Inl (ErrorsNew ''unexpected newline'') else Inr rest)"

definition scan_hex :: "nat \<Rightarrow> string \<Rightarrow> go_error + nat \<times> string" where
  "scan_hex w s = res_bind (scan_space s) (\<lambda>s.
     let digits = takeWhile is_hex (take w s) in
     if s = [] then Inl (Sentinel ''unexpected EOF'')
     else if digits = [] then Inl (ErrorsNew ''expected integer'')
     else Inr (hex_value digits, drop (length digits) s))"

definition scan_dash :: "string \<Rightarrow> go_error + string" where
  "scan_dash s =
     (case s of [] \<Rightarrow> Inl (Sentinel ''unexpected EOF'')
      | c # s \<Rightarrow> if c = CHR ''-'' then Inr s else Inl (ErrorsNew ''input does not match format''))"

definition scan_uuid :: "string \<Rightarrow> go_error + nat \<times> nat \<times> nat \<times> nat \<times> nat" where
  "scan_uuid s =
     res_bind (scan_hex 8 s) (\<lambda>(a, s). res_bind (scan_dash s) (\<lambda>s.
     res_bind (scan_hex 4 s) (\<lambda>(b, s). res_bind (scan_dash s) (\<lambda>s.
     res_bind (scan_hex 4 s) (\<lambda>(c, s). res_bind (scan_dash s) (\<lambda>s.
     res_bind (scan_hex 4 s) (\<lambda>(d, s). res_bind (scan_dash s) (\<lambda>s.
     res_bind (scan_hex 12 s) (\<lambda>(e, s). Inr (a, b, c, d, e))))))))))"

definition Timestamp :: "string \<Rightarrow> go_error + gotime" where
  "Timestamp value =
     (case scan_uuid value of
        Inl err \<Rightarrow> Inl (Wrapf ''parse run ID: %w'' [] err)
      | Inr (a, b, c, d, e) \<Rightarrow>
          let uuid = be_bytes 4 a @ be_bytes 2 b @ be_bytes 2 c @ be_bytes 2 d @ be_bytes 6 e
          in if drop_bit 4 (uuid ! 6) \<noteq> 7 \<or> drop_bit 6 (uuid ! 8) \<noteq> 2 then
               Inl (Errorf ''run ID is not UUIDv7'' [])
             else Inr (unix_epoch + int (be_value (take 6 uuid)) * 1000000))"

section \<open>Reading back what was written\<close>

lemma hex_not_space: "list_all (\<lambda>p. p \<noteq> [] \<and> \<not> is_hex (hd p)) space_runes"
  by code_simp

lemma scan_space_hex:
  assumes "is_hex c"
  shows "scan_space (c # s) = Inr (c # s)"
proof -
  have "\<not> starts_with (c # s) p" if "p \<in> set space_runes" for p
  proof
    assume "starts_with (c # s) p"
    moreover have "p \<noteq> [] \<and> \<not> is_hex (hd p)" using that hex_not_space by (simp add: list_all_iff)
    ultimately show False using assms by (auto simp: starts_with_iff Cons_eq_append_conv)
  qed
  then have "find (\<lambda>p. p \<noteq> [] \<and> starts_with (c # s) p) (filter (\<lambda>p. p \<noteq> [CHR 0x0A]) space_runes) = None"
    by (auto simp: find_None_iff)
  then have "strip_any (filter (\<lambda>p. p \<noteq> [CHR 0x0A]) space_runes) (c # s) = c # s"
    by (subst strip_any.simps) simp
  moreover have "\<not> is_hex (CHR 0x0A)" by code_simp
  ultimately show ?thesis using assms by (auto simp: scan_space_def starts_with_iff)
qed

lemma scan_hex_fixed:
  assumes "0 < w"
  shows "scan_hex w (hex_fixed w n @ rest) = Inr (n mod 16 ^ w, rest)"
proof -
  obtain c s where cs: "hex_fixed w n @ rest = c # s" "is_hex c"
    using assms hex_fixed_hex [of _ w n] by (cases "hex_fixed w n") (auto dest: arg_cong [of _ _ length])
  have "takeWhile is_hex (hex_fixed w n) = hex_fixed w n"
    using hex_fixed_hex by (intro takeWhile_eq_all_conv [THEN iffD2]) blast
  then have digits: "takeWhile is_hex (take w (hex_fixed w n @ rest)) = hex_fixed w n" by simp
  have "hex_fixed w n \<noteq> []" using assms by (auto dest: arg_cong [of _ _ length])
  then have ne: "(hex_fixed w n = []) = False" "(hex_fixed w n @ rest = []) = False" by simp_all
  have "scan_space (hex_fixed w n @ rest) = Inr (hex_fixed w n @ rest)"
    unfolding cs(1) by (rule scan_space_hex [OF cs(2)])
  then show ?thesis
    unfolding scan_hex_def Let_def
    by (simp only: res_bind.simps digits ne if_False hex_value_fixed length_hex_fixed) simp
qed

lemma scan_dash [simp]: "scan_dash (CHR ''-'' # s) = Inr s"
  by (simp add: scan_dash_def)

abbreviation bytes_at :: "nat \<Rightarrow> nat \<Rightarrow> 8 word list \<Rightarrow> 8 word list" where
  "bytes_at k n bytes \<equiv> take n (drop k bytes)"

lemma be_value_hex:
  assumes "length bs = k" and "0 < k"
  shows "fmt_hex (2 * k) (be_value bs) = hex_fixed (2 * k) (be_value bs)" and "be_value bs mod 16 ^ (2 * k) = be_value bs"
proof -
  have "be_value bs < 16 ^ (2 * k)" using be_value_less [of bs] assms by (simp add: power_mult)
  then show "fmt_hex (2 * k) (be_value bs) = hex_fixed (2 * k) (be_value bs)"
    and "be_value bs mod 16 ^ (2 * k) = be_value bs"
    using assms(2) by (simp_all add: fmt_hex_fixed)
qed

lemma format_uuid_hex:
  assumes "length uuid = 16"
  shows "format_uuid uuid = hex_fixed 8 (be_value (take 4 uuid)) @ ''-'' @
     hex_fixed 4 (be_value (bytes_at 4 2 uuid)) @ ''-'' @ hex_fixed 4 (be_value (bytes_at 6 2 uuid)) @ ''-'' @
     hex_fixed 4 (be_value (bytes_at 8 2 uuid)) @ ''-'' @ hex_fixed 12 (be_value (bytes_at 10 6 uuid))"
  using be_value_hex [of "take 4 uuid" 4] be_value_hex [of "bytes_at 4 2 uuid" 2]
    be_value_hex [of "bytes_at 6 2 uuid" 2] be_value_hex [of "bytes_at 8 2 uuid" 2]
    be_value_hex [of "bytes_at 10 6 uuid" 6] assms
  by (simp add: format_uuid_def)

lemma scan_format:
  assumes "length uuid = 16"
  shows "scan_uuid (format_uuid uuid @ suffix) = Inr (be_value (take 4 uuid), be_value (bytes_at 4 2 uuid),
    be_value (bytes_at 6 2 uuid), be_value (bytes_at 8 2 uuid), be_value (bytes_at 10 6 uuid))"
  using be_value_hex(2) [of "take 4 uuid" 4] be_value_hex(2) [of "bytes_at 4 2 uuid" 2]
    be_value_hex(2) [of "bytes_at 6 2 uuid" 2] be_value_hex(2) [of "bytes_at 8 2 uuid" 2]
    be_value_hex(2) [of "bytes_at 10 6 uuid" 6] assms
  by (simp add: scan_uuid_def format_uuid_hex scan_hex_fixed)

lemma bytes_split: "drop k xs = take n (drop k xs) @ drop (k + n) xs"
  by (metis append_take_drop_id drop_drop add.commute)

lemma be_bytes_all:
  assumes "length uuid = 16"
  shows "be_bytes 4 (be_value (take 4 uuid)) @ be_bytes 2 (be_value (bytes_at 4 2 uuid)) @
    be_bytes 2 (be_value (bytes_at 6 2 uuid)) @ be_bytes 2 (be_value (bytes_at 8 2 uuid)) @
    be_bytes 6 (be_value (bytes_at 10 6 uuid)) = uuid"
proof -
  have "uuid = take 4 uuid @ bytes_at 4 2 uuid @ bytes_at 6 2 uuid @ bytes_at 8 2 uuid @ bytes_at 10 6 uuid"
    using bytes_split [of 0 uuid 4] bytes_split [of 4 uuid 2] bytes_split [of 6 uuid 2] bytes_split [of 8 uuid 2] assms
    by (simp only: drop_0 add_0) simp
  then show ?thesis
    using be_bytes_value [of "take 4 uuid"] be_bytes_value [of "bytes_at 4 2 uuid"]
      be_bytes_value [of "bytes_at 6 2 uuid"] be_bytes_value [of "bytes_at 8 2 uuid"]
      be_bytes_value [of "bytes_at 10 6 uuid"] assms
    by simp
qed

section \<open>The time in an identifier\<close>

lemma be_value_time_bytes:
  assumes "0 \<le> m" and "m < 2 ^ 48"
  shows "be_value (time_bytes (word_of_int m)) = nat m"
proof -
  define n where "n = nat m"
  have n: "n < 2 ^ 48" using assms by (simp add: n_def nat_less_iff)
  have w: "unat (word_of_int m :: 64 word) = n"
    using assms by (simp add: n_def unsigned_of_int take_bit_int_eq_self)
  have byte: "unat (ucast (drop_bit k (word_of_int m :: 64 word)) :: 8 word) = n div 2 ^ k mod 256" for k
  proof -
    have "unat (drop_bit k (word_of_int m :: 64 word)) = drop_bit k (take_bit 64 n)"
      using w by (simp add: unsigned_drop_bit_eq)
    then show ?thesis using n by (simp add: unsigned_ucast_eq take_bit_eq_mod drop_bit_eq_div)
  qed
  have split: "n div 2 ^ k = 256 * (n div 2 ^ (k + 8)) + n div 2 ^ k mod 256" for k
    by (simp add: power_add div_mult2_eq)
  have "n div 2 ^ 48 = 0" using n by simp
  with split [of 0] split [of 8] split [of 16] split [of 24] split [of 32] split [of 40]
    byte [of 0] byte [of 8] byte [of 16] byte [of 24] byte [of 32] byte [of 40]
  show ?thesis by (simp add: time_bytes_def be_value_def flip: n_def)
qed

lemma version_bits:
  "drop_bit 4 ((x AND 0x0f) OR 0x70 :: 8 word) = 7" "drop_bit 6 ((x AND 0x3f) OR 0x80 :: 8 word) = 2"
proof -
  have z: "drop_bit 4 (0x0f :: 8 word) = 0" "drop_bit 6 (0x3f :: 8 word) = 0"
    "drop_bit 4 (0x70 :: 8 word) = 7" "drop_bit 6 (0x80 :: 8 word) = 2" by code_simp+
  show "drop_bit 4 ((x AND 0x0f) OR 0x70 :: 8 word) = 7" "drop_bit 6 ((x AND 0x3f) OR 0x80 :: 8 word) = 2"
    by (simp_all add: drop_bit_or drop_bit_and z)
qed

definition uuid_bytes :: "gotime \<Rightarrow> 8 word list \<Rightarrow> 8 word list" where
  "uuid_bytes now random =
     (let uuid = time_bytes (word_of_int (unix_milli now)) @ random;
          uuid = uuid[6 := (uuid ! 6 AND 0x0f) OR 0x70]
      in uuid[8 := (uuid ! 8 AND 0x3f) OR 0x80])"

lemma NewRunID_bytes: "NewRunID now (Inr random) = Inr (format_uuid (uuid_bytes now random))"
  by (simp add: NewRunID_def uuid_bytes_def Let_def)

lemma uuid_bytes_facts:
  assumes "length random = 10"
  shows "length (uuid_bytes now random) = 16" and "drop_bit 4 (uuid_bytes now random ! 6) = 7"
    and "drop_bit 6 (uuid_bytes now random ! 8) = 2"
    and "take 6 (uuid_bytes now random) = time_bytes (word_of_int (unix_milli now))"
  using assms by (simp_all add: uuid_bytes_def Let_def time_bytes_def version_bits)

lemma Timestamp_format:
  assumes "length uuid = 16" and "drop_bit 4 (uuid ! 6) = 7" and "drop_bit 6 (uuid ! 8) = 2"
  shows "Timestamp (format_uuid uuid @ suffix) = Inr (unix_epoch + int (be_value (take 6 uuid)) * 1000000)"
  using scan_format [OF assms(1), of suffix] be_bytes_all [OF assms(1)] assms(2,3)
  unfolding Timestamp_def by (simp add: Let_def)

lemma length_format_uuid: "length uuid = 16 \<Longrightarrow> length (format_uuid uuid) = 36"
  by (simp add: format_uuid_hex)

lemma format_uuid_prefix:
  assumes "length uuid = 16"
  shows "\<exists>rest. format_uuid uuid = hex_fixed 8 (be_value (take 6 uuid) div 65536) @ ''-'' @
    hex_fixed 4 (be_value (take 6 uuid) mod 65536) @ rest"
proof -
  have append: "be_value (xs @ ys) = be_value xs * 256 ^ length ys + be_value ys" for xs ys
    by (induction ys rule: rev_induct) (simp_all flip: append_assoc)
  have "take 6 uuid = take 4 uuid @ bytes_at 4 2 uuid" using take_add [of 4 2 uuid] by simp
  moreover have "be_value (bytes_at 4 2 uuid) < 65536"
    using be_value_less [of "bytes_at 4 2 uuid"] assms by simp
  ultimately have "be_value (take 6 uuid) div 65536 = be_value (take 4 uuid)"
    "be_value (take 6 uuid) mod 65536 = be_value (bytes_at 4 2 uuid)"
    using assms by (simp_all add: append)
  then show ?thesis unfolding format_uuid_hex [OF assms] by auto
qed

section \<open>Properties\<close>

text \<open>
  C34: The time of a run is read back from its identifier to the millisecond, whatever the random
  bytes: \<open>New\<close> followed by \<open>Timestamp\<close> succeeds for every instant from 1970 that fits the 48
  bits of the identifier, and the identifier has 36 characters.
\<close>

theorem run_id_roundtrip:
  assumes "length random = 10" and "0 \<le> unix_milli now" and "unix_milli now < 2 ^ 48"
  shows "\<exists>value. NewRunID now (Inr random) = Inr value \<and> length value = 36 \<and>
    Timestamp value = Inr (unix_epoch + unix_milli now * 1000000)"
  using Timestamp_format [of "uuid_bytes now random" "[]"] uuid_bytes_facts [OF assms(1), of now]
    be_value_time_bytes [OF assms(2,3)] assms(2) length_format_uuid
  by (simp add: NewRunID_bytes)

theorem run_id_roundtrip_witness:
  "\<exists>value. NewRunID (unix_epoch + 1500000) (Inr (replicate 10 255)) = Inr value \<and>
    Timestamp value = Inr (unix_epoch + 1000000)"
  using run_id_roundtrip [of "replicate 10 255" "unix_epoch + 1500000"] by (auto simp: unix_milli_def)

text \<open>
  Identifiers of runs sort by time: of two instants that differ in their millisecond the
  earlier one has the smaller identifier, whatever the random bytes.
\<close>

theorem run_ids_sort_by_time:
  assumes "length random = 10" and "length random' = 10"
    and "0 \<le> unix_milli now" and "unix_milli now < unix_milli later" and "unix_milli later < 2 ^ 48"
    and "NewRunID now (Inr random) = Inr value" and "NewRunID later (Inr random') = Inr value'"
  shows "value < value'"
proof -
  let ?m = "nat (unix_milli now)" and ?n = "nat (unix_milli later)"
  have v: "value = format_uuid (uuid_bytes now random)" "value' = format_uuid (uuid_bytes later random')"
    using assms(6,7) by (simp_all add: NewRunID_bytes)
  have "be_value (take 6 (uuid_bytes now random)) = ?m" "be_value (take 6 (uuid_bytes later random')) = ?n"
    using assms be_value_time_bytes uuid_bytes_facts(4) by simp_all
  with format_uuid_prefix [OF uuid_bytes_facts(1) [OF assms(1)], of now]
    format_uuid_prefix [OF uuid_bytes_facts(1) [OF assms(2)], of later]
  obtain r r' where r: "value = hex_fixed 8 (?m div 65536) @ ''-'' @ hex_fixed 4 (?m mod 65536) @ r"
    "value' = hex_fixed 8 (?n div 65536) @ ''-'' @ hex_fixed 4 (?n mod 65536) @ r'"
    unfolding v by metis
  have mn: "?m < ?n" "?n < 2 ^ 48" using assms by (simp_all add: nat_less_iff)
  show ?thesis
  proof (cases "?m div 65536 < ?n div 65536")
    case True
    moreover have "?n div 65536 < 16 ^ 8" using mn(2) by simp
    ultimately have "hex_fixed 8 (?m div 65536) < hex_fixed 8 (?n div 65536)" by (rule hex_fixed_less)
    then show ?thesis unfolding r by (rule list_less_snoc [rotated]) simp
  next
    case False
    moreover have "?m div 65536 \<le> ?n div 65536" by (intro div_le_mono) (use mn(1) in linarith)
    ultimately have eq: "?m div 65536 = ?n div 65536" by simp
    then have "?m mod 65536 < ?n mod 65536" using mn(1) by (metis div_mult_mod_eq nat_add_left_cancel_less)
    then have "hex_fixed 4 (?m mod 65536) < hex_fixed 4 (?n mod 65536)" by (rule hex_fixed_less) simp
    then have "hex_fixed 4 (?m mod 65536) @ r < hex_fixed 4 (?n mod 65536) @ r'"
      by (rule list_less_snoc [rotated]) simp
    then show ?thesis unfolding r eq by (intro list_less_same_prefix)
  qed
qed

theorem run_ids_sort_by_time_witness:
  "\<exists>value value'. NewRunID (unix_epoch + 5000000) (Inr (replicate 10 255)) = Inr value \<and>
    NewRunID (unix_epoch + 6000000) (Inr (replicate 10 0)) = Inr value' \<and> value < value'"
  using run_ids_sort_by_time [of "replicate 10 255" "replicate 10 0" "unix_epoch + 5000000" "unix_epoch + 6000000"]
  by (simp add: unix_milli_def NewRunID_bytes)

text \<open>
  A run identifier that \<open>Timestamp\<close> accepts never has a time before 1970 or beyond the 48
  bits of milliseconds, and its version and variant bits are those of a UUID of version 7.
\<close>

theorem run_id_time_bounds:
  assumes "Timestamp value = Inr t"
  shows "unix_epoch \<le> t \<and> t < unix_epoch + 2 ^ 48 * 1000000 \<and> (t - unix_epoch) mod 1000000 = 0"
proof -
  obtain bytes where bytes: "length bytes = 16" "t = unix_epoch + int (be_value (take 6 bytes)) * 1000000"
  proof -
    obtain a b c d e where "scan_uuid value = Inr (a, b, c, d, e)"
      using assms by (cases "scan_uuid value") (auto simp: Timestamp_def)
    with assms that [of "be_bytes 4 a @ be_bytes 2 b @ be_bytes 2 c @ be_bytes 2 d @ be_bytes 6 e"]
    show thesis by (simp add: Timestamp_def Let_def split: if_splits)
  qed
  moreover have "be_value (take 6 bytes) < 2 ^ 48" using be_value_less [of "take 6 bytes"] bytes(1) by simp
  then have "int (be_value (take 6 bytes)) < 2 ^ 48" by simp
  ultimately show ?thesis by simp
qed

theorem run_id_time_bounds_witness:
  "\<exists>value t. Timestamp value = Inr t \<and> t < unix_epoch + 2 ^ 48 * 1000000"
proof -
  let ?uuid = "uuid_bytes unix_epoch (replicate 10 0)"
  have "Timestamp (format_uuid ?uuid @ []) = Inr (unix_epoch + int (be_value (take 6 ?uuid)) * 1000000)"
    by (rule Timestamp_format) (simp_all add: uuid_bytes_facts)
  from run_id_time_bounds [OF this] this show ?thesis by blast
qed

text \<open>
  \<open>Timestamp\<close> does not look past the digits it needs: whatever follows an identifier, the
  result is the same, so a value that only starts with an identifier is accepted as one.
\<close>

theorem run_id_suffix_ignored:
  assumes "length random = 10" and "NewRunID now (Inr random) = Inr value"
  shows "Timestamp (value @ suffix) = Timestamp value"
  using Timestamp_format [of "uuid_bytes now random" suffix] Timestamp_format [of "uuid_bytes now random" "[]"]
    uuid_bytes_facts [OF assms(1), of now] assms(2)
  by (simp add: NewRunID_bytes)

theorem run_id_suffix_ignored_witness:
  "\<exists>value. NewRunID unix_epoch (Inr (replicate 10 0)) = Inr value \<and>
    Timestamp (value @ ''/../secret'') = Timestamp value"
  using run_id_suffix_ignored [of "replicate 10 0" unix_epoch] by (simp add: NewRunID_bytes)

end
