(* ===== verification/Evidence_Validate.thy ===== *)
theory Evidence_Validate
  imports Contracts_Validate Run_Id
begin

text \<open>
  The validators of \<open>internal/contracts/validate_evidence.go\<close>: evidence manifests, benchmark
  rows, research traces and demo evidence.
\<close>

section \<open>Digests and run identifiers\<close>

text \<open>The pattern \<open>^[a-f0-9]{64}$\<close>.\<close>

definition sha256Pattern :: "string \<Rightarrow> bool" where
  "sha256Pattern value \<longleftrightarrow> length value = 64 \<and> list_all is_lower_hex value"

definition validateRunID :: "string \<Rightarrow> go_error option" where
  "validateRunID value =
     (case Timestamp value of
        Inl err \<Rightarrow> Some (Wrapf ''invalid run_id: %w'' [] err)
      | Inr time \<Rightarrow> None)"

lemma validateRunID_None [check_simps]: "validateRunID value = None \<longleftrightarrow> (\<exists>t. Timestamp value = Inr t)"
  by (auto simp: validateRunID_def split: sum.splits)

section \<open>Manifests, benchmarks and demos\<close>

definition check_artifacts :: "EvidenceArtifact list \<Rightarrow> go_error option" where
  "check_artifacts artifacts = scan_unique
     (\<lambda>_ artifact. fail_if (ea_artifact_id artifact = [] \<or> ea_kind artifact = [] \<or> ea_path artifact = [] \<or>
          \<not> sha256Pattern (ea_sha256 artifact)) (Errorf ''invalid artifact %q'' [FStr (ea_artifact_id artifact)]))
     ea_artifact_id
     (\<lambda>_ artifact. Errorf ''duplicate artifact %q'' [FStr (ea_artifact_id artifact)])
     no_check artifacts"

definition ValidateEvidenceManifest :: "EvidenceManifest \<Rightarrow> go_error option" where
  "ValidateEvidenceManifest manifest = first_err
     [fail_if (em_schema_version manifest \<noteq> SchemaVersionV1)
        (Errorf ''unsupported schema_version %q'' [FStr (em_schema_version manifest)]),
      validateRunID (em_run_id manifest),
      fail_if (em_code_commit manifest = [] \<or> \<not> sha256Pattern (em_code_tree_sha256 manifest) \<or>
          is_zero_time (em_created_at manifest) \<or> ri_os (em_runtime manifest) = [] \<or>
          ri_architecture (em_runtime manifest) = [] \<or> em_artifacts manifest = [])
        (ErrorsNew ''evidence manifest is incomplete''),
      fail_if (\<not> sha256Pattern (em_manifest_sha256 manifest))
        (ErrorsNew ''manifest_sha256 must be a lowercase SHA-256 digest''),
      check_artifacts (em_artifacts manifest),
      range_err (\<lambda>_ model. fail_if (mi_model_id model = [] \<or> mi_revision model = [] \<or>
           mi_quantization model = [] \<or> mi_runtime model = [] \<or> \<not> sha256Pattern (mi_artifact_sha256 model))
         (Errorf ''invalid model identity %q'' [FStr (mi_model_id model)])) (em_models manifest),
      range_err (\<lambda>_ dataset. fail_if (di_dataset_id dataset = [] \<or> di_version dataset = [] \<or>
           \<not> sha256Pattern (di_manifest_sha256 dataset))
         (Errorf ''invalid dataset identity %q'' [FStr (di_dataset_id dataset)])) (em_datasets manifest)]"

definition ValidateBenchmarkRow :: "BenchmarkRow \<Rightarrow> go_error option" where
  "ValidateBenchmarkRow row = first_err
     [fail_if (br_schema_version row \<noteq> SchemaVersionV1 \<or> validateRunID (br_run_id row) \<noteq> None)
        (ErrorsNew ''benchmark row has invalid schema or run ID''),
      fail_if (br_benchmark_id row = [] \<or> br_case_id row = [] \<or> br_workload_class row = [] \<or>
          is_zero_time (br_started_at row) \<or> float_lt (br_duration_ms row) (Finite 0) \<or> br_artifact_refs row = [])
        (ErrorsNew ''benchmark row is incomplete'')]"

definition ValidateDemoEvidence :: "DemoEvidence \<Rightarrow> go_error option" where
  "ValidateDemoEvidence evidence = first_err
     [fail_if (de_schema_version evidence \<noteq> SchemaVersionV1)
        (Errorf ''unsupported schema_version %q'' [FStr (de_schema_version evidence)]),
      validateRunID (de_run_id evidence),
      fail_if (de_demo_id evidence = [] \<or> de_scenario_id evidence = [] \<or> is_zero_time (de_recorded_at evidence) \<or>
          de_trace_ref evidence = [] \<or> de_manifest_ref evidence = [] \<or> de_claims evidence = [])
        (ErrorsNew ''demo evidence is incomplete''),
      fail_if (de_video_sha256 evidence \<noteq> [] \<and> \<not> sha256Pattern (de_video_sha256 evidence))
        (ErrorsNew ''video_sha256 is invalid'')]"

section \<open>Research traces\<close>

text \<open>
  The metadata of an event is a map; the order in which its keys are visited is that of the list,
  which only decides the key that is named in the error.
\<close>

definition unsafe_key :: "string \<Rightarrow> bool" where
  "unsafe_key key =
     (let lower = to_lower key in
      str_contains lower ''secret'' \<or> str_contains lower ''token'' \<or>
      str_contains lower ''password'' \<or> str_contains lower ''api_key'')"

definition check_events :: "ResearchTrace \<Rightarrow> go_error option" where
  "check_events trace = scan_unique
     (\<lambda>_ event. fail_if (te_event_id event = [] \<or> te_run_id event \<noteq> rt_run_id trace \<or>
          te_component_id event = [] \<or> te_event_type event = [] \<or> te_status event = [] \<or>
          is_zero_time (te_occurred_at event)) (Errorf ''invalid trace event %q'' [FStr (te_event_id event)]))
     te_event_id
     (\<lambda>_ event. Errorf ''duplicate trace event %q'' [FStr (te_event_id event)])
     (\<lambda>_ event. range_err (\<lambda>_ (key, value).
        fail_if (unsafe_key key) (Errorf ''unsafe trace metadata key %q'' [FStr key])) (te_safe_metadata event))
     (rt_events trace)"

definition ValidateResearchTrace :: "ResearchTrace \<Rightarrow> go_error option" where
  "ValidateResearchTrace trace = first_err
     [fail_if (rt_schema_version trace \<noteq> SchemaVersionV1)
        (Errorf ''unsupported schema_version %q'' [FStr (rt_schema_version trace)]),
      validateRunID (rt_run_id trace),
      fail_if (rt_request_id trace = [] \<or> is_zero_time (rt_started_at trace))
        (ErrorsNew ''research trace is incomplete''),
      fail_if (rt_status trace \<notin> {''running'', ''success'', ''failure'', ''cancelled''})
        (Errorf ''invalid trace status %q'' [FStr (rt_status trace)]),
      fail_if (rt_status trace \<noteq> ''running'' \<and> rt_completed_at trace = None)
        (ErrorsNew ''completed trace requires completed_at''),
      check_events trace]"

section \<open>What the validators accept\<close>

lemma check_artifacts_None [check_simps]:
  "check_artifacts artifacts = None \<longleftrightarrow>
     (\<forall>a \<in> set artifacts. ea_artifact_id a \<noteq> [] \<and> ea_kind a \<noteq> [] \<and> ea_path a \<noteq> [] \<and> sha256Pattern (ea_sha256 a)) \<and>
     distinct (map ea_artifact_id artifacts)"
  unfolding check_artifacts_def
  by (subst scan_unique_None [where P = "\<lambda>a. ea_artifact_id a \<noteq> [] \<and> ea_kind a \<noteq> [] \<and> ea_path a \<noteq> [] \<and>
      sha256Pattern (ea_sha256 a)" and Q = "\<lambda>_. True"]) auto

lemma models_None [check_simps]:
  "range_err (\<lambda>_ x. fail_if (P x) (e x)) xs = None \<longleftrightarrow> list_all (\<lambda>x. \<not> P x) xs"
  unfolding list_all_iff by (rule range_err_None_uniform) simp

lemma check_events_None [check_simps]:
  "check_events trace = None \<longleftrightarrow>
     (\<forall>e \<in> set (rt_events trace). te_event_id e \<noteq> [] \<and> te_run_id e = rt_run_id trace \<and>
        te_component_id e \<noteq> [] \<and> te_event_type e \<noteq> [] \<and> te_status e \<noteq> [] \<and> te_occurred_at e \<noteq> 0 \<and>
        list_all (\<lambda>(key, value). \<not> unsafe_key key) (te_safe_metadata e)) \<and>
     distinct (map te_event_id (rt_events trace))"
proof -
  have keys: "range_err (\<lambda>_ (key, value). fail_if (unsafe_key key)
      (Errorf ''unsafe trace metadata key %q'' [FStr key])) ms = None \<longleftrightarrow>
    list_all (\<lambda>(key, value). \<not> unsafe_key key) ms" for ms :: "(string \<times> string) list"
    unfolding list_all_iff by (rule range_err_None_uniform) auto
  show ?thesis
    unfolding check_events_def
    by (subst scan_unique_None [where P = "\<lambda>e. te_event_id e \<noteq> [] \<and> te_run_id e = rt_run_id trace \<and>
        te_component_id e \<noteq> [] \<and> te_event_type e \<noteq> [] \<and> te_status e \<noteq> [] \<and> te_occurred_at e \<noteq> 0"
        and Q = "\<lambda>e. list_all (\<lambda>(key, value). \<not> unsafe_key key) (te_safe_metadata e)"])
      (auto simp: keys)
qed

text \<open>
  A research trace that is accepted belongs to one run and leaks nothing by its keys: every
  event names the run and has an identifier of its own, and no metadata key contains
  \<open>secret\<close>, \<open>token\<close>, \<open>password\<close> or \<open>api_key\<close> in any case.
\<close>

theorem accepted_trace_is_safe:
  assumes "ValidateResearchTrace trace = None" and "event \<in> set (rt_events trace)"
    and "(key, value) \<in> set (te_safe_metadata event)" and "word \<in> {''secret'', ''token'', ''password'', ''api_key''}"
  shows "\<not> str_contains (to_lower key) word \<and> te_run_id event = rt_run_id trace \<and>
    distinct (map te_event_id (rt_events trace)) \<and> (\<exists>t. Timestamp (rt_run_id trace) = Inr t)"
proof -
  have "check_events trace = None" and run: "\<exists>t. Timestamp (rt_run_id trace) = Inr t"
    using assms(1) by (simp_all add: ValidateResearchTrace_def validateRunID_None)
  then have "distinct (map te_event_id (rt_events trace))" "te_run_id event = rt_run_id trace" "\<not> unsafe_key key"
    using assms(2,3) by (auto simp: check_events_None list_all_iff)
  with run assms(4) show ?thesis by (auto simp: unsafe_key_def Let_def)
qed

text \<open>
  An accepted evidence manifest is fully content-addressed: the code tree, the manifest, every
  artifact, model and dataset have a lowercase SHA-256 digest, and artifact identifiers are unique.
\<close>

theorem accepted_manifest_is_content_addressed:
  assumes "ValidateEvidenceManifest manifest = None"
  shows "sha256Pattern (em_code_tree_sha256 manifest) \<and> sha256Pattern (em_manifest_sha256 manifest) \<and>
    list_all (\<lambda>a. sha256Pattern (ea_sha256 a)) (em_artifacts manifest) \<and>
    list_all (\<lambda>m. sha256Pattern (mi_artifact_sha256 m)) (em_models manifest) \<and>
    list_all (\<lambda>d. sha256Pattern (di_manifest_sha256 d)) (em_datasets manifest) \<and>
    distinct (map ea_artifact_id (em_artifacts manifest)) \<and> em_artifacts manifest \<noteq> []"
  using assms by (auto simp: ValidateEvidenceManifest_def check_artifacts_None models_None list_all_iff)

section \<open>Samples\<close>

definition sample_run_id :: string where
  "sample_run_id = format_uuid (uuid_bytes unix_epoch (replicate 10 0))"

lemma sample_run_id_valid: "validateRunID sample_run_id = None"
  using Timestamp_format [of "uuid_bytes unix_epoch (replicate 10 0)" "[]"]
  by (simp add: sample_run_id_def validateRunID_None uuid_bytes_facts)

definition sample_trace :: ResearchTrace where
  "sample_trace = \<lparr>rt_schema_version = SchemaVersionV1, rt_run_id = sample_run_id, rt_request_id = ''request-1'',
     rt_started_at = 1, rt_completed_at = Some 2, rt_status = ''success'',
     rt_events = [\<lparr>te_event_id = ''event-1'', te_run_id = sample_run_id, te_parent_id = [],
       te_component_id = ''runtime'', te_artifact_id = [], te_event_type = ''run'', te_status = ''completed'',
       te_occurred_at = 2, te_duration_ms = 1, te_safe_metadata = [(''wave'', ''1'')]\<rparr>]\<rparr>"

theorem accepted_trace_is_safe_witness: "\<not> str_contains (to_lower ''wave'') ''token''"
proof -
  have "\<not> unsafe_key ''wave''" by code_simp
  then have "check_events sample_trace = None" by (simp add: check_events_None sample_trace_def)
  then have valid: "ValidateResearchTrace sample_trace = None"
    using sample_run_id_valid by (simp add: ValidateResearchTrace_def) (simp add: sample_trace_def)
  have "hd (rt_events sample_trace) \<in> set (rt_events sample_trace)"
    "(''wave'', ''1'') \<in> set (te_safe_metadata (hd (rt_events sample_trace)))"
    by (simp_all add: sample_trace_def)
  from accepted_trace_is_safe [OF valid this, of "''token''"] show ?thesis by simp
qed

definition sample_digest :: string where
  "sample_digest = replicate 64 (CHR ''a'')"

definition sample_manifest :: EvidenceManifest where
  "sample_manifest = \<lparr>em_schema_version = SchemaVersionV1, em_run_id = sample_run_id, em_code_commit = ''commit'',
     em_code_tree_sha256 = sample_digest, em_code_dirty = False, em_created_at = 1,
     em_runtime = \<lparr>ri_os = ''linux'', ri_architecture = ''amd64'', ri_go_version = [], ri_python_version = [],
       ri_container_image = [], ri_rocm_version = [], ri_engine_version = []\<rparr>, em_gpu = None, em_models = [],
     em_datasets = [], em_artifacts = [\<lparr>ea_artifact_id = ''artifact-1'', ea_kind = ''report'', ea_path = ''path'',
       ea_sha256 = sample_digest, ea_metrics = []\<rparr>], em_manifest_sha256 = sample_digest\<rparr>"

theorem accepted_manifest_is_content_addressed_witness:
  "list_all (\<lambda>a. sha256Pattern (ea_sha256 a)) (em_artifacts sample_manifest)"
proof -
  have digest: "sha256Pattern sample_digest" by code_simp
  have fields: "validateRunID (em_run_id sample_manifest) = None" "check_artifacts (em_artifacts sample_manifest) = None"
    using sample_run_id_valid digest by (simp_all add: sample_manifest_def check_artifacts_None)
  have "ValidateEvidenceManifest sample_manifest = None"
    unfolding ValidateEvidenceManifest_def
    using fields digest by (simp add: models_None) (simp add: sample_manifest_def)
  then show ?thesis using accepted_manifest_is_content_addressed by blast
qed

end
