(* ===== verification/Activation_Validate.thy ===== *)
theory Activation_Validate
  imports Activation_Data Evidence_Validate
begin

text \<open>
  The validators of \<open>internal/contracts/activation.go\<close>, in the order of the code's checks: the
  activation state machine, research profiles, peer lanes, comparability requests and receipts,
  and comparison bundles.
\<close>

section \<open>Hashing functions\<close>

record hashers =
  hs_activation :: "CompanyActivation hasher"
  hs_profile :: "CompanyResearchProfile hasher"
  hs_lane :: "PeerLane hasher"
  hs_request :: "MetricComparabilityRequest hasher"
  hs_receipt :: "MetricComparabilityReceipt hasher"
  hs_bundle :: "ComparisonBundle hasher"

definition PopulateCompanyActivationHash :: "hashers \<Rightarrow> CompanyActivation \<Rightarrow> CompanyActivation \<times> go_error option" where
  "PopulateCompanyActivationHash H = populate_hash (hs_activation H) ca_record_sha256_update"

definition PopulateCompanyResearchProfileHash ::
  "hashers \<Rightarrow> CompanyResearchProfile \<Rightarrow> CompanyResearchProfile \<times> go_error option" where
  "PopulateCompanyResearchProfileHash H = populate_hash (hs_profile H) crp_profile_sha256_update"

definition PopulatePeerLaneHash :: "hashers \<Rightarrow> PeerLane \<Rightarrow> PeerLane \<times> go_error option" where
  "PopulatePeerLaneHash H = populate_hash (hs_lane H) ln_lane_sha256_update"

definition PopulateMetricComparabilityRequestHash ::
  "hashers \<Rightarrow> MetricComparabilityRequest \<Rightarrow> MetricComparabilityRequest \<times> go_error option" where
  "PopulateMetricComparabilityRequestHash H = populate_hash (hs_request H) mq_request_sha256_update"

definition PopulateMetricComparabilityReceiptHash ::
  "hashers \<Rightarrow> MetricComparabilityReceipt \<Rightarrow> MetricComparabilityReceipt \<times> go_error option" where
  "PopulateMetricComparabilityReceiptHash H = populate_hash (hs_receipt H) mr_receipt_sha256_update"

definition PopulateComparisonBundleHash :: "hashers \<Rightarrow> ComparisonBundle \<Rightarrow> ComparisonBundle \<times> go_error option" where
  "PopulateComparisonBundleHash H = populate_hash (hs_bundle H) cb_bundle_sha256_update"

section \<open>Small predicates\<close>

definition validActivationState :: "string \<Rightarrow> bool" where
  "validActivationState state \<longleftrightarrow> state \<in> set [ActivationIdentityValidated, ActivationDataReady,
     ActivationMetricReady, ActivationResearchReady, ActivationComparisonReady, ActivationLimited,
     ActivationQuarantined]"

definition validActivationScope :: "string \<Rightarrow> bool" where
  "validActivationScope scope \<longleftrightarrow> scope = ActivationScopeCompany \<or> scope = ActivationScopePeerLane"

definition validAvailabilityState :: "string \<Rightarrow> bool" where
  "validAvailabilityState state \<longleftrightarrow> state \<in> set [AvailabilityCovered, AvailabilityPartial, AvailabilityUnknown,
     AvailabilityNotApplicable, AvailabilityMissing, AvailabilityStale, AvailabilityNotComparable,
     AvailabilityQuarantined]"

fun unique_non_empty_from :: "string list \<Rightarrow> string list \<Rightarrow> bool" where
  "unique_non_empty_from seen [] = True"
| "unique_non_empty_from seen (value # values) =
     (if blank value \<or> value \<in> set seen then False else unique_non_empty_from (value # seen) values)"

definition allUniqueNonEmpty :: "string list \<Rightarrow> bool" where
  "allUniqueNonEmpty values = unique_non_empty_from [] values"

lemma unique_non_empty_from_iff:
  "unique_non_empty_from seen values \<longleftrightarrow> (\<forall>v \<in> set values. \<not> blank v) \<and> distinct values \<and> set values \<inter> set seen = {}"
  by (induction "values" arbitrary: seen) auto

lemma allUniqueNonEmpty_iff [check_simps]:
  "allUniqueNonEmpty values \<longleftrightarrow> (\<forall>v \<in> set values. \<not> blank v) \<and> distinct values"
  by (simp add: allUniqueNonEmpty_def unique_non_empty_from_iff)

section \<open>The activation state machine\<close>

text \<open>
  \<open>allowed[from]\<close> is a map lookup: the empty state for every state the map does not have.
\<close>

definition allowed_transition :: "string \<Rightarrow> string" where
  "allowed_transition from_state =
     (if from_state = ActivationIdentityValidated then ActivationDataReady
      else if from_state = ActivationDataReady then ActivationMetricReady
      else if from_state = ActivationMetricReady then ActivationResearchReady
      else if from_state = ActivationResearchReady then ActivationComparisonReady
      else if from_state = ActivationLimited then ActivationIdentityValidated
      else [])"

definition ValidActivationTransition :: "string \<Rightarrow> string \<Rightarrow> bool" where
  "ValidActivationTransition from_state to_state =
     (if from_state = to_state then True
      else if to_state = ActivationLimited \<or> to_state = ActivationQuarantined then validActivationState from_state
      else allowed_transition from_state = to_state)"

definition isPromotion :: "string \<Rightarrow> string \<Rightarrow> bool" where
  "isPromotion from_state to_state \<longleftrightarrow>
     (if from_state = [] then to_state \<noteq> ActivationLimited \<and> to_state \<noteq> ActivationQuarantined
      else from_state \<noteq> to_state \<and> to_state \<noteq> ActivationLimited \<and> to_state \<noteq> ActivationQuarantined)"

definition ValidateCompanyActivation :: "hashers \<Rightarrow> CompanyActivation \<Rightarrow> go_error option" where
  "ValidateCompanyActivation H activation = first_err
     [fail_if (ca_schema_version activation \<noteq> CompanyActivationSchemaV1 \<or> ca_activation_id activation = [] \<or>
          ca_universe_id activation = [] \<or> ca_subject_id activation = [] \<or> ca_policy_version activation = [])
        (ErrorsNew ''company activation envelope is incomplete''),
      fail_if (is_zero_time (ca_effective_as_of activation) \<or> is_zero_time (ca_generated_at activation) \<or>
          time_before (ca_generated_at activation) (ca_effective_as_of activation))
        (ErrorsNew ''company activation timestamps are invalid''),
      fail_if (\<not> validActivationState (ca_state activation) \<or> \<not> validActivationScope (ca_scope activation))
        (ErrorsNew ''company activation state or scope is invalid''),
      fail_if (ca_scope activation = ActivationScopeCompany \<and> length (ca_company_ids activation) \<noteq> 1)
        (ErrorsNew ''company activation requires exactly one company''),
      fail_if (ca_scope activation = ActivationScopePeerLane \<and> length (ca_company_ids activation) \<noteq> 2)
        (ErrorsNew ''peer-lane activation requires exactly two companies''),
      fail_if (\<not> allUniqueNonEmpty (ca_company_ids activation))
        (ErrorsNew ''company activation contains duplicate or empty company IDs''),
      fail_if (ca_previous_state activation \<noteq> [] \<and>
          \<not> ValidActivationTransition (ca_previous_state activation) (ca_state activation))
        (Errorf ''illegal activation transition %q -> %q''
          [FStr (ca_previous_state activation), FStr (ca_state activation)]),
      fail_if (isPromotion (ca_previous_state activation) (ca_state activation) \<and>
          \<not> validHashes (ca_evidence_hashes activation))
        (ErrorsNew ''activation promotion requires valid evidence hashes''),
      fail_if ((ca_state activation = ActivationLimited \<or> ca_state activation = ActivationQuarantined) \<and>
          ca_reason_codes activation = [])
        (ErrorsNew ''limited or quarantined activation requires reason codes''),
      verifyStructHash (hs_activation H) activation (ca_record_sha256 activation)
        (\<lambda>value. value\<lparr>ca_record_sha256 := []\<rparr>)]"

section \<open>Profiles and lanes\<close>

definition check_securities :: "SecurityIdentity list \<Rightarrow> go_error option" where
  "check_securities securities =
     (let err = ErrorsNew ''company research profile contains invalid security identity'' in
      scan_unique (\<lambda>_ security. fail_if (si_security_id security = [] \<or> si_ticker security = [] \<or>
          si_exchange security = []) err) si_security_id (\<lambda>_ _. err) no_check securities)"

definition check_metric_availability :: "gotime \<Rightarrow> MetricAvailability list \<Rightarrow> go_error option" where
  "check_metric_availability asOf metrics =
     (let err = ErrorsNew ''company research profile contains invalid metric availability'' in
      scan_unique (\<lambda>_ metric. fail_if (ma_metric_id metric = [] \<or> \<not> validAvailabilityState (ma_state metric)) err)
        ma_metric_id (\<lambda>_ _. err)
        (\<lambda>_ metric. first_err
          [fail_if ((ma_state metric = AvailabilityCovered \<or> ma_state metric = AvailabilityPartial) \<and>
               \<not> validHashes (ma_evidence_hashes metric))
             (ErrorsNew ''covered or partial metric requires evidence hashes''),
           fail_if (case ma_available_at metric of None \<Rightarrow> False | Some available \<Rightarrow> time_after available asOf)
             (ErrorsNew ''metric availability leaks information after profile as_of''),
           fail_if (ma_state metric = AvailabilityStale \<and> ma_fresh_until metric = None)
             (ErrorsNew ''stale metric requires fresh_until''),
           fail_if (ma_state metric \<noteq> AvailabilityCovered \<and> ma_reason_codes metric = [])
             (ErrorsNew ''non-covered metric state requires reason codes'')])
        metrics)"

definition ValidateCompanyResearchProfile :: "hashers \<Rightarrow> CompanyResearchProfile \<Rightarrow> go_error option" where
  "ValidateCompanyResearchProfile H profile = first_err
     [fail_if (crp_schema_version profile \<noteq> CompanyResearchProfileV1 \<or> crp_profile_id profile = [] \<or>
          crp_company_id profile = [] \<or> crp_cik profile = [] \<or> crp_display_name profile = [] \<or>
          crp_research_cluster profile = [] \<or> crp_peer_group profile = [] \<or> crp_research_role profile = [] \<or>
          crp_policy_version profile = [] \<or> is_zero_time (crp_as_of profile) \<or> crp_securities profile = [])
        (ErrorsNew ''company research profile is incomplete''),
      fail_if (ca_scope (crp_activation profile) \<noteq> ActivationScopeCompany \<or>
          length (ca_company_ids (crp_activation profile)) \<noteq> 1 \<or>
          ca_company_ids (crp_activation profile) ! 0 \<noteq> crp_company_id profile \<or>
          ca_universe_id (crp_activation profile) \<noteq> crp_universe_id profile)
        (ErrorsNew ''company research profile activation scope does not match company''),
      wrap_err ''activation: %w'' [] (ValidateCompanyActivation H (crp_activation profile)),
      fail_if (\<not> validHash (crp_source_registry_sha256 profile))
        (ErrorsNew ''company research profile requires a source registry hash''),
      check_securities (crp_securities profile),
      fail_if (length (filter si_primary (crp_securities profile)) \<noteq> 1)
        (ErrorsNew ''company research profile requires exactly one primary security''),
      check_metric_availability (crp_as_of profile) (crp_metrics profile),
      verifyStructHash (hs_profile H) profile (crp_profile_sha256 profile)
        (\<lambda>value. value\<lparr>crp_profile_sha256 := []\<rparr>)]"

definition ValidatePeerLane :: "hashers \<Rightarrow> PeerLane \<Rightarrow> go_error option" where
  "ValidatePeerLane H lane = first_err
     [fail_if (ln_schema_version lane \<noteq> PeerLaneSchemaV1 \<or> ln_lane_id lane = [] \<or> ln_universe_id lane = [] \<or>
          ln_comparison_type lane = [] \<or> ln_decision_question lane = [] \<or> ln_policy_version lane = [] \<or>
          is_zero_time (ln_as_of lane))
        (ErrorsNew ''peer lane is incomplete''),
      fail_if (length (ln_company_ids lane) \<noteq> 2 \<or> \<not> allUniqueNonEmpty (ln_company_ids lane) \<or>
          ln_allowed_question_ids lane = [] \<or> ln_allowed_metric_ids lane = [] \<or>
          \<not> validHashes (ln_evidence_hashes lane))
        (ErrorsNew ''peer lane requires two companies, bounded questions, metrics, and evidence''),
      fail_if (ln_security_ids lane \<noteq> [] \<and>
          (length (ln_security_ids lane) \<noteq> 2 \<or> \<not> allUniqueNonEmpty (ln_security_ids lane)))
        (ErrorsNew ''peer lane security scope must contain two unique securities''),
      verifyStructHash (hs_lane H) lane (ln_lane_sha256 lane) (\<lambda>value. value\<lparr>ln_lane_sha256 := []\<rparr>)]"

section \<open>Comparison operands\<close>

definition check_accounting_inputs :: "nat \<Rightarrow> AccountingInputComparisonAuthority list \<Rightarrow> go_error option" where
  "check_accounting_inputs index authorities =
     (let err = (\<lambda>authorityIndex. Errorf ''operands[%d].accounting_inputs[%d] is incomplete or duplicated''
            [FInt (int index), FInt (int authorityIndex)]) in
      scan_unique (\<lambda>i authority. fail_if (aa_input_id authority = [] \<or> aa_canonical_input authority = [] \<or>
            aa_mapping_key authority = [] \<or> aa_taxonomy_concept authority = [] \<or>
            aa_accounting_perimeter authority = [] \<or> aa_disposition authority = [] \<or>
            aa_product_label authority = []) (err i))
        aa_input_id (\<lambda>i _. err i) no_check authorities)"

definition accounting_signature :: "AccountingInputComparisonAuthority list \<Rightarrow> string" where
  "accounting_signature authorities = join '';''
     (sort (map (\<lambda>authority. aa_input_id authority @ ''='' @ aa_accounting_perimeter authority) authorities))"

definition expected_ranking :: "MetricComparisonOperand \<Rightarrow> bool" where
  "expected_ranking operand = foldl (\<lambda>expected authority. if \<not> aa_pair_ranking_eligible authority then False else expected)
     (mo_output_class operand = ''authoritative'') (mo_accounting_inputs operand)"

definition check_accounting_authority :: "nat \<Rightarrow> MetricComparisonOperand \<Rightarrow> go_error option" where
  "check_accounting_authority index operand = first_err
     [fail_if (mo_output_class operand = [] \<or> mo_product_label operand = [] \<or> mo_accounting_inputs operand = [])
        (Errorf ''operands[%d] lacks per-input accounting authority'' [FInt (int index)]),
      check_accounting_inputs index (mo_accounting_inputs operand),
      fail_if (accounting_signature (mo_accounting_inputs operand) \<noteq> mo_accounting_perimeter operand \<or>
          mo_pair_ranking_eligible operand \<noteq> expected_ranking operand)
        (Errorf ''operands[%d] accounting authority signature is invalid'' [FInt (int index)]),
      fail_if (mo_output_class operand \<noteq> ''authoritative'' \<and> mo_output_class operand \<noteq> ''context_only'')
        (Errorf ''operands[%d] has unsupported output class'' [FInt (int index)])]"

definition operand_complete :: "MetricComparisonOperand \<Rightarrow> bool" where
  "operand_complete operand \<longleftrightarrow>
     mo_company_id operand \<noteq> [] \<and> mo_canonical_metric_id operand \<noteq> [] \<and> mo_metric_version operand \<noteq> [] \<and>
     mo_taxonomy_concept operand \<noteq> [] \<and> mo_value operand \<noteq> [] \<and> mo_unit operand \<noteq> [] \<and>
     mo_sign_policy operand \<noteq> [] \<and> mo_dimensional_identity operand \<noteq> [] \<and> mo_period_type operand \<noteq> [] \<and>
     \<not> is_zero_time (mo_fiscal_end operand) \<and> \<not> is_zero_time (mo_filing_date operand) \<and>
     mo_accounting_perimeter operand \<noteq> [] \<and> mo_definition_id operand \<noteq> [] \<and>
     mo_restatement_state operand \<noteq> [] \<and> mo_supersession_state operand \<noteq> [] \<and>
     mo_source_observation_ids operand \<noteq> [] \<and> validHashes (mo_source_hashes operand)"

definition check_operand_times :: "nat \<Rightarrow> gotime \<Rightarrow> MetricComparisonOperand \<Rightarrow> go_error option" where
  "check_operand_times index asOf operand = first_err
     [fail_if (is_zero_time (mo_available_at operand) \<or> is_zero_time (mo_retrieved_at operand) \<or>
          time_before (mo_retrieved_at operand) (mo_available_at operand) \<or>
          time_after (mo_available_at operand) asOf \<or> time_after (mo_filing_date operand) asOf \<or>
          time_after (mo_fiscal_end operand) asOf)
        (Errorf ''operands[%d] violates point-in-time availability'' [FInt (int index)]),
      fail_if (mo_period_type operand = ''duration'' \<and>
          (case mo_fiscal_start operand of None \<Rightarrow> True | Some start \<Rightarrow> \<not> time_after (mo_fiscal_end operand) start))
        (Errorf ''operands[%d] duration period is invalid'' [FInt (int index)]),
      fail_if (mo_period_type operand = ''instant'' \<and> mo_fiscal_start operand \<noteq> None)
        (Errorf ''operands[%d] instant metric cannot have fiscal_start'' [FInt (int index)])]"

fun check_operands :: "gotime \<Rightarrow> bool \<Rightarrow> nat \<Rightarrow> string list \<Rightarrow> string \<Rightarrow> MetricComparisonOperand list \<Rightarrow>
    go_error option" where
  "check_operands asOf v2 index companies metricID [] = None"
| "check_operands asOf v2 index companies metricID (operand # operands) = first_err
     [fail_if (\<not> operand_complete operand \<or> mo_company_id operand \<in> set companies)
        (Errorf ''operands[%d] is incomplete or duplicates an issuer'' [FInt (int index)]),
      fail_if (metricID \<noteq> [] \<and> mo_canonical_metric_id operand \<noteq> metricID)
        (ErrorsNew ''comparison operands must use one canonical metric''),
      check_operand_times index asOf operand,
      (if v2 then check_accounting_authority index operand else None),
      check_operands asOf v2 (Suc index) (mo_company_id operand # companies)
        (if metricID = [] then mo_canonical_metric_id operand else metricID) operands]"

definition validateComparisonOperands :: "MetricComparisonOperand list \<Rightarrow> gotime \<Rightarrow> bool \<Rightarrow> go_error option" where
  "validateComparisonOperands operands asOf requireAccountingAuthority = first_err
     [check_operands asOf requireAccountingAuthority 0 [] [] operands,
      fail_if (length operands = 2 \<and> mo_security_id (operands ! 0) \<noteq> [] \<and>
          mo_security_id (operands ! 0) = mo_security_id (operands ! 1))
        (ErrorsNew ''comparison operands reuse a security across issuers'')]"

section \<open>Requests, receipts and bundles\<close>

definition ValidateMetricComparabilityRequest :: "hashers \<Rightarrow> MetricComparabilityRequest \<Rightarrow> go_error option" where
  "ValidateMetricComparabilityRequest H request = first_err
     [fail_if ((mq_schema_version request \<noteq> ComparabilityRequestSchemaV1 \<and>
            mq_schema_version request \<noteq> ComparabilityRequestSchemaV2) \<or> mq_request_id request = [] \<or>
          mq_run_id request = [] \<or> mq_lane_id request = [] \<or> is_zero_time (mq_as_of request) \<or>
          mq_reviewer_policy_version request = [] \<or> length (mq_operands request) \<noteq> 2)
        (ErrorsNew ''metric comparability request is incomplete''),
      validateComparisonOperands (mq_operands request) (mq_as_of request)
        (mq_schema_version request = ComparabilityRequestSchemaV2),
      verifyStructHash (hs_request H) request (mq_request_sha256 request)
        (\<lambda>value. value\<lparr>mq_request_sha256 := []\<rparr>)]"

definition check_disposition :: "MetricComparabilityReceipt \<Rightarrow> nat \<Rightarrow> go_error option" where
  "check_disposition receipt failed =
     (if mr_disposition receipt = ComparisonComparable then
        fail_if (failed \<noteq> 0 \<or> mr_required_caveat_ids receipt \<noteq> [] \<or> mr_reason_codes receipt \<noteq> [])
          (ErrorsNew ''comparable receipt cannot contain failed invariants or caveats'')
      else if mr_disposition receipt = ComparisonComparableWithCaveat then
        fail_if (mr_required_caveat_ids receipt = []) (ErrorsNew ''qualified comparability requires visible caveats'')
      else if mr_disposition receipt = ComparisonContextOnly then
        fail_if (mr_schema_version receipt \<noteq> ComparabilityReceiptSchemaV2 \<or> mr_required_caveat_ids receipt = [] \<or>
            mr_reason_codes receipt = [])
          (ErrorsNew ''context-only receipt requires v2 authority, visible caveats, and reasons'')
      else if mr_disposition receipt = ComparisonNotComparable then
        fail_if (failed = 0 \<or> mr_reason_codes receipt = [])
          (ErrorsNew ''not-comparable receipt requires a failed invariant and reason code'')
      else Some (ErrorsNew ''unsupported comparison disposition''))"

definition ValidateMetricComparabilityReceipt :: "hashers \<Rightarrow> MetricComparabilityReceipt \<Rightarrow> go_error option" where
  "ValidateMetricComparabilityReceipt H receipt = first_err
     [fail_if ((mr_schema_version receipt \<noteq> ComparabilityReceiptSchemaV1 \<and>
            mr_schema_version receipt \<noteq> ComparabilityReceiptSchemaV2) \<or> mr_receipt_id receipt = [] \<or>
          mr_request_id receipt = [] \<or> mr_run_id receipt = [] \<or> mr_lane_id receipt = [] \<or>
          is_zero_time (mr_as_of receipt) \<or> is_zero_time (mr_generated_at receipt) \<or>
          time_before (mr_generated_at receipt) (mr_as_of receipt) \<or> mr_reviewer_policy_version receipt = [] \<or>
          mr_invariants receipt = [] \<or> \<not> validHash (mr_request_sha256 receipt))
        (ErrorsNew ''metric comparability receipt is incomplete''),
      validateComparisonOperands (mr_operands receipt) (mr_as_of receipt)
        (mr_schema_version receipt = ComparabilityReceiptSchemaV2),
      range_err (\<lambda>_ invariant. fail_if (cv_invariant_id invariant = [])
          (ErrorsNew ''comparability invariant requires an ID'')) (mr_invariants receipt),
      check_disposition receipt (length (filter (\<lambda>invariant. \<not> cv_passed invariant) (mr_invariants receipt))),
      verifyStructHash (hs_receipt H) receipt (mr_receipt_sha256 receipt)
        (\<lambda>value. value\<lparr>mr_receipt_sha256 := []\<rparr>)]"

definition ValidateTypedAbstention :: "TypedAbstention \<Rightarrow> go_error option" where
  "ValidateTypedAbstention abstention =
     fail_if (ta_schema_version abstention \<noteq> TypedAbstentionSchemaV1 \<or> ta_abstention_id abstention = [] \<or>
         ta_request_id abstention = [] \<or> ta_run_id abstention = [] \<or> ta_code abstention = [] \<or>
         blank (ta_message abstention) \<or> is_zero_time (ta_generated_at abstention))
       (ErrorsNew ''typed abstention is incomplete'')"

text \<open>
  The loop over the receipts of a bundle collects the metrics that may be released. It reads
  \<open>receipt.Operands[0]\<close>, which panics for a receipt without operands.
\<close>

definition releasable_disposition :: "string \<Rightarrow> bool" where
  "releasable_disposition disposition \<longleftrightarrow>
     disposition = ComparisonComparable \<or> disposition = ComparisonComparableWithCaveat"

fun releasable_metrics :: "hashers \<Rightarrow> ComparisonBundle \<Rightarrow> nat \<Rightarrow> string list \<Rightarrow> MetricComparabilityReceipt list \<Rightarrow>
    go_error + string list" where
  "releasable_metrics H bundle index releasable [] = Inr releasable"
| "releasable_metrics H bundle index releasable (receipt # receipts) =
     check_then (wrap_err ''receipts[%d]: %w'' [FInt (int index)] (ValidateMetricComparabilityReceipt H receipt))
       (if mr_request_id receipt \<noteq> cb_request_id bundle \<or> mr_run_id receipt \<noteq> cb_run_id bundle \<or>
           mr_lane_id receipt \<noteq> ln_lane_id (cb_peer_lane bundle) then
          Inl (ErrorsNew ''comparison bundle contains cross-request receipt contamination'')
        else if releasable_disposition (mr_disposition receipt) then
          (case mr_operands receipt of
             [] \<Rightarrow> Inl (Panic ''index out of range'')
           | operand # _ \<Rightarrow> releasable_metrics H bundle (Suc index) (mo_canonical_metric_id operand # releasable) receipts)
        else releasable_metrics H bundle (Suc index) releasable receipts)"

definition ValidateComparisonBundle :: "hashers \<Rightarrow> ComparisonBundle \<Rightarrow> go_error option" where
  "ValidateComparisonBundle H bundle = first_err
     [fail_if (cb_schema_version bundle \<noteq> ComparisonBundleSchemaV1 \<or> cb_bundle_id bundle = [] \<or>
          cb_request_id bundle = [] \<or> cb_run_id bundle = [] \<or> is_zero_time (cb_generated_at bundle) \<or>
          length (cb_activation_refs bundle) \<noteq> 2 \<or> \<not> allUniqueNonEmpty (cb_activation_refs bundle))
        (ErrorsNew ''comparison bundle is incomplete''),
      wrap_err ''peer_lane: %w'' [] (ValidatePeerLane H (cb_peer_lane bundle)),
      (case releasable_metrics H bundle 0 [] (cb_receipts bundle) of
         Inl err \<Rightarrow> Some err
       | Inr releasable \<Rightarrow> range_err (\<lambda>_ metricID. fail_if (metricID \<notin> set releasable)
           (Errorf ''released metric %q lacks an approved comparability receipt'' [FStr metricID]))
           (cb_released_metric_ids bundle)),
      range_err (\<lambda>index abstention. wrap_err ''abstentions[%d]: %w'' [FInt (int index)]
        (ValidateTypedAbstention abstention)) (cb_abstentions bundle),
      verifyStructHash (hs_bundle H) bundle (cb_bundle_sha256 bundle) (\<lambda>value. value\<lparr>cb_bundle_sha256 := []\<rparr>)]"

section \<open>sortedUnique\<close>

text \<open>
  The loop keeps the values written so far in front of the sorted slice: here as the reversed list
  of what has been written.
\<close>

fun compact_sorted :: "string list \<Rightarrow> string list \<Rightarrow> string list" where
  "compact_sorted written [] = rev written"
| "compact_sorted written (value # values) =
     compact_sorted (if value \<noteq> hd written then value # written else written) values"

definition sortedUnique :: "string list \<Rightarrow> string list" where
  "sortedUnique values =
     (case sort values of [] \<Rightarrow> [] | first # rest \<Rightarrow> compact_sorted [first] rest)"

end
