(* ===== verification/Activation_Laws.thy ===== *)
theory Activation_Laws
  imports Activation_Validate
begin

text \<open>
  What the activation contracts guarantee: a linked history skips no stage, sealed records
  verify, released metrics of a bundle have accepted receipts. The locale \<open>sealed_record\<close> is
  the interface between the records and their hashes.
\<close>

section \<open>Digests\<close>

lemma is_lower_hex_hex: "is_lower_hex c \<Longrightarrow> is_hex c"
  by (auto simp: is_lower_hex_def is_hex_def hex_digit_value_def char_le_iff Let_def)

lemma is_hex_lower:
  assumes "is_hex c"
  shows "is_lower_hex c \<longleftrightarrow> \<not> (CHR ''A'' \<le> c \<and> c \<le> CHR ''Z'')"
  using assms by (auto simp: is_lower_hex_def is_hex_def hex_digit_value_def char_le_iff Let_def split: if_splits)

lemma is_hex_ascii: "is_hex c \<Longrightarrow> c \<noteq> CHR 0xC4 \<and> c \<noteq> CHR 0xE2"
  by (auto simp: is_hex_def hex_digit_value_def)

lemma to_lower_hex:
  assumes "list_all is_hex s"
  shows "to_lower s = s \<longleftrightarrow> list_all is_lower_hex s"
  using assms
proof (induction s)
  case (Cons c s)
  then have c: "is_hex c" by simp
  have no: "\<not> starts_with (c # s) [CHR 0xC4, CHR 0xB0]" "\<not> starts_with (c # s) [CHR 0xE2, CHR 0x84, CHR 0xAA]"
    using is_hex_ascii [OF c] by (auto simp: starts_with_def)
  have change: "char_of (of_char c + 32 :: nat) \<noteq> c" if "c \<le> CHR ''Z''"
  proof
    assume "char_of (of_char c + 32 :: nat) = c"
    then have "(of_char c + 32) mod 256 = (of_char c :: nat)" by (metis of_char_of)
    with that show False by (simp add: char_le_iff)
  qed
  show ?case
  proof (cases "CHR ''A'' \<le> c \<and> c \<le> CHR ''Z''")
    case True
    with no c change is_hex_lower [OF c] show ?thesis by simp
  next
    case False
    with no is_hex_lower [OF c] Cons show ?thesis by auto
  qed
qed simp

text \<open>
  The two digest tests of the contracts package agree: \<open>validHash\<close> (length, lower case,
  \<open>hex.DecodeString\<close>) and the regular expression of the evidence manifests accept the same
  strings.
\<close>

theorem digest_tests_agree: "validHash value = sha256Pattern value"
  using to_lower_hex [of "value"] is_lower_hex_hex
  by (auto simp: validHash_def sha256Pattern_def hex_decodes_def list_all_iff)

lemma validHash_iff: "validHash s \<longleftrightarrow> length s = 64 \<and> list_all is_lower_hex s"
  using to_lower_hex [of s] is_lower_hex_hex by (auto simp: validHash_def hex_decodes_def list_all_iff)

lemma structHash_valid: "structHash hash x = Inr digest \<Longrightarrow> validHash digest"
  using hex_fixed_hex by (auto simp: structHash_def validHash_iff list_all_iff split: sum.splits)

section \<open>Sealed records\<close>

text \<open>
  A record with a field for its hash: the field can be set and read, and setting it twice is
  setting it once.
\<close>

locale sealed_record =
  fixes update :: "(string \<Rightarrow> string) \<Rightarrow> 'a \<Rightarrow> 'a"
    and field :: "'a \<Rightarrow> string"
  assumes field_update: "field (update f x) = f (field x)"
    and update_update: "update f (update g x) = update (\<lambda>s. f (g s)) x"
begin

lemma sealed_verifies:
  assumes "populate_hash hash update x = (sealed, None)"
  shows "verifyStructHash hash sealed (field sealed) (update (\<lambda>_. [])) = None"
proof -
  obtain digest where digest: "structHash hash (update (\<lambda>_. []) x) = Inr digest"
    and sealed: "sealed = update (\<lambda>_. digest) x"
    using assms by (auto simp: populate_hash_def Let_def update_update split: sum.splits)
  have "update (\<lambda>_. []) sealed = update (\<lambda>_. []) x" by (simp add: sealed update_update)
  moreover have "field sealed = digest" by (simp add: sealed field_update)
  ultimately show ?thesis
    using digest structHash_valid [OF digest] by (simp add: verifyStructHash_def)
qed

lemma verified_digest:
  assumes "verifyStructHash hash x (field x) (update (\<lambda>_. [])) = None"
  shows "structHash hash (update (\<lambda>_. []) x) = Inr (field x)"
  using assms by (auto simp: verifyStructHash_def split: if_splits sum.splits)

end

interpretation sealed_activation: sealed_record ca_record_sha256_update ca_record_sha256
  by unfold_locales auto

interpretation sealed_profile: sealed_record crp_profile_sha256_update crp_profile_sha256
  by unfold_locales auto

interpretation sealed_lane: sealed_record ln_lane_sha256_update ln_lane_sha256
  by unfold_locales auto

interpretation sealed_request: sealed_record mq_request_sha256_update mq_request_sha256
  by unfold_locales auto

interpretation sealed_receipt: sealed_record mr_receipt_sha256_update mr_receipt_sha256
  by unfold_locales auto

interpretation sealed_bundle: sealed_record cb_bundle_sha256_update cb_bundle_sha256
  by unfold_locales auto

text \<open>
  C36: A record that was sealed by its \<open>Populate\<close> function passes the check of its hash,
  whatever the hashing function, and the hash has the form of a digest.
\<close>

theorem sealed_records_verify:
  "(PopulateCompanyActivationHash H activation = (a, None) \<longrightarrow> validHash (ca_record_sha256 a) \<and>
      verifyStructHash (hs_activation H) a (ca_record_sha256 a) (\<lambda>v. v\<lparr>ca_record_sha256 := []\<rparr>) = None) \<and>
   (PopulateCompanyResearchProfileHash H profile = (p, None) \<longrightarrow>
      verifyStructHash (hs_profile H) p (crp_profile_sha256 p) (\<lambda>v. v\<lparr>crp_profile_sha256 := []\<rparr>) = None) \<and>
   (PopulatePeerLaneHash H lane = (l, None) \<longrightarrow>
      verifyStructHash (hs_lane H) l (ln_lane_sha256 l) (\<lambda>v. v\<lparr>ln_lane_sha256 := []\<rparr>) = None) \<and>
   (PopulateMetricComparabilityRequestHash H request = (q, None) \<longrightarrow>
      verifyStructHash (hs_request H) q (mq_request_sha256 q) (\<lambda>v. v\<lparr>mq_request_sha256 := []\<rparr>) = None) \<and>
   (PopulateMetricComparabilityReceiptHash H receipt = (r, None) \<longrightarrow>
      verifyStructHash (hs_receipt H) r (mr_receipt_sha256 r) (\<lambda>v. v\<lparr>mr_receipt_sha256 := []\<rparr>) = None) \<and>
   (PopulateComparisonBundleHash H bundle = (b, None) \<longrightarrow>
      verifyStructHash (hs_bundle H) b (cb_bundle_sha256 b) (\<lambda>v. v\<lparr>cb_bundle_sha256 := []\<rparr>) = None)"
  using sealed_activation.sealed_verifies [of "hs_activation H" activation a]
    sealed_profile.sealed_verifies [of "hs_profile H" profile p]
    sealed_lane.sealed_verifies [of "hs_lane H" lane l]
    sealed_request.sealed_verifies [of "hs_request H" request q]
    sealed_receipt.sealed_verifies [of "hs_receipt H" receipt r]
    sealed_bundle.sealed_verifies [of "hs_bundle H" "bundle" b]
  unfolding PopulateCompanyActivationHash_def PopulateCompanyResearchProfileHash_def PopulatePeerLaneHash_def
    PopulateMetricComparabilityRequestHash_def PopulateMetricComparabilityReceiptHash_def
    PopulateComparisonBundleHash_def
  by (auto simp: verifyStructHash_def split: if_splits)

definition zero_hashers :: hashers where
  "zero_hashers = \<lparr>hs_activation = \<lambda>_. Inr 0, hs_profile = \<lambda>_. Inr 0, hs_lane = \<lambda>_. Inr 0,
     hs_request = \<lambda>_. Inr 0, hs_receipt = \<lambda>_. Inr 0, hs_bundle = \<lambda>_. Inr 0\<rparr>"

definition sample_abstract_lane :: PeerLane where
  "sample_abstract_lane = \<lparr>ln_schema_version = PeerLaneSchemaV1, ln_lane_id = ''lane-1'', ln_universe_id = ''universe-1'',
     ln_company_ids = [''company-1'', ''company-2''], ln_security_ids = [], ln_comparison_type = ''pair'',
     ln_decision_question = ''question'', ln_allowed_question_ids = [''question-1''],
     ln_allowed_metric_ids = [''metric-1''], ln_policy_version = ''policy-1'',
     ln_evidence_hashes = [sample_digest], ln_enabled = True, ln_as_of = 1, ln_lane_sha256 = []\<rparr>"

theorem sealed_records_verify_witness:
  "\<exists>lane. PopulatePeerLaneHash zero_hashers sample_abstract_lane = (lane, None) \<and>
     verifyStructHash (hs_lane zero_hashers) lane (ln_lane_sha256 lane) (\<lambda>v. v\<lparr>ln_lane_sha256 := []\<rparr>) = None"
proof -
  obtain lane where lane: "PopulatePeerLaneHash zero_hashers sample_abstract_lane = (lane, None)"
    by (simp add: PopulatePeerLaneHash_def populate_hash_def structHash_def zero_hashers_def Let_def)
  with sealed_records_verify [of zero_hashers _ _ _ _ sample_abstract_lane lane] show ?thesis by blast
qed

section \<open>The activation state machine\<close>

definition stage_rank :: "string \<Rightarrow> nat" where
  "stage_rank state =
     (if state = ActivationIdentityValidated then 1
      else if state = ActivationDataReady then 2
      else if state = ActivationMetricReady then 3
      else if state = ActivationResearchReady then 4
      else if state = ActivationComparisonReady then 5 else 0)"

text \<open>A transition climbs at most one stage, and only from limited or quarantined to the bottom.\<close>

lemma transition_climbs:
  "ValidActivationTransition from_state to_state \<Longrightarrow> stage_rank to_state \<le> Suc (stage_rank from_state)"
proof -
  have "stage_rank ActivationLimited = 0" "stage_rank ActivationQuarantined = 0" by (simp_all add: stage_rank_def)
  moreover have "stage_rank (allowed_transition s) \<le> Suc (stage_rank s)" for s
    by (simp add: allowed_transition_def stage_rank_def)
  moreover assume "ValidActivationTransition from_state to_state"
  ultimately show ?thesis unfolding ValidActivationTransition_def by (metis le_SucI le_refl zero_le)
qed

fun chained :: "string \<Rightarrow> CompanyActivation list \<Rightarrow> bool" where
  "chained state [] = True"
| "chained state (a # as) = (ca_previous_state a = state \<and> chained (ca_state a) as)"

text \<open>The state after a history that began in the given state.\<close>

definition final_state :: "string \<Rightarrow> CompanyActivation list \<Rightarrow> string" where
  "final_state state as = (if as = [] then state else ca_state (last as))"

lemma accepted_activation:
  assumes "ValidateCompanyActivation H a = None"
  shows "ca_previous_state a \<noteq> [] \<Longrightarrow> ValidActivationTransition (ca_previous_state a) (ca_state a)"
    and "isPromotion (ca_previous_state a) (ca_state a) \<Longrightarrow> validHashes (ca_evidence_hashes a)"
    and "ca_state a \<in> {ActivationLimited, ActivationQuarantined} \<Longrightarrow> ca_reason_codes a \<noteq> []"
    and "validActivationState (ca_state a)"
  using assms by (auto simp: ValidateCompanyActivation_def)

lemma valid_state_not_Nil: "validActivationState state \<Longrightarrow> state \<noteq> []"
  by (auto simp: validActivationState_def)

lemma stages_not_skipped:
  assumes "chained state as" and "\<forall>a \<in> set as. ValidateCompanyActivation H a = None" and "state \<noteq> []"
    and "stage_rank state < k" and "k \<le> stage_rank (final_state state as)"
  shows "\<exists>a \<in> set as. stage_rank (ca_state a) = k \<and> stage_rank (ca_previous_state a) < k \<and> ca_previous_state a \<noteq> []"
  using assms
proof (induction as arbitrary: state)
  case (Cons a as)
  have ok: "ValidateCompanyActivation H a = None" and prev: "ca_previous_state a = state"
    using Cons.prems by simp_all
  with accepted_activation(1) [OF ok] Cons.prems(3)
  have climb: "stage_rank (ca_state a) \<le> Suc (stage_rank state)" using transition_climbs by simp
  show ?case
  proof (cases "stage_rank (ca_state a) < k")
    case True
    have "\<exists>b \<in> set as. stage_rank (ca_state b) = k \<and> stage_rank (ca_previous_state b) < k \<and> ca_previous_state b \<noteq> []"
    proof (rule Cons.IH)
      show "chained (ca_state a) as" "\<forall>a \<in> set as. ValidateCompanyActivation H a = None"
        using Cons.prems by simp_all
      show "ca_state a \<noteq> []" using valid_state_not_Nil accepted_activation(4) [OF ok] by blast
      show "stage_rank (ca_state a) < k" by fact
      show "k \<le> stage_rank (final_state (ca_state a) as)"
        using Cons.prems(5) by (cases as) (simp_all add: final_state_def)
    qed
    then show ?thesis by auto
  next
    case False
    with climb Cons.prems(3,4) prev show ?thesis by auto
  qed
qed (simp add: final_state_def)

text \<open>
  C37: A linked history skips no stage: in any sequence of accepted activation records in which each
  record names the state of the record before it as its previous state, every stage above the state
  of the first record and up to the state of the last one was entered by a record of its own, from
  the stage directly below it in the table of the code, with valid evidence hashes. The first record
  may claim any state: without a previous state its transition is not checked.
\<close>

theorem activation_skips_no_stage:
  assumes "chained (ca_state first) records"
    and "list_all (\<lambda>a. ValidateCompanyActivation H a = None) (first # records)"
    and "stage \<in> {ActivationIdentityValidated, ActivationDataReady, ActivationMetricReady, ActivationResearchReady,
      ActivationComparisonReady}"
    and "stage_rank (ca_state first) < stage_rank stage" and "stage_rank stage \<le> stage_rank (ca_state (last (first # records)))"
  shows "\<exists>a \<in> set records. ca_state a = stage \<and> ca_previous_state a \<noteq> stage \<and>
    allowed_transition (ca_previous_state a) = stage \<and> validHashes (ca_evidence_hashes a)"
proof -
  have ok: "\<forall>a \<in> set records. ValidateCompanyActivation H a = None" and "ValidateCompanyActivation H first = None"
    using assms(2) by (simp_all add: list_all_iff)
  then have "ca_state first \<noteq> []" using accepted_activation(4) valid_state_not_Nil by blast
  moreover have "final_state (ca_state first) records = ca_state (last (first # records))" by (simp add: final_state_def)
  ultimately obtain a where a: "a \<in> set records" "stage_rank (ca_state a) = stage_rank stage"
    "stage_rank (ca_previous_state a) < stage_rank stage" "ca_previous_state a \<noteq> []"
    using stages_not_skipped [OF assms(1) ok] assms(4,5) by auto
  from a(2) assms(3) have stage: "ca_state a = stage" by (auto simp: stage_rank_def split: if_splits)
  note accepted = accepted_activation [OF ok [rule_format, OF a(1)]]
  have prev: "ca_previous_state a \<noteq> stage" using a(3) by auto
  have up: "stage \<noteq> ActivationLimited" "stage \<noteq> ActivationQuarantined" using assms(3) by auto
  have "allowed_transition (ca_previous_state a) = stage"
    using accepted(1) [OF a(4)] stage prev up by (simp add: ValidActivationTransition_def)
  moreover have "isPromotion (ca_previous_state a) (ca_state a)"
    using prev stage up a(4) by (auto simp: isPromotion_def)
  ultimately show ?thesis using accepted(2) a(1) stage prev by blast
qed

definition sample_seal :: string where
  "sample_seal = replicate 64 (CHR ''0'')"

lemma sample_seal_valid: "validHash sample_seal" "validHash sample_digest"
  by code_simp+

lemma zero_hash: "structHash (\<lambda>_. Inr 0) x = Inr sample_seal"
  by (simp add: structHash_def hex_fixed_zeros sample_seal_def)

lemma verify_zero_hash [simp]: "verifyStructHash (\<lambda>_. Inr 0) x sample_seal clear = None"
  by (simp add: verifyStructHash_def zero_hash sample_seal_valid)

definition sample_activation :: "string \<Rightarrow> string \<Rightarrow> CompanyActivation" where
  "sample_activation previous state = \<lparr>ca_schema_version = CompanyActivationSchemaV1, ca_activation_id = ''activation-1'',
     ca_universe_id = ''universe-1'', ca_scope = ActivationScopeCompany, ca_subject_id = ''company-1'',
     ca_company_ids = [''company-1''], ca_previous_state = previous, ca_state = state,
     ca_policy_version = ''policy-1'', ca_evidence_hashes = [sample_digest], ca_reason_codes = [],
     ca_effective_as_of = 1, ca_generated_at = 2, ca_record_sha256 = sample_seal\<rparr>"

lemma sample_names: "\<not> blank ''company-1''" "\<not> blank ''company-2''" "\<not> blank ''activation-1''" "\<not> blank ''activation-2''"
  by code_simp+

lemma sample_activation_valid:
  assumes "ValidActivationTransition previous state" and "validActivationState state"
    and "state \<noteq> ActivationLimited" and "state \<noteq> ActivationQuarantined"
  shows "ValidateCompanyActivation zero_hashers (sample_activation previous state) = None"
  using assms unfolding ValidateCompanyActivation_def
  by (simp add: sample_activation_def zero_hashers_def allUniqueNonEmpty_iff sample_names validHashes_def
      sample_seal_valid validActivationScope_def)

text \<open>The first record of a history may claim to be ready for comparison at once.\<close>

lemma first_record_claims_any_stage:
  "ValidateCompanyActivation zero_hashers (sample_activation [] ActivationComparisonReady) = None"
  unfolding ValidateCompanyActivation_def
  by (simp add: sample_activation_def zero_hashers_def allUniqueNonEmpty_iff sample_names validHashes_def
      sample_seal_valid validActivationScope_def validActivationState_def)

definition sample_promotions :: "CompanyActivation list" where
  "sample_promotions =
     [sample_activation ActivationIdentityValidated ActivationDataReady,
      sample_activation ActivationDataReady ActivationMetricReady,
      sample_activation ActivationMetricReady ActivationResearchReady,
      sample_activation ActivationResearchReady ActivationComparisonReady]"

theorem activation_skips_no_stage_witness:
  "\<exists>a \<in> set sample_promotions. ca_state a = ActivationResearchReady \<and>
     allowed_transition (ca_previous_state a) = ActivationResearchReady \<and> validHashes (ca_evidence_hashes a)"
proof -
  let ?first = "sample_activation ActivationIdentityValidated ActivationIdentityValidated"
  have "chained (ca_state ?first) sample_promotions"
    by (simp add: sample_promotions_def sample_activation_def)
  moreover have "list_all (\<lambda>a. ValidateCompanyActivation zero_hashers a = None) (?first # sample_promotions)"
    by (simp add: sample_promotions_def)
      (intro conjI sample_activation_valid; simp add: ValidActivationTransition_def allowed_transition_def validActivationState_def)
  moreover have "stage_rank (ca_state ?first) < stage_rank ActivationResearchReady"
    "stage_rank ActivationResearchReady \<le> stage_rank (ca_state (last (?first # sample_promotions)))"
    by (simp_all add: sample_promotions_def sample_activation_def stage_rank_def)
  ultimately show ?thesis
    using activation_skips_no_stage [of ?first sample_promotions zero_hashers ActivationResearchReady] by auto
qed

text \<open>
  A state the table does not know is mapped to the empty state, so a transition to the empty state
  counts as valid; records with an empty state are refused before they are asked.
\<close>

lemma transition_to_nothing: "ValidActivationTransition ActivationComparisonReady []"
  by (simp add: ValidActivationTransition_def allowed_transition_def)

section \<open>Bundles\<close>

definition operand_ok :: "gotime \<Rightarrow> MetricComparisonOperand \<Rightarrow> bool" where
  "operand_ok asOf operand \<longleftrightarrow> operand_complete operand \<and> check_operand_times 0 asOf operand = None"

lemma check_operand_times_index: "check_operand_times i asOf operand = None \<longleftrightarrow> check_operand_times 0 asOf operand = None"
  by (simp add: check_operand_times_def)

lemma check_operands_None:
  "check_operands asOf v2 i companies metricID operands = None \<Longrightarrow>
     (\<forall>o1 \<in> set operands. operand_ok asOf o1) \<and> distinct (map mo_company_id operands) \<and>
     mo_company_id ` set operands \<inter> set companies = {} \<and>
     (metricID \<noteq> [] \<longrightarrow> (\<forall>o1 \<in> set operands. mo_canonical_metric_id o1 = metricID)) \<and>
     (\<forall>o1 \<in> set operands. \<forall>o2 \<in> set operands. mo_canonical_metric_id o1 = mo_canonical_metric_id o2)"
proof (induction operands arbitrary: i companies metricID)
  case (Cons operand operands)
  from Cons.prems have here: "operand_ok asOf operand" "mo_company_id operand \<notin> set companies"
    "metricID \<noteq> [] \<Longrightarrow> mo_canonical_metric_id operand = metricID"
    and rest: "check_operands asOf v2 (Suc i) (mo_company_id operand # companies)
      (if metricID = [] then mo_canonical_metric_id operand else metricID) operands = None"
    by (auto simp: operand_ok_def check_operand_times_index [of i])
  have "mo_canonical_metric_id operand \<noteq> []" using here(1) by (simp add: operand_ok_def operand_complete_def)
  with Cons.IH [OF rest] here show ?case by (cases "metricID = []") auto
qed simp

lemma releasable_metrics_Inr:
  assumes "releasable_metrics H b i releasable receipts = Inr metrics" and "m \<in> set metrics - set releasable"
  shows "\<exists>r \<in> set receipts. ValidateMetricComparabilityReceipt H r = None \<and> mr_request_id r = cb_request_id b \<and>
    mr_run_id r = cb_run_id b \<and> mr_lane_id r = ln_lane_id (cb_peer_lane b) \<and>
    releasable_disposition (mr_disposition r) \<and> mr_operands r \<noteq> [] \<and>
    mo_canonical_metric_id (hd (mr_operands r)) = m"
  using assms
proof (induction receipts arbitrary: i releasable)
  case (Cons r receipts)
  from Cons.prems have r: "ValidateMetricComparabilityReceipt H r = None" "mr_request_id r = cb_request_id b"
    "mr_run_id r = cb_run_id b" "mr_lane_id r = ln_lane_id (cb_peer_lane b)"
    by (auto split: if_splits)
  show ?case
  proof (cases "releasable_disposition (mr_disposition r)")
    case True
    with r Cons.prems(1) obtain operand os where o: "mr_operands r = operand # os"
      "releasable_metrics H b (Suc i) (mo_canonical_metric_id operand # releasable) receipts = Inr metrics"
      by (auto split: list.splits)
    show ?thesis
    proof (cases "m = mo_canonical_metric_id operand")
      case True
      with r o \<open>releasable_disposition (mr_disposition r)\<close> show ?thesis by auto
    next
      case False
      with Cons.prems(2) have "m \<in> set metrics - set (mo_canonical_metric_id operand # releasable)" by simp
      from Cons.IH [OF o(2) this] show ?thesis by auto
    qed
  next
    case False
    with r Cons.prems(1) have "releasable_metrics H b (Suc i) releasable receipts = Inr metrics" by simp
    from Cons.IH [OF this Cons.prems(2)] show ?thesis by auto
  qed
qed simp

text \<open>
  C38: A comparison bundle that is accepted releases nothing without authority: each released
  metric has an accepted receipt of the same request, run and lane in the bundle that finds it
  comparable, with at least one operand and its operands of distinct companies that all measure
  the metric and were all available at the time of the comparison; the lane has exactly two companies.
\<close>

theorem released_metrics_have_receipts:
  assumes "ValidateComparisonBundle H bundle = None" and "metric \<in> set (cb_released_metric_ids bundle)"
  shows "\<exists>receipt \<in> set (cb_receipts bundle). ValidateMetricComparabilityReceipt H receipt = None \<and>
    mr_request_id receipt = cb_request_id bundle \<and> mr_run_id receipt = cb_run_id bundle \<and>
    mr_lane_id receipt = ln_lane_id (cb_peer_lane bundle) \<and>
    mr_disposition receipt \<in> {ComparisonComparable, ComparisonComparableWithCaveat} \<and>
    distinct (map mo_company_id (mr_operands receipt)) \<and> mr_operands receipt \<noteq> [] \<and>
    list_all (\<lambda>operand. mo_canonical_metric_id operand = metric \<and> mo_available_at operand \<le> mr_as_of receipt \<and>
      mo_filing_date operand \<le> mr_as_of receipt \<and> mo_fiscal_end operand \<le> mr_as_of receipt) (mr_operands receipt) \<and>
    length (ln_company_ids (cb_peer_lane bundle)) = 2 \<and> distinct (ln_company_ids (cb_peer_lane bundle))"
proof -
  obtain metrics where metrics: "releasable_metrics H bundle 0 [] (cb_receipts bundle) = Inr metrics"
    and "metric \<in> set metrics - set []"
  proof (cases "releasable_metrics H bundle 0 [] (cb_receipts bundle)")
    case (Inr metrics)
    with assms that show thesis by (simp add: ValidateComparisonBundle_def models_None list_all_iff)
  qed (use assms(1) in \<open>simp add: ValidateComparisonBundle_def\<close>)
  from releasable_metrics_Inr [OF this] obtain r where r: "r \<in> set (cb_receipts bundle)"
    "ValidateMetricComparabilityReceipt H r = None" "mr_request_id r = cb_request_id bundle"
    "mr_run_id r = cb_run_id bundle" "mr_lane_id r = ln_lane_id (cb_peer_lane bundle)"
    "releasable_disposition (mr_disposition r)" "mr_operands r \<noteq> []" "mo_canonical_metric_id (hd (mr_operands r)) = metric"
    by blast
  then have "check_operands (mr_as_of r) (mr_schema_version r = ComparabilityReceiptSchemaV2) 0 [] [] (mr_operands r) = None"
    by (simp add: ValidateMetricComparabilityReceipt_def validateComparisonOperands_def)
  note operands = check_operands_None [OF this]
  have metric: "mo_canonical_metric_id o1 = metric" if "o1 \<in> set (mr_operands r)" for o1
    using operands r(7,8) hd_in_set [OF r(7)] that by blast
  have times: "mo_available_at o1 \<le> mr_as_of r \<and> mo_filing_date o1 \<le> mr_as_of r \<and> mo_fiscal_end o1 \<le> mr_as_of r"
    if "o1 \<in> set (mr_operands r)" for o1
    using operands that by (auto simp: operand_ok_def check_operand_times_def)
  have "ValidatePeerLane H (cb_peer_lane bundle) = None"
    using assms(1) by (simp add: ValidateComparisonBundle_def)
  then have lane: "length (ln_company_ids (cb_peer_lane bundle)) = 2" "distinct (ln_company_ids (cb_peer_lane bundle))"
    by (simp_all add: ValidatePeerLane_def allUniqueNonEmpty_iff)
  have "mr_disposition r \<in> {ComparisonComparable, ComparisonComparableWithCaveat}"
    using r(6) by (simp only: releasable_disposition_def insert_iff empty_iff simp_thms)
  moreover have "distinct (map mo_company_id (mr_operands r))" using operands by (elim conjE)
  moreover have "list_all (\<lambda>operand. mo_canonical_metric_id operand = metric \<and> mo_available_at operand \<le> mr_as_of r \<and>
      mo_filing_date operand \<le> mr_as_of r \<and> mo_fiscal_end operand \<le> mr_as_of r) (mr_operands r)"
    using metric times by (simp add: list_all_iff)
  ultimately show ?thesis using r lane by (intro bexI [of _ r] conjI)
qed

definition sample_operand :: "string \<Rightarrow> MetricComparisonOperand" where
  "sample_operand company = \<lparr>mo_company_id = company, mo_security_id = [],
     mo_source_observation_ids = [''observation-1''], mo_filing_accessions = [], mo_source_hashes = [sample_digest],
     mo_available_at = 1, mo_retrieved_at = 2, mo_canonical_metric_id = ''metric-1'', mo_metric_version = ''v1'',
     mo_taxonomy_concept = ''concept'', mo_extension_mapping_id = [], mo_value = ''1'', mo_numerator = [],
     mo_denominator = [], mo_unit = ''USD'', mo_currency = ''USD'', mo_scale = 0, mo_sign_policy = ''natural'',
     mo_dimensional_identity = ''consolidated'', mo_period_type = ''instant'', mo_fiscal_start = None,
     mo_fiscal_end = 1, mo_filing_date = 1, mo_market_observation_date = None,
     mo_accounting_perimeter = ''consolidated'', mo_accounting_inputs = [], mo_output_class = [],
     mo_product_label = [], mo_pair_ranking_eligible = True, mo_definition_id = ''definition-1'',
     mo_restatement_state = ''not_restated'', mo_supersession_state = ''active''\<rparr>"

definition sample_receipt :: "MetricComparisonOperand list \<Rightarrow> MetricComparabilityReceipt" where
  "sample_receipt operands = \<lparr>mr_schema_version = ComparabilityReceiptSchemaV1, mr_receipt_id = ''receipt-1'',
     mr_request_id = ''request-1'', mr_run_id = ''run-1'', mr_lane_id = ''lane-1'', mr_as_of = 5,
     mr_operands = operands, mr_disposition = ComparisonComparable,
     mr_invariants = [\<lparr>cv_invariant_id = ''same_metric'', cv_passed = True, cv_detail = []\<rparr>],
     mr_required_caveat_ids = [], mr_reason_codes = [], mr_reviewer_policy_version = ''policy-1'',
     mr_request_sha256 = sample_digest, mr_generated_at = 5, mr_receipt_sha256 = sample_seal\<rparr>"

definition sample_comparison :: "MetricComparisonOperand list \<Rightarrow> ComparisonBundle" where
  "sample_comparison operands = \<lparr>cb_schema_version = ComparisonBundleSchemaV1, cb_bundle_id = ''bundle-1'',
     cb_request_id = ''request-1'', cb_run_id = ''run-1'',
     cb_peer_lane = sample_abstract_lane\<lparr>ln_lane_sha256 := sample_seal\<rparr>,
     cb_activation_refs = [''activation-1'', ''activation-2''], cb_receipts = [sample_receipt operands],
     cb_abstentions = [], cb_released_metric_ids = [''metric-1''], cb_generated_at = 6, cb_bundle_sha256 = sample_seal\<rparr>"

lemma sample_lane_valid: "ValidatePeerLane zero_hashers (sample_abstract_lane\<lparr>ln_lane_sha256 := sample_seal\<rparr>) = None"
  unfolding ValidatePeerLane_def
  by (simp add: sample_abstract_lane_def zero_hashers_def allUniqueNonEmpty_iff sample_names validHashes_def sample_seal_valid)

lemma sample_receipt_valid:
  assumes "validateComparisonOperands operands 5 False = None"
  shows "ValidateMetricComparabilityReceipt zero_hashers (sample_receipt operands) = None"
  using assms unfolding ValidateMetricComparabilityReceipt_def
  by (simp add: sample_receipt_def zero_hashers_def sample_seal_valid check_disposition_def models_None)

lemma sample_operands_valid: "validateComparisonOperands [sample_operand ''company-1'', sample_operand ''company-2''] 5 False = None"
  by code_simp

theorem released_metrics_have_receipts_witness:
  "\<exists>receipt \<in> set (cb_receipts (sample_comparison [sample_operand ''company-1'', sample_operand ''company-2''])).
     mr_disposition receipt \<in> {ComparisonComparable, ComparisonComparableWithCaveat}"
proof -
  let ?b = "sample_comparison [sample_operand ''company-1'', sample_operand ''company-2'']"
  have receipts: "releasable_metrics zero_hashers ?b 0 [] (cb_receipts ?b) = Inr [''metric-1'']"
    using sample_receipt_valid [OF sample_operands_valid]
    by (simp add: sample_comparison_def)
      (simp add: sample_receipt_def sample_operand_def sample_abstract_lane_def releasable_disposition_def)
  have lane: "ValidatePeerLane zero_hashers (cb_peer_lane ?b) = None"
    using sample_lane_valid by (simp add: sample_comparison_def)
  have "ValidateComparisonBundle zero_hashers ?b = None"
    unfolding ValidateComparisonBundle_def receipts sum.case
    using lane by (simp add: models_None)
      (simp add: sample_comparison_def allUniqueNonEmpty_iff sample_names zero_hashers_def range_err_def)
  moreover have "''metric-1'' \<in> set (cb_released_metric_ids ?b)" by (simp add: sample_comparison_def)
  ultimately show ?thesis using released_metrics_have_receipts by blast
qed

text \<open>
  A comparable receipt without operands is accepted on its own, and a bundle that contains it
  makes the validator of bundles panic instead of returning an error.
\<close>

theorem bundle_validator_panics:
  assumes "cb_receipts bundle = receipt # receipts" and "mr_operands receipt = []"
    and "ValidateMetricComparabilityReceipt H receipt = None"
    and "mr_disposition receipt = ComparisonComparable"
    and "mr_request_id receipt = cb_request_id bundle" and "mr_run_id receipt = cb_run_id bundle"
    and "mr_lane_id receipt = ln_lane_id (cb_peer_lane bundle)" and "ValidatePeerLane H (cb_peer_lane bundle) = None"
    and "cb_schema_version bundle = ComparisonBundleSchemaV1" and "cb_bundle_id bundle \<noteq> []"
    and "cb_request_id bundle \<noteq> []" and "cb_run_id bundle \<noteq> []" and "cb_generated_at bundle \<noteq> 0"
    and "length (cb_activation_refs bundle) = 2" and "allUniqueNonEmpty (cb_activation_refs bundle)"
  shows "ValidateComparisonBundle H bundle = Some (Panic ''index out of range'')"
proof -
  have "releasable_metrics H bundle 0 [] (cb_receipts bundle) = Inl (Panic ''index out of range'')"
    using assms(1-7) by (simp add: check_then_def wrap_err_def releasable_disposition_def)
  with assms show ?thesis
    unfolding ValidateComparisonBundle_def by (simp add: wrap_err_def)
qed

theorem bundle_validator_panics_witness:
  "ValidateMetricComparabilityReceipt zero_hashers (sample_receipt []) = None \<and>
   ValidateComparisonBundle zero_hashers (sample_comparison []) = Some (Panic ''index out of range'')"
proof (intro conjI)
  have "validateComparisonOperands [] 5 False = None" by (simp add: validateComparisonOperands_def)
  then show receipt: "ValidateMetricComparabilityReceipt zero_hashers (sample_receipt []) = None"
    by (rule sample_receipt_valid)
  have ids: "cb_receipts (sample_comparison []) = [sample_receipt []]" "mr_operands (sample_receipt []) = []"
    "mr_disposition (sample_receipt []) = ComparisonComparable"
    "mr_request_id (sample_receipt []) = cb_request_id (sample_comparison [])"
    "mr_run_id (sample_receipt []) = cb_run_id (sample_comparison [])"
    "mr_lane_id (sample_receipt []) = ln_lane_id (cb_peer_lane (sample_comparison []))"
    "ValidatePeerLane zero_hashers (cb_peer_lane (sample_comparison [])) = None"
    using sample_lane_valid by (simp_all add: sample_comparison_def) (simp_all add: sample_receipt_def sample_abstract_lane_def)
  show "ValidateComparisonBundle zero_hashers (sample_comparison []) = Some (Panic ''index out of range'')"
    by (rule bundle_validator_panics [OF ids(1,2) receipt ids(3-7)])
      (simp_all add: sample_comparison_def allUniqueNonEmpty_iff sample_names)
qed

section \<open>sortedUnique\<close>

lemma compact_sorted_spec:
  assumes "sorted (rev (w # ws) @ vs)" and "distinct (w # ws)"
  shows "sorted (compact_sorted (w # ws) vs) \<and> distinct (compact_sorted (w # ws) vs) \<and>
    set (compact_sorted (w # ws) vs) = set (w # ws) \<union> set vs"
  using assms
proof (induction vs arbitrary: w ws)
  case (Cons v vs)
  show ?case
  proof (cases "v = w")
    case True
    then have "sorted (rev (w # ws) @ vs)" using Cons.prems(1) by (auto simp: sorted_append)
    from Cons.IH [OF this Cons.prems(2)] True show ?thesis by auto
  next
    case False
    then have "v \<notin> set (w # ws)" using Cons.prems(1) by (auto simp: sorted_append)
    then have "distinct (v # w # ws)" "sorted (rev (v # w # ws) @ vs)" using Cons.prems by simp_all
    from Cons.IH [OF this(2,1)] False show ?thesis by auto
  qed
qed (auto simp: sorted_append)

text \<open>
  \<open>sortedUnique\<close> returns exactly the values it was given, each once and in order.
\<close>

theorem sortedUnique_correct: "sortedUnique values = sorted_list_of_set (set values)"
proof -
  have "sorted (sortedUnique values) \<and> distinct (sortedUnique values) \<and> set (sortedUnique values) = set values"
  proof (cases "sort values")
    case Nil
    then show ?thesis by (simp add: sortedUnique_def) (metis set_empty set_sort)
  next
    case (Cons v vs)
    then have "sorted (v # vs)" "set (v # vs) = set values" by (metis sorted_sort) (metis Cons set_sort)
    with compact_sorted_spec [of v "[]" vs] Cons show ?thesis by (simp add: sortedUnique_def)
  qed
  then show ?thesis by (intro sorted_distinct_set_unique) simp_all
qed

end
