(* ===== verification/Go_Numbers.thy ===== *)
theory Go_Numbers
  imports GoStd
begin

text \<open>
  Numbers of Go with their width: \<open>int64\<close> arithmetic that wraps, \<open>time.Duration\<close> with the
  saturating \<open>Sub\<close> and the floating-point \<open>Hours\<close>, and the rounding of finite \<open>float64\<close>
  results (nearest, ties to even; results beyond the largest finite number do not occur).
\<close>

section \<open>int64\<close>

definition wrap64 :: "int \<Rightarrow> int" where
  "wrap64 x = (x + 2 ^ 63) mod 2 ^ 64 - 2 ^ 63"

definition max_int64 :: int where "max_int64 = 2 ^ 63 - 1"
definition min_int64 :: int where "min_int64 = - (2 ^ 63)"

lemma wrap64_id: "min_int64 \<le> x \<Longrightarrow> x \<le> max_int64 \<Longrightarrow> wrap64 x = x"
  by (simp add: wrap64_def min_int64_def max_int64_def)

lemma wrap64_range: "min_int64 \<le> wrap64 x \<and> wrap64 x \<le> max_int64"
  using pos_mod_bound [of "2 ^ 64" "x + 2 ^ 63"] by (simp add: wrap64_def min_int64_def max_int64_def)

text \<open>Division of Go truncates toward zero.\<close>

definition go_div :: "int \<Rightarrow> int \<Rightarrow> int" where
  "go_div x y = sgn x * sgn y * (\<bar>x\<bar> div \<bar>y\<bar>)"

definition go_mod :: "int \<Rightarrow> int \<Rightarrow> int" where
  "go_mod x y = x - y * go_div x y"

section \<open>float64\<close>

text \<open>The binary logarithm of a positive number, rounded down.\<close>

function log2 :: "int \<Rightarrow> int" where
  "log2 n = (if n \<le> 1 then 0 else log2 (n div 2) + 1)"
  by auto
termination by (relation "measure nat") auto

declare log2.simps [simp del]

definition pow2 :: "int \<Rightarrow> rat" where
  "pow2 e = (if 0 \<le> e then 2 ^ nat e else 1 / 2 ^ nat (- e))"

text \<open>The exponent \<open>e\<close> with \<open>2 ^ e \<le> x < 2 ^ (e + 1)\<close>.\<close>

definition exponent_of :: "rat \<Rightarrow> int" where
  "exponent_of x = (case quotient_of x of (p, q) \<Rightarrow>
     let e = log2 p - log2 q in if pow2 e \<le> x then e else e - 1)"

definition round_half_even :: "rat \<Rightarrow> int" where
  "round_half_even y =
     (let f = \<lfloor>y\<rfloor>; d = y - of_int f in
      if d < 1 / 2 then f else if d > 1 / 2 then f + 1 else if even f then f else f + 1)"

definition round_positive :: "rat \<Rightarrow> rat" where
  "round_positive x =
     (let unit = pow2 (max (exponent_of x) (- 1022) - 52) in of_int (round_half_even (x / unit)) * unit)"

definition round_double :: "rat \<Rightarrow> rat" where
  "round_double x = (if x = 0 then 0 else if x < 0 then - round_positive (- x) else round_positive x)"

definition f64_add :: "rat \<Rightarrow> rat \<Rightarrow> rat" where "f64_add x y = round_double (x + y)"
definition f64_div :: "rat \<Rightarrow> rat \<Rightarrow> rat" where "f64_div x y = round_double (x / y)"


section \<open>Durations\<close>

definition hour_ns :: int where "hour_ns = 3600 * 1000000000"

definition time_sub :: "gotime \<Rightarrow> gotime \<Rightarrow> int" where
  "time_sub t u = (if t - u > max_int64 then max_int64 else if t - u < min_int64 then min_int64 else t - u)"

definition duration_hours :: "int \<Rightarrow> rat" where
  "duration_hours d =
     f64_add (round_double (of_int (go_div d hour_ns)))
       (f64_div (round_double (of_int (go_mod d hour_ns))) (60 * 60 * 1000000000))"

end
