(* ===== verification/Go_Text.thy ===== *)
theory Go_Text
  imports Go_Numbers
begin

text \<open>
  More of Go's string functions: \<open>strings.Split\<close>, \<open>strings.Fields\<close>, suffixes, replacement of
  single bytes, upper-casing of the first byte, and \<open>strconv.Atoi\<close> with its clamping of numbers
  out of range.
\<close>

section \<open>Splitting\<close>

text \<open>
  \<open>pieces m\<close> cuts a string at the separators that \<open>m\<close> recognizes at a position, by their length
  (zero where there is none); the second argument is the reversed piece read so far, the third the
  number of bytes of the last separator still to skip.
\<close>

fun pieces :: "(string \<Rightarrow> nat) \<Rightarrow> string \<Rightarrow> nat \<Rightarrow> string \<Rightarrow> string list" where
  "pieces m word k [] = [rev word]"
| "pieces m word (Suc k) (c # s) = pieces m word k s"
| "pieces m word 0 (c # s) =
     (let n = m (c # s) in if n = 0 then pieces m (c # word) 0 s else rev word # pieces m [] (n - 1) s)"

lemma pieces_not_Nil [simp]: "pieces m word k s \<noteq> []"
  by (induction m word k s rule: pieces.induct) (auto simp: Let_def)

definition split_str :: "string \<Rightarrow> string \<Rightarrow> string list" where
  "split_str sep s = pieces (\<lambda>t. if starts_with t sep then length sep else 0) [] 0 s"

lemma split_str_not_Nil [simp]: "split_str sep s \<noteq> []"
  by (simp add: split_str_def)

definition space_length :: "string \<Rightarrow> nat" where
  "space_length s = (case find (\<lambda>p. starts_with s p) space_runes of None \<Rightarrow> 0 | Some p \<Rightarrow> length p)"

definition fields :: "string \<Rightarrow> string list" where
  "fields s = filter (\<lambda>word. word \<noteq> []) (pieces space_length [] 0 s)"

text \<open>A string without the separator is a single piece.\<close>

lemma pieces_none:
  assumes "\<And>p c t. s = p @ c # t \<Longrightarrow> m (c # t) = 0"
  shows "pieces m word 0 s = [rev word @ s]"
  using assms
proof (induction s arbitrary: word)
  case (Cons c s)
  have "m (c # s) = 0" using Cons.prems [of "[]" c s] by simp
  moreover have "pieces m (c # word) 0 s = [rev (c # word) @ s]"
    by (rule Cons.IH) (rule Cons.prems [of "c # _"], simp)
  ultimately show ?case by simp
qed simp

section \<open>Suffixes and single bytes\<close>

definition has_suffix :: "string \<Rightarrow> string \<Rightarrow> bool" where
  "has_suffix s p = starts_with (rev s) (rev p)"

definition trim_suffix :: "string \<Rightarrow> string \<Rightarrow> string" where
  "trim_suffix s p = (if has_suffix s p then take (length s - length p) s else s)"

definition replace_byte :: "char \<Rightarrow> string \<Rightarrow> string \<Rightarrow> string" where
  "replace_byte old new s = concat (map (\<lambda>c. if c = old then new else [c]) s)"

text \<open>
  \<open>strings.ToUpper\<close> of a string of one byte: a byte of a rune that was cut is no valid rune, and
  is replaced by U+FFFD.
\<close>

definition upper_byte :: "char \<Rightarrow> string" where
  "upper_byte c =
     (if CHR ''a'' \<le> c \<and> c \<le> CHR ''z'' then [char_of (of_char c - 32 :: nat)]
      else if CHR 0x80 \<le> c then [CHR 0xEF, CHR 0xBF, CHR 0xBD] else [c])"

section \<open>strconv.Atoi\<close>

datatype atoi_error = SyntaxError | RangeError

fun parse_digits :: "int \<Rightarrow> string \<Rightarrow> atoi_error + int" where
  "parse_digits n [] = Inr n"
| "parse_digits n (c # s) =
     (if \<not> (CHR ''0'' \<le> c \<and> c \<le> CHR ''9'') then Inl SyntaxError
      else if 10 * n + (int (of_char c) - 48) > 18446744073709551615 then Inl RangeError
      else parse_digits (10 * n + (int (of_char c) - 48)) s)"

text \<open>The value and whether there was an error: zero for text that is no number, the nearest
  \<open>int64\<close> for a number out of range.\<close>

definition Atoi :: "string \<Rightarrow> int \<times> bool" where
  "Atoi s =
     (let neg = (case s of c # _ \<Rightarrow> c = CHR ''-'' | [] \<Rightarrow> False);
          digits = (case s of c # t \<Rightarrow> if c = CHR ''-'' \<or> c = CHR ''+'' then t else s | [] \<Rightarrow> []) in
      if digits = [] then (0, True)
      else (case parse_digits 0 digits of
          Inl SyntaxError \<Rightarrow> (0, True)
        | Inl RangeError \<Rightarrow> (if neg then (min_int64, True) else (max_int64, True))
        | Inr n \<Rightarrow>
            if \<not> neg \<and> n > max_int64 then (max_int64, True)
            else if neg \<and> - n < min_int64 then (min_int64, True)
            else (if neg then - n else n, False)))"

lemma parse_digits_nonneg: "0 \<le> n \<Longrightarrow> parse_digits n s = Inr m \<Longrightarrow> 0 \<le> m"
  by (induction n s rule: parse_digits.induct) (auto split: if_splits simp: less_eq_char_def)

lemma Atoi_range: "min_int64 \<le> fst (Atoi s) \<and> fst (Atoi s) \<le> max_int64"
  using parse_digits_nonneg [of 0 "tl s"] parse_digits_nonneg [of 0 s]
  by (auto simp: Atoi_def Let_def min_int64_def max_int64_def split: sum.splits atoi_error.splits list.splits)

section \<open>Case-insensitive search\<close>

text \<open>
  Case folding of the \<open>regexp\<close> package as far as a search for ASCII letters can tell: besides the
  upper case letters, U+212A folds with \<open>k\<close> and U+017F with \<open>s\<close>.
\<close>

fun fold_case :: "string \<Rightarrow> string" where
  "fold_case [] = []"
| "fold_case (c # s) =
     (if starts_with (c # s) [CHR 0xC5, CHR 0xBF] then CHR ''s'' # fold_case (drop 1 s)
      else if starts_with (c # s) [CHR 0xE2, CHR 0x84, CHR 0xAA] then CHR ''k'' # fold_case (drop 2 s)
      else if CHR ''A'' \<le> c \<and> c \<le> CHR ''Z'' then char_of (of_char c + 32 :: nat) # fold_case s
      else c # fold_case s)"

text \<open>An equation to evaluate it with: only bytes with the high bit, and the block of upper case
  letters, need a closer look.\<close>

definition fold_slow :: "char \<Rightarrow> string \<Rightarrow> string \<Rightarrow> string" where
  "fold_slow c s folded =
     (if starts_with (c # s) [CHR 0xC5, CHR 0xBF] then CHR ''s'' # fold_case (drop 1 s)
      else if starts_with (c # s) [CHR 0xE2, CHR 0x84, CHR 0xAA] then CHR ''k'' # fold_case (drop 2 s)
      else if CHR ''A'' \<le> c \<and> c \<le> CHR ''Z'' then char_of (of_char c + 32 :: nat) # folded
      else c # folded)"

lemma fold_case_code [code]:
  "fold_case [] = []"
  "fold_case (Char b0 b1 b2 b3 b4 b5 b6 b7 # s) =
     (if b7 then fold_slow (Char b0 b1 b2 b3 b4 b5 b6 b7) s (fold_case s)
      else if b6 then (if b5 then Char b0 b1 b2 b3 b4 b5 b6 b7 # fold_case s
        else fold_slow (Char b0 b1 b2 b3 b4 b5 b6 b7) s (fold_case s))
      else Char b0 b1 b2 b3 b4 b5 b6 b7 # fold_case s)"
  by (auto simp: fold_slow_def starts_with_code less_eq_char_simp)

end
