(* ===== verification/Comparability.thy ===== *)
theory Comparability
  imports Activation_Laws Go_Text
begin

text \<open>
  \<open>internal/comparability/evaluate.go\<close>: whether two reported values of a metric may be compared.
  \<open>Evaluate\<close> lists the invariants of a pair of operands with their outcome, and derives the
  disposition, the caveats and the reasons of a receipt from them. Go returns a receipt and an
  error; the receipt is the zero value for the errors before hashing.
\<close>

section \<open>Policies\<close>

record Policy =
  cpo_version :: string
  cpo_require_exact_period :: bool
  cpo_allow_annual_period_caveat :: bool
  cpo_max_fiscal_end_delta_days :: int
  cpo_require_exact_market_date :: bool

definition DefaultPolicy :: Policy where
  "DefaultPolicy = \<lparr>cpo_version = ''metric-comparability/v1'', cpo_require_exact_period = True,
     cpo_allow_annual_period_caveat = False, cpo_max_fiscal_end_delta_days = 0,
     cpo_require_exact_market_date = True\<rparr>"

definition AnnualDurationPolicy :: Policy where
  "AnnualDurationPolicy = \<lparr>cpo_version = ''metric-comparability-annual-duration/v1'',
     cpo_require_exact_period = False, cpo_allow_annual_period_caveat = True,
     cpo_max_fiscal_end_delta_days = 190, cpo_require_exact_market_date = True\<rparr>"

section \<open>Checks of a pair\<close>

definition check :: "string \<Rightarrow> bool \<Rightarrow> string \<Rightarrow> ComparabilityInvariant" where
  "check invariant_id passed detail =
     \<lparr>cv_invariant_id = invariant_id, cv_passed = passed, cv_detail = if \<not> passed then detail else []\<rparr>"

definition failedInvariantIDs :: "ComparabilityInvariant list \<Rightarrow> string list" where
  "failedInvariantIDs invariants = map cv_invariant_id (filter (\<lambda>invariant. \<not> cv_passed invariant) invariants)"

definition sameOptionalTime :: "gotime option \<Rightarrow> gotime option \<Rightarrow> bool" where
  "sameOptionalTime left right =
     (case (left, right) of (Some l, Some r) \<Rightarrow> l = r | _ \<Rightarrow> left = None \<and> right = None)"

definition activeRestatementState :: "string \<Rightarrow> bool" where
  "activeRestatementState value \<longleftrightarrow>
     value = ''not_restated'' \<or> value = ''restated_current'' \<or> value = ''active_amendment_chain''"

text \<open>The perimeter of a part is what follows its first equality sign, or the part itself.\<close>

definition part_perimeter :: "string \<Rightarrow> string" where
  "part_perimeter part =
     (case dropWhile (\<lambda>c. c \<noteq> CHR ''='') part of [] \<Rightarrow> part | _ # perimeter \<Rightarrow> perimeter)"

definition reviewedAccountingPerimeter :: "string \<Rightarrow> bool" where
  "reviewedAccountingPerimeter value \<longleftrightarrow>
     list_all (\<lambda>part. part_perimeter part \<in> set [''consolidated'', ''consolidated_periodic_filing'',
         ''company_reported_property_and_equipment_cash_purchases'',
         ''company_reported_cash_capital_expenditures'',
         ''company_reported_property_equipment_and_intangible_assets''])
       (split_str '';'' value) \<and> split_str '';'' value \<noteq> []"

definition rankingEligibleAccountingPerimeter :: "string \<Rightarrow> bool" where
  "rankingEligibleAccountingPerimeter value \<longleftrightarrow>
     list_all (\<lambda>part. part_perimeter part = ''consolidated'' \<or> part_perimeter part = ''consolidated_periodic_filing'')
       (split_str '';'' value) \<and> split_str '';'' value \<noteq> []"

definition annualDuration :: "MetricComparisonOperand \<Rightarrow> bool" where
  "annualDuration operand =
     (case mo_fiscal_start operand of
        None \<Rightarrow> False
      | Some start \<Rightarrow> mo_period_type operand = ''duration'' \<and>
          (let days = f64_div (duration_hours (time_sub (mo_fiscal_end operand) start)) 24 in
           330 \<le> days \<and> days \<le> 380))"

definition absoluteDuration :: "int \<Rightarrow> int" where
  "absoluteDuration value = (if value < 0 then wrap64 (- value) else value)"

definition IsReleasable :: "string \<Rightarrow> bool" where
  "IsReleasable disposition \<longleftrightarrow>
     disposition = ComparisonComparable \<or> disposition = ComparisonComparableWithCaveat"

definition ExplainRefusal :: "MetricComparabilityReceipt \<Rightarrow> string" where
  "ExplainRefusal receipt =
     (if mr_disposition receipt \<noteq> ComparisonNotComparable \<and> mr_disposition receipt \<noteq> ComparisonContextOnly then []
      else ''Comparison withheld because: '' @ join '', '' (mr_reason_codes receipt) @ ''.'')"

section \<open>Evaluate\<close>

text \<open>The invariants every policy has, and the groups the policy and the operands add.\<close>

definition base_invariants :: "bool \<Rightarrow> MetricComparisonOperand \<Rightarrow> MetricComparisonOperand \<Rightarrow> ComparabilityInvariant list" where
  "base_invariants v2Authority left right =
     [check ''distinct_issuers'' (mo_company_id left \<noteq> mo_company_id right) ''comparison operands must belong to distinct issuers'',
      check ''same_metric'' (mo_canonical_metric_id left = mo_canonical_metric_id right) ''canonical metric IDs differ'',
      check ''same_metric_version'' (mo_metric_version left = mo_metric_version right) ''metric policy versions differ'',
      check ''same_unit'' (mo_unit left = mo_unit right) ''units differ'',
      check ''same_currency'' (mo_currency left = mo_currency right) ''currencies differ'',
      check ''same_scale'' (mo_scale left = mo_scale right) ''scales differ'',
      check ''same_sign_policy'' (mo_sign_policy left = mo_sign_policy right) ''sign policies differ'',
      check ''same_dimensions'' (mo_dimensional_identity left = mo_dimensional_identity right) ''dimensional identities differ'',
      check ''consolidated_dimensions'' (mo_dimensional_identity left = ''consolidated'')
        ''comparison is not based on consolidated dimensionless observations'',
      check ''same_period_type'' (mo_period_type left = mo_period_type right) ''instant and duration semantics differ'',
      check ''same_definition'' (mo_definition_id left = mo_definition_id right) ''metric definitions differ'',
      check ''same_accounting_perimeter'' (mo_accounting_perimeter left = mo_accounting_perimeter right)
        ''accounting perimeters differ'',
      check ''reviewed_accounting_perimeter'' (reviewedAccountingPerimeter (mo_accounting_perimeter left) \<and>
          reviewedAccountingPerimeter (mo_accounting_perimeter right))
        ''accounting perimeter was not independently constrained'',
      check ''ranking_eligible_accounting_perimeter''
        ((\<not> v2Authority \<and> rankingEligibleAccountingPerimeter (mo_accounting_perimeter left) \<and>
            rankingEligibleAccountingPerimeter (mo_accounting_perimeter right)) \<or>
          (v2Authority \<and> mo_pair_ranking_eligible left \<and> mo_pair_ranking_eligible right))
        ''context-only or standalone-only accounting authority cannot enter a comparable ranking'',
      check ''same_restatement_state'' (mo_restatement_state left = mo_restatement_state right) ''restatement states differ'',
      check ''active_restatement_chain'' (activeRestatementState (mo_restatement_state left) \<and>
          activeRestatementState (mo_restatement_state right)) ''amendment or restatement chain is not active'',
      check ''active_supersession'' (mo_supersession_state left = ''active'' \<and> mo_supersession_state right = ''active'')
        ''one source observation is superseded'']"

definition end_delta :: "MetricComparisonOperand \<Rightarrow> MetricComparisonOperand \<Rightarrow> int" where
  "end_delta left right = absoluteDuration (time_sub (mo_fiscal_end left) (mo_fiscal_end right))"

definition same_period :: "MetricComparisonOperand \<Rightarrow> MetricComparisonOperand \<Rightarrow> bool" where
  "same_period left right \<longleftrightarrow> mo_fiscal_end left = mo_fiscal_end right \<and>
     sameOptionalTime (mo_fiscal_start left) (mo_fiscal_start right)"

definition period_invariants ::
  "Policy \<Rightarrow> MetricComparisonOperand \<Rightarrow> MetricComparisonOperand \<Rightarrow> ComparabilityInvariant list \<times> string list" where
  "period_invariants policy left right =
     (if cpo_require_exact_period policy then
        ([check ''same_fiscal_end'' (mo_fiscal_end left = mo_fiscal_end right) ''fiscal period ends differ'',
          check ''same_fiscal_start'' (sameOptionalTime (mo_fiscal_start left) (mo_fiscal_start right))
            ''fiscal period starts differ''], [])
      else if cpo_allow_annual_period_caveat policy then
        (let annualPeriods = annualDuration left \<and> annualDuration right in
         ([check ''annual_duration_periods'' annualPeriods ''one or both fiscal periods are not annual durations'',
           check ''bounded_fiscal_end_delta''
             (end_delta left right \<le> wrap64 (cpo_max_fiscal_end_delta_days policy * 24 * hour_ns))
             ''fiscal period ends are too far apart''],
          if annualPeriods \<and> \<not> same_period left right then [''different_fiscal_periods''] else []))
      else ([], []))"

definition market_invariants ::
  "Policy \<Rightarrow> MetricComparisonOperand \<Rightarrow> MetricComparisonOperand \<Rightarrow> ComparabilityInvariant list" where
  "market_invariants policy left right =
     (if cpo_require_exact_market_date policy \<and>
         (mo_market_observation_date left \<noteq> None \<or> mo_market_observation_date right \<noteq> None) then
        [check ''same_market_observation_date''
           (sameOptionalTime (mo_market_observation_date left) (mo_market_observation_date right))
           ''market observation dates differ'',
         check ''security_identity_present'' (mo_security_id left \<noteq> [] \<and> mo_security_id right \<noteq> [])
           ''market comparison requires both security identities'']
      else [])"

definition taxonomy_invariants ::
  "MetricComparisonOperand \<Rightarrow> MetricComparisonOperand \<Rightarrow> ComparabilityInvariant list \<times> string list" where
  "taxonomy_invariants left right =
     (if mo_taxonomy_concept left \<noteq> mo_taxonomy_concept right then
        (let reviewedMapping = mo_extension_mapping_id left \<noteq> [] \<and>
               mo_extension_mapping_id left = mo_extension_mapping_id right in
         ([check ''reviewed_taxonomy_mapping'' reviewedMapping ''taxonomy concepts differ without one reviewed mapping''],
          if reviewedMapping then [''reviewed_taxonomy_mapping_applied''] else []))
      else ([], []))"

definition pair_invariants ::
  "Policy \<Rightarrow> bool \<Rightarrow> MetricComparisonOperand \<Rightarrow> MetricComparisonOperand \<Rightarrow> ComparabilityInvariant list" where
  "pair_invariants policy v2Authority left right =
     base_invariants v2Authority left right @ fst (period_invariants policy left right) @
     market_invariants policy left right @ fst (taxonomy_invariants left right)"

definition pair_caveats :: "Policy \<Rightarrow> MetricComparisonOperand \<Rightarrow> MetricComparisonOperand \<Rightarrow> string list" where
  "pair_caveats policy left right =
     snd (period_invariants policy left right) @
     (if mo_filing_date left \<noteq> mo_filing_date right then [''different_filing_dates''] else []) @
     snd (taxonomy_invariants left right)"

definition context_only_pair :: "bool \<Rightarrow> MetricComparisonOperand \<Rightarrow> MetricComparisonOperand \<Rightarrow> bool" where
  "context_only_pair v2Authority left right \<longleftrightarrow> v2Authority \<and>
     (mo_output_class left = ''context_only'' \<or> mo_output_class right = ''context_only'' \<or>
      \<not> mo_pair_ranking_eligible left \<or> \<not> mo_pair_ranking_eligible right)"

text \<open>Disposition, caveats and reasons, before they are sorted.\<close>

definition decide :: "bool \<Rightarrow> string list \<Rightarrow> string list \<Rightarrow> string \<times> string list \<times> string list" where
  "decide contextOnly reasons caveats =
     (if contextOnly then (ComparisonContextOnly, caveats @ [''non_ranking_context_only''],
        reasons @ [''context_only_accounting_authority''])
      else if reasons \<noteq> [] then (ComparisonNotComparable, [], reasons)
      else if caveats \<noteq> [] then (ComparisonComparableWithCaveat, caveats, reasons)
      else (ComparisonComparable, caveats, reasons))"

definition zero_receipt :: MetricComparabilityReceipt where
  "zero_receipt = \<lparr>mr_schema_version = [], mr_receipt_id = [], mr_request_id = [], mr_run_id = [], mr_lane_id = [],
     mr_as_of = 0, mr_operands = [], mr_disposition = [], mr_invariants = [], mr_required_caveat_ids = [],
     mr_reason_codes = [], mr_reviewer_policy_version = [], mr_request_sha256 = [], mr_generated_at = 0,
     mr_receipt_sha256 = []\<rparr>"

definition decided_receipt :: "MetricComparabilityRequest \<Rightarrow> gotime \<Rightarrow> Policy \<Rightarrow> MetricComparabilityReceipt" where
  "decided_receipt request generatedAt policy =
     (let left = mq_operands request ! 0; right = mq_operands request ! 1;
          v2Authority = (mq_schema_version request = ComparabilityRequestSchemaV2);
          invariants = pair_invariants policy v2Authority left right in
      case decide (context_only_pair v2Authority left right) (failedInvariantIDs invariants)
             (pair_caveats policy left right) of
        (disposition, caveats, reasons) \<Rightarrow>
          \<lparr>mr_schema_version = if v2Authority then ComparabilityReceiptSchemaV2 else ComparabilityReceiptSchemaV1,
           mr_receipt_id = ''comparability-'' @ take 24 (mq_request_sha256 request),
           mr_request_id = mq_request_id request, mr_run_id = mq_run_id request, mr_lane_id = mq_lane_id request,
           mr_as_of = mq_as_of request, mr_operands = mq_operands request, mr_disposition = disposition,
           mr_invariants = invariants, mr_required_caveat_ids = sort caveats, mr_reason_codes = sort reasons,
           mr_reviewer_policy_version = cpo_version policy, mr_request_sha256 = mq_request_sha256 request,
           mr_generated_at = generatedAt, mr_receipt_sha256 = []\<rparr>)"

definition Evaluate :: "hashers \<Rightarrow> MetricComparabilityRequest \<Rightarrow> gotime \<Rightarrow> Policy \<Rightarrow>
    MetricComparabilityReceipt \<times> go_error option" where
  "Evaluate H request generatedAt policy =
     (case ValidateMetricComparabilityRequest H request of
        Some err \<Rightarrow> (zero_receipt, Some err)
      | None \<Rightarrow>
          if cpo_version policy = [] \<or> mq_reviewer_policy_version request \<noteq> cpo_version policy then
            (zero_receipt, Some (ErrorsNew ''comparison policy version is missing or mismatched''))
          else if is_zero_time generatedAt \<or> time_before generatedAt (mq_as_of request) then
            (zero_receipt, Some (ErrorsNew ''receipt generation time cannot precede request as_of''))
          else PopulateMetricComparabilityReceiptHash H (decided_receipt request generatedAt policy))"

end
