(* ===== verification/Comparability_Laws.thy ===== *)
theory Comparability_Laws
  imports Comparability
begin

text \<open>
  What the receipts of \<open>Evaluate\<close> guarantee: they pass the validator of receipts, a releasable one
  is about operands that agree, and the decision does not depend on the order of the operands.
\<close>

section \<open>Dispositions\<close>

lemma cv_check [simp]:
  "cv_passed (check i p d) = p" "cv_invariant_id (check i p d) = i"
  by (simp_all add: check_def)

definition pair_ok :: "Policy \<Rightarrow> bool \<Rightarrow> MetricComparisonOperand \<Rightarrow> MetricComparisonOperand \<Rightarrow> bool" where
  "pair_ok policy v2 left right = list_all cv_passed (pair_invariants policy v2 left right)"

lemma failed_none: "failedInvariantIDs invariants = [] \<longleftrightarrow> list_all cv_passed invariants"
  by (simp add: failedInvariantIDs_def filter_empty_conv list_all_iff)

lemma sort_Nil_iff [simp]: "sort xs = [] \<longleftrightarrow> xs = []" for xs :: "string list"
  by (metis length_0_conv length_sort)

lemma decide_simps:
  "fst (decide ctx reasons caveats) =
     (if ctx then ComparisonContextOnly else if reasons \<noteq> [] then ComparisonNotComparable
      else if caveats \<noteq> [] then ComparisonComparableWithCaveat else ComparisonComparable)"
  "fst (snd (decide ctx reasons caveats)) =
     (if ctx then caveats @ [''non_ranking_context_only''] else if reasons \<noteq> [] then [] else caveats)"
  "snd (snd (decide ctx reasons caveats)) =
     (if ctx then reasons @ [''context_only_accounting_authority''] else reasons)"
  by (simp_all add: decide_def)

lemma IsReleasable_decide: "IsReleasable (fst (decide ctx reasons caveats)) \<longleftrightarrow> \<not> ctx \<and> reasons = []"
  by (simp add: decide_simps IsReleasable_def)

lemma decided_receipt_fields:
  fixes request generatedAt policy
  defines "left \<equiv> mq_operands request ! 0" and "right \<equiv> mq_operands request ! 1"
    and "v2 \<equiv> mq_schema_version request = ComparabilityRequestSchemaV2"
  defines "decided \<equiv> decide (context_only_pair v2 left right)
      (failedInvariantIDs (pair_invariants policy v2 left right)) (pair_caveats policy left right)"
    and "receipt \<equiv> decided_receipt request generatedAt policy"
  shows "mr_disposition receipt = fst decided" "mr_required_caveat_ids receipt = sort (fst (snd decided))"
    "mr_reason_codes receipt = sort (snd (snd decided))"
    "mr_invariants receipt = pair_invariants policy v2 left right" "mr_operands receipt = mq_operands request"
    "mr_schema_version receipt = (if v2 then ComparabilityReceiptSchemaV2 else ComparabilityReceiptSchemaV1)"
    "mr_as_of receipt = mq_as_of request" "mr_generated_at receipt = generatedAt"
    "mr_request_id receipt = mq_request_id request" "mr_run_id receipt = mq_run_id request"
    "mr_lane_id receipt = mq_lane_id request" "mr_request_sha256 receipt = mq_request_sha256 request"
    "mr_reviewer_policy_version receipt = cpo_version policy" "mr_receipt_id receipt \<noteq> []"
  unfolding assms decided_receipt_def Let_def by (simp_all add: split_beta)

section \<open>The receipts are accepted\<close>

lemma base_invariants_ids: "list_all (\<lambda>inv. cv_invariant_id inv \<noteq> []) (pair_invariants policy v2 left right)"
  by (simp add: pair_invariants_def base_invariants_def period_invariants_def market_invariants_def
      taxonomy_invariants_def Let_def)

lemma pair_invariants_not_Nil [simp]: "pair_invariants policy v2 left right \<noteq> []"
  by (simp add: pair_invariants_def base_invariants_def)

lemma failed_count: "length (filter (\<lambda>inv. \<not> cv_passed inv) invariants) = 0 \<longleftrightarrow> failedInvariantIDs invariants = []"
  by (simp add: failedInvariantIDs_def)

lemma decided_disposition_ok:
  "check_disposition (decided_receipt request generatedAt policy)
     (length (filter (\<lambda>inv. \<not> cv_passed inv) (mr_invariants (decided_receipt request generatedAt policy)))) = None"
proof -
  have "context_only_pair v2 l r \<Longrightarrow> v2" for v2 l r by (simp add: context_only_pair_def)
  then show ?thesis
    unfolding check_disposition_def failed_count decided_receipt_fields decide_simps
    by (auto simp: fail_if_def)
qed

lemma check_disposition_hash:
  "check_disposition (receipt\<lparr>mr_receipt_sha256 := h\<rparr>) n = check_disposition receipt n"
  by (simp add: check_disposition_def)

lemma Evaluate_None:
  "Evaluate H request generatedAt policy = (receipt, None) \<longleftrightarrow>
     ValidateMetricComparabilityRequest H request = None \<and> cpo_version policy \<noteq> [] \<and>
     mq_reviewer_policy_version request = cpo_version policy \<and> generatedAt \<noteq> 0 \<and> mq_as_of request \<le> generatedAt \<and>
     PopulateMetricComparabilityReceiptHash H (decided_receipt request generatedAt policy) = (receipt, None)"
  by (auto simp: Evaluate_def not_less split: option.splits)

lemma sealed_receipt_fields:
  assumes "PopulateMetricComparabilityReceiptHash H r = (receipt, None)"
  shows "\<exists>digest. receipt = r\<lparr>mr_receipt_sha256 := digest\<rparr>"
  using assms by (auto simp: PopulateMetricComparabilityReceiptHash_def populate_hash_def Let_def split: sum.splits)

text \<open>
  C39: Every receipt that \<open>Evaluate\<close> returns without an error passes the validator of receipts,
  and it is about the operands, the request, the run and the lane that were asked about.
\<close>

theorem evaluated_receipts_are_accepted:
  assumes "Evaluate H request generatedAt policy = (receipt, None)"
  shows "ValidateMetricComparabilityReceipt H receipt = None \<and> mr_operands receipt = mq_operands request \<and>
    mr_request_id receipt = mq_request_id request \<and> mr_run_id receipt = mq_run_id request \<and>
    mr_lane_id receipt = mq_lane_id request \<and> mr_request_sha256 receipt = mq_request_sha256 request"
proof -
  let ?r = "decided_receipt request generatedAt policy"
  from assms have request: "ValidateMetricComparabilityRequest H request = None" "cpo_version policy \<noteq> []"
    "generatedAt \<noteq> 0" "mq_as_of request \<le> generatedAt"
    and sealed: "PopulateMetricComparabilityReceiptHash H ?r = (receipt, None)"
    by (simp_all add: Evaluate_None)
  obtain digest where receipt: "receipt = ?r\<lparr>mr_receipt_sha256 := digest\<rparr>"
    using sealed_receipt_fields [OF sealed] by blast
  have seal: "verifyStructHash (hs_receipt H) receipt (mr_receipt_sha256 receipt) (\<lambda>v. v\<lparr>mr_receipt_sha256 := []\<rparr>) = None"
    by (rule sealed_receipt.sealed_verifies) (rule sealed [unfolded PopulateMetricComparabilityReceiptHash_def])
  have hash: "validHash (mq_request_sha256 request)" and ids: "mq_request_id request \<noteq> []" "mq_run_id request \<noteq> []"
    "mq_lane_id request \<noteq> []" "mq_as_of request \<noteq> 0"
    and operands: "validateComparisonOperands (mq_operands request) (mq_as_of request)
      (mq_schema_version request = ComparabilityRequestSchemaV2) = None"
    using request(1) by (auto simp: ValidateMetricComparabilityRequest_def verifyStructHash_def split: if_splits)
  have "validateComparisonOperands (mr_operands ?r) (mr_as_of ?r) (mr_schema_version ?r = ComparabilityReceiptSchemaV2) = None"
    using operands by (cases "mq_schema_version request = ComparabilityRequestSchemaV2") (simp_all add: decided_receipt_fields)
  moreover have "list_all (\<lambda>inv. cv_invariant_id inv \<noteq> []) (mr_invariants ?r)"
    by (simp add: decided_receipt_fields base_invariants_ids)
  ultimately have "ValidateMetricComparabilityReceipt H receipt = None"
    using seal decided_disposition_ok [of request generatedAt policy] request ids hash
    unfolding ValidateMetricComparabilityReceipt_def receipt
    by (simp add: models_None check_disposition_hash decided_receipt_fields)
  then show ?thesis by (simp add: receipt decided_receipt_fields)
qed

lemma evaluated_pair:
  assumes "Evaluate H request generatedAt policy = (receipt, None)"
  obtains left right where "mq_operands request = [left, right]"
    "mo_company_id left \<noteq> mo_company_id right"
    "mr_disposition receipt = mr_disposition (decided_receipt request generatedAt policy)"
    "mr_required_caveat_ids receipt = mr_required_caveat_ids (decided_receipt request generatedAt policy)"
    "mr_reason_codes receipt = mr_reason_codes (decided_receipt request generatedAt policy)"
proof -
  from assms have request: "ValidateMetricComparabilityRequest H request = None"
    and sealed: "PopulateMetricComparabilityReceiptHash H (decided_receipt request generatedAt policy) = (receipt, None)"
    by (simp_all add: Evaluate_None)
  then have "length (mq_operands request) = 2"
    "check_operands (mq_as_of request) (mq_schema_version request = ComparabilityRequestSchemaV2) 0 [] [] (mq_operands request) = None"
    by (simp_all add: ValidateMetricComparabilityRequest_def validateComparisonOperands_def)
  moreover from this(1) obtain left right where "mq_operands request = [left, right]"
    by (metis (no_types) One_nat_def Suc_1 length_0_conv length_Suc_conv)
  ultimately show thesis
    using that sealed_receipt_fields [OF sealed] check_operands_None by fastforce
qed

lemma evaluated_decision:
  assumes "Evaluate H request generatedAt policy = (receipt, None)" and "mq_operands request = [left, right]"
    and "v2 = (mq_schema_version request = ComparabilityRequestSchemaV2)"
  shows "mr_disposition receipt =
      (if context_only_pair v2 left right then ComparisonContextOnly
       else if \<not> pair_ok policy v2 left right then ComparisonNotComparable
       else if pair_caveats policy left right \<noteq> [] then ComparisonComparableWithCaveat else ComparisonComparable)"
    and "mr_required_caveat_ids receipt = sort
      (if context_only_pair v2 left right then pair_caveats policy left right @ [''non_ranking_context_only'']
       else if \<not> pair_ok policy v2 left right then [] else pair_caveats policy left right)"
proof -
  have ops: "mq_operands request ! 0 = left" "mq_operands request ! 1 = right" by (simp_all add: assms(2))
  from evaluated_pair [OF assms(1)]
  have "mr_disposition receipt = mr_disposition (decided_receipt request generatedAt policy)"
    "mr_required_caveat_ids receipt = mr_required_caveat_ids (decided_receipt request generatedAt policy)" by metis+
  then show "mr_disposition receipt =
      (if context_only_pair v2 left right then ComparisonContextOnly
       else if \<not> pair_ok policy v2 left right then ComparisonNotComparable
       else if pair_caveats policy left right \<noteq> [] then ComparisonComparableWithCaveat else ComparisonComparable)"
    and "mr_required_caveat_ids receipt = sort
      (if context_only_pair v2 left right then pair_caveats policy left right @ [''non_ranking_context_only'']
       else if \<not> pair_ok policy v2 left right then [] else pair_caveats policy left right)"
    unfolding decided_receipt_fields decide_simps ops failed_none assms(3) pair_ok_def by simp_all
qed

lemma pair_ok_iff:
  "pair_ok policy v2 left right \<longleftrightarrow> list_all cv_passed (base_invariants v2 left right) \<and>
     list_all cv_passed (fst (period_invariants policy left right)) \<and>
     list_all cv_passed (market_invariants policy left right) \<and>
     list_all cv_passed (fst (taxonomy_invariants left right))"
  by (simp add: pair_ok_def pair_invariants_def)

lemma taxonomy_ok:
  "list_all cv_passed (fst (taxonomy_invariants left right)) \<longleftrightarrow> mo_taxonomy_concept left = mo_taxonomy_concept right \<or>
     mo_extension_mapping_id left \<noteq> [] \<and> mo_extension_mapping_id left = mo_extension_mapping_id right"
  "snd (taxonomy_invariants left right) =
     (if mo_taxonomy_concept left \<noteq> mo_taxonomy_concept right \<and> mo_extension_mapping_id left \<noteq> [] \<and>
         mo_extension_mapping_id left = mo_extension_mapping_id right
      then [''reviewed_taxonomy_mapping_applied''] else [])"
  by (simp_all add: taxonomy_invariants_def Let_def)

lemma period_ok:
  "list_all cv_passed (fst (period_invariants policy left right)) \<longleftrightarrow>
     (if cpo_require_exact_period policy then same_period left right
      else cpo_allow_annual_period_caveat policy \<longrightarrow> annualDuration left \<and> annualDuration right \<and>
        end_delta left right \<le> wrap64 (cpo_max_fiscal_end_delta_days policy * 24 * hour_ns))"
  by (simp add: period_invariants_def same_period_def Let_def)

text \<open>
  C40: A pair of values is only released as comparable, with or without caveats, when the two
  operands are of different companies, in the same unit, currency and scale, of the same metric
  version, definition, accounting perimeter and restatement state, both consolidated, active and
  eligible for a ranking; with exact periods they cover the same period, and whenever the filing
  dates or the taxonomy concepts differ the receipt says so in a caveat.
\<close>

theorem comparable_pairs_agree:
  assumes "Evaluate H request generatedAt policy = (receipt, None)" and "IsReleasable (mr_disposition receipt)"
  shows "\<exists>left right. mq_operands request = [left, right] \<and> mo_company_id left \<noteq> mo_company_id right \<and>
    map (\<lambda>f. f left) [mo_canonical_metric_id, mo_metric_version, mo_unit, mo_currency, mo_sign_policy,
      mo_dimensional_identity, mo_period_type, mo_definition_id, mo_accounting_perimeter, mo_restatement_state,
      mo_supersession_state] =
    map (\<lambda>f. f right) [mo_canonical_metric_id, mo_metric_version, mo_unit, mo_currency, mo_sign_policy,
      mo_dimensional_identity, mo_period_type, mo_definition_id, mo_accounting_perimeter, mo_restatement_state,
      mo_supersession_state] \<and>
    mo_scale left = mo_scale right \<and> mo_dimensional_identity left = ''consolidated'' \<and>
    mo_supersession_state left = ''active'' \<and>
    (mq_schema_version request = ComparabilityRequestSchemaV2 \<longrightarrow>
       mo_pair_ranking_eligible left \<and> mo_pair_ranking_eligible right) \<and>
    (cpo_require_exact_period policy \<longrightarrow> same_period left right) \<and>
    (mo_filing_date left \<noteq> mo_filing_date right \<longrightarrow> ''different_filing_dates'' \<in> set (mr_required_caveat_ids receipt)) \<and>
    (mo_taxonomy_concept left \<noteq> mo_taxonomy_concept right \<longrightarrow>
       mo_extension_mapping_id left = mo_extension_mapping_id right \<and>
       ''reviewed_taxonomy_mapping_applied'' \<in> set (mr_required_caveat_ids receipt))"
proof -
  obtain left right where operands: "mq_operands request = [left, right]"
    and distinct: "mo_company_id left \<noteq> mo_company_id right"
    using evaluated_pair [OF assms(1)] by metis
  note decision = evaluated_decision [OF assms(1) operands refl]
  let ?v2 = "mq_schema_version request = ComparabilityRequestSchemaV2"
  have ok: "\<not> context_only_pair ?v2 left right" "pair_ok policy ?v2 left right"
    using assms(2) by (simp_all add: decision IsReleasable_def split: if_splits)
  then have caveats: "set (mr_required_caveat_ids receipt) = set (pair_caveats policy left right)"
    by (simp add: decision)
  have period: "cpo_require_exact_period policy \<Longrightarrow> same_period left right"
    using ok(2) by (simp add: pair_ok_iff period_ok)
  have taxonomy: "mo_taxonomy_concept left \<noteq> mo_taxonomy_concept right \<Longrightarrow>
      mo_extension_mapping_id left = mo_extension_mapping_id right \<and>
      ''reviewed_taxonomy_mapping_applied'' \<in> set (pair_caveats policy left right)"
    using ok(2) by (auto simp: pair_ok_iff taxonomy_ok pair_caveats_def)
  have filing: "mo_filing_date left \<noteq> mo_filing_date right \<Longrightarrow>
      ''different_filing_dates'' \<in> set (pair_caveats policy left right)"
    by (simp add: pair_caveats_def)
  have base: "list_all cv_passed (base_invariants ?v2 left right)"
    using ok(2) by (simp add: pair_ok_iff)
  then have rank: "?v2 \<Longrightarrow> mo_pair_ranking_eligible left \<and> mo_pair_ranking_eligible right"
    and dimensions: "mo_dimensional_identity right = ''consolidated''"
    by (auto simp: base_invariants_def)
  show ?thesis
    using base operands distinct period taxonomy filing rank dimensions
    by - (rule exI [of _ left], rule exI [of _ right], simp add: base_invariants_def caveats)
qed

section \<open>The order of the operands\<close>

lemma sameOptionalTime_iff: "sameOptionalTime left right \<longleftrightarrow> left = right"
  by (auto simp: sameOptionalTime_def split: option.splits)

lemma end_delta_sym:
  assumes "\<bar>mo_fiscal_end left - mo_fiscal_end right\<bar> \<le> max_int64"
  shows "end_delta right left = end_delta left right"
proof -
  let ?d = "mo_fiscal_end left - mo_fiscal_end right"
  have "end_delta left right = \<bar>?d\<bar>" "end_delta right left = \<bar>?d\<bar>"
    using assms wrap64_id [of "- ?d"] wrap64_id [of ?d]
    by (auto simp: end_delta_def absoluteDuration_def time_sub_def max_int64_def min_int64_def abs_le_iff)
  then show ?thesis by simp
qed

lemma base_sym: "list_all cv_passed (base_invariants v2 right left) = list_all cv_passed (base_invariants v2 left right)"
  by (simp add: base_invariants_def) metis

lemma context_only_sym: "context_only_pair v2 right left = context_only_pair v2 left right"
  by (auto simp: context_only_pair_def)

lemma market_sym: "list_all cv_passed (market_invariants policy right left) = list_all cv_passed (market_invariants policy left right)"
  by (auto simp: market_invariants_def sameOptionalTime_iff)

lemma caveats_sym: "pair_caveats policy right left = pair_caveats policy left right"
  by (auto simp: pair_caveats_def taxonomy_ok period_invariants_def same_period_def sameOptionalTime_iff Let_def)

lemma pair_ok_sym:
  assumes "\<bar>mo_fiscal_end left - mo_fiscal_end right\<bar> \<le> max_int64"
  shows "pair_ok policy v2 right left = pair_ok policy v2 left right"
  using end_delta_sym [OF assms]
  by (auto simp: pair_ok_iff base_sym market_sym taxonomy_ok period_ok same_period_def sameOptionalTime_iff)

text \<open>
  The decision does not depend on which operand comes first: two requests with the same
  operands in the opposite order get the same disposition and the same caveats, provided the ends
  of their fiscal periods are at most \<open>math.MaxInt64\<close> nanoseconds (about 292 years) apart, where
  the subtraction of instants does not saturate.
\<close>

theorem comparability_is_symmetric:
  assumes "Evaluate H request generatedAt policy = (receipt, None)"
    and "Evaluate H' request' generatedAt' policy = (receipt', None)"
    and "mq_operands request = [left, right]" and "mq_operands request' = [right, left]"
    and "mq_schema_version request' = mq_schema_version request"
    and "\<bar>mo_fiscal_end left - mo_fiscal_end right\<bar> \<le> max_int64"
  shows "mr_disposition receipt' = mr_disposition receipt \<and>
    mr_required_caveat_ids receipt' = mr_required_caveat_ids receipt"
  unfolding evaluated_decision [OF assms(1,3) refl] evaluated_decision [OF assms(2,4) refl] assms(5)
    pair_ok_sym [OF assms(6)] context_only_sym [of _ right left] caveats_sym [of policy right left] by simp

section \<open>Concrete pairs\<close>

definition sample_pair_request :: "string \<Rightarrow> MetricComparisonOperand list \<Rightarrow> MetricComparabilityRequest" where
  "sample_pair_request version operands = \<lparr>mq_schema_version = ComparabilityRequestSchemaV1, mq_request_id = ''request-1'',
     mq_run_id = ''run-1'', mq_lane_id = ''lane-1'', mq_as_of = 100 * 1000000 * 86400 * 1000000000,
     mq_reviewer_policy_version = version, mq_operands = operands, mq_request_sha256 = sample_seal\<rparr>"

lemma sample_pair_evaluates:
  assumes "validateComparisonOperands operands (mq_as_of (sample_pair_request version operands)) False = None"
    and "length operands = 2" and "version = cpo_version policy" and "version \<noteq> []"
  shows "\<exists>receipt. Evaluate zero_hashers (sample_pair_request version operands)
    (mq_as_of (sample_pair_request version operands)) policy = (receipt, None)"
  using assms unfolding Evaluate_None ValidateMetricComparabilityRequest_def
  by (simp add: sample_pair_request_def zero_hashers_def PopulateMetricComparabilityReceiptHash_def
      populate_hash_def structHash_def Let_def fail_if_def)

definition sample_pair :: "MetricComparisonOperand list" where
  "sample_pair = [sample_operand ''company-1'', (sample_operand ''company-2'')\<lparr>mo_filing_date := 2\<rparr>]"

lemma sample_pair_valid:
  "validateComparisonOperands sample_pair (mq_as_of (sample_pair_request v sample_pair)) False = None"
  "validateComparisonOperands (rev sample_pair) (mq_as_of (sample_pair_request v (rev sample_pair))) False = None"
proof -
  have "mq_as_of (sample_pair_request v ops) = 100 * 1000000 * 86400 * 1000000000" for ops
    by (simp add: sample_pair_request_def)
  moreover have "validateComparisonOperands sample_pair (100 * 1000000 * 86400 * 1000000000) False = None" by code_simp
  moreover have "validateComparisonOperands (rev sample_pair) (100 * 1000000 * 86400 * 1000000000) False = None" by code_simp
  ultimately show "validateComparisonOperands sample_pair (mq_as_of (sample_pair_request v sample_pair)) False = None"
    "validateComparisonOperands (rev sample_pair) (mq_as_of (sample_pair_request v (rev sample_pair))) False = None" by simp_all
qed

lemma sample_pair_receipts:
  obtains receipt receipt' where
    "Evaluate zero_hashers (sample_pair_request (cpo_version DefaultPolicy) sample_pair)
       (mq_as_of (sample_pair_request (cpo_version DefaultPolicy) sample_pair)) DefaultPolicy = (receipt, None)"
    "Evaluate zero_hashers (sample_pair_request (cpo_version DefaultPolicy) (rev sample_pair))
       (mq_as_of (sample_pair_request (cpo_version DefaultPolicy) (rev sample_pair))) DefaultPolicy = (receipt', None)"
    "mr_disposition receipt = ComparisonComparableWithCaveat"
proof -
  have version: "cpo_version DefaultPolicy \<noteq> []" and two: "length sample_pair = 2" "length (rev sample_pair) = 2"
    by (simp_all add: DefaultPolicy_def sample_pair_def)
  obtain receipt where r: "Evaluate zero_hashers (sample_pair_request (cpo_version DefaultPolicy) sample_pair)
       (mq_as_of (sample_pair_request (cpo_version DefaultPolicy) sample_pair)) DefaultPolicy = (receipt, None)"
    using sample_pair_evaluates [OF sample_pair_valid(1) two(1) refl version] by blast
  obtain receipt' where r': "Evaluate zero_hashers (sample_pair_request (cpo_version DefaultPolicy) (rev sample_pair))
       (mq_as_of (sample_pair_request (cpo_version DefaultPolicy) (rev sample_pair))) DefaultPolicy = (receipt', None)"
    using sample_pair_evaluates [OF sample_pair_valid(2) two(2) refl version] by blast
  have ops: "mq_operands (sample_pair_request (cpo_version DefaultPolicy) sample_pair) =
      [sample_operand ''company-1'', (sample_operand ''company-2'')\<lparr>mo_filing_date := 2\<rparr>]"
    and v2: "False = (mq_schema_version (sample_pair_request (cpo_version DefaultPolicy) sample_pair) = ComparabilityRequestSchemaV2)"
    by (simp_all add: sample_pair_request_def sample_pair_def)
  have "pair_ok DefaultPolicy False (sample_operand ''company-1'') ((sample_operand ''company-2'')\<lparr>mo_filing_date := 2\<rparr>)"
    by code_simp
  moreover have "pair_caveats DefaultPolicy (sample_operand ''company-1'') ((sample_operand ''company-2'')\<lparr>mo_filing_date := 2\<rparr>) \<noteq> []"
    by code_simp
  ultimately have "mr_disposition receipt = ComparisonComparableWithCaveat"
    unfolding evaluated_decision(1) [OF r ops v2] by (simp add: context_only_pair_def)
  with r r' that show thesis by blast
qed

theorem evaluated_receipts_are_accepted_witness:
  "\<exists>receipt. ValidateMetricComparabilityReceipt zero_hashers receipt = None \<and> mr_operands receipt = sample_pair"
proof -
  obtain receipt receipt' where r: "Evaluate zero_hashers (sample_pair_request (cpo_version DefaultPolicy) sample_pair)
       (mq_as_of (sample_pair_request (cpo_version DefaultPolicy) sample_pair)) DefaultPolicy = (receipt, None)"
    by (rule sample_pair_receipts)
  have "mq_operands (sample_pair_request (cpo_version DefaultPolicy) sample_pair) = sample_pair"
    by (simp add: sample_pair_request_def)
  with evaluated_receipts_are_accepted [OF r] show ?thesis by (intro exI [of _ receipt]) simp
qed

theorem comparable_pairs_agree_witness:
  "\<exists>left right. sample_pair = [left, right] \<and> mo_unit left = mo_unit right"
proof -
  obtain receipt receipt' where r: "Evaluate zero_hashers (sample_pair_request (cpo_version DefaultPolicy) sample_pair)
       (mq_as_of (sample_pair_request (cpo_version DefaultPolicy) sample_pair)) DefaultPolicy = (receipt, None)"
    "mr_disposition receipt = ComparisonComparableWithCaveat"
    by (rule sample_pair_receipts)
  from comparable_pairs_agree [OF r(1)] r(2) show ?thesis
    by (auto simp: IsReleasable_def sample_pair_request_def)
qed

theorem comparability_is_symmetric_witness:
  "\<exists>(receipt :: MetricComparabilityReceipt) (receipt' :: MetricComparabilityReceipt). mr_disposition receipt' = mr_disposition receipt \<and>
     mr_operands receipt' = rev (mr_operands receipt) \<and> mr_disposition receipt = ComparisonComparableWithCaveat"
proof -
  obtain receipt receipt' where r: "Evaluate zero_hashers (sample_pair_request (cpo_version DefaultPolicy) sample_pair)
       (mq_as_of (sample_pair_request (cpo_version DefaultPolicy) sample_pair)) DefaultPolicy = (receipt, None)"
    "Evaluate zero_hashers (sample_pair_request (cpo_version DefaultPolicy) (rev sample_pair))
       (mq_as_of (sample_pair_request (cpo_version DefaultPolicy) (rev sample_pair))) DefaultPolicy = (receipt', None)"
    "mr_disposition receipt = ComparisonComparableWithCaveat"
    by (rule sample_pair_receipts)
  have end_time: "\<bar>mo_fiscal_end (sample_operand ''company-1'') - mo_fiscal_end ((sample_operand ''company-2'')\<lparr>mo_filing_date := 2\<rparr>)\<bar>
      \<le> max_int64" by code_simp
  have "mr_disposition receipt' = mr_disposition receipt \<and> mr_required_caveat_ids receipt' = mr_required_caveat_ids receipt"
    by (rule comparability_is_symmetric [OF r(1,2) _ _ _ end_time])
      (simp_all add: sample_pair_request_def sample_pair_def)
  moreover have "mr_operands receipt = sample_pair" "mr_operands receipt' = rev sample_pair"
    using r(1,2) by (auto simp: Evaluate_None sample_pair_request_def decided_receipt_fields
        dest!: sealed_receipt_fields)
  ultimately show ?thesis using r(3) by - (rule exI [of _ receipt], rule exI [of _ receipt'], simp)
qed

section \<open>Ends of periods that are centuries apart\<close>

definition day_ns :: int where "day_ns = 24 * hour_ns"

definition annual_operand :: "string \<Rightarrow> int \<Rightarrow> MetricComparisonOperand" where
  "annual_operand company end_day = (sample_operand company)\<lparr>mo_period_type := ''duration'',
     mo_fiscal_start := Some ((end_day - 364) * day_ns), mo_fiscal_end := end_day * day_ns\<rparr>"

lemma centuries_apart:
  "validateComparisonOperands [annual_operand ''company-1'' 620000, annual_operand ''company-2'' 738000]
     (100 * 1000000 * 86400 * 1000000000) False = None"
  "pair_ok AnnualDurationPolicy False (annual_operand ''company-1'' 620000) (annual_operand ''company-2'' 738000)"
  "pair_caveats AnnualDurationPolicy (annual_operand ''company-1'' 620000) (annual_operand ''company-2'' 738000) \<noteq> []"
  "\<bar>mo_fiscal_end (annual_operand ''company-1'' 620000) - mo_fiscal_end (annual_operand ''company-2'' 738000)\<bar> = 118000 * day_ns"
  by code_simp+

text \<open>
  The bound on the distance of the fiscal period ends has a hole: the absolute value of the
  smallest duration is negative, so two annual periods whose ends are 118000 days apart pass the
  bound of 190 days when the earlier one is the first operand, and the pair is released.
\<close>

theorem fiscal_delta_overflow:
  "\<exists>request generatedAt receipt left right. Evaluate zero_hashers request generatedAt AnnualDurationPolicy = (receipt, None) \<and>
     IsReleasable (mr_disposition receipt) \<and> mq_operands request = [left, right] \<and>
     \<bar>mo_fiscal_end left - mo_fiscal_end right\<bar> = 118000 * day_ns"
proof -
  let ?l = "annual_operand ''company-1'' 620000" and ?r = "annual_operand ''company-2'' 738000"
  let ?q = "sample_pair_request (cpo_version AnnualDurationPolicy) [?l, ?r]"
  have as_of: "mq_as_of ?q = 100 * 1000000 * 86400 * 1000000000" by (simp add: sample_pair_request_def)
  have "cpo_version AnnualDurationPolicy \<noteq> []" by (simp add: AnnualDurationPolicy_def)
  then obtain receipt where receipt: "Evaluate zero_hashers ?q (mq_as_of ?q) AnnualDurationPolicy = (receipt, None)"
    using sample_pair_evaluates [of "[?l, ?r]" "cpo_version AnnualDurationPolicy" AnnualDurationPolicy]
      centuries_apart(1) by (auto simp: as_of)
  have ops: "mq_operands ?q = [?l, ?r]" and v2: "False = (mq_schema_version ?q = ComparabilityRequestSchemaV2)"
    by (simp_all add: sample_pair_request_def)
  have "IsReleasable (mr_disposition receipt)"
    unfolding evaluated_decision(1) [OF receipt ops v2] using centuries_apart(2)
    by (simp add: context_only_pair_def IsReleasable_def)
  with receipt ops centuries_apart(4) show ?thesis by blast
qed

end
