(* ===== verification/Exec_Text.thy ===== *)
theory Exec_Text
  imports Go_Text
begin

text \<open>
  The text functions of \<open>internal/executionplan/plan.go\<close>: identifiers that are safe to show,
  the search for unsafe text, and the sentences that describe what an event reported.
\<close>

section \<open>Safe identifiers\<close>

text \<open>The pattern \<open>^[A-Za-z0-9][A-Za-z0-9._:/@+\-]{0,255}$\<close>.\<close>

definition alnum :: "char \<Rightarrow> bool" where
  "alnum c \<longleftrightarrow> CHR ''A'' \<le> c \<and> c \<le> CHR ''Z'' \<or> CHR ''a'' \<le> c \<and> c \<le> CHR ''z'' \<or> CHR ''0'' \<le> c \<and> c \<le> CHR ''9''"

definition safeID :: "string \<Rightarrow> bool" where
  "safeID s = (case s of [] \<Rightarrow> False
     | c # t \<Rightarrow> alnum c \<and> list_all (\<lambda>d. alnum d \<or> d \<in> set ''._:/@+-'') t \<and> length t \<le> 255)"

definition sha256Hex :: "string \<Rightarrow> bool" where
  "sha256Hex s \<longleftrightarrow> length s = 64 \<and>
     list_all (\<lambda>c. CHR ''a'' \<le> c \<and> c \<le> CHR ''f'' \<or> CHR ''0'' \<le> c \<and> c \<le> CHR ''9'') s"

definition safeIDValue :: "string \<Rightarrow> string" where
  "safeIDValue value = (let value = trim_space value in if safeID value then value else [])"

lemma safeIDValue_safe: "safeIDValue value = [] \<or> safeID (safeIDValue value)"
  by (simp add: safeIDValue_def Let_def)

section \<open>Unsafe text\<close>

text \<open>
  The alternatives of the case-insensitive pattern \<open>unsafeText\<close>, with their optional separators
  written out; \<open>bearer\s+\<close> matches where \<open>bearer\<close> is followed by one white space byte.
\<close>

definition unsafe_patterns :: "string list" where
  "unsafe_patterns =
     map (\<lambda>sep. ''bearer'' @ [sep]) [CHR 0x09, CHR 0x0A, CHR 0x0C, CHR 0x0D, CHR 0x20] @
     map (\<lambda>sep. ''api'' @ sep @ ''key'') [[], ''_'', ''-''] @
     [''password''] @
     map (\<lambda>sep. ''private'' @ sep @ ''token'') [[], ''_'', '' '', ''-''] @
     concat (map (\<lambda>sep1. map (\<lambda>sep2. ''chain'' @ sep1 @ ''of'' @ sep2 @ ''thought'') [[], ''_'', '' '', ''-''])
       [[], ''_'', '' '', ''-'']) @
     map (\<lambda>sep. ''raw'' @ sep @ ''prompt'') [[], ''_'', '' '', ''-''] @
     map (\<lambda>sep. ''response'' @ sep @ ''body'') [[], ''_'', '' '', ''-'']"

definition unsafeText :: "string \<Rightarrow> bool" where
  "unsafeText s = (let folded = fold_case s in list_ex (str_contains folded) unsafe_patterns)"

text \<open>
  An equation to evaluate the search with: at each position only the alternatives that start with
  the letter there are tried.
\<close>

definition patterns_at :: "char \<Rightarrow> string list" where
  "patterns_at c =
     (if c = CHR ''b'' then
         [''bearer'' @ [CHR 0x09], ''bearer'' @ [CHR 0x0A], ''bearer'' @ [CHR 0x0C],
          ''bearer'' @ [CHR 0x0D], ''bearer'' @ [CHR 0x20]]
      else if c = CHR ''a'' then
         [''apikey'', ''api_key'', ''api-key'']
      else if c = CHR ''p'' then
         [''password'', ''privatetoken'', ''private_token'', ''private token'', ''private-token'']
      else if c = CHR ''c'' then
         [''chainofthought'', ''chainof_thought'', ''chainof thought'', ''chainof-thought'',
          ''chain_ofthought'', ''chain_of_thought'', ''chain_of thought'', ''chain_of-thought'',
          ''chain ofthought'', ''chain of_thought'', ''chain of thought'', ''chain of-thought'',
          ''chain-ofthought'', ''chain-of_thought'', ''chain-of thought'', ''chain-of-thought'']
      else if c = CHR ''r'' then
         [''rawprompt'', ''raw_prompt'', ''raw prompt'', ''raw-prompt'', ''responsebody'',
          ''response_body'', ''response body'', ''response-body'']
      else [])"

fun unsafe_in :: "string \<Rightarrow> bool" where
  "unsafe_in [] = False"
| "unsafe_in (c # s) = (list_ex (starts_with (c # s)) (patterns_at c) \<or> unsafe_in s)"

lemma unsafe_patterns_at: "unsafe_patterns = concat (map patterns_at ''bapcr'')"
  by code_simp

lemma patterns_at_heads: "list_all (\<lambda>c. list_all (\<lambda>p. p \<noteq> [] \<and> hd p = c) (patterns_at c)) ''bapcr''"
  by code_simp

lemma patterns_at_other: "c \<notin> set ''bapcr'' \<Longrightarrow> patterns_at c = []"
  by (simp add: patterns_at_def)

text \<open>All five letters share five of their bits.\<close>

lemma patterns_at_bits:
  "b7 \<or> \<not> b6 \<or> \<not> b5 \<or> b3 \<or> b2 \<Longrightarrow> patterns_at (Char b0 b1 b2 b3 b4 b5 b6 b7) = []"
  by (auto simp: patterns_at_def)

lemma unsafe_in_code [code]:
  "unsafe_in [] = False"
  "unsafe_in (Char b0 b1 b2 b3 b4 b5 b6 b7 # s) =
     (if b7 then unsafe_in s else if b6 then
        (if b5 then (if b3 then unsafe_in s else if b2 then unsafe_in s
           else if list_ex (starts_with (Char b0 b1 b2 b3 b4 b5 b6 b7 # s)) (patterns_at (Char b0 b1 b2 b3 b4 b5 b6 b7))
             then True else unsafe_in s)
         else unsafe_in s) else unsafe_in s)"
  by (simp_all add: patterns_at_bits)

lemma grouped_by_head:
  fixes groups :: "'a \<Rightarrow> 'a list list"
  assumes "list_all (\<lambda>c. list_all (\<lambda>p. p \<noteq> [] \<and> hd p = c) (groups c)) heads"
    and "\<And>c. c \<notin> set heads \<Longrightarrow> groups c = []"
  shows "p \<in> set (groups c) \<longleftrightarrow> p \<in> set (concat (map groups heads)) \<and> hd p = c"
    and "p \<in> set (concat (map groups heads)) \<Longrightarrow> p \<noteq> []"
  using assms by (auto simp: list_all_iff) (metis empty_iff list.set(1))

lemma patterns_at_iff: "p \<in> set (patterns_at c) \<longleftrightarrow> p \<in> set unsafe_patterns \<and> hd p = c"
  unfolding unsafe_patterns_at by (rule grouped_by_head(1) [OF patterns_at_heads]) (rule patterns_at_other)

lemma unsafe_patterns_not_Nil: "p \<in> set unsafe_patterns \<Longrightarrow> p \<noteq> []"
  unfolding unsafe_patterns_at by (rule grouped_by_head(2) [OF patterns_at_heads]) (rule patterns_at_other)

lemma search_by_head:
  assumes "\<And>p c. p \<in> set (groups c) \<longleftrightarrow> p \<in> set patterns \<and> hd p = c" and "\<And>p. p \<in> set patterns \<Longrightarrow> p \<noteq> []"
  shows "list_ex (str_contains (c # s)) patterns \<longleftrightarrow>
    list_ex (starts_with (c # s)) (groups c) \<or> list_ex (str_contains s) patterns"
proof -
  have "starts_with (c # s) p \<Longrightarrow> p \<in> set patterns \<Longrightarrow> hd p = c" for p
    using assms(2) [of p] by (cases p) (auto simp: starts_with_iff)
  then show ?thesis unfolding list_ex_iff str_contains.simps Bex_def assms(1) by blast
qed

lemma unsafe_in_iff: "unsafe_in s \<longleftrightarrow> list_ex (str_contains s) unsafe_patterns"
proof (induction s)
  case Nil
  show ?case unfolding list_ex_iff str_contains.simps using unsafe_patterns_not_Nil by (simp only: unsafe_in.simps) metis
next
  case (Cons c s)
  have "list_ex (str_contains (c # s)) unsafe_patterns \<longleftrightarrow>
      list_ex (starts_with (c # s)) (patterns_at c) \<or> list_ex (str_contains s) unsafe_patterns"
    by (rule search_by_head) (fact patterns_at_iff unsafe_patterns_not_Nil)+
  with Cons show ?case by (simp only: unsafe_in.simps)
qed

lemma unsafeText_code [code]: "unsafeText s = unsafe_in (fold_case s)"
  by (simp add: unsafeText_def unsafe_in_iff Let_def)

definition safeText :: "string \<Rightarrow> nat \<Rightarrow> string" where
  "safeText value maximum =
     (let value = join '' '' (fields (trim_space value)) in
      if value = [] \<or> unsafeText value then ''Execute the governed step without exposing private reasoning.''
      else if length value > maximum then take maximum value else value)"

definition humanizeID :: "string \<Rightarrow> string" where
  "humanizeID value =
     (let words = fields (map (\<lambda>c. if c \<in> set ''._-/'' then CHR '' '' else c) (trim_suffix value ''/v1'')) in
      if words = [] then ''Governed step''
      else join '' '' (map (\<lambda>word. upper_byte (hd word) @ tl word) words))"

section \<open>Attributes of events\<close>

text \<open>A Go map of strings: a key without a value reads as the empty string.\<close>

type_synonym attributes = "string \<Rightarrow> string option"

definition attr :: "attributes \<Rightarrow> string \<Rightarrow> string" where
  "attr attributes key = (case attributes key of None \<Rightarrow> [] | Some value \<Rightarrow> value)"

definition reference :: "attributes \<Rightarrow> string \<Rightarrow> string" where
  "reference attributes key = safeIDValue (attr attributes key)"

definition allowed_attributes :: "string list" where
  "allowed_attributes =
     [''answer_id'', ''code'', ''packet_id'', ''report_id'', ''role_id'', ''route'', ''route_reason_code'',
      ''attempt'', ''call_kind'', ''previous_route'', ''case_id'', ''as_of'', ''engine_id'',
      ''evidence_count'', ''formula_version'', ''input_count'', ''input_ref_ids'', ''invariant_count'',
      ''invariants_passed'', ''operation_id'', ''output_count'', ''output_ref_ids'', ''receipt_id'',
      ''receipt_sha256'', ''receipt_verification'', ''source_classes'', ''warning_count'', ''retrieval_id'',
      ''bundle_id'', ''retrieval_method'', ''candidate_count'', ''selected_candidate_count'',
      ''rejected_candidate_count'', ''candidate_count_state'', ''tool_execution_id'', ''primary_intent'',
      ''entity_count'', ''entity_ids'', ''answer_depth'', ''ambiguity_count'', ''requested_output_count'',
      ''role_count'', ''wave_count'', ''max_parallel_specialists'', ''max_repair_passes'', ''deadline_ms'',
      ''completion_condition_count'', ''abstention_condition_count'', ''completion_conditions'',
      ''abstention_conditions'', ''finding_count'', ''counterevidence_count'', ''missing_evidence_count'',
      ''conflict_count'', ''uncertainty_count'', ''evidence_coverage'', ''authority_state'',
      ''approved_claim_count'', ''rejected_claim_count'', ''issue_count'', ''repair_pass'',
      ''mandatory_review_count'', ''claim_count'', ''supported_claim_coverage'', ''evidence_ref_count'',
      ''receipt_ref_count'', ''limitation_count'', ''section_count'', ''freshness_state'', ''fact_count'',
      ''calculation_count'', ''inference_count'', ''hypothesis_count'', ''assumption_count'', ''wave'',
      ''specialist_count'', ''concurrency_limit'', ''succeeded_count'', ''failed_count'',
      ''observed_concurrency'']"

definition safeAttributes :: "attributes \<Rightarrow> attributes" where
  "safeAttributes attributes =
     (\<lambda>key. if key \<in> set allowed_attributes then map_option safeIDValue (attributes key) else None)"

definition compactRefs :: "string list \<Rightarrow> string list" where
  "compactRefs values = sort (foldl (\<lambda>result value. let value = safeIDValue value in
     if value \<noteq> [] \<and> value \<notin> set result then result @ [value] else result) [] values)"

definition splitSafeReferences :: "string \<Rightarrow> string list" where
  "splitSafeReferences value =
     (if value = [] then []
      else sort (filter (\<lambda>referenceID. referenceID \<noteq> []) (map safeIDValue (split_str ''+'' value))))"

definition humanizeSafeList :: "string \<Rightarrow> string" where
  "humanizeSafeList value = join '', '' (map humanizeID (splitSafeReferences value))"

definition humanizeCoverage :: "string \<Rightarrow> string" where
  "humanizeCoverage value =
     (let parts = split_str ''_of_'' value in
      if length parts \<noteq> 2 then ''unavailable''
      else parts ! 0 @ '' of '' @ parts ! 1 @ '' claims referenced'')"

definition safeCount :: "string \<Rightarrow> string" where
  "safeCount value = (let value = safeIDValue value in if value \<noteq> [] then value else ''unavailable'')"

definition sortedKeys :: "string list \<Rightarrow> string list" where
  "sortedKeys values = sort (remdups values)"

section \<open>Sentences\<close>

definition epistemicCountDetail :: "attributes \<Rightarrow> string" where
  "epistemicCountDetail attributes =
     (if list_ex (\<lambda>key. attr attributes key = [])
           [''fact_count'', ''calculation_count'', ''inference_count'', ''hypothesis_count'', ''assumption_count''] then []
      else '' The packet explicitly distinguishes '' @
        safeCount (attr attributes ''fact_count'') @ '' facts, '' @
        safeCount (attr attributes ''calculation_count'') @ '' calculations, '' @
        safeCount (attr attributes ''inference_count'') @ '' inferences, '' @
        safeCount (attr attributes ''hypothesis_count'') @ '' hypotheses, and '' @
        safeCount (attr attributes ''assumption_count'') @
        '' assumptions; management assertions and scenarios are not inferred from source class.'')"

definition retrievalFailureDetail :: "string \<Rightarrow> string \<Rightarrow> string" where
  "retrievalFailureDetail status code =
     (let safeCode = safeIDValue code; lowerCode = to_lower safeCode in
      if str_contains lowerCode ''rights'' \<or> str_contains lowerCode ''license'' then
        ''Retrieval was excluded by the source-rights policy; no restricted body or evidence bundle was released. Failure code '' @
        humanizeID safeCode @ ''.''
      else if status = ''unavailable'' then
        ''The authorized retrieval provider was unavailable and released no evidence bundle. Failure code '' @
        humanizeID safeCode @ ''.''
      else
        ''The authorized retrieval operation failed and released no evidence bundle. Failure code '' @
        humanizeID safeCode @ ''.'')"

definition reviewCountDetail :: "attributes \<Rightarrow> string" where
  "reviewCountDetail attributes =
     (let approved = safeCount (attr attributes ''approved_claim_count'');
          rejected = safeCount (attr attributes ''rejected_claim_count'');
          issues = safeCount (attr attributes ''issue_count'') in
      if approved = ''unavailable'' \<and> rejected = ''unavailable'' \<and> issues = ''unavailable'' then
        ''No claim bodies are exposed.''
      else approved @ '' approved claim IDs, '' @ rejected @ '' rejected claim IDs, and '' @ issues @
        '' review issues recorded; claim bodies remain private.'')"

definition releaseCountDetail :: "attributes \<Rightarrow> string" where
  "releaseCountDetail attributes =
     (let coverage = humanizeCoverage (attr attributes ''supported_claim_coverage'') in
      if coverage = ''unavailable'' then ''Release metadata is unavailable.''
      else ''Supported-claim coverage: '' @ coverage @ ''; '' @
        safeCount (attr attributes ''evidence_ref_count'') @ '' evidence references, '' @
        safeCount (attr attributes ''receipt_ref_count'') @ '' deterministic receipts, '' @
        safeCount (attr attributes ''limitation_count'') @ '' limitations, and '' @
        safeCount (attr attributes ''section_count'') @ '' answer sections.'')"

end
