(* ===== verification/Exec_Data.thy ===== *)
theory Exec_Data
  imports Exec_Text Activation_Laws
begin

text \<open>
  The records of \<open>internal/executionplan/plan.go\<close>, its statuses and phases, the derived fields that
  \<open>recalculate\<close> computes, and the validation and signature of a projection.
\<close>

section \<open>Statuses\<close>

text \<open>A status is a string; \<open>StatusOther\<close> is any string that names no status.\<close>

datatype Status = StatusPending | StatusReady | StatusRunning | StatusPassed | StatusFailed | StatusDegraded
  | StatusRepairing | StatusSkipped | StatusCancelled | StatusWithheld | StatusUnavailable | StatusOther string

fun status_text :: "Status \<Rightarrow> string" where
  "status_text StatusPending = ''pending''"
| "status_text StatusReady = ''ready''"
| "status_text StatusRunning = ''running''"
| "status_text StatusPassed = ''passed''"
| "status_text StatusFailed = ''failed''"
| "status_text StatusDegraded = ''degraded''"
| "status_text StatusRepairing = ''repairing''"
| "status_text StatusSkipped = ''skipped''"
| "status_text StatusCancelled = ''cancelled''"
| "status_text StatusWithheld = ''withheld''"
| "status_text StatusUnavailable = ''unavailable''"
| "status_text (StatusOther s) = s"

fun validStatus :: "Status \<Rightarrow> bool" where
  "validStatus (StatusOther s) = False"
| "validStatus _ = True"

fun terminal :: "Status \<Rightarrow> bool" where
  "terminal StatusPassed = True"
| "terminal StatusFailed = True"
| "terminal StatusDegraded = True"
| "terminal StatusSkipped = True"
| "terminal StatusCancelled = True"
| "terminal StatusWithheld = True"
| "terminal StatusUnavailable = True"
| "terminal _ = False"

section \<open>Records\<close>

record ChecklistItem =
  ck_check_id :: string
  ck_label :: string
  ck_status :: Status
  ck_authority :: string
  ck_required :: bool
  ck_reference_ids :: "string list"
  ck_completed_at :: gotime
  ck_safe_detail :: string

record Phase =
  ph_phase_id :: string
  ph_order :: int
  ph_safe_label :: string
  ph_safe_objective :: string
  ph_mandatory :: bool
  ph_status :: Status
  ph_step_ids :: "string list"
  ph_safe_summary :: string

record ExecStep =
  xs_step_id :: string
  xs_parent_step_id :: string
  xs_parent_phase_id :: string
  xs_phase :: string
  xs_kind :: string
  xs_safe_label :: string
  xs_safe_objective :: string
  xs_role_id :: string
  xs_wave :: int
  xs_depends_on :: "string list"
  xs_mandatory :: bool
  xs_status :: Status
  xs_route :: string
  xs_route_reason_code :: string
  xs_authorized_capability_ids :: "string list"
  xs_evidence_requirement_class :: "string list"
  xs_checklist :: "ChecklistItem list"
  xs_started_at :: gotime
  xs_completed_at :: gotime
  xs_duration_ms :: int
  xs_attempt :: int
  xs_max_attempts :: int
  xs_reference_ids :: "string list"
  xs_failure_code :: string
  xs_degradation_code :: string
  xs_safe_summary :: string

record Projection =
  pj_schema_version :: string
  pj_run_id :: string
  pj_request_id :: string
  pj_plan_id :: string
  pj_status :: Status
  pj_created_at :: gotime
  pj_started_at :: gotime
  pj_completed_at :: gotime
  pj_total_steps :: int
  pj_terminal_steps :: int
  pj_progress_ratio :: float64
  pj_max_parallel_specialists :: int
  pj_current_wave :: int
  pj_route_summary :: "string list"
  pj_phases :: "Phase list"
  pj_steps :: "ExecStep list"
  pj_degradation_summary :: "string list"
  pj_last_sequence :: int
  pj_projection_sha :: string

record ExecEvent =
  xe_sequence :: int
  xe_step_id :: string
  xe_type :: string
  xe_status :: string
  xe_at :: gotime
  xe_attributes :: attributes

text \<open>
  What the code takes from JSON and SHA-256: the digest of a projection (or the error of
  \<open>json.Marshal\<close>) and the digest of a text.
\<close>

record digests =
  dg_projection :: "Projection hasher"
  dg_text :: "string \<Rightarrow> 256 word"

section \<open>Phases\<close>

definition canonical_phase :: "string \<Rightarrow> int \<Rightarrow> string \<Rightarrow> string \<Rightarrow> bool \<Rightarrow> Phase" where
  "canonical_phase phaseID order label objective mandatory =
     \<lparr>ph_phase_id = phaseID, ph_order = order, ph_safe_label = label, ph_safe_objective = objective,
      ph_mandatory = mandatory, ph_status = StatusOther [], ph_step_ids = [], ph_safe_summary = []\<rparr>"

definition canonicalPhases :: "Phase list" where
  "canonicalPhases =
     [canonical_phase ''interpretation'' 1 ''Interpretation''
        ''Resolve the governed intent, entities, scope, and ambiguity boundary.'' True,
      canonical_phase ''planning'' 2 ''Planning''
        ''Freeze authorized roles, dependencies, budgets, and release conditions.'' True,
      canonical_phase ''context'' 3 ''Context''
        ''Build evidence-grounded specialist context under source and authority controls.'' True,
      canonical_phase ''tools'' 4 ''Tools''
        ''Execute deterministic capabilities and release only validated receipts.'' False,
      canonical_phase ''review'' 5 ''Review''
        ''Independently challenge evidence, assumptions, calculations, and release boundaries.'' True,
      canonical_phase ''synthesis'' 6 ''Synthesis''
        ''Compose one bounded answer from approved claims and deterministic references.'' True,
      canonical_phase ''memory'' 7 ''Memory''
        (''Apply the user'' @ [CHR 0x27] @ ''s explicit local retention preference without implicit storage.'') False,
      canonical_phase ''release'' 8 ''Release''
        ''Release only after mandatory contracts pass or stop safely with a typed outcome.'' True]"

definition initialPhases :: "Phase list" where
  "initialPhases = map (\<lambda>spec. spec\<lparr>ph_status := StatusPending, ph_step_ids := [],
     ph_safe_summary := ''Waiting for governed phase activity.''\<rparr>) canonicalPhases"

section \<open>Aggregated statuses\<close>

definition candidate_statuses :: "Status list" where
  "candidate_statuses = [StatusFailed, StatusWithheld, StatusCancelled, StatusUnavailable, StatusRepairing,
     StatusRunning, StatusDegraded, StatusReady, StatusPending]"

definition aggregateStatuses :: "Status list \<Rightarrow> Status" where
  "aggregateStatuses statuses =
     (case find (\<lambda>candidate. candidate \<in> set statuses) candidate_statuses of
        Some candidate \<Rightarrow> candidate
      | None \<Rightarrow> if list_all (\<lambda>status. status = StatusSkipped) statuses then StatusSkipped else StatusPassed)"

definition phaseSummary :: "Status \<Rightarrow> nat \<Rightarrow> string" where
  "phaseSummary status activityCount =
     (let number = itoa (int activityCount) in
      case status of
        StatusPassed \<Rightarrow> number @ '' governed phase activities passed.''
      | StatusFailed \<Rightarrow> ''A governed phase activity stopped safely.''
      | StatusDegraded \<Rightarrow> number @ '' governed phase activities released a bounded subset.''
      | StatusRepairing \<Rightarrow> ''A governed phase activity is undergoing bounded repair.''
      | StatusRunning \<Rightarrow> number @ '' governed phase activities are in progress.''
      | StatusReady \<Rightarrow> number @ '' governed phase activities are ready.''
      | StatusWithheld \<Rightarrow> ''A governed phase activity withheld release.''
      | StatusUnavailable \<Rightarrow> ''A governed phase activity was unavailable.''
      | StatusCancelled \<Rightarrow> ''A governed phase activity was cancelled.''
      | StatusSkipped \<Rightarrow> ''No standalone activity was required for this phase.''
      | _ \<Rightarrow> number @ '' governed phase activities are waiting.'')"

definition toolPhaseSummary :: "Status \<Rightarrow> Status list \<Rightarrow> string" where
  "toolPhaseSummary status toolStatuses =
     (let passed = itoa (int (length (filter (\<lambda>s. s = StatusPassed) toolStatuses)));
          total = itoa (int (length toolStatuses)) in
      case status of
        StatusPassed \<Rightarrow> total @ '' deterministic calculation records passed contract checks.''
      | StatusRunning \<Rightarrow> passed @ '' of '' @ total @ '' deterministic calculation records have passed contract checks.''
      | StatusReady \<Rightarrow> passed @ '' of '' @ total @ '' deterministic calculation records have passed contract checks.''
      | StatusPending \<Rightarrow> passed @ '' of '' @ total @ '' deterministic calculation records have passed contract checks.''
      | _ \<Rightarrow> passed @ '' of '' @ total @
          '' deterministic calculation records passed contract checks; the remainder is explicitly bounded.'')"

definition releasePhaseState :: "Projection \<Rightarrow> Status \<times> string" where
  "releasePhaseState projection =
     (case pj_status projection of
        StatusPassed \<Rightarrow> (StatusPassed, ''All mandatory release contracts passed.'')
      | StatusFailed \<Rightarrow> (StatusFailed, ''The run stopped safely before release.'')
      | StatusCancelled \<Rightarrow> (StatusCancelled, ''The run was cancelled before release.'')
      | StatusWithheld \<Rightarrow> (StatusWithheld, ''The final answer was withheld by a governed gate.'')
      | StatusUnavailable \<Rightarrow> (StatusUnavailable, ''The release path was unavailable.'')
      | StatusDegraded \<Rightarrow> (StatusDegraded, ''Only a bounded subset was released.'')
      | _ \<Rightarrow> if list_ex (\<lambda>step. xs_kind step = ''synthesis'' \<and> terminal (xs_status step)) (pj_steps projection)
             then (StatusRunning, ''Final release checks are in progress.'')
             else (StatusPending, ''Waiting for mandatory review and synthesis contracts.''))"

section \<open>recalculate\<close>

text \<open>The checklist items of the deterministic engine.\<close>

definition tool_check :: "ChecklistItem \<Rightarrow> bool" where
  "tool_check item \<longleftrightarrow> ck_authority item = ''engine'' \<and> starts_with (ck_check_id item) ''tool-''"

definition phase_of :: "Projection \<Rightarrow> Phase \<Rightarrow> Phase" where
  "phase_of projection phase =
     (let steps = filter (\<lambda>step. xs_parent_phase_id step = ph_phase_id phase) (pj_steps projection);
          toolStatuses = (if ph_phase_id phase = ''tools''
            then concat (map (\<lambda>step. map ck_status (filter tool_check (xs_checklist step))) (pj_steps projection))
            else []);
          statuses = map xs_status steps @ (if ph_phase_id phase = ''tools'' \<and> steps = [] then toolStatuses else []);
          phase = phase\<lparr>ph_step_ids := map xs_step_id steps\<rparr> in
      if ph_phase_id phase = ''release'' then
        phase\<lparr>ph_status := fst (releasePhaseState projection), ph_safe_summary := snd (releasePhaseState projection)\<rparr>
      else if statuses = [] then
        (if terminal (pj_status projection) then
           phase\<lparr>ph_status := StatusSkipped, ph_safe_summary := ''No standalone activity was required for this phase.''\<rparr>
         else phase)
      else
        phase\<lparr>ph_status := aggregateStatuses statuses,
          ph_safe_summary := (if ph_phase_id phase = ''tools'' \<and> toolStatuses \<noteq> []
            then toolPhaseSummary (aggregateStatuses statuses) toolStatuses
            else phaseSummary (aggregateStatuses statuses) (length statuses))\<rparr>)"

definition recalculatePhases :: "Projection \<Rightarrow> Projection" where
  "recalculatePhases projection = projection\<lparr>pj_phases := map (phase_of projection) initialPhases\<rparr>"

definition recalculateTotals :: "Projection \<Rightarrow> Projection" where
  "recalculateTotals projection =
     (let steps = pj_steps projection;
          total = length steps;
          done_steps = length (filter (\<lambda>step. terminal (xs_status step)) steps) in
      projection\<lparr>
        pj_total_steps := int total,
        pj_terminal_steps := int done_steps,
        pj_current_wave := foldl (\<lambda>wave step. if xs_status step = StatusRunning \<and> xs_wave step > wave
          then xs_wave step else wave) 0 steps,
        pj_progress_ratio := (if total > 0 then Finite (f64_div (of_nat done_steps) (of_nat total))
          else pj_progress_ratio projection),
        pj_route_summary := sortedKeys (filter (\<lambda>route. route \<noteq> []) (map xs_route steps)),
        pj_degradation_summary := sortedKeys (filter (\<lambda>code. code \<noteq> []) (map xs_degradation_code steps))\<rparr>)"

definition recalculate :: "Projection \<Rightarrow> Projection" where
  "recalculate projection = recalculatePhases (recalculateTotals projection)"

section \<open>Validation\<close>

definition firstBlockingMandatoryStep :: "ExecStep list \<Rightarrow> string \<times> Status" where
  "firstBlockingMandatoryStep steps =
     (case find (\<lambda>step. xs_mandatory step \<and> xs_status step \<noteq> StatusPassed \<and> xs_status step \<noteq> StatusDegraded) steps of
        None \<Rightarrow> ([], StatusOther [])
      | Some step \<Rightarrow> (xs_step_id step, xs_status step))"

definition check_phase :: "nat \<Rightarrow> Phase \<Rightarrow> go_error option" where
  "check_phase index phase =
     (let expected = canonicalPhases ! index in
      fail_if (ph_phase_id phase \<noteq> ph_phase_id expected \<or> ph_order phase \<noteq> ph_order expected \<or>
          ph_safe_label phase \<noteq> ph_safe_label expected \<or> ph_safe_objective phase \<noteq> ph_safe_objective expected \<or>
          ph_mandatory phase \<noteq> ph_mandatory expected \<or> \<not> validStatus (ph_status phase) \<or>
          ph_safe_summary phase = [] \<or>
          unsafeText (ph_safe_label phase @ '' '' @ ph_safe_objective phase @ '' '' @ ph_safe_summary phase))
        (Errorf ''execution phase %q is invalid'' [FStr (ph_phase_id phase)]))"

definition check_item :: "ChecklistItem \<Rightarrow> go_error option" where
  "check_item item = fail_if (\<not> safeID (ck_check_id item))
     (Errorf ''execution checklist item %q is invalid'' [FStr (ck_check_id item)])"

definition check_item_text :: "ChecklistItem \<Rightarrow> go_error option" where
  "check_item_text item = first_err
     [fail_if (\<not> validStatus (ck_status item) \<or> ck_label item = [] \<or> ck_authority item = [] \<or>
          unsafeText (ck_label item @ '' '' @ ck_safe_detail item))
        (Errorf ''execution checklist item %q is invalid'' [FStr (ck_check_id item)]),
      range_err (\<lambda>_ referenceID. first_err
          [fail_if (length (ck_reference_ids item) > 64)
             (Errorf ''execution checklist item %q exceeds the reference limit'' [FStr (ck_check_id item)]),
           fail_if (\<not> safeID referenceID)
             (Errorf ''execution checklist item %q has an invalid reference'' [FStr (ck_check_id item)])])
        (ck_reference_ids item)]"

definition check_checklist :: "ChecklistItem list \<Rightarrow> go_error option" where
  "check_checklist items = scan_unique (\<lambda>_. check_item) ck_check_id
     (\<lambda>_ item. Errorf ''execution checklist item %q is invalid'' [FStr (ck_check_id item)])
     (\<lambda>_. check_item_text) items"

definition check_step_fields :: "string list \<Rightarrow> ExecStep \<Rightarrow> go_error option" where
  "check_step_fields phaseIDs step = first_err
     [fail_if (\<not> validStatus (xs_status step) \<or> xs_safe_label step = [] \<or> xs_safe_objective step = [] \<or>
          xs_safe_summary step = [] \<or> xs_parent_phase_id step = [] \<or> xs_parent_phase_id step \<noteq> xs_phase step \<or>
          xs_parent_phase_id step \<notin> set phaseIDs)
        (Errorf ''execution step %q is invalid'' [FStr (xs_step_id step)]),
      fail_if (xs_max_attempts step < 1 \<or> xs_max_attempts step > 2 \<or> xs_attempt step < 0 \<or>
          xs_attempt step > xs_max_attempts step \<or> xs_duration_ms step < 0)
        (Errorf ''execution step %q has invalid attempt or duration metadata'' [FStr (xs_step_id step)]),
      fail_if (unsafeText (xs_safe_label step @ '' '' @ xs_safe_objective step @ '' '' @ xs_safe_summary step))
        (Errorf ''execution step %q contains unsafe text'' [FStr (xs_step_id step)]),
      fail_if (length (xs_reference_ids step) > 64)
        (Errorf ''execution step %q exceeds the reference limit'' [FStr (xs_step_id step)]),
      fail_if (length (xs_checklist step) > 64)
        (Errorf ''execution step %q exceeds the checklist limit'' [FStr (xs_step_id step)]),
      range_err (\<lambda>_ referenceID. fail_if (\<not> safeID referenceID)
          (Errorf ''execution step %q has an invalid reference'' [FStr (xs_step_id step)])) (xs_reference_ids step),
      check_checklist (xs_checklist step)]"

definition check_steps :: "string list \<Rightarrow> ExecStep list \<Rightarrow> go_error option" where
  "check_steps phaseIDs steps = scan_unique
     (\<lambda>_ step. fail_if (\<not> safeID (xs_step_id step)) (Errorf ''execution step %q is invalid'' [FStr (xs_step_id step)]))
     xs_step_id (\<lambda>_ step. Errorf ''execution step %q is invalid'' [FStr (xs_step_id step)])
     (\<lambda>_. check_step_fields phaseIDs) steps"

definition check_children :: "ExecStep list \<Rightarrow> Phase \<Rightarrow> go_error option" where
  "check_children steps phase =
     fail_if (join [CHR 0x00] (ph_step_ids phase) \<noteq>
         join [CHR 0x00] (map xs_step_id (filter (\<lambda>step. xs_parent_phase_id step = ph_phase_id phase) steps)))
       (Errorf ''execution phase %q has invalid child steps'' [FStr (ph_phase_id phase)])"

definition check_depends :: "string list \<Rightarrow> ExecStep \<Rightarrow> go_error option" where
  "check_depends ids step = range_err (\<lambda>_ dependency. fail_if (dependency \<notin> set ids)
     (Errorf ''execution step %q has unknown dependency %q'' [FStr (xs_step_id step), FStr dependency]))
     (xs_depends_on step)"

definition validateStructure :: "Projection \<Rightarrow> go_error option" where
  "validateStructure projection = first_err
     [fail_if (pj_schema_version projection \<noteq> ''signalforge/execution-plan/v1'' \<or> \<not> safeID (pj_run_id projection) \<or>
          \<not> safeID (pj_request_id projection) \<or> is_zero_time (pj_created_at projection))
        (ErrorsNew ''execution projection envelope is invalid''),
      fail_if (pj_plan_id projection \<noteq> [] \<and> \<not> safeID (pj_plan_id projection))
        (ErrorsNew ''execution projection plan_id is invalid''),
      fail_if (\<not> validStatus (pj_status projection) \<or> length (pj_steps projection) < 2 \<or>
          length (pj_steps projection) > 24)
        (ErrorsNew ''execution projection status or step count is invalid''),
      fail_if (length (pj_phases projection) \<noteq> length canonicalPhases)
        (ErrorsNew ''execution projection phase count is invalid''),
      fail_if (pj_total_steps projection \<noteq> int (length (pj_steps projection)) \<or> pj_terminal_steps projection < 0 \<or>
          pj_terminal_steps projection > pj_total_steps projection \<or>
          float_lt (pj_progress_ratio projection) (Finite 0) \<or> float_lt (Finite 1) (pj_progress_ratio projection))
        (ErrorsNew ''execution projection progress is invalid''),
      scan_unique check_phase ph_phase_id
        (\<lambda>_ phase. Errorf ''execution phase %q is duplicated'' [FStr (ph_phase_id phase)]) no_check (pj_phases projection),
      check_steps (map ph_phase_id (pj_phases projection)) (pj_steps projection),
      range_err (\<lambda>_. check_children (pj_steps projection)) (pj_phases projection),
      range_err (\<lambda>_. check_depends (map xs_step_id (pj_steps projection))) (pj_steps projection),
      (if pj_status projection = StatusPassed then
         (case firstBlockingMandatoryStep (pj_steps projection) of (stepID, status) \<Rightarrow>
            fail_if (stepID \<noteq> [])
              (Errorf ''passed execution projection has blocking mandatory step %q in status %q''
                [FStr stepID, FStr (status_text status)]))
       else None)]"

section \<open>Signatures\<close>

definition exec_digest :: "digests \<Rightarrow> Projection \<Rightarrow> go_error + string" where
  "exec_digest D projection = structHash (dg_projection D) (projection\<lparr>pj_projection_sha := []\<rparr>)"

definition signAndValidate :: "digests \<Rightarrow> Projection \<Rightarrow> Projection \<times> go_error option" where
  "signAndValidate D projection =
     (let projection = projection\<lparr>pj_projection_sha := []\<rparr> in
      case validateStructure projection of
        Some err \<Rightarrow> (projection, Some err)
      | None \<Rightarrow>
          (case exec_digest D projection of
             Inl err \<Rightarrow> (projection, Some err)
           | Inr hash \<Rightarrow> (projection\<lparr>pj_projection_sha := hash\<rparr>, None)))"

definition ValidateProjection :: "digests \<Rightarrow> Projection \<Rightarrow> go_error option" where
  "ValidateProjection D projection = first_err
     [validateStructure projection,
      fail_if (pj_projection_sha projection = []) (ErrorsNew ''execution projection hash is required''),
      (case exec_digest D projection of
         Inl err \<Rightarrow> Some err
       | Inr expected \<Rightarrow> fail_if (pj_projection_sha projection \<noteq> expected)
           (ErrorsNew ''execution projection hash mismatch''))]"

end
