(* ===== verification/Go_Lists.thy ===== *)
theory Go_Lists
  imports Go_Text "HOL-Library.Multiset"
begin

text \<open>
  Slices: the first element that satisfies a condition, and \<open>sort.Slice\<close>. The sort of Go is not
  stable, so its result is only determined up to elements that neither precedes the other: code
  that sorts takes the sorting function as a parameter, an arbitrary function with \<open>sorts lt\<close>.
  Where the order is total there is only one such function, and \<open>sort_by\<close> computes it.
\<close>

section \<open>The first element\<close>

fun update_first :: "('a \<Rightarrow> bool) \<Rightarrow> ('a \<Rightarrow> 'a) \<Rightarrow> 'a list \<Rightarrow> 'a list" where
  "update_first P f [] = []"
| "update_first P f (x # xs) = (if P x then f x # xs else x # update_first P f xs)"

fun index_of :: "('a \<Rightarrow> bool) \<Rightarrow> 'a list \<Rightarrow> nat option" where
  "index_of P [] = None"
| "index_of P (x # xs) = (if P x then Some 0 else map_option Suc (index_of P xs))"

lemma update_first_map:
  assumes "\<And>x. x \<in> set xs \<Longrightarrow> key (f x) = key x"
  shows "map key (update_first P f xs) = map key xs"
  using assms by (induction xs) auto

lemma set_update_first: "set (update_first P f xs) \<subseteq> set xs \<union> f ` {x \<in> set xs. P x}"
  by (induction xs) auto

text \<open>With distinct keys there is only one element with the key.\<close>

lemma update_first_distinct:
  assumes "distinct (map key xs)"
  shows "update_first (\<lambda>x. key x = k) f xs = map (\<lambda>x. if key x = k then f x else x) xs"
  using assms
proof (induction xs)
  case (Cons x xs)
  have "map (\<lambda>y. if key y = k then f y else y) xs = xs" if "key x = k"
  proof (rule map_idI)
    fix y assume "y \<in> set xs"
    then have "key y \<in> key ` set xs" by (rule imageI)
    moreover have "key x \<notin> key ` set xs" using Cons.prems by simp
    ultimately have "key y \<noteq> k" using that by metis
    then show "(if key y = k then f y else y) = y" by simp
  qed
  with Cons show ?case by auto
qed simp

section \<open>sort.Slice\<close>

definition ordered :: "('a \<Rightarrow> 'a \<Rightarrow> bool) \<Rightarrow> 'a list \<Rightarrow> bool" where
  "ordered lt xs \<longleftrightarrow> sorted_wrt (\<lambda>x y. \<not> lt y x) xs"

definition sorts :: "('a \<Rightarrow> 'a \<Rightarrow> bool) \<Rightarrow> ('a list \<Rightarrow> 'a list) \<Rightarrow> bool" where
  "sorts lt order \<longleftrightarrow> (\<forall>xs. mset (order xs) = mset xs \<and> ordered lt (order xs))"

fun insert_by :: "('a \<Rightarrow> 'a \<Rightarrow> bool) \<Rightarrow> 'a \<Rightarrow> 'a list \<Rightarrow> 'a list" where
  "insert_by lt x [] = [x]"
| "insert_by lt x (y # ys) = (if lt y x then y # insert_by lt x ys else x # y # ys)"

fun sort_by :: "('a \<Rightarrow> 'a \<Rightarrow> bool) \<Rightarrow> 'a list \<Rightarrow> 'a list" where
  "sort_by lt [] = []"
| "sort_by lt (x # xs) = insert_by lt x (sort_by lt xs)"

lemma mset_insert_by: "mset (insert_by lt x xs) = add_mset x (mset xs)"
  by (induction xs) auto

lemma mset_sort_by [simp]: "mset (sort_by lt xs) = mset xs"
  by (induction xs) (simp_all add: mset_insert_by)

lemma sorts_mset: "sorts lt order \<Longrightarrow> mset (order xs) = mset xs"
  by (simp add: sorts_def)

lemma sorts_set: "sorts lt order \<Longrightarrow> set (order xs) = set xs"
  by (metis sorts_mset set_mset_mset)

lemma sorts_length: "sorts lt order \<Longrightarrow> length (order xs) = length xs"
  by (metis sorts_mset size_mset)

lemma sorts_ordered: "sorts lt order \<Longrightarrow> ordered lt (order xs)"
  by (simp add: sorts_def)

text \<open>What \<open>sort.Slice\<close> asks of the comparison.\<close>

locale slice_order =
  fixes lt :: "'a \<Rightarrow> 'a \<Rightarrow> bool"
  assumes asym: "lt x y \<Longrightarrow> \<not> lt y x"
    and cotrans: "lt x z \<Longrightarrow> lt x y \<or> lt y z"
begin

lemma set_insert_by: "set (insert_by lt x xs) = insert x (set xs)"
  by (induction xs) auto

lemma ordered_insert_by: "ordered lt xs \<Longrightarrow> ordered lt (insert_by lt x xs)"
proof (induction xs)
  case (Cons y ys)
  then have ys: "ordered lt ys" "\<forall>z \<in> set ys. \<not> lt z y" by (auto simp: ordered_def)
  show ?case
  proof (cases "lt y x")
    case True
    then have "\<not> lt x y" by (rule asym)
    with ys(2) have "\<forall>z \<in> set (insert_by lt x ys). \<not> lt z y" by (simp add: set_insert_by)
    with Cons.IH [OF ys(1)] True show ?thesis by (simp add: ordered_def)
  next
    case False
    with ys(2) have "\<forall>z \<in> set ys. \<not> lt z x" using cotrans by blast
    with Cons.prems False show ?thesis by (simp add: ordered_def)
  qed
qed (simp add: ordered_def)

theorem sort_by_sorts: "sorts lt (sort_by lt)"
proof -
  have "ordered lt (sort_by lt xs)" for xs
    by (induction xs) (simp add: ordered_def, simp add: ordered_insert_by)
  then show ?thesis by (simp add: sorts_def)
qed

end

locale total_slice_order = slice_order +
  assumes total: "x \<noteq> y \<Longrightarrow> lt x y \<or> lt y x"
begin

lemma ordered_unique:
  assumes "ordered lt xs" and "ordered lt ys" and "mset xs = mset ys"
  shows "xs = ys"
  using assms
proof (induction xs arbitrary: ys)
  case (Cons x xs)
  then obtain y zs where ys: "ys = y # zs" by (cases ys) auto
  have "x = y"
  proof (rule ccontr)
    assume "x \<noteq> y"
    with Cons.prems(3) ys have "x \<in> set zs" "y \<in> set xs"
      by (metis insert_iff list.simps(15) set_mset_mset)+
    with Cons.prems(1,2) ys have "\<not> lt x y" "\<not> lt y x" by (auto simp: ordered_def)
    with \<open>x \<noteq> y\<close> total show False by blast
  qed
  moreover have "ordered lt xs" "ordered lt zs" using Cons.prems(1,2) ys by (auto simp: ordered_def)
  ultimately show ?case using Cons.IH [of zs] Cons.prems(3) ys by simp
qed simp

theorem sort_unique: "sorts lt order \<Longrightarrow> order xs = sort_by lt xs"
  using sort_by_sorts by (intro ordered_unique) (simp_all add: sorts_def)

end

end
