(* ===== verification/Exec_Apply.thy ===== *)
theory Exec_Apply
  imports Exec_Data Go_Lists
begin

text \<open>
  How \<open>internal/executionplan/plan.go\<close> changes a projection: the handlers of the events, \<open>Apply\<close>,
  \<open>MarkCompleted\<close> and \<open>MarkFailed\<close>. The code passes pointers to the projection and to one of its
  steps; here a handler of a step is a function on steps, and the step an event names is its index,
  or \<open>None\<close> for the nil pointer. A function that returns only an error returns the projection
  behind its pointer as well, also when it fails.
\<close>

section \<open>Updates of steps\<close>

definition findStep :: "Projection \<Rightarrow> string \<Rightarrow> nat option" where
  "findStep projection stepID = index_of (\<lambda>step. xs_step_id step = stepID) (pj_steps projection)"

definition durationMS :: "gotime \<Rightarrow> gotime \<Rightarrow> int" where
  "durationMS start end_time =
     (if is_zero_time start \<or> is_zero_time end_time \<or> time_before end_time start then 0
      else go_div (time_sub end_time start) 1000000)"

definition startStep :: "gotime \<Rightarrow> attributes \<Rightarrow> ExecStep \<Rightarrow> ExecStep" where
  "startStep now attributes step =
     (let routeReason = safeIDValue (attr attributes ''route_reason_code'');
          route = safeIDValue (attr attributes ''route'') in
      step\<lparr>xs_status := (if xs_status step = StatusPending \<or> xs_status step = StatusReady \<or>
             xs_status step = StatusRepairing then StatusRunning else xs_status step),
        xs_started_at := (if is_zero_time (xs_started_at step) then now else xs_started_at step),
        xs_attempt := (if xs_attempt step + 1 > xs_max_attempts step then xs_max_attempts step else xs_attempt step + 1),
        xs_route_reason_code := (if routeReason \<noteq> [] then routeReason else xs_route_reason_code step),
        xs_route := (if route \<noteq> [] then route else xs_route step)\<rparr>)"

definition markStepPassed :: "gotime \<Rightarrow> string \<Rightarrow> ExecStep \<Rightarrow> ExecStep" where
  "markStepPassed now summary step =
     (let started = (if is_zero_time (xs_started_at step) then now else xs_started_at step) in
      step\<lparr>xs_status := StatusPassed, xs_started_at := started, xs_completed_at := now,
        xs_duration_ms := durationMS started now, xs_safe_summary := summary,
        xs_attempt := (if xs_attempt step = 0 then 1 else xs_attempt step)\<rparr>)"

definition markChecklist :: "string \<Rightarrow> Status \<Rightarrow> gotime \<Rightarrow> string list \<Rightarrow> string \<Rightarrow> ExecStep \<Rightarrow> ExecStep" where
  "markChecklist checkID status now refs detail step =
     step\<lparr>xs_checklist := update_first (\<lambda>item. ck_check_id item = checkID)
       (\<lambda>item. item\<lparr>ck_status := status, ck_completed_at := now, ck_reference_ids := compactRefs refs,
          ck_safe_detail := detail\<rparr>) (xs_checklist step)\<rparr>"

definition upsertChecklist :: "ChecklistItem \<Rightarrow> ExecStep \<Rightarrow> ExecStep" where
  "upsertChecklist item step =
     step\<lparr>xs_checklist :=
       (if \<exists>old \<in> set (xs_checklist step). ck_check_id old = ck_check_id item
        then update_first (\<lambda>old. ck_check_id old = ck_check_id item) (\<lambda>_. item) (xs_checklist step)
        else xs_checklist step @ [item])\<rparr>"

definition appendReference :: "string \<Rightarrow> ExecStep \<Rightarrow> ExecStep" where
  "appendReference referenceID step =
     (if referenceID = [] \<or> referenceID \<in> set (xs_reference_ids step) then step
      else step\<lparr>xs_reference_ids := sort (xs_reference_ids step @ [referenceID])\<rparr>)"

definition derivedCheckID :: "digests \<Rightarrow> string \<Rightarrow> string \<Rightarrow> string" where
  "derivedCheckID D prefix referenceID =
     (if referenceID = [] then prefix @ ''-unavailable''
      else prefix @ ''-'' @ take 12 (hex_fixed 64 (unat (dg_text D referenceID))))"

definition upsertSyntheticStep :: "ExecStep \<Rightarrow> Projection \<Rightarrow> Projection" where
  "upsertSyntheticStep step projection =
     projection\<lparr>pj_steps :=
       (if \<exists>old \<in> set (pj_steps projection). xs_step_id old = xs_step_id step
        then update_first (\<lambda>old. xs_step_id old = xs_step_id step) (\<lambda>_. step) (pj_steps projection)
        else pj_steps projection @ [step])\<rparr>"

text \<open>A step ends: its status, the time and the duration since it started.\<close>

definition end_step :: "Status \<Rightarrow> gotime \<Rightarrow> ExecStep \<Rightarrow> ExecStep" where
  "end_step status now step = step\<lparr>xs_status := status, xs_completed_at := now,
     xs_duration_ms := durationMS (xs_started_at step) now\<rparr>"

definition check_of :: "string \<Rightarrow> string \<Rightarrow> Status \<Rightarrow> string \<Rightarrow> bool \<Rightarrow> string list \<Rightarrow> gotime \<Rightarrow> string \<Rightarrow> ChecklistItem" where
  "check_of checkID label status authority required refs completed detail =
     \<lparr>ck_check_id = checkID, ck_label = label, ck_status = status, ck_authority = authority,
      ck_required = required, ck_reference_ids = refs, ck_completed_at = completed, ck_safe_detail = detail\<rparr>"

section \<open>Interpretation and planning\<close>

definition applyInterpretation :: "ExecEvent \<Rightarrow> attributes \<Rightarrow> ExecStep \<Rightarrow> ExecStep" where
  "applyInterpretation event attributes step =
     (if xe_status event = ''clarification_required'' then
        markChecklist ''request-contract'' StatusWithheld (xe_at event) []
          (''The request remains ambiguous across '' @ safeCount (attr attributes ''ambiguity_count'') @ '' governed boundaries.'')
          ((end_step StatusWithheld (xe_at event) step)\<lparr>xs_failure_code := ''clarification_required'',
             xs_safe_summary := ''Clarification is required before a bounded research plan can begin.''\<rparr>)
      else if xe_status event \<noteq> ''completed'' then step
      else
        (let intent = attr attributes ''primary_intent'';
             entityIDs = splitSafeReferences (attr attributes ''entity_ids'');
             step = foldl (\<lambda>step entityID. appendReference entityID step) step entityIDs;
             intentDetail = (if intent \<noteq> [] then ''Primary intent: '' @ humanizeID intent @ ''.''
               else ''The governed request intent was classified.'');
             scopeDetail = (if attr attributes ''entity_count'' \<noteq> [] then
                 attr attributes ''entity_count'' @ '' resolved entities'' @
                 (if attr attributes ''as_of'' \<noteq> [] then '' with an as-of boundary of '' @ attr attributes ''as_of'' else []) @ ''.''
               else ''The research scope was bounded.'');
             ambiguityDetail = (if attr attributes ''ambiguity_count'' \<noteq> [] then
                 ''Answer depth '' @ humanizeID (attr attributes ''answer_depth'') @ ''; '' @
                 attr attributes ''ambiguity_count'' @ '' declared ambiguities and '' @
                 attr attributes ''requested_output_count'' @ '' requested outputs were preserved.''
               else ''Declared ambiguities and requested outputs were preserved.'');
             step = upsertChecklist (check_of ''intent-boundary'' ''Classify governed intent'' StatusPassed ''contract'' True []
               (xe_at event) intentDetail) step;
             step = upsertChecklist (check_of ''scope-boundary'' ''Resolve research scope'' StatusPassed ''contract'' True entityIDs
               (xe_at event) scopeDetail) step;
             step = upsertChecklist (check_of ''ambiguity-boundary'' ''Preserve ambiguity boundary'' StatusPassed ''contract'' False []
               (xe_at event) ambiguityDetail) step in
         step\<lparr>xs_safe_summary := intentDetail @ '' '' @ scopeDetail\<rparr>))"

definition applyPlanning :: "ExecEvent \<Rightarrow> attributes \<Rightarrow> ExecStep \<Rightarrow> ExecStep" where
  "applyPlanning event attributes step =
     (if xe_status event \<noteq> ''completed'' then step
      else
        (let roleDetail = (if attr attributes ''role_count'' \<noteq> [] then
               attr attributes ''role_count'' @ '' authorized roles across '' @ attr attributes ''wave_count'' @
               '' specialist waves, with at most '' @ attr attributes ''max_parallel_specialists'' @ '' parallel specialists.''
               else ''The planner selected a bounded role topology.'');
             conditions = humanizeSafeList (attr attributes ''completion_conditions'');
             abstentions = humanizeSafeList (attr attributes ''abstention_conditions'');
             deadline = attr attributes ''deadline_ms'';
             releaseDetail = (if attr attributes ''completion_condition_count'' \<noteq> [] then
               attr attributes ''completion_condition_count'' @ '' completion conditions, '' @
               attr attributes ''abstention_condition_count'' @ '' abstention conditions, and at most '' @
               attr attributes ''max_repair_passes'' @ '' repair passes were fixed'' @
               (if conditions \<noteq> [] then ''; completion requires '' @ conditions else []) @
               (if abstentions \<noteq> [] then ''; abstention applies to '' @ abstentions else []) @
               (if deadline \<noteq> [] then ''; total deadline '' @ deadline @ '' ms'' else []) @ ''.''
               else ''Completion and abstention conditions were fixed before execution.'');
             step = upsertChecklist (check_of ''role-topology'' ''Select bounded role topology'' StatusPassed ''planner'' True []
               (xe_at event) roleDetail) step;
             step = upsertChecklist (check_of ''release-boundary'' ''Fix release and abstention gates'' StatusPassed ''planner'' True []
               (xe_at event) releaseDetail) step in
         step\<lparr>xs_safe_summary := roleDetail @ '' '' @ releaseDetail\<rparr>))"

section \<open>Specialists and models\<close>

definition context_summary :: "attributes \<Rightarrow> string" where
  "context_summary attributes =
     (if attr attributes ''finding_count'' \<noteq> [] then
        ''The validated packet released '' @ attr attributes ''finding_count'' @ '' findings, '' @
        attr attributes ''counterevidence_count'' @ '' counterevidence items, and '' @
        attr attributes ''missing_evidence_count'' @ '' missing-evidence declarations; evidence coverage is '' @
        humanizeCoverage (attr attributes ''evidence_coverage'') @ ''.''
      else ''The specialist returned a validated context packet.'') @
     epistemicCountDetail attributes @
     (if attr attributes ''as_of'' \<noteq> [] then
        '' Evidence freshness is bounded by the governed as-of date '' @ attr attributes ''as_of'' @ ''.'' else []) @
     (if attr attributes ''authority_state'' \<noteq> [] then
        '' Evidence authority state: '' @ humanizeID (attr attributes ''authority_state'') @ ''.'' else [])"

definition applyContext :: "ExecEvent \<Rightarrow> attributes \<Rightarrow> ExecStep \<Rightarrow> ExecStep" where
  "applyContext event attributes step =
     (if xe_status event = ''started'' then
        (startStep (xe_at event) attributes step)\<lparr>xs_safe_summary := ''The specialist is compiling governed context.''\<rparr>
      else if xe_status event = ''completed'' then
        (let packetID = reference attributes ''packet_id'';
             step = markStepPassed (xe_at event) (context_summary attributes) step;
             step = appendReference packetID step;
             step = markChecklist ''model-route'' StatusPassed (xe_at event) []
               ''The authorized model route completed before packet release.'' step;
             step = markChecklist ''evidence-authority'' StatusPassed (xe_at event) [packetID]
               ''Authorized evidence context compiled.'' step in
         markChecklist ''context-contract'' StatusPassed (xe_at event) [packetID]
           ''Specialist packet passed validation.'' step)
      else if xe_status event = ''failed'' then
        (let step = (end_step StatusDegraded (xe_at event) step)\<lparr>
               xs_degradation_code := safeIDValue (attr attributes ''code''),
               xs_safe_summary := ''The specialist was unavailable; the run retained its fail-closed boundary.''\<rparr>;
             step = markChecklist ''model-route'' StatusUnavailable (xe_at event) [] ''No releasable model result was produced.'' step;
             step = markChecklist ''evidence-authority'' StatusUnavailable (xe_at event) [] ''No releasable context was produced.'' step in
         markChecklist ''context-contract'' StatusUnavailable (xe_at event) [] ''No specialist packet was released.'' step)
      else step)"

definition applyModel :: "ExecEvent \<Rightarrow> attributes \<Rightarrow> ExecStep \<Rightarrow> ExecStep" where
  "applyModel event attributes step =
     (let route = safeIDValue (attr attributes ''route'');
          callKind = safeIDValue (attr attributes ''call_kind'');
          attempt = fst (Atoi (safeIDValue (attr attributes ''attempt'')));
          step = (if attempt > 0 then
              step\<lparr>xs_attempt := if attempt > xs_max_attempts step then xs_max_attempts step else attempt\<rparr> else step);
          priorRoute = xs_route step;
          fallback = (callKind = ''fallback'' \<or>
              callKind = [] \<and> xe_status event = ''completed'' \<and> priorRoute \<noteq> [] \<and> priorRoute \<noteq> route);
          step = (if route \<noteq> [] then
              (if fallback \<and> priorRoute \<noteq> [] \<and> priorRoute \<noteq> route then step\<lparr>xs_route := priorRoute @ ''_to_'' @ route\<rparr>
               else if priorRoute = [] \<or> \<not> has_suffix priorRoute route then step\<lparr>xs_route := route\<rparr> else step)
              else step) in
      if xe_status event = ''completed'' then
        markChecklist ''model-route'' StatusPassed (xe_at event) []
          (if fallback then ''The authorized fallback route completed after the primary route failed.''
           else if callKind = ''retry'' then ''The authorized bounded retry completed.''
           else if callKind = ''bounded_repair'' then ''The authorized bounded contract repair completed.''
           else ''The authorized model route completed.'') step
      else if xe_status event = ''failed'' then
        markChecklist ''model-route'' StatusDegraded (xe_at event) []
          (if callKind = ''fallback'' then ''The attempted fallback route failed.''
           else if callKind = ''retry'' then ''The bounded retry failed; the run remains fail-closed.''
           else if callKind = ''bounded_repair'' then ''The bounded contract repair failed; the run remains fail-closed.''
           else ''The attempted primary route failed; bounded retry or fallback remains available.'') step
      else step)"

section \<open>Retrieval and tools\<close>

definition retrieval_detail :: "attributes \<Rightarrow> string" where
  "retrieval_detail attributes =
     (let number = attr attributes ''evidence_count''; classes = attr attributes ''source_classes'';
          asOf = attr attributes ''as_of''; missing = attr attributes ''missing_evidence_count'';
          coverage = attr attributes ''evidence_coverage''; retrieval_method = attr attributes ''retrieval_method'' in
      if number \<noteq> [] then
        (if number = ''0'' \<and> safeCount missing \<noteq> ''0'' then
           ''No evidence item satisfied the governed request; this is explicit evidence absence, not a retrieval failure''
         else ''The validated packet contains '' @ number @ '' authorized evidence references'') @
        (if classes \<noteq> [] then
           '' across '' @ humanizeID (replace_byte (CHR ''+'') ''_and_'' classes) @ '' source classes'' else []) @
        (if asOf \<noteq> [] then '' as of '' @ asOf else []) @
        (if missing \<noteq> [] then ''; '' @ missing @ '' missing-evidence declarations, '' @
           attr attributes ''conflict_count'' @ '' conflicts, and '' @
           attr attributes ''uncertainty_count'' @ '' uncertainties remain visible'' else []) @
        (if coverage \<noteq> [] then ''; finding coverage '' @ humanizeCoverage coverage else []) @
        (if retrieval_method \<noteq> [] then ''; retrieval method '' @ humanizeID retrieval_method else []) @
        (if attr attributes ''candidate_count_state'' = ''available'' then
           ''; '' @ safeCount (attr attributes ''selected_candidate_count'') @ '' of '' @
           safeCount (attr attributes ''candidate_count'') @ '' matched candidates selected and '' @
           safeCount (attr attributes ''rejected_candidate_count'') @ '' rejected by the bounded rank''
         else if attr attributes ''candidate_count_state'' = ''unavailable'' then
           ''; candidate rejection telemetry was unavailable for this provider'' else []) @ ''.''
      else ''The specialist received an authorized evidence bundle; inspect the packet lineage for its bounded contents.'')"

definition applyRetrieval :: "digests \<Rightarrow> ExecEvent \<Rightarrow> attributes \<Rightarrow> ExecStep \<Rightarrow> ExecStep" where
  "applyRetrieval D event attributes step =
     (let packetID = reference attributes ''packet_id'';
          bundleID = reference attributes ''bundle_id'';
          retrievalID = reference attributes ''retrieval_id'';
          checkReference = (if retrievalID \<noteq> [] then retrievalID else if bundleID \<noteq> [] then bundleID else packetID);
          checkID = derivedCheckID D ''retrieval'' checkReference;
          detail = retrieval_detail attributes in
      if xe_status event = ''started'' then
        upsertChecklist (check_of checkID ''Retrieve authorized evidence'' StatusRunning ''retrieval'' False
          (compactRefs [retrievalID]) 0 ''The authorized retrieval provider is resolving bounded evidence.'') step
      else if xe_status event = ''passed'' \<or> xe_status event = ''completed'' then
        appendReference packetID (appendReference bundleID
          (upsertChecklist (check_of checkID ''Authorized evidence retrieval completed'' StatusPassed ''retrieval'' False
             (compactRefs [retrievalID, bundleID, packetID]) (xe_at event) detail) step))
      else if xe_status event = ''degraded'' then
        appendReference bundleID
          (upsertChecklist (check_of checkID ''Authorized evidence retrieval completed with limitations'' StatusDegraded
             ''retrieval'' False (compactRefs [retrievalID, bundleID]) (xe_at event) detail) step)
      else if xe_status event = ''failed'' \<or> xe_status event = ''unavailable'' then
        upsertChecklist (check_of checkID ''Authorized evidence retrieval unavailable''
          (if xe_status event = ''unavailable'' then StatusUnavailable else StatusFailed) ''retrieval'' False
          (compactRefs [retrievalID]) (xe_at event)
          (retrievalFailureDetail (xe_status event) (attr attributes ''code''))) step
      else step)"

definition tool_label :: "attributes \<Rightarrow> string" where
  "tool_label attributes =
     (let operationID = reference attributes ''operation_id'' in
      if attr attributes ''receipt_verification'' = ''canonical_verified'' then
        (if operationID \<noteq> [] then humanizeID operationID @ '' receipt verified''
         else ''Deterministic engine receipt verified'')
      else (if operationID \<noteq> [] then humanizeID operationID @ '' metadata accepted''
         else ''Deterministic calculation metadata accepted''))"

definition tool_detail :: "attributes \<Rightarrow> string" where
  "tool_detail attributes =
     (let operationID = reference attributes ''operation_id''; engineID = reference attributes ''engine_id'';
          verified = (attr attributes ''receipt_verification'' = ''canonical_verified'');
          formula = attr attributes ''formula_version''; receiptSHA = attr attributes ''receipt_sha256'';
          inputs = humanizeSafeList (attr attributes ''input_ref_ids'');
          outputs = humanizeSafeList (attr attributes ''output_ref_ids'') in
      if formula \<noteq> [] then
        ''The '' @ (if engineID \<noteq> [] then humanizeID engineID else ''deterministic engine'') @ '' completed '' @
        humanizeID operationID @ '' with formula '' @ humanizeID formula @ '', '' @
        attr attributes ''input_count'' @ '' inputs, '' @ attr attributes ''output_count'' @ '' outputs, '' @
        attr attributes ''invariant_count'' @ '' invariants, and '' @ attr attributes ''warning_count'' @ '' warnings.'' @
        (if attr attributes ''invariants_passed'' = ''true'' then '' All recorded invariants passed.'' else []) @
        (if inputs \<noteq> [] then '' Input references: '' @ inputs @ ''.'' else []) @
        (if outputs \<noteq> [] then '' Output references: '' @ outputs @ ''.'' else []) @
        (if receiptSHA \<noteq> [] then
           (if verified then '' Verified receipt hash '' else '' Declared receipt identity '') @
           (if length receiptSHA > 12 then take 12 receiptSHA else receiptSHA) @ ''.'' else [])
      else if verified then
        ''A deterministic engine completed and its receipt hash matched canonical content.''
      else ''A deterministic engine completed and its bounded calculation metadata passed contract checks.'')"

definition refreshSyntheticToolStep :: "gotime \<Rightarrow> ExecStep \<Rightarrow> ExecStep" where
  "refreshSyntheticToolStep now step =
     (let statuses = map ck_status (filter tool_check (xs_checklist step));
          passed = length (filter (\<lambda>s. s = StatusPassed) statuses);
          aggregated = aggregateStatuses statuses;
          status = (if aggregated = StatusFailed \<or> aggregated = StatusUnavailable then StatusDegraded else aggregated);
          started = (if is_zero_time (xs_started_at step) then now else xs_started_at step) in
      if statuses = [] then step
      else
        (let step = step\<lparr>xs_status := status, xs_started_at := started, xs_attempt := 1,
               xs_safe_summary := itoa (int passed) @ '' of '' @ itoa (int (length statuses)) @
                 '' deterministic calculation records passed contract checks.''\<rparr> in
         if terminal status then step\<lparr>xs_completed_at := now, xs_duration_ms := durationMS started now\<rparr> else step))"

definition applyTool :: "digests \<Rightarrow> ExecEvent \<Rightarrow> attributes \<Rightarrow> ExecStep \<Rightarrow> ExecStep" where
  "applyTool D event attributes step =
     (let receiptID = reference attributes ''receipt_id'';
          operationID = reference attributes ''operation_id'';
          executionID = reference attributes ''tool_execution_id'';
          checkReference = (if executionID \<noteq> [] then executionID else receiptID);
          checkID = derivedCheckID D ''tool'' checkReference;
          refs = compactRefs [executionID, receiptID];
          step =
            (if xe_status event = ''started'' then
               upsertChecklist (check_of checkID (''Run '' @ humanizeID operationID) StatusRunning ''engine'' False
                 (compactRefs [executionID]) 0 ''The deterministic engine accepted the governed operation request.'') step
             else if xe_status event = ''passed'' \<or> xe_status event = ''completed'' then
               appendReference receiptID
                 (upsertChecklist (check_of checkID (tool_label attributes) StatusPassed ''engine'' False refs
                    (xe_at event) (tool_detail attributes)) step)
             else if xe_status event = ''failed'' \<or> xe_status event = ''unavailable'' then
               upsertChecklist (check_of checkID (tool_label attributes)
                 (if xe_status event = ''unavailable'' then StatusUnavailable else StatusFailed) ''engine'' False refs
                 (xe_at event) (''The deterministic engine released no valid receipt; failure code '' @
                   humanizeID (attr attributes ''code'') @ ''.'')) step
             else step) in
      if xs_kind step = ''tool'' then refreshSyntheticToolStep (xe_at event) step else step)"

definition validateCompletedToolAttributes :: "attributes \<Rightarrow> go_error option" where
  "validateCompletedToolAttributes attributes =
     (let outputs = Atoi (attr attributes ''output_count''); invariants = Atoi (attr attributes ''invariant_count'') in
      first_err
       [range_err (\<lambda>_ key. fail_if (reference attributes key = []) (Errorf ''completed tool event requires %s'' [FStr key]))
          [''receipt_id'', ''operation_id'', ''engine_id''],
        fail_if (\<not> sha256Hex (attr attributes ''receipt_sha256''))
          (ErrorsNew ''completed tool event requires a valid receipt_sha256''),
        fail_if (attr attributes ''receipt_verification'' \<noteq> ''canonical_verified'' \<and>
            attr attributes ''receipt_verification'' \<noteq> ''metadata_only'')
          (ErrorsNew ''completed tool event requires an explicit receipt_verification scope''),
        fail_if (snd outputs \<or> fst outputs < 1) (ErrorsNew ''completed tool event requires at least one output''),
        fail_if (snd invariants \<or> fst invariants < 1 \<or> attr attributes ''invariants_passed'' \<noteq> ''true'')
          (ErrorsNew ''completed tool event requires passed invariants'')])"

section \<open>Review and synthesis\<close>

definition applyReview :: "ExecEvent \<Rightarrow> attributes \<Rightarrow> ExecStep \<Rightarrow> ExecStep" where
  "applyReview event attributes step =
     (let reportID = reference attributes ''report_id''; counts = reviewCountDetail attributes in
      if xe_status event = ''started'' then
        (startStep (xe_at event) attributes step)\<lparr>xs_safe_summary := ''An independent reviewer is checking the evidence boundary.''\<rparr>
      else if xe_status event = ''repair_requested'' \<or> xe_status event = ''narrowed'' then
        (appendReference reportID (step\<lparr>xs_status := StatusRepairing,
            xs_attempt := if xs_attempt step + 1 > xs_max_attempts step then xs_max_attempts step else xs_attempt step + 1\<rparr>))
          \<lparr>xs_safe_summary := ''The reviewer requested one bounded correction pass. '' @ counts\<rparr>
      else if xe_status event = ''approve'' then
        markChecklist ''review-contract'' StatusPassed (xe_at event) [reportID] (''Review contract approved. '' @ counts)
          (markChecklist ''model-route'' StatusPassed (xe_at event) []
            ''The authorized model route completed before review release.''
            (appendReference reportID
              (markStepPassed (xe_at event) (''The independent review gate approved the evidence. '' @ counts) step)))
      else if xe_status event = ''approved_subset'' then
        markChecklist ''review-contract'' StatusDegraded (xe_at event) [reportID]
          (''Only the approved subset may continue. '' @ counts)
          (markChecklist ''model-route'' StatusPassed (xe_at event) []
            ''The authorized model route completed before bounded release.''
            ((appendReference reportID ((end_step StatusDegraded (xe_at event) step)\<lparr>xs_degradation_code := ''approved_subset''\<rparr>))
              \<lparr>xs_safe_summary := ''The reviewer released only an explicitly approved subset. '' @ counts\<rparr>))
      else if xe_status event = ''reject'' \<or> xe_status event = ''repair_unresolved'' then
        markChecklist ''review-contract'' StatusFailed (xe_at event) [reportID]
          (''Review did not authorize release. '' @ counts)
          (markChecklist ''model-route'' StatusPassed (xe_at event) []
            ''The authorized model route completed; the independent gate withheld release.''
            ((appendReference reportID ((end_step StatusFailed (xe_at event) step)
                \<lparr>xs_failure_code := safeIDValue (xe_status event)\<rparr>))
              \<lparr>xs_safe_summary := ''The review gate withheld the evidence. '' @ counts\<rparr>))
      else step)"

text \<open>A synthesis step passes its answer contract; the same for the event of the run.\<close>

definition pass_synthesis :: "ExecEvent \<Rightarrow> attributes \<Rightarrow> string list \<Rightarrow> ExecStep \<Rightarrow> ExecStep" where
  "pass_synthesis event attributes answerRefs step =
     (let releaseDetail = releaseCountDetail attributes;
          step = markStepPassed (xe_at event) (''Final synthesis passed its answer contract. '' @ releaseDetail) step;
          step = foldl (\<lambda>step answerID. appendReference answerID step) step answerRefs;
          step = markChecklist ''model-route'' StatusPassed (xe_at event) []
            ''The authorized model route completed before answer release.'' step;
          step = markChecklist ''review-gates'' StatusPassed (xe_at event) []
            (''Mandatory reviews completed: '' @ safeCount (attr attributes ''mandatory_review_count'') @ ''.'') step in
      markChecklist ''answer-contract'' StatusPassed (xe_at event) answerRefs
        (''Final answer contract passed. '' @ releaseDetail) step)"

definition applySynthesis :: "ExecEvent \<Rightarrow> attributes \<Rightarrow> ExecStep \<Rightarrow> ExecStep" where
  "applySynthesis event attributes step =
     (if xe_status event = ''started'' then
        (startStep (xe_at event) attributes step)\<lparr>xs_safe_summary :=
          ''The final analyst is composing only reviewer-approved material.''\<rparr>
      else if xe_status event = ''passed'' \<or> xe_status event = ''completed'' then
        pass_synthesis event attributes [] step
      else step)"

section \<open>Marking a whole projection\<close>

definition fail_step :: "string \<Rightarrow> gotime \<Rightarrow> bool \<Rightarrow> ExecStep \<Rightarrow> ExecStep" where
  "fail_step code now cancelled step =
     (if xs_status step = StatusRunning \<or> xs_status step = StatusRepairing then
        (end_step (if cancelled then StatusCancelled else StatusFailed) now step)
          \<lparr>xs_failure_code := safeIDValue code, xs_safe_summary := ''The step stopped safely.''\<rparr>
      else if xs_status step = StatusPending \<or> xs_status step = StatusReady then
        step\<lparr>xs_status := StatusUnavailable, xs_completed_at := now,
          xs_safe_summary := ''The step was not executed after the run stopped.''\<rparr>
      else step)"

definition MarkFailed :: "digests \<Rightarrow> string \<Rightarrow> gotime \<Rightarrow> bool \<Rightarrow> Projection \<Rightarrow> Projection \<times> go_error option" where
  "MarkFailed D code now cancelled projection =
     signAndValidate D (recalculate (projection\<lparr>
       pj_status := (if cancelled then StatusCancelled else StatusFailed), pj_completed_at := now,
       pj_steps := map (fail_step code now cancelled) (pj_steps projection)\<rparr>))"

definition complete_synthesis :: "gotime \<Rightarrow> ExecStep \<Rightarrow> ExecStep" where
  "complete_synthesis now step =
     (if xs_kind step = ''synthesis'' \<and> \<not> terminal (xs_status step) then
        markChecklist ''answer-contract'' StatusPassed now [] ''Final answer contract passed.''
          (markChecklist ''review-gates'' StatusPassed now [] ''Mandatory review gates passed.''
            (markChecklist ''model-route'' StatusPassed now [] ''The authorized model route completed before answer release.''
              (markStepPassed now ''Final synthesis passed its release contract.'' step)))
      else step)"

definition incomplete_step_error :: "string \<Rightarrow> Status \<Rightarrow> go_error" where
  "incomplete_step_error stepID status = Errorf ''mandatory execution step %q cannot complete from status %q''
     [FStr stepID, FStr (status_text status)]"

definition MarkCompleted :: "digests \<Rightarrow> gotime \<Rightarrow> Projection \<Rightarrow> Projection \<times> go_error option" where
  "MarkCompleted D now projection =
     (case range_err (\<lambda>_ step. fail_if (xs_mandatory step \<and> xs_kind step \<noteq> ''synthesis'' \<and>
             xs_status step \<noteq> StatusPassed \<and> xs_status step \<noteq> StatusDegraded)
           (incomplete_step_error (xs_step_id step) (xs_status step))) (pj_steps projection) of
        Some err \<Rightarrow> (projection, Some err)
      | None \<Rightarrow>
          (let projection = projection\<lparr>pj_steps := map (complete_synthesis now) (pj_steps projection)\<rparr> in
           case firstBlockingMandatoryStep (pj_steps projection) of (stepID, status) \<Rightarrow>
             if stepID \<noteq> [] then (projection, Some (incomplete_step_error stepID status))
             else signAndValidate D (recalculate (projection\<lparr>pj_status := StatusPassed, pj_completed_at := now\<rparr>))))"

section \<open>Events of the run, of retention and of the workspace\<close>

definition on_step :: "nat option \<Rightarrow> (ExecStep \<Rightarrow> ExecStep) \<Rightarrow> Projection \<Rightarrow> Projection" where
  "on_step target f projection =
     (case target of None \<Rightarrow> projection
      | Some i \<Rightarrow> projection\<lparr>pj_steps := (pj_steps projection)[i := f (pj_steps projection ! i)]\<rparr>)"

definition applyRun :: "digests \<Rightarrow> nat option \<Rightarrow> ExecEvent \<Rightarrow> attributes \<Rightarrow> Projection \<Rightarrow> Projection" where
  "applyRun D target event attributes projection =
     (if xe_status event = ''completed'' then
        on_step target (pass_synthesis event attributes [reference attributes ''answer_id'']) projection
      else if xe_status event = ''failed'' then
        fst (MarkFailed D (attr attributes ''code'') (xe_at event) False projection)
      else projection)"

fun retention_outcome :: "gotime \<Rightarrow> string \<Rightarrow> Status \<times> string \<times> gotime" where
  "retention_outcome now status =
     (if status = ''not_requested'' then
        (StatusSkipped, ''The session is ephemeral; no research case was retained.'', now)
      else if status = ''requested'' then
        (StatusRunning, ''The user explicitly requested local research-case retention.'', 0)
      else if status = ''approved'' then
        (StatusRunning, ''The local retention policy authorized the explicit request.'', 0)
      else if status = ''saved'' then
        (StatusPassed, ''The user-approved research case was saved locally.'', now)
      else if status = ''unavailable'' then
        (StatusUnavailable, ''Local retention was requested, but no case store was available.'', now)
      else if status = ''failed'' then
        (StatusDegraded, ''Research completed, but the requested local save failed.'', now)
      else if status = ''deleted'' then
        (StatusPassed, ''The saved local research case was deleted at the user'' @ [CHR 0x27] @ ''s request.'', now)
      else (StatusRunning, ''The explicit local retention request is awaiting completion.'', 0))"

declare retention_outcome.simps [simp del]

definition applyRetention :: "ExecEvent \<Rightarrow> attributes \<Rightarrow> Projection \<Rightarrow> Projection" where
  "applyRetention event attributes projection =
     (case retention_outcome (xe_at event) (xe_status event) of (status, summary, completedAt) \<Rightarrow>
       (let current = map_option (\<lambda>i. pj_steps projection ! i) (findStep projection ''memory-retention'');
            startedAt = (case current of None \<Rightarrow> xe_at event
              | Some step \<Rightarrow> if is_zero_time (xs_started_at step) then xe_at event else xs_started_at step);
            caseID = reference attributes ''case_id'';
            references = (case current of None \<Rightarrow> [] | Some step \<Rightarrow> xs_reference_ids step) @
              (if caseID \<noteq> [] then [caseID] else []) in
        upsertSyntheticStep
          \<lparr>xs_step_id = ''memory-retention'', xs_parent_step_id = [], xs_parent_phase_id = ''memory'', xs_phase = ''memory'',
           xs_kind = ''memory'', xs_safe_label = ''Apply memory preference'',
           xs_safe_objective = ''Honor the user'' @ [CHR 0x27] @ ''s explicit local retention choice.'',
           xs_role_id = ''final-research-analyst/v1'', xs_wave = 0, xs_depends_on = [], xs_mandatory = False,
           xs_status = status, xs_route = [], xs_route_reason_code = [], xs_authorized_capability_ids = [],
           xs_evidence_requirement_class = [],
           xs_checklist = [check_of ''retention-policy'' ''Apply opt-in retention policy'' status ''runtime'' False []
             completedAt summary],
           xs_started_at = startedAt, xs_completed_at = completedAt, xs_duration_ms = 0, xs_attempt = 1,
           xs_max_attempts = 1, xs_reference_ids = compactRefs references, xs_failure_code = [],
           xs_degradation_code = [], xs_safe_summary = summary\<rparr> projection))"

definition applyWorkspace :: "digests \<Rightarrow> ExecEvent \<Rightarrow> attributes \<Rightarrow> Projection \<Rightarrow> Projection" where
  "applyWorkspace D event attributes projection =
     (if xe_status event = ''completed'' then
        (if fst (firstBlockingMandatoryStep (pj_steps projection)) = [] then
           projection\<lparr>pj_status := StatusPassed, pj_completed_at := xe_at event\<rparr>
         else fst (MarkFailed D ''mandatory_step_incomplete'' (xe_at event) False projection))
      else if xe_status event = ''cancelled'' then fst (MarkFailed D ''cancelled'' (xe_at event) True projection)
      else if xe_status event = ''failed'' then
        fst (MarkFailed D (attr attributes ''code'') (xe_at event) False projection)
      else projection)"

section \<open>Apply\<close>

definition validEventPair :: "string \<Rightarrow> string \<Rightarrow> bool" where
  "validEventPair eventType status \<longleftrightarrow>
     (case map_of [(''interpretation'', [''completed'', ''clarification_required'']),
        (''planning'', [''completed'']),
        (''plan'', [''accepted'']),
        (''wave'', [''started'', ''completed'', ''degraded'', ''failed'']),
        (''context'', [''started'', ''completed'', ''failed'']),
        (''model'', [''completed'', ''failed'']),
        (''retrieval'', [''started'', ''passed'', ''completed'', ''degraded'', ''failed'', ''unavailable'']),
        (''tool'', [''started'', ''passed'', ''completed'', ''failed'', ''unavailable'']),
        (''review'', [''started'', ''approve'', ''reject'', ''repair_requested'', ''narrowed'', ''approved_subset'',
           ''repair_unresolved'']),
        (''synthesis'', [''started'', ''passed'', ''completed'']),
        (''run'', [''completed'', ''failed'']),
        (''retention'', [''not_requested'', ''requested'', ''approved'', ''saved'', ''unavailable'', ''failed'', ''deleted'']),
        (''workspace'', [''completed'', ''cancelled'', ''failed''])] eventType of
        None \<Rightarrow> False
      | Some statuses \<Rightarrow> status \<in> set statuses)"

definition compatibleTerminalEvent :: "Status \<Rightarrow> ExecEvent \<Rightarrow> bool" where
  "compatibleTerminalEvent status event =
     (if xe_type event = ''interpretation'' \<or> xe_type event = ''planning'' then
        status = StatusPassed \<and> xe_status event = ''completed''
      else if xe_type event = ''context'' then
        status = StatusPassed \<and> xe_status event = ''completed'' \<or> status = StatusDegraded \<and> xe_status event = ''failed''
      else if xe_type event = ''review'' then
        status = StatusPassed \<and> xe_status event = ''approve'' \<or>
        status = StatusDegraded \<and> xe_status event = ''approved_subset'' \<or>
        status = StatusFailed \<and> (xe_status event = ''reject'' \<or> xe_status event = ''repair_unresolved'')
      else if xe_type event = ''synthesis'' then
        status = StatusPassed \<and> (xe_status event = ''passed'' \<or> xe_status event = ''completed'')
      else if xe_type event = ''tool'' then True
      else if xe_type event = ''run'' then
        status = StatusPassed \<and> xe_status event = ''completed'' \<or> xe_status event = ''failed''
      else if xe_type event = ''retention'' then xe_status event = ''deleted'' \<and> status = StatusPassed
      else False)"

definition synthetic_tool_step :: "string \<Rightarrow> ExecStep" where
  "synthetic_tool_step stepID =
     \<lparr>xs_step_id = stepID, xs_parent_step_id = [], xs_parent_phase_id = ''tools'', xs_phase = ''tools'', xs_kind = ''tool'',
      xs_safe_label = ''Run deterministic calculations'',
      xs_safe_objective = ''Execute governed formulas and expose only validated receipt metadata.'',
      xs_role_id = ''deterministic-engine/v1'', xs_wave = 0, xs_depends_on = [], xs_mandatory = False,
      xs_status = StatusPending, xs_route = ''local_deterministic'', xs_route_reason_code = ''deterministic_receipt'',
      xs_authorized_capability_ids = [], xs_evidence_requirement_class = [], xs_checklist = [], xs_started_at = 0,
      xs_completed_at = 0, xs_duration_ms = 0, xs_attempt = 0, xs_max_attempts = 1, xs_reference_ids = [],
      xs_failure_code = [], xs_degradation_code = [],
      xs_safe_summary = ''Waiting for deterministic receipt validation.''\<rparr>"

definition synthetic_tool_id :: "ExecEvent \<Rightarrow> string" where
  "synthetic_tool_id event =
     (let stepID = safeIDValue (xe_step_id event) in if stepID = [] then ''deterministic-tools'' else stepID)"

definition ensureSyntheticToolStep :: "ExecEvent \<Rightarrow> Projection \<Rightarrow> Projection \<times> nat option" where
  "ensureSyntheticToolStep event projection =
     (let projection = upsertSyntheticStep (synthetic_tool_step (synthetic_tool_id event)) projection in
      (projection, findStep projection (synthetic_tool_id event)))"

definition handle_event :: "digests \<Rightarrow> nat option \<Rightarrow> ExecEvent \<Rightarrow> attributes \<Rightarrow> Projection \<Rightarrow> Projection" where
  "handle_event D target event attributes projection =
     (if xe_type event = ''interpretation'' then on_step target (applyInterpretation event attributes) projection
      else if xe_type event = ''planning'' then on_step target (applyPlanning event attributes) projection
      else if xe_type event = ''context'' then on_step target (applyContext event attributes) projection
      else if xe_type event = ''model'' then on_step target (applyModel event attributes) projection
      else if xe_type event = ''retrieval'' then on_step target (applyRetrieval D event attributes) projection
      else if xe_type event = ''tool'' then on_step target (applyTool D event attributes) projection
      else if xe_type event = ''review'' then on_step target (applyReview event attributes) projection
      else if xe_type event = ''synthesis'' then on_step target (applySynthesis event attributes) projection
      else if xe_type event = ''run'' then applyRun D target event attributes projection
      else if xe_type event = ''retention'' then applyRetention event attributes projection
      else if xe_type event = ''workspace'' then applyWorkspace D event attributes projection
      else projection)"

definition frozen :: "nat option \<Rightarrow> ExecEvent \<Rightarrow> Projection \<Rightarrow> bool" where
  "frozen target event projection =
     (case target of None \<Rightarrow> False
      | Some i \<Rightarrow> terminal (xs_status (pj_steps projection ! i)) \<and>
          \<not> compatibleTerminalEvent (xs_status (pj_steps projection ! i)) event)"

definition finish_event :: "digests \<Rightarrow> ExecEvent \<Rightarrow> Projection \<Rightarrow> Projection \<times> go_error option" where
  "finish_event D event projection =
     signAndValidate D (recalculate (projection\<lparr>pj_last_sequence := xe_sequence event\<rparr>))"

definition handled :: "digests \<Rightarrow> ExecEvent \<Rightarrow> nat option \<Rightarrow> Projection \<Rightarrow> Projection" where
  "handled D event target projection =
     (if frozen target event projection then projection
      else handle_event D target event (safeAttributes (xe_attributes event)) projection)"

definition Apply :: "digests \<Rightarrow> ExecEvent \<Rightarrow> Projection \<Rightarrow> Projection \<times> go_error option" where
  "Apply D event projection =
     (if xe_sequence event \<le> pj_last_sequence projection then (projection, None)
      else if xe_sequence event \<noteq> pj_last_sequence projection + 1 then
        (projection, Some (Errorf ''execution event sequence gap: got %d after %d''
          [FInt (xe_sequence event), FInt (pj_last_sequence projection)]))
      else if is_zero_time (xe_at event) then
        (projection, Some (ErrorsNew ''execution event timestamp is required''))
      else if \<not> validEventPair (xe_type event) (xe_status event) then
        (projection, Some (Errorf ''unsupported execution event %q:%q'' [FStr (xe_type event), FStr (xe_status event)]))
      else
        (case (if xe_type event = ''tool'' \<and> (xe_status event = ''passed'' \<or> xe_status event = ''completed'')
             then validateCompletedToolAttributes (safeAttributes (xe_attributes event)) else None) of
           Some err \<Rightarrow> (projection, Some err)
         | None \<Rightarrow>
             if xe_type event = ''plan'' \<and> xe_status event = ''accepted'' then
               finish_event D event (projection\<lparr>pj_status := StatusRunning\<rparr>)
             else
               (case findStep projection (xe_step_id event) of
                  Some i \<Rightarrow> finish_event D event (handled D event (Some i) projection)
                | None \<Rightarrow>
                    if xe_type event \<noteq> ''tool'' then finish_event D event (handled D event None projection)
                    else if reference (safeAttributes (xe_attributes event)) ''tool_execution_id'' = [] then
                      (projection, Some (ErrorsNew ''synthetic tool event requires a tool_execution_id''))
                    else
                      (case ensureSyntheticToolStep event projection of
                         (projection, target) \<Rightarrow> finish_event D event (handled D event target projection)))))"

end
