(* ===== verification/Exec_Plan.thy ===== *)
theory Exec_Plan
  imports Exec_Apply Plan_Validate
begin

text \<open>
  The projections \<open>internal/executionplan/plan.go\<close> starts with: \<open>Pending\<close> before there is a plan, and
  \<open>FromPlan\<close> for a research plan that was accepted.
\<close>

definition step_shape :: "string \<Rightarrow> string \<Rightarrow> string \<Rightarrow> string \<Rightarrow> string \<Rightarrow> ExecStep" where
  "step_shape stepID phase kind label objective =
     \<lparr>xs_step_id = stepID, xs_parent_step_id = [], xs_parent_phase_id = phase, xs_phase = phase, xs_kind = kind,
      xs_safe_label = label, xs_safe_objective = objective, xs_role_id = [], xs_wave = 0, xs_depends_on = [],
      xs_mandatory = False, xs_status = StatusPending, xs_route = [], xs_route_reason_code = [],
      xs_authorized_capability_ids = [], xs_evidence_requirement_class = [], xs_checklist = [], xs_started_at = 0,
      xs_completed_at = 0, xs_duration_ms = 0, xs_attempt = 0, xs_max_attempts = 0, xs_reference_ids = [],
      xs_failure_code = [], xs_degradation_code = [], xs_safe_summary = []\<rparr>"

definition interpret_step :: "gotime \<Rightarrow> ExecStep" where
  "interpret_step now =
     (step_shape ''interpret-request'' ''interpretation'' ''control'' ''Interpret request''
        ''Identify the governed research intent and scope.'')
     \<lparr>xs_role_id := ''request-interpreter/v1'', xs_mandatory := True, xs_status := StatusRunning, xs_attempt := 1,
      xs_max_attempts := 1, xs_started_at := now,
      xs_checklist := [check_of ''request-contract'' ''Validate request contract'' StatusPending ''contract'' True [] 0 []],
      xs_safe_summary := ''Validating the request boundary.''\<rparr>"

definition build_plan_step :: ExecStep where
  "build_plan_step =
     (step_shape ''build-plan'' ''planning'' ''control'' ''Build bounded plan''
        ''Select authorized roles, dependencies, and release gates.'')
     \<lparr>xs_role_id := ''research-orchestrator/v1'', xs_depends_on := [''interpret-request''], xs_mandatory := True,
      xs_max_attempts := 1,
      xs_checklist := [check_of ''plan-contract'' ''Validate bounded plan'' StatusPending ''contract'' True [] 0 []],
      xs_safe_summary := ''Waiting for request interpretation.''\<rparr>"

definition pending_projection :: "string \<Rightarrow> string \<Rightarrow> gotime \<Rightarrow> Projection" where
  "pending_projection runID requestID now =
     \<lparr>pj_schema_version = ''signalforge/execution-plan/v1'', pj_run_id = runID, pj_request_id = requestID,
      pj_plan_id = [], pj_status = StatusPending, pj_created_at = now, pj_started_at = 0, pj_completed_at = 0,
      pj_total_steps = 0, pj_terminal_steps = 0, pj_progress_ratio = Finite 0, pj_max_parallel_specialists = 0,
      pj_current_wave = 0, pj_route_summary = [], pj_phases = initialPhases,
      pj_steps = [interpret_step now, build_plan_step], pj_degradation_summary = [], pj_last_sequence = 0,
      pj_projection_sha = []\<rparr>"

definition Pending :: "digests \<Rightarrow> string \<Rightarrow> string \<Rightarrow> gotime \<Rightarrow> go_error + Projection" where
  "Pending D runID requestID now =
     (case signAndValidate D (recalculate (pending_projection runID requestID now)) of
        (projection, None) \<Rightarrow> Inr projection
      | (_, Some err) \<Rightarrow> Inl err)"

definition phaseAndLabel :: "PlanStep \<Rightarrow> string \<times> string" where
  "phaseAndLabel step =
     (if st_kind step = ''context'' then (''context'', humanizeID (st_role_id step))
      else if st_kind step = ''review'' then (''review'', humanizeID (st_role_id step))
      else if st_kind step = ''synthesis'' then (''synthesis'', ''Final synthesis'')
      else (''execution'', humanizeID (st_step_id step)))"

definition routeReason :: "PlanStep \<Rightarrow> string" where
  "routeReason step =
     (if st_kind step = ''review'' then
        (if str_contains (st_role_id step) ''evidence-critic'' then ''evidence_release_gate''
         else if str_contains (st_role_id step) ''risk-contrarian'' then ''risk_contrarian_gate''
         else ''independent_review_gate'')
      else if st_kind step = ''synthesis'' then ''single_release_authority''
      else ''intent_requires_specialist'')"

definition plan_step_checklist :: "PlanStep \<Rightarrow> ChecklistItem list" where
  "plan_step_checklist planStep =
     [check_of ''role-authority'' ''Role authority verified'' StatusPassed ''contract'' True [] 0
        ''The role is authorized for this plan step.'',
      check_of ''model-route'' ''Complete authorized model route'' StatusPending ''runtime'' True [] 0 []] @
     (if st_kind planStep = ''context'' then
        [check_of ''evidence-authority'' ''Authorize evidence context'' StatusPending ''retrieval'' True [] 0 [],
         check_of ''context-contract'' ''Validate specialist packet'' StatusPending ''specialist'' True [] 0 []]
      else if st_kind planStep = ''review'' then
        [check_of ''review-contract'' ''Complete independent review'' StatusPending ''reviewer'' True [] 0 []]
      else if st_kind planStep = ''synthesis'' then
        [check_of ''review-gates'' ''Verify mandatory review gates'' StatusPending ''release_gate'' True [] 0 [],
         check_of ''answer-contract'' ''Validate final answer contract'' StatusPending ''release_gate'' True [] 0 []]
      else []) @
     map (\<lambda>(index, capabilityID). check_of (''capability-'' @ fmt_02d (index + 1)) (humanizeID capabilityID @ '' authorized'')
         StatusPassed ''capability'' False [capabilityID] 0 ''The capability is allowlisted for this role.'')
       (List.enumerate 0 (st_capability_ids planStep))"

definition projectPlanStep :: "PlanStep \<Rightarrow> ExecStep" where
  "projectPlanStep planStep =
     (step_shape (st_step_id planStep) (fst (phaseAndLabel planStep)) (st_kind planStep) (snd (phaseAndLabel planStep))
        (safeText (st_objective planStep) 280))
     \<lparr>xs_role_id := st_role_id planStep, xs_wave := st_wave planStep, xs_depends_on := st_depends_on planStep,
      xs_mandatory := st_mandatory planStep, xs_route_reason_code := routeReason planStep,
      xs_authorized_capability_ids := st_capability_ids planStep,
      xs_evidence_requirement_class := st_evidence_requirements planStep,
      xs_checklist := plan_step_checklist planStep, xs_max_attempts := 2,
      xs_safe_summary := ''Waiting for its dependencies.''\<rparr>"

definition accepted_request_step :: "gotime \<Rightarrow> ExecStep \<Rightarrow> ExecStep" where
  "accepted_request_step now step =
     markChecklist ''request-contract'' StatusPassed now [] ''Request envelope accepted.''
       (markStepPassed now ''The governed request contract passed.'' step)"

definition accepted_plan_step :: "string \<Rightarrow> gotime \<Rightarrow> ExecStep \<Rightarrow> ExecStep" where
  "accepted_plan_step planID now step =
     markChecklist ''plan-contract'' StatusPassed now [planID] ''Plan dependencies and limits accepted.''
       (markStepPassed now ''The bounded execution plan passed validation.''
         (step\<lparr>xs_status := StatusPassed, xs_started_at := now\<rparr>))"

definition planned_projection :: "ResearchPlan \<Rightarrow> gotime \<Rightarrow> Projection \<Rightarrow> Projection" where
  "planned_projection plan now projection =
     (let steps = pj_steps projection;
          steps = steps[0 := accepted_request_step now (steps ! 0)];
          steps = steps[1 := accepted_plan_step (pl_plan_id plan) now (steps ! 1)] in
      projection\<lparr>pj_plan_id := pl_plan_id plan, pj_status := StatusRunning, pj_started_at := now,
        pj_max_parallel_specialists := pl_max_parallel_specialists plan,
        pj_steps := steps @ map projectPlanStep (pl_steps plan)\<rparr>)"

definition FromPlan :: "digests \<Rightarrow> ResearchPlan \<Rightarrow> gotime \<Rightarrow> go_error + Projection" where
  "FromPlan D plan now =
     (case wrap_err ''validate research plan: %w'' [] (ValidateResearchPlan plan) of
        Some err \<Rightarrow> Inl err
      | None \<Rightarrow>
          (case Pending D (pl_run_id plan) (pl_request_id plan) now of
             Inl err \<Rightarrow> Inl err
           | Inr projection \<Rightarrow>
               (case signAndValidate D (recalculate (planned_projection plan now projection)) of
                  (projection, None) \<Rightarrow> Inr projection
                | (_, Some err) \<Rightarrow> Inl err)))"

end
