(* ===== verification/Exec_Laws.thy ===== *)
theory Exec_Laws
  imports Exec_Plan
begin

text \<open>
  What holds of every projection that events can lead to: it is valid and signed, steps that ended
  keep their status, the mandatory steps of the plan stay, and a passed projection passed them all.
\<close>

section \<open>Signed projections\<close>

interpretation sealed_projection: sealed_record pj_projection_sha_update pj_projection_sha
  by unfold_locales auto

lemma validateStructure_sha [simp]: "validateStructure (p\<lparr>pj_projection_sha := h\<rparr>) = validateStructure p"
  by (simp add: validateStructure_def)

lemma signed:
  assumes "signAndValidate D p = (q, None)"
  shows "ValidateProjection D q = None" and "\<exists>h. q = p\<lparr>pj_projection_sha := h\<rparr>"
proof -
  from assms obtain hash where hash: "structHash (dg_projection D) (p\<lparr>pj_projection_sha := []\<rparr>) = Inr hash"
    and valid: "validateStructure p = None" and q: "q = p\<lparr>pj_projection_sha := hash\<rparr>"
    by (auto simp: signAndValidate_def exec_digest_def Let_def split: option.splits sum.splits)
  from structHash_valid [OF hash] have "hash \<noteq> []" by (auto simp: validHash_def)
  with hash valid show "ValidateProjection D q = None"
    by (simp add: ValidateProjection_def exec_digest_def q)
  show "\<exists>h. q = p\<lparr>pj_projection_sha := h\<rparr>" using q by blast
qed

lemma signed_steps:
  "pj_steps (fst (signAndValidate D p)) = pj_steps p" "pj_status (fst (signAndValidate D p)) = pj_status p"
  "pj_last_sequence (fst (signAndValidate D p)) = pj_last_sequence p"
  by (simp_all add: signAndValidate_def Let_def split: option.splits sum.splits)

lemma recalculate_steps [simp]:
  "pj_steps (recalculate p) = pj_steps p" "pj_status (recalculate p) = pj_status p"
  "pj_last_sequence (recalculate p) = pj_last_sequence p"
  by (simp_all add: recalculate_def recalculateTotals_def recalculatePhases_def Let_def)

lemma FromPlan_Inr:
  assumes "FromPlan D plan now = Inr p"
  obtains start where "signAndValidate D (recalculate (planned_projection plan now start)) = (p, None)"
  using assms by (auto simp: FromPlan_def split: option.splits sum.splits prod.splits)

lemma FromPlan_valid: "FromPlan D plan now = Inr p \<Longrightarrow> ValidateProjection D p = None"
  using FromPlan_Inr signed(1) by metis

lemma finish_event_facts:
  "pj_steps (fst (finish_event D event p)) = pj_steps p" "pj_status (fst (finish_event D event p)) = pj_status p"
  "pj_last_sequence (fst (finish_event D event p)) = xe_sequence event"
  by (simp_all add: finish_event_def signed_steps)

lemma finish_event_valid: "finish_event D event p = (q, None) \<Longrightarrow> ValidateProjection D q = None"
  unfolding finish_event_def by (rule signed(1))

section \<open>The cases of Apply\<close>

text \<open>Every call of \<open>Apply\<close> leaves the projection alone, or finishes an event on steps that were
  left alone, handled, or handled after a synthetic step was added.\<close>

definition effect :: "digests \<Rightarrow> ExecEvent \<Rightarrow> Projection \<Rightarrow> Projection" where
  "effect D event projection =
     (if xe_type event = ''plan'' \<and> xe_status event = ''accepted'' then projection\<lparr>pj_status := StatusRunning\<rparr>
      else (case findStep projection (xe_step_id event) of
          Some i \<Rightarrow> handled D event (Some i) projection
        | None \<Rightarrow>
            if xe_type event \<noteq> ''tool'' then handled D event None projection
            else handled D event (snd (ensureSyntheticToolStep event projection))
              (fst (ensureSyntheticToolStep event projection))))"

definition apply_error :: "ExecEvent \<Rightarrow> Projection \<Rightarrow> go_error option" where
  "apply_error event projection = first_err
     [fail_if (xe_sequence event \<noteq> pj_last_sequence projection + 1)
        (Errorf ''execution event sequence gap: got %d after %d''
          [FInt (xe_sequence event), FInt (pj_last_sequence projection)]),
      fail_if (is_zero_time (xe_at event)) (ErrorsNew ''execution event timestamp is required''),
      fail_if (\<not> validEventPair (xe_type event) (xe_status event))
        (Errorf ''unsupported execution event %q:%q'' [FStr (xe_type event), FStr (xe_status event)]),
      (if xe_type event = ''tool'' \<and> (xe_status event = ''passed'' \<or> xe_status event = ''completed'')
       then validateCompletedToolAttributes (safeAttributes (xe_attributes event)) else None),
      fail_if (findStep projection (xe_step_id event) = None \<and> xe_type event = ''tool'' \<and>
          reference (safeAttributes (xe_attributes event)) ''tool_execution_id'' = [])
        (ErrorsNew ''synthetic tool event requires a tool_execution_id'')]"

lemma Apply_eq:
  "Apply D event p =
     (if xe_sequence event \<le> pj_last_sequence p then (p, None)
      else (case apply_error event p of Some err \<Rightarrow> (p, Some err)
        | None \<Rightarrow> finish_event D event (effect D event p)))"
proof (cases "xe_type event = ''tool''")
  case True
  then show ?thesis
    by (cases "findStep p (xe_step_id event)"; cases "ensureSyntheticToolStep event p";
        cases "validateCompletedToolAttributes (safeAttributes (xe_attributes event))")
      (simp_all add: Apply_def apply_error_def effect_def first_err.simps fail_if_def)
next
  case False
  then show ?thesis
    by (cases "findStep p (xe_step_id event)")
      (simp_all add: Apply_def apply_error_def effect_def first_err.simps fail_if_def)
qed

lemma Apply_cases:
  obtains (replayed) "Apply D event p = (p, None)" "xe_sequence event \<le> pj_last_sequence p"
  | (refused) err where "Apply D event p = (p, Some err)" "pj_last_sequence p < xe_sequence event"
  | (applied) "Apply D event p = finish_event D event (effect D event p)"
      "xe_sequence event = pj_last_sequence p + 1"
proof (cases "xe_sequence event \<le> pj_last_sequence p")
  case True
  then show thesis by (intro replayed) (simp_all add: Apply_eq)
next
  case False
  show thesis
  proof (cases "apply_error event p")
    case None
    then have "xe_sequence event = pj_last_sequence p + 1" by (simp add: apply_error_def)
    with None False show thesis by (intro applied) (simp_all add: Apply_eq)
  next
    case (Some err)
    with False show thesis by (intro refused [of err]) (simp_all add: Apply_eq)
  qed
qed

text \<open>
  The projections that a projection reaches by events that are accepted, in the order of delivery.
\<close>

inductive reaches :: "digests \<Rightarrow> Projection \<Rightarrow> ExecEvent list \<Rightarrow> Projection \<Rightarrow> bool" for D p where
  reaches_start: "reaches D p [] p"
| reaches_event: "reaches D p events q \<Longrightarrow> Apply D event q = (r, None) \<Longrightarrow> reaches D p (events @ [event]) r"

inductive_cases reaches_snocE: "reaches D p (events @ [event]) r"

lemma Apply_valid:
  assumes "ValidateProjection D p = None" and "Apply D event p = (q, None)"
  shows "ValidateProjection D q = None"
  using Apply_cases [of D event p] assms finish_event_valid by (metis option.distinct(1) prod.inject)

lemma reaches_valid: "reaches D p events q \<Longrightarrow> ValidateProjection D p = None \<Longrightarrow> ValidateProjection D q = None"
  by (induction rule: reaches.induct) (auto intro: Apply_valid)

section \<open>Order of delivery\<close>

lemma Apply_sequence:
  assumes "Apply D event p = (q, None)"
  shows "pj_last_sequence q = max (pj_last_sequence p) (xe_sequence event)"
proof (cases rule: Apply_cases [of D event p])
  case applied
  with assms have "q = fst (finish_event D event (effect D event p))" by simp
  with applied(2) show ?thesis by (simp add: finish_event_facts)
qed (use assms in auto)

lemma reaches_sequence:
  assumes "reaches D p events q"
  shows "pj_last_sequence p \<le> pj_last_sequence q \<and> (\<forall>event \<in> set events. xe_sequence event \<le> pj_last_sequence q)"
  using assms by (induction rule: reaches.induct) (auto simp: Apply_sequence)

text \<open>Events that were seen before are accepted, in any order, and change nothing.\<close>

lemma Apply_replayed: "xe_sequence event \<le> pj_last_sequence p \<Longrightarrow> Apply D event p = (p, None)"
  by (simp add: Apply_def)

lemma replays_reach_the_same:
  assumes "\<And>event. event \<in> set replays \<Longrightarrow> xe_sequence event \<le> pj_last_sequence q"
  shows "reaches D q replays r \<longleftrightarrow> r = q"
  using assms
proof (induction replays arbitrary: r rule: rev_induct)
  case Nil
  show ?case by (auto elim: reaches.cases intro: reaches.intros)
next
  case (snoc event events)
  then have seen: "Apply D event q = (q, None)" by (simp add: Apply_replayed)
  from snoc have IH: "reaches D q events s \<longleftrightarrow> s = q" for s by simp
  show ?case
  proof
    assume "reaches D q (events @ [event]) r"
    then obtain s where "reaches D q events s" "Apply D event s = (r, None)" by (rule reaches_snocE)
    with IH seen show "r = q" by simp
  next
    assume "r = q"
    with IH seen show "reaches D q (events @ [event]) r" using reaches_event [of D q events q event q] by simp
  qed
qed

section \<open>What identifies a step\<close>

definition core :: "ExecStep \<Rightarrow> string \<times> string \<times> string \<times> string \<times> bool \<times> string list" where
  "core step = (xs_step_id step, xs_parent_phase_id step, xs_kind step, xs_role_id step, xs_mandatory step,
     xs_depends_on step)"

named_theorems step_simps "what the updates of a step leave alone"

lemma core_updates [step_simps]:
  "core (markChecklist checkID status now refs detail step) = core step"
  "core (upsertChecklist item step) = core step"
  "core (appendReference r step) = core step"
  "core (startStep now attributes step) = core step"
  "core (markStepPassed now summary step) = core step"
  "core (end_step s now step) = core step"
  "core (refreshSyntheticToolStep now step) = core step"
  by (simp_all add: core_def markChecklist_def upsertChecklist_def appendReference_def startStep_def
      markStepPassed_def end_step_def refreshSyntheticToolStep_def Let_def)

lemma core_fields [step_simps]:
  "core (step\<lparr>xs_status := s\<rparr>) = core step" "core (step\<lparr>xs_safe_summary := t\<rparr>) = core step"
  "core (step\<lparr>xs_failure_code := t\<rparr>) = core step" "core (step\<lparr>xs_degradation_code := t\<rparr>) = core step"
  "core (step\<lparr>xs_attempt := n\<rparr>) = core step" "core (step\<lparr>xs_route := t\<rparr>) = core step"
  "core (step\<lparr>xs_completed_at := now\<rparr>) = core step"
  by (simp_all add: core_def)

lemma status_updates [step_simps]:
  "xs_status (markChecklist checkID status now refs detail step) = xs_status step"
  "xs_status (upsertChecklist item step) = xs_status step"
  "xs_status (appendReference r step) = xs_status step"
  "xs_status (markStepPassed now summary step) = StatusPassed"
  "xs_status (end_step s now step) = s"
  by (simp_all add: markChecklist_def upsertChecklist_def appendReference_def markStepPassed_def end_step_def Let_def)

lemma kind_updates [step_simps]:
  "xs_kind (upsertChecklist item step) = xs_kind step" "xs_kind (appendReference r step) = xs_kind step"
  by (simp_all add: upsertChecklist_def appendReference_def)

lemma references_fold [step_simps]:
  "core (foldl (\<lambda>step r. appendReference r step) step refs) = core step"
  "xs_status (foldl (\<lambda>step r. appendReference r step) step refs) = xs_status step"
  by (induction refs arbitrary: step) (simp_all add: step_simps)

lemma core_handlers:
  "core (applyInterpretation event attributes step) = core step"
  "core (applyPlanning event attributes step) = core step"
  "core (applyContext event attributes step) = core step"
  "core (applyModel event attributes step) = core step"
  "core (applyRetrieval D event attributes step) = core step"
  "core (applyTool D event attributes step) = core step"
  "core (applyReview event attributes step) = core step"
  "core (applySynthesis event attributes step) = core step"
  "core (pass_synthesis event attributes refs step) = core step"
  "core (fail_step code now cancelled step) = core step"
  by (simp_all add: step_simps applyInterpretation_def applyPlanning_def applyContext_def applyModel_def
      applyRetrieval_def applyTool_def applyReview_def applySynthesis_def pass_synthesis_def fail_step_def Let_def)

lemma core_eq_fields:
  "core x = core y \<longleftrightarrow> xs_step_id x = xs_step_id y \<and> xs_parent_phase_id x = xs_parent_phase_id y \<and>
     xs_kind x = xs_kind y \<and> xs_role_id x = xs_role_id y \<and> xs_mandatory x = xs_mandatory y \<and>
     xs_depends_on x = xs_depends_on y"
  by (auto simp: core_def)

section \<open>Steps that ended\<close>

text \<open>A step that ended only handles events that leave its status alone.\<close>

lemma compatible_status:
  assumes "compatibleTerminalEvent (xs_status step) event"
  shows "xe_type event = ''interpretation'' \<Longrightarrow> xs_status (applyInterpretation event attributes step) = xs_status step"
    and "xe_type event = ''planning'' \<Longrightarrow> xs_status (applyPlanning event attributes step) = xs_status step"
    and "xe_type event = ''context'' \<Longrightarrow> xs_status (applyContext event attributes step) = xs_status step"
    and "xe_type event = ''review'' \<Longrightarrow> xs_status (applyReview event attributes step) = xs_status step"
    and "xe_type event = ''synthesis'' \<Longrightarrow> xs_status (applySynthesis event attributes step) = xs_status step"
    and "xe_type event = ''run'' \<Longrightarrow> xe_status event = ''completed'' \<Longrightarrow>
      xs_status (pass_synthesis event attributes refs step) = xs_status step"
    and "xe_type event \<in> set [''model'', ''retrieval''] \<Longrightarrow> False"
  using assms by (auto simp: compatibleTerminalEvent_def applyInterpretation_def applyPlanning_def applyContext_def
      applyReview_def applySynthesis_def pass_synthesis_def step_simps Let_def split: if_splits)

lemma applyTool_status: "xs_kind step \<noteq> ''tool'' \<Longrightarrow> xs_status (applyTool D event attributes step) = xs_status step"
  by (simp add: applyTool_def Let_def step_simps)

text \<open>The two identifiers the code uses for steps of its own.\<close>

definition reserved_ids :: "string list" where
  "reserved_ids = [''memory-retention'', ''deterministic-tools'']"

definition kept_step :: "ExecStep \<Rightarrow> ExecStep \<Rightarrow> bool" where
  "kept_step x y \<longleftrightarrow> core y = core x \<and> (terminal (xs_status x) \<and> xs_kind x \<noteq> ''tool'' \<longrightarrow> xs_status y = xs_status x)"

definition keeps :: "Projection \<Rightarrow> Projection \<Rightarrow> bool" where
  "keeps p q \<longleftrightarrow> (\<forall>x \<in> set (pj_steps p). xs_step_id x \<notin> set reserved_ids \<longrightarrow> (\<exists>y \<in> set (pj_steps q). kept_step x y))"

lemma kept_step_refl [simp]: "kept_step x x"
  by (simp add: kept_step_def)

lemma kept_step_trans: "kept_step x y \<Longrightarrow> kept_step y z \<Longrightarrow> kept_step x z"
  by (auto simp: kept_step_def core_eq_fields)

lemma keeps_same [intro]: "pj_steps q = pj_steps p \<Longrightarrow> keeps p q"
  by (auto simp: keeps_def intro: bexI kept_step_refl)

lemma keeps_trans:
  assumes "keeps p q" and "keeps q r"
  shows "keeps p r"
  unfolding keeps_def
proof (intro ballI impI)
  fix x assume x: "x \<in> set (pj_steps p)" "xs_step_id x \<notin> set reserved_ids"
  then obtain y where y: "y \<in> set (pj_steps q)" "kept_step x y" using assms(1) by (auto simp: keeps_def)
  moreover from y(2) x(2) have "xs_step_id y \<notin> set reserved_ids" by (auto simp: kept_step_def core_eq_fields)
  ultimately obtain z where "z \<in> set (pj_steps r)" "kept_step y z" using assms(2) unfolding keeps_def by metis
  with y(2) show "\<exists>z \<in> set (pj_steps r). kept_step x z" using kept_step_trans by blast
qed

lemma keeps_map:
  assumes "\<And>x. x \<in> set (pj_steps p) \<Longrightarrow> kept_step x (f x)" and "pj_steps q = map f (pj_steps p)"
  shows "keeps p q"
  using assms by (auto simp: keeps_def)

lemma index_of_Some: "index_of P xs = Some i \<Longrightarrow> i < length xs \<and> P (xs ! i)"
  by (induction xs arbitrary: i) (auto split: if_splits)

lemma index_of_None: "index_of P xs = None \<longleftrightarrow> (\<forall>x \<in> set xs. \<not> P x)"
  by (induction xs) auto

lemma keeps_on_step:
  assumes "\<And>i. target = Some i \<Longrightarrow> i < length (pj_steps p) \<and> kept_step (pj_steps p ! i) (f (pj_steps p ! i))"
  shows "keeps p (on_step target f p)"
proof (cases target)
  case (Some i)
  then have i: "i < length (pj_steps p)" "kept_step (pj_steps p ! i) (f (pj_steps p ! i))" using assms by auto
  have "\<exists>y \<in> set ((pj_steps p)[i := f (pj_steps p ! i)]). kept_step x y" if x: "x \<in> set (pj_steps p)" for x
  proof -
    obtain j where j: "j < length (pj_steps p)" "x = pj_steps p ! j" using x by (auto simp: in_set_conv_nth)
    then have "(pj_steps p)[i := f (pj_steps p ! i)] ! j \<in> set ((pj_steps p)[i := f (pj_steps p ! i)])"
      by (intro nth_mem) simp
    with i j show ?thesis by (cases "j = i") (auto intro!: bexI)
  qed
  with Some show ?thesis by (simp add: keeps_def on_step_def)
qed (auto simp: on_step_def)

lemma update_first_absent: "(\<And>x. x \<in> set xs \<Longrightarrow> \<not> P x) \<Longrightarrow> update_first P f xs = xs"
  by (induction xs) auto

lemma update_first_keeps: "x \<in> set xs \<Longrightarrow> \<not> P x \<Longrightarrow> x \<in> set (update_first P f xs)"
  by (induction xs) auto

lemma keeps_upsert:
  assumes "xs_step_id step \<in> set reserved_ids \<or> (\<forall>x \<in> set (pj_steps p). xs_step_id x \<noteq> xs_step_id step)"
  shows "keeps p (upsertSyntheticStep step p)"
  unfolding keeps_def
proof (intro ballI impI)
  fix x assume x: "x \<in> set (pj_steps p)" "xs_step_id x \<notin> set reserved_ids"
  with assms have "xs_step_id x \<noteq> xs_step_id step" by metis
  with x(1) have "x \<in> set (pj_steps (upsertSyntheticStep step p))"
    by (auto simp: upsertSyntheticStep_def update_first_keeps)
  then show "\<exists>y \<in> set (pj_steps (upsertSyntheticStep step p)). kept_step x y" by (intro bexI) simp_all
qed

section \<open>Every event keeps the steps\<close>

lemma fail_step_kept: "kept_step step (fail_step code now cancelled step)"
  by (auto simp: kept_step_def core_handlers) (auto simp: fail_step_def)

lemma MarkFailed_keeps: "keeps p (fst (MarkFailed D code now cancelled p))"
  by (rule keeps_map [of p "fail_step code now cancelled"]) (simp_all add: fail_step_kept MarkFailed_def signed_steps)

lemma findStep_Some: "findStep p stepID = Some i \<Longrightarrow> i < length (pj_steps p) \<and> xs_step_id (pj_steps p ! i) = stepID"
  unfolding findStep_def by (drule index_of_Some)

lemma handle_event_keeps:
  assumes index: "\<And>i. target = Some i \<Longrightarrow> i < length (pj_steps p)" and "\<not> frozen target event p"
  shows "keeps p (handle_event D target event attributes p)"
proof -
  have live: "\<not> terminal (xs_status (pj_steps p ! i)) \<or> compatibleTerminalEvent (xs_status (pj_steps p ! i)) event"
    if "target = Some i" for i
    using assms(2) that by (simp add: frozen_def)
  have handler: "keeps p (on_step target f p)"
    if "\<And>step. core (f step) = core step"
      and "\<And>step. compatibleTerminalEvent (xs_status step) event \<Longrightarrow> xs_kind step \<noteq> ''tool'' \<Longrightarrow> xs_status (f step) = xs_status step"
    for f
    using index live that by (intro keeps_on_step) (auto simp: kept_step_def)
  note status = compatible_status
  show ?thesis
  proof (cases "xe_type event \<in> set [''interpretation'', ''planning'', ''context'', ''model'', ''retrieval'', ''tool'',
      ''review'', ''synthesis'']")
    case True
    then show ?thesis
      unfolding handle_event_def
      by (auto intro!: handler simp: core_handlers applyTool_status dest: status(1-5,7))
  next
    case False
    have run: "keeps p (applyRun D target event attributes p)" if "xe_type event = ''run''"
      using that unfolding applyRun_def
      by (auto intro!: handler MarkFailed_keeps simp: core_handlers status(6))
    have retention: "keeps p (applyRetention event attributes p)"
      by (simp add: applyRetention_def Let_def keeps_upsert reserved_ids_def split: prod.split)
    have workspace: "keeps p (applyWorkspace D event attributes p)"
      by (auto simp: applyWorkspace_def MarkFailed_keeps)
    show ?thesis
      using False run retention workspace unfolding handle_event_def by auto
  qed
qed

text \<open>
  A tool event whose step is not found adds a step under its trimmed identifier; an identifier
  with blanks around it may name an existing step after trimming. Events of the other types never
  add a step under their own identifier, so only tool events have to be free of blanks.
\<close>

definition trimmed :: "ExecEvent \<Rightarrow> bool" where
  "trimmed event \<longleftrightarrow> (xe_type event = ''tool'' \<longrightarrow> trim_space (xe_step_id event) = xe_step_id event)"

lemma ensureSyntheticToolStep_keeps:
  assumes "trim_space (xe_step_id event) = xe_step_id event" and "findStep p (xe_step_id event) = None"
  shows "keeps p (fst (ensureSyntheticToolStep event p))"
proof -
  have "\<forall>x \<in> set (pj_steps p). xs_step_id x \<noteq> xe_step_id event"
    using assms(2) by (simp add: findStep_def index_of_None)
  moreover have "synthetic_tool_id event = xe_step_id event \<or> synthetic_tool_id event \<in> set reserved_ids"
    using assms(1) by (simp add: synthetic_tool_id_def safeIDValue_def reserved_ids_def Let_def)
  ultimately show ?thesis
    by (simp add: ensureSyntheticToolStep_def Let_def)
      (rule keeps_upsert, auto simp: synthetic_tool_step_def)
qed

lemma handled_keeps: "(\<And>i. target = Some i \<Longrightarrow> i < length (pj_steps p)) \<Longrightarrow> keeps p (handled D event target p)"
  by (auto simp: handled_def intro: handle_event_keeps)

lemma effect_keeps:
  assumes "trimmed event"
  shows "keeps p (effect D event p)"
proof (cases "findStep p (xe_step_id event)")
  case None
  have other: "keeps p (handled D event None p)" by (rule handled_keeps) simp
  show ?thesis
  proof (cases "xe_type event = ''tool''")
    case True
    let ?q = "fst (ensureSyntheticToolStep event p)" and ?t = "snd (ensureSyntheticToolStep event p)"
    have "\<And>i. ?t = Some i \<Longrightarrow> i < length (pj_steps ?q)"
      by (simp add: ensureSyntheticToolStep_def Let_def findStep_Some)
    then have "keeps ?q (handled D event ?t ?q)" by (rule handled_keeps)
    moreover have "keeps p ?q" using assms True None by (intro ensureSyntheticToolStep_keeps) (simp_all add: trimmed_def)
    ultimately have "keeps p (handled D event ?t ?q)" by (rule keeps_trans [rotated])
    with None other show ?thesis by (auto simp: effect_def)
  next
    case False
    with None other show ?thesis by (auto simp: effect_def)
  qed
next
  case (Some i)
  have "keeps p (handled D event (Some i) p)" by (rule handled_keeps) (use Some findStep_Some in auto)
  with Some show ?thesis by (auto simp: effect_def)
qed

lemma Apply_keeps:
  assumes "trimmed event"
  shows "keeps p (fst (Apply D event p))"
proof (cases rule: Apply_cases [of D event p])
  case applied
  have "keeps (effect D event p) (fst (Apply D event p))" using applied by (auto simp: finish_event_facts)
  with effect_keeps [OF assms] show ?thesis by (rule keeps_trans)
qed auto

lemma reaches_keeps:
  assumes "reaches D p events q" and "list_all trimmed events"
  shows "keeps p q"
  using assms
proof (induction rule: reaches.induct)
  case (reaches_event events q event r)
  then have "keeps p q" "keeps q r" using Apply_keeps [of event q D] by simp_all
  then show ?case by (rule keeps_trans)
qed auto

end
