(* ===== verification/Exec_Structure.thy ===== *)
theory Exec_Structure
  imports Exec_Laws
begin

text \<open>
  What \<open>recalculate\<close> derives always passes the validation: the progress ratio lies between zero and
  one, and the phases are well formed with safe texts. What is left of the validation is about the
  envelope and the steps.
\<close>

section \<open>Rounded ratios\<close>

lemma log2_pos: "0 \<le> log2 n"
  by (induction n rule: log2.induct) (subst log2.simps, simp)

lemma log2_mono: "m \<le> n \<Longrightarrow> log2 m \<le> log2 n"
proof (induction n arbitrary: m rule: log2.induct)
  case (1 n)
  show ?case
  proof (cases "m \<le> 1")
    case True
    then show ?thesis using log2_pos [of n] by (simp add: log2.simps [of m])
  next
    case False
    with 1 have "log2 (m div 2) \<le> log2 (n div 2)" by (auto intro: zdiv_mono1)
    with False 1(2) show ?thesis by (simp add: log2.simps [of m] log2.simps [of n])
  qed
qed

lemma exponent_of_le_0: "0 \<le> x \<Longrightarrow> x \<le> 1 \<Longrightarrow> exponent_of x \<le> 0"
proof -
  assume x: "0 \<le> x" "x \<le> 1"
  obtain p q where pq: "quotient_of x = (p, q)" by (cases "quotient_of x")
  then have "0 < q" "x = of_int p / of_int q" using quotient_of_denom_pos quotient_of_div by auto
  with x have "p \<le> q" by (simp add: divide_le_eq)
  then have "log2 p - log2 q \<le> 0" using log2_mono by simp
  with pq show ?thesis by (simp add: exponent_of_def Let_def)
qed

lemma round_half_even_le: "y \<le> of_int n \<Longrightarrow> round_half_even y \<le> n"
proof -
  assume y: "y \<le> of_int n"
  then have floor: "\<lfloor>y\<rfloor> \<le> n" by (simp add: floor_le_iff)
  show ?thesis
  proof (cases "\<lfloor>y\<rfloor> = n")
    case True
    with y have "y = of_int n" by linarith
    then show ?thesis by (simp add: round_half_even_def)
  next
    case False
    with floor show ?thesis by (simp add: round_half_even_def Let_def)
  qed
qed

lemma round_half_even_nonneg: "0 \<le> y \<Longrightarrow> 0 \<le> round_half_even y"
  by (auto simp: round_half_even_def Let_def)

lemma round_double_unit: "0 \<le> x \<Longrightarrow> x \<le> 1 \<Longrightarrow> 0 \<le> round_double x \<and> round_double x \<le> 1"
proof (cases "x = 0")
  case False
  assume x: "0 \<le> x" "x \<le> 1"
  define k where "k = nat (52 - max (exponent_of x) (- 1022))"
  have unit: "pow2 (max (exponent_of x) (- 1022) - 52) = 1 / 2 ^ k"
    using exponent_of_le_0 [OF x] by (auto simp: pow2_def k_def)
  have "x / (1 / 2 ^ k) \<le> of_int (2 ^ k)" using x(2) by simp
  then have "round_half_even (x / (1 / 2 ^ k)) \<le> 2 ^ k" by (rule round_half_even_le)
  then have "(of_int (round_half_even (x / (1 / 2 ^ k))) :: rat) \<le> 2 ^ k"
    by (metis of_int_le_iff of_int_numeral of_int_power)
  moreover have "0 \<le> (of_int (round_half_even (x / (1 / 2 ^ k))) :: rat)"
    using round_half_even_nonneg [of "x / (1 / 2 ^ k)"] x(1) by simp
  ultimately show ?thesis
    using x False unfolding round_double_def round_positive_def Let_def unit
    by (simp add: divide_le_eq)
qed (simp add: round_double_def)

section \<open>Texts that are safe at every boundary\<close>

text \<open>No alternative of the pattern starts in a dead text, whatever follows it.\<close>

fun dead :: "string \<Rightarrow> bool" where
  "dead [] = True"
| "dead (c # s) \<longleftrightarrow> list_all (\<lambda>p. \<not> starts_with (c # s) p \<and> \<not> starts_with p (c # s)) (patterns_at c) \<and> dead s"

lemma starts_with_append: "starts_with (s @ t) p \<Longrightarrow> starts_with s p \<or> starts_with p s"
  by (auto simp: starts_with_iff append_eq_append_conv2)

lemma unsafe_in_dead: "dead s \<Longrightarrow> unsafe_in (s @ t) = unsafe_in t"
proof (induction s)
  case (Cons c s)
  then have "\<not> list_ex (starts_with ((c # s) @ t)) (patterns_at c)"
    using starts_with_append [of "c # s" t] by (auto simp: list_ex_iff list_all_iff)
  with Cons show ?case by simp
qed simp

lemma dead_append: "dead s \<Longrightarrow> dead t \<Longrightarrow> dead (s @ t)"
proof (induction s)
  case (Cons c s)
  have "\<not> starts_with ((c # s) @ t) p \<and> \<not> starts_with p ((c # s) @ t)" if "p \<in> set (patterns_at c)" for p
  proof -
    from Cons.prems(1) that have p: "\<not> starts_with (c # s) p" "\<not> starts_with p (c # s)"
      by (auto simp: list_all_iff)
    then have "\<not> starts_with ((c # s) @ t) p" using starts_with_append by blast
    moreover have "\<not> starts_with p ((c # s) @ t)" using p(2) by (auto simp: starts_with_iff)
    ultimately show ?thesis by simp
  qed
  with Cons show ?case by (simp add: list_all_iff)
qed simp

definition ascii :: "string \<Rightarrow> bool" where
  "ascii s = list_all (\<lambda>c. c < CHR 0x80) s"

lemma fold_case_append: "ascii s \<Longrightarrow> fold_case (s @ t) = fold_case s @ fold_case t"
proof (induction s)
  case (Cons c s)
  then have c: "c < CHR 0x80" and s: "ascii s" by (simp_all add: ascii_def)
  have "\<not> starts_with ((c # s) @ t) [CHR 0xC5, CHR 0xBF]" "\<not> starts_with ((c # s) @ t) [CHR 0xE2, CHR 0x84, CHR 0xAA]"
    "\<not> starts_with (c # s) [CHR 0xC5, CHR 0xBF]" "\<not> starts_with (c # s) [CHR 0xE2, CHR 0x84, CHR 0xAA]"
    using c by (auto simp: starts_with_iff less_char_def)
  with Cons.IH [OF s] show ?case by simp
qed simp

lemma unsafeText_dead: "ascii s \<Longrightarrow> dead (fold_case s) \<Longrightarrow> unsafeText (s @ t) = unsafeText t"
  by (simp add: unsafeText_code fold_case_append unsafe_in_dead)

lemma dec_nat_digits: "list_all (\<lambda>c. CHR ''0'' \<le> c \<and> c \<le> CHR ''9'') (dec_nat n)"
proof (induction n rule: dec_nat.induct)
  case (1 n)
  have digit: "CHR ''0'' \<le> char_of (48 + d) \<and> char_of (48 + d) \<le> CHR ''9''" if "d < 10" for d :: nat
    using that by (simp add: less_eq_char_def)
  show ?case
    by (subst dec_nat.simps) (use 1 digit in \<open>auto\<close>)
qed

lemma digit_facts:
  assumes "CHR ''0'' \<le> c" "c \<le> CHR ''9''"
  shows "patterns_at c = []" "c < CHR 0x80" "\<not> (CHR ''A'' \<le> c)"
  using assms by (auto simp: patterns_at_def less_eq_char_def less_char_def)

lemma digits_dead:
  assumes "list_all (\<lambda>c. CHR ''0'' \<le> c \<and> c \<le> CHR ''9'') s"
  shows "ascii s" "fold_case s = s" "dead s"
proof -
  show "ascii s" using assms digit_facts(2) by (auto simp: ascii_def list_all_iff)
  show "fold_case s = s"
    using assms
  proof (induction s)
    case (Cons c s)
    then have "c < CHR 0x80" "\<not> CHR ''A'' \<le> c" using digit_facts [of c] by simp_all
    moreover have "\<not> starts_with (c # s) [CHR 0xC5, CHR 0xBF]" "\<not> starts_with (c # s) [CHR 0xE2, CHR 0x84, CHR 0xAA]"
      using calculation(1) by (auto simp: starts_with_iff less_char_def)
    ultimately show ?case using Cons by simp
  qed simp
  show "dead s" using assms by (induction s) (auto simp: digit_facts)
qed

lemma number_dead: "unsafeText (itoa (int n) @ t) = unsafeText t"
  using digits_dead [OF dec_nat_digits [of n]] by (simp add: itoa_def unsafeText_dead)

lemma number_not_Nil: "itoa n @ t \<noteq> [] \<longleftrightarrow> True"
  using dec_nat.simps [of "nat n"] dec_nat.simps [of "nat (- n)"] by (auto simp: itoa_def split: if_splits)

section \<open>The phases\<close>

lemma scan_from_index:
  assumes "\<And>k. k < length xs \<Longrightarrow> pre (i + k) (xs ! k) = None" and "distinct (map key xs)"
    and "key ` set xs \<inter> set seen = {}" and "\<And>i x. post i x = None"
  shows "scan_from pre key dup post i seen xs = None"
  using assms
proof (induction xs arbitrary: i seen)
  case (Cons x xs)
  have "pre i x = None" using Cons.prems(1) [of 0] by simp
  moreover have "scan_from pre key dup post (Suc i) (key x # seen) xs = None"
    by (rule Cons.IH) (use Cons.prems(1) [of "Suc _"] Cons.prems(2-4) in auto)
  moreover have "post i x = None" by (rule Cons.prems(4))
  ultimately show ?case using Cons.prems(3) by auto
qed simp

definition phase_head :: "Phase \<Rightarrow> string" where
  "phase_head phase = ph_safe_label phase @ '' '' @ ph_safe_objective phase @ '' ''"

lemma phase_heads_dead: "list_all (\<lambda>phase. ascii (phase_head phase) \<and> dead (fold_case (phase_head phase))) canonicalPhases"
  by code_simp

text \<open>A text that a phase may show: neither empty nor unsafe.\<close>

definition showable :: "string \<Rightarrow> bool" where
  "showable s \<longleftrightarrow> s \<noteq> [] \<and> \<not> unsafeText s"

lemma showable_number: "showable t \<Longrightarrow> showable (itoa (int n) @ t)"
  by (simp add: showable_def number_dead)

lemma showable_of: "showable t \<Longrightarrow> showable ('' of '' @ t)" "showable t \<Longrightarrow> showable (itoa (int n) @ '' of '' @ t)"
proof -
  have "ascii '' of ''" "dead (fold_case '' of '')" by code_simp+
  then show "showable t \<Longrightarrow> showable ('' of '' @ t)" for t
    by (simp only: showable_def unsafeText_dead) simp
  then show "showable t \<Longrightarrow> showable (itoa (int n) @ '' of '' @ t)" for t by (rule showable_number)
qed

lemma phase_texts:
  "list_all showable ['' governed phase activities passed.'', ''A governed phase activity stopped safely.'',
     '' governed phase activities released a bounded subset.'', ''A governed phase activity is undergoing bounded repair.'',
     '' governed phase activities are in progress.'', '' governed phase activities are ready.'',
     ''A governed phase activity withheld release.'', ''A governed phase activity was unavailable.'',
     ''A governed phase activity was cancelled.'', ''No standalone activity was required for this phase.'',
     '' governed phase activities are waiting.'']"
  "list_all showable ['' deterministic calculation records passed contract checks.'',
     '' deterministic calculation records have passed contract checks.'',
     '' deterministic calculation records passed contract checks; the remainder is explicitly bounded.'',
     ''Waiting for governed phase activity.'']"
  "list_all showable [''All mandatory release contracts passed.'', ''The run stopped safely before release.'',
     ''The run was cancelled before release.'', ''The final answer was withheld by a governed gate.'',
     ''The release path was unavailable.'', ''Only a bounded subset was released.'',
     ''Final release checks are in progress.'', ''Waiting for mandatory review and synthesis contracts.'']"
  by code_simp+

lemma phaseSummary_showable: "showable (phaseSummary status n)"
  using phase_texts(1) by (cases status) (simp_all add: phaseSummary_def Let_def showable_number)

lemma toolPhaseSummary_showable: "showable (toolPhaseSummary status statuses)"
proof -
  have texts: "showable '' deterministic calculation records passed contract checks.''"
    "showable '' deterministic calculation records have passed contract checks.''"
    "showable '' deterministic calculation records passed contract checks; the remainder is explicitly bounded.''"
    using phase_texts(2) by simp_all
  then show ?thesis
    by (cases status) (simp_all only: toolPhaseSummary_def Let_def Status.case showable_number showable_of)
qed

lemma releasePhaseState_ok: "showable (snd (releasePhaseState p)) \<and> validStatus (fst (releasePhaseState p))"
  using phase_texts(3) by (cases "pj_status p") (simp_all add: releasePhaseState_def)

lemma aggregateStatuses_valid: "validStatus (aggregateStatuses statuses)"
proof -
  have "list_all validStatus candidate_statuses" by code_simp
  then show ?thesis
    unfolding aggregateStatuses_def by (auto simp: find_Some_iff list_all_length split: option.split)
qed

lemma phase_of_ok:
  "showable (ph_safe_summary (phase_of p phase)) \<and> validStatus (ph_status (phase_of p phase))"
  if "showable (ph_safe_summary phase)" "validStatus (ph_status phase)"
  using that phase_texts(1) phaseSummary_showable toolPhaseSummary_showable releasePhaseState_ok [of p] aggregateStatuses_valid
  by (simp add: phase_of_def Let_def)

lemma phase_of_fields:
  "ph_phase_id (phase_of p phase) = ph_phase_id phase" "ph_order (phase_of p phase) = ph_order phase"
  "ph_safe_label (phase_of p phase) = ph_safe_label phase"
  "ph_safe_objective (phase_of p phase) = ph_safe_objective phase"
  "ph_mandatory (phase_of p phase) = ph_mandatory phase"
  "ph_step_ids (phase_of p phase) =
     map xs_step_id (filter (\<lambda>step. xs_parent_phase_id step = ph_phase_id phase) (pj_steps p))"
  by (simp_all add: phase_of_def Let_def)

lemma initialPhases_index:
  assumes "k < length initialPhases"
  shows "showable (ph_safe_summary (initialPhases ! k))" and "validStatus (ph_status (initialPhases ! k))"
    and "ph_phase_id (initialPhases ! k) = ph_phase_id (canonicalPhases ! k)"
    and "ph_order (initialPhases ! k) = ph_order (canonicalPhases ! k)"
    and "ph_safe_label (initialPhases ! k) = ph_safe_label (canonicalPhases ! k)"
    and "ph_safe_objective (initialPhases ! k) = ph_safe_objective (canonicalPhases ! k)"
    and "ph_mandatory (initialPhases ! k) = ph_mandatory (canonicalPhases ! k)"
    and "ascii (phase_head (canonicalPhases ! k)) \<and> dead (fold_case (phase_head (canonicalPhases ! k)))"
proof -
  have "showable ''Waiting for governed phase activity.''" using phase_texts(2) by simp
  then show "showable (ph_safe_summary (initialPhases ! k))" using assms by (simp add: initialPhases_def)
qed (use assms phase_heads_dead in \<open>simp_all add: initialPhases_def list_all_length\<close>)

lemma phase_check_ok:
  assumes "k < length initialPhases"
  shows "check_phase k (phase_of p (initialPhases ! k)) = None"
proof -
  let ?phase = "phase_of p (initialPhases ! k)"
  note index = initialPhases_index [OF assms]
  have ok: "showable (ph_safe_summary ?phase)" "validStatus (ph_status ?phase)"
    using phase_of_ok [OF index(1,2)] by simp_all
  have "unsafeText (phase_head (canonicalPhases ! k) @ ph_safe_summary ?phase) = unsafeText (ph_safe_summary ?phase)"
    using index(8) by (simp add: unsafeText_dead)
  with ok show ?thesis
    by (simp add: check_phase_def Let_def phase_of_fields index(3-7) phase_head_def showable_def)
qed

lemma phase_ids: "map ph_phase_id (map (phase_of p) initialPhases) = map ph_phase_id canonicalPhases"
  by (simp add: initialPhases_def phase_of_fields o_def)

lemma phase_ids_distinct: "distinct (map ph_phase_id canonicalPhases)"
  by code_simp

section \<open>What is left of the validation\<close>

definition steps_error :: "Projection \<Rightarrow> go_error option" where
  "steps_error projection = first_err
     [fail_if (pj_schema_version projection \<noteq> ''signalforge/execution-plan/v1'' \<or> \<not> safeID (pj_run_id projection) \<or>
          \<not> safeID (pj_request_id projection) \<or> is_zero_time (pj_created_at projection))
        (ErrorsNew ''execution projection envelope is invalid''),
      fail_if (pj_plan_id projection \<noteq> [] \<and> \<not> safeID (pj_plan_id projection))
        (ErrorsNew ''execution projection plan_id is invalid''),
      fail_if (\<not> validStatus (pj_status projection) \<or> length (pj_steps projection) < 2 \<or>
          length (pj_steps projection) > 24)
        (ErrorsNew ''execution projection status or step count is invalid''),
      check_steps (map ph_phase_id canonicalPhases) (pj_steps projection),
      range_err (\<lambda>_. check_depends (map xs_step_id (pj_steps projection))) (pj_steps projection),
      (if pj_status projection = StatusPassed then
         (case firstBlockingMandatoryStep (pj_steps projection) of (stepID, status) \<Rightarrow>
            fail_if (stepID \<noteq> [])
              (Errorf ''passed execution projection has blocking mandatory step %q in status %q''
                [FStr stepID, FStr (status_text status)]))
       else None)]"

lemma recalculated:
  "pj_steps (recalculateTotals p) = pj_steps p"
  "pj_phases (recalculate p) = map (phase_of (recalculateTotals p)) initialPhases"
  by (simp_all add: recalculateTotals_def recalculate_def recalculatePhases_def Let_def)

lemma recalculate_fields:
  "pj_schema_version (recalculate p) = pj_schema_version p" "pj_run_id (recalculate p) = pj_run_id p"
  "pj_request_id (recalculate p) = pj_request_id p" "pj_created_at (recalculate p) = pj_created_at p"
  "pj_plan_id (recalculate p) = pj_plan_id p"
  "pj_total_steps (recalculate p) = int (length (pj_steps p))"
  "pj_terminal_steps (recalculate p) = int (length (filter (\<lambda>step. terminal (xs_status step)) (pj_steps p)))"
  "pj_steps p \<noteq> [] \<Longrightarrow> pj_progress_ratio (recalculate p) =
     Finite (f64_div (of_nat (length (filter (\<lambda>step. terminal (xs_status step)) (pj_steps p)))) (of_nat (length (pj_steps p))))"
  by (simp_all add: recalculate_def recalculateTotals_def recalculatePhases_def Let_def)

lemma ratio_ok:
  assumes "k \<le> n" and "0 < n"
  shows "0 \<le> f64_div (of_nat k) (of_nat n) \<and> f64_div (of_nat k) (of_nat n) \<le> 1"
  unfolding f64_div_def using assms by (intro round_double_unit) (simp_all add: divide_le_eq)

lemma first_err_holes: "first_err [a, b, c, None, None, None, d, None, e, f] = first_err [a, b, c, d, e, f]"
  by (cases a; cases b; cases c; cases d) simp_all

lemma validateStructure_recalculate: "validateStructure (recalculate p) = steps_error p"
proof (cases "length (pj_steps p) < 2")
  case True
  then show ?thesis
    by (simp add: validateStructure_def steps_error_def recalculate_fields first_err.simps fail_if_def)
next
  case False
  then have steps: "pj_steps p \<noteq> []" by auto
  let ?done = "length (filter (\<lambda>step. terminal (xs_status step)) (pj_steps p))"
  note p' = recalculated [of p]
  have size: "length (pj_phases (recalculate p)) = length canonicalPhases" by (simp add: p' initialPhases_def)
  have progress: "\<not> (pj_total_steps (recalculate p) \<noteq> int (length (pj_steps (recalculate p))) \<or>
      pj_terminal_steps (recalculate p) < 0 \<or> pj_terminal_steps (recalculate p) > pj_total_steps (recalculate p) \<or>
      float_lt (pj_progress_ratio (recalculate p)) (Finite 0) \<or> float_lt (Finite 1) (pj_progress_ratio (recalculate p)))"
    using ratio_ok [of ?done "length (pj_steps p)"] steps by (simp add: recalculate_fields not_less)
  have phases: "scan_unique check_phase ph_phase_id
      (\<lambda>_ phase. Errorf ''execution phase %q is duplicated'' [FStr (ph_phase_id phase)]) no_check
      (pj_phases (recalculate p)) = None"
    unfolding scan_unique_def p'
    by (rule scan_from_index) (use phase_check_ok phase_ids_distinct in \<open>simp_all add: phase_ids [unfolded map_map, simplified o_def] o_def\<close>)
  have children: "range_err (\<lambda>_. check_children (pj_steps (recalculate p))) (pj_phases (recalculate p)) = None"
  proof (subst range_err_None_uniform [where P = "\<lambda>phase. check_children (pj_steps p) phase = None"])
    show "\<forall>phase \<in> set (pj_phases (recalculate p)). check_children (pj_steps p) phase = None"
      by (auto simp: p' check_children_def phase_of_fields)
  qed simp
  show ?thesis
    unfolding validateStructure_def steps_error_def phases children
    using size progress
    by (simp add: recalculate_fields p'(2) phase_ids fail_if_def [of False] first_err_holes del: map_map)
qed

end
