(* ===== verification/Exec_Eval.thy ===== *)
theory Exec_Eval
  imports Exec_Structure
begin

text \<open>
  The derived fields and the signature of a projection never influence what an event does. So
  events can be run on projections without them: an event is accepted exactly if the steps it leads
  to pass their validation, and the projections agree up to what \<open>recalculate\<close> derives.
\<close>

definition strip :: "Projection \<Rightarrow> Projection" where
  "strip p = p\<lparr>pj_total_steps := 0, pj_terminal_steps := 0, pj_progress_ratio := Finite 0, pj_current_wave := 0,
     pj_route_summary := [], pj_phases := [], pj_degradation_summary := [], pj_projection_sha := []\<rparr>"

lemma strip_recalculate [simp]: "strip (recalculate p) = strip p"
  by (simp add: strip_def recalculate_def recalculateTotals_def recalculatePhases_def Let_def)

lemma strip_sha [simp]: "strip (p\<lparr>pj_projection_sha := h\<rparr>) = strip p"
  by (simp add: strip_def)

lemma strip_signed [simp]: "strip (fst (signAndValidate D p)) = strip p"
  by (auto simp: signAndValidate_def Let_def split: option.splits sum.splits)

lemma strip_fields:
  "pj_steps (strip p) = pj_steps p" "pj_status (strip p) = pj_status p" "pj_last_sequence (strip p) = pj_last_sequence p"
  by (simp_all add: strip_def)

lemma strip_updates:
  "strip (p\<lparr>pj_steps := steps\<rparr>) = (strip p)\<lparr>pj_steps := steps\<rparr>"
  "strip (p\<lparr>pj_status := s\<rparr>) = (strip p)\<lparr>pj_status := s\<rparr>"
  "strip (p\<lparr>pj_completed_at := t\<rparr>) = (strip p)\<lparr>pj_completed_at := t\<rparr>"
  "strip (p\<lparr>pj_last_sequence := n\<rparr>) = (strip p)\<lparr>pj_last_sequence := n\<rparr>"
  "strip (p\<lparr>pj_plan_id := i\<rparr>) = (strip p)\<lparr>pj_plan_id := i\<rparr>"
  "strip (p\<lparr>pj_started_at := t\<rparr>) = (strip p)\<lparr>pj_started_at := t\<rparr>"
  "strip (p\<lparr>pj_max_parallel_specialists := m\<rparr>) = (strip p)\<lparr>pj_max_parallel_specialists := m\<rparr>"
  by (simp_all add: strip_def)

lemma strip_agree: "strip p = strip q \<Longrightarrow> pj_steps p = pj_steps q \<and> pj_status p = pj_status q \<and>
    pj_last_sequence p = pj_last_sequence q"
  by (metis strip_fields)

lemma steps_error_strip: "strip p = strip q \<Longrightarrow> steps_error p = steps_error q"
proof -
  have "steps_error (strip r) = steps_error r" for r by (simp add: steps_error_def strip_def)
  then show "strip p = strip q \<Longrightarrow> steps_error p = steps_error q" by metis
qed

section \<open>Events on stripped projections\<close>

lemma MarkFailed_strip:
  "strip p = strip q \<Longrightarrow> strip (fst (MarkFailed D code now cancelled p)) = strip (fst (MarkFailed D code now cancelled q))"
  using strip_agree [of p q] by (simp add: MarkFailed_def strip_updates)

lemma on_step_strip: "strip p = strip q \<Longrightarrow> strip (on_step target f p) = strip (on_step target f q)"
  using strip_agree [of p q] by (simp add: on_step_def strip_updates split: option.split)

lemma upsert_strip: "strip p = strip q \<Longrightarrow> strip (upsertSyntheticStep step p) = strip (upsertSyntheticStep step q)"
  using strip_agree [of p q] by (simp add: upsertSyntheticStep_def strip_updates)

lemma handle_event_strip:
  assumes "strip p = strip q"
  shows "strip (handle_event D target event attributes p) = strip (handle_event D target event attributes q)"
proof -
  have agree: "pj_steps p = pj_steps q" "pj_status p = pj_status q" using strip_agree [OF assms] by simp_all
  have retention: "strip (applyRetention event attributes p) = strip (applyRetention event attributes q)"
    unfolding applyRetention_def findStep_def agree
    by (cases "retention_outcome (xe_at event) (xe_status event)") (simp add: Let_def upsert_strip [OF assms])
  have run: "strip (applyRun D target event attributes p) = strip (applyRun D target event attributes q)"
    by (simp add: applyRun_def on_step_strip [OF assms] MarkFailed_strip [OF assms] assms)
  have workspace: "strip (applyWorkspace D event attributes p) = strip (applyWorkspace D event attributes q)"
    by (simp add: applyWorkspace_def agree strip_updates MarkFailed_strip [OF assms] assms)
  show ?thesis
    by (simp add: handle_event_def on_step_strip [OF assms] retention run workspace assms)
qed

lemma handled_strip:
  assumes "strip p = strip q"
  shows "strip (handled D event target p) = strip (handled D event target q)"
proof -
  have "frozen target event p = frozen target event q" using strip_agree [OF assms] by (cases target) (simp_all add: frozen_def)
  then show ?thesis using handle_event_strip [OF assms] assms by (simp add: handled_def)
qed

lemma effect_strip:
  assumes "strip p = strip q"
  shows "strip (effect D event p) = strip (effect D event q)"
proof -
  have agree: "pj_steps p = pj_steps q" using strip_agree [OF assms] by simp
  let ?s = "synthetic_tool_step (synthetic_tool_id event)"
  have same: "strip (upsertSyntheticStep ?s p) = strip (upsertSyntheticStep ?s q)" by (rule upsert_strip [OF assms])
  then have steps: "pj_steps (upsertSyntheticStep ?s p) = pj_steps (upsertSyntheticStep ?s q)" using strip_agree by blast
  have find: "findStep p stepID = findStep q stepID" for stepID by (simp add: findStep_def agree)
  have synthetic: "snd (ensureSyntheticToolStep event p) = snd (ensureSyntheticToolStep event q)"
    "strip (fst (ensureSyntheticToolStep event p)) = strip (fst (ensureSyntheticToolStep event q))"
    by (simp_all add: ensureSyntheticToolStep_def Let_def findStep_def steps same)
  show ?thesis
    by (cases "findStep q (xe_step_id event)")
      (simp_all add: effect_def find strip_updates assms handled_strip [OF assms] synthetic handled_strip [OF synthetic(2)])
qed

text \<open>The projection without derived fields after an event.\<close>

definition next_light :: "digests \<Rightarrow> ExecEvent \<Rightarrow> Projection \<Rightarrow> Projection" where
  "next_light D event p = (effect D event p)\<lparr>pj_last_sequence := xe_sequence event\<rparr>"

definition hashes :: "digests \<Rightarrow> bool" where
  "hashes D \<longleftrightarrow> (\<forall>p. \<exists>digest. dg_projection D p = Inr digest)"

lemma signed_total:
  assumes "hashes D" and "validateStructure p = None"
  shows "snd (signAndValidate D p) = None"
proof -
  obtain digest where "dg_projection D (p\<lparr>pj_projection_sha := []\<rparr>) = Inr digest" using assms(1) by (auto simp: hashes_def)
  with assms(2) show ?thesis by (simp add: signAndValidate_def exec_digest_def structHash_def Let_def)
qed

lemma signed_recalculated:
  assumes "hashes D" and "steps_error p = None"
  shows "\<exists>q. signAndValidate D (recalculate p) = (q, None) \<and> strip q = strip p"
proof -
  have "snd (signAndValidate D (recalculate p)) = None"
    using assms by (simp add: signed_total validateStructure_recalculate)
  moreover have "strip (fst (signAndValidate D (recalculate p))) = strip p" by simp
  ultimately show ?thesis by (metis prod.collapse)
qed

lemma Apply_light:
  assumes "hashes D" and "strip p = strip q" and "pj_last_sequence q < xe_sequence event"
    and "apply_error event q = None" and "steps_error (next_light D event q) = None"
  shows "\<exists>r. Apply D event p = (r, None) \<and> strip r = strip (next_light D event q)"
proof -
  have agree: "pj_steps p = pj_steps q" "pj_last_sequence p = pj_last_sequence q"
    using strip_agree [OF assms(2)] by simp_all
  have "apply_error event p = None" using assms(4) by (simp add: apply_error_def findStep_def agree)
  with assms(3) have eq: "Apply D event p = signAndValidate D (recalculate (next_light D event p))"
    by (simp add: Apply_eq agree finish_event_def next_light_def)
  have same: "strip (next_light D event p) = strip (next_light D event q)"
    by (simp add: next_light_def strip_updates effect_strip [OF assms(2)])
  then have "steps_error (next_light D event p) = None" using steps_error_strip assms(5) by metis
  from signed_recalculated [OF assms(1) this] same eq show ?thesis by metis
qed

fun run_light :: "digests \<Rightarrow> ExecEvent list \<Rightarrow> Projection \<Rightarrow> Projection option" where
  "run_light D [] p = Some p"
| "run_light D (event # events) p =
     (if pj_last_sequence p < xe_sequence event \<and> apply_error event p = None
      then (case steps_error (next_light D event p) of None \<Rightarrow> run_light D events (next_light D event p) | Some err \<Rightarrow> None)
      else None)"

lemma run_light_from:
  assumes "hashes D" and "reaches D start before p" and "strip p = strip q" and "run_light D events q = Some r"
  shows "\<exists>s. reaches D start (before @ events) s \<and> strip s = strip r"
  using assms(2-4)
proof (induction events arbitrary: before p q)
  case (Cons event events)
  then have here: "pj_last_sequence q < xe_sequence event" "apply_error event q = None"
    "steps_error (next_light D event q) = None" "run_light D events (next_light D event q) = Some r"
    by (auto split: if_splits option.splits)
  from Apply_light [OF assms(1) Cons.prems(2) here(1-3)] obtain s where
    s: "Apply D event p = (s, None)" "strip s = strip (next_light D event q)" by blast
  from Cons.IH [OF reaches_event [OF Cons.prems(1) s(1)] s(2) here(4)] show ?case by simp
qed auto

lemma run_light_reaches:
  assumes "hashes D" and "strip start = strip q" and "run_light D events q = Some r"
  shows "\<exists>s. reaches D start events s \<and> strip s = strip r"
  using run_light_from [OF assms(1) reaches_start assms(2,3)] by simp

section \<open>The first projection\<close>

lemma planned_strip: "strip p = strip q \<Longrightarrow> strip (planned_projection plan now p) = strip (planned_projection plan now q)"
  using strip_agree [of p q] by (simp add: planned_projection_def Let_def strip_updates)

lemma FromPlan_light:
  assumes "hashes D" and "ValidateResearchPlan plan = None"
    and "steps_error (pending_projection (pl_run_id plan) (pl_request_id plan) now) = None"
    and "steps_error (planned_projection plan now (pending_projection (pl_run_id plan) (pl_request_id plan) now)) = None"
  shows "\<exists>start. FromPlan D plan now = Inr start \<and>
    strip start = strip (planned_projection plan now (pending_projection (pl_run_id plan) (pl_request_id plan) now))"
proof -
  let ?pending = "pending_projection (pl_run_id plan) (pl_request_id plan) now"
  obtain p where p: "signAndValidate D (recalculate ?pending) = (p, None)" "strip p = strip ?pending"
    using signed_recalculated [OF assms(1,3)] by blast
  have "strip (planned_projection plan now p) = strip (planned_projection plan now ?pending)"
    by (rule planned_strip [OF p(2)])
  moreover then have "steps_error (planned_projection plan now p) = None" using steps_error_strip assms(4) by metis
  then obtain start where "signAndValidate D (recalculate (planned_projection plan now p)) = (start, None)"
    "strip start = strip (planned_projection plan now p)"
    using signed_recalculated [OF assms(1)] by blast
  ultimately show ?thesis using p(1) assms(2) by (simp add: FromPlan_def Pending_def wrap_err_def)
qed

end
