(* ===== verification/Exec_Samples.thy ===== *)
theory Exec_Samples
  imports Exec_Eval
begin

text \<open>
  A plan with one review gate and the synthesis, its events, and the projections they lead to,
  computed by evaluation.
\<close>

definition sample_digests :: digests where
  "sample_digests = \<lparr>dg_projection = \<lambda>_. Inr 0, dg_text = \<lambda>_. 0\<rparr>"

definition gate_step :: PlanStep where
  "gate_step = \<lparr>st_step_id = ''review-1'', st_kind = ''review'', st_wave = 0, st_objective = ''challenge'',
     st_role_id = ''evidence-critic/v1'', st_capability_ids = [], st_evidence_requirements = [], st_depends_on = [],
     st_mandatory = True, st_context_budget_tokens = 1, st_timeout_ms = 1\<rparr>"

definition gate_plan :: ResearchPlan where
  "gate_plan = \<lparr>pl_schema_version = SchemaVersionV1, pl_plan_id = ''plan-1'', pl_run_id = ''run-1'',
     pl_request_id = ''request-1'', pl_steps = [gate_step, gate_step\<lparr>st_step_id := ''synthesis-1'',
       st_kind := ''synthesis'', st_role_id := ''analyst/v1'', st_depends_on := [''review-1'']\<rparr>],
     pl_max_parallel_specialists = 1, pl_max_repair_passes = 0, pl_deadline_ms = 1,
     pl_completion_conditions = [], pl_abstention_conditions = []\<rparr>"

definition gate_event :: "int \<Rightarrow> string \<Rightarrow> string \<Rightarrow> string \<Rightarrow> ExecEvent" where
  "gate_event number stepID type status = \<lparr>xe_sequence = number, xe_step_id = stepID, xe_type = type, xe_status = status,
     xe_at = 9, xe_attributes = map_of [(''tool_execution_id'', ''execution-1'')]\<rparr>"

definition gate_approval :: ExecEvent where "gate_approval = gate_event 1 ''review-1'' ''review'' ''approve''"

definition gate_events :: "ExecEvent list" where
  "gate_events = [gate_approval, gate_event 2 ''synthesis-1'' ''run'' ''completed'', gate_event 3 [] ''workspace'' ''completed'']"

text \<open>A tool event whose step identifier is the one of the gate, with a blank before it.\<close>

definition blank_event :: ExecEvent where
  "blank_event = gate_event 1 '' review-1'' ''tool'' ''started''"

lemma sample_hashes: "hashes sample_digests"
  by (simp add: hashes_def sample_digests_def)

definition gate_light :: Projection where
  "gate_light = planned_projection gate_plan 5 (pending_projection ''run-1'' ''request-1'' 5)"

lemma gate_start: "\<exists>start. FromPlan sample_digests gate_plan 5 = Inr start \<and> strip start = strip gate_light"
proof -
  have ids: "pl_run_id gate_plan = ''run-1''" "pl_request_id gate_plan = ''request-1''" by (simp_all add: gate_plan_def)
  have "ValidateResearchPlan gate_plan = None" by code_simp
  moreover have "steps_error (pending_projection ''run-1'' ''request-1'' 5) = None" by code_simp
  moreover have "steps_error (planned_projection gate_plan 5 (pending_projection ''run-1'' ''request-1'' 5)) = None" by code_simp
  ultimately show ?thesis
    using FromPlan_light [OF sample_hashes, of gate_plan 5] by (simp add: gate_light_def ids)
qed

text \<open>The gate passes, the synthesis passes, and the workspace completes the run.\<close>

lemma gate_run:
  "map_option (\<lambda>p. (pj_status p, map xs_status (pj_steps p))) (run_light sample_digests gate_events gate_light) =
     Some (StatusPassed, [StatusPassed, StatusPassed, StatusPassed, StatusPassed])"
  by code_simp

text \<open>The event with the blank replaces the gate by a step of its own.\<close>

lemma gate_erased:
  "map_option (\<lambda>p. filter (\<lambda>step. xs_step_id step = ''review-1'' \<and> xs_mandatory step) (pj_steps p))
     (run_light sample_digests [blank_event] gate_light) = Some []"
  by code_simp

end
