(* ===== verification/Exec_Safety.thy ===== *)
theory Exec_Safety
  imports Exec_Samples
begin

text \<open>
  The guarantees of the execution plan for a whole run: projections stay well formed, events are
  delivered exactly once, a passed projection passed the mandatory steps of its plan, and steps
  that ended keep their status.
\<close>

section \<open>Well-formed projections\<close>

definition step_ok :: "Projection \<Rightarrow> ExecStep \<Rightarrow> bool" where
  "step_ok p step \<longleftrightarrow> safeID (xs_step_id step) \<and> validStatus (xs_status step) \<and>
     0 \<le> xs_attempt step \<and> xs_attempt step \<le> xs_max_attempts step \<and> xs_max_attempts step \<le> 2 \<and>
     0 \<le> xs_duration_ms step \<and> list_all safeID (xs_reference_ids step) \<and> length (xs_reference_ids step) \<le> 64 \<and>
     distinct (map ck_check_id (xs_checklist step)) \<and> length (xs_checklist step) \<le> 64 \<and>
     \<not> unsafeText (xs_safe_label step @ '' '' @ xs_safe_objective step @ '' '' @ xs_safe_summary step) \<and>
     set (xs_depends_on step) \<subseteq> xs_step_id ` set (pj_steps p)"

lemma check_checklist_distinct: "check_checklist items = None \<Longrightarrow> distinct (map ck_check_id items)"
  unfolding check_checklist_def
  by (subst (asm) scan_unique_None [where P = "\<lambda>item. check_item item = None" and Q = "\<lambda>item. check_item_text item = None"]) auto

lemma validateStructure_steps:
  assumes "validateStructure p = None"
  shows "distinct (map xs_step_id (pj_steps p))" and "2 \<le> length (pj_steps p)" and "length (pj_steps p) \<le> 24"
    and "\<And>step. step \<in> set (pj_steps p) \<Longrightarrow> step_ok p step"
    and "pj_total_steps p = int (length (pj_steps p))"
    and "pj_status p = StatusPassed \<Longrightarrow> fst (firstBlockingMandatoryStep (pj_steps p)) = []"
proof -
  let ?phases = "map ph_phase_id (pj_phases p)"
  have steps: "check_steps ?phases (pj_steps p) = None"
    and depends: "range_err (\<lambda>_. check_depends (map xs_step_id (pj_steps p))) (pj_steps p) = None"
    and size: "2 \<le> length (pj_steps p)" "length (pj_steps p) \<le> 24" "pj_total_steps p = int (length (pj_steps p))"
    and passed: "pj_status p = StatusPassed \<Longrightarrow> fst (firstBlockingMandatoryStep (pj_steps p)) = []"
    using assms by (auto simp: validateStructure_def split: prod.splits if_splits)
  have scan: "(\<forall>x \<in> set (pj_steps p). safeID (xs_step_id x) \<and> check_step_fields ?phases x = None) \<and>
      distinct (map xs_step_id (pj_steps p))"
    using steps unfolding check_steps_def
    by (subst (asm) scan_unique_None [where P = "\<lambda>x. safeID (xs_step_id x)" and Q = "\<lambda>x. check_step_fields ?phases x = None"]) auto
  have deps: "\<forall>x \<in> set (pj_steps p). set (xs_depends_on x) \<subseteq> xs_step_id ` set (pj_steps p)"
  proof -
    have "check_depends (map xs_step_id (pj_steps p)) x = None \<longleftrightarrow> set (xs_depends_on x) \<subseteq> xs_step_id ` set (pj_steps p)" for x
      unfolding check_depends_def
      by (subst range_err_None_uniform [where P = "\<lambda>d. d \<in> xs_step_id ` set (pj_steps p)"]) auto
    with depends show ?thesis
      by (subst (asm) range_err_None_uniform [where P = "\<lambda>x. set (xs_depends_on x) \<subseteq> xs_step_id ` set (pj_steps p)"]) auto
  qed
  show "distinct (map xs_step_id (pj_steps p))" using scan by simp
  show "2 \<le> length (pj_steps p)" "length (pj_steps p) \<le> 24" "pj_total_steps p = int (length (pj_steps p))" by (fact size)+
  show "pj_status p = StatusPassed \<Longrightarrow> fst (firstBlockingMandatoryStep (pj_steps p)) = []" by (fact passed)
  fix step assume step: "step \<in> set (pj_steps p)"
  with scan have fields: "safeID (xs_step_id step)" "check_step_fields ?phases step = None" by auto
  have references: "list_all safeID (xs_reference_ids step)"
  proof -
    have "range_err (\<lambda>_ referenceID. fail_if (\<not> safeID referenceID)
        (Errorf ''execution step %q has an invalid reference'' [FStr (xs_step_id step)])) (xs_reference_ids step) = None"
      using fields(2) by (simp add: check_step_fields_def)
    then show ?thesis by (subst (asm) range_err_None_uniform [where P = safeID]) (auto simp: list_all_iff)
  qed
  show "step_ok p step"
    using fields references deps step check_checklist_distinct [of "xs_checklist step"]
    unfolding step_ok_def check_step_fields_def by simp
qed

lemma ValidateProjection_structure: "ValidateProjection D p = None \<Longrightarrow> validateStructure p = None"
  by (simp add: ValidateProjection_def)

text \<open>
  C8: Every projection that a run reaches from the plan by accepted events is well formed: it is
  signed, its steps are between two and 24 with distinct safe identifiers, each within its attempts,
  with safe text and references, and depends only on steps of the projection.
\<close>

theorem projections_stay_well_formed:
  assumes "FromPlan D plan now = Inr start" and "reaches D start events p"
  shows "ValidateProjection D p = None \<and> distinct (map xs_step_id (pj_steps p)) \<and>
    2 \<le> length (pj_steps p) \<and> length (pj_steps p) \<le> 24 \<and> list_all (step_ok p) (pj_steps p)"
proof -
  have valid: "ValidateProjection D p = None"
    using reaches_valid [OF assms(2)] FromPlan_valid [OF assms(1)] by blast
  from validateStructure_steps [OF ValidateProjection_structure [OF valid]] valid show ?thesis
    by (simp add: list_all_iff)
qed

lemma gate_end:
  obtains start p where "FromPlan sample_digests gate_plan 5 = Inr start" "reaches sample_digests start gate_events p"
    "pj_status p = StatusPassed" "map xs_status (pj_steps p) = [StatusPassed, StatusPassed, StatusPassed, StatusPassed]"
proof -
  obtain start where start: "FromPlan sample_digests gate_plan 5 = Inr start" "strip start = strip gate_light"
    using gate_start by blast
  from gate_run obtain r where r: "run_light sample_digests gate_events gate_light = Some r"
    "pj_status r = StatusPassed" "map xs_status (pj_steps r) = [StatusPassed, StatusPassed, StatusPassed, StatusPassed]"
    by auto
  from run_light_reaches [OF sample_hashes start(2) r(1)] obtain p where
    "reaches sample_digests start gate_events p" "strip p = strip r" by blast
  with strip_agree [of p r] r(2,3) start(1) that show thesis by simp
qed

theorem projections_stay_well_formed_witness:
  "\<exists>start p. FromPlan sample_digests gate_plan 5 = Inr start \<and> reaches sample_digests start gate_events p \<and>
     list_all (step_ok p) (pj_steps p)"
proof -
  obtain start p where "FromPlan sample_digests gate_plan 5 = Inr start" "reaches sample_digests start gate_events p"
    using gate_end by metis
  with projections_stay_well_formed [of sample_digests gate_plan 5 start gate_events p] show ?thesis by blast
qed

section \<open>Exactly once\<close>

lemma reaches_numbers:
  assumes "reaches D p events q"
  shows "{n. \<exists>event \<in> set events. xe_sequence event = n \<and> pj_last_sequence p < n} = {pj_last_sequence p + 1 .. pj_last_sequence q}"
  using assms
proof (induction rule: reaches.induct)
  case (reaches_event events q event r)
  let ?fresh = "\<lambda>events. {n. \<exists>event \<in> set events. xe_sequence event = n \<and> pj_last_sequence p < n}"
  have le: "pj_last_sequence p \<le> pj_last_sequence q" using reaches_sequence [OF reaches_event.hyps(1)] by simp
  have fresh: "?fresh (events @ [event]) =
      ?fresh events \<union> (if pj_last_sequence p < xe_sequence event then {xe_sequence event} else {})" by auto
  have "xe_sequence event \<le> pj_last_sequence q \<and> pj_last_sequence r = pj_last_sequence q \<or>
      xe_sequence event = pj_last_sequence q + 1 \<and> pj_last_sequence r = xe_sequence event"
    using Apply_cases [of D event q] Apply_sequence [OF reaches_event.hyps(2)] reaches_event.hyps(2)
    by (metis max.absorb1 max.absorb2 option.distinct(1) prod.inject zle_add1_eq_le zless_add1_eq)
  with le show ?case unfolding fresh reaches_event.IH by (elim disjE conjE) auto
qed auto

text \<open>
  C10: Events take effect exactly once and in order, however often they are delivered: the fresh
  sequence numbers of an accepted delivery are exactly those from the start to the end without a
  gap; each delivered event, delivered again, is accepted and returns the very same projection; and
  so does any sequence of them, in any order and any number of times.
\<close>

theorem events_apply_exactly_once:
  assumes "reaches D p delivered q"
  shows "{n. \<exists>event \<in> set delivered. xe_sequence event = n \<and> pj_last_sequence p < n} = {pj_last_sequence p + 1 .. pj_last_sequence q} \<and>
    (\<forall>event \<in> set delivered. Apply D event q = (q, None)) \<and>
    (set replays \<subseteq> set delivered \<longrightarrow> (reaches D q replays r \<longleftrightarrow> r = q))"
proof (intro conjI impI ballI)
  show "{n. \<exists>event \<in> set delivered. xe_sequence event = n \<and> pj_last_sequence p < n} = {pj_last_sequence p + 1 .. pj_last_sequence q}"
    by (rule reaches_numbers [OF assms])
  have seen: "xe_sequence event \<le> pj_last_sequence q" if "event \<in> set delivered" for event
    using that reaches_sequence [OF assms] by auto
  then show "Apply D event q = (q, None)" if "event \<in> set delivered" for event
    using that by (simp add: Apply_replayed)
  show "reaches D q replays r \<longleftrightarrow> r = q" if "set replays \<subseteq> set delivered"
    using that seen by (intro replays_reach_the_same) auto
qed

theorem events_apply_exactly_once_witness:
  "\<exists>start p. FromPlan sample_digests gate_plan 5 = Inr start \<and> reaches sample_digests start gate_events p \<and>
     {n. \<exists>event \<in> set gate_events. xe_sequence event = n \<and> pj_last_sequence start < n} =
       {pj_last_sequence start + 1 .. pj_last_sequence p} \<and>
     Apply sample_digests gate_approval p = (p, None) \<and> reaches sample_digests p [gate_approval, gate_approval] p"
proof -
  obtain start p where run: "FromPlan sample_digests gate_plan 5 = Inr start" "reaches sample_digests start gate_events p"
    using gate_end by metis
  have approval: "gate_approval \<in> set gate_events" "set [gate_approval, gate_approval] \<subseteq> set gate_events"
    by (simp_all add: gate_events_def)
  from events_apply_exactly_once [OF run(2), of "[gate_approval, gate_approval]" p] run approval show ?thesis by blast
qed

section \<open>Gates and final statuses\<close>

lemma FromPlan_steps:
  assumes "FromPlan D plan now = Inr start" and "st \<in> set (pl_steps plan)"
  shows "projectPlanStep st \<in> set (pj_steps start)"
proof -
  obtain pending where "signAndValidate D (recalculate (planned_projection plan now pending)) = (start, None)"
    using assms(1) by (rule FromPlan_Inr)
  then have "pj_steps start = pj_steps (planned_projection plan now pending)"
    using signed_steps(1) [of D "recalculate (planned_projection plan now pending)"] by simp
  with assms(2) show ?thesis by (simp add: planned_projection_def Let_def)
qed

lemma passed_mandatory:
  assumes "validateStructure p = None" and "pj_status p = StatusPassed" and "step \<in> set (pj_steps p)" and "xs_mandatory step"
  shows "xs_status step = StatusPassed \<or> xs_status step = StatusDegraded"
proof (rule ccontr)
  assume "\<not> ?thesis"
  then obtain other where other: "find (\<lambda>step. xs_mandatory step \<and> xs_status step \<noteq> StatusPassed \<and>
      xs_status step \<noteq> StatusDegraded) (pj_steps p) = Some other"
    using assms(3,4) by (cases "find (\<lambda>step. xs_mandatory step \<and> xs_status step \<noteq> StatusPassed \<and>
      xs_status step \<noteq> StatusDegraded) (pj_steps p)") (auto simp: find_None_iff)
  then have "other \<in> set (pj_steps p)" by (auto simp: find_Some_iff)
  then have "safeID (xs_step_id other)" using validateStructure_steps(4) [OF assms(1)] by (simp add: step_ok_def)
  then have "xs_step_id other \<noteq> []" by (auto simp: safeID_def)
  moreover have "xs_step_id other = []"
    using validateStructure_steps(6) [OF assms(1,2)] other by (simp add: firstBlockingMandatoryStep_def)
  ultimately show False by simp
qed

text \<open>
  C7: A projection only passes with the gates of its plan: after any accepted events of which no
  tool event has blanks around its step identifier, a projection with status passed still has every
  mandatory step of the plan whose identifier is not one of the two the program reserves for its own
  steps (memory-retention and deterministic-tools), with its role, kind and dependencies, and that
  step passed or was degraded.
\<close>

theorem passed_projection_kept_its_gates:
  assumes "FromPlan D plan now = Inr start" and "reaches D start events p" and "list_all trimmed events"
    and "pj_status p = StatusPassed"
    and "st \<in> set (pl_steps plan)" and "st_mandatory st" and "st_step_id st \<notin> set reserved_ids"
  shows "\<exists>step \<in> set (pj_steps p). xs_step_id step = st_step_id st \<and> xs_role_id step = st_role_id st \<and>
    xs_kind step = st_kind st \<and> xs_depends_on step = st_depends_on st \<and> xs_mandatory step \<and>
    (xs_status step = StatusPassed \<or> xs_status step = StatusDegraded)"
proof -
  have x: "projectPlanStep st \<in> set (pj_steps start)" by (rule FromPlan_steps [OF assms(1,5)])
  have fields: "xs_step_id (projectPlanStep st) = st_step_id st" "xs_role_id (projectPlanStep st) = st_role_id st"
    "xs_kind (projectPlanStep st) = st_kind st" "xs_depends_on (projectPlanStep st) = st_depends_on st"
    "xs_mandatory (projectPlanStep st) = st_mandatory st"
    by (simp_all add: projectPlanStep_def step_shape_def)
  from reaches_keeps [OF assms(2,3)] x assms(7) obtain step where step: "step \<in> set (pj_steps p)"
    "kept_step (projectPlanStep st) step"
    by (auto simp: keeps_def fields)
  then have same: "core step = core (projectPlanStep st)" by (simp add: kept_step_def)
  have valid: "validateStructure p = None"
    using reaches_valid [OF assms(2) FromPlan_valid [OF assms(1)]] by (rule ValidateProjection_structure)
  have "xs_mandatory step" using same assms(6) by (simp add: core_eq_fields fields)
  with passed_mandatory [OF valid assms(4) step(1)] same step(1) show ?thesis
    by (intro bexI [of _ step]) (simp_all add: core_eq_fields fields)
qed

lemma gate_events_trimmed: "list_all trimmed gate_events" "gate_step \<in> set (pl_steps gate_plan)" "st_mandatory gate_step"
    "st_step_id gate_step \<notin> set reserved_ids"
  by code_simp+

theorem passed_projection_kept_its_gates_witness:
  "\<exists>start p step. FromPlan sample_digests gate_plan 5 = Inr start \<and> reaches sample_digests start gate_events p \<and>
     pj_status p = StatusPassed \<and> step \<in> set (pj_steps p) \<and> xs_step_id step = ''review-1'' \<and> xs_mandatory step"
proof -
  obtain start p where run: "FromPlan sample_digests gate_plan 5 = Inr start" "reaches sample_digests start gate_events p"
    "pj_status p = StatusPassed"
    using gate_end by metis
  from passed_projection_kept_its_gates [OF run(1,2) gate_events_trimmed(1) run(3) gate_events_trimmed(2-4)] run
  show ?thesis unfolding Bex_def by (auto simp: gate_step_def)
qed

text \<open>
  C11: The outcome of a step is final: a step that ended, of another kind than tool and with another
  identifier than the reserved memory-retention and deterministic-tools, has the same role and status
  after any further accepted events of which no tool event has blanks around its step identifier.
\<close>

theorem ended_steps_are_final:
  assumes "reaches D p events q" and "list_all trimmed events"
    and "step \<in> set (pj_steps p)" and "terminal (xs_status step)"
    and "xs_kind step \<noteq> ''tool''" and "xs_step_id step \<notin> set reserved_ids"
  shows "\<exists>later \<in> set (pj_steps q). xs_step_id later = xs_step_id step \<and> xs_role_id later = xs_role_id step \<and>
    xs_status later = xs_status step"
  using reaches_keeps [OF assms(1,2)] assms(3-6) by (auto simp: keeps_def kept_step_def core_eq_fields)

theorem ended_steps_are_final_witness:
  "\<exists>start p later. FromPlan sample_digests gate_plan 5 = Inr start \<and> reaches sample_digests start gate_events p \<and>
     later \<in> set (pj_steps p) \<and> xs_step_id later = ''interpret-request'' \<and> xs_status later = StatusPassed"
proof -
  obtain start p where run: "FromPlan sample_digests gate_plan 5 = Inr start" "reaches sample_digests start gate_events p"
    using gate_end by metis
  let ?first = "accepted_request_step 5 (interpret_step 5)"
  have first: "terminal (xs_status ?first)" "xs_kind ?first \<noteq> ''tool''" "xs_step_id ?first \<notin> set reserved_ids"
    "xs_step_id ?first = ''interpret-request''" "xs_status ?first = StatusPassed"
    by code_simp+
  have "pj_steps start = pj_steps gate_light" using gate_start run(1) strip_agree by (metis Inr_inject)
  then have "?first \<in> set (pj_steps start)"
    by (simp add: gate_light_def planned_projection_def pending_projection_def Let_def)
  from ended_steps_are_final [OF run(2) gate_events_trimmed(1) this first(1-3)] run first(4,5) show ?thesis
    by auto
qed

text \<open>
  C12: The blanks matter: from the plan with one mandatory review gate, a tool event for the gate's
  identifier with a blank before it is accepted, and the projection it leads to is valid, but
  has no mandatory gate with that identifier any more.
\<close>

theorem gate_can_be_erased:
  "\<exists>start p. FromPlan sample_digests gate_plan 5 = Inr start \<and>
     list_ex (\<lambda>step. xs_step_id step = ''review-1'' \<and> xs_mandatory step) (pj_steps start) \<and>
     Apply sample_digests blank_event start = (p, None) \<and> ValidateProjection sample_digests p = None \<and>
     \<not> list_ex (\<lambda>step. xs_step_id step = ''review-1'' \<and> xs_mandatory step) (pj_steps p)"
proof -
  obtain start where start: "FromPlan sample_digests gate_plan 5 = Inr start" "strip start = strip gate_light"
    using gate_start by blast
  from gate_erased obtain r where r: "run_light sample_digests [blank_event] gate_light = Some r"
    "filter (\<lambda>step. xs_step_id step = ''review-1'' \<and> xs_mandatory step) (pj_steps r) = []"
    by auto
  from run_light_reaches [OF sample_hashes start(2) r(1)] obtain p where
    p: "reaches sample_digests start [blank_event] p" "strip p = strip r" by blast
  from p(1) obtain q where "reaches sample_digests start [] q" "Apply sample_digests blank_event q = (p, None)"
    using reaches_snocE [of _ _ "[]" blank_event p] by auto
  then have accepted: "Apply sample_digests blank_event start = (p, None)"
    by (auto elim: reaches.cases)
  have "projectPlanStep gate_step \<in> set (pj_steps start)"
    by (rule FromPlan_steps [OF start(1)]) (simp add: gate_plan_def)
  then have "list_ex (\<lambda>step. xs_step_id step = ''review-1'' \<and> xs_mandatory step) (pj_steps start)"
    by (auto simp: list_ex_iff gate_step_def projectPlanStep_def step_shape_def intro!: bexI)
  with start accepted reaches_valid [OF p(1) FromPlan_valid [OF start(1)]] strip_agree [OF p(2)] r(2) show ?thesis
    by (auto simp: list_ex_iff filter_empty_conv)
qed

end
