(* ===== verification/Exec_Failure.thy ===== *)
theory Exec_Failure
  imports Exec_Safety
begin

text \<open>
  Failing closed: a valid projection can always be marked as failed or cancelled. The text of a step
  stays safe when its summary is replaced by one of the fixed summaries of a stopped step, although
  the validation looks at label, objective and summary together.
\<close>

section \<open>Replacing what follows a blank\<close>

lemma fold_case_blank: "fold_case (s @ CHR '' '' # t) = fold_case s @ CHR '' '' # fold_case t"
proof (induction s rule: fold_case.induct)
  case 1
  show ?case by (simp add: starts_with_code less_eq_char_def)
next
  case (2 c s)
  consider (long_s) r where "s = CHR 0xBF # r" "c = CHR 0xC5"
    | (kelvin) r where "s = CHR 0x84 # CHR 0xAA # r" "c = CHR 0xE2"
    | (plain) "\<not> starts_with (c # s) [CHR 0xC5, CHR 0xBF]" "\<not> starts_with (c # s) [CHR 0xE2, CHR 0x84, CHR 0xAA]"
    by (auto simp: starts_with_iff)
  then show ?case
  proof cases
    case long_s
    with 2(1) show ?thesis by (simp add: starts_with_code)
  next
    case kelvin
    with 2(2) show ?thesis by (simp add: starts_with_code)
  next
    case plain
    then have "\<not> starts_with (c # s @ CHR '' '' # t) [CHR 0xC5, CHR 0xBF]"
      "\<not> starts_with (c # s @ CHR '' '' # t) [CHR 0xE2, CHR 0x84, CHR 0xAA]"
      by (cases s; cases "tl s"; simp add: starts_with_code)+
    with plain 2(3,4) show ?thesis by simp
  qed
qed

text \<open>A text straddles a blank before it if an alternative has an inner blank and goes on with it.\<close>

definition straddles :: "string \<Rightarrow> bool" where
  "straddles v = list_ex (\<lambda>p. list_ex (\<lambda>k. p ! k = CHR '' '' \<and> starts_with v (drop (Suc k) p)) [0..<length p - 1]) unsafe_patterns"

lemma str_contains_append:
  assumes "str_contains (a @ b) p"
  shows "str_contains a p \<or> str_contains b p \<or> (\<exists>x y r s. p = x @ y \<and> x \<noteq> [] \<and> y \<noteq> [] \<and> a = r @ x \<and> b = y @ s)"
proof -
  from assms obtain l r where "a @ b = l @ p @ r" by (auto simp: str_contains_iff)
  then consider (right) l' where "l = a @ l'" "b = l' @ p @ r" | (left) a' where "a = l @ a'" "a' @ b = p @ r"
    by (auto simp: append_eq_append_conv2)
  then show ?thesis
  proof cases
    case right
    then show ?thesis by (auto simp: str_contains_iff)
  next
    case left
    then consider (inside) u where "a' = p @ u" | (across) u where "p = a' @ u" "b = u @ r"
      by (auto simp: append_eq_append_conv2)
    then show ?thesis
    proof cases
      case inside
      with left show ?thesis by (auto simp: str_contains_iff)
    next
      case across
      show ?thesis
      proof (cases "a' = [] \<or> u = []")
        case True
        with across left(1) show ?thesis
          by (auto simp: str_contains_iff) (metis append.right_neutral append_Nil)+
      next
        case False
        with across left(1) show ?thesis by metis
      qed
    qed
  qed
qed

lemma straddles_iff:
  assumes "p \<in> set unsafe_patterns" and "p = x @ CHR '' '' # y" and "y \<noteq> []" and "starts_with v y"
  shows "straddles v"
proof -
  have "length x < length p - 1" using assms(2,3) by (cases y) simp_all
  moreover have "p ! length x = CHR '' ''" "drop (Suc (length x)) p = y" using assms(2) by simp_all
  ultimately show ?thesis
    using assms(1,4) unfolding straddles_def list_ex_iff by (metis atLeastLessThan_iff bot_nat_0.extremum set_upt)
qed

lemma unsafeText_iff: "unsafeText t \<longleftrightarrow> (\<exists>p \<in> set unsafe_patterns. str_contains (fold_case t) p)"
  by (simp add: unsafeText_def Let_def list_ex_iff)

lemma safe_after_blank:
  assumes "\<not> unsafeText (s @ CHR '' '' # old)" and "\<not> unsafeText new" and "\<not> straddles (fold_case new)"
  shows "\<not> unsafeText (s @ CHR '' '' # new)"
proof
  let ?u = "fold_case s @ '' ''" and ?v = "fold_case new"
  assume "unsafeText (s @ CHR '' '' # new)"
  then obtain p where p: "p \<in> set unsafe_patterns" "str_contains (?u @ ?v) p"
    unfolding unsafeText_iff fold_case_blank by auto
  have "\<not> str_contains ?u p"
  proof
    assume "str_contains ?u p"
    then obtain l r where "?u = l @ p @ r" unfolding str_contains_iff by blast
    then have "fold_case (s @ CHR '' '' # old) = l @ p @ (r @ fold_case old)"
      unfolding fold_case_blank by (metis append.assoc append_Cons append_Nil)
    then have "str_contains (fold_case (s @ CHR '' '' # old)) p" unfolding str_contains_iff by blast
    with p(1) assms(1) show False unfolding unsafeText_iff by blast
  qed
  moreover have "\<not> str_contains ?v p" using p(1) assms(2) unfolding unsafeText_iff by blast
  ultimately obtain x y r t where xy: "p = x @ y" "x \<noteq> []" "y \<noteq> []" "?u = r @ x" "?v = y @ t"
    using str_contains_append [OF p(2)] by blast
  then obtain z where "x = z @ '' ''" by (metis append_butlast_last_id last_appendR last_snoc)
  with xy have "p = z @ CHR '' '' # y" "starts_with ?v y" by (auto simp: starts_with_iff)
  with straddles_iff [OF p(1) _ xy(3)] assms(3) show False by blast
qed

section \<open>Marking a projection as failed\<close>

lemma stopped_texts:
  "list_all (\<lambda>t. t \<noteq> [] \<and> \<not> unsafeText t \<and> \<not> straddles (fold_case t))
     [''The step stopped safely.'', ''The step was not executed after the run stopped.'']"
  by code_simp

lemma go_div_nonneg: "0 \<le> a \<Longrightarrow> 0 \<le> b \<Longrightarrow> 0 \<le> go_div a b"
  by (cases "a = 0"; cases "b = 0") (simp_all add: go_div_def pos_imp_zdiv_nonneg_iff)

lemma durationMS_nonneg: "0 \<le> durationMS s e"
  by (auto simp: durationMS_def time_sub_def max_int64_def min_int64_def intro!: go_div_nonneg)

lemma stopped_text_safe:
  assumes "\<not> unsafeText (label @ '' '' @ objective @ '' '' @ old)" and "list_all (\<lambda>t. t \<noteq> [] \<and> \<not> unsafeText t \<and> \<not> straddles (fold_case t)) texts"
  shows "list_all (\<lambda>t. \<not> unsafeText (label @ '' '' @ objective @ '' '' @ t)) texts"
  unfolding list_all_iff
proof (intro ballI)
  fix t assume "t \<in> set texts"
  with assms(2) have "\<not> unsafeText t" "\<not> straddles (fold_case t)" by (auto simp only: list_all_iff)
  then show "\<not> unsafeText (label @ '' '' @ objective @ '' '' @ t)"
    using safe_after_blank [of "label @ '' '' @ objective" old t] assms(1) by simp
qed

lemma fail_step_check:
  assumes "check_step_fields ids step = None"
  shows "check_step_fields ids (fail_step code now cancelled step) = None"
proof -
  have "\<not> unsafeText (xs_safe_label step @ '' '' @ xs_safe_objective step @ '' '' @ xs_safe_summary step)"
    using assms by (simp add: check_step_fields_def)
  from stopped_text_safe [OF this stopped_texts]
  have "\<not> unsafeText (xs_safe_label step @ '' '' @ xs_safe_objective step @ '' '' @ ''The step stopped safely.'')"
    "\<not> unsafeText (xs_safe_label step @ '' '' @ xs_safe_objective step @ '' '' @ ''The step was not executed after the run stopped.'')"
    by (simp_all only: list.pred_inject simp_thms)
  with assms show ?thesis
    by (simp add: check_step_fields_def fail_step_def end_step_def not_less durationMS_nonneg)
qed

lemma fail_step_same:
  "xs_step_id (fail_step code now cancelled step) = xs_step_id step"
  "xs_depends_on (fail_step code now cancelled step) = xs_depends_on step"
  using core_handlers(10) [of code now cancelled step] by (simp_all add: core_eq_fields)

lemma fail_step_ids:
  "map xs_step_id (map (fail_step code now cancelled) steps) = map xs_step_id steps"
  by (simp add: fail_step_same)

lemma check_steps_iff:
  "check_steps ids steps = None \<longleftrightarrow>
     (\<forall>x \<in> set steps. safeID (xs_step_id x) \<and> check_step_fields ids x = None) \<and> distinct (map xs_step_id steps)"
  unfolding check_steps_def
  by (rule scan_unique_None [where P = "\<lambda>x. safeID (xs_step_id x)" and Q = "\<lambda>x. check_step_fields ids x = None"]) simp_all

lemma fail_steps_check:
  assumes "check_steps ids steps = None"
  shows "check_steps ids (map (fail_step code now cancelled) steps) = None"
  using assms fail_step_check unfolding check_steps_iff fail_step_ids by (auto simp: fail_step_same)

lemma fail_step_terminal: "validStatus (xs_status step) \<Longrightarrow> terminal (xs_status (fail_step code now cancelled step))"
  by (cases "xs_status step") (simp_all add: fail_step_def end_step_def)

lemma check_depends_iff:
  "check_depends ids step = None \<longleftrightarrow> set (xs_depends_on step) \<subseteq> set ids"
  unfolding check_depends_def
  by (subst range_err_None_uniform [where P = "\<lambda>d. d \<in> set ids"]) auto

lemma check_all_depends_iff:
  "range_err (\<lambda>_. check_depends ids) steps = None \<longleftrightarrow> (\<forall>step \<in> set steps. set (xs_depends_on step) \<subseteq> set ids)"
  by (subst range_err_None_uniform [where P = "\<lambda>step. set (xs_depends_on step) \<subseteq> set ids"]) (simp_all add: check_depends_iff)

section \<open>The phases of a valid projection\<close>

lemma scan_from_pre:
  "scan_from pre key dup post i seen xs = None \<Longrightarrow> k < length xs \<Longrightarrow> pre (i + k) (xs ! k) = None"
proof (induction xs arbitrary: i seen k)
  case (Cons x xs)
  from Cons.prems(1) have "pre i x = None" "scan_from pre key dup post (Suc i) (key x # seen) xs = None"
    by (auto split: option.splits if_splits)
  with Cons.prems(2) Cons.IH [of "Suc i" "key x # seen" "k - 1"] show ?case by (cases k) simp_all
qed simp

lemma valid_phase_ids:
  assumes "validateStructure p = None"
  shows "map ph_phase_id (pj_phases p) = map ph_phase_id canonicalPhases"
proof (rule nth_equalityI)
  have size: "length (pj_phases p) = length canonicalPhases"
    and phases: "scan_unique check_phase ph_phase_id
        (\<lambda>_ phase. Errorf ''execution phase %q is duplicated'' [FStr (ph_phase_id phase)]) no_check (pj_phases p) = None"
    using assms by (simp_all add: validateStructure_def)
  then show "length (map ph_phase_id (pj_phases p)) = length (map ph_phase_id canonicalPhases)" by simp
  fix k assume "k < length (map ph_phase_id (pj_phases p))"
  then have k: "k < length (pj_phases p)" by simp
  have "check_phase k (pj_phases p ! k) = None"
    using scan_from_pre [OF phases [unfolded scan_unique_def] k] by simp
  with k size show "map ph_phase_id (pj_phases p) ! k = map ph_phase_id canonicalPhases ! k"
    by (simp add: check_phase_def Let_def)
qed

lemma valid_steps_error:
  assumes "validateStructure p = None"
  shows "steps_error p = None"
  using assms by (simp add: steps_error_def validateStructure_def valid_phase_ids [OF assms, symmetric])

definition stopped :: "string \<Rightarrow> gotime \<Rightarrow> bool \<Rightarrow> Projection \<Rightarrow> Projection" where
  "stopped code now cancelled p = p\<lparr>pj_status := (if cancelled then StatusCancelled else StatusFailed),
     pj_completed_at := now, pj_steps := map (fail_step code now cancelled) (pj_steps p)\<rparr>"

lemma stopped_steps_error:
  assumes "steps_error p = None"
  shows "steps_error (stopped code now cancelled p) = None"
  using assms fail_steps_check [of _ "pj_steps p" code now cancelled]
  unfolding steps_error_def stopped_def
  by (simp add: check_all_depends_iff fail_step_same o_def)

text \<open>
  C9: A run can always be stopped: whatever the failure code, marking a valid projection as failed
  or cancelled succeeds as long as it can be hashed, and leaves a valid projection in which every
  step has ended and keeps its identity, role and dependencies.
\<close>

theorem runs_can_always_be_stopped:
  assumes "ValidateProjection D p = None" and "hashes D"
  shows "\<exists>q. MarkFailed D code now cancelled p = (q, None) \<and> ValidateProjection D q = None \<and>
    list_all (\<lambda>step. terminal (xs_status step)) (pj_steps q) \<and>
    map core (pj_steps q) = map core (pj_steps p) \<and>
    pj_status q = (if cancelled then StatusCancelled else StatusFailed)"
proof -
  have valid: "validateStructure p = None" using assms(1) by (rule ValidateProjection_structure)
  from signed_recalculated [OF assms(2) stopped_steps_error [OF valid_steps_error [OF valid]]]
  obtain q where q: "signAndValidate D (recalculate (stopped code now cancelled p)) = (q, None)"
    "strip q = strip (stopped code now cancelled p)" by blast
  have steps: "pj_steps q = map (fail_step code now cancelled) (pj_steps p)"
    "pj_status q = (if cancelled then StatusCancelled else StatusFailed)"
    using strip_agree [OF q(2)] by (simp_all add: stopped_def)
  have "list_all (\<lambda>step. terminal (xs_status step)) (pj_steps q)"
    using validateStructure_steps(4) [OF valid] by (auto simp: steps list_all_iff step_ok_def fail_step_terminal)
  moreover have "MarkFailed D code now cancelled p = (q, None)"
    using q(1) by (simp add: MarkFailed_def stopped_def)
  ultimately show ?thesis using signed(1) [OF q(1)] by (simp add: steps core_handlers(10))
qed

theorem runs_can_always_be_stopped_witness:
  "\<exists>start q. FromPlan sample_digests gate_plan 5 = Inr start \<and> MarkFailed sample_digests ''timeout'' 9 False start = (q, None) \<and>
     pj_status q = StatusFailed"
proof -
  obtain start where start: "FromPlan sample_digests gate_plan 5 = Inr start" using gate_start by blast
  from runs_can_always_be_stopped [OF FromPlan_valid [OF start] sample_hashes, of "''timeout''" 9 False] start
  show ?thesis by auto
qed

end
