(* ===== verification/Evidence_Fabric.thy ===== *)
theory Evidence_Fabric
  imports Exec_Text Go_Lists Activation_Data
begin

text \<open>
  The contracts of \<open>internal/evidencefabric/contracts.go\<close>: retrieval profiles, public sources,
  evidence records, requests, graph paths and traces of hypothetical documents, with their
  validators. What the code takes from other libraries is a parameter: parsed URLs (scheme and
  host, or an error), SHA-256, the natural logarithm and the tables of Unicode.
\<close>

section \<open>Names\<close>

abbreviation FabricSchema :: string where "FabricSchema \<equiv> ''signalforge/evidence-fabric/v1''"

abbreviation AuthorityA0 :: string where "AuthorityA0 \<equiv> ''A0''"
abbreviation AuthorityA1 :: string where "AuthorityA1 \<equiv> ''A1''"
abbreviation AuthorityA2 :: string where "AuthorityA2 \<equiv> ''A2''"
abbreviation AuthorityA3 :: string where "AuthorityA3 \<equiv> ''A3''"
abbreviation AuthorityA4 :: string where "AuthorityA4 \<equiv> ''A4''"
abbreviation AuthorityA5 :: string where "AuthorityA5 \<equiv> ''A5''"

abbreviation RightsPublicDataReviewed :: string where "RightsPublicDataReviewed \<equiv> ''public_data_reuse_reviewed''"
abbreviation RightsPublicAPITerms :: string where "RightsPublicAPITerms \<equiv> ''public_api_terms_bound''"
abbreviation RightsPublicAuthorial :: string where "RightsPublicAuthorial \<equiv> ''public_web_authorial_only''"
abbreviation RightsPublicMetadata :: string where "RightsPublicMetadata \<equiv> ''public_metadata_only''"
abbreviation RightsRestricted :: string where "RightsRestricted \<equiv> ''restricted_reference''"
abbreviation RightsQuarantined :: string where "RightsQuarantined \<equiv> ''quarantined''"

abbreviation RetrievalNone :: string where "RetrievalNone \<equiv> ''none''"
abbreviation RetrievalLexical :: string where "RetrievalLexical \<equiv> ''lexical''"
abbreviation RetrievalHybrid :: string where "RetrievalHybrid \<equiv> ''hybrid_candidate''"
abbreviation RetrievalResolution :: string where "RetrievalResolution \<equiv> ''resolution_only''"

abbreviation HyDENone :: string where "HyDENone \<equiv> ''none''"
abbreviation HyDEConditional :: string where "HyDEConditional \<equiv> ''conditional_candidate_only''"

section \<open>Records\<close>

record RetrievalProfile =
  rfp_schema_version :: string
  rfp_profile_id :: string
  rfp_role_id :: string
  rfp_version :: string
  rfp_mode :: string
  rfp_allowed_authorities :: "string list"
  rfp_allowed_rights :: "string list"
  rfp_allowed_source_kinds :: "string list"
  rfp_claim_classes :: "string list"
  rfp_tool_allowlist :: "string list"
  rfp_company_required :: bool
  rfp_as_of_required :: bool
  rfp_hyde :: string
  rfp_candidate_budget :: int
  rfp_context_token_budget :: int

record PublicSource =
  psr_schema_version :: string
  psr_source_id :: string
  psr_name :: string
  psr_publisher :: string
  psr_base_url :: string
  psr_access_class :: string
  psr_authority :: string
  psr_rights :: string
  psr_source_kinds :: "string list"
  psr_primary_roles :: "string list"
  psr_temporal_rule :: string
  psr_storage_rule :: string
  psr_rate_limit_rule :: string

record EvidenceRecord =
  evr_schema_version :: string
  evr_evidence_id :: string
  evr_source_id :: string
  evr_source_kind :: string
  evr_company_id :: string
  evr_security_id :: string
  evr_authority :: string
  evr_rights :: string
  evr_published_at :: gotime
  evr_available_at :: gotime
  evr_valid_from :: "gotime option"
  evr_valid_to :: "gotime option"
  evr_lifecycle :: string
  evr_locator :: string
  evr_content_hash :: string
  evr_text :: string

record FabricRequest =
  frq_schema_version :: string
  frq_request_id :: string
  frq_run_id :: string
  frq_role_id :: string
  frq_query :: string
  frq_company_ids :: "string list"
  frq_as_of :: gotime
  frq_claim_classes :: "string list"
  frq_max_candidates :: int

record EvidenceCandidate =
  can_evidence_id :: string
  can_score :: rat
  can_rank :: int

record FabricBundle =
  fbu_schema_version :: string
  fbu_bundle_id :: string
  fbu_request_id :: string
  fbu_run_id :: string
  fbu_role_id :: string
  fbu_as_of :: gotime
  fbu_candidates :: "EvidenceCandidate list"
  fbu_missing :: "string list"
  fbu_warnings :: "string list"
  fbu_degraded :: bool

record GraphNode =
  gno_node_id :: string
  gno_entity_type :: string

record GraphEdge =
  ged_edge_id :: string
  ged_from_node_id :: string
  ged_to_node_id :: string
  ged_relation :: string
  ged_evidence_ids :: "string list"
  ged_valid_from :: "gotime option"
  ged_valid_to :: "gotime option"
  ged_confidence :: string

record GraphPath =
  gpa_schema_version :: string
  gpa_path_id :: string
  gpa_role_id :: string
  gpa_as_of :: gotime
  gpa_nodes :: "GraphNode list"
  gpa_edges :: "GraphEdge list"

record HyDETrace =
  hyd_schema_version :: string
  hyd_trace_id :: string
  hyd_role_id :: string
  hyd_original_query_sha256 :: string
  hyd_hypothesis_sha256 :: string
  hyd_used_for_candidate_generation :: bool
  hyd_discarded_before_compilation :: bool
  hyd_evidence_authority :: bool

text \<open>
  The tables of Unicode are given by the encoding of a rune that is not ASCII: its lower case, and
  whether it is a letter or a digit.
\<close>

record fabric_library =
  lib_url :: "string \<Rightarrow> (string \<times> string) option"
  lib_sha256 :: "string \<Rightarrow> 256 word"
  lib_log :: "rat \<Rightarrow> rat"
  lib_lower_rune :: "string \<Rightarrow> string"
  lib_word_rune :: "string \<Rightarrow> bool"

section \<open>Helpers\<close>

definition fabricSafeID :: "string \<Rightarrow> bool" where
  "fabricSafeID value \<longleftrightarrow> value \<noteq> [] \<and> length value \<le> 160 \<and> list_all (\<lambda>c. alnum c \<or> c \<in> set ''-._/:'') value"

text \<open>The comparison of strings, as the code has it, not a membership in the six classes.\<close>

definition validAuthority :: "string \<Rightarrow> bool" where
  "validAuthority value \<longleftrightarrow> AuthorityA0 \<le> value \<and> value \<le> AuthorityA5"

definition validRights :: "string \<Rightarrow> bool" where
  "validRights value \<longleftrightarrow> value \<in> set [RightsPublicDataReviewed, RightsPublicAPITerms, RightsPublicAuthorial,
     RightsPublicMetadata, RightsRestricted, RightsQuarantined]"

definition uniqueStrings :: "string list list \<Rightarrow> go_error option" where
  "uniqueStrings groups = fail_if (list_ex (\<lambda>group. list_ex blank group \<or> \<not> distinct group) groups)
     (ErrorsNew ''empty or duplicate policy value'')"

section \<open>Validators\<close>

definition ValidateProfile :: "RetrievalProfile \<Rightarrow> go_error option" where
  "ValidateProfile profile = first_err
     [fail_if (rfp_schema_version profile \<noteq> FabricSchema \<or> \<not> fabricSafeID (rfp_profile_id profile) \<or>
          \<not> fabricSafeID (rfp_role_id profile) \<or> blank (rfp_version profile))
        (ErrorsNew ''invalid retrieval profile identity''),
      fail_if (rfp_mode profile \<notin> set [RetrievalNone, RetrievalLexical, RetrievalHybrid, RetrievalResolution])
        (Errorf ''invalid retrieval mode %q'' [FStr (rfp_mode profile)]),
      fail_if (rfp_hyde profile \<notin> set [HyDENone, HyDEConditional])
        (Errorf ''invalid HyDE policy %q'' [FStr (rfp_hyde profile)]),
      (if rfp_mode profile = RetrievalNone then
         fail_if (rfp_hyde profile \<noteq> HyDENone \<or> rfp_candidate_budget profile \<noteq> 0)
           (ErrorsNew ''retrieval-disabled profile cannot use HyDE or candidates'')
       else first_err
         [fail_if (rfp_allowed_authorities profile = [] \<or> rfp_allowed_rights profile = [] \<or>
              rfp_allowed_source_kinds profile = [] \<or> rfp_candidate_budget profile \<le> 0 \<or>
              rfp_context_token_budget profile \<le> 0)
            (ErrorsNew ''active retrieval profile is incomplete''),
          fail_if (RightsRestricted \<in> set (rfp_allowed_rights profile) \<or>
              RightsQuarantined \<in> set (rfp_allowed_rights profile))
            (ErrorsNew ''active retrieval profile cannot authorize restricted or quarantined rights''),
          fail_if (rfp_hyde profile = HyDEConditional \<and> rfp_mode profile \<noteq> RetrievalHybrid)
            (ErrorsNew ''conditional HyDE requires hybrid candidate mode''),
          uniqueStrings [rfp_allowed_source_kinds profile, rfp_claim_classes profile, rfp_tool_allowlist profile]])]"

definition ValidateSource :: "fabric_library \<Rightarrow> PublicSource \<Rightarrow> go_error option" where
  "ValidateSource lib source = first_err
     [fail_if (psr_schema_version source \<noteq> FabricSchema \<or> \<not> fabricSafeID (psr_source_id source) \<or>
          blank (psr_name source) \<or> blank (psr_publisher source))
        (ErrorsNew ''invalid public source identity''),
      (case lib_url lib (psr_base_url source) of
         None \<Rightarrow> Some (ErrorsNew ''public source requires an absolute HTTPS URL'')
       | Some (scheme, host) \<Rightarrow> fail_if (scheme \<noteq> ''https'' \<or> host = [])
           (ErrorsNew ''public source requires an absolute HTTPS URL'')),
      fail_if (\<not> validAuthority (psr_authority source) \<or> \<not> validRights (psr_rights source))
        (ErrorsNew ''invalid source authority or rights state''),
      fail_if (psr_source_kinds source = [] \<or> psr_primary_roles source = [] \<or> psr_temporal_rule source = [] \<or>
          psr_storage_rule source = [] \<or> psr_rate_limit_rule source = [])
        (ErrorsNew ''public source policy is incomplete''),
      uniqueStrings [psr_source_kinds source, psr_primary_roles source]]"

definition ValidateRecord :: "fabric_library \<Rightarrow> PublicSource \<Rightarrow> EvidenceRecord \<Rightarrow> go_error option" where
  "ValidateRecord lib source evidence = first_err
     [fail_if (evr_schema_version evidence \<noteq> FabricSchema \<or> \<not> fabricSafeID (evr_evidence_id evidence) \<or>
          evr_source_id evidence \<noteq> psr_source_id source \<or> evr_source_kind evidence = [])
        (ErrorsNew ''invalid evidence identity''),
      fail_if (evr_authority evidence \<noteq> psr_authority source \<or> evr_rights evidence \<noteq> psr_rights source)
        (ErrorsNew ''evidence authority or rights differs from source registry''),
      fail_if (is_zero_time (evr_available_at evidence) \<or> is_zero_time (evr_published_at evidence) \<or>
          time_before (evr_available_at evidence) (evr_published_at evidence))
        (ErrorsNew ''invalid evidence temporal state''),
      (case (evr_valid_from evidence, evr_valid_to evidence) of
         (Some valid_from, Some valid_to) \<Rightarrow> fail_if (time_before valid_to valid_from)
           (ErrorsNew ''invalid evidence validity interval'')
       | _ \<Rightarrow> None),
      fail_if (evr_lifecycle evidence \<notin> set [''active'', ''superseded'', ''quarantined'', ''deleted''])
        (ErrorsNew ''invalid evidence lifecycle''),
      fail_if (blank (evr_locator evidence) \<or> length (evr_content_hash evidence) \<noteq> 64)
        (ErrorsNew ''evidence locator and SHA-256 are required''),
      fail_if (\<not> hex_decodes (evr_content_hash evidence)) (ErrorsNew ''invalid evidence content SHA-256''),
      (if evr_text evidence \<noteq> [] then
         fail_if (hex_fixed 64 (unat (lib_sha256 lib (evr_text evidence))) \<noteq> evr_content_hash evidence)
           (ErrorsNew ''evidence text does not match content SHA-256'')
       else None)]"

definition ValidateFabricRequest :: "RetrievalProfile \<Rightarrow> FabricRequest \<Rightarrow> go_error option" where
  "ValidateFabricRequest profile request = first_err
     [fail_if (frq_schema_version request \<noteq> FabricSchema \<or> \<not> fabricSafeID (frq_request_id request) \<or>
          \<not> fabricSafeID (frq_run_id request) \<or> frq_role_id request \<noteq> rfp_role_id profile)
        (ErrorsNew ''invalid context request identity''),
      fail_if (rfp_mode profile = RetrievalNone) (ErrorsNew ''role is not authorized to retrieve evidence''),
      fail_if (blank (frq_query request) \<or> frq_max_candidates request \<le> 0 \<or>
          frq_max_candidates request > rfp_candidate_budget profile)
        (ErrorsNew ''invalid context request query or candidate budget''),
      fail_if (rfp_company_required profile \<and> frq_company_ids request = [])
        (ErrorsNew ''retrieval profile requires a company''),
      fail_if (rfp_as_of_required profile \<and> is_zero_time (frq_as_of request))
        (ErrorsNew ''retrieval profile requires as_of''),
      fail_if (\<not> list_all (\<lambda>value. value \<in> set (rfp_claim_classes profile)) (frq_claim_classes request))
        (ErrorsNew ''request contains an unauthorized claim class'')]"

definition check_node :: "GraphNode \<Rightarrow> go_error option" where
  "check_node node = fail_if (\<not> fabricSafeID (gno_node_id node) \<or> \<not> fabricSafeID (gno_entity_type node))
     (ErrorsNew ''invalid or duplicate graph node'')"

definition check_edge :: "(string \<Rightarrow> bool) \<Rightarrow> GraphPath \<Rightarrow> GraphEdge \<Rightarrow> go_error option" where
  "check_edge allowedRelations path edge = first_err
     [fail_if (\<not> fabricSafeID (ged_edge_id edge) \<or> ged_from_node_id edge \<notin> set (map gno_node_id (gpa_nodes path)) \<or>
          ged_to_node_id edge \<notin> set (map gno_node_id (gpa_nodes path)) \<or> \<not> allowedRelations (ged_relation edge) \<or>
          ged_evidence_ids edge = [])
        (ErrorsNew ''invalid or unauthorized graph edge''),
      (case ged_valid_from edge of None \<Rightarrow> None
       | Some valid_from \<Rightarrow> fail_if (time_after valid_from (gpa_as_of path)) (ErrorsNew ''future graph edge'')),
      (case ged_valid_to edge of None \<Rightarrow> None
       | Some valid_to \<Rightarrow> fail_if (\<not> time_after valid_to (gpa_as_of path)) (ErrorsNew ''expired graph edge''))]"

definition ValidateGraphPath :: "(string \<Rightarrow> bool) \<Rightarrow> GraphPath \<Rightarrow> go_error option" where
  "ValidateGraphPath allowedRelations path = first_err
     [fail_if (gpa_schema_version path \<noteq> FabricSchema \<or> \<not> fabricSafeID (gpa_path_id path) \<or>
          \<not> fabricSafeID (gpa_role_id path) \<or> is_zero_time (gpa_as_of path) \<or> gpa_nodes path = [])
        (ErrorsNew ''invalid graph path identity''),
      scan_unique (\<lambda>_. check_node) gno_node_id (\<lambda>_ _. ErrorsNew ''invalid or duplicate graph node'') no_check
        (gpa_nodes path),
      range_err (\<lambda>_. check_edge allowedRelations path) (gpa_edges path)]"

definition ValidateHyDETrace :: "RetrievalProfile \<Rightarrow> HyDETrace \<Rightarrow> go_error option" where
  "ValidateHyDETrace profile trace = first_err
     [fail_if (hyd_schema_version trace \<noteq> FabricSchema \<or> \<not> fabricSafeID (hyd_trace_id trace) \<or>
          hyd_role_id trace \<noteq> rfp_role_id profile \<or> length (hyd_original_query_sha256 trace) \<noteq> 64 \<or>
          length (hyd_hypothesis_sha256 trace) \<noteq> 64)
        (ErrorsNew ''invalid HyDE trace''),
      fail_if (rfp_hyde profile \<noteq> HyDEConditional \<or> \<not> hyd_used_for_candidate_generation trace \<or>
          \<not> hyd_discarded_before_compilation trace \<or> hyd_evidence_authority trace)
        (ErrorsNew ''HyDE must remain conditional, ephemeral, and non-authoritative'')]"

end
