(* ===== verification/Evidence_Resolver.thy ===== *)
theory Evidence_Resolver
  imports Evidence_Fabric
begin

text \<open>
  The resolver of \<open>internal/evidencefabric/resolver.go\<close>: which records a request may see, their
  ranking by BM25, and the removal of records. The maps of sources and term counts are lists that
  are searched; arithmetic on \<open>float64\<close> is rounded after every operation.
\<close>

section \<open>Terms\<close>

text \<open>The number of bytes of the rune a string starts with, zero if they are no valid UTF-8.\<close>

definition byte_in :: "char \<Rightarrow> char \<Rightarrow> char \<Rightarrow> bool" where
  "byte_in low high c \<longleftrightarrow> low \<le> c \<and> c \<le> high"

abbreviation (input) continuation :: "char \<Rightarrow> bool" where
  "continuation \<equiv> byte_in CHR 0x80 CHR 0xBF"

definition rune_size :: "string \<Rightarrow> nat" where
  "rune_size s =
     (case s of [] \<Rightarrow> 0
      | a # t \<Rightarrow>
          if a < CHR 0x80 then 1
          else (case t of [] \<Rightarrow> 0
            | b # u \<Rightarrow>
                if byte_in CHR 0xC2 CHR 0xDF a then (if continuation b then 2 else 0)
                else (case u of [] \<Rightarrow> 0
                  | c # v \<Rightarrow>
                      if byte_in CHR 0xE0 CHR 0xEF a then
                        (if byte_in (if a = CHR 0xE0 then CHR 0xA0 else CHR 0x80)
                              (if a = CHR 0xED then CHR 0x9F else CHR 0xBF) b \<and> continuation c then 3 else 0)
                      else (case v of [] \<Rightarrow> 0
                        | d # w \<Rightarrow>
                            if byte_in CHR 0xF0 CHR 0xF4 a \<and>
                              byte_in (if a = CHR 0xF0 then CHR 0x90 else CHR 0x80)
                                (if a = CHR 0xF4 then CHR 0x8F else CHR 0xBF) b \<and>
                              continuation c \<and> continuation d then 4 else 0))))"

text \<open>The runes of a string; a byte that belongs to none is read as U+FFFD. The first argument is
  the number of bytes of the last rune still to skip.\<close>

fun runes :: "nat \<Rightarrow> string \<Rightarrow> string list" where
  "runes k [] = []"
| "runes (Suc k) (c # s) = runes k s"
| "runes 0 (c # s) =
     (let n = rune_size (c # s) in
      if n = 0 then [CHR 0xEF, CHR 0xBF, CHR 0xBD] # runes 0 s else take n (c # s) # runes (n - 1) s)"

definition lower_rune :: "fabric_library \<Rightarrow> string \<Rightarrow> string" where
  "lower_rune lib r =
     (case r of [c] \<Rightarrow> if CHR ''A'' \<le> c \<and> c \<le> CHR ''Z'' then [char_of ((of_char c :: nat) + 32)] else [c]
      | _ \<Rightarrow> lib_lower_rune lib r)"

definition word_rune :: "fabric_library \<Rightarrow> string \<Rightarrow> bool" where
  "word_rune lib r = (case r of [c] \<Rightarrow> alnum c | _ \<Rightarrow> lib_word_rune lib r)"

fun fields_func :: "(string \<Rightarrow> bool) \<Rightarrow> string \<Rightarrow> string list \<Rightarrow> string list" where
  "fields_func P word [] = (if word = [] then [] else [word])"
| "fields_func P word (r # rs) =
     (if P r then fields_func P (word @ r) rs
      else if word = [] then fields_func P [] rs else word # fields_func P [] rs)"

definition tokenize :: "fabric_library \<Rightarrow> string \<Rightarrow> string list" where
  "tokenize lib value =
     (let lower = concat (map (lower_rune lib) (runes 0 value)) in
      filter (\<lambda>term. length term > 1) (fields_func (word_rune lib) [] (runes 0 lower)))"

section \<open>Resolvers\<close>

record Resolver =
  rsv_sources :: "PublicSource list"
  rsv_records :: "EvidenceRecord list"

definition source_of :: "PublicSource list \<Rightarrow> string \<Rightarrow> PublicSource option" where
  "source_of sources sourceID = index_by psr_source_id sources sourceID"

definition check_record :: "fabric_library \<Rightarrow> PublicSource list \<Rightarrow> EvidenceRecord \<Rightarrow> go_error option" where
  "check_record lib sources evidence =
     (case source_of sources (evr_source_id evidence) of
        None \<Rightarrow> Some (Errorf ''record %q has unknown source'' [FStr (evr_evidence_id evidence)])
      | Some source \<Rightarrow> wrap_err ''record %q: %w'' [FStr (evr_evidence_id evidence)] (ValidateRecord lib source evidence))"

definition NewResolver :: "fabric_library \<Rightarrow> PublicSource list \<Rightarrow> EvidenceRecord list \<Rightarrow> go_error + Resolver" where
  "NewResolver lib sources records =
     check_then (first_err
       [scan_unique (\<lambda>_ source. wrap_err ''source %q: %w'' [FStr (psr_source_id source)] (ValidateSource lib source))
          psr_source_id (\<lambda>_ source. Errorf ''duplicate source %q'' [FStr (psr_source_id source)]) no_check sources,
        range_err (\<lambda>_. check_record lib sources) records])
     (Inr \<lparr>rsv_sources = sources, rsv_records = records\<rparr>)"

definition eligible :: "RetrievalProfile \<Rightarrow> FabricRequest \<Rightarrow> EvidenceRecord \<Rightarrow> bool" where
  "eligible profile request evidence \<longleftrightarrow>
     evr_lifecycle evidence = ''active'' \<and> \<not> time_after (evr_available_at evidence) (frq_as_of request) \<and>
     (case evr_valid_from evidence of None \<Rightarrow> True | Some from \<Rightarrow> \<not> time_after from (frq_as_of request)) \<and>
     (case evr_valid_to evidence of None \<Rightarrow> True | Some to \<Rightarrow> time_after to (frq_as_of request)) \<and>
     evr_authority evidence \<in> set (rfp_allowed_authorities profile) \<and>
     evr_rights evidence \<in> set (rfp_allowed_rights profile) \<and>
     evr_source_kind evidence \<in> set (rfp_allowed_source_kinds profile) \<and>
     (frq_company_ids request \<noteq> [] \<longrightarrow> evr_company_id evidence \<in> set (frq_company_ids request))"

section \<open>BM25\<close>

definition f64_sub :: "rat \<Rightarrow> rat \<Rightarrow> rat" where "f64_sub x y = round_double (x - y)"
definition f64_mul :: "rat \<Rightarrow> rat \<Rightarrow> rat" where "f64_mul x y = round_double (x * y)"

definition float_of_len :: "nat \<Rightarrow> rat" where "float_of_len n = round_double (of_nat n)"

definition document_frequency :: "fabric_library \<Rightarrow> RetrievalProfile \<Rightarrow> FabricRequest \<Rightarrow> EvidenceRecord list \<Rightarrow> string \<Rightarrow> nat" where
  "document_frequency lib profile request records term =
     length (filter (\<lambda>evidence. eligible profile request evidence \<and> term \<in> set (tokenize lib (evr_text evidence))) records)"

definition fabricSortedUnique :: "string list \<Rightarrow> string list" where
  "fabricSortedUnique terms = sort (remdups (filter (\<lambda>term. term \<noteq> []) terms))"

definition term_score :: "fabric_library \<Rightarrow> rat \<Rightarrow> rat \<Rightarrow> nat \<Rightarrow> nat \<Rightarrow> rat" where
  "term_score lib tf df documentCount len =
     (let k1 = round_double (12 / 10);
          averageLength = max (float_of_len len) 1;
          idf = lib_log lib (f64_add 1 (f64_div (f64_add (f64_sub (float_of_len documentCount) df) (1 / 2)) (f64_add df (1 / 2))));
          numerator = f64_mul tf (round_double (22 / 10));
          denominator = f64_add tf (f64_mul k1 (f64_add (1 / 4) (f64_div (f64_mul (3 / 4) (float_of_len len)) averageLength))) in
      f64_div (f64_mul idf numerator) denominator)"

definition bm25Score :: "fabric_library \<Rightarrow> string list \<Rightarrow> string list \<Rightarrow> (string \<Rightarrow> nat) \<Rightarrow> nat \<Rightarrow> rat" where
  "bm25Score lib query document documentFrequency documentCount =
     (if query = [] \<or> document = [] \<or> documentCount = 0 then 0
      else foldl (\<lambda>score term.
        let tf = count_list document term in
        if tf = 0 then score
        else f64_add score
          (term_score lib (float_of_len tf) (float_of_len (documentFrequency term)) documentCount (length document)))
        0 (fabricSortedUnique query))"

section \<open>Resolve\<close>

record Scored =
  sco_id :: string
  sco_score :: rat
  sco_authority :: string

definition scored_less :: "Scored \<Rightarrow> Scored \<Rightarrow> bool" where
  "scored_less x y =
     (if sco_score x \<noteq> sco_score y then sco_score x > sco_score y
      else if sco_authority x \<noteq> sco_authority y then sco_authority x < sco_authority y
      else sco_id x < sco_id y)"

definition score_of :: "fabric_library \<Rightarrow> RetrievalProfile \<Rightarrow> FabricRequest \<Rightarrow> EvidenceRecord list \<Rightarrow> EvidenceRecord \<Rightarrow> rat" where
  "score_of lib profile request records evidence =
     bm25Score lib (tokenize lib (frq_query request)) (tokenize lib (evr_text evidence))
       (document_frequency lib profile request records) (length records)"

definition scored_records :: "fabric_library \<Rightarrow> RetrievalProfile \<Rightarrow> FabricRequest \<Rightarrow> EvidenceRecord list \<Rightarrow> Scored list" where
  "scored_records lib profile request records =
     map (\<lambda>evidence. \<lparr>sco_id = evr_evidence_id evidence, sco_score = score_of lib profile request records evidence,
         sco_authority = evr_authority evidence\<rparr>)
       (filter (\<lambda>evidence. eligible profile request evidence \<and> score_of lib profile request records evidence > 0) records)"

definition ranked :: "Scored list \<Rightarrow> EvidenceCandidate list" where
  "ranked scored = map (\<lambda>(index, x). \<lparr>can_evidence_id = sco_id x, can_score = sco_score x, can_rank = int index + 1\<rparr>)
     (List.enumerate 0 scored)"

definition Resolve :: "fabric_library \<Rightarrow> (Scored list \<Rightarrow> Scored list) \<Rightarrow> Resolver \<Rightarrow> RetrievalProfile \<Rightarrow> FabricRequest \<Rightarrow> go_error + FabricBundle" where
  "Resolve lib order resolver profile request =
     check_then (first_err [ValidateProfile profile, ValidateFabricRequest profile request])
       (let candidates = ranked (take (nat (frq_max_candidates request))
              (order (scored_records lib profile request (rsv_records resolver)))) in
        Inr \<lparr>fbu_schema_version = FabricSchema, fbu_bundle_id = ''bundle-'' @ frq_request_id request,
          fbu_request_id = frq_request_id request, fbu_run_id = frq_run_id request,
          fbu_role_id = frq_role_id request, fbu_as_of = frq_as_of request, fbu_candidates = candidates,
          fbu_missing = (if candidates = [] then [''no_authorized_point_in_time_candidate''] else []),
          fbu_warnings = [], fbu_degraded = (rfp_mode profile \<noteq> RetrievalHybrid)\<rparr>)"

section \<open>Removal\<close>

definition change_record :: "string \<Rightarrow> (EvidenceRecord \<Rightarrow> EvidenceRecord) \<Rightarrow> Resolver \<Rightarrow> go_error + Resolver" where
  "change_record evidenceID change resolver =
     (if list_ex (\<lambda>evidence. evr_evidence_id evidence = evidenceID) (rsv_records resolver)
      then Inr (resolver\<lparr>rsv_records := update_first (\<lambda>evidence. evr_evidence_id evidence = evidenceID) change (rsv_records resolver)\<rparr>)
      else Inl (Errorf ''unknown evidence %q'' [FStr evidenceID]))"

definition Quarantine :: "string \<Rightarrow> Resolver \<Rightarrow> go_error + Resolver" where
  "Quarantine evidenceID resolver = change_record evidenceID (\<lambda>evidence. evidence\<lparr>evr_lifecycle := ''quarantined''\<rparr>) resolver"

definition Delete :: "string \<Rightarrow> Resolver \<Rightarrow> go_error + Resolver" where
  "Delete evidenceID resolver =
     change_record evidenceID (\<lambda>evidence. evidence\<lparr>evr_lifecycle := ''deleted'', evr_text := []\<rparr>) resolver"

end
