(* ===== verification/Release_Policy.thy ===== *)
theory Release_Policy
  imports Evidence_Resolver
begin

text \<open>
  The release policy of \<open>internal/releasepolicy/policy.go\<close>: the issues of a claim, in the order the
  code finds them, and the decision. The issues are sorted with a sort that is not stable, so the
  sorting function is a parameter.
\<close>

section \<open>Records\<close>

abbreviation DecisionApprove :: string where "DecisionApprove \<equiv> ''approve''"
abbreviation DecisionNarrow :: string where "DecisionNarrow \<equiv> ''narrow''"
abbreviation DecisionRepair :: string where "DecisionRepair \<equiv> ''repair''"
abbreviation DecisionReject :: string where "DecisionReject \<equiv> ''reject''"

record EvidenceBinding =
  bnd_evidence_id :: string
  bnd_authority :: string
  bnd_rights :: string
  bnd_available_at :: gotime
  bnd_company_id :: string
  bnd_period_key :: string
  bnd_currency :: string
  bnd_unit :: string

record ReleaseClaim =
  rcl_claim_id :: string
  rcl_role_id :: string
  rcl_claim_class :: string
  rcl_text :: string
  rcl_company_ids :: "string list"
  rcl_period_keys :: "string list"
  rcl_currencies :: "string list"
  rcl_units :: "string list"
  rcl_evidence :: "EvidenceBinding list"
  rcl_receipt_ids :: "string list"
  rcl_numerical_refs :: "string list"
  rcl_causal_class :: string
  rcl_legal_status :: string
  rcl_market_feed :: string
  rcl_market_concept :: string
  rcl_attribution_type :: string
  rcl_assumption_ids :: "string list"
  rcl_monitoring_ids :: "string list"

record PolicyIssue =
  pis_code :: string
  pis_severity :: string
  pis_claim_id :: string
  pis_fields :: "string list"

record PolicyReport =
  prp_decision :: string
  prp_issues :: "PolicyIssue list"

record ReleasePolicy =
  rlp_as_of :: gotime
  rlp_minimum_authority :: "(string \<times> string) list"

definition DefaultPolicy :: "gotime \<Rightarrow> ReleasePolicy" where
  "DefaultPolicy asOf = \<lparr>rlp_as_of = asOf, rlp_minimum_authority =
     [(''reported_fact'', AuthorityA0), (''accounting_policy'', AuthorityA0), (''market_fact'', AuthorityA2),
      (''macro_fact'', AuthorityA2), (''legal_event'', AuthorityA0), (''issuer_claim'', AuthorityA1),
      (''research_hypothesis'', AuthorityA3)]\<rparr>"

section \<open>Texts\<close>

text \<open>
  \<open>numericLiteral\<close> is the pattern \<open>(?:^|[^A-Za-z])[-+]?(?:\d{1,3}(?:,\d{3})+|\d+)(?:\.\d+)?%?\<close>. Everything
  after the first digit is optional, and a sign is itself no letter, so a match exists exactly if
  some digit is the first byte or follows a byte that is no ASCII letter.
\<close>

definition ascii_letter :: "char \<Rightarrow> bool" where
  "ascii_letter c \<longleftrightarrow> CHR ''A'' \<le> c \<and> c \<le> CHR ''Z'' \<or> CHR ''a'' \<le> c \<and> c \<le> CHR ''z''"

definition digit :: "char \<Rightarrow> bool" where
  "digit c \<longleftrightarrow> CHR ''0'' \<le> c \<and> c \<le> CHR ''9''"

fun number_from :: "bool \<Rightarrow> string \<Rightarrow> bool" where
  "number_from free [] = False"
| "number_from free (c # s) = (free \<and> digit c \<or> number_from (\<not> ascii_letter c) s)"

definition numericLiteral :: "string \<Rightarrow> bool" where
  "numericLiteral s = number_from True s"

definition containsAny :: "string \<Rightarrow> string list \<Rightarrow> bool" where
  "containsAny value candidates = list_ex (str_contains value) candidates"

definition causalLanguage :: "string \<Rightarrow> bool" where
  "causalLanguage value = containsAny value
     [''caused '', ''causes '', ''because of '', ''led to '', ''drove the stock '', ''stock moved because '']"

definition uniqueNonEmpty :: "string list \<Rightarrow> string list" where
  "uniqueNonEmpty names = foldl append_unique [] (filter (\<lambda>name. name \<noteq> []) (map trim_space names))"

definition inconsistent :: "string list \<Rightarrow> bool" where
  "inconsistent names \<longleftrightarrow> length (uniqueNonEmpty names) > 1"

definition authorityRank :: "string \<Rightarrow> int" where
  "authorityRank value =
     (if value = AuthorityA0 then 0 else if value = AuthorityA1 then 1 else if value = AuthorityA2 then 2
      else if value = AuthorityA3 then 3 else if value = AuthorityA4 then 4 else if value = AuthorityA5 then 5
      else 99)"

section \<open>Evaluate\<close>

definition issue_if :: "bool \<Rightarrow> ReleaseClaim \<Rightarrow> string \<Rightarrow> string \<Rightarrow> string list \<Rightarrow> PolicyIssue list" where
  "issue_if b claim code severity names =
     (if b then [\<lparr>pis_code = code, pis_severity = severity, pis_claim_id = rcl_claim_id claim, pis_fields = names\<rparr>] else [])"

definition binding_issues :: "ReleasePolicy \<Rightarrow> ReleaseClaim \<Rightarrow> EvidenceBinding \<Rightarrow> PolicyIssue list" where
  "binding_issues policy claim evidence =
     issue_if (bnd_evidence_id evidence = []) claim ''evidence_id_missing'' ''critical'' [''evidence''] @
     issue_if (time_after (bnd_available_at evidence) (rlp_as_of policy)) claim ''future_evidence'' ''critical''
       [bnd_evidence_id evidence] @
     issue_if (bnd_rights evidence = RightsRestricted \<or> bnd_rights evidence = RightsQuarantined) claim
       ''rights_not_authorized'' ''critical'' [bnd_evidence_id evidence] @
     issue_if (case map_of (rlp_minimum_authority policy) (rcl_claim_class claim) of None \<Rightarrow> False
         | Some minimum \<Rightarrow> authorityRank (bnd_authority evidence) > authorityRank minimum) claim
       ''authority_below_claim_minimum'' ''critical'' [bnd_evidence_id evidence]"

definition population_issues :: "ReleaseClaim \<Rightarrow> PolicyIssue list" where
  "population_issues claim =
     issue_if (numericLiteral (rcl_text claim) \<and> rcl_numerical_refs claim = []) claim
       ''unsupported_numeric_literal'' ''critical'' [''text'', ''numerical_refs''] @
     issue_if (inconsistent (rcl_company_ids claim) \<and> rcl_claim_class claim \<noteq> ''comparison'') claim
       ''cross_company_contamination'' ''critical'' [''company_ids''] @
     issue_if (inconsistent (rcl_currencies claim)) claim ''currency_contamination'' ''critical'' [''currencies''] @
     issue_if (inconsistent (rcl_units claim)) claim ''unit_contamination'' ''critical'' [''units''] @
     issue_if (inconsistent (rcl_period_keys claim) \<and> rcl_claim_class claim \<noteq> ''comparison'') claim
       ''period_contamination'' ''critical'' [''period_keys'']"

definition wording_issues :: "ReleaseClaim \<Rightarrow> PolicyIssue list" where
  "wording_issues claim =
     (let lower = to_lower (rcl_text claim) in
      issue_if (containsAny lower [''will definitely'', ''guaranteed'', ''certain to'', ''must happen'']) claim
        ''hidden_certainty'' ''critical'' [''text''] @
      issue_if (containsAny lower [''you should buy'', ''you should sell'', ''invest all'', ''allocate your portfolio'']) claim
        ''personalized_investment_advice'' ''critical'' [''text''] @
      issue_if (causalLanguage lower \<and> rcl_causal_class claim \<noteq> ''supported_causal_design'') claim
        ''causal_overclaim'' ''critical'' [''causal_class''] @
      issue_if (rcl_market_concept claim = ''short_sale_volume'' \<and> containsAny lower [''short interest'', ''shares short'']) claim
        ''short_volume_interest_conflation'' ''critical'' [''market_concept''] @
      issue_if (rcl_market_feed claim = ''iex'' \<and>
          containsAny lower [''whole market'', ''consolidated market'', ''full sip'']) claim
        ''market_feed_overclaim'' ''critical'' [''market_feed''] @
      issue_if (rcl_claim_class claim = ''legal_event'' \<and> blank (rcl_legal_status claim)) claim
        ''legal_status_missing'' ''critical'' [''legal_status''] @
      issue_if (rcl_attribution_type claim = ''product_vulnerability'' \<and>
          containsAny lower [''company was breached'', ''company suffered an incident'', ''company attack'']) claim
        ''cve_company_incident_attribution'' ''critical'' [''attribution_type''])"

definition claim_issues :: "ReleasePolicy \<Rightarrow> ReleaseClaim \<Rightarrow> PolicyIssue list" where
  "claim_issues policy claim =
     issue_if (rcl_claim_id claim = [] \<or> rcl_role_id claim = [] \<or> rcl_claim_class claim = [] \<or> blank (rcl_text claim))
       claim ''claim_identity_invalid'' ''critical'' [] @
     issue_if (rcl_evidence claim = []) claim ''evidence_missing'' ''critical'' [''evidence''] @
     concat (map (binding_issues policy claim) (rcl_evidence claim)) @
     population_issues claim @
     wording_issues claim @
     issue_if (rcl_claim_class claim = ''risk_fact'' \<and> rcl_monitoring_ids claim = []) claim
       ''risk_monitoring_signal_missing'' ''repairable'' [''monitoring_ids''] @
     issue_if (rcl_claim_class claim = ''valuation_assumption'' \<and> rcl_assumption_ids claim = []) claim
       ''valuation_assumption_unregistered'' ''critical'' [''assumption_ids'']"

definition issue_less :: "PolicyIssue \<Rightarrow> PolicyIssue \<Rightarrow> bool" where
  "issue_less x y =
     (if pis_severity x \<noteq> pis_severity y then pis_severity x < pis_severity y else pis_code x < pis_code y)"

definition decide_issues :: "PolicyIssue list \<Rightarrow> string" where
  "decide_issues issues =
     (if issues = [] then DecisionApprove
      else if list_ex (\<lambda>issue. pis_severity issue = ''critical'') issues then DecisionReject
      else DecisionRepair)"

definition EvaluateClaim :: "(PolicyIssue list \<Rightarrow> PolicyIssue list) \<Rightarrow> ReleasePolicy \<Rightarrow> ReleaseClaim \<Rightarrow> PolicyReport" where
  "EvaluateClaim order policy claim =
     (let issues = order (claim_issues policy claim) in \<lparr>prp_decision = decide_issues issues, prp_issues = issues\<rparr>)"

definition ValidateReport :: "PolicyReport \<Rightarrow> go_error option" where
  "ValidateReport report = first_err
     [fail_if (prp_decision report \<notin> set [DecisionApprove, DecisionNarrow, DecisionRepair, DecisionReject])
        (Errorf ''invalid release decision %q'' [FStr (prp_decision report)]),
      fail_if (prp_decision report = DecisionApprove \<and> prp_issues report \<noteq> [])
        (ErrorsNew ''approved report cannot contain issues''),
      fail_if (prp_decision report \<noteq> DecisionApprove \<and> prp_issues report = [])
        (ErrorsNew ''non-approved report requires an issue'')]"

end
