(* ===== verification/Fabric_Laws.thy ===== *)
theory Fabric_Laws
  imports Evidence_Resolver
begin

text \<open>
  What the resolver guarantees: its candidates are records of registered sources that the profile
  and the request allow at that time, in an order that does not depend on the sort, and evidence
  that was removed never comes back, provided identifiers are distinct.
\<close>

section \<open>The order of candidates\<close>

interpretation scored_order: total_slice_order scored_less
proof
  show "scored_less x y \<Longrightarrow> \<not> scored_less y x" for x y
    by (auto simp: scored_less_def split: if_splits)
  show "scored_less x z \<Longrightarrow> scored_less x y \<or> scored_less y z" for x y z
    by (auto simp: scored_less_def split: if_splits)
  show "x \<noteq> y \<Longrightarrow> scored_less x y \<or> scored_less y x" for x y
    by (cases x; cases y) (auto simp: scored_less_def)
qed

section \<open>Sources and records\<close>

lemma NewResolver_Inr:
  "NewResolver lib sources records = Inr resolver \<longleftrightarrow>
     (\<forall>source \<in> set sources. ValidateSource lib source = None) \<and> distinct (map psr_source_id sources) \<and>
     (\<forall>evidence \<in> set records. check_record lib sources evidence = None) \<and>
     resolver = \<lparr>rsv_sources = sources, rsv_records = records\<rparr>"
proof -
  have "scan_unique (\<lambda>_ source. wrap_err ''source %q: %w'' [FStr (psr_source_id source)] (ValidateSource lib source))
      psr_source_id (\<lambda>_ source. Errorf ''duplicate source %q'' [FStr (psr_source_id source)]) no_check sources = None \<longleftrightarrow>
      (\<forall>source \<in> set sources. ValidateSource lib source = None) \<and> distinct (map psr_source_id sources)"
    by (subst scan_unique_None [where P = "\<lambda>source. ValidateSource lib source = None" and Q = "\<lambda>_. True"]) auto
  moreover have "range_err (\<lambda>_. check_record lib sources) records = None \<longleftrightarrow>
      (\<forall>evidence \<in> set records. check_record lib sources evidence = None)"
    by (rule range_err_None_uniform) simp
  ultimately show ?thesis by (auto simp: NewResolver_def)
qed

definition registered :: "fabric_library \<Rightarrow> Resolver \<Rightarrow> bool" where
  "registered lib resolver \<longleftrightarrow> (\<forall>source \<in> set (rsv_sources resolver). ValidateSource lib source = None) \<and>
     (\<forall>evidence \<in> set (rsv_records resolver). check_record lib (rsv_sources resolver) evidence = None)"

lemma NewResolver_registered: "NewResolver lib sources records = Inr resolver \<Longrightarrow> registered lib resolver"
  by (auto simp: NewResolver_Inr registered_def)

lemma check_record_source:
  assumes "check_record lib sources evidence = None"
  shows "\<exists>source \<in> set sources. evr_source_id evidence = psr_source_id source \<and>
    evr_authority evidence = psr_authority source \<and> evr_rights evidence = psr_rights source \<and>
    evr_published_at evidence \<le> evr_available_at evidence"
proof -
  from assms obtain source where source: "source_of sources (evr_source_id evidence) = Some source"
    "ValidateRecord lib source evidence = None"
    by (auto simp: check_record_def split: option.splits)
  then have "source \<in> set sources" "psr_source_id source = evr_source_id evidence"
    using index_by_Some [of psr_source_id sources] by (auto simp: source_of_def)
  with source(2) show ?thesis by (intro bexI [of _ source]) (auto simp: ValidateRecord_def)
qed

section \<open>Candidates\<close>

lemma Resolve_facts:
  assumes "Resolve lib order resolver profile request = Inr fabric"
  shows "ValidateProfile profile = None" and "ValidateFabricRequest profile request = None"
    and "fbu_candidates fabric = ranked (take (nat (frq_max_candidates request))
      (order (scored_records lib profile request (rsv_records resolver))))"
  using assms by (auto simp: Resolve_def Let_def)

lemma ranked_ids: "map can_evidence_id (ranked scored) = map sco_id scored"
  unfolding ranked_def map_map by (induction scored rule: rev_induct) (simp_all add: enumerate_append_eq)

lemma ranked_scores: "map can_score (ranked scored) = map sco_score scored"
  unfolding ranked_def map_map by (induction scored rule: rev_induct) (simp_all add: enumerate_append_eq)

lemma ranked_ranks: "map can_rank (ranked scored) = map (\<lambda>i. int i + 1) [0..<length scored]"
  unfolding ranked_def map_map by (induction scored rule: rev_induct) (simp_all add: enumerate_append_eq)

lemma length_ranked: "length (ranked scored) = length scored"
  by (simp add: ranked_def)

lemma candidate_evidence:
  assumes "sorts scored_less order" and "Resolve lib order resolver profile request = Inr fabric"
    and "candidate \<in> set (fbu_candidates fabric)"
  shows "\<exists>evidence \<in> set (rsv_records resolver). evr_evidence_id evidence = can_evidence_id candidate \<and>
    eligible profile request evidence \<and> can_score candidate = score_of lib profile request (rsv_records resolver) evidence \<and>
    0 < can_score candidate"
proof -
  let ?scored = "scored_records lib profile request (rsv_records resolver)"
  let ?top = "take (nat (frq_max_candidates request)) (order ?scored)"
  have fabric: "fbu_candidates fabric = ranked ?top" by (rule Resolve_facts(3) [OF assms(2)])
  then obtain i where i: "i < length ?top" "candidate = ranked ?top ! i"
    using assms(3) by (metis in_set_conv_nth length_ranked)
  let ?x = "?top ! i"
  have fields: "can_evidence_id candidate = sco_id ?x" "can_score candidate = sco_score ?x"
    using i ranked_ids [of ?top] ranked_scores [of ?top] by (metis length_ranked nth_map)+
  have "?x \<in> set ?scored"
    using i(1) sorts_set [OF assms(1)] by (metis in_set_takeD nth_mem)
  with fields show ?thesis by (auto simp: scored_records_def)
qed

lemma eligible_rights:
  assumes "ValidateProfile profile = None" and "ValidateFabricRequest profile request = None" and "eligible profile request evidence"
  shows "evr_rights evidence \<noteq> RightsRestricted" and "evr_rights evidence \<noteq> RightsQuarantined"
    and "nat (frq_max_candidates request) \<le> nat (rfp_candidate_budget profile)"
proof -
  have "rfp_mode profile \<noteq> RetrievalNone" using assms(2) by (simp add: ValidateFabricRequest_def)
  with assms(1) have "RightsRestricted \<notin> set (rfp_allowed_rights profile)" "RightsQuarantined \<notin> set (rfp_allowed_rights profile)"
    by (simp_all add: ValidateProfile_def)
  with assms(3) show "evr_rights evidence \<noteq> RightsRestricted" "evr_rights evidence \<noteq> RightsQuarantined"
    by (metis eligible_def)+
  show "nat (frq_max_candidates request) \<le> nat (rfp_candidate_budget profile)"
    using assms(2) by (simp add: ValidateFabricRequest_def nat_mono)
qed

section \<open>Removal\<close>

lemma change_record_Inr:
  "change_record evidenceID change resolver = Inr resolver' \<longleftrightarrow>
     evidenceID \<in> evr_evidence_id ` set (rsv_records resolver) \<and>
     resolver' = resolver\<lparr>rsv_records := update_first (\<lambda>evidence. evr_evidence_id evidence = evidenceID) change (rsv_records resolver)\<rparr>"
  by (auto simp: change_record_def list_ex_iff)

lemma removed_valid:
  assumes "ValidateRecord lib source evidence = None"
  shows "ValidateRecord lib source (evidence\<lparr>evr_lifecycle := ''quarantined''\<rparr>) = None"
    and "ValidateRecord lib source (evidence\<lparr>evr_lifecycle := ''deleted'', evr_text := []\<rparr>) = None"
  using assms by (auto simp: ValidateRecord_def split: if_splits)

lemma removed_checked:
  assumes "check_record lib sources evidence = None"
  shows "check_record lib sources (evidence\<lparr>evr_lifecycle := ''quarantined''\<rparr>) = None"
    and "check_record lib sources (evidence\<lparr>evr_lifecycle := ''deleted'', evr_text := []\<rparr>) = None"
  using assms removed_valid by (auto simp: check_record_def split: option.splits)

lemma registered_change:
  assumes "registered lib resolver" and "change_record evidenceID change resolver = Inr resolver'"
    and "\<And>evidence. check_record lib (rsv_sources resolver) evidence = None \<Longrightarrow>
      check_record lib (rsv_sources resolver) (change evidence) = None"
  shows "registered lib resolver' \<and> rsv_sources resolver' = rsv_sources resolver"
proof -
  let ?P = "\<lambda>evidence. evr_evidence_id evidence = evidenceID"
  have eq: "rsv_records resolver' = update_first ?P change (rsv_records resolver)" "rsv_sources resolver' = rsv_sources resolver"
    using assms(2) by (auto simp: change_record_Inr)
  have "check_record lib (rsv_sources resolver) evidence = None" if "evidence \<in> set (rsv_records resolver')" for evidence
  proof -
    from that set_update_first [of ?P change "rsv_records resolver"]
    consider "evidence \<in> set (rsv_records resolver)" | x where "x \<in> set (rsv_records resolver)" "evidence = change x"
      unfolding eq(1) by auto
    then show ?thesis using assms(1,3) by cases (simp_all add: registered_def)
  qed
  with assms(1) eq(2) show ?thesis by (simp add: registered_def)
qed

text \<open>The resolvers that removals lead to, with the identifiers removed.\<close>

inductive curated :: "fabric_library \<Rightarrow> PublicSource list \<Rightarrow> EvidenceRecord list \<Rightarrow> string set \<Rightarrow> Resolver \<Rightarrow> bool"
  for lib sources records where
  curated_new: "NewResolver lib sources records = Inr resolver \<Longrightarrow> curated lib sources records {} resolver"
| curated_quarantine: "curated lib sources records gone resolver \<Longrightarrow> Quarantine evidenceID resolver = Inr resolver' \<Longrightarrow>
    curated lib sources records (insert evidenceID gone) resolver'"
| curated_delete: "curated lib sources records gone resolver \<Longrightarrow> Delete evidenceID resolver = Inr resolver' \<Longrightarrow>
    curated lib sources records (insert evidenceID gone) resolver'"

lemma curated_registered: "curated lib sources records gone resolver \<Longrightarrow> registered lib resolver \<and> rsv_sources resolver = sources"
proof (induction rule: curated.induct)
  case (curated_new resolver)
  then show ?case using NewResolver_registered by (auto simp: NewResolver_Inr)
next
  case (curated_quarantine gone resolver evidenceID resolver')
  with registered_change [of lib resolver evidenceID _ resolver', OF _ _ removed_checked(1)] show ?case
    by (simp add: Quarantine_def)
next
  case (curated_delete gone resolver evidenceID resolver')
  with registered_change [of lib resolver evidenceID _ resolver', OF _ _ removed_checked(2)] show ?case
    by (simp add: Delete_def)
qed

text \<open>With distinct identifiers, the records that are left are the given ones, and the removed ones
  are not active.\<close>

definition left_of :: "EvidenceRecord list \<Rightarrow> string set \<Rightarrow> EvidenceRecord list \<Rightarrow> bool" where
  "left_of records gone current \<longleftrightarrow> map evr_evidence_id current = map evr_evidence_id records \<and>
     (\<forall>evidence \<in> set current. if evr_evidence_id evidence \<in> gone then evr_lifecycle evidence \<noteq> ''active''
        else evidence \<in> set records)"

lemma left_of_change:
  assumes "left_of records gone current" and "distinct (map evr_evidence_id records)"
    and "\<And>evidence. evr_evidence_id (change evidence) = evr_evidence_id evidence"
    and "\<And>evidence. evr_lifecycle (change evidence) \<noteq> ''active''"
  shows "left_of records (insert evidenceID gone)
    (update_first (\<lambda>evidence. evr_evidence_id evidence = evidenceID) change current)"
proof -
  have "distinct (map evr_evidence_id current)" using assms(1,2) by (simp add: left_of_def)
  then have eq: "update_first (\<lambda>evidence. evr_evidence_id evidence = evidenceID) change current =
      map (\<lambda>x. if evr_evidence_id x = evidenceID then change x else x) current"
    by (rule update_first_distinct)
  have "map evr_evidence_id (map (\<lambda>x. if evr_evidence_id x = evidenceID then change x else x) current) = map evr_evidence_id current"
    using assms(3) by simp
  with assms(1) assms(3,4) show ?thesis unfolding eq left_of_def by auto
qed

lemma curated_left:
  assumes "curated lib sources records gone resolver" and "distinct (map evr_evidence_id records)"
  shows "left_of records gone (rsv_records resolver)"
  using assms(1)
proof (induction rule: curated.induct)
  case (curated_new resolver)
  then show ?case by (auto simp: NewResolver_Inr left_of_def)
next
  case (curated_quarantine gone resolver evidenceID resolver')
  then show ?case
    using left_of_change [OF curated_quarantine.IH assms(2), of "\<lambda>evidence. evidence\<lparr>evr_lifecycle := ''quarantined''\<rparr>" evidenceID]
    by (simp add: Quarantine_def change_record_Inr)
next
  case (curated_delete gone resolver evidenceID resolver')
  then show ?case
    using left_of_change [OF curated_delete.IH assms(2), of "\<lambda>evidence. evidence\<lparr>evr_lifecycle := ''deleted'', evr_text := []\<rparr>" evidenceID]
    by (simp add: Delete_def change_record_Inr)
qed

section \<open>A resolver\<close>

definition sample_library :: fabric_library where
  "sample_library = \<lparr>lib_url = \<lambda>_. Some (''https'', ''host''), lib_sha256 = \<lambda>_. 0, lib_log = \<lambda>_. 1,
     lib_lower_rune = \<lambda>r. r, lib_word_rune = \<lambda>_. False\<rparr>"

definition sample_source :: PublicSource where
  "sample_source = \<lparr>psr_schema_version = FabricSchema, psr_source_id = ''sec'', psr_name = ''SEC'', psr_publisher = ''SEC'',
     psr_base_url = ''https://host'', psr_access_class = ''public'', psr_authority = AuthorityA0,
     psr_rights = RightsPublicDataReviewed, psr_source_kinds = [''filing''], psr_primary_roles = [''analyst''],
     psr_temporal_rule = ''t'', psr_storage_rule = ''s'', psr_rate_limit_rule = ''r''\<rparr>"

definition sample_evidence :: "string \<Rightarrow> EvidenceRecord" where
  "sample_evidence evidenceID = \<lparr>evr_schema_version = FabricSchema, evr_evidence_id = evidenceID, evr_source_id = ''sec'',
     evr_source_kind = ''filing'', evr_company_id = ''msft'', evr_security_id = [], evr_authority = AuthorityA0,
     evr_rights = RightsPublicDataReviewed, evr_published_at = 1, evr_available_at = 2, evr_valid_from = None,
     evr_valid_to = None, evr_lifecycle = ''active'', evr_locator = ''l'', evr_content_hash = hex_fixed 64 0,
     evr_text = ''Cloud''\<rparr>"

definition sample_profile :: RetrievalProfile where
  "sample_profile = \<lparr>rfp_schema_version = FabricSchema, rfp_profile_id = ''p'', rfp_role_id = ''analyst'', rfp_version = ''1'',
     rfp_mode = RetrievalHybrid, rfp_allowed_authorities = [AuthorityA0], rfp_allowed_rights = [RightsPublicDataReviewed],
     rfp_allowed_source_kinds = [''filing''], rfp_claim_classes = [], rfp_tool_allowlist = [], rfp_company_required = True,
     rfp_as_of_required = True, rfp_hyde = HyDENone, rfp_candidate_budget = 2, rfp_context_token_budget = 1\<rparr>"

definition sample_fabric_request :: FabricRequest where
  "sample_fabric_request = \<lparr>frq_schema_version = FabricSchema, frq_request_id = ''q'', frq_run_id = ''r'',
     frq_role_id = ''analyst'', frq_query = ''CLOUD'', frq_company_ids = [''msft''], frq_as_of = 3,
     frq_claim_classes = [], frq_max_candidates = 2\<rparr>"

end
