(* ===== verification/Fabric_Safety.thy ===== *)
theory Fabric_Safety
  imports Fabric_Laws
begin

text \<open>
  The guarantees of the evidence resolver, and what happens when two records share an identifier.
\<close>

section \<open>Samples\<close>

definition sample_resolver :: "EvidenceRecord list \<Rightarrow> Resolver" where
  "sample_resolver records = \<lparr>rsv_sources = [sample_source], rsv_records = records\<rparr>"

lemma sample_evidence_checked: "check_record sample_library [sample_source] (sample_evidence ''e1'') = None"
  "check_record sample_library [sample_source] (sample_evidence ''e2'') = None"
  by code_simp+

lemma sample_source_valid: "ValidateSource sample_library sample_source = None"
  by code_simp

lemma sample_new:
  assumes "set records \<subseteq> set [sample_evidence ''e1'', sample_evidence ''e2'']"
  shows "NewResolver sample_library [sample_source] records = Inr (sample_resolver records)"
  using assms sample_evidence_checked sample_source_valid by (auto simp: NewResolver_Inr sample_resolver_def)

lemma sample_retrieval_valid:
  "ValidateProfile sample_profile = None" "ValidateFabricRequest sample_profile sample_fabric_request = None"
  "eligible sample_profile sample_fabric_request (sample_evidence ''e1'')" "nat (frq_max_candidates sample_fabric_request) = 2"
  by code_simp+

definition quarantined_evidence :: "string \<Rightarrow> EvidenceRecord" where
  "quarantined_evidence evidenceID = (sample_evidence evidenceID)\<lparr>evr_lifecycle := ''quarantined''\<rparr>"

lemma sample_scores:
  "0 < score_of sample_library sample_profile sample_fabric_request [sample_evidence ''e1'', quarantined_evidence ''e2''] (sample_evidence ''e1'')"
  "0 < score_of sample_library sample_profile sample_fabric_request [quarantined_evidence ''e1'', sample_evidence ''e1''] (sample_evidence ''e1'')"
  by code_simp+

lemma Resolve_total:
  assumes "ValidateProfile profile = None" and "ValidateFabricRequest profile request = None"
  obtains fabric where "Resolve lib order resolver profile request = Inr fabric"
  using assms by (auto simp: Resolve_def check_then_def first_err.simps Let_def)

text \<open>Evidence with a positive score is a candidate unless there are too many records.\<close>

lemma active_candidate:
  assumes "sorts scored_less order" and "Resolve lib order resolver profile request = Inr fabric"
    and "evidence \<in> set (rsv_records resolver)" and "eligible profile request evidence"
    and "0 < score_of lib profile request (rsv_records resolver) evidence"
    and "length (scored_records lib profile request (rsv_records resolver)) \<le> nat (frq_max_candidates request)"
  shows "evr_evidence_id evidence \<in> can_evidence_id ` set (fbu_candidates fabric)"
proof -
  let ?scored = "scored_records lib profile request (rsv_records resolver)"
  have "fbu_candidates fabric = ranked (order ?scored)"
    using Resolve_facts(3) [OF assms(2)] assms(6) sorts_length [OF assms(1)] by simp
  then have "can_evidence_id ` set (fbu_candidates fabric) = sco_id ` set ?scored"
    using ranked_ids [of "order ?scored"] sorts_set [OF assms(1)] by (metis set_map)
  moreover have "evr_evidence_id evidence \<in> sco_id ` set ?scored"
    using assms(3-5) by (force simp: scored_records_def)
  ultimately show ?thesis by simp
qed

lemma scored_length: "length (scored_records lib profile request records) \<le> length records"
  by (simp add: scored_records_def)

section \<open>Authority\<close>

lemma eligible_conditions:
  assumes "eligible profile request evidence"
  shows "evr_lifecycle evidence = ''active''" and "evr_available_at evidence \<le> frq_as_of request"
    and "evr_valid_from evidence \<notin> Some ` {frq_as_of request<..}" and "evr_valid_to evidence \<notin> Some ` {..frq_as_of request}"
    and "evr_authority evidence \<in> set (rfp_allowed_authorities profile)"
    and "evr_rights evidence \<in> set (rfp_allowed_rights profile)"
    and "evr_source_kind evidence \<in> set (rfp_allowed_source_kinds profile)"
    and "frq_company_ids request = [] \<or> evr_company_id evidence \<in> set (frq_company_ids request)"
  using assms by (auto simp: eligible_def)

text \<open>
  C21: Evidence is only offered within its authority: whatever was removed before, every candidate
  of a bundle comes from a record of the resolver that is active, was published and available at the
  time of the request, is valid then, has an authority, rights and a kind that the profile of the
  role allows, belongs to a requested company if the request names any, and has the authority and
  rights of a valid registered source; no candidate has restricted or quarantined rights.
\<close>

theorem candidates_are_authorized:
  assumes "curated lib sources records gone resolver" and "sorts scored_less order"
    and "Resolve lib order resolver profile request = Inr fabric" and "candidate \<in> set (fbu_candidates fabric)"
  shows "\<exists>evidence \<in> set (rsv_records resolver). \<exists>source \<in> set sources.
    evr_evidence_id evidence = can_evidence_id candidate \<and> evr_lifecycle evidence = ''active'' \<and>
    evr_published_at evidence \<le> evr_available_at evidence \<and> evr_available_at evidence \<le> frq_as_of request \<and>
    evr_valid_from evidence \<notin> Some ` {frq_as_of request<..} \<and> evr_valid_to evidence \<notin> Some ` {..frq_as_of request} \<and>
    evr_authority evidence \<in> set (rfp_allowed_authorities profile) \<and>
    evr_rights evidence \<in> set (rfp_allowed_rights profile) \<and>
    evr_source_kind evidence \<in> set (rfp_allowed_source_kinds profile) \<and>
    (frq_company_ids request = [] \<or> evr_company_id evidence \<in> set (frq_company_ids request)) \<and>
    evr_source_id evidence = psr_source_id source \<and> ValidateSource lib source = None \<and>
    evr_authority evidence = psr_authority source \<and> evr_rights evidence = psr_rights source \<and>
    evr_rights evidence \<noteq> RightsRestricted \<and> evr_rights evidence \<noteq> RightsQuarantined"
proof -
  obtain evidence where evidence: "evidence \<in> set (rsv_records resolver)"
    "evr_evidence_id evidence = can_evidence_id candidate" "eligible profile request evidence"
    using candidate_evidence [OF assms(2-4)] by blast
  have registered: "registered lib resolver" "rsv_sources resolver = sources"
    using curated_registered [OF assms(1)] by simp_all
  then have "check_record lib sources evidence = None" using evidence(1) by (simp add: registered_def)
  then obtain source where source: "source \<in> set sources" "evr_source_id evidence = psr_source_id source"
    "evr_authority evidence = psr_authority source" "evr_rights evidence = psr_rights source"
    "evr_published_at evidence \<le> evr_available_at evidence"
    using check_record_source by blast
  have "ValidateSource lib source = None" using registered source(1) by (simp add: registered_def)
  with evidence(1,2) source eligible_conditions [OF evidence(3)] eligible_rights(1,2) [OF Resolve_facts(1,2) [OF assms(3)] evidence(3)]
  show ?thesis by (intro bexI [of _ evidence] bexI [of _ source] conjI)
qed

lemma sample_curated:
  obtains fabric candidate where
    "curated sample_library [sample_source] [sample_evidence ''e1'', sample_evidence ''e2''] {''e2''}
      (sample_resolver [sample_evidence ''e1'', quarantined_evidence ''e2''])"
    "Resolve sample_library (sort_by scored_less) (sample_resolver [sample_evidence ''e1'', quarantined_evidence ''e2''])
      sample_profile sample_fabric_request = Inr fabric"
    "candidate \<in> set (fbu_candidates fabric)" "can_evidence_id candidate = ''e1''"
proof -
  let ?first = "sample_resolver [sample_evidence ''e1'', sample_evidence ''e2'']"
  let ?rest = "sample_resolver [sample_evidence ''e1'', quarantined_evidence ''e2'']"
  have "Quarantine ''e2'' ?first = Inr ?rest"
    by (simp add: Quarantine_def change_record_def sample_resolver_def quarantined_evidence_def sample_evidence_def)
  then have curated: "curated sample_library [sample_source] [sample_evidence ''e1'', sample_evidence ''e2''] {''e2''} ?rest"
    using curated_quarantine [OF curated_new [OF sample_new]] by simp
  obtain fabric where fabric: "Resolve sample_library (sort_by scored_less) ?rest sample_profile sample_fabric_request = Inr fabric"
    using Resolve_total [OF sample_retrieval_valid(1,2)] by blast
  have few: "length (scored_records sample_library sample_profile sample_fabric_request (rsv_records ?rest)) \<le> 2"
    using scored_length [of _ _ _ "rsv_records ?rest"] by (simp add: sample_resolver_def numeral_2_eq_2)
  have "evr_evidence_id (sample_evidence ''e1'') \<in> can_evidence_id ` set (fbu_candidates fabric)"
    by (rule active_candidate [OF scored_order.sort_by_sorts fabric _ sample_retrieval_valid(3)])
      (use sample_scores(1) few sample_retrieval_valid(4) in \<open>simp_all add: sample_resolver_def\<close>)
  then obtain candidate where "candidate \<in> set (fbu_candidates fabric)" "can_evidence_id candidate = ''e1''"
    by (auto simp: sample_evidence_def)
  with curated fabric that show thesis by blast
qed

theorem candidates_are_authorized_witness:
  "\<exists>fabric candidate. \<exists>evidence :: EvidenceRecord. Resolve sample_library (sort_by scored_less)
      (sample_resolver [sample_evidence ''e1'', quarantined_evidence ''e2'']) sample_profile sample_fabric_request = Inr fabric \<and>
    candidate \<in> set (fbu_candidates fabric) \<and> evr_evidence_id evidence = can_evidence_id candidate \<and>
    evr_lifecycle evidence = ''active'' \<and> evr_authority evidence \<in> set (rfp_allowed_authorities sample_profile)"
proof -
  obtain fabric candidate where sample: "curated sample_library [sample_source] [sample_evidence ''e1'', sample_evidence ''e2''] {''e2''}
      (sample_resolver [sample_evidence ''e1'', quarantined_evidence ''e2''])"
    "Resolve sample_library (sort_by scored_less) (sample_resolver [sample_evidence ''e1'', quarantined_evidence ''e2''])
      sample_profile sample_fabric_request = Inr fabric" "candidate \<in> set (fbu_candidates fabric)"
    using sample_curated by metis
  from candidates_are_authorized [OF sample(1) scored_order.sort_by_sorts sample(2,3)]
  have "\<exists>evidence :: EvidenceRecord. evr_evidence_id evidence = can_evidence_id candidate \<and> evr_lifecycle evidence = ''active'' \<and>
      evr_authority evidence \<in> set (rfp_allowed_authorities sample_profile)"
    by (elim bexE conjE) (rule exI, (intro conjI; assumption))
  with sample(2,3) show ?thesis by blast
qed

section \<open>Removal\<close>

text \<open>With distinct identifiers a candidate is a record that was given to the resolver and was not removed.\<close>

lemma offered_record:
  assumes "curated lib sources records gone resolver" and "distinct (map evr_evidence_id records)"
    and "sorts scored_less order" and "Resolve lib order resolver profile request = Inr fabric"
    and "candidate \<in> set (fbu_candidates fabric)"
  obtains evidence where "evidence \<in> set (rsv_records resolver)" "evidence \<in> set records"
    "evr_evidence_id evidence = can_evidence_id candidate" "evr_evidence_id evidence \<notin> gone" "eligible profile request evidence"
proof -
  obtain evidence where evidence: "evidence \<in> set (rsv_records resolver)"
    "evr_evidence_id evidence = can_evidence_id candidate" "eligible profile request evidence"
    using candidate_evidence [OF assms(3-5)] by blast
  with curated_left [OF assms(1,2)] eligible_conditions(1) [OF evidence(3)] that show thesis
    by (auto simp: left_of_def split: if_splits)
qed

text \<open>
  C22: Removed evidence stays away: with distinct identifiers, once evidence was quarantined or
  deleted, no later bundle has a candidate with its identifier, whatever else is removed, and the
  candidates are records the resolver was given, unchanged.
\<close>

theorem removed_evidence_stays_away:
  assumes "curated lib sources records gone resolver" and "distinct (map evr_evidence_id records)"
    and "sorts scored_less order" and "Resolve lib order resolver profile request = Inr fabric"
    and "candidate \<in> set (fbu_candidates fabric)"
  shows "can_evidence_id candidate \<notin> gone \<and> can_evidence_id candidate \<in> evr_evidence_id ` set records \<and>
    (\<exists>evidence \<in> set records. evr_evidence_id evidence = can_evidence_id candidate \<and> eligible profile request evidence)"
proof -
  obtain evidence where "evidence \<in> set records" "evr_evidence_id evidence = can_evidence_id candidate"
    "evr_evidence_id evidence \<notin> gone" "eligible profile request evidence"
    using assms by (rule offered_record)
  then show ?thesis by (metis imageI)
qed

theorem removed_evidence_stays_away_witness:
  "\<exists>fabric candidate. Resolve sample_library (sort_by scored_less)
      (sample_resolver [sample_evidence ''e1'', quarantined_evidence ''e2'']) sample_profile sample_fabric_request = Inr fabric \<and>
    candidate \<in> set (fbu_candidates fabric) \<and> can_evidence_id candidate \<notin> {''e2''}"
proof -
  obtain fabric candidate where sample: "curated sample_library [sample_source] [sample_evidence ''e1'', sample_evidence ''e2''] {''e2''}
      (sample_resolver [sample_evidence ''e1'', quarantined_evidence ''e2''])"
    "Resolve sample_library (sort_by scored_less) (sample_resolver [sample_evidence ''e1'', quarantined_evidence ''e2''])
      sample_profile sample_fabric_request = Inr fabric" "candidate \<in> set (fbu_candidates fabric)"
    using sample_curated by metis
  have "distinct (map evr_evidence_id [sample_evidence ''e1'', sample_evidence ''e2''])" by code_simp
  from removed_evidence_stays_away [OF sample(1) this scored_order.sort_by_sorts sample(2,3)] sample(2,3) show ?thesis by blast
qed

text \<open>
  Nothing makes identifiers distinct: \<open>NewResolver\<close> accepts two records with the same
  identifier, and after a successful quarantine of that identifier a bundle still offers it.
\<close>

theorem quarantine_misses_duplicates:
  "\<exists>resolver left fabric. NewResolver sample_library [sample_source] [sample_evidence ''e1'', sample_evidence ''e1''] = Inr resolver \<and>
     Quarantine ''e1'' resolver = Inr left \<and>
     Resolve sample_library (sort_by scored_less) left sample_profile sample_fabric_request = Inr fabric \<and>
     ''e1'' \<in> can_evidence_id ` set (fbu_candidates fabric)"
proof -
  let ?left = "sample_resolver [quarantined_evidence ''e1'', sample_evidence ''e1'']"
  obtain fabric where fabric: "Resolve sample_library (sort_by scored_less) ?left sample_profile sample_fabric_request = Inr fabric"
    using Resolve_total [OF sample_retrieval_valid(1,2)] by blast
  have few: "length (scored_records sample_library sample_profile sample_fabric_request (rsv_records ?left)) \<le> 2"
    using scored_length [of _ _ _ "rsv_records ?left"] by (simp add: sample_resolver_def numeral_2_eq_2)
  have "evr_evidence_id (sample_evidence ''e1'') \<in> can_evidence_id ` set (fbu_candidates fabric)"
    by (rule active_candidate [OF scored_order.sort_by_sorts fabric _ sample_retrieval_valid(3)])
      (use sample_scores(2) few sample_retrieval_valid(4) in \<open>simp_all add: sample_resolver_def\<close>)
  moreover have "Quarantine ''e1'' (sample_resolver [sample_evidence ''e1'', sample_evidence ''e1'']) = Inr ?left"
    by (simp add: Quarantine_def change_record_def sample_resolver_def quarantined_evidence_def sample_evidence_def)
  ultimately show ?thesis
    using fabric sample_new [of "[sample_evidence ''e1'', sample_evidence ''e1'']"] by (auto simp: sample_evidence_def)
qed

section \<open>Ranking\<close>

lemma ranks_upto: "map (\<lambda>i. int i + 1) [0..<n] = [1..int n]"
  by (rule nth_equalityI) (simp_all add: nth_upto)

lemma bundle_within_budget:
  assumes "sorts scored_less order" and "Resolve lib order resolver profile request = Inr fabric"
  shows "int (length (fbu_candidates fabric)) \<le> rfp_candidate_budget profile"
proof -
  have "0 < frq_max_candidates request" "frq_max_candidates request \<le> rfp_candidate_budget profile"
    using Resolve_facts(2) [OF assms(2)] by (simp_all add: ValidateFabricRequest_def)
  then show ?thesis by (simp add: Resolve_facts(3) [OF assms(2)] length_ranked)
qed

text \<open>
  C23: The ranking of a bundle is determined: every correct sorting function gives the same bundle,
  its candidates are ranked from one without gaps by falling positive score, at most as many as
  the request and the budget of the profile allow, and if they are fewer, every record that is
  eligible and matches the query is among them.
\<close>

theorem bundles_are_ranked:
  assumes "sorts scored_less order" and "Resolve lib order resolver profile request = Inr fabric"
  shows "Resolve lib (sort_by scored_less) resolver profile request = Inr fabric \<and>
    map can_rank (fbu_candidates fabric) = [1..int (length (fbu_candidates fabric))] \<and>
    sorted_wrt (\<ge>) (map can_score (fbu_candidates fabric)) \<and> list_all (\<lambda>candidate. 0 < can_score candidate) (fbu_candidates fabric) \<and>
    int (length (fbu_candidates fabric)) \<le> frq_max_candidates request \<and>
    frq_max_candidates request \<le> rfp_candidate_budget profile \<and>
    (int (length (fbu_candidates fabric)) < frq_max_candidates request \<longrightarrow>
      can_evidence_id ` set (fbu_candidates fabric) = evr_evidence_id ` {evidence \<in> set (rsv_records resolver).
        eligible profile request evidence \<and> 0 < score_of lib profile request (rsv_records resolver) evidence})"
proof -
  let ?scored = "scored_records lib profile request (rsv_records resolver)"
  let ?top = "take (nat (frq_max_candidates request)) (order ?scored)"
  have fabric: "fbu_candidates fabric = ranked ?top" by (rule Resolve_facts(3) [OF assms(2)])
  have limits: "0 < frq_max_candidates request" "frq_max_candidates request \<le> rfp_candidate_budget profile"
    using Resolve_facts(2) [OF assms(2)] by (simp_all add: ValidateFabricRequest_def)
  have "Resolve lib (sort_by scored_less) resolver profile request = Inr fabric"
    using assms(2) scored_order.sort_unique [OF assms(1)] by (simp add: Resolve_def)
  moreover have "map can_rank (fbu_candidates fabric) = [1..int (length (fbu_candidates fabric))]"
    unfolding fabric ranked_ranks length_ranked by (rule ranks_upto)
  moreover have "sorted_wrt (\<ge>) (map can_score (fbu_candidates fabric))"
  proof -
    have "sorted_wrt (\<lambda>x y. \<not> scored_less y x) ?top"
      using sorts_ordered [OF assms(1)] unfolding ordered_def by (rule sorted_wrt_take)
    then have "sorted_wrt (\<lambda>x y. sco_score x \<ge> sco_score y) ?top"
      by (rule sorted_wrt_mono_rel [rotated]) (auto simp: scored_less_def split: if_splits)
    then show ?thesis unfolding fabric ranked_scores by (simp add: sorted_wrt_map)
  qed
  moreover have "list_all (\<lambda>candidate. 0 < can_score candidate) (fbu_candidates fabric)"
    using candidate_evidence [OF assms] by (auto simp: list_all_iff)
  moreover have "int (length (fbu_candidates fabric)) \<le> frq_max_candidates request"
    using limits(1) by (simp add: fabric length_ranked)
  moreover have "can_evidence_id ` set (fbu_candidates fabric) = evr_evidence_id ` {evidence \<in> set (rsv_records resolver).
        eligible profile request evidence \<and> 0 < score_of lib profile request (rsv_records resolver) evidence}"
    if "int (length (fbu_candidates fabric)) < frq_max_candidates request"
  proof -
    have "?top = order ?scored" using that by (simp add: fabric length_ranked)
    then have "can_evidence_id ` set (fbu_candidates fabric) = sco_id ` set ?scored"
      using ranked_ids [of ?top] sorts_set [OF assms(1), of ?scored] fabric by (metis set_map)
    then show ?thesis by (auto simp: scored_records_def image_image)
  qed
  ultimately show ?thesis using limits(2) by blast
qed

theorem bundles_are_ranked_witness:
  "\<exists>fabric. Resolve sample_library (sort_by scored_less)
      (sample_resolver [sample_evidence ''e1'', quarantined_evidence ''e2'']) sample_profile sample_fabric_request = Inr fabric \<and>
    map can_rank (fbu_candidates fabric) = [1..int (length (fbu_candidates fabric))]"
proof -
  obtain fabric where sample: "Resolve sample_library (sort_by scored_less)
      (sample_resolver [sample_evidence ''e1'', quarantined_evidence ''e2'']) sample_profile sample_fabric_request = Inr fabric"
    using sample_curated by metis
  from bundles_are_ranked [OF scored_order.sort_by_sorts sample] sample show ?thesis by blast
qed

end
