(* ===== verification/Release_Laws.thy ===== *)
theory Release_Laws
  imports Release_Policy Fabric_Safety
begin

text \<open>
  What the release policy decides, and how it fits the evidence resolver: evidence a bundle offers
  is never refused for its time or its rights.
\<close>

interpretation issue_order: slice_order issue_less
proof
  show "issue_less x y \<Longrightarrow> \<not> issue_less y x" for x y
    by (auto simp: issue_less_def split: if_splits)
  show "issue_less x z \<Longrightarrow> issue_less x y \<or> issue_less y z" for x y z
    by (auto simp: issue_less_def split: if_splits)
qed

section \<open>Issues\<close>

lemma set_issue_if: "set (issue_if b claim code severity names) =
    (if b then {\<lparr>pis_code = code, pis_severity = severity, pis_claim_id = rcl_claim_id claim, pis_fields = names\<rparr>} else {})"
  by (simp add: issue_if_def)

lemma issue_if_Nil [simp]: "issue_if b claim code severity names = [] \<longleftrightarrow> \<not> b"
  by (simp add: issue_if_def)

lemma issue_if_severity [simp]: "list_all (\<lambda>issue. pis_severity issue = severity) (issue_if b claim code severity names)"
  by (simp add: issue_if_def)

text \<open>The claim apart from its monitoring signal, whose absence is the only issue that can be repaired.\<close>

definition critical_issues :: "ReleasePolicy \<Rightarrow> ReleaseClaim \<Rightarrow> PolicyIssue list" where
  "critical_issues policy claim = filter (\<lambda>issue. pis_severity issue = ''critical'') (claim_issues policy claim)"

lemma filter_issue_if: "filter (\<lambda>issue. pis_severity issue = ''critical'') (issue_if b claim code severity names) =
    (if severity = ''critical'' then issue_if b claim code severity names else [])"
  by (simp add: issue_if_def)

lemma filter_parts:
  "filter (\<lambda>issue. pis_severity issue = ''critical'') (binding_issues policy claim evidence) = binding_issues policy claim evidence"
  "filter (\<lambda>issue. pis_severity issue = ''critical'') (population_issues claim) = population_issues claim"
  "filter (\<lambda>issue. pis_severity issue = ''critical'') (wording_issues claim) = wording_issues claim"
  by (simp_all add: binding_issues_def population_issues_def wording_issues_def Let_def filter_issue_if)

lemma filter_bindings:
  "filter (\<lambda>issue. pis_severity issue = ''critical'') (concat (map (binding_issues policy claim) evidence)) =
     concat (map (binding_issues policy claim) evidence)"
  by (induction evidence) (simp_all add: filter_parts)

lemma critical_issues_eq:
  "critical_issues policy claim =
     issue_if (rcl_claim_id claim = [] \<or> rcl_role_id claim = [] \<or> rcl_claim_class claim = [] \<or> blank (rcl_text claim))
       claim ''claim_identity_invalid'' ''critical'' [] @
     issue_if (rcl_evidence claim = []) claim ''evidence_missing'' ''critical'' [''evidence''] @
     concat (map (binding_issues policy claim) (rcl_evidence claim)) @
     population_issues claim @ wording_issues claim @
     issue_if (rcl_claim_class claim = ''valuation_assumption'' \<and> rcl_assumption_ids claim = []) claim
       ''valuation_assumption_unregistered'' ''critical'' [''assumption_ids'']"
  by (simp add: critical_issues_def claim_issues_def filter_issue_if filter_parts filter_bindings)

lemma claim_issues_Nil:
  "claim_issues policy claim = [] \<longleftrightarrow> critical_issues policy claim = [] \<and>
     \<not> (rcl_claim_class claim = ''risk_fact'' \<and> rcl_monitoring_ids claim = [])"
  unfolding critical_issues_eq by (auto simp: claim_issues_def)

lemma critical_exists:
  assumes "sorts issue_less order"
  shows "list_ex (\<lambda>issue. pis_severity issue = ''critical'') (order (claim_issues policy claim)) \<longleftrightarrow> critical_issues policy claim \<noteq> []"
  by (simp add: list_ex_iff sorts_set [OF assms] critical_issues_def filter_empty_conv)

lemma order_Nil: "sorts issue_less order \<Longrightarrow> order issues = [] \<longleftrightarrow> issues = []"
  by (metis sorts_length length_0_conv)

lemma decision_eq:
  assumes "sorts issue_less order"
  shows "prp_decision (EvaluateClaim order policy claim) =
    (if critical_issues policy claim \<noteq> [] then DecisionReject
     else if rcl_claim_class claim = ''risk_fact'' \<and> rcl_monitoring_ids claim = [] then DecisionRepair
     else DecisionApprove)"
  using claim_issues_Nil [of policy claim]
  by (auto simp: EvaluateClaim_def Let_def decide_issues_def critical_exists [OF assms] order_Nil [OF assms])

lemma issue_if_monitoring [simp]:
  "issue_if b (claim\<lparr>rcl_monitoring_ids := ids\<rparr>) code severity names = issue_if b claim code severity names"
  by (simp add: issue_if_def)

lemma parts_monitoring:
  "binding_issues policy (claim\<lparr>rcl_monitoring_ids := ids\<rparr>) = binding_issues policy claim"
  "population_issues (claim\<lparr>rcl_monitoring_ids := ids\<rparr>) = population_issues claim"
  "wording_issues (claim\<lparr>rcl_monitoring_ids := ids\<rparr>) = wording_issues claim"
  by (rule ext, simp add: binding_issues_def) (simp_all add: population_issues_def wording_issues_def Let_def)

lemma critical_monitoring: "critical_issues policy (claim\<lparr>rcl_monitoring_ids := ids\<rparr>) = critical_issues policy claim"
  by (simp add: critical_issues_eq parts_monitoring)

section \<open>The decision\<close>

text \<open>The abstract policy: what a claim has to be to be released.\<close>

definition adequate :: "ReleasePolicy \<Rightarrow> string \<Rightarrow> EvidenceBinding \<Rightarrow> bool" where
  "adequate policy claimClass evidence \<longleftrightarrow>
     bnd_evidence_id evidence \<noteq> [] \<and> bnd_available_at evidence \<le> rlp_as_of policy \<and>
     bnd_rights evidence \<notin> {RightsRestricted, RightsQuarantined} \<and>
     (\<forall>minimum. map_of (rlp_minimum_authority policy) claimClass = Some minimum \<longrightarrow>
        authorityRank (bnd_authority evidence) \<le> authorityRank minimum)"

definition names_at_most_one :: "string list \<Rightarrow> bool" where
  "names_at_most_one names \<longleftrightarrow> (\<exists>name. trim_space ` set names \<subseteq> {[], name})"

definition says :: "ReleaseClaim \<Rightarrow> string list \<Rightarrow> bool" where
  "says claim phrases \<longleftrightarrow> (\<exists>phrase \<in> set phrases. \<exists>l r. to_lower (rcl_text claim) = l @ phrase @ r)"

definition restrained :: "ReleaseClaim \<Rightarrow> bool" where
  "restrained claim \<longleftrightarrow>
     \<not> says claim [''will definitely'', ''guaranteed'', ''certain to'', ''must happen''] \<and>
     \<not> says claim [''you should buy'', ''you should sell'', ''invest all'', ''allocate your portfolio''] \<and>
     (says claim [''caused '', ''causes '', ''because of '', ''led to '', ''drove the stock '', ''stock moved because ''] \<longrightarrow>
        rcl_causal_class claim = ''supported_causal_design'') \<and>
     (rcl_market_concept claim = ''short_sale_volume'' \<longrightarrow> \<not> says claim [''short interest'', ''shares short'']) \<and>
     (rcl_market_feed claim = ''iex'' \<longrightarrow> \<not> says claim [''whole market'', ''consolidated market'', ''full sip'']) \<and>
     (rcl_claim_class claim = ''legal_event'' \<longrightarrow> \<not> blank (rcl_legal_status claim)) \<and>
     (rcl_attribution_type claim = ''product_vulnerability'' \<longrightarrow>
        \<not> says claim [''company was breached'', ''company suffered an incident'', ''company attack''])"

definition supported :: "ReleasePolicy \<Rightarrow> ReleaseClaim \<Rightarrow> bool" where
  "supported policy claim \<longleftrightarrow>
     [] \<notin> {rcl_claim_id claim, rcl_role_id claim, rcl_claim_class claim, trim_space (rcl_text claim)} \<and>
     rcl_evidence claim \<noteq> [] \<and> (\<forall>evidence \<in> set (rcl_evidence claim). adequate policy (rcl_claim_class claim) evidence) \<and>
     (numericLiteral (rcl_text claim) \<longrightarrow> rcl_numerical_refs claim \<noteq> []) \<and>
     names_at_most_one (rcl_currencies claim) \<and> names_at_most_one (rcl_units claim) \<and>
     (rcl_claim_class claim \<noteq> ''comparison'' \<longrightarrow>
        names_at_most_one (rcl_company_ids claim) \<and> names_at_most_one (rcl_period_keys claim)) \<and>
     (rcl_claim_class claim = ''valuation_assumption'' \<longrightarrow> rcl_assumption_ids claim \<noteq> []) \<and>
     restrained claim"

lemma inconsistent_iff: "inconsistent names \<longleftrightarrow> \<not> names_at_most_one names"
proof -
  let ?u = "uniqueNonEmpty names"
  have u: "distinct ?u" "set ?u = trim_space ` set names - {[]}"
    by (auto simp: uniqueNonEmpty_def foldl_append_unique)
  have "length ?u \<le> 1 \<longleftrightarrow> (\<exists>name. set ?u \<subseteq> {name})"
  proof
    assume "length ?u \<le> 1"
    then show "\<exists>name. set ?u \<subseteq> {name}" by (cases ?u; cases "tl ?u") auto
  next
    assume "\<exists>name. set ?u \<subseteq> {name}"
    then obtain name where "set ?u \<subseteq> {name}" by blast
    then have "card (set ?u) \<le> 1" by (metis card.empty card_mono finite.emptyI finite_insert is_singletonI is_singleton_altdef)
    with u(1) show "length ?u \<le> 1" by (simp add: distinct_card)
  qed
  moreover have "set ?u \<subseteq> {name} \<longleftrightarrow> trim_space ` set names \<subseteq> {[], name}" for name
    unfolding u(2) by blast
  ultimately show ?thesis by (auto simp: inconsistent_def names_at_most_one_def not_less)
qed

lemma binding_adequate: "binding_issues policy claim evidence = [] \<longleftrightarrow> adequate policy (rcl_claim_class claim) evidence"
  by (auto simp: binding_issues_def adequate_def not_less split: option.splits)

lemma says_iff: "containsAny (to_lower (rcl_text claim)) phrases \<longleftrightarrow> says claim phrases"
  by (simp add: containsAny_def says_def list_ex_iff str_contains_iff)

lemma restrained_iff: "wording_issues claim = [] \<longleftrightarrow> restrained claim"
  unfolding wording_issues_def causalLanguage_def Let_def says_iff restrained_def append_is_Nil_conv issue_if_Nil
  by (simp only: de_Morgan_conj not_not imp_conv_disj conj_assoc)

lemma critical_supported: "critical_issues policy claim = [] \<longleftrightarrow> supported policy claim"
  unfolding critical_issues_eq
  by (auto simp: supported_def restrained_iff population_issues_def inconsistent_iff binding_adequate)

text \<open>
  C24: The release policy decides exactly the abstract policy, however its issues are sorted: a
  claim is approved if and only if it is supported and, for a risk, monitored; a supported risk
  without a monitoring signal is the only claim sent to repair, and adding a signal gets it
  approved; everything else is rejected, nothing is ever narrowed, and the report is valid.
\<close>

theorem release_policy_decides:
  assumes "sorts issue_less order"
  shows "(prp_decision (EvaluateClaim order policy claim) = DecisionApprove \<longleftrightarrow>
      supported policy claim \<and> (rcl_claim_class claim = ''risk_fact'' \<longrightarrow> rcl_monitoring_ids claim \<noteq> [])) \<and>
    (prp_decision (EvaluateClaim order policy claim) = DecisionReject \<longleftrightarrow> \<not> supported policy claim) \<and>
    prp_decision (EvaluateClaim order policy claim) \<noteq> DecisionNarrow \<and>
    (prp_decision (EvaluateClaim order policy claim) = DecisionRepair \<longrightarrow> signal \<noteq> [] \<longrightarrow>
      prp_decision (EvaluateClaim order policy (claim\<lparr>rcl_monitoring_ids := signal\<rparr>)) = DecisionApprove) \<and>
    ValidateReport (EvaluateClaim order policy claim) = None"
proof -
  have report: "prp_issues (EvaluateClaim order policy claim) = order (claim_issues policy claim)"
    by (simp add: EvaluateClaim_def Let_def)
  have "prp_decision (EvaluateClaim order policy claim) = DecisionApprove \<longleftrightarrow> claim_issues policy claim = []"
    using claim_issues_Nil [of policy claim] by (auto simp: decision_eq [OF assms])
  then have "ValidateReport (EvaluateClaim order policy claim) = None"
    unfolding ValidateReport_def report
    by (auto simp: order_Nil [OF assms] decision_eq [OF assms])
  then show ?thesis
    using critical_supported [of policy claim] by (simp add: decision_eq [OF assms] critical_monitoring)
qed

definition released_claim :: ReleaseClaim where
  "released_claim = \<lparr>rcl_claim_id = ''c1'', rcl_role_id = ''risk'', rcl_claim_class = ''risk_fact'', rcl_text = ''supply risk'',
     rcl_company_ids = [''msft''], rcl_period_keys = [], rcl_currencies = [], rcl_units = [],
     rcl_evidence = [\<lparr>bnd_evidence_id = ''e1'', bnd_authority = AuthorityA0, bnd_rights = RightsPublicDataReviewed,
       bnd_available_at = 2, bnd_company_id = ''msft'', bnd_period_key = [], bnd_currency = [], bnd_unit = []\<rparr>],
     rcl_receipt_ids = [], rcl_numerical_refs = [], rcl_causal_class = [], rcl_legal_status = [], rcl_market_feed = [],
     rcl_market_concept = [], rcl_attribution_type = [], rcl_assumption_ids = [], rcl_monitoring_ids = []\<rparr>"

theorem release_policy_decides_witness:
  "prp_decision (EvaluateClaim (sort_by issue_less) (DefaultPolicy 3) released_claim) = DecisionRepair \<and>
   prp_decision (EvaluateClaim (sort_by issue_less) (DefaultPolicy 3) (released_claim\<lparr>rcl_monitoring_ids := [''m1'']\<rparr>)) = DecisionApprove"
proof -
  have "prp_decision (EvaluateClaim (sort_by issue_less) (DefaultPolicy 3) released_claim) = DecisionRepair" by code_simp
  with release_policy_decides [OF issue_order.sort_by_sorts, of "DefaultPolicy 3" released_claim "[''m1'']"] show ?thesis by simp
qed

section \<open>Offered evidence\<close>

lemma disjoint_notin: "A \<inter> B = {} \<Longrightarrow> x \<in> B \<Longrightarrow> x \<notin> A"
  by blast

text \<open>Only the issues of bindings have these codes.\<close>

definition binding_codes :: "string list" where
  "binding_codes = [''evidence_id_missing'', ''future_evidence'', ''rights_not_authorized'', ''authority_below_claim_minimum'']"

lemma issue_if_other: "list_all (\<lambda>issue. pis_code issue \<notin> set binding_codes) (issue_if b claim code severity names) \<longleftrightarrow>
    (b \<longrightarrow> code \<notin> set binding_codes)"
  by (simp add: issue_if_def)

lemma other_codes:
  "list_all (\<lambda>issue. pis_code issue \<notin> set binding_codes) (population_issues claim)"
  "list_all (\<lambda>issue. pis_code issue \<notin> set binding_codes) (wording_issues claim)"
  by (simp_all only: population_issues_def wording_issues_def Let_def issue_if_other list_all_append) (simp_all add: binding_codes_def)

lemma claim_issues_of_bindings:
  assumes "issue \<in> set (claim_issues policy claim)" and "pis_code issue \<in> set binding_codes"
  shows "\<exists>binding \<in> set (rcl_evidence claim). issue \<in> set (binding_issues policy claim binding)"
proof -
  have "list_all (\<lambda>issue. pis_code issue \<notin> set binding_codes)
     (issue_if (rcl_claim_id claim = [] \<or> rcl_role_id claim = [] \<or> rcl_claim_class claim = [] \<or> blank (rcl_text claim))
       claim ''claim_identity_invalid'' ''critical'' [] @
     issue_if (rcl_evidence claim = []) claim ''evidence_missing'' ''critical'' [''evidence''] @
     issue_if (rcl_claim_class claim = ''risk_fact'' \<and> rcl_monitoring_ids claim = []) claim
       ''risk_monitoring_signal_missing'' ''repairable'' [''monitoring_ids''] @
     issue_if (rcl_claim_class claim = ''valuation_assumption'' \<and> rcl_assumption_ids claim = []) claim
       ''valuation_assumption_unregistered'' ''critical'' [''assumption_ids''])"
    by (simp only: issue_if_other list_all_append) (simp add: binding_codes_def)
  with other_codes [of claim] assms show ?thesis by (auto simp: claim_issues_def list_all_iff)
qed

text \<open>A binding to evidence that the resolver offered can only lack authority.\<close>

definition below_minimum :: "ReleasePolicy \<Rightarrow> ReleaseClaim \<Rightarrow> EvidenceBinding \<Rightarrow> bool" where
  "below_minimum policy claim binding \<longleftrightarrow>
     (\<exists>minimum. map_of (rlp_minimum_authority policy) (rcl_claim_class claim) = Some minimum \<and>
        authorityRank minimum < authorityRank (bnd_authority binding))"

definition authority_issue :: "ReleasePolicy \<Rightarrow> ReleaseClaim \<Rightarrow> EvidenceBinding \<Rightarrow> PolicyIssue list" where
  "authority_issue policy claim binding = issue_if (below_minimum policy claim binding) claim
     ''authority_below_claim_minimum'' ''critical'' [bnd_evidence_id binding]"

lemma offered_binding_issues:
  assumes "check_record lib sources evidence = None" and "eligible profile request evidence"
    and "ValidateProfile profile = None" and "ValidateFabricRequest profile request = None"
    and "frq_as_of request \<le> rlp_as_of policy"
    and "bnd_evidence_id binding = evr_evidence_id evidence" and "bnd_rights binding = evr_rights evidence"
    and "bnd_available_at binding = evr_available_at evidence"
  shows "binding_issues policy claim binding = authority_issue policy claim binding"
proof -
  have "fabricSafeID (evr_evidence_id evidence)"
    using assms(1) by (auto simp: check_record_def ValidateRecord_def split: option.splits)
  then have "bnd_evidence_id binding \<noteq> []" by (simp add: assms(6) fabricSafeID_def)
  moreover have "\<not> time_after (bnd_available_at binding) (rlp_as_of policy)"
    using eligible_conditions(2) [OF assms(2)] assms(5,8) by simp
  ultimately show ?thesis
    using eligible_rights(1,2) [OF assms(3,4,2)] assms(7)
    by (auto simp: binding_issues_def authority_issue_def below_minimum_def issue_if_def split: option.splits)
qed

lemma only_authority_issues:
  assumes "sorts issue_less arrange"
    and bindings: "\<And>binding. binding \<in> set (rcl_evidence claim) \<Longrightarrow>
      binding_issues policy claim binding = authority_issue policy claim binding"
  shows "pis_code ` set (prp_issues (EvaluateClaim arrange policy claim)) \<inter>
      {''evidence_id_missing'', ''future_evidence'', ''rights_not_authorized''} = {}" (is "?codes \<inter> _ = {}")
    and "''authority_below_claim_minimum'' \<in> pis_code ` set (prp_issues (EvaluateClaim arrange policy claim)) \<longleftrightarrow>
      (\<exists>binding \<in> set (rcl_evidence claim). below_minimum policy claim binding)"
proof -
  have issues: "set (prp_issues (EvaluateClaim arrange policy claim)) = set (claim_issues policy claim)"
    by (simp add: EvaluateClaim_def Let_def sorts_set [OF assms(1)])
  have only: "pis_code issue = ''authority_below_claim_minimum'' \<and>
      (\<exists>binding \<in> set (rcl_evidence claim). below_minimum policy claim binding)"
    if issue: "issue \<in> set (claim_issues policy claim)" "pis_code issue \<in> set binding_codes" for issue
  proof -
    obtain binding where binding: "binding \<in> set (rcl_evidence claim)" "issue \<in> set (binding_issues policy claim binding)"
      using claim_issues_of_bindings [OF issue] by blast
    then have "issue \<in> set (authority_issue policy claim binding)" using bindings by simp
    then have "pis_code issue = ''authority_below_claim_minimum'' \<and> below_minimum policy claim binding"
      by (simp add: authority_issue_def issue_if_def split: if_splits)
    with binding(1) show ?thesis by blast
  qed
  show "?codes \<inter> {''evidence_id_missing'', ''future_evidence'', ''rights_not_authorized''} = {}"
  proof (rule ccontr)
    assume "\<not> ?thesis"
    then obtain issue where issue: "issue \<in> set (claim_issues policy claim)"
      "pis_code issue \<in> {''evidence_id_missing'', ''future_evidence'', ''rights_not_authorized''}"
      unfolding issues by blast
    then have "pis_code issue \<in> set binding_codes" by (auto simp only: binding_codes_def list.set insert_iff)
    with only [OF issue(1)] issue(2) show False by simp
  qed
  show "''authority_below_claim_minimum'' \<in> ?codes \<longleftrightarrow>
      (\<exists>binding \<in> set (rcl_evidence claim). below_minimum policy claim binding)" (is "?left \<longleftrightarrow> ?right")
  proof
    assume ?left
    then obtain issue where issue: "''authority_below_claim_minimum'' = pis_code issue" "issue \<in> set (claim_issues policy claim)"
      unfolding issues by (rule imageE)
    have "pis_code issue \<in> set binding_codes" by (simp add: issue(1) [symmetric] binding_codes_def)
    with only [OF issue(2)] show ?right by blast
  next
    assume ?right
    then obtain binding where binding: "binding \<in> set (rcl_evidence claim)" "below_minimum policy claim binding" by blast
    let ?issue = "\<lparr>pis_code = ''authority_below_claim_minimum'', pis_severity = ''critical'', pis_claim_id = rcl_claim_id claim,
      pis_fields = [bnd_evidence_id binding]\<rparr>"
    have "?issue \<in> set (binding_issues policy claim binding)"
      using bindings [OF binding(1)] binding(2) by (simp add: authority_issue_def set_issue_if)
    then have "?issue \<in> set (claim_issues policy claim)"
      using binding(1) unfolding claim_issues_def set_append set_concat set_map by blast
    then show ?left unfolding issues by (rule rev_image_eqI) simp
  qed
qed

text \<open>
  C25: The resolver and the release policy agree: if identifiers are distinct and the policy is
  applied at the time of the request or later, a claim whose bindings copy identifier, authority,
  rights and time of the records behind candidates of a bundle never has an issue for a missing
  identifier, evidence from the future or rights that are not authorized, whatever was removed from
  the resolver before; it has an issue for its authority exactly if a binding's authority is below
  the minimum of the policy for the class of the claim.
\<close>

theorem offered_evidence_is_releasable:
  assumes "curated lib sources records gone resolver" and "distinct (map evr_evidence_id records)"
    and "sorts scored_less order" and "Resolve lib order resolver profile request = Inr fabric"
    and "frq_as_of request \<le> rlp_as_of policy" and "sorts issue_less arrange"
    and "\<forall>binding \<in> set (rcl_evidence claim). \<exists>candidate \<in> set (fbu_candidates fabric). \<exists>evidence \<in> set records.
      evr_evidence_id evidence = can_evidence_id candidate \<and> bnd_evidence_id binding = evr_evidence_id evidence \<and>
      bnd_authority binding = evr_authority evidence \<and> bnd_rights binding = evr_rights evidence \<and>
      bnd_available_at binding = evr_available_at evidence"
  shows "pis_code ` set (prp_issues (EvaluateClaim arrange policy claim)) \<inter>
      {''evidence_id_missing'', ''future_evidence'', ''rights_not_authorized''} = {} \<and>
    (''authority_below_claim_minimum'' \<in> pis_code ` set (prp_issues (EvaluateClaim arrange policy claim)) \<longleftrightarrow>
      (\<exists>binding \<in> set (rcl_evidence claim). \<exists>minimum. map_of (rlp_minimum_authority policy) (rcl_claim_class claim) = Some minimum \<and>
        authorityRank minimum < authorityRank (bnd_authority binding)))"
proof -
  have "binding_issues policy claim binding = authority_issue policy claim binding"
    if "binding \<in> set (rcl_evidence claim)" for binding
  proof -
    from assms(7) [rule_format, OF that] show ?thesis
    proof (elim bexE conjE)
      fix candidate evidence
      assume candidate: "candidate \<in> set (fbu_candidates fabric)" "evidence \<in> set records"
          "evr_evidence_id evidence = can_evidence_id candidate"
        and same: "bnd_evidence_id binding = evr_evidence_id evidence" "bnd_rights binding = evr_rights evidence"
          "bnd_available_at binding = evr_available_at evidence"
      obtain offered where offered: "offered \<in> set (rsv_records resolver)" "offered \<in> set records"
        "evr_evidence_id offered = can_evidence_id candidate" "eligible profile request offered"
        using assms(1-4) candidate(1) by (rule offered_record)
      have "inj_on evr_evidence_id (set records)" using assms(2) by (simp add: distinct_map)
      with candidate(2,3) offered(2,3) have evidence: "evidence = offered" by (simp add: inj_on_def)
      have "check_record lib sources evidence = None"
        using curated_registered [OF assms(1)] offered(1) evidence by (auto simp: registered_def)
      from offered_binding_issues [OF this offered(4) [folded evidence] Resolve_facts(1,2) [OF assms(4)] assms(5) same]
      show ?thesis .
    qed
  qed
  from only_authority_issues [OF assms(6) this] show ?thesis unfolding below_minimum_def by (rule conjI)
qed

theorem offered_evidence_is_releasable_witness:
  "\<exists>fabric candidate. Resolve sample_library (sort_by scored_less)
      (sample_resolver [sample_evidence ''e1'', quarantined_evidence ''e2'']) sample_profile sample_fabric_request = Inr fabric \<and>
    candidate \<in> set (fbu_candidates fabric) \<and> can_evidence_id candidate = ''e1'' \<and>
    map bnd_evidence_id (rcl_evidence released_claim) = [''e1''] \<and>
    ''future_evidence'' \<notin> pis_code ` set (prp_issues (EvaluateClaim (sort_by issue_less) (DefaultPolicy 3) released_claim))"
proof -
  obtain fabric candidate where sample: "curated sample_library [sample_source] [sample_evidence ''e1'', sample_evidence ''e2''] {''e2''}
      (sample_resolver [sample_evidence ''e1'', quarantined_evidence ''e2''])"
    "Resolve sample_library (sort_by scored_less) (sample_resolver [sample_evidence ''e1'', quarantined_evidence ''e2''])
      sample_profile sample_fabric_request = Inr fabric" "candidate \<in> set (fbu_candidates fabric)" "can_evidence_id candidate = ''e1''"
    using sample_curated by metis
  have separate: "distinct (map evr_evidence_id [sample_evidence ''e1'', sample_evidence ''e2''])" by code_simp
  have time: "frq_as_of sample_fabric_request \<le> rlp_as_of (DefaultPolicy 3)"
    by (simp add: DefaultPolicy_def sample_fabric_request_def)
  have bound: "\<forall>binding \<in> set (rcl_evidence released_claim). \<exists>candidate \<in> set (fbu_candidates fabric).
      \<exists>evidence \<in> set [sample_evidence ''e1'', sample_evidence ''e2''].
      evr_evidence_id evidence = can_evidence_id candidate \<and> bnd_evidence_id binding = evr_evidence_id evidence \<and>
      bnd_authority binding = evr_authority evidence \<and> bnd_rights binding = evr_rights evidence \<and>
      bnd_available_at binding = evr_available_at evidence"
    using sample(3,4) by (auto simp: released_claim_def sample_evidence_def intro!: bexI [of _ candidate])
  note agreed = offered_evidence_is_releasable [OF sample(1) separate scored_order.sort_by_sorts sample(2) time issue_order.sort_by_sorts bound]
  have "''future_evidence'' \<notin> pis_code ` set (prp_issues (EvaluateClaim (sort_by issue_less) (DefaultPolicy 3) released_claim))"
    by (rule disjoint_notin [OF agreed [THEN conjunct1]]) simp
  moreover have "map bnd_evidence_id (rcl_evidence released_claim) = [''e1'']" by (simp add: released_claim_def)
  ultimately show ?thesis using sample(2-4) by (intro exI conjI)
qed

end
