(* ===== verification/Role_Profiles.thy ===== *)
theory Role_Profiles
  imports Fabric_Safety Roles
begin

text \<open>
  The retrieval profiles of the roles (\<open>internal/roleprofiles/profiles.go\<close>): their registry, the
  default profiles, and what they allow. \<open>clone\<close> copies slices, which is the identity on values.
\<close>

section \<open>The registry\<close>

type_synonym ProfileRegistry = "RetrievalProfile list"

definition check_profile :: "RoleRegistry \<Rightarrow> RetrievalProfile \<Rightarrow> go_error option" where
  "check_profile roleRegistry profile = first_err
     [wrap_err ''profile %q: %w'' [FStr (rfp_profile_id profile)] (ValidateProfile profile),
      (case GetRole roleRegistry (rfp_role_id profile) of
         None \<Rightarrow> Some (Errorf ''profile %q references unknown role'' [FStr (rfp_profile_id profile)])
       | Some role \<Rightarrow> range_err (\<lambda>_ toolID. fail_if (toolID \<notin> set (rl_allowed_tools role))
           (Errorf ''profile %q exceeds role tool authority with %q'' [FStr (rfp_profile_id profile), FStr toolID]))
           (rfp_tool_allowlist profile))]"

definition register_profiles :: "RoleRegistry \<Rightarrow> RetrievalProfile list \<Rightarrow> go_error + ProfileRegistry" where
  "register_profiles roleRegistry profiles = check_then
     (scan_unique (\<lambda>_. check_profile roleRegistry) rfp_role_id
        (\<lambda>_ profile. Errorf ''duplicate profile for role %q'' [FStr (rfp_role_id profile)]) no_check profiles)
     (Inr profiles)"

definition NewProfileRegistry :: "RetrievalProfile list \<Rightarrow> go_error + ProfileRegistry" where
  "NewProfileRegistry profiles =
     (case DefaultRegistry of Inl err \<Rightarrow> Inl err
      | Inr roleRegistry \<Rightarrow>
          (case register_profiles roleRegistry profiles of Inl err \<Rightarrow> Inl err
           | Inr registry \<Rightarrow>
               if length registry \<noteq> length (ListRoles roleRegistry) then
                 Inl (Errorf ''profile coverage mismatch: got %d want %d''
                   [FInt (int (length registry)), FInt (int (length (ListRoles roleRegistry)))])
               else Inr registry))"

definition GetProfile :: "ProfileRegistry \<Rightarrow> string \<Rightarrow> RetrievalProfile option" where
  "GetProfile registry roleID = index_by rfp_role_id registry roleID"

definition ListProfiles :: "ProfileRegistry \<Rightarrow> RetrievalProfile list" where
  "ListProfiles registry = concat (map (\<lambda>roleID. case GetProfile registry roleID of Some profile \<Rightarrow> [profile] | None \<Rightarrow> [])
     (sort (map rfp_role_id registry)))"

lemma register_profiles_Inr:
  "register_profiles roleRegistry profiles = Inr registry \<longleftrightarrow>
     (\<forall>profile \<in> set profiles. check_profile roleRegistry profile = None) \<and> distinct (map rfp_role_id profiles) \<and>
     registry = profiles"
  unfolding register_profiles_def
  by (simp add: scan_unique_None [where P = "\<lambda>profile. check_profile roleRegistry profile = None" and Q = "\<lambda>_. True"]) auto

interpretation profile_registry: keyed_registry rfp_role_id "\<lambda>profile. check_profile defaultRoles profile = None"
  "register_profiles defaultRoles" GetProfile ListProfiles
proof
  show "ListProfiles r = sort_key rfp_role_id r" if "distinct (map rfp_role_id r)" for r
    using listed_by_sorted_keys [OF that] by (simp add: ListProfiles_def GetProfile_def)
qed (simp_all add: register_profiles_Inr GetProfile_def)

section \<open>The default profiles\<close>

definition no_retrieval :: "string \<Rightarrow> RetrievalProfile" where
  "no_retrieval roleID = \<lparr>rfp_schema_version = FabricSchema, rfp_profile_id = roleID @ ''.retrieval/v1'', rfp_role_id = roleID,
     rfp_version = ''1.0.0'', rfp_mode = RetrievalNone, rfp_allowed_authorities = [], rfp_allowed_rights = [],
     rfp_allowed_source_kinds = [], rfp_claim_classes = [], rfp_tool_allowlist = [], rfp_company_required = False,
     rfp_as_of_required = False, rfp_hyde = HyDENone, rfp_candidate_budget = 0, rfp_context_token_budget = 0\<rparr>"

definition active_retrieval :: "string \<Rightarrow> string \<Rightarrow> string \<Rightarrow> string list \<Rightarrow> string list \<Rightarrow> string list \<Rightarrow> bool \<Rightarrow> int \<Rightarrow> int \<Rightarrow> RetrievalProfile" where
  "active_retrieval roleID mode hyde kinds claims tools companyRequired candidateBudget tokenBudget =
     \<lparr>rfp_schema_version = FabricSchema, rfp_profile_id = roleID @ ''.retrieval/v1'', rfp_role_id = roleID,
      rfp_version = ''1.0.0'', rfp_mode = mode,
      rfp_allowed_authorities = [AuthorityA0, AuthorityA1, AuthorityA2, AuthorityA3],
      rfp_allowed_rights = [RightsPublicDataReviewed, RightsPublicAPITerms, RightsPublicAuthorial, RightsPublicMetadata],
      rfp_allowed_source_kinds = kinds, rfp_claim_classes = claims, rfp_tool_allowlist = tools,
      rfp_company_required = companyRequired, rfp_as_of_required = True, rfp_hyde = hyde,
      rfp_candidate_budget = candidateBudget, rfp_context_token_budget = tokenBudget\<rparr>"

definition defaultProfiles :: "RetrievalProfile list" where
  "defaultProfiles =
     [no_retrieval RequestInterpreter,
      no_retrieval ResearchOrchestrator,
      active_retrieval BusinessStrategy RetrievalHybrid HyDEConditional
        [''sec_business'', ''sec_risk'', ''issuer_authorial'', ''industry_statistic'', ''patent_metadata'', ''competition_event'', ''research_card'']
        [''business_fact'', ''issuer_claim'', ''industry_context'', ''strategy_hypothesis'']
        [''evidence.retrieve''] True 24 5000,
      active_retrieval AccountingReporting RetrievalHybrid HyDEConditional
        [''sec_statement'', ''sec_footnote'', ''sec_amendment'', ''accounting_update_metadata'', ''audit_metadata'', ''authorial_accounting'']
        [''reported_fact'', ''accounting_policy'', ''comparability_boundary'', ''disclosure_interpretation'']
        [''evidence.retrieve'', ''engine.execute''] True 24 5000,
      active_retrieval FinancialQuality RetrievalLexical HyDENone
        [''sec_statement'', ''sec_footnote'', ''sec_mda'', ''issuer_authorial'', ''calculation_receipt'']
        [''reported_fact'', ''calculation'', ''financial_interpretation'', ''quality_boundary'']
        [''evidence.retrieve'', ''engine.execute''] True 20 5000,
      active_retrieval EconomicsTransmission RetrievalHybrid HyDEConditional
        [''macro_observation'', ''macro_methodology'', ''industry_statistic'', ''research_card'', ''sec_segment'', ''historical_episode'']
        [''macro_fact'', ''transmission_mechanism'', ''association'', ''causal_boundary'']
        [''evidence.retrieve'', ''macro.read'', ''engine.execute''] False 24 5000,
      active_retrieval ValuationRole RetrievalLexical HyDENone
        [''sec_statement'', ''market_observation'', ''treasury_observation'', ''calculation_receipt'', ''valuation_methodology'', ''peer_metadata'']
        [''valuation_assumption'', ''calculation'', ''market_expectation'', ''valuation_boundary'']
        [''evidence.retrieve'', ''engine.execute'', ''market.read''] True 18 5000,
      active_retrieval MarketBehavior RetrievalLexical HyDENone
        [''market_observation'', ''corporate_action'', ''issuer_event'', ''finra_observation'', ''market_methodology'']
        [''market_fact'', ''market_statistic'', ''event_association'', ''causal_boundary'']
        [''market.read'', ''engine.execute''] True 18 5000,
      active_retrieval RiskContrarian RetrievalHybrid HyDEConditional
        [''sec_risk'', ''legal_event'', ''regulatory_event'', ''governance_event'', ''cyber_vulnerability'', ''supply_chain_context'', ''research_card'']
        [''risk_fact'', ''counterevidence'', ''invalidation_condition'', ''monitoring_signal'']
        [''evidence.retrieve''] True 28 4000,
      active_retrieval EvidenceCritic RetrievalResolution HyDENone
        [''source_metadata'', ''evidence_locator'', ''calculation_receipt'', ''rights_record'', ''lineage_record'']
        [''provenance_check'', ''rights_check'', ''temporal_check'', ''claim_disposition'']
        [''evidence.resolve'', ''receipt.replay''] False 32 4000,
      no_retrieval FinalResearchAnalyst]"

definition DefaultProfileRegistry :: "go_error + ProfileRegistry" where
  "DefaultProfileRegistry = (case NewProfileRegistry defaultProfiles of
     Inl err \<Rightarrow> Inl (Panic ''default profiles'') | Inr registry \<Rightarrow> Inr registry)"

lemma NewProfileRegistry_Inr:
  "NewProfileRegistry profiles = Inr registry \<longleftrightarrow>
     register_profiles defaultRoles profiles = Inr registry \<and> length registry = length defaultRoles"
proof -
  have "ListRoles defaultRoles = sort_key rl_role_id defaultRoles"
    using role_registry.listed_def NewRoleRegistry_default role_registry.build_Inr by blast
  then have "length (ListRoles defaultRoles) = length defaultRoles" by simp
  then show ?thesis by (auto simp: NewProfileRegistry_def DefaultRegistry_eq split: sum.splits)
qed

lemma default_profiles_accepted: "DefaultProfileRegistry = Inr defaultProfiles"
proof -
  have "list_all (\<lambda>profile. check_profile defaultRoles profile = None) defaultProfiles" by code_simp
  moreover have "distinct (map rfp_role_id defaultProfiles) \<and> length defaultProfiles = length defaultRoles" by code_simp
  ultimately have "NewProfileRegistry defaultProfiles = Inr defaultProfiles"
    by (simp add: NewProfileRegistry_Inr register_profiles_Inr list_all_iff)
  then show ?thesis by (simp add: DefaultProfileRegistry_def)
qed

section \<open>Coverage\<close>

lemma check_profile_role:
  assumes "check_profile defaultRoles profile = None"
  shows "ValidateProfile profile = None \<and> (\<exists>role \<in> set defaultRoles. rl_role_id role = rfp_role_id profile \<and>
    set (rfp_tool_allowlist profile) \<subseteq> set (rl_allowed_tools role))"
proof -
  from assms obtain role where role: "GetRole defaultRoles (rfp_role_id profile) = Some role"
    "range_err (\<lambda>_ toolID. fail_if (toolID \<notin> set (rl_allowed_tools role))
       (Errorf ''profile %q exceeds role tool authority with %q'' [FStr (rfp_profile_id profile), FStr toolID]))
       (rfp_tool_allowlist profile) = None" and valid: "ValidateProfile profile = None"
    by (auto simp: check_profile_def split: option.splits)
  from role(2) have "set (rfp_tool_allowlist profile) \<subseteq> set (rl_allowed_tools role)"
    by (subst (asm) range_err_None_uniform [where P = "\<lambda>toolID. toolID \<in> set (rl_allowed_tools role)"]) auto
  moreover have "role \<in> set defaultRoles" "rl_role_id role = rfp_role_id profile"
    using index_by_Some [of rl_role_id defaultRoles] role(1) by (auto simp: GetRole_def)
  ultimately show ?thesis using valid by blast
qed

text \<open>
  An accepted registry of retrieval profiles covers the roles exactly: every default role has
  one profile, found under its identifier, that is valid and allows no tool the role lacks; the
  code only compares the number of profiles with the number of roles. The default profiles are
  accepted, so that the default registry never panics.
\<close>

theorem profiles_cover_the_roles:
  assumes "NewProfileRegistry profiles = Inr registry"
  shows "set (map rfp_role_id registry) = set (map rl_role_id defaultRoles) \<and>
    (\<forall>role \<in> set defaultRoles. \<exists>profile. GetProfile registry (rl_role_id role) = Some profile \<and>
       ValidateProfile profile = None \<and> set (rfp_tool_allowlist profile) \<subseteq> set (rl_allowed_tools role)) \<and>
    DefaultProfileRegistry = Inr defaultProfiles"
proof -
  have registry: "register_profiles defaultRoles profiles = Inr registry" "length registry = length defaultRoles"
    using assms by (simp_all add: NewProfileRegistry_Inr)
  then have checked: "\<forall>profile \<in> set registry. check_profile defaultRoles profile = None" "distinct (map rfp_role_id registry)"
    by (auto simp: register_profiles_Inr)
  have roles: "distinct (map rl_role_id defaultRoles)"
    using NewRoleRegistry_default role_registry.build_Inr by blast
  have subset: "set (map rfp_role_id registry) \<subseteq> set (map rl_role_id defaultRoles)"
  proof
    fix roleID assume "roleID \<in> set (map rfp_role_id registry)"
    then obtain profile where "profile \<in> set registry" "roleID = rfp_role_id profile" by auto
    with checked(1) check_profile_role obtain role where "role \<in> set defaultRoles" "rl_role_id role = roleID" by metis
    then show "roleID \<in> set (map rl_role_id defaultRoles)" by (metis image_eqI set_map)
  qed
  have ids: "set (map rfp_role_id registry) = set (map rl_role_id defaultRoles)"
    by (rule card_subset_eq [OF _ subset]) (simp_all only: distinct_card [OF checked(2)] distinct_card [OF roles] List.finite_set length_map registry(2))
  have "\<exists>profile. GetProfile registry (rl_role_id role) = Some profile \<and> ValidateProfile profile = None \<and>
      set (rfp_tool_allowlist profile) \<subseteq> set (rl_allowed_tools role)" if role: "role \<in> set defaultRoles" for role
  proof -
    have "rl_role_id role \<in> rfp_role_id ` set registry" using ids role by (metis image_eqI set_map)
    then obtain profile where profile: "profile \<in> set registry" "rfp_role_id profile = rl_role_id role" by auto
    then have "GetProfile registry (rl_role_id role) = Some profile"
      using index_by_distinct [OF checked(2)] by (metis GetProfile_def)
    moreover obtain other where other: "other \<in> set defaultRoles" "rl_role_id other = rfp_role_id profile"
      "set (rfp_tool_allowlist profile) \<subseteq> set (rl_allowed_tools other)" "ValidateProfile profile = None"
      using check_profile_role checked(1) profile(1) by blast
    have "other = role" using roles role other(1,2) profile(2) by (simp add: distinct_map inj_on_def)
    ultimately show ?thesis using other(3,4) by blast
  qed
  with ids default_profiles_accepted show ?thesis by blast
qed

lemma default_registered: "NewProfileRegistry defaultProfiles = Inr defaultProfiles"
  using default_profiles_accepted by (auto simp: DefaultProfileRegistry_def split: sum.splits)

theorem profiles_cover_the_roles_witness:
  "set (map rfp_role_id defaultProfiles) = set (map rl_role_id defaultRoles)"
  using profiles_cover_the_roles [OF default_registered] by blast

definition silent_roles :: "string list" where
  "silent_roles = [RequestInterpreter, ResearchOrchestrator, FinalResearchAnalyst]"

lemma default_limits:
  "list_all (\<lambda>profile. (rfp_role_id profile \<in> set silent_roles \<longrightarrow> rfp_mode profile = RetrievalNone) \<and>
     rfp_candidate_budget profile \<le> 32) defaultProfiles"
  by code_simp

text \<open>
  With the default profiles the roles that interpret the request, plan, or write the answer
  never see retrieved evidence, and no role ever sees more than 32 candidates.
\<close>

theorem only_research_roles_retrieve:
  assumes "GetProfile defaultProfiles roleID = Some profile"
    and "Resolve lib order resolver profile request = Inr fabric" and "sorts scored_less order"
  shows "roleID \<notin> set silent_roles \<and> frq_role_id request = roleID \<and> length (fbu_candidates fabric) \<le> 32"
proof -
  have profile: "profile \<in> set defaultProfiles" "rfp_role_id profile = roleID"
    using assms(1) index_by_Some [of rfp_role_id defaultProfiles] by (auto simp: GetProfile_def)
  have "ValidateFabricRequest profile request = None" by (rule Resolve_facts(2) [OF assms(2)])
  then have request: "rfp_mode profile \<noteq> RetrievalNone" "frq_role_id request = rfp_role_id profile"
    by (simp_all add: ValidateFabricRequest_def)
  from default_limits profile(1) have limits: "rfp_role_id profile \<in> set silent_roles \<longrightarrow> rfp_mode profile = RetrievalNone"
    "rfp_candidate_budget profile \<le> 32"
    unfolding list_all_iff by fast+
  then have "length (fbu_candidates fabric) \<le> 32" using bundle_within_budget [OF assms(3,2)] by linarith
  with limits(1) request profile(2) show ?thesis by simp
qed

definition strategy_request :: FabricRequest where
  "strategy_request = sample_fabric_request\<lparr>frq_role_id := BusinessStrategy\<rparr>"

theorem only_research_roles_retrieve_witness:
  "\<exists>profile fabric. GetProfile defaultProfiles BusinessStrategy = Some profile \<and>
     Resolve sample_library (sort_by scored_less) (sample_resolver []) profile strategy_request = Inr fabric \<and>
     BusinessStrategy \<notin> set silent_roles"
proof -
  have profile: "GetProfile defaultProfiles BusinessStrategy = Some (defaultProfiles ! 2)"
    "ValidateProfile (defaultProfiles ! 2) = None" "ValidateFabricRequest (defaultProfiles ! 2) strategy_request = None"
    by code_simp+
  obtain fabric where "Resolve sample_library (sort_by scored_less) (sample_resolver []) (defaultProfiles ! 2) strategy_request = Inr fabric"
    using Resolve_total [OF profile(2,3)] by blast
  with only_research_roles_retrieve [OF profile(1) this scored_order.sort_by_sorts] profile(1) show ?thesis by blast
qed

end
