(* ===== verification/Decimals.thy ===== *)
theory Decimals
  imports Go_Lists
begin

text \<open>
  Decimal numbers (\<open>internal/numeric/types.go\<close>, \<open>internal/finance/decimal.go\<close> and the helpers at the
  end of \<open>internal/financialperiod/period.go\<close>). A \<open>Decimal\<close> is its canonical text. The library that
  computes with decimals (cockroachdb/apd, with the context of the repository: 34 digits, rounding
  to even) is not part of the repository: its functions are a parameter, and \<open>decimal_laws\<close> states
  what its documentation promises.
\<close>

section \<open>The library\<close>

record 'd decimal_lib =
  dec_new :: "string \<Rightarrow> go_error + 'd"
  dec_string :: "'d \<Rightarrow> string"
  dec_finite :: "'d \<Rightarrow> bool"
  dec_reduced :: "'d \<Rightarrow> string"
  dec_add :: "'d \<Rightarrow> 'd \<Rightarrow> go_error + 'd"
  dec_sub :: "'d \<Rightarrow> 'd \<Rightarrow> go_error + 'd"
  dec_mul :: "'d \<Rightarrow> 'd \<Rightarrow> go_error + 'd"
  dec_quo :: "'d \<Rightarrow> 'd \<Rightarrow> go_error + 'd"
  dec_pow :: "'d \<Rightarrow> 'd \<Rightarrow> go_error + 'd"
  dec_neg :: "'d \<Rightarrow> go_error + 'd"
  dec_abs :: "'d \<Rightarrow> go_error + 'd"
  dec_cmp :: "'d \<Rightarrow> 'd \<Rightarrow> int"

type_synonym Decimal = string

definition ParseDecimal :: "'d decimal_lib \<Rightarrow> string \<Rightarrow> go_error + Decimal" where
  "ParseDecimal L value =
     (case dec_new L (trim_space value) of
        Inl err \<Rightarrow> Inl (Wrapf ''parse decimal: %w'' [] err)
      | Inr parsed \<Rightarrow>
          if \<not> dec_finite L parsed then Inl (ErrorsNew ''decimal must be finite'')
          else Inr (dec_reduced L parsed))"

definition MustDecimal :: "'d decimal_lib \<Rightarrow> string \<Rightarrow> go_error + Decimal" where
  "MustDecimal L value = (case ParseDecimal L value of Inl err \<Rightarrow> Inl (Panic ''decimal'') | Inr parsed \<Rightarrow> Inr parsed)"

section \<open>Arithmetic on decimals\<close>

definition decimalBinary :: "'d decimal_lib \<Rightarrow> ('d \<Rightarrow> 'd \<Rightarrow> go_error + 'd) \<Rightarrow> Decimal \<Rightarrow> Decimal \<Rightarrow> go_error + Decimal" where
  "decimalBinary L operation left right =
     (case dec_new L left of Inl err \<Rightarrow> Inl err
      | Inr x \<Rightarrow>
          (case dec_new L right of Inl err \<Rightarrow> Inl err
           | Inr y \<Rightarrow>
               (case operation x y of Inl err \<Rightarrow> Inl err
                | Inr result \<Rightarrow> ParseDecimal L (dec_string L result))))"

definition decimalAbs :: "'d decimal_lib \<Rightarrow> Decimal \<Rightarrow> go_error + Decimal" where
  "decimalAbs L value =
     (case dec_new L value of Inl err \<Rightarrow> Inl err
      | Inr parsed \<Rightarrow>
          (case dec_abs L parsed of Inl err \<Rightarrow> Inl err
           | Inr result \<Rightarrow> ParseDecimal L (dec_string L result)))"

definition decimalCompare :: "'d decimal_lib \<Rightarrow> Decimal \<Rightarrow> Decimal \<Rightarrow> go_error + int" where
  "decimalCompare L left right =
     (case dec_new L left of Inl err \<Rightarrow> Inl err
      | Inr x \<Rightarrow> (case dec_new L right of Inl err \<Rightarrow> Inl err | Inr y \<Rightarrow> Inr (dec_cmp L x y)))"

section \<open>What the library promises\<close>

text \<open>
  \<open>num\<close> is the number a canonical text stands for and \<open>rnd\<close> the rounding of the context, which
  is monotone, keeps zero and never rounds a number to zero (the traps of the context make a
  result too small an error). A canonical text is one that \<open>ParseDecimal\<close> returns. Of powers
  only the sign is used.
\<close>

definition canonical_text :: "'d decimal_lib \<Rightarrow> string \<Rightarrow> bool" where
  "canonical_text L s \<longleftrightarrow> (\<exists>t. ParseDecimal L t = Inr s)"

definition rounding :: "(rat \<Rightarrow> rat) \<Rightarrow> bool" where
  "rounding rnd \<longleftrightarrow> mono rnd \<and> (\<forall>x. rnd x = 0 \<longleftrightarrow> x = 0)"

definition decimal_laws :: "'d decimal_lib \<Rightarrow> (string \<Rightarrow> rat) \<Rightarrow> (rat \<Rightarrow> rat) \<Rightarrow> bool" where
  "decimal_laws L num rnd \<longleftrightarrow> rounding rnd \<and> ParseDecimal L ''0'' = Inr ''0'' \<and> num ''0'' = 0 \<and>
     ParseDecimal L ''1'' = Inr ''1'' \<and> num ''1'' = 1 \<and>
     (\<forall>s t n. canonical_text L s \<longrightarrow> canonical_text L t \<longrightarrow>
        (decimalBinary L (dec_add L) s t = Inr n \<longrightarrow> num n = rnd (num s + num t)) \<and>
        (decimalBinary L (dec_sub L) s t = Inr n \<longrightarrow> num n = rnd (num s - num t)) \<and>
        (decimalBinary L (dec_mul L) s t = Inr n \<longrightarrow> num n = rnd (num s * num t)) \<and>
        (decimalBinary L (dec_quo L) s t = Inr n \<longrightarrow> num t \<noteq> 0 \<and> num n = rnd (num s / num t)) \<and>
        (decimalBinary L (dec_pow L) s t = Inr n \<longrightarrow> 0 < num s \<longrightarrow> 0 < num n) \<and>
        (decimalAbs L s = Inr n \<longrightarrow> num n = rnd \<bar>num s\<bar>)) \<and>
     (\<forall>s t. canonical_text L s \<longrightarrow> canonical_text L t \<longrightarrow>
        (\<exists>c. decimalCompare L s t = Inr c \<and> sgn c = sgn (if num s < num t then -1 else if num s = num t then 0 else 1 :: int)))"

lemma rounding_sign:
  assumes "rounding rnd"
  shows "0 < rnd x \<longleftrightarrow> 0 < x" and "rnd x < 0 \<longleftrightarrow> x < 0" and "rnd 0 = 0"
proof -
  have mono: "mono rnd" and zero: "\<And>x. rnd x = 0 \<longleftrightarrow> x = 0" using assms by (auto simp: rounding_def)
  show zero': "rnd 0 = 0" using zero by blast
  have "0 \<le> x \<Longrightarrow> 0 \<le> rnd x" "x \<le> 0 \<Longrightarrow> rnd x \<le> 0" for x using monoD [OF mono] zero' by metis+
  then show "0 < rnd x \<longleftrightarrow> 0 < x" "rnd x < 0 \<longleftrightarrow> x < 0" using zero [of x]
    by (metis linorder_not_less order_le_less)+
qed

lemma decimalBinary_canonical: "decimalBinary L operation s t = Inr n \<Longrightarrow> canonical_text L n"
  by (auto simp: decimalBinary_def canonical_text_def split: sum.splits)

lemma decimalAbs_canonical: "decimalAbs L s = Inr n \<Longrightarrow> canonical_text L n"
  by (auto simp: decimalAbs_def canonical_text_def split: sum.splits)

lemma zero_canonical: "decimal_laws L num rnd \<Longrightarrow> canonical_text L ''0''"
  by (auto simp: decimal_laws_def canonical_text_def)

lemma decimal_results:
  assumes "decimal_laws L num rnd" and "canonical_text L s" and "canonical_text L t"
  shows "decimalBinary L (dec_add L) s t = Inr n \<Longrightarrow> num n = rnd (num s + num t)"
    and "decimalBinary L (dec_sub L) s t = Inr n \<Longrightarrow> num n = rnd (num s - num t)"
    and "decimalAbs L s = Inr n \<Longrightarrow> num n = rnd \<bar>num s\<bar>"
    and "decimalBinary L (dec_mul L) s t = Inr n \<Longrightarrow> num n = rnd (num s * num t)"
    and "decimalBinary L (dec_quo L) s t = Inr n \<Longrightarrow> num t \<noteq> 0 \<and> num n = rnd (num s / num t)"
    and "decimalBinary L (dec_pow L) s t = Inr n \<Longrightarrow> 0 < num s \<Longrightarrow> 0 < num n"
  using assms unfolding decimal_laws_def by blast+

lemma decimal_compare:
  assumes "decimal_laws L num rnd" and "canonical_text L s" and "canonical_text L t"
  obtains c where "decimalCompare L s t = Inr c" and "c < 0 \<longleftrightarrow> num s < num t" and "c > 0 \<longleftrightarrow> num t < num s"
    and "c = 0 \<longleftrightarrow> num s = num t"
proof -
  obtain c where c: "decimalCompare L s t = Inr c" "sgn c = sgn (if num s < num t then -1 else if num s = num t then 0 else 1 :: int)"
    using assms unfolding decimal_laws_def by blast
  have "c < 0 \<longleftrightarrow> num s < num t" "c > 0 \<longleftrightarrow> num t < num s" "c = 0 \<longleftrightarrow> num s = num t"
    using c(2) by (auto simp: sgn_if split: if_splits)
  with c(1) that show thesis by blast
qed

end
