(* ===== verification/Financial_Period.thy ===== *)
theory Financial_Period
  imports Decimals
begin

text \<open>
  Periods and observations of \<open>internal/financialperiod/period.go\<close>: validation, sign normalization,
  trailing twelve months, common size and trends. Times are instants in UTC, so that adding a day
  adds 24 hours. The order in which Go visits a map and the result of an unstable sort are
  parameters.
\<close>

section \<open>Records\<close>

abbreviation ClassReported :: string where "ClassReported \<equiv> ''reported_fact''"
abbreviation ClassNormalized :: string where "ClassNormalized \<equiv> ''normalized_fact''"
abbreviation ClassDerived :: string where "ClassDerived \<equiv> ''derived_metric''"
abbreviation ClassEstimate :: string where "ClassEstimate \<equiv> ''estimate''"
abbreviation ClassScenario :: string where "ClassScenario \<equiv> ''scenario''"

abbreviation SignPreserve :: string where "SignPreserve \<equiv> ''preserve_reported_sign''"
abbreviation SignPositiveUse :: string where "SignPositiveUse \<equiv> ''normalize_cash_outflow_to_positive_use''"

abbreviation KindInstant :: string where "KindInstant \<equiv> ''instant''"
abbreviation KindQuarter :: string where "KindQuarter \<equiv> ''quarter''"
abbreviation KindYearToDate :: string where "KindYearToDate \<equiv> ''year_to_date''"
abbreviation KindAnnual :: string where "KindAnnual \<equiv> ''annual''"
abbreviation KindTTM :: string where "KindTTM \<equiv> ''trailing_twelve_months''"

record FinPeriod =
  fpd_kind :: string
  fpd_start :: "gotime option"
  fpd_end :: gotime
  fpd_fiscal_year :: int
  fpd_fiscal_quarter :: int
  fpd_label :: string

record Observation =
  obs_metric_id :: string
  obs_company_id :: string
  obs_class :: string
  obs_value :: Decimal
  obs_raw_reported_value :: "Decimal option"
  obs_unit :: string
  obs_currency :: string
  obs_scale :: int
  obs_period :: FinPeriod
  obs_available_at :: gotime
  obs_computed_at :: gotime
  obs_source_fact_ids :: "string list"
  obs_transformation_id :: string
  obs_sign_policy :: string
  obs_amendment_chain :: "string list"

section \<open>Validation\<close>

definition ValidateFinPeriod :: "FinPeriod \<Rightarrow> go_error option" where
  "ValidateFinPeriod period = first_err
     [fail_if (is_zero_time (fpd_end period) \<or> blank (fpd_label period))
        (ErrorsNew ''period end and label are required''),
      (if fpd_kind period = KindInstant then
         fail_if (fpd_start period \<noteq> None) (ErrorsNew ''instant period cannot declare a start'')
       else if fpd_kind period \<in> set [KindQuarter, KindYearToDate, KindAnnual, KindTTM] then
         fail_if (case fpd_start period of None \<Rightarrow> True | Some start \<Rightarrow> \<not> time_before start (fpd_end period))
           (ErrorsNew ''duration period requires an ordered start and end'')
       else Some (Errorf ''unsupported period kind %q'' [FStr (fpd_kind period)])),
      fail_if (fpd_fiscal_quarter period < 0 \<or> fpd_fiscal_quarter period > 4)
        (ErrorsNew ''fiscal quarter must be between zero and four'')]"

definition ValidateObservation :: "Observation \<Rightarrow> gotime \<Rightarrow> go_error option" where
  "ValidateObservation observation cutoff = first_err
     [fail_if (obs_metric_id observation = [] \<or> obs_company_id observation = [] \<or> obs_unit observation = [])
        (ErrorsNew ''metric, company, and unit are required''),
      ValidateFinPeriod (obs_period observation),
      (if obs_class observation \<in> set [ClassReported, ClassDerived, ClassEstimate, ClassScenario] then None
       else if obs_class observation = ClassNormalized then
         fail_if (obs_raw_reported_value observation = None \<or> obs_sign_policy observation = [] \<or>
             obs_transformation_id observation = [])
           (ErrorsNew ''normalized fact requires raw value, sign policy, and transformation lineage'')
       else Some (ErrorsNew ''observation class is required'')),
      fail_if (is_zero_time (obs_available_at observation) \<or> time_after (obs_available_at observation) cutoff)
        (ErrorsNew ''look_ahead_detected: observation is unavailable at cutoff''),
      fail_if (obs_unit observation = ''currency'' \<and> length (obs_currency observation) \<noteq> 3)
        (ErrorsNew ''currency observation requires a three-letter currency''),
      fail_if (obs_unit observation \<noteq> ''currency'' \<and> obs_currency observation \<noteq> [])
        (ErrorsNew ''non-currency observation cannot declare a currency''),
      fail_if (obs_source_fact_ids observation = []) (ErrorsNew ''source fact lineage is required'')]"

section \<open>Signs\<close>

definition normalized_by :: "string \<Rightarrow> gotime \<Rightarrow> Observation \<Rightarrow> Observation" where
  "normalized_by policy computedAt observation = observation\<lparr>
     obs_raw_reported_value := Some (obs_value observation), obs_class := ClassNormalized,
     obs_sign_policy := policy, obs_computed_at := computedAt\<rparr>"

definition positive_use :: "'d decimal_lib \<Rightarrow> Decimal \<Rightarrow> go_error + Decimal" where
  "positive_use L value =
     (case MustDecimal L ''0'' of Inl err \<Rightarrow> Inl err
      | Inr zero \<Rightarrow>
          (case decimalCompare L value zero of Inl err \<Rightarrow> Inl err
           | Inr sign \<Rightarrow> if sign < 0 then decimalBinary L (dec_sub L) zero value else Inr value))"

definition NormalizeReportedSign :: "'d decimal_lib \<Rightarrow> Observation \<Rightarrow> string \<Rightarrow> gotime \<Rightarrow> go_error + Observation" where
  "NormalizeReportedSign L observation policy computedAt =
     (if obs_class observation \<noteq> ClassReported then Inl (ErrorsNew ''sign normalization requires a reported fact'')
      else check_then (ValidateObservation observation (obs_available_at observation))
        (if policy = SignPreserve then
           Inr ((normalized_by policy computedAt observation)\<lparr>obs_transformation_id := ''sign-preserve/v1''\<rparr>)
         else if policy = SignPositiveUse then
           (case positive_use L (obs_value observation) of Inl err \<Rightarrow> Inl err
            | Inr value \<Rightarrow> Inr ((normalized_by policy computedAt observation)
                \<lparr>obs_value := value, obs_transformation_id := ''cash-outflow-positive-use/v1''\<rparr>))
         else Inl (Errorf ''unsupported sign policy %q'' [FStr policy])))"

section \<open>Compatible observations\<close>

definition compatibleDimensions :: "Observation list \<Rightarrow> go_error option" where
  "compatibleDimensions observations =
     range_err (\<lambda>_ observation. first_err
       [fail_if (obs_company_id observation \<noteq> obs_company_id (hd observations))
          (ErrorsNew ''definition_conflict: company differs''),
        fail_if (obs_unit observation \<noteq> obs_unit (hd observations) \<or>
            obs_currency observation \<noteq> obs_currency (hd observations) \<or>
            obs_scale observation \<noteq> obs_scale (hd observations))
          (ErrorsNew ''unit_mismatch: unit, currency, or scale differs'')]) (tl observations)"

definition compatible :: "Observation list \<Rightarrow> go_error option" where
  "compatible observations = first_err
     [range_err (\<lambda>_ observation. fail_if (obs_metric_id observation \<noteq> obs_metric_id (hd observations) \<or>
          obs_company_id observation \<noteq> obs_company_id (hd observations))
        (ErrorsNew ''definition_conflict: metric or company differs'')) (tl observations),
      compatibleDimensions observations]"

definition samePeriod :: "FinPeriod \<Rightarrow> FinPeriod \<Rightarrow> bool" where
  "samePeriod left right \<longleftrightarrow>
     fpd_kind left = fpd_kind right \<and> fpd_end left = fpd_end right \<and> fpd_start left = fpd_start right"

definition sameMonthDay :: "gotime \<Rightarrow> gotime \<Rightarrow> bool" where
  "sameMonthDay left right \<longleftrightarrow> snd (civil_date left) = snd (civil_date right)"

definition latest :: "gotime list \<Rightarrow> gotime" where
  "latest instants = foldl (\<lambda>result value. if time_after value result then value else result) (hd instants) (tl instants)"

definition uniqueSorted :: "string list \<Rightarrow> string list" where
  "uniqueSorted names = sort (remdups (filter (\<lambda>name. name \<noteq> []) names))"

section \<open>Trailing twelve months\<close>

definition ttm_period :: "Observation \<Rightarrow> Observation \<Rightarrow> FinPeriod" where
  "ttm_period currentYTD priorYTD =
     \<lparr>fpd_kind = KindTTM, fpd_start = Some (fpd_end (obs_period priorYTD) + 86400000000000),
      fpd_end = fpd_end (obs_period currentYTD), fpd_fiscal_year = fpd_fiscal_year (obs_period currentYTD),
      fpd_fiscal_quarter = 0, fpd_label = ''TTM-'' @ date_only (fpd_end (obs_period currentYTD))\<rparr>"

definition ttm_checks :: "((string \<times> Observation) list \<Rightarrow> (string \<times> Observation) list) \<Rightarrow>
    Observation \<Rightarrow> Observation \<Rightarrow> Observation \<Rightarrow> gotime \<Rightarrow> go_error option" where
  "ttm_checks visit priorAnnual currentYTD priorYTD cutoff = first_err
     [range_err (\<lambda>_ (name, observation). wrap_err ''%s: %w'' [FStr name] (ValidateObservation observation cutoff))
        (visit [(''prior annual'', priorAnnual), (''current YTD'', currentYTD), (''prior YTD'', priorYTD)]),
      fail_if (fpd_kind (obs_period priorAnnual) \<noteq> KindAnnual \<or> fpd_kind (obs_period currentYTD) \<noteq> KindYearToDate \<or>
          fpd_kind (obs_period priorYTD) \<noteq> KindYearToDate)
        (ErrorsNew ''period_mismatch: TTM requires one annual and two YTD observations''),
      compatible [priorAnnual, currentYTD, priorYTD],
      fail_if (\<not> time_after (fpd_end (obs_period currentYTD)) (fpd_end (obs_period priorAnnual)) \<or>
          \<not> sameMonthDay (fpd_end (obs_period currentYTD)) (fpd_end (obs_period priorYTD)))
        (ErrorsNew ''period_mismatch: current and comparative YTD periods are not aligned''),
      fail_if (case (fpd_start (obs_period currentYTD), fpd_start (obs_period priorYTD)) of
          (Some s, Some t) \<Rightarrow> \<not> sameMonthDay s t | _ \<Rightarrow> True)
        (ErrorsNew ''period_mismatch: YTD starts are not aligned'')]"

definition TrailingTwelveMonths :: "'d decimal_lib \<Rightarrow> ((string \<times> Observation) list \<Rightarrow> (string \<times> Observation) list) \<Rightarrow>
    Observation \<Rightarrow> Observation \<Rightarrow> Observation \<Rightarrow> gotime \<Rightarrow> gotime \<Rightarrow> go_error + Observation" where
  "TrailingTwelveMonths L visit priorAnnual currentYTD priorYTD cutoff computedAt =
     check_then (ttm_checks visit priorAnnual currentYTD priorYTD cutoff)
       (case decimalBinary L (dec_add L) (obs_value priorAnnual) (obs_value currentYTD) of Inl err \<Rightarrow> Inl err
        | Inr annualPlusCurrent \<Rightarrow>
            (case decimalBinary L (dec_sub L) annualPlusCurrent (obs_value priorYTD) of Inl err \<Rightarrow> Inl err
             | Inr value \<Rightarrow> Inr
                 \<lparr>obs_metric_id = obs_metric_id priorAnnual, obs_company_id = obs_company_id priorAnnual,
                  obs_class = ClassDerived, obs_value = value, obs_raw_reported_value = None,
                  obs_unit = obs_unit priorAnnual, obs_currency = obs_currency priorAnnual,
                  obs_scale = obs_scale priorAnnual, obs_period = ttm_period currentYTD priorYTD,
                  obs_available_at = latest [obs_available_at priorAnnual, obs_available_at currentYTD, obs_available_at priorYTD],
                  obs_computed_at = computedAt,
                  obs_source_fact_ids = uniqueSorted (obs_source_fact_ids priorAnnual @ obs_source_fact_ids currentYTD @
                    obs_source_fact_ids priorYTD),
                  obs_transformation_id = ''ttm-annual-plus-current-ytd-minus-prior-ytd/v1'', obs_sign_policy = [],
                  obs_amendment_chain = uniqueSorted (obs_amendment_chain priorAnnual @ obs_amendment_chain currentYTD @
                    obs_amendment_chain priorYTD)\<rparr>))"

section \<open>Common size\<close>

record CommonSizeValue =
  csv_metric_id :: string
  csv_ratio :: Decimal
  csv_numerator_fact :: "string list"
  csv_denominator_fact :: "string list"

definition metric_less :: "CommonSizeValue \<Rightarrow> CommonSizeValue \<Rightarrow> bool" where
  "metric_less x y \<longleftrightarrow> csv_metric_id x < csv_metric_id y"

fun find_denominator :: "string \<Rightarrow> gotime \<Rightarrow> Observation option \<Rightarrow> Observation list \<Rightarrow> go_error + Observation option" where
  "find_denominator metric cutoff denominator [] = Inr denominator"
| "find_denominator metric cutoff denominator (observation # observations) =
     (case ValidateObservation observation cutoff of Some err \<Rightarrow> Inl err
      | None \<Rightarrow>
          if obs_metric_id observation = metric then
            (if denominator \<noteq> None then Inl (ErrorsNew ''definition_conflict: duplicate common-size denominator'')
             else find_denominator metric cutoff (Some observation) observations)
          else find_denominator metric cutoff denominator observations)"

definition common_size_value :: "'d decimal_lib \<Rightarrow> Observation \<Rightarrow> Observation \<Rightarrow> go_error + CommonSizeValue" where
  "common_size_value L denominator observation =
     check_then (first_err [compatibleDimensions [denominator, observation],
         fail_if (\<not> samePeriod (obs_period denominator) (obs_period observation))
           (ErrorsNew ''period_mismatch: common-size observations use different periods'')])
       (case decimalBinary L (dec_quo L) (obs_value observation) (obs_value denominator) of Inl err \<Rightarrow> Inl err
        | Inr ratio \<Rightarrow> Inr \<lparr>csv_metric_id = obs_metric_id observation, csv_ratio = ratio,
            csv_numerator_fact = obs_source_fact_ids observation,
            csv_denominator_fact = obs_source_fact_ids denominator\<rparr>)"

definition CommonSize :: "'d decimal_lib \<Rightarrow> (CommonSizeValue list \<Rightarrow> CommonSizeValue list) \<Rightarrow> Observation list \<Rightarrow> string \<Rightarrow> gotime \<Rightarrow>
    go_error + CommonSizeValue list" where
  "CommonSize L order observations denominatorMetric cutoff =
     (if observations = [] \<or> denominatorMetric = [] then
        Inl (ErrorsNew ''observations and denominator metric are required'')
      else
        (case find_denominator denominatorMetric cutoff None observations of Inl err \<Rightarrow> Inl err
         | Inr None \<Rightarrow> Inl (ErrorsNew ''insufficient_evidence: common-size denominator is missing'')
         | Inr (Some denominator) \<Rightarrow>
             (case MustDecimal L ''0'' of Inl err \<Rightarrow> Inl err
              | Inr zero \<Rightarrow>
                  (case decimalCompare L (obs_value denominator) zero of Inl err \<Rightarrow> Inl err
                   | Inr sign \<Rightarrow>
                       if sign \<le> 0 then Inl (ErrorsNew ''invalid_denominator: common-size denominator must be positive'')
                       else (case map_res (common_size_value L denominator) observations of Inl err \<Rightarrow> Inl err
                         | Inr result \<Rightarrow> Inr (order result))))))"

section \<open>Trends\<close>

datatype TrendDirection = TrendIncreasing | TrendDecreasing | TrendMixed | TrendFlat

record TrendDescriptor =
  tdr_metric_id :: string
  tdr_direction :: TrendDirection
  tdr_observations :: int
  tdr_positive_changes :: int
  tdr_negative_changes :: int
  tdr_flat_changes :: int
  tdr_start_period :: string
  tdr_end_period :: string
  tdr_source_fact_ids :: "string list"

definition end_less :: "Observation \<Rightarrow> Observation \<Rightarrow> bool" where
  "end_less x y \<longleftrightarrow> time_before (fpd_end (obs_period x)) (fpd_end (obs_period y))"

text \<open>One change: flat bound the tolerance, else its sign.\<close>

definition change_of :: "'d decimal_lib \<Rightarrow> Decimal \<Rightarrow> Observation \<Rightarrow> Observation \<Rightarrow> go_error + int" where
  "change_of L tolerance previous current =
     (case decimalBinary L (dec_sub L) (obs_value current) (obs_value previous) of Inl err \<Rightarrow> Inl err
      | Inr difference \<Rightarrow>
          (case decimalAbs L difference of Inl err \<Rightarrow> Inl err
           | Inr absolute \<Rightarrow>
               (case decimalCompare L absolute tolerance of Inl err \<Rightarrow> Inl err
                | Inr bound \<Rightarrow>
                    if bound \<le> 0 then Inr 0
                    else (case MustDecimal L ''0'' of Inl err \<Rightarrow> Inl err
                      | Inr zero \<Rightarrow>
                          (case decimalCompare L difference zero of
                             Inl _ \<Rightarrow> Inr (- 1)
                           | Inr direction \<Rightarrow> Inr (if direction > 0 then 1 else - 1))))))"

definition changes :: "'d decimal_lib \<Rightarrow> Decimal \<Rightarrow> Observation list \<Rightarrow> go_error + int list" where
  "changes L tolerance series = map_res (\<lambda>(previous, current). change_of L tolerance previous current)
     (zip series (tl series))"

definition direction_of :: "int list \<Rightarrow> TrendDirection" where
  "direction_of steps =
     (let positive = length (filter (\<lambda>c. c > 0) steps); negative = length (filter (\<lambda>c. c < 0) steps) in
      if positive > 0 \<and> negative = 0 then TrendIncreasing
      else if negative > 0 \<and> positive = 0 then TrendDecreasing
      else if positive = 0 \<and> negative = 0 then TrendFlat
      else TrendMixed)"

definition check_neighbours :: "Observation list \<Rightarrow> go_error option" where
  "check_neighbours series = range_err (\<lambda>_ (previous, current). first_err
     [compatible [hd series, current],
      fail_if (fpd_end (obs_period previous) = fpd_end (obs_period current))
        (ErrorsNew ''definition_conflict: trend contains duplicate period ends'')]) (zip series (tl series))"

definition DescribeTrend :: "'d decimal_lib \<Rightarrow> (Observation list \<Rightarrow> Observation list) \<Rightarrow> Observation list \<Rightarrow> gotime \<Rightarrow> Decimal \<Rightarrow>
    go_error + TrendDescriptor" where
  "DescribeTrend L order observations cutoff tolerance =
     (if length observations < 2 then
        Inl (ErrorsNew ''insufficient_evidence: trend requires at least two observations'')
      else check_then (range_err (\<lambda>_ observation. ValidateObservation observation cutoff) observations)
        (let series = order observations in
         check_then (check_neighbours series)
           (case changes L tolerance series of Inl err \<Rightarrow> Inl err
            | Inr steps \<Rightarrow> Inr
                \<lparr>tdr_metric_id = obs_metric_id (hd series), tdr_direction = direction_of steps,
                 tdr_observations = int (length series),
                 tdr_positive_changes = int (length (filter (\<lambda>c. c > 0) steps)),
                 tdr_negative_changes = int (length (filter (\<lambda>c. c < 0) steps)),
                 tdr_flat_changes = int (length (filter (\<lambda>c. c = 0) steps)),
                 tdr_start_period = fpd_label (obs_period (hd series)),
                 tdr_end_period = fpd_label (obs_period (last series)),
                 tdr_source_fact_ids = uniqueSorted (concat (map obs_source_fact_ids series))\<rparr>)))"

end
