(* ===== verification/Period_Audit.thy ===== *)
theory Period_Audit
  imports Financial_Period
begin

text \<open>
  Audits and windows of observations (\<open>internal/financialperiod/audit.go\<close>). The groups of the audit
  are kept in a Go map, so the order in which they are visited is a parameter, as is the sort.
\<close>

section \<open>AuditFacts\<close>

record FactIssue =
  fis_code :: string
  fis_metric_id :: string
  fis_company_id :: string
  fis_period_label :: string
  fis_source_fact_ids :: "string list"
  fis_detail :: string

record FactAudit =
  fau_issues :: "FactIssue list"
  fau_observations :: int
  fau_complete :: bool

text \<open>The key of a group: company, metric, label of the period, and class.\<close>

type_synonym fact_key = "string \<times> string \<times> string \<times> string"

definition fact_key_of :: "Observation \<Rightarrow> fact_key" where
  "fact_key_of observation = (obs_company_id observation, obs_metric_id observation,
     fpd_label (obs_period observation), obs_class observation)"

definition grouped_facts :: "Observation list \<Rightarrow> (fact_key \<times> Observation list) list" where
  "grouped_facts observations =
     map (\<lambda>key. (key, filter (\<lambda>observation. fact_key_of observation = key) observations))
       (foldl append_unique [] (map fact_key_of observations))"

definition restated_issue :: "Observation \<Rightarrow> FactIssue" where
  "restated_issue observation =
     \<lparr>fis_code = ''restated_observation'', fis_metric_id = obs_metric_id observation,
      fis_company_id = obs_company_id observation, fis_period_label = fpd_label (obs_period observation),
      fis_source_fact_ids = obs_source_fact_ids observation,
      fis_detail = ''observation belongs to a disclosed amendment chain''\<rparr>"

definition missing_issue :: "string \<Rightarrow> FactIssue" where
  "missing_issue metricID =
     \<lparr>fis_code = ''missing_component'', fis_metric_id = metricID, fis_company_id = [], fis_period_label = [],
      fis_source_fact_ids = [], fis_detail = ''required metric is absent from the point-in-time population''\<rparr>"

definition group_issues :: "fact_key \<times> Observation list \<Rightarrow> FactIssue list" where
  "group_issues entry =
     (case entry of ((company, metric, label, cls), facts) \<Rightarrow>
        if length facts < 2 then []
        else
          (let conflict = list_ex (\<lambda>fact. obs_value fact \<noteq> obs_value (hd facts)) (tl facts) in
           [\<lparr>fis_code = (if conflict then ''conflicting_concept'' else ''duplicate_fact''),
             fis_metric_id = metric, fis_company_id = company, fis_period_label = label,
             fis_source_fact_ids = uniqueSorted (concat (map obs_source_fact_ids facts)),
             fis_detail = (if conflict then ''same governed concept and period contain conflicting values''
               else ''multiple observations share the same company, metric, class, and period'')\<rparr>]))"

definition issue_key :: "FactIssue \<Rightarrow> string" where
  "issue_key issue = fis_code issue @ '':'' @ fis_company_id issue @ '':'' @ fis_metric_id issue @ '':'' @ fis_period_label issue"

definition fact_issue_less :: "FactIssue \<Rightarrow> FactIssue \<Rightarrow> bool" where
  "fact_issue_less x y \<longleftrightarrow> issue_key x < issue_key y"

definition audit_issues :: "((fact_key \<times> Observation list) list \<Rightarrow> (fact_key \<times> Observation list) list) \<Rightarrow>
    Observation list \<Rightarrow> string list \<Rightarrow> FactIssue list" where
  "audit_issues visit observations requiredMetrics =
     map restated_issue (filter (\<lambda>observation. obs_amendment_chain observation \<noteq> []) observations) @
     map missing_issue (filter (\<lambda>metricID. metricID \<notin> set (map obs_metric_id observations)) requiredMetrics) @
     concat (map group_issues (visit (grouped_facts observations)))"

definition AuditFacts :: "((fact_key \<times> Observation list) list \<Rightarrow> (fact_key \<times> Observation list) list) \<Rightarrow>
    (FactIssue list \<Rightarrow> FactIssue list) \<Rightarrow> Observation list \<Rightarrow> string list \<Rightarrow> gotime \<Rightarrow> go_error + FactAudit" where
  "AuditFacts visit order observations requiredMetrics cutoff =
     (if is_zero_time cutoff then Inl (ErrorsNew ''cutoff is required'')
      else check_then (range_err (\<lambda>_ observation. ValidateObservation observation cutoff) observations)
        (let issues = order (audit_issues visit observations requiredMetrics) in
         Inr \<lparr>fau_issues = issues, fau_observations = int (length observations), fau_complete = (issues = [])\<rparr>))"

section \<open>AnnualWindow\<close>

record HistoricalWindow =
  hwi_metric_id :: string
  hwi_company_id :: string
  hwi_years :: int
  hwi_observations :: "Observation list"
  hwi_start :: gotime
  hwi_end :: gotime

definition fiscal_year :: "Observation \<Rightarrow> int" where
  "fiscal_year observation =
     (if fpd_fiscal_year (obs_period observation) = 0 then fst (civil_date (fpd_end (obs_period observation)))
      else fpd_fiscal_year (obs_period observation))"

text \<open>The loop over the window: the year before (none at first) and the years seen so far.\<close>

fun check_window :: "string \<Rightarrow> string \<Rightarrow> gotime \<Rightarrow> int option \<Rightarrow> int list \<Rightarrow> Observation list \<Rightarrow> go_error option" where
  "check_window metricID companyID cutoff prior seen [] = None"
| "check_window metricID companyID cutoff prior seen (observation # observations) =
     (case first_err
        [ValidateObservation observation cutoff,
         fail_if (fpd_kind (obs_period observation) \<noteq> KindAnnual \<or> obs_metric_id observation \<noteq> metricID \<or>
             obs_company_id observation \<noteq> companyID)
           (ErrorsNew ''historical window requires one aligned annual metric and company''),
         fail_if (fiscal_year observation \<in> set seen)
           (ErrorsNew ''historical window contains a duplicate fiscal year''),
         fail_if (case prior of None \<Rightarrow> False | Some year \<Rightarrow> fiscal_year observation \<noteq> year + 1)
           (ErrorsNew ''historical window is not contiguous'')] of
        Some err \<Rightarrow> Some err
      | None \<Rightarrow> check_window metricID companyID cutoff (Some (fiscal_year observation)) (fiscal_year observation # seen)
          observations)"

definition AnnualWindow :: "(Observation list \<Rightarrow> Observation list) \<Rightarrow> Observation list \<Rightarrow> int \<Rightarrow> gotime \<Rightarrow> go_error + HistoricalWindow" where
  "AnnualWindow order observations years cutoff =
     (if years \<noteq> 3 \<and> years \<noteq> 5 \<and> years \<noteq> 10 then
        Inl (ErrorsNew ''historical window must be 3, 5, or 10 years'')
      else if int (length observations) < years then
        Inl (ErrorsNew ''point-in-time population does not support requested window'')
      else
        (let series = drop (length observations - nat years) (order observations);
             metricID = obs_metric_id (hd series); companyID = obs_company_id (hd series) in
         check_then (check_window metricID companyID cutoff None [] series)
           (Inr \<lparr>hwi_metric_id = metricID, hwi_company_id = companyID, hwi_years = years, hwi_observations = series,
             hwi_start = fpd_end (obs_period (hd series)), hwi_end = fpd_end (obs_period (last series))\<rparr>)))"

end
