(* ===== verification/Decimal_Instance.thy ===== *)
theory Decimal_Instance
  imports Decimals
begin

text \<open>
  A library that keeps the promises of \<open>decimal_laws\<close>: the rational numbers, written as quotients
  and never rounded. It also reads decimals such as \<open>0.01\<close>. The witnesses of the properties about
  decimals compute with it.
\<close>

section \<open>Text without spaces\<close>

lemma strip_any_none:
  assumes "\<forall>p \<in> set ps. p \<noteq> [] \<longrightarrow> hd p \<notin> set s"
  shows "strip_any ps s = s"
proof -
  have "find (\<lambda>p. p \<noteq> [] \<and> starts_with s p) ps = None"
  proof (unfold find_None_iff, rule notI, elim exE conjE)
    fix p assume "p \<in> set ps" "p \<noteq> []" "starts_with s p"
    moreover from this(2,3) have "hd p \<in> set s" by (auto simp: starts_with_iff)
    ultimately show False using assms by blast
  qed
  then show ?thesis by (subst strip_any.simps) simp
qed

lemma trim_space_none:
  assumes "\<forall>c \<in> set s. list_all (\<lambda>p. hd p \<noteq> c \<and> last p \<noteq> c) space_runes"
  shows "trim_space s = s"
proof -
  have "\<forall>p \<in> set space_runes. hd p \<notin> set s \<and> last p \<notin> set s" using assms unfolding list_all_iff by blast
  then have "strip_any space_runes s = s" "strip_any (map rev space_runes) (rev s) = rev s"
    by (auto intro!: strip_any_none simp: hd_rev)
  then show ?thesis by (simp add: trim_space_def trim_left_def trim_right_def)
qed

section \<open>Texts of integers\<close>

definition number_chars :: string where
  "number_chars = ''0123456789-./''"

lemma dec_nat_chars: "set (dec_nat n) \<subseteq> set ''0123456789''" "dec_nat n \<noteq> []"
proof (induction n rule: dec_nat.induct)
  case (1 n)
  have digit: "char_of (48 + d) \<in> set ''0123456789''" if "d < 10" for d :: nat
  proof -
    have "\<forall>d \<in> set [0..<10]. char_of (48 + d) \<in> set ''0123456789''" by code_simp
    with that show ?thesis by simp
  qed
  {
    case 1
    show ?case
    proof (cases "n < 10")
      case True
      then show ?thesis using digit [of n] by (subst dec_nat.simps) simp
    next
      case False
      then show ?thesis using "1.IH"(1) digit [of "n mod 10"] by (subst dec_nat.simps) simp
    qed
  next
    case 2
    show ?case by (subst dec_nat.simps) simp
  }
qed

definition signed_value :: "string \<Rightarrow> int" where
  "signed_value s = (case s of c # t \<Rightarrow> if c = CHR ''-'' then - int (dec_value t) else int (dec_value s) | [] \<Rightarrow> 0)"

lemma dec_nat_Cons: "\<exists>c t. dec_nat n = c # t \<and> c \<noteq> CHR ''-''"
proof -
  obtain c t where c: "dec_nat n = c # t" using dec_nat_chars(2) [of n] by (cases "dec_nat n") simp_all
  then have "c \<in> set ''0123456789''" using dec_nat_chars(1) [of n] by simp
  moreover have "CHR ''-'' \<notin> set ''0123456789''" by simp
  ultimately show ?thesis using c by metis
qed

lemma signed_value_itoa [simp]: "signed_value (itoa n) = n"
proof (cases "n < 0")
  case True
  then show ?thesis by (simp add: itoa_def signed_value_def dec_value_dec_nat)
next
  case False
  obtain c t where c: "dec_nat (nat n) = c # t" "c \<noteq> CHR ''-''" using dec_nat_Cons by blast
  then have "signed_value (dec_nat (nat n)) = int (dec_value (dec_nat (nat n)))" unfolding signed_value_def c(1) by simp
  with False show ?thesis by (simp add: itoa_def dec_value_dec_nat)
qed

lemma itoa_chars: "set (itoa n) \<subseteq> set ''0123456789-''" "itoa n \<noteq> []"
proof -
  have "set ''0123456789'' \<subseteq> set ''0123456789-''" "CHR ''-'' \<in> set ''0123456789-''" by simp_all
  then have digits: "set (dec_nat k) \<subseteq> set ''0123456789-''" and minus: "CHR ''-'' \<in> set ''0123456789-''" for k
    using dec_nat_chars(1) [of k] by (blast, blast)
  show "set (itoa n) \<subseteq> set ''0123456789-''"
    unfolding itoa_def using digits [of "nat n"] digits [of "nat (- n)"] minus
    by (cases "n < 0") (simp_all only: if_True if_False list.set insert_subset simp_thms)
  show "itoa n \<noteq> []" using dec_nat_chars(2) by (simp add: itoa_def)
qed

section \<open>Texts of quotients\<close>

definition fraction :: "rat \<Rightarrow> string" where
  "fraction r = (case quotient_of r of (p, q) \<Rightarrow> if q = 1 then itoa p else itoa p @ CHR ''/'' # itoa q)"

definition decimal_value :: "string \<Rightarrow> rat" where
  "decimal_value s =
     (let whole = takeWhile (\<lambda>c. c \<noteq> CHR ''.'') s; part = drop (length whole + 1) s in
      of_int (signed_value (whole @ part)) / 10 ^ length part)"

definition fraction_value :: "string \<Rightarrow> rat" where
  "fraction_value s =
     (let numerator = takeWhile (\<lambda>c. c \<noteq> CHR ''/'') s; denominator = drop (length numerator + 1) s in
      if denominator = [] then decimal_value numerator
      else of_int (signed_value numerator) / of_int (signed_value denominator))"

lemma split_absent:
  assumes "c \<notin> set s"
  shows "takeWhile (\<lambda>d. d \<noteq> c) s = s" and "takeWhile (\<lambda>d. d \<noteq> c) (s @ c # t) = s"
proof -
  have "\<forall>d \<in> set s. d \<noteq> c" using assms by blast
  then show "takeWhile (\<lambda>d. d \<noteq> c) s = s" "takeWhile (\<lambda>d. d \<noteq> c) (s @ c # t) = s"
    by (simp_all add: takeWhile_append2 cong: takeWhile_cong)
qed

lemma fraction_value_fraction [simp]: "fraction_value (fraction r) = r"
proof -
  obtain p q where r: "quotient_of r = (p, q)" by fastforce
  have "CHR ''/'' \<notin> set ''0123456789-''" "CHR ''.'' \<notin> set ''0123456789-''" by simp_all
  then have absent: "CHR ''/'' \<notin> set (itoa n)" "CHR ''.'' \<notin> set (itoa n)" for n using itoa_chars(1) [of n] by blast+
  have value_of: "decimal_value (itoa n) = of_int n" for n
    unfolding decimal_value_def Let_def split_absent(1) [OF absent(2)] by simp
  have quotient: "r = of_int p / of_int q" by (rule quotient_of_div [OF r])
  show ?thesis
  proof (cases "q = 1")
    case True
    then have "fraction r = itoa p" by (simp add: fraction_def r)
    then show ?thesis unfolding fraction_value_def Let_def using True quotient
      by (simp only: split_absent(1) [OF absent(1)]) (simp add: value_of)
  next
    case False
    then have text_of: "fraction r = itoa p @ CHR ''/'' # itoa q" by (simp add: fraction_def r)
    show ?thesis unfolding fraction_value_def Let_def text_of split_absent(2) [OF absent(1)] using itoa_chars(2) [of q] quotient
      by simp
  qed
qed

lemma fraction_chars: "set (fraction r) \<subseteq> set number_chars" "fraction r \<noteq> []"
proof -
  have "set ''0123456789-'' \<union> {CHR ''/''} \<subseteq> set number_chars" by (simp add: number_chars_def)
  then have "set (itoa n) \<union> {CHR ''/''} \<subseteq> set number_chars" for n using itoa_chars(1) [of n] by blast
  moreover obtain p q where "quotient_of r = (p, q)" by fastforce
  ultimately show "set (fraction r) \<subseteq> set number_chars" by (simp add: fraction_def)
  show "fraction r \<noteq> []" using itoa_chars(2) by (simp add: fraction_def split: prod.splits)
qed

section \<open>The library\<close>

definition fraction_lib :: "rat decimal_lib" where
  "fraction_lib = \<lparr>
     dec_new = (\<lambda>s. if s \<noteq> [] \<and> list_all (\<lambda>c. c \<in> set number_chars) s then Inr (fraction_value s) else Inl (ErrorsNew ''syntax'')),
     dec_string = fraction, dec_finite = (\<lambda>_. True), dec_reduced = fraction,
     dec_add = (\<lambda>x y. Inr (x + y)), dec_sub = (\<lambda>x y. Inr (x - y)), dec_mul = (\<lambda>x y. Inr (x * y)),
     dec_quo = (\<lambda>x y. if y = 0 then Inl (ErrorsNew ''division by zero'') else Inr (x / y)),
     dec_pow = (\<lambda>x y. if y < 0 \<or> y \<noteq> of_int \<lfloor>y\<rfloor> then Inl (ErrorsNew ''unsupported power'') else Inr (x ^ nat \<lfloor>y\<rfloor>)),
     dec_neg = (\<lambda>x. Inr (- x)), dec_abs = (\<lambda>x. Inr \<bar>x\<bar>),
     dec_cmp = (\<lambda>x y. if x < y then - 1 else if x = y then 0 else 1)\<rparr>"

lemma trim_fraction [simp]: "trim_space (fraction r) = fraction r"
proof (rule trim_space_none)
  have "list_all (\<lambda>c. list_all (\<lambda>p. hd p \<noteq> c \<and> last p \<noteq> c) space_runes) number_chars" by code_simp
  then show "\<forall>c \<in> set (fraction r). list_all (\<lambda>p. hd p \<noteq> c \<and> last p \<noteq> c) space_runes"
    using fraction_chars(1) [of r] unfolding list_all_iff [of _ number_chars] by blast
qed

lemma new_fraction [simp]: "dec_new fraction_lib (fraction r) = Inr r"
  using fraction_chars [of r] by (auto simp: fraction_lib_def list_all_iff)

lemma parse_fraction [simp]: "ParseDecimal fraction_lib (fraction r) = Inr (fraction r)"
  using new_fraction [of r] by (simp add: ParseDecimal_def) (simp add: fraction_lib_def)

lemma canonical_fraction: "canonical_text fraction_lib s \<longleftrightarrow> (\<exists>r. s = fraction r)"
proof -
  have "ParseDecimal fraction_lib t = Inr s \<Longrightarrow> \<exists>r. s = fraction r" for t
    by (auto simp: ParseDecimal_def fraction_lib_def split: sum.splits if_splits)
  then show ?thesis using parse_fraction unfolding canonical_text_def by metis
qed

lemma fraction_binary:
  "decimalBinary fraction_lib operation (fraction x) (fraction y) =
     (case operation x y of Inl err \<Rightarrow> Inl err | Inr r \<Rightarrow> Inr (fraction r))"
proof -
  have "dec_string fraction_lib = fraction" by (simp add: fraction_lib_def)
  then show ?thesis by (simp add: decimalBinary_def split: sum.splits)
qed

lemma fraction_operations:
  "dec_add fraction_lib x y = Inr (x + y)" "dec_sub fraction_lib x y = Inr (x - y)" "dec_mul fraction_lib x y = Inr (x * y)"
  "dec_quo fraction_lib x y = (if y = 0 then Inl (ErrorsNew ''division by zero'') else Inr (x / y))"
  "dec_abs fraction_lib x = Inr \<bar>x\<bar>" "dec_cmp fraction_lib x y = (if x < y then - 1 else if x = y then 0 else 1)"
  "dec_pow fraction_lib x y =
    (if y < 0 \<or> y \<noteq> of_int \<lfloor>y\<rfloor> then Inl (ErrorsNew ''unsupported power'') else Inr (x ^ nat \<lfloor>y\<rfloor>))"
  "dec_string fraction_lib r = fraction r"
  by (simp_all add: fraction_lib_def)

lemma fraction_results [simp]:
  "decimalBinary fraction_lib (dec_add fraction_lib) (fraction x) (fraction y) = Inr (fraction (x + y))"
  "decimalBinary fraction_lib (dec_sub fraction_lib) (fraction x) (fraction y) = Inr (fraction (x - y))"
  "decimalBinary fraction_lib (dec_mul fraction_lib) (fraction x) (fraction y) = Inr (fraction (x * y))"
  "decimalAbs fraction_lib (fraction x) = Inr (fraction \<bar>x\<bar>)"
  "decimalCompare fraction_lib (fraction x) (fraction y) = Inr (if x < y then - 1 else if x = y then 0 else 1)"
  by (simp_all add: fraction_binary fraction_operations decimalAbs_def decimalCompare_def)

lemma fraction_numerals: "fraction 0 = ''0''" "fraction 1 = ''1''"
  by code_simp+

lemma fraction_laws: "decimal_laws fraction_lib fraction_value (\<lambda>x. x)"
proof -
  have literals: "ParseDecimal fraction_lib ''0'' = Inr ''0''" "fraction_value ''0'' = 0"
    "ParseDecimal fraction_lib ''1'' = Inr ''1''" "fraction_value ''1'' = 1"
    using parse_fraction [of 0] fraction_value_fraction [of 0] parse_fraction [of 1] fraction_value_fraction [of 1]
    unfolding fraction_numerals by simp_all
  have results:
    "decimalBinary fraction_lib (dec_add fraction_lib) s t = Inr n \<longrightarrow> fraction_value n = fraction_value s + fraction_value t"
    "decimalBinary fraction_lib (dec_sub fraction_lib) s t = Inr n \<longrightarrow> fraction_value n = fraction_value s - fraction_value t"
    "decimalBinary fraction_lib (dec_mul fraction_lib) s t = Inr n \<longrightarrow> fraction_value n = fraction_value s * fraction_value t"
    "decimalBinary fraction_lib (dec_quo fraction_lib) s t = Inr n \<longrightarrow>
       fraction_value t \<noteq> 0 \<and> fraction_value n = fraction_value s / fraction_value t"
    "decimalBinary fraction_lib (dec_pow fraction_lib) s t = Inr n \<longrightarrow> 0 < fraction_value s \<longrightarrow> 0 < fraction_value n"
    "decimalAbs fraction_lib s = Inr n \<longrightarrow> fraction_value n = \<bar>fraction_value s\<bar>"
    "\<exists>c. decimalCompare fraction_lib s t = Inr c \<and>
      sgn c = sgn (if fraction_value s < fraction_value t then - 1 else if fraction_value s = fraction_value t then 0 else 1 :: int)"
    if "canonical_text fraction_lib s" "canonical_text fraction_lib t" for s t n
    using that unfolding canonical_fraction by (auto simp: fraction_binary fraction_operations split: if_splits)
  show ?thesis
    unfolding decimal_laws_def using literals results by (simp add: rounding_def monotone_def)
qed

end
