(* ===== verification/Period_Laws.thy ===== *)
theory Period_Laws
  imports Period_Audit Decimal_Instance
begin

text \<open>
  What holds of derived observations: they never look past the cutoff, trends do not depend on the
  order of their observations, windows are complete, and an audit is complete exactly if nothing
  is missing, restated or repeated.
\<close>

section \<open>Valid observations\<close>

lemma visited_checks:
  assumes "\<And>xs. mset (visit xs) = mset xs"
  shows "range_err (\<lambda>_ (name, observation). wrap_err ''%s: %w'' [FStr name] (ValidateObservation observation cutoff)) (visit xs) = None \<longleftrightarrow>
    (\<forall>(name, observation) \<in> set xs. ValidateObservation observation cutoff = None)"
proof -
  have "set (visit xs) = set xs" using assms by (metis set_mset_mset)
  then show ?thesis
    by (subst range_err_None_uniform [where P = "\<lambda>(name, observation). ValidateObservation observation cutoff = None"]) auto
qed

lemma latest_max: "instants \<noteq> [] \<Longrightarrow> latest instants = Max (set instants)"
proof (induction instants rule: rev_induct)
  case (snoc t ts)
  show ?case
  proof (cases ts)
    case (Cons u us)
    then have "latest (ts @ [t]) = max (latest ts) t" by (simp add: latest_def max_def)
    moreover have "set (ts @ [t]) = insert t (set ts)" by simp
    moreover have "Max (insert t (set ts)) = max t (Max (set ts))" using Cons by (intro Max_insert) simp_all
    ultimately show ?thesis using snoc.IH Cons by (metis list.distinct(1) max.commute)
  qed (simp add: latest_def)
qed simp

lemma set_uniqueSorted: "set (uniqueSorted names) = set names - {[]}"
  by (auto simp: uniqueSorted_def)

lemma compatible_three:
  "compatible [x, y, z] = None \<longleftrightarrow>
     (\<forall>o' \<in> {y, z}. obs_metric_id o' = obs_metric_id x \<and> obs_company_id o' = obs_company_id x \<and>
        obs_unit o' = obs_unit x \<and> obs_currency o' = obs_currency x \<and> obs_scale o' = obs_scale x)"
  by (auto simp: compatible_def compatibleDimensions_def range_err_def fail_if_def split: option.splits if_splits)

lemma label_not_blank: "\<not> blank (''TTM-'' @ s)"
proof -
  have "list_all (\<lambda>p. hd p \<noteq> CHR ''T'') space_runes" by code_simp
  from not_blank_Cons [OF this] show ?thesis by simp
qed

lemma ttm_period_valid:
  assumes "fpd_end (obs_period currentYTD) \<noteq> 0"
  shows "ValidateFinPeriod (ttm_period currentYTD priorYTD) = None \<longleftrightarrow>
    fpd_end (obs_period priorYTD) + 86400000000000 < fpd_end (obs_period currentYTD)"
proof -
  have label: "\<not> blank (fpd_label (ttm_period currentYTD priorYTD))"
    unfolding ttm_period_def FinPeriod.select_convs by (rule label_not_blank)
  have fields: "fpd_kind (ttm_period currentYTD priorYTD) = KindTTM"
    "fpd_start (ttm_period currentYTD priorYTD) = Some (fpd_end (obs_period priorYTD) + 86400000000000)"
    "fpd_end (ttm_period currentYTD priorYTD) = fpd_end (obs_period currentYTD)"
    "fpd_fiscal_quarter (ttm_period currentYTD priorYTD) = 0"
    by (simp_all add: ttm_period_def)
  show ?thesis unfolding ValidateFinPeriod_def fields using assms label by simp
qed

section \<open>Trailing twelve months\<close>

lemma ttm_Inr:
  assumes "\<And>xs. mset (visit xs) = mset xs"
    and "TrailingTwelveMonths L visit priorAnnual currentYTD priorYTD cutoff computedAt = Inr result"
  shows "\<forall>observation \<in> {priorAnnual, currentYTD, priorYTD}. ValidateObservation observation cutoff = None"
    and "compatible [priorAnnual, currentYTD, priorYTD] = None"
    and "obs_period result = ttm_period currentYTD priorYTD"
    and "obs_available_at result = Max {obs_available_at priorAnnual, obs_available_at currentYTD, obs_available_at priorYTD}"
    and "set (obs_source_fact_ids result) = \<Union> (set ` obs_source_fact_ids ` {priorAnnual, currentYTD, priorYTD}) - {[]}"
    and "obs_metric_id result = obs_metric_id priorAnnual \<and> obs_company_id result = obs_company_id priorAnnual \<and>
      obs_unit result = obs_unit priorAnnual \<and> obs_currency result = obs_currency priorAnnual \<and> obs_class result = ClassDerived"
    and "\<exists>annualPlusCurrent. decimalBinary L (dec_add L) (obs_value priorAnnual) (obs_value currentYTD) = Inr annualPlusCurrent \<and>
      decimalBinary L (dec_sub L) annualPlusCurrent (obs_value priorYTD) = Inr (obs_value result)"
proof -
  from assms(2) obtain annualPlusCurrent n where checks: "ttm_checks visit priorAnnual currentYTD priorYTD cutoff = None"
    and sum: "decimalBinary L (dec_add L) (obs_value priorAnnual) (obs_value currentYTD) = Inr annualPlusCurrent"
    and difference: "decimalBinary L (dec_sub L) annualPlusCurrent (obs_value priorYTD) = Inr n"
    and result: "result = \<lparr>obs_metric_id = obs_metric_id priorAnnual, obs_company_id = obs_company_id priorAnnual,
        obs_class = ClassDerived, obs_value = n, obs_raw_reported_value = None,
        obs_unit = obs_unit priorAnnual, obs_currency = obs_currency priorAnnual,
        obs_scale = obs_scale priorAnnual, obs_period = ttm_period currentYTD priorYTD,
        obs_available_at = latest [obs_available_at priorAnnual, obs_available_at currentYTD, obs_available_at priorYTD],
        obs_computed_at = computedAt,
        obs_source_fact_ids = uniqueSorted (obs_source_fact_ids priorAnnual @ obs_source_fact_ids currentYTD @
          obs_source_fact_ids priorYTD),
        obs_transformation_id = ''ttm-annual-plus-current-ytd-minus-prior-ytd/v1'', obs_sign_policy = [],
        obs_amendment_chain = uniqueSorted (obs_amendment_chain priorAnnual @ obs_amendment_chain currentYTD @
          obs_amendment_chain priorYTD)\<rparr>"
    by (auto simp: TrailingTwelveMonths_def split: sum.splits)
  show "\<forall>observation \<in> {priorAnnual, currentYTD, priorYTD}. ValidateObservation observation cutoff = None"
    "compatible [priorAnnual, currentYTD, priorYTD] = None"
    using checks by (simp_all add: ttm_checks_def visited_checks [OF assms(1)])
  show "obs_available_at result = Max {obs_available_at priorAnnual, obs_available_at currentYTD, obs_available_at priorYTD}"
    using latest_max [of "[obs_available_at priorAnnual, obs_available_at currentYTD, obs_available_at priorYTD]"]
    by (simp add: result)
  show "set (obs_source_fact_ids result) = \<Union> (set ` obs_source_fact_ids ` {priorAnnual, currentYTD, priorYTD}) - {[]}"
    by (auto simp: result set_uniqueSorted)
  show "\<exists>annualPlusCurrent. decimalBinary L (dec_add L) (obs_value priorAnnual) (obs_value currentYTD) = Inr annualPlusCurrent \<and>
      decimalBinary L (dec_sub L) annualPlusCurrent (obs_value priorYTD) = Inr (obs_value result)"
    using sum difference by (simp add: result)
  show "obs_period result = ttm_period currentYTD priorYTD"
    "obs_metric_id result = obs_metric_id priorAnnual \<and> obs_company_id result = obs_company_id priorAnnual \<and>
      obs_unit result = obs_unit priorAnnual \<and> obs_currency result = obs_currency priorAnnual \<and> obs_class result = ClassDerived"
    by (simp_all add: result)
qed

definition class_ok :: "Observation \<Rightarrow> bool" where
  "class_ok observation \<longleftrightarrow>
     (if obs_class observation \<in> set [ClassReported, ClassDerived, ClassEstimate, ClassScenario] then True
      else obs_class observation = ClassNormalized \<and> obs_raw_reported_value observation \<noteq> None \<and>
        obs_sign_policy observation \<noteq> [] \<and> obs_transformation_id observation \<noteq> [])"

definition currency_ok :: "string \<Rightarrow> string \<Rightarrow> bool" where
  "currency_ok unit currency \<longleftrightarrow> (if unit = ''currency'' then length currency = 3 else currency = [])"

lemma ValidateObservation_None:
  "ValidateObservation observation cutoff = None \<longleftrightarrow>
     obs_metric_id observation \<noteq> [] \<and> obs_company_id observation \<noteq> [] \<and> obs_unit observation \<noteq> [] \<and>
     ValidateFinPeriod (obs_period observation) = None \<and> class_ok observation \<and>
     obs_available_at observation \<noteq> 0 \<and> obs_available_at observation \<le> cutoff \<and>
     currency_ok (obs_unit observation) (obs_currency observation) \<and> obs_source_fact_ids observation \<noteq> []"
proof -
  have "(if obs_class observation \<in> set [ClassReported, ClassDerived, ClassEstimate, ClassScenario] then None
       else if obs_class observation = ClassNormalized then
         fail_if (obs_raw_reported_value observation = None \<or> obs_sign_policy observation = [] \<or>
             obs_transformation_id observation = [])
           (ErrorsNew ''normalized fact requires raw value, sign policy, and transformation lineage'')
       else Some (ErrorsNew ''observation class is required'')) = None \<longleftrightarrow> class_ok observation"
    unfolding class_ok_def by (simp only: fail_if_None split: if_split) simp
  then show ?thesis
    by (simp only: ValidateObservation_def first_err_None list.pred_inject fail_if_None currency_ok_def) auto
qed

lemma derived_class_ok: "obs_class observation = ClassDerived \<Longrightarrow> class_ok observation"
  by (simp add: class_ok_def)

lemma period_end: "ValidateFinPeriod period = None \<Longrightarrow> fpd_end period \<noteq> 0"
  by (auto simp: ValidateFinPeriod_def)

text \<open>
  C19: Trailing twelve months never look past the cutoff: the result is available no earlier than
  any of its three inputs and no later than the cutoff, has their metric, company, unit and
  sources, and its value is the annual value plus the current minus the prior year-to-date value,
  rounded twice. It is a valid observation exactly if the prior year-to-date period ended more than
  a day before the current one and some input names a source.
\<close>

theorem ttm_respects_the_cutoff:
  assumes "\<And>xs. mset (visit xs) = mset xs" and "decimal_laws L num rnd"
    and "list_all (\<lambda>observation. canonical_text L (obs_value observation)) [priorAnnual, currentYTD, priorYTD]"
    and "TrailingTwelveMonths L visit priorAnnual currentYTD priorYTD cutoff computedAt = Inr result"
  shows "obs_available_at result \<le> cutoff \<and>
    (\<forall>observation \<in> {priorAnnual, currentYTD, priorYTD}. ValidateObservation observation cutoff = None \<and>
       obs_available_at observation \<le> obs_available_at result \<and> obs_metric_id observation = obs_metric_id result \<and>
       obs_company_id observation = obs_company_id result \<and> obs_unit observation = obs_unit result) \<and>
    set (obs_source_fact_ids result) = \<Union> (set ` obs_source_fact_ids ` {priorAnnual, currentYTD, priorYTD}) - {[]} \<and>
    num (obs_value result) = rnd (rnd (num (obs_value priorAnnual) + num (obs_value currentYTD)) - num (obs_value priorYTD)) \<and>
    (ValidateObservation result cutoff = None \<longleftrightarrow>
       fpd_end (obs_period priorYTD) + 86400000000000 < fpd_end (obs_period currentYTD) \<and> obs_source_fact_ids result \<noteq> [])"
proof -
  note result = ttm_Inr [OF assms(1,4)]
  let ?at = "obs_available_at result"
  have at: "?at \<in> {obs_available_at priorAnnual, obs_available_at currentYTD, obs_available_at priorYTD}"
    unfolding result(4) by (rule Max_in) simp_all
  then have "?at \<le> cutoff" "?at \<noteq> 0" using result(1) by (auto simp: ValidateObservation_None)
  moreover have "\<forall>observation \<in> {priorAnnual, currentYTD, priorYTD}. obs_available_at observation \<le> ?at"
    unfolding result(4) by (auto simp del: Max_insert intro!: Max_ge)
  moreover have same: "\<forall>observation \<in> {priorAnnual, currentYTD, priorYTD}. obs_metric_id observation = obs_metric_id result \<and>
       obs_company_id observation = obs_company_id result \<and> obs_unit observation = obs_unit result"
    using result(2,6) by (simp add: compatible_three)
  moreover obtain s where s: "decimalBinary L (dec_add L) (obs_value priorAnnual) (obs_value currentYTD) = Inr s"
    "decimalBinary L (dec_sub L) s (obs_value priorYTD) = Inr (obs_value result)" using result(7) by blast
  then have "num (obs_value result) = rnd (rnd (num (obs_value priorAnnual) + num (obs_value currentYTD)) - num (obs_value priorYTD))"
    using assms(3) decimal_results(1) [OF assms(2) _ _ s(1)]
      decimal_results(2) [OF assms(2) decimalBinary_canonical [OF s(1)] _ s(2)] by simp
  moreover have "ValidateObservation result cutoff = None \<longleftrightarrow>
      fpd_end (obs_period priorYTD) + 86400000000000 < fpd_end (obs_period currentYTD) \<and> obs_source_fact_ids result \<noteq> []"
  proof -
    have annual: "ValidateObservation priorAnnual cutoff = None" and current: "ValidateObservation currentYTD cutoff = None"
      using result(1) by simp_all
    have period: "ValidateFinPeriod (obs_period result) = None \<longleftrightarrow>
        fpd_end (obs_period priorYTD) + 86400000000000 < fpd_end (obs_period currentYTD)"
      unfolding result(3)
    proof (rule ttm_period_valid)
      show "fpd_end (obs_period currentYTD) \<noteq> 0" using current period_end unfolding ValidateObservation_None by blast
    qed
    show ?thesis
      using annual result(6) derived_class_ok [of result] \<open>?at \<le> cutoff\<close> \<open>?at \<noteq> 0\<close>
      by (simp add: ValidateObservation_None period)
  qed
  moreover note result(1,5)
  ultimately show ?thesis unfolding ball_conj_distrib by - ((elim conjE)?, intro conjI; assumption)
qed

section \<open>Trends\<close>

interpretation end_order: slice_order end_less
  by unfold_locales (auto simp: end_less_def)

definition obs_end :: "Observation \<Rightarrow> gotime" where
  "obs_end observation = fpd_end (obs_period observation)"

lemma ordered_ends: "ordered end_less xs \<longleftrightarrow> sorted (map obs_end xs)"
  by (simp add: ordered_def end_less_def obs_end_def sorted_wrt_map not_less)

lemma neighbours_distinct:
  assumes "sorted (map obs_end xs)" and "\<forall>(x, y) \<in> set (zip xs (tl xs)). obs_end x \<noteq> obs_end y"
  shows "distinct (map obs_end xs)"
  using assms
proof (induction xs)
  case (Cons x xs)
  show ?case
  proof (cases xs)
    case (Cons y ys)
    with Cons.prems have "obs_end x < obs_end y" by auto
    moreover have "\<forall>z \<in> set xs. obs_end y \<le> obs_end z" using Cons.prems(1) \<open>xs = y # ys\<close> by auto
    ultimately have "obs_end x \<notin> obs_end ` set xs" by auto
    then show ?thesis using Cons.IH Cons.prems \<open>xs = y # ys\<close> by auto
  qed simp
qed simp

lemma sorted_ends_unique:
  assumes "sorted (map obs_end xs)" and "sorted (map obs_end ys)" and "mset xs = mset ys" and "distinct (map obs_end xs)"
  shows "xs = ys"
proof -
  have "sort_key obs_end xs = xs" using assms(1) by (simp add: sort_key_id_if_sorted)
  moreover have "sort_key obs_end xs = ys"
    using assms by (intro sort_key_inj_key_eq) (simp_all add: distinct_map)
  ultimately show ?thesis by simp
qed

lemma DescribeTrend_Inr:
  assumes "DescribeTrend L order observations cutoff tolerance = Inr descriptor"
  shows "\<exists>steps. 2 \<le> length observations \<and> (\<forall>observation \<in> set observations. ValidateObservation observation cutoff = None) \<and>
    check_neighbours (order observations) = None \<and> changes L tolerance (order observations) = Inr steps \<and>
    tdr_direction descriptor = direction_of steps \<and>
    tdr_positive_changes descriptor = int (length (filter (\<lambda>c. c > 0) steps)) \<and>
    tdr_negative_changes descriptor = int (length (filter (\<lambda>c. c < 0) steps)) \<and>
    tdr_flat_changes descriptor = int (length (filter (\<lambda>c. c = 0) steps))"
proof -
  have valid: "range_err (\<lambda>_ observation. ValidateObservation observation cutoff) observations = None \<longleftrightarrow>
      (\<forall>observation \<in> set observations. ValidateObservation observation cutoff = None)"
    by (rule range_err_None_uniform) simp
  with assms show ?thesis by (auto simp: DescribeTrend_def Let_def valid split: sum.splits if_splits)
qed

lemma trend_order:
  assumes "sorts end_less order" and "sorts end_less order'" and "mset observations' = mset observations"
    and "check_neighbours (order observations) = None"
  shows "order' observations' = order observations"
proof -
  have sorted: "sorted (map obs_end (order observations))" "sorted (map obs_end (order' observations'))"
    using sorts_ordered [OF assms(1)] sorts_ordered [OF assms(2)] by (simp_all add: ordered_ends)
  have "\<forall>(x, y) \<in> set (zip (order observations) (tl (order observations))). obs_end x \<noteq> obs_end y"
    using assms(4) unfolding check_neighbours_def
    by (subst (asm) range_err_None_uniform [where P = "\<lambda>(x, y). compatible [hd (order observations), y] = None \<and> obs_end x \<noteq> obs_end y"])
      (auto simp: obs_end_def)
  then have "distinct (map obs_end (order observations))" by (rule neighbours_distinct [OF sorted(1)])
  moreover have "mset (order observations) = mset (order' observations')"
    using assms(1-3) by (simp add: sorts_mset)
  ultimately show ?thesis using sorted_ends_unique [OF sorted] by simp
qed

text \<open>
  A trend depends only on which observations there are: given in any order and sorted by any
  correct sort they have the same descriptor, whose changes count every neighbouring pair once.
\<close>

theorem trends_ignore_the_order:
  assumes "sorts end_less order" and "sorts end_less order'" and "mset observations' = mset observations"
    and "DescribeTrend L order observations cutoff tolerance = Inr descriptor"
  shows "DescribeTrend L order' observations' cutoff tolerance = Inr descriptor \<and>
    tdr_positive_changes descriptor + tdr_negative_changes descriptor + tdr_flat_changes descriptor =
      tdr_observations descriptor - 1 \<and> tdr_observations descriptor = int (length observations)"
proof -
  obtain steps where steps: "check_neighbours (order observations) = None"
    "changes L tolerance (order observations) = Inr steps" "2 \<le> length observations"
    "tdr_positive_changes descriptor = int (length (filter (\<lambda>c. c > 0) steps))"
    "tdr_negative_changes descriptor = int (length (filter (\<lambda>c. c < 0) steps))"
    "tdr_flat_changes descriptor = int (length (filter (\<lambda>c. c = 0) steps))"
    "\<forall>observation \<in> set observations. ValidateObservation observation cutoff = None"
    using DescribeTrend_Inr [OF assms(4)] by blast
  have order: "order' observations' = order observations" by (rule trend_order [OF assms(1-3) steps(1)])
  have size: "length observations' = length observations" "set observations' = set observations"
    using assms(3) by (metis size_mset) (metis assms(3) set_mset_mset)
  have valid: "range_err (\<lambda>_ observation. ValidateObservation observation cutoff) xs = None \<longleftrightarrow>
      (\<forall>observation \<in> set xs. ValidateObservation observation cutoff = None)" for xs
    by (rule range_err_None_uniform) simp
  then have "range_err (\<lambda>_ observation. ValidateObservation observation cutoff) observations' = None"
    "range_err (\<lambda>_ observation. ValidateObservation observation cutoff) observations = None"
    using steps(7) size(2) by simp_all
  then have "DescribeTrend L order' observations' cutoff tolerance = DescribeTrend L order observations cutoff tolerance"
    unfolding DescribeTrend_def order size(1) by (simp only:)
  then have "DescribeTrend L order' observations' cutoff tolerance = Inr descriptor" using assms(4) by simp
  moreover have "tdr_observations descriptor = int (length observations)"
    using assms(4) sorts_length [OF assms(1)] by (auto simp: DescribeTrend_def Let_def split: sum.splits if_splits)
  moreover have "length steps = length observations - 1"
    using steps(2) sorts_length [OF assms(1)] unfolding changes_def map_res_Inr by (auto dest!: list_all2_lengthD)
  moreover have "length (filter (\<lambda>c. c > 0) steps) + length (filter (\<lambda>c. c < 0) steps) + length (filter (\<lambda>c. c = 0) steps) = length steps"
    by (induction steps) auto
  ultimately show ?thesis using steps(3-6) by auto
qed

section \<open>Annual windows\<close>

lemma check_window_exact:
  assumes "\<forall>seen_year \<in> set seen. seen_year \<le> year"
  shows "check_window metricID companyID cutoff (Some year) seen series = None \<longleftrightarrow>
    (\<forall>observation \<in> set series. ValidateObservation observation cutoff = None \<and>
       fpd_kind (obs_period observation) = KindAnnual \<and> obs_metric_id observation = metricID \<and>
       obs_company_id observation = companyID) \<and>
    map fiscal_year series = [year + 1..year + int (length series)]"
  using assms
proof (induction series arbitrary: year seen)
  case (Cons observation series)
  show ?case
  proof (cases "fiscal_year observation = year + 1")
    case True
    have new: "year + 1 \<notin> set seen" using Cons.prems by auto
    have years: "[year + 1..year + int (length (observation # series))] =
        (year + 1) # [(year + 1) + 1..(year + 1) + int (length series)]"
      by (subst upto_rec1) (simp_all add: algebra_simps)
    have seen: "\<forall>seen_year \<in> set ((year + 1) # seen). seen_year \<le> year + 1" using Cons.prems by auto
    show ?thesis
      using True new Cons.IH [OF seen] unfolding years check_window.simps
      by (auto simp: fail_if_def split: option.splits)
  next
    case False
    moreover have "[year + 1..year + int (length (observation # series))] =
        (year + 1) # [(year + 1) + 1..year + int (length (observation # series))]"
      by (subst upto_rec1) simp_all
    ultimately show ?thesis by (auto split: option.splits)
  qed
qed simp

text \<open>The first observation of a window has no predecessor.\<close>

lemma check_window_first:
  "check_window metricID companyID cutoff None [] (observation # series) = None \<longleftrightarrow>
     check_window metricID companyID cutoff (Some (fiscal_year observation - 1)) [] (observation # series) = None"
  by (auto simp: fail_if_def split: option.splits)

lemma before_drop:
  assumes "ordered lt xs" and "x \<in> set (take n xs)" and "y \<in> set (drop n xs)"
  shows "\<not> lt y x"
proof -
  have "ordered lt (take n xs @ drop n xs)" using assms(1) by simp
  then have "\<forall>a \<in> set (take n xs). \<forall>b \<in> set (drop n xs). \<not> lt b a"
    unfolding ordered_def sorted_wrt_append by blast
  with assms(2,3) show ?thesis by blast
qed

text \<open>
  C20: An annual window is complete: it holds exactly the asked number of valid annual
  observations of one metric and company, of consecutive fiscal years, and every observation left
  out ended no later than the first of the window.
\<close>

theorem annual_windows_are_complete:
  assumes "sorts end_less order" and "AnnualWindow order observations years cutoff = Inr window"
  shows "years \<in> {3, 5, 10} \<and> int (length (hwi_observations window)) = years \<and>
    mset (hwi_observations window) \<subseteq># mset observations \<and>
    (\<forall>observation \<in> set (hwi_observations window). ValidateObservation observation cutoff = None \<and>
       fpd_kind (obs_period observation) = KindAnnual \<and> obs_metric_id observation = hwi_metric_id window \<and>
       obs_company_id observation = hwi_company_id window) \<and>
    (\<exists>year. map fiscal_year (hwi_observations window) = [year + 1..year + years]) \<and>
    (\<forall>older \<in># mset observations - mset (hwi_observations window). obs_end older \<le> hwi_start window)"
proof -
  let ?series = "drop (length observations - nat years) (order observations)"
  from assms(2) have years: "years \<in> {3, 5, 10}" "years \<le> int (length observations)"
    and window: "hwi_observations window = ?series" "hwi_metric_id window = obs_metric_id (hd ?series)"
      "hwi_company_id window = obs_company_id (hd ?series)" "hwi_start window = obs_end (hd ?series)"
    and checked: "check_window (obs_metric_id (hd ?series)) (obs_company_id (hd ?series)) cutoff None [] ?series = None"
    by (auto simp: AnnualWindow_def Let_def obs_end_def split: if_splits)
  have size: "int (length ?series) = years" using years sorts_length [OF assms(1)] by auto
  then obtain first series where series: "?series = first # series" using years(1) by (cases ?series) auto
  have exact: "(\<forall>observation \<in> set ?series. ValidateObservation observation cutoff = None \<and>
       fpd_kind (obs_period observation) = KindAnnual \<and> obs_metric_id observation = hwi_metric_id window \<and>
       obs_company_id observation = hwi_company_id window) \<and>
       map fiscal_year ?series = [fiscal_year first - 1 + 1..fiscal_year first - 1 + int (length ?series)]"
    using checked unfolding window(2,3) series check_window_first by (subst (asm) check_window_exact) simp_all
  have parts: "mset (take (length observations - nat years) (order observations)) + mset ?series = mset observations"
    by (metis append_take_drop_id mset_append sorts_mset [OF assms(1)])
  have "obs_end older \<le> hwi_start window" if "older \<in># mset observations - mset ?series" for older
  proof -
    have "older \<in> set (take (length observations - nat years) (order observations))"
      using that unfolding parts [symmetric] by (simp add: in_multiset_in_set)
    from before_drop [OF sorts_ordered [OF assms(1)] this, of first] show ?thesis
      by (simp add: series window(4) end_less_def obs_end_def not_less)
  qed
  then show ?thesis
    using years(1) size exact mset_subset_eq_add_right [of "mset ?series"] parts unfolding window(1) by metis
qed

section \<open>Audits\<close>

lemma distinct_filter: "distinct (map f xs) \<longleftrightarrow> (\<forall>k \<in> set (map f xs). length (filter (\<lambda>x. f x = k) xs) < 2)"
proof (induction xs)
  case (Cons x xs)
  have none: "filter (\<lambda>y. f y = f x) xs = [] \<longleftrightarrow> f x \<notin> f ` set xs" unfolding filter_empty_conv image_iff by metis
  have same: "length (filter (\<lambda>y. f y = k) (x # xs)) < 2 \<longleftrightarrow>
      (if f x = k then filter (\<lambda>y. f y = k) xs = [] else length (filter (\<lambda>y. f y = k) xs) < 2)" for k
    by auto
  have "f x \<in> f ` set xs \<longleftrightarrow> (\<exists>y \<in> set xs. f y = f x)" by (auto intro: rev_image_eqI)
  with same none Cons show ?case by auto
qed simp

lemma group_issues_Nil: "group_issues (key, facts) = [] \<longleftrightarrow> length facts < 2"
  by (cases key) (simp add: group_issues_def Let_def)

lemma grouped_issues_Nil:
  assumes "mset (visit (grouped_facts observations)) = mset (grouped_facts observations)"
  shows "concat (map group_issues (visit (grouped_facts observations))) = [] \<longleftrightarrow> distinct (map fact_key_of observations)"
proof -
  have "set (visit (grouped_facts observations)) = set (grouped_facts observations)" using assms by (metis set_mset_mset)
  then have "concat (map group_issues (visit (grouped_facts observations))) = [] \<longleftrightarrow>
      (\<forall>entry \<in> set (grouped_facts observations). group_issues entry = [])" by (simp only: concat_eq_Nil_conv) auto
  also have "\<dots> \<longleftrightarrow> distinct (map fact_key_of observations)"
    unfolding distinct_filter grouped_facts_def by (simp add: group_issues_Nil foldl_append_unique)
  finally show ?thesis .
qed

text \<open>
  An audit calls a population complete exactly if every required metric has an observation,
  no observation is restated, and no two share company, metric, label of the period and class, in
  whatever order the groups are visited and the issues sorted.
\<close>

theorem audits_are_exact:
  assumes "\<And>groups. mset (visit groups) = mset groups" and "sorts fact_issue_less order"
    and "AuditFacts visit order observations requiredMetrics cutoff = Inr audit"
  shows "fau_complete audit \<longleftrightarrow> set requiredMetrics \<subseteq> obs_metric_id ` set observations \<and>
    (\<forall>observation \<in> set observations. obs_amendment_chain observation = []) \<and>
    distinct (map fact_key_of observations)"
proof -
  have "fau_complete audit \<longleftrightarrow> order (audit_issues visit observations requiredMetrics) = []"
    using assms(3) by (auto simp: AuditFacts_def Let_def split: if_splits)
  also have "\<dots> \<longleftrightarrow> audit_issues visit observations requiredMetrics = []"
    using sorts_length [OF assms(2)] by (metis length_0_conv)
  also have "\<dots> \<longleftrightarrow> (\<forall>observation \<in> set observations. obs_amendment_chain observation = []) \<and>
      set requiredMetrics \<subseteq> obs_metric_id ` set observations \<and> distinct (map fact_key_of observations)"
    unfolding audit_issues_def append_is_Nil_conv grouped_issues_Nil [where visit = visit, OF assms(1)] map_is_Nil_conv filter_empty_conv by auto
  finally show ?thesis by blast
qed

section \<open>Signs\<close>

lemma positive_use_value:
  assumes "decimal_laws L num rnd" and "canonical_text L v" and "positive_use L v = Inr value"
  shows "num value = (if num v < 0 then rnd \<bar>num v\<bar> else num v)" and "0 \<le> num value"
proof -
  have zero: "MustDecimal L ''0'' = Inr ''0''" "num ''0'' = 0" "canonical_text L ''0''"
    using assms(1) zero_canonical by (auto simp: decimal_laws_def MustDecimal_def)
  obtain c where c: "decimalCompare L v ''0'' = Inr c" "c < 0 \<longleftrightarrow> num v < 0"
    using decimal_compare [OF assms(1,2) zero(3)] zero(2) by metis
  have negated: "num n = rnd (0 - num v)" if "decimalBinary L (dec_sub L) ''0'' v = Inr n" for n
    using decimal_results(2) [OF assms(1) zero(3) assms(2) that] zero(2) by simp
  show number: "num value = (if num v < 0 then rnd \<bar>num v\<bar> else num v)"
    using assms(3) c negated by (auto simp: positive_use_def zero split: sum.splits if_splits)
  have "rounding rnd" using assms(1) by (simp add: decimal_laws_def)
  from rounding_sign(1) [OF this, of "\<bar>num v\<bar>"] number show "0 \<le> num value" by (cases "num v < 0") auto
qed

lemma normalized_valid:
  assumes "ValidateObservation observation cutoff = None" and "policy \<noteq> []" and "transformation \<noteq> []"
  shows "ValidateObservation ((normalized_by policy computedAt observation)
    \<lparr>obs_value := v, obs_transformation_id := transformation\<rparr>) cutoff = None"
proof -
  have "class_ok ((normalized_by policy computedAt observation)\<lparr>obs_value := v, obs_transformation_id := transformation\<rparr>)"
    using assms(2,3) by (simp add: class_ok_def normalized_by_def)
  then show ?thesis using assms(1) unfolding ValidateObservation_None by (simp add: normalized_by_def)
qed

text \<open>
  Normalizing the sign of a reported fact keeps the reported value as the raw value and
  yields a valid normalized fact; with the policy for uses of cash its value is the absolute value of
  the reported one, rounded when the sign changed, and never negative.
\<close>

theorem signs_are_normalized:
  assumes "decimal_laws L num rnd" and "canonical_text L (obs_value observation)"
    and "NormalizeReportedSign L observation policy computedAt = Inr result"
  shows "obs_class observation = ClassReported \<and> obs_raw_reported_value result = Some (obs_value observation) \<and>
    ValidateObservation result (obs_available_at observation) = None \<and>
    num (obs_value result) =
      (if policy = SignPositiveUse \<and> num (obs_value observation) < 0 then rnd \<bar>num (obs_value observation)\<bar>
       else num (obs_value observation)) \<and>
    (policy = SignPositiveUse \<longrightarrow> 0 \<le> num (obs_value result))"
proof -
  let ?n = "num (obs_value observation)"
  note positive = positive_use_value [OF assms(1,2)]
  from assms(3) have reported: "obs_class observation = ClassReported"
      "ValidateObservation observation (obs_available_at observation) = None"
    and cases: "(policy = SignPreserve \<and> result = (normalized_by policy computedAt observation)
        \<lparr>obs_transformation_id := ''sign-preserve/v1''\<rparr>) \<or>
      (policy = SignPositiveUse \<and> (\<exists>value. positive_use L (obs_value observation) = Inr value \<and>
        result = (normalized_by policy computedAt observation)
          \<lparr>obs_value := value, obs_transformation_id := ''cash-outflow-positive-use/v1''\<rparr>))"
    by (auto simp: NormalizeReportedSign_def split: if_splits sum.splits)
  note valid = normalized_valid [OF reported(2)]
  from cases show ?thesis
  proof (elim disjE conjE exE)
    assume "policy = SignPreserve" and result: "result = (normalized_by policy computedAt observation)
        \<lparr>obs_transformation_id := ''sign-preserve/v1''\<rparr>"
    with valid [of policy "''sign-preserve/v1''" "obs_value observation" computedAt] reported(1)
    show ?thesis unfolding result by (simp add: normalized_by_def)
  next
    fix v assume "policy = SignPositiveUse" and v: "positive_use L (obs_value observation) = Inr v"
      and result: "result = (normalized_by policy computedAt observation)
        \<lparr>obs_value := v, obs_transformation_id := ''cash-outflow-positive-use/v1''\<rparr>"
    with valid [of policy "''cash-outflow-positive-use/v1''" v computedAt] reported(1) positive [OF v]
    show ?thesis unfolding result by (simp add: normalized_by_def)
  qed
qed

section \<open>Concrete observations\<close>

definition on_day :: "int \<Rightarrow> gotime" where
  "on_day n = unix_epoch + n * 86400000000000"

definition sample_observation :: "string \<Rightarrow> int \<Rightarrow> int \<Rightarrow> rat \<Rightarrow> Observation" where
  "sample_observation kind start end_day n =
     \<lparr>obs_metric_id = ''revenue'', obs_company_id = ''acme'', obs_class = ClassReported, obs_value = fraction n,
      obs_raw_reported_value = None, obs_unit = ''currency'', obs_currency = ''USD'', obs_scale = 0,
      obs_period = \<lparr>fpd_kind = kind, fpd_start = Some (on_day start), fpd_end = on_day end_day, fpd_fiscal_year = 0,
        fpd_fiscal_quarter = 0, fpd_label = kind\<rparr>,
      obs_available_at = on_day (end_day + 40), obs_computed_at = 0, obs_source_fact_ids = [kind],
      obs_transformation_id = [], obs_sign_policy = [], obs_amendment_chain = []\<rparr>"

text \<open>Years 2021 to 2023, and the first halves of 2023 and 2024.\<close>

definition sample_years :: "Observation list" where
  "sample_years = [sample_observation KindAnnual 19358 19722 5, sample_observation KindAnnual 18628 18992 (- 2),
     sample_observation KindAnnual 18993 19357 3]"

definition half_2023 :: Observation where
  "half_2023 = sample_observation KindYearToDate 19358 19538 2"

definition half_2024 :: Observation where
  "half_2024 = sample_observation KindYearToDate 19723 19904 4"

lemma sample_ttm:
  "case TrailingTwelveMonths fraction_lib (\<lambda>xs. xs) (hd sample_years) half_2024 half_2023 (on_day 20000) 0 of
     Inl _ \<Rightarrow> False | Inr result \<Rightarrow> True"
  by code_simp

theorem ttm_respects_the_cutoff_witness:
  "\<exists>result. TrailingTwelveMonths fraction_lib (\<lambda>xs. xs) (hd sample_years) half_2024 half_2023 (on_day 20000) 0 = Inr result \<and>
     obs_available_at result \<le> on_day 20000 \<and> fraction_value (obs_value result) = 7"
proof -
  obtain result where result:
    "TrailingTwelveMonths fraction_lib (\<lambda>xs. xs) (hd sample_years) half_2024 half_2023 (on_day 20000) 0 = Inr result"
    using sample_ttm by (auto split: sum.splits)
  have texts: "obs_value (hd sample_years) = fraction 5" "obs_value half_2024 = fraction 4" "obs_value half_2023 = fraction 2"
    by (simp_all add: sample_years_def half_2023_def half_2024_def sample_observation_def)
  then have "list_all (\<lambda>observation. canonical_text fraction_lib (obs_value observation)) [hd sample_years, half_2024, half_2023]"
    by (auto simp: canonical_fraction)
  from ttm_respects_the_cutoff [OF _ fraction_laws this result] result texts show ?thesis by simp
qed

theorem trends_ignore_the_order_witness:
  "\<exists>descriptor. DescribeTrend fraction_lib (sort_by end_less) (rev sample_years) (on_day 20000) (fraction 0) = Inr descriptor \<and>
     tdr_observations descriptor = 3"
proof -
  have "case DescribeTrend fraction_lib (sort_by end_less) sample_years (on_day 20000) (fraction 0) of
      Inl _ \<Rightarrow> False | Inr _ \<Rightarrow> True" by code_simp
  then obtain descriptor where "DescribeTrend fraction_lib (sort_by end_less) sample_years (on_day 20000) (fraction 0) = Inr descriptor"
    by (auto split: sum.splits)
  from trends_ignore_the_order [OF end_order.sort_by_sorts end_order.sort_by_sorts _ this, of "rev sample_years"]
  show ?thesis by (simp add: sample_years_def)
qed

theorem annual_windows_are_complete_witness:
  "\<exists>window. AnnualWindow (sort_by end_less) sample_years 3 (on_day 20000) = Inr window \<and>
     int (length (hwi_observations window)) = 3"
proof -
  have "case AnnualWindow (sort_by end_less) sample_years 3 (on_day 20000) of Inl _ \<Rightarrow> False | Inr _ \<Rightarrow> True" by code_simp
  then obtain window where "AnnualWindow (sort_by end_less) sample_years 3 (on_day 20000) = Inr window"
    by (auto split: sum.splits)
  with annual_windows_are_complete [OF end_order.sort_by_sorts this] show ?thesis by blast
qed

interpretation fact_issue_order: slice_order fact_issue_less
  by unfold_locales (auto simp: fact_issue_less_def)

theorem audits_are_exact_witness:
  "\<exists>audit. AuditFacts (\<lambda>xs. xs) (sort_by fact_issue_less) [half_2023, hd sample_years] [''revenue''] (on_day 20000) = Inr audit \<and>
     fau_complete audit"
proof -
  have "case AuditFacts (\<lambda>xs. xs) (sort_by fact_issue_less) [half_2023, hd sample_years] [''revenue''] (on_day 20000) of
      Inl _ \<Rightarrow> False | Inr _ \<Rightarrow> True" by code_simp
  then obtain audit where audit:
    "AuditFacts (\<lambda>xs. xs) (sort_by fact_issue_less) [half_2023, hd sample_years] [''revenue''] (on_day 20000) = Inr audit"
    by (auto split: sum.splits)
  from audits_are_exact [OF _ fact_issue_order.sort_by_sorts this] audit show ?thesis
    by (simp add: sample_years_def half_2023_def sample_observation_def fact_key_of_def)
qed

theorem signs_are_normalized_witness:
  "\<exists>result. NormalizeReportedSign fraction_lib (sample_years ! 1) SignPositiveUse 0 = Inr result \<and>
     fraction_value (obs_value result) = 2"
proof -
  have "case NormalizeReportedSign fraction_lib (sample_years ! 1) SignPositiveUse 0 of Inl _ \<Rightarrow> False | Inr _ \<Rightarrow> True"
    by code_simp
  then obtain result where result: "NormalizeReportedSign fraction_lib (sample_years ! 1) SignPositiveUse 0 = Inr result"
    by (auto split: sum.splits)
  have negative: "obs_value (sample_years ! 1) = fraction (- 2)" by (simp add: sample_years_def sample_observation_def)
  then have "canonical_text fraction_lib (obs_value (sample_years ! 1))" by (auto simp: canonical_fraction)
  from signs_are_normalized [OF fraction_laws this result] result negative show ?thesis by simp
qed

text \<open>
  Trailing twelve months do not check that the comparative year-to-date period lies a year
  before the current one: with the same observation for both the code answers, with a period that
  starts a day after its end and that its own validation refuses.
\<close>

theorem ttm_accepts_one_period_twice:
  "case TrailingTwelveMonths fraction_lib (\<lambda>xs. xs) (hd sample_years) half_2024 half_2024 (on_day 20000) 0 of
     Inl _ \<Rightarrow> False
   | Inr result \<Rightarrow> ValidateObservation result (on_day 20000) =
       Some (ErrorsNew ''duration period requires an ordered start and end'')"
  by code_simp

end
