(* ===== verification/Finance_Formulas.thy ===== *)
theory Finance_Formulas
  imports Decimals
begin

text \<open>
  The formulas of \<open>internal/finance\<close> over decimals: \<open>decimal.go\<close>, \<open>formulas.go\<close> and \<open>returns.go\<close>.
  A formula returns an error or a decimal; where the code drops the error of
  a comparison (\<open>sign, _ := compare(x, y)\<close>), the sign is zero (\<open>sign_of\<close>).
\<close>

section \<open>Decimal arithmetic (decimal.go)\<close>

definition raw :: "'d decimal_lib \<Rightarrow> Decimal \<Rightarrow> go_error + 'd" where
  "raw L d = (case dec_new L d of Inl err \<Rightarrow> Inl (Wrapf ''parse canonical decimal: %w'' [] err) | Inr parsed \<Rightarrow> Inr parsed)"

definition canonical :: "'d decimal_lib \<Rightarrow> 'd \<Rightarrow> go_error + Decimal" where
  "canonical L d = ParseDecimal L (dec_string L d)"

definition binary :: "'d decimal_lib \<Rightarrow> ('d \<Rightarrow> 'd \<Rightarrow> go_error + 'd) \<Rightarrow> Decimal \<Rightarrow> Decimal \<Rightarrow> go_error + Decimal" where
  "binary L operation left right =
     res_bind (raw L left) (\<lambda>x.
     res_bind (raw L right) (\<lambda>y.
     res_bind (operation x y) (canonical L)))"

definition add :: "'d decimal_lib \<Rightarrow> Decimal \<Rightarrow> Decimal \<Rightarrow> go_error + Decimal" where
  "add L = binary L (dec_add L)"

definition subtract :: "'d decimal_lib \<Rightarrow> Decimal \<Rightarrow> Decimal \<Rightarrow> go_error + Decimal" where
  "subtract L = binary L (dec_sub L)"

definition multiply :: "'d decimal_lib \<Rightarrow> Decimal \<Rightarrow> Decimal \<Rightarrow> go_error + Decimal" where
  "multiply L = binary L (dec_mul L)"

abbreviation errDivisionByZero :: go_error where
  "errDivisionByZero \<equiv> Sentinel ''division by zero''"

definition divide :: "'d decimal_lib \<Rightarrow> Decimal \<Rightarrow> Decimal \<Rightarrow> go_error + Decimal" where
  "divide L left right = (if right = ''0'' then Inl errDivisionByZero else binary L (dec_quo L) left right)"

definition power :: "'d decimal_lib \<Rightarrow> Decimal \<Rightarrow> Decimal \<Rightarrow> go_error + Decimal" where
  "power L = binary L (dec_pow L)"

definition negate :: "'d decimal_lib \<Rightarrow> Decimal \<Rightarrow> go_error + Decimal" where
  "negate L d = res_bind (raw L d) (\<lambda>x. res_bind (dec_neg L x) (canonical L))"

definition absolute :: "'d decimal_lib \<Rightarrow> Decimal \<Rightarrow> go_error + Decimal" where
  "absolute L d = res_bind (raw L d) (\<lambda>x. res_bind (dec_abs L x) (canonical L))"

definition compare :: "'d decimal_lib \<Rightarrow> Decimal \<Rightarrow> Decimal \<Rightarrow> go_error + int" where
  "compare L left right = res_bind (raw L left) (\<lambda>x. res_bind (raw L right) (\<lambda>y. Inr (dec_cmp L x y)))"

definition ratio :: "'d decimal_lib \<Rightarrow> Decimal \<Rightarrow> Decimal \<Rightarrow> go_error + Decimal" where
  "ratio L numerator denominator =
     (if denominator = ''0'' then Inl errDivisionByZero else divide L numerator denominator)"

definition DecimalLessThanOrEqual :: "'d decimal_lib \<Rightarrow> Decimal \<Rightarrow> Decimal \<Rightarrow> go_error + bool" where
  "DecimalLessThanOrEqual L left right = res_bind (compare L left right) (\<lambda>order. Inr (order \<le> 0))"

text \<open>\<open>sign, _ := compare(x, y)\<close>; \<open>d, _ := absolute(x)\<close> leaves the zero value, the empty text.\<close>

definition sign_of :: "'d decimal_lib \<Rightarrow> Decimal \<Rightarrow> Decimal \<Rightarrow> int" where
  "sign_of L left right = (case compare L left right of Inl _ \<Rightarrow> 0 | Inr order \<Rightarrow> order)"

definition or_empty :: "go_error + Decimal \<Rightarrow> Decimal" where
  "or_empty result = (case result of Inl _ \<Rightarrow> [] | Inr d \<Rightarrow> d)"

text \<open>The package variables; the program does not start where these literals do not parse.\<close>

definition dec_zero :: "'d decimal_lib \<Rightarrow> Decimal" where "dec_zero L = or_empty (MustDecimal L ''0'')"
definition dec_one :: "'d decimal_lib \<Rightarrow> Decimal" where "dec_one L = or_empty (MustDecimal L ''1'')"

section \<open>Statements and ratios (formulas.go)\<close>

record BalanceSheetResult =
  bsr_difference :: Decimal
  bsr_within_tolerance :: bool

definition BalanceSheetIdentity :: "'d decimal_lib \<Rightarrow> Decimal \<Rightarrow> Decimal \<Rightarrow> Decimal \<Rightarrow> Decimal \<Rightarrow> go_error + BalanceSheetResult" where
  "BalanceSheetIdentity L assets liabilities equity tolerance =
     res_bind (add L liabilities equity) (\<lambda>right.
     res_bind (subtract L assets right) (\<lambda>difference.
     res_bind (absolute L difference) (\<lambda>absDifference.
       if (case compare L tolerance (dec_zero L) of Inl _ \<Rightarrow> True | Inr sign \<Rightarrow> sign < 0) then
         Inl (ErrorsNew ''tolerance must be non-negative'')
       else res_bind (compare L absDifference tolerance) (\<lambda>comparison.
         Inr \<lparr>bsr_difference = difference, bsr_within_tolerance = (comparison \<le> 0)\<rparr>))))"

definition Growth :: "'d decimal_lib \<Rightarrow> Decimal \<Rightarrow> Decimal \<Rightarrow> go_error + Decimal" where
  "Growth L current prior = res_bind (subtract L current prior) (\<lambda>delta. ratio L delta prior)"

definition CAGR :: "'d decimal_lib \<Rightarrow> Decimal \<Rightarrow> Decimal \<Rightarrow> Decimal \<Rightarrow> go_error + Decimal" where
  "CAGR L start end_value years =
     (if sign_of L start (dec_zero L) \<le> 0 then Inl (ErrorsNew ''CAGR start value must be positive'')
      else if sign_of L end_value (dec_zero L) < 0 then Inl (ErrorsNew ''CAGR end value cannot be negative'')
      else if sign_of L years (dec_zero L) \<le> 0 then Inl (ErrorsNew ''CAGR years must be positive'')
      else res_bind (divide L end_value start) (\<lambda>base.
        res_bind (divide L (dec_one L) years) (\<lambda>exponent.
          (case power L base exponent of Inl err \<Rightarrow> Inl (Wrapf ''calculate CAGR: %w'' [] err)
           | Inr compounded \<Rightarrow> subtract L compounded (dec_one L)))))"

definition Margin :: "'d decimal_lib \<Rightarrow> Decimal \<Rightarrow> Decimal \<Rightarrow> go_error + Decimal" where
  "Margin L numerator revenue = ratio L numerator revenue"

definition FreeCashFlow :: "'d decimal_lib \<Rightarrow> Decimal \<Rightarrow> Decimal \<Rightarrow> go_error + Decimal" where
  "FreeCashFlow L operatingCashFlow capitalExpenditure = subtract L operatingCashFlow capitalExpenditure"

definition CashConversion :: "'d decimal_lib \<Rightarrow> Decimal \<Rightarrow> Decimal \<Rightarrow> go_error + Decimal" where
  "CashConversion L operatingCashFlow netIncome = ratio L operatingCashFlow netIncome"

definition CapexIntensity :: "'d decimal_lib \<Rightarrow> Decimal \<Rightarrow> Decimal \<Rightarrow> go_error + Decimal" where
  "CapexIntensity L capitalExpenditure revenue = ratio L capitalExpenditure revenue"

definition NetDebt :: "'d decimal_lib \<Rightarrow> Decimal \<Rightarrow> Decimal \<Rightarrow> go_error + Decimal" where
  "NetDebt L debt cashAndEquivalents = subtract L debt cashAndEquivalents"

definition Dilution :: "'d decimal_lib \<Rightarrow> Decimal \<Rightarrow> Decimal \<Rightarrow> go_error + Decimal" where
  "Dilution L currentShares priorShares = Growth L currentShares priorShares"

definition ROICProxy :: "'d decimal_lib \<Rightarrow> Decimal \<Rightarrow> Decimal \<Rightarrow> go_error + Decimal" where
  "ROICProxy L nopat investedCapital = ratio L nopat investedCapital"

definition CurrentRatio :: "'d decimal_lib \<Rightarrow> Decimal \<Rightarrow> Decimal \<Rightarrow> go_error + Decimal" where
  "CurrentRatio L currentAssets currentLiabilities = ratio L currentAssets currentLiabilities"

definition DebtToEquity :: "'d decimal_lib \<Rightarrow> Decimal \<Rightarrow> Decimal \<Rightarrow> go_error + Decimal" where
  "DebtToEquity L debt equity = ratio L debt equity"

definition EarningsPerShare :: "'d decimal_lib \<Rightarrow> Decimal \<Rightarrow> Decimal \<Rightarrow> go_error + Decimal" where
  "EarningsPerShare L netIncome dilutedShares = ratio L netIncome dilutedShares"

record QualityOfEarningsResult =
  qer_accrual_gap :: Decimal
  qer_cash_conversion :: Decimal

definition QualityOfEarnings :: "'d decimal_lib \<Rightarrow> Decimal \<Rightarrow> Decimal \<Rightarrow> go_error + QualityOfEarningsResult" where
  "QualityOfEarnings L operatingCashFlow netIncome =
     res_bind (subtract L operatingCashFlow netIncome) (\<lambda>gap.
     res_bind (ratio L operatingCashFlow netIncome) (\<lambda>conversion.
       Inr \<lparr>qer_accrual_gap = gap, qer_cash_conversion = conversion\<rparr>))"

record EquityBridgeResult =
  ebr_equity_value :: Decimal
  ebr_value_per_share :: Decimal

definition EnterpriseToEquity :: "'d decimal_lib \<Rightarrow> Decimal \<Rightarrow> Decimal \<Rightarrow> Decimal \<Rightarrow> Decimal \<Rightarrow> go_error + EquityBridgeResult" where
  "EnterpriseToEquity L enterpriseValue netDebt nonOperatingAssets dilutedShares =
     res_bind (subtract L enterpriseValue netDebt) (\<lambda>equity.
     res_bind (add L equity nonOperatingAssets) (\<lambda>equity.
     res_bind (divide L equity dilutedShares) (\<lambda>perShare.
       Inr \<lparr>ebr_equity_value = equity, ebr_value_per_share = perShare\<rparr>)))"

definition PeerMultiple :: "'d decimal_lib \<Rightarrow> Decimal \<Rightarrow> Decimal \<Rightarrow> go_error + Decimal" where
  "PeerMultiple L marketValue metricValue = ratio L marketValue metricValue"

text \<open>The two values that must not be negative are kept in a map: which of two errors is returned is
  left open by Go, here the one of the equity.\<close>

definition WACC :: "'d decimal_lib \<Rightarrow> Decimal \<Rightarrow> Decimal \<Rightarrow> Decimal \<Rightarrow> Decimal \<Rightarrow> Decimal \<Rightarrow> go_error + Decimal" where
  "WACC L equityValue debtValue costOfEquity preTaxCostOfDebt taxRate =
     check_then (first_err
       [range_err (\<lambda>_ (name, d). fail_if (sign_of L d (dec_zero L) < 0) (Errorf ''%s cannot be negative'' [FStr name]))
          [(''equity value'', equityValue), (''debt value'', debtValue)],
        fail_if (sign_of L taxRate (dec_zero L) < 0) (ErrorsNew ''tax rate cannot be negative''),
        fail_if (sign_of L taxRate (dec_one L) > 0) (ErrorsNew ''tax rate cannot exceed one'')])
     (res_bind (add L equityValue debtValue) (\<lambda>totalCapital.
      res_bind (divide L equityValue totalCapital) (\<lambda>equityWeight.
      res_bind (divide L debtValue totalCapital) (\<lambda>debtWeight.
      res_bind (multiply L equityWeight costOfEquity) (\<lambda>equityComponent.
      res_bind (subtract L (dec_one L) taxRate) (\<lambda>oneMinusTax.
      res_bind (multiply L debtWeight preTaxCostOfDebt) (\<lambda>debtComponent.
      res_bind (multiply L debtComponent oneMinusTax) (\<lambda>debtComponent.
        add L equityComponent debtComponent))))))))"

definition RealRate :: "'d decimal_lib \<Rightarrow> Decimal \<Rightarrow> Decimal \<Rightarrow> go_error + Decimal" where
  "RealRate L nominalRate inflation =
     res_bind (add L (dec_one L) nominalRate) (\<lambda>numerator.
     res_bind (add L (dec_one L) inflation) (\<lambda>denominator.
     res_bind (divide L numerator denominator) (\<lambda>quotient.
       subtract L quotient (dec_one L))))"

definition YieldCurveSpread :: "'d decimal_lib \<Rightarrow> Decimal \<Rightarrow> Decimal \<Rightarrow> go_error + Decimal" where
  "YieldCurveSpread L longYield shortYield = subtract L longYield shortYield"

section \<open>Capital and cash flow (returns.go)\<close>

definition validateUnitRate :: "'d decimal_lib \<Rightarrow> Decimal \<Rightarrow> string \<Rightarrow> go_error option" where
  "validateUnitRate L rate name = first_err
     [fail_if (sign_of L rate (dec_zero L) < 0) (ErrorsNew (name @ '' cannot be negative'')),
      fail_if (sign_of L rate (dec_one L) > 0) (ErrorsNew (name @ '' cannot exceed one''))]"

definition NOPAT :: "'d decimal_lib \<Rightarrow> Decimal \<Rightarrow> Decimal \<Rightarrow> go_error + Decimal" where
  "NOPAT L operatingIncome taxRate =
     check_then (validateUnitRate L taxRate ''tax rate'')
       (res_bind (subtract L (dec_one L) taxRate) (\<lambda>afterTaxRate. multiply L operatingIncome afterTaxRate))"

record InvestedCapitalResult =
  icr_operating_approach :: Decimal
  icr_financing_approach :: Decimal
  icr_difference :: Decimal

definition InvestedCapital :: "'d decimal_lib \<Rightarrow> Decimal \<Rightarrow> Decimal \<Rightarrow> Decimal \<Rightarrow> Decimal \<Rightarrow> Decimal \<Rightarrow> Decimal \<Rightarrow>
    go_error + InvestedCapitalResult" where
  "InvestedCapital L operatingAssets nonInterestBearingOperatingLiabilities debt equity cashAndEquivalents nonOperatingAssets =
     res_bind (subtract L operatingAssets nonInterestBearingOperatingLiabilities) (\<lambda>operating.
     res_bind (add L debt equity) (\<lambda>financing.
     res_bind (subtract L financing cashAndEquivalents) (\<lambda>financing.
     res_bind (subtract L financing nonOperatingAssets) (\<lambda>financing.
     res_bind (subtract L operating financing) (\<lambda>difference.
       Inr \<lparr>icr_operating_approach = operating, icr_financing_approach = financing, icr_difference = difference\<rparr>)))))"

definition AverageInvestedCapital :: "'d decimal_lib \<Rightarrow> Decimal \<Rightarrow> Decimal \<Rightarrow> go_error + Decimal" where
  "AverageInvestedCapital L beginning ending =
     check_then (first_err
       [fail_if (sign_of L beginning (dec_zero L) \<le> 0) (ErrorsNew ''beginning invested capital must be positive''),
        fail_if (sign_of L ending (dec_zero L) \<le> 0) (ErrorsNew ''ending invested capital must be positive'')])
     (res_bind (add L beginning ending) (\<lambda>total.
      res_bind (MustDecimal L ''2'') (\<lambda>two. divide L total two)))"

definition OperatingWorkingCapital :: "'d decimal_lib \<Rightarrow> Decimal \<Rightarrow> Decimal \<Rightarrow> Decimal \<Rightarrow> Decimal \<Rightarrow> Decimal \<Rightarrow>
    go_error + Decimal" where
  "OperatingWorkingCapital L accountsReceivable inventory otherOperatingCurrentAssets accountsPayable
      otherOperatingCurrentLiabilities =
     res_bind (add L accountsReceivable inventory) (\<lambda>assets.
     res_bind (add L assets otherOperatingCurrentAssets) (\<lambda>assets.
     res_bind (add L accountsPayable otherOperatingCurrentLiabilities) (\<lambda>liabilities.
       subtract L assets liabilities)))"

definition ChangeInWorkingCapital :: "'d decimal_lib \<Rightarrow> Decimal \<Rightarrow> Decimal \<Rightarrow> go_error + Decimal" where
  "ChangeInWorkingCapital L ending beginning = subtract L ending beginning"

definition NetCapitalExpenditure :: "'d decimal_lib \<Rightarrow> Decimal \<Rightarrow> Decimal \<Rightarrow> go_error + Decimal" where
  "NetCapitalExpenditure L capitalExpenditure depreciationAndAmortization =
     subtract L capitalExpenditure depreciationAndAmortization"

definition Reinvestment :: "'d decimal_lib \<Rightarrow> Decimal \<Rightarrow> Decimal \<Rightarrow> Decimal \<Rightarrow> go_error + Decimal" where
  "Reinvestment L netCapitalExpenditure changeInWorkingCapital acquisitions =
     res_bind (add L netCapitalExpenditure changeInWorkingCapital) (\<lambda>total. add L total acquisitions)"

definition FCFFFromNOPAT :: "'d decimal_lib \<Rightarrow> Decimal \<Rightarrow> Decimal \<Rightarrow> go_error + Decimal" where
  "FCFFFromNOPAT L nopat reinvestment = subtract L nopat reinvestment"

definition FCFE :: "'d decimal_lib \<Rightarrow> Decimal \<Rightarrow> Decimal \<Rightarrow> Decimal \<Rightarrow> Decimal \<Rightarrow> Decimal \<Rightarrow> go_error + Decimal" where
  "FCFE L netIncome capitalExpenditure depreciationAndAmortization changeInWorkingCapital netBorrowing =
     res_bind (NetCapitalExpenditure L capitalExpenditure depreciationAndAmortization) (\<lambda>netCapex.
     res_bind (subtract L netIncome netCapex) (\<lambda>flow.
     res_bind (subtract L flow changeInWorkingCapital) (\<lambda>flow.
       add L flow netBorrowing)))"

definition ROIC :: "'d decimal_lib \<Rightarrow> Decimal \<Rightarrow> Decimal \<Rightarrow> go_error + Decimal" where
  "ROIC L nopat investedCapital =
     (if sign_of L investedCapital (dec_zero L) \<le> 0 then Inl (ErrorsNew ''invested capital must be positive'')
      else divide L nopat investedCapital)"

definition IncrementalROIC :: "'d decimal_lib \<Rightarrow> Decimal \<Rightarrow> Decimal \<Rightarrow> go_error + Decimal" where
  "IncrementalROIC L changeInNOPAT changeInInvestedCapital =
     (if sign_of L changeInInvestedCapital (dec_zero L) \<le> 0 then
        Inl (ErrorsNew ''change in invested capital must be positive'')
      else divide L changeInNOPAT changeInInvestedCapital)"

definition ValueCreationSpread :: "'d decimal_lib \<Rightarrow> Decimal \<Rightarrow> Decimal \<Rightarrow> go_error + Decimal" where
  "ValueCreationSpread L roic wacc = subtract L roic wacc"

definition ReinvestmentRate :: "'d decimal_lib \<Rightarrow> Decimal \<Rightarrow> Decimal \<Rightarrow> go_error + Decimal" where
  "ReinvestmentRate L reinvestment nopat =
     (if sign_of L nopat (dec_zero L) \<le> 0 then Inl (ErrorsNew ''NOPAT must be positive for reinvestment rate'')
      else divide L reinvestment nopat)"

definition FundamentalGrowth :: "'d decimal_lib \<Rightarrow> Decimal \<Rightarrow> Decimal \<Rightarrow> go_error + Decimal" where
  "FundamentalGrowth L returnOnCapital reinvestmentRate = multiply L returnOnCapital reinvestmentRate"

definition SustainableEquityGrowth :: "'d decimal_lib \<Rightarrow> Decimal \<Rightarrow> Decimal \<Rightarrow> go_error + Decimal" where
  "SustainableEquityGrowth L returnOnEquity retentionRatio =
     check_then (validateUnitRate L retentionRatio ''retention ratio'') (multiply L returnOnEquity retentionRatio)"

end
