(* ===== verification/Finance_Ratios.thy ===== *)
theory Finance_Ratios
  imports Finance_Formulas
begin

text \<open>
  Ratios that ask for a positive denominator: \<open>quality.go\<close>, the rates and multiples of
  \<open>valuation_advanced.go\<close> and the ratios of \<open>financial_complete.go\<close> (\<open>internal/finance\<close>).
\<close>

section \<open>Quality (quality.go)\<close>

definition positiveDenominatorRatio :: "'d decimal_lib \<Rightarrow> Decimal \<Rightarrow> Decimal \<Rightarrow> string \<Rightarrow> go_error + Decimal" where
  "positiveDenominatorRatio L numerator denominator denominatorName =
     (if sign_of L denominator (dec_zero L) \<le> 0 then Inl (ErrorsNew (denominatorName @ '' must be positive''))
      else divide L numerator denominator)"

definition daysRatio :: "'d decimal_lib \<Rightarrow> Decimal \<Rightarrow> Decimal \<Rightarrow> Decimal \<Rightarrow> string \<Rightarrow> go_error + Decimal" where
  "daysRatio L balance flow days denominatorName =
     res_bind (positiveDenominatorRatio L balance flow denominatorName) (\<lambda>quotient.
       if sign_of L days (dec_zero L) \<le> 0 then Inl (ErrorsNew ''days must be positive'')
       else multiply L quotient days)"

definition sumDecimals :: "'d decimal_lib \<Rightarrow> Decimal list \<Rightarrow> go_error + Decimal" where
  "sumDecimals L ds = foldl (\<lambda>result d. res_bind result (\<lambda>total. add L total d)) (Inr (dec_zero L)) ds"

datatype MarginKind = MarginGross | MarginOperating | MarginEBITDA | MarginPretax | MarginNet | MarginFreeCashFlow
  | OtherMargin string

record TypedMargin =
  tmg_kind :: MarginKind
  tmg_value :: Decimal

definition ProfitMargin :: "'d decimal_lib \<Rightarrow> MarginKind \<Rightarrow> Decimal \<Rightarrow> Decimal \<Rightarrow> go_error + TypedMargin" where
  "ProfitMargin L kind numerator revenue =
     (case kind of OtherMargin _ \<Rightarrow> Inl (ErrorsNew ''unsupported margin kind'')
      | _ \<Rightarrow>
          if sign_of L revenue (dec_zero L) \<le> 0 then Inl (ErrorsNew ''revenue must be positive'')
          else res_bind (divide L numerator revenue) (\<lambda>quotient. Inr \<lparr>tmg_kind = kind, tmg_value = quotient\<rparr>))"

definition MarginChange :: "'d decimal_lib \<Rightarrow> Decimal \<Rightarrow> Decimal \<Rightarrow> go_error + Decimal" where
  "MarginChange L current prior = subtract L current prior"

definition IncrementalMargin :: "'d decimal_lib \<Rightarrow> Decimal \<Rightarrow> Decimal \<Rightarrow> Decimal \<Rightarrow> Decimal \<Rightarrow> go_error + Decimal" where
  "IncrementalMargin L currentProfit priorProfit currentRevenue priorRevenue =
     res_bind (subtract L currentProfit priorProfit) (\<lambda>profitChange.
     res_bind (subtract L currentRevenue priorRevenue) (\<lambda>revenueChange.
       if sign_of L revenueChange (dec_zero L) \<le> 0 then Inl (ErrorsNew ''revenue change must be positive'')
       else divide L profitChange revenueChange))"

definition OperatingLeverage :: "'d decimal_lib \<Rightarrow> Decimal \<Rightarrow> Decimal \<Rightarrow> Decimal \<Rightarrow> Decimal \<Rightarrow> go_error + Decimal" where
  "OperatingLeverage L currentOperatingIncome priorOperatingIncome currentRevenue priorRevenue =
     res_bind (Growth L currentRevenue priorRevenue) (\<lambda>revenueGrowth.
       if revenueGrowth = ''0'' then Inl (ErrorsNew ''revenue growth must be non-zero'')
       else res_bind (Growth L currentOperatingIncome priorOperatingIncome) (\<lambda>operatingGrowth.
         divide L operatingGrowth revenueGrowth))"

definition AccrualIntensity :: "'d decimal_lib \<Rightarrow> Decimal \<Rightarrow> Decimal \<Rightarrow> Decimal \<Rightarrow> go_error + Decimal" where
  "AccrualIntensity L netIncome operatingCashFlow averageAssets =
     (if sign_of L averageAssets (dec_zero L) \<le> 0 then Inl (ErrorsNew ''average assets must be positive'')
      else res_bind (subtract L netIncome operatingCashFlow) (\<lambda>accruals. divide L accruals averageAssets))"

definition DaysSalesOutstanding :: "'d decimal_lib \<Rightarrow> Decimal \<Rightarrow> Decimal \<Rightarrow> Decimal \<Rightarrow> go_error + Decimal" where
  "DaysSalesOutstanding L averageReceivables revenue days = daysRatio L averageReceivables revenue days ''revenue''"

definition DaysInventoryOutstanding :: "'d decimal_lib \<Rightarrow> Decimal \<Rightarrow> Decimal \<Rightarrow> Decimal \<Rightarrow> go_error + Decimal" where
  "DaysInventoryOutstanding L averageInventory costOfRevenue days =
     daysRatio L averageInventory costOfRevenue days ''cost of revenue''"

definition DaysPayablesOutstanding :: "'d decimal_lib \<Rightarrow> Decimal \<Rightarrow> Decimal \<Rightarrow> Decimal \<Rightarrow> go_error + Decimal" where
  "DaysPayablesOutstanding L averagePayables costOfRevenue days =
     daysRatio L averagePayables costOfRevenue days ''cost of revenue''"

definition CashConversionCycle :: "'d decimal_lib \<Rightarrow> Decimal \<Rightarrow> Decimal \<Rightarrow> Decimal \<Rightarrow> go_error + Decimal" where
  "CashConversionCycle L dso dio dpo = res_bind (add L dso dio) (\<lambda>days. subtract L days dpo)"

definition QuickRatio :: "'d decimal_lib \<Rightarrow> Decimal \<Rightarrow> Decimal \<Rightarrow> Decimal \<Rightarrow> Decimal \<Rightarrow> go_error + Decimal" where
  "QuickRatio L cashAndEquivalents marketableSecurities accountsReceivable currentLiabilities =
     res_bind (add L cashAndEquivalents marketableSecurities) (\<lambda>liquid.
     res_bind (add L liquid accountsReceivable) (\<lambda>liquid.
       positiveDenominatorRatio L liquid currentLiabilities ''current liabilities''))"

definition CashRatio :: "'d decimal_lib \<Rightarrow> Decimal \<Rightarrow> Decimal \<Rightarrow> Decimal \<Rightarrow> go_error + Decimal" where
  "CashRatio L cashAndEquivalents marketableSecurities currentLiabilities =
     res_bind (add L cashAndEquivalents marketableSecurities) (\<lambda>liquid.
       positiveDenominatorRatio L liquid currentLiabilities ''current liabilities'')"

definition InterestCoverage :: "'d decimal_lib \<Rightarrow> Decimal \<Rightarrow> Decimal \<Rightarrow> go_error + Decimal" where
  "InterestCoverage L ebit interestExpense = positiveDenominatorRatio L ebit interestExpense ''interest expense''"

definition NetDebtToEBITDA :: "'d decimal_lib \<Rightarrow> Decimal \<Rightarrow> Decimal \<Rightarrow> go_error + Decimal" where
  "NetDebtToEBITDA L netDebt ebitda = positiveDenominatorRatio L netDebt ebitda ''EBITDA''"

definition StockBasedCompensationIntensity :: "'d decimal_lib \<Rightarrow> Decimal \<Rightarrow> Decimal \<Rightarrow> go_error + Decimal" where
  "StockBasedCompensationIntensity L stockBasedCompensation revenue =
     positiveDenominatorRatio L stockBasedCompensation revenue ''revenue''"

definition BuybackYield :: "'d decimal_lib \<Rightarrow> Decimal \<Rightarrow> Decimal \<Rightarrow> go_error + Decimal" where
  "BuybackYield L netRepurchases marketCapitalization =
     positiveDenominatorRatio L netRepurchases marketCapitalization ''market capitalization''"

definition DividendYield :: "'d decimal_lib \<Rightarrow> Decimal \<Rightarrow> Decimal \<Rightarrow> go_error + Decimal" where
  "DividendYield L dividendsPaid marketCapitalization =
     positiveDenominatorRatio L dividendsPaid marketCapitalization ''market capitalization''"

definition ShareholderYield :: "'d decimal_lib \<Rightarrow> Decimal \<Rightarrow> Decimal \<Rightarrow> Decimal \<Rightarrow> Decimal \<Rightarrow> go_error + Decimal" where
  "ShareholderYield L netRepurchases dividendsPaid netDebtReduction marketCapitalization =
     res_bind (add L netRepurchases dividendsPaid) (\<lambda>returned.
     res_bind (add L returned netDebtReduction) (\<lambda>returned.
       positiveDenominatorRatio L returned marketCapitalization ''market capitalization''))"

record CapitalAllocationResult =
  car_total_sources :: Decimal
  car_total_uses :: Decimal
  car_implied_change_in_cash :: Decimal
  car_reported_change_in_cash :: Decimal
  car_reconciliation_gap :: Decimal
  car_within_tolerance :: bool

definition CapitalAllocationBridge :: "'d decimal_lib \<Rightarrow> Decimal \<Rightarrow> Decimal \<Rightarrow> Decimal \<Rightarrow> Decimal \<Rightarrow> Decimal \<Rightarrow> Decimal \<Rightarrow>
    Decimal \<Rightarrow> Decimal \<Rightarrow> Decimal \<Rightarrow> Decimal \<Rightarrow> Decimal \<Rightarrow> go_error + CapitalAllocationResult" where
  "CapitalAllocationBridge L operatingCashFlow debtIssuance equityIssuance assetSales capitalExpenditure acquisitions
      debtRepayment dividends repurchases reportedChangeInCash tolerance =
     (if sign_of L tolerance (dec_zero L) < 0 then Inl (ErrorsNew ''tolerance cannot be negative'')
      else
        res_bind (sumDecimals L [operatingCashFlow, debtIssuance, equityIssuance, assetSales]) (\<lambda>totalSources.
        res_bind (sumDecimals L [capitalExpenditure, acquisitions, debtRepayment, dividends, repurchases]) (\<lambda>totalUses.
        res_bind (subtract L totalSources totalUses) (\<lambda>implied.
        res_bind (subtract L implied reportedChangeInCash) (\<lambda>gap.
        res_bind (absolute L gap) (\<lambda>absGap.
        res_bind (compare L absGap tolerance) (\<lambda>order. Inr
          \<lparr>car_total_sources = totalSources, car_total_uses = totalUses, car_implied_change_in_cash = implied,
           car_reported_change_in_cash = reportedChangeInCash, car_reconciliation_gap = gap,
           car_within_tolerance = (order \<le> 0)\<rparr>)))))))"

section \<open>Rates and multiples (valuation_advanced.go)\<close>

definition CAPM :: "'d decimal_lib \<Rightarrow> Decimal \<Rightarrow> Decimal \<Rightarrow> Decimal \<Rightarrow> go_error + Decimal" where
  "CAPM L riskFreeRate beta equityRiskPremium =
     res_bind (multiply L beta equityRiskPremium) (\<lambda>betaPremium. add L riskFreeRate betaPremium)"

definition EnterpriseValueToEBITDA :: "'d decimal_lib \<Rightarrow> Decimal \<Rightarrow> Decimal \<Rightarrow> go_error + Decimal" where
  "EnterpriseValueToEBITDA L enterpriseValue ebitda = positiveDenominatorRatio L enterpriseValue ebitda ''EBITDA''"

definition PriceToEarnings :: "'d decimal_lib \<Rightarrow> Decimal \<Rightarrow> Decimal \<Rightarrow> go_error + Decimal" where
  "PriceToEarnings L equityMarketValue netIncome = positiveDenominatorRatio L equityMarketValue netIncome ''net income''"

definition EnterpriseValueToRevenue :: "'d decimal_lib \<Rightarrow> Decimal \<Rightarrow> Decimal \<Rightarrow> go_error + Decimal" where
  "EnterpriseValueToRevenue L enterpriseValue revenue = positiveDenominatorRatio L enterpriseValue revenue ''revenue''"

definition EnterpriseValueToEBIT :: "'d decimal_lib \<Rightarrow> Decimal \<Rightarrow> Decimal \<Rightarrow> go_error + Decimal" where
  "EnterpriseValueToEBIT L enterpriseValue ebit = positiveDenominatorRatio L enterpriseValue ebit ''EBIT''"

definition PriceToBook :: "'d decimal_lib \<Rightarrow> Decimal \<Rightarrow> Decimal \<Rightarrow> go_error + Decimal" where
  "PriceToBook L equityMarketValue bookEquity = positiveDenominatorRatio L equityMarketValue bookEquity ''book equity''"

definition PriceToFreeCashFlow :: "'d decimal_lib \<Rightarrow> Decimal \<Rightarrow> Decimal \<Rightarrow> go_error + Decimal" where
  "PriceToFreeCashFlow L equityMarketValue freeCashFlowToEquity =
     positiveDenominatorRatio L equityMarketValue freeCashFlowToEquity ''free cash flow to equity''"

definition FreeCashFlowYield :: "'d decimal_lib \<Rightarrow> Decimal \<Rightarrow> Decimal \<Rightarrow> go_error + Decimal" where
  "FreeCashFlowYield L freeCashFlowToEquity equityMarketValue =
     positiveDenominatorRatio L freeCashFlowToEquity equityMarketValue ''equity market value''"

definition EarningsYield :: "'d decimal_lib \<Rightarrow> Decimal \<Rightarrow> Decimal \<Rightarrow> go_error + Decimal" where
  "EarningsYield L netIncome equityMarketValue =
     positiveDenominatorRatio L netIncome equityMarketValue ''equity market value''"

definition UnleverBeta :: "'d decimal_lib \<Rightarrow> Decimal \<Rightarrow> Decimal \<Rightarrow> Decimal \<Rightarrow> Decimal \<Rightarrow> go_error + Decimal" where
  "UnleverBeta L leveredBeta debt equity taxRate =
     (if sign_of L equity (dec_zero L) \<le> 0 then Inl (ErrorsNew ''equity must be positive'')
      else check_then (validateUnitRate L taxRate ''tax rate'')
        (res_bind (divide L debt equity) (\<lambda>debtEquity.
         res_bind (subtract L (dec_one L) taxRate) (\<lambda>oneMinusTax.
         res_bind (multiply L oneMinusTax debtEquity) (\<lambda>adjustment.
         res_bind (add L (dec_one L) adjustment) (\<lambda>denominator.
           divide L leveredBeta denominator))))))"

definition ReleverBeta :: "'d decimal_lib \<Rightarrow> Decimal \<Rightarrow> Decimal \<Rightarrow> Decimal \<Rightarrow> Decimal \<Rightarrow> go_error + Decimal" where
  "ReleverBeta L unleveredBeta debt equity taxRate =
     (if sign_of L equity (dec_zero L) \<le> 0 then Inl (ErrorsNew ''equity must be positive'')
      else check_then (validateUnitRate L taxRate ''tax rate'')
        (res_bind (divide L debt equity) (\<lambda>debtEquity.
         res_bind (subtract L (dec_one L) taxRate) (\<lambda>oneMinusTax.
         res_bind (multiply L oneMinusTax debtEquity) (\<lambda>adjustment.
         res_bind (add L (dec_one L) adjustment) (\<lambda>multiplier.
           multiply L unleveredBeta multiplier))))))"

section \<open>Typed ratios and the equity bridge (financial_complete.go)\<close>

definition ROCE :: "'d decimal_lib \<Rightarrow> Decimal \<Rightarrow> Decimal \<Rightarrow> Decimal \<Rightarrow> go_error + Decimal" where
  "ROCE L ebit totalAssets currentLiabilities =
     res_bind (subtract L totalAssets currentLiabilities) (\<lambda>capitalEmployed.
       if sign_of L capitalEmployed (dec_zero L) \<le> 0 then Inl (ErrorsNew ''capital employed must be positive'')
       else divide L ebit capitalEmployed)"

abbreviation CashConversionEarnings :: string where "CashConversionEarnings \<equiv> ''operating_cash_flow_to_net_income''"
abbreviation CashConversionEBITDA :: string where "CashConversionEBITDA \<equiv> ''operating_cash_flow_to_ebitda''"
abbreviation CashConversionOperatingProfit :: string where
  "CashConversionOperatingProfit \<equiv> ''operating_cash_flow_to_operating_profit''"

record CashConversionResult =
  ccr_kind :: string
  ccr_value :: Decimal

definition TypedCashConversion :: "'d decimal_lib \<Rightarrow> string \<Rightarrow> Decimal \<Rightarrow> Decimal \<Rightarrow> go_error + CashConversionResult" where
  "TypedCashConversion L kind operatingCashFlow denominator =
     (if kind \<notin> set [CashConversionEarnings, CashConversionEBITDA, CashConversionOperatingProfit] then
        Inl (ErrorsNew ''unsupported cash-conversion definition'')
      else res_bind (positiveDenominatorRatio L operatingCashFlow denominator (kind @ '' denominator'')) (\<lambda>quotient.
        Inr \<lparr>ccr_kind = kind, ccr_value = quotient\<rparr>))"

record DebtMaturity =
  dmt_year :: int
  dmt_amount :: Decimal

record DebtMaturityContext =
  dmc_total_debt :: Decimal
  dmc_due_within_1_year :: Decimal
  dmc_due_within_3_years :: Decimal
  dmc_near_term_share :: Decimal
  dmc_weighted_year :: Decimal
  dmc_observations :: int

text \<open>\<open>oneYear, _ = add(oneYear, amount)\<close> leaves the zero value where the addition fails.\<close>

fun maturity_sums :: "'d decimal_lib \<Rightarrow> int \<Rightarrow> int list \<Rightarrow> Decimal \<times> Decimal \<times> Decimal \<times> Decimal \<Rightarrow> DebtMaturity list \<Rightarrow>
    go_error + Decimal \<times> Decimal \<times> Decimal \<times> Decimal" where
  "maturity_sums L asOfYear seen totals [] = Inr totals"
| "maturity_sums L asOfYear seen (scheduled, oneYear, threeYears, weighted) (maturity # maturities) =
     (if dmt_year maturity < asOfYear \<or> dmt_year maturity \<in> set seen then
        Inl (ErrorsNew ''maturity years must be unique and not precede the as-of year'')
      else if sign_of L (dmt_amount maturity) (dec_zero L) < 0 then
        Inl (ErrorsNew ''maturity amount cannot be negative'')
      else
        res_bind (add L scheduled (dmt_amount maturity)) (\<lambda>scheduled.
        res_bind (MustDecimal L (itoa (dmt_year maturity - asOfYear))) (\<lambda>yearsFromNow.
        res_bind (multiply L (dmt_amount maturity) yearsFromNow) (\<lambda>weightedPart.
        res_bind (add L weighted weightedPart) (\<lambda>weighted.
          maturity_sums L asOfYear (dmt_year maturity # seen)
            (scheduled,
             (if dmt_year maturity \<le> asOfYear + 1 then or_empty (add L oneYear (dmt_amount maturity)) else oneYear),
             (if dmt_year maturity \<le> asOfYear + 3 then or_empty (add L threeYears (dmt_amount maturity)) else threeYears),
             weighted)
            maturities)))))"

definition AnalyzeDebtMaturities :: "'d decimal_lib \<Rightarrow> int \<Rightarrow> DebtMaturity list \<Rightarrow> go_error + DebtMaturityContext" where
  "AnalyzeDebtMaturities L asOfYear maturities =
     (if asOfYear < 1900 \<or> maturities = [] then
        Inl (ErrorsNew ''as-of year and at least one maturity are required'')
      else
        res_bind (maturity_sums L asOfYear [] (dec_zero L, dec_zero L, dec_zero L, dec_zero L) maturities)
          (\<lambda>(total, oneYear, threeYears, weighted).
            if sign_of L total (dec_zero L) \<le> 0 then Inl (ErrorsNew ''total scheduled debt must be positive'')
            else
              res_bind (divide L threeYears total) (\<lambda>nearTermShare.
              res_bind (divide L weighted total) (\<lambda>weightedYear. Inr
                \<lparr>dmc_total_debt = total, dmc_due_within_1_year = oneYear, dmc_due_within_3_years = threeYears,
                 dmc_near_term_share = nearTermShare, dmc_weighted_year = weightedYear,
                 dmc_observations = int (length maturities)\<rparr>))))"

definition NetPayoutYield :: "'d decimal_lib \<Rightarrow> Decimal \<Rightarrow> Decimal \<Rightarrow> Decimal \<Rightarrow> go_error + Decimal" where
  "NetPayoutYield L netRepurchases dividendsPaid marketCapitalization =
     res_bind (add L netRepurchases dividendsPaid) (\<lambda>total.
       positiveDenominatorRatio L total marketCapitalization ''market capitalization'')"

record EnterpriseToEquityBridge =
  eeb_enterprise_value :: Decimal
  eeb_debt :: Decimal
  eeb_cash :: Decimal
  eeb_investments :: Decimal
  eeb_minority_interest :: Decimal
  eeb_option_value :: Decimal
  eeb_equity_value :: Decimal
  eeb_diluted_shares :: Decimal
  eeb_value_per_diluted_share :: Decimal

definition DetailedEnterpriseToEquity :: "'d decimal_lib \<Rightarrow> Decimal \<Rightarrow> Decimal \<Rightarrow> Decimal \<Rightarrow> Decimal \<Rightarrow> Decimal \<Rightarrow>
    Decimal \<Rightarrow> Decimal \<Rightarrow> go_error + EnterpriseToEquityBridge" where
  "DetailedEnterpriseToEquity L enterpriseValue debt cash investments minorityInterest optionValue dilutedShares =
     check_then (first_err
       [range_err (\<lambda>_ (name, d). fail_if (sign_of L d (dec_zero L) < 0) (ErrorsNew (name @ '' cannot be negative'')))
          [(''debt'', debt), (''cash'', cash), (''investments'', investments), (''minority interest'', minorityInterest),
           (''option value'', optionValue)],
        fail_if (sign_of L dilutedShares (dec_zero L) \<le> 0) (ErrorsNew ''diluted shares must be positive'')])
     (res_bind (subtract L enterpriseValue debt) (\<lambda>equity.
      res_bind (add L equity cash) (\<lambda>equity.
      res_bind (add L equity investments) (\<lambda>equity.
      res_bind (subtract L equity minorityInterest) (\<lambda>equity.
      res_bind (subtract L equity optionValue) (\<lambda>equity.
      res_bind (divide L equity dilutedShares) (\<lambda>perShare. Inr
        \<lparr>eeb_enterprise_value = enterpriseValue, eeb_debt = debt, eeb_cash = cash, eeb_investments = investments,
         eeb_minority_interest = minorityInterest, eeb_option_value = optionValue, eeb_equity_value = equity,
         eeb_diluted_shares = dilutedShares, eeb_value_per_diluted_share = perShare\<rparr>)))))))"

definition ImpliedReturnOnCapital :: "'d decimal_lib \<Rightarrow> Decimal \<Rightarrow> Decimal \<Rightarrow> go_error + Decimal" where
  "ImpliedReturnOnCapital L growthRate reinvestmentRate =
     check_then (validateUnitRate L reinvestmentRate ''reinvestment rate'')
       (if sign_of L reinvestmentRate (dec_zero L) = 0 then Inl (ErrorsNew ''reinvestment rate must be non-zero'')
        else divide L growthRate reinvestmentRate)"

record ValuationSanityInputs =
  vsi_terminal_value_share :: Decimal
  vsi_terminal_growth :: Decimal
  vsi_long_run_economy_rate :: Decimal
  vsi_operating_margin :: Decimal
  vsi_historical_margin :: Decimal
  vsi_reinvestment_rate :: Decimal
  vsi_return_on_capital :: Decimal
  vsi_growth_rate :: Decimal

text \<open>A warning if the first decimal is greater than the literal.\<close>

definition warn_above :: "'d decimal_lib \<Rightarrow> Decimal \<Rightarrow> string \<Rightarrow> string \<Rightarrow> go_error + string list" where
  "warn_above L d literal warning = res_bind (MustDecimal L literal) (\<lambda>bound.
     Inr (if sign_of L d bound > 0 then [warning] else []))"

definition ValuationSanityChecks :: "'d decimal_lib \<Rightarrow> ValuationSanityInputs \<Rightarrow> go_error + string list" where
  "ValuationSanityChecks L inputs =
     check_then (range_err (\<lambda>_ (name, rate). validateUnitRate L rate name)
       [(''terminal value share'', vsi_terminal_value_share inputs), (''reinvestment rate'', vsi_reinvestment_rate inputs)])
     (res_bind (warn_above L (vsi_terminal_value_share inputs) ''0.75'' ''terminal_value_share_exceeds_75_percent'') (\<lambda>share.
      res_bind (subtract L (vsi_operating_margin inputs) (vsi_historical_margin inputs)) (\<lambda>marginGap.
      res_bind (warn_above L (or_empty (absolute L marginGap)) ''0.10''
        ''operating_margin_departs_from_history_by_more_than_10_points'') (\<lambda>margin.
      res_bind (multiply L (vsi_reinvestment_rate inputs) (vsi_return_on_capital inputs)) (\<lambda>impliedGrowth.
      res_bind (subtract L impliedGrowth (vsi_growth_rate inputs)) (\<lambda>growthGap.
      res_bind (warn_above L (or_empty (absolute L growthGap)) ''0.02''
        ''growth_reinvestment_roic_identity_gap_exceeds_2_points'') (\<lambda>growth.
        Inr (sort (share @
          (if sign_of L (vsi_terminal_growth inputs) (vsi_long_run_economy_rate inputs) > 0
           then [''terminal_growth_exceeds_long_run_economy''] else []) @
          margin @ growth)))))))))"

end
