(* ===== verification/Finance_Valuation.thy ===== *)
theory Finance_Valuation
  imports Finance_Ratios
begin

text \<open>
  Discounted cash flows and their inverses (\<open>internal/finance\<close>: \<open>formulas.go\<close>,
  \<open>valuation_advanced.go\<close>, \<open>financial_complete.go\<close>, \<open>comparison.go\<close>). The inverses halve an interval for
  as many iterations as they are given, so they always end.
\<close>

section \<open>Discounted cash flows\<close>

text \<open>The loop over the forecast: the present values and their sum; \<open>index\<close> counts from zero.\<close>

fun present_values :: "'d decimal_lib \<Rightarrow> Decimal \<Rightarrow> bool \<Rightarrow> nat \<Rightarrow> Decimal \<Rightarrow> Decimal list \<Rightarrow> go_error + Decimal \<times> Decimal list" where
  "present_values L onePlusRate midYear index explicit [] = Inr (explicit, [])"
| "present_values L onePlusRate midYear index explicit (flow # forecast) =
     res_bind (MustDecimal L (itoa (int index + 1))) (\<lambda>exponent.
     res_bind (if midYear then res_bind (MustDecimal L ''0.5'') (subtract L exponent) else Inr exponent) (\<lambda>exponent.
     res_bind (power L onePlusRate exponent) (\<lambda>factor.
     res_bind (divide L flow factor) (\<lambda>present.
     res_bind (add L explicit present) (\<lambda>explicit.
     res_bind (present_values L onePlusRate midYear (index + 1) explicit forecast) (\<lambda>(explicit, presents).
       Inr (explicit, present # presents)))))))"

record DCFResult =
  dcf_enterprise_value :: Decimal
  dcf_explicit_present_value :: Decimal
  dcf_terminal_present_value :: Decimal
  dcf_present_values :: "Decimal list"

definition rate_floor :: "'d decimal_lib \<Rightarrow> Decimal \<Rightarrow> string \<Rightarrow> go_error option" where
  "rate_floor L discountRate message =
     (case MustDecimal L ''-1'' of Inl err \<Rightarrow> Some err
      | Inr minus_one \<Rightarrow> fail_if (sign_of L discountRate minus_one \<le> 0) (ErrorsNew message))"

text \<open>Dividing the flow after the last year by the spread of the rates.\<close>

definition growing_perpetuity :: "'d decimal_lib \<Rightarrow> Decimal \<Rightarrow> Decimal \<Rightarrow> Decimal \<Rightarrow> go_error + Decimal" where
  "growing_perpetuity L lastFlow discountRate growth =
     res_bind (add L (dec_one L) growth) (\<lambda>onePlusGrowth.
     res_bind (multiply L lastFlow onePlusGrowth) (\<lambda>terminalFlow.
     res_bind (subtract L discountRate growth) (\<lambda>spread.
       divide L terminalFlow spread)))"

definition FCFFDCF :: "'d decimal_lib \<Rightarrow> Decimal list \<Rightarrow> Decimal \<Rightarrow> Decimal \<Rightarrow> go_error + DCFResult" where
  "FCFFDCF L forecast discountRate terminalGrowth =
     check_then (first_err
       [fail_if (forecast = []) (ErrorsNew ''FCFF forecast cannot be empty''),
        rate_floor L discountRate ''discount rate must be greater than -1'',
        fail_if (sign_of L discountRate terminalGrowth \<le> 0) (ErrorsNew ''discount rate must exceed terminal growth'')])
     (res_bind (add L (dec_one L) discountRate) (\<lambda>onePlusRate.
      res_bind (present_values L onePlusRate False 0 (dec_zero L) forecast) (\<lambda>(explicit, presentValues).
      res_bind (growing_perpetuity L (last forecast) discountRate terminalGrowth) (\<lambda>terminalValue.
      res_bind (MustDecimal L (itoa (int (length forecast)))) (\<lambda>terminalPeriod.
      res_bind (power L onePlusRate terminalPeriod) (\<lambda>terminalFactor.
      res_bind (divide L terminalValue terminalFactor) (\<lambda>terminalPresent.
      res_bind (add L explicit terminalPresent) (\<lambda>enterprise. Inr
        \<lparr>dcf_enterprise_value = enterprise, dcf_explicit_present_value = explicit,
         dcf_terminal_present_value = terminalPresent, dcf_present_values = presentValues\<rparr>))))))))"

datatype TerminalMethod = TerminalPerpetuityGrowth | TerminalExitMultiple | OtherTerminal string

record TerminalAssumption =
  tas_method :: TerminalMethod
  tas_growth_rate :: Decimal
  tas_exit_metric :: Decimal
  tas_exit_multiple :: Decimal

definition perpetuity :: "Decimal \<Rightarrow> TerminalAssumption" where
  "perpetuity growth = \<lparr>tas_method = TerminalPerpetuityGrowth, tas_growth_rate = growth, tas_exit_metric = [], tas_exit_multiple = []\<rparr>"

record AdvancedDCFResult =
  adr_enterprise_value :: Decimal
  adr_explicit_present_value :: Decimal
  adr_terminal_value :: Decimal
  adr_terminal_present_value :: Decimal
  adr_terminal_value_share :: Decimal
  adr_present_values :: "Decimal list"
  adr_warnings :: "string list"

definition calculateTerminalValue :: "'d decimal_lib \<Rightarrow> Decimal \<Rightarrow> Decimal \<Rightarrow> TerminalAssumption \<Rightarrow> go_error + Decimal" where
  "calculateTerminalValue L lastFlow discountRate terminal =
     (case tas_method terminal of
        TerminalPerpetuityGrowth \<Rightarrow>
          if sign_of L discountRate (tas_growth_rate terminal) \<le> 0 then
            Inl (ErrorsNew ''discount rate must exceed terminal growth'')
          else growing_perpetuity L lastFlow discountRate (tas_growth_rate terminal)
      | TerminalExitMultiple \<Rightarrow>
          if sign_of L (tas_exit_metric terminal) (dec_zero L) < 0 then Inl (ErrorsNew ''exit metric cannot be negative'')
          else if sign_of L (tas_exit_multiple terminal) (dec_zero L) \<le> 0 then
            Inl (ErrorsNew ''exit multiple must be positive'')
          else multiply L (tas_exit_metric terminal) (tas_exit_multiple terminal)
      | OtherTerminal _ \<Rightarrow> Inl (ErrorsNew ''unsupported terminal method''))"

definition MultiStageDCF :: "'d decimal_lib \<Rightarrow> Decimal list \<Rightarrow> Decimal \<Rightarrow> TerminalAssumption \<Rightarrow> bool \<Rightarrow> go_error + AdvancedDCFResult" where
  "MultiStageDCF L forecast discountRate terminal midYear =
     check_then (first_err
       [fail_if (forecast = []) (ErrorsNew ''forecast cannot be empty''),
        rate_floor L discountRate ''discount rate must exceed -1''])
     (res_bind (add L (dec_one L) discountRate) (\<lambda>onePlusRate.
      res_bind (present_values L onePlusRate midYear 0 (dec_zero L) forecast) (\<lambda>(explicit, presentValues).
      res_bind (calculateTerminalValue L (last forecast) discountRate terminal) (\<lambda>terminalValue.
      res_bind (MustDecimal L (itoa (int (length forecast)))) (\<lambda>terminalExponent.
      res_bind (power L onePlusRate terminalExponent) (\<lambda>terminalFactor.
      res_bind (divide L terminalValue terminalFactor) (\<lambda>terminalPresent.
      res_bind (add L explicit terminalPresent) (\<lambda>enterprise.
        if sign_of L enterprise (dec_zero L) = 0 then Inl (ErrorsNew ''enterprise value is zero'')
        else
          res_bind (divide L terminalPresent enterprise) (\<lambda>terminalShare.
          res_bind (warn_above L terminalShare ''0.75'' ''terminal_value_share_exceeds_75_percent'') (\<lambda>warnings. Inr
            \<lparr>adr_enterprise_value = enterprise, adr_explicit_present_value = explicit, adr_terminal_value = terminalValue,
             adr_terminal_present_value = terminalPresent, adr_terminal_value_share = terminalShare,
             adr_present_values = presentValues, adr_warnings = warnings\<rparr>))))))))))"

definition DividendDiscountModel :: "'d decimal_lib \<Rightarrow> Decimal list \<Rightarrow> Decimal \<Rightarrow> Decimal \<Rightarrow> bool \<Rightarrow> go_error + AdvancedDCFResult" where
  "DividendDiscountModel L dividends costOfEquity terminalGrowth midYear =
     MultiStageDCF L dividends costOfEquity (perpetuity terminalGrowth) midYear"

section \<open>The forecast of a revenue path\<close>

fun revenue_path :: "'d decimal_lib \<Rightarrow> Decimal \<Rightarrow> Decimal \<Rightarrow> Decimal \<Rightarrow> Decimal \<Rightarrow> Decimal \<Rightarrow> nat \<Rightarrow> go_error + Decimal list" where
  "revenue_path L onePlusGrowth operatingMargin afterTax retained revenue 0 = Inr []"
| "revenue_path L onePlusGrowth operatingMargin afterTax retained revenue (Suc years) =
     res_bind (multiply L revenue onePlusGrowth) (\<lambda>revenue.
     res_bind (multiply L revenue operatingMargin) (\<lambda>nopat.
     res_bind (multiply L nopat afterTax) (\<lambda>nopat.
     res_bind (multiply L nopat retained) (\<lambda>flow.
     res_bind (revenue_path L onePlusGrowth operatingMargin afterTax retained revenue years) (\<lambda>flows.
       Inr (flow # flows))))))"

text \<open>\<open>make([]numeric.Decimal, years)\<close> panics for a negative number of years.\<close>

definition fcffFromRevenuePath :: "'d decimal_lib \<Rightarrow> Decimal \<Rightarrow> Decimal \<Rightarrow> Decimal \<Rightarrow> Decimal \<Rightarrow> Decimal \<Rightarrow> int \<Rightarrow>
    go_error + Decimal list" where
  "fcffFromRevenuePath L baseRevenue growth operatingMargin taxRate reinvestmentRate years =
     res_bind (add L (dec_one L) growth) (\<lambda>onePlusGrowth.
     res_bind (subtract L (dec_one L) taxRate) (\<lambda>afterTax.
     res_bind (subtract L (dec_one L) reinvestmentRate) (\<lambda>retained.
       if years < 0 then Inl (Panic ''makeslice: len out of range'')
       else revenue_path L onePlusGrowth operatingMargin afterTax retained baseRevenue (nat years))))"

definition enterprise_of_path :: "'d decimal_lib \<Rightarrow> Decimal \<Rightarrow> Decimal \<Rightarrow> go_error + Decimal list \<Rightarrow> go_error + Decimal" where
  "enterprise_of_path L discountRate terminalGrowth path =
     res_bind path (\<lambda>forecast.
     res_bind (MultiStageDCF L forecast discountRate (perpetuity terminalGrowth) False) (\<lambda>result.
       Inr (adr_enterprise_value result)))"

section \<open>Inverses\<close>

record ReverseExpectationsResult =
  rer_implied_value :: Decimal
  rer_iterations :: int
  rer_converged :: bool

text \<open>
  The loop over the iterations: \<open>iteration\<close> is the number of the current one, \<open>left\<close> how many are
  left.
\<close>

fun bisect :: "'d decimal_lib \<Rightarrow> (Decimal \<Rightarrow> go_error + Decimal) \<Rightarrow> Decimal \<Rightarrow> Decimal \<Rightarrow> bool \<Rightarrow> Decimal \<Rightarrow> Decimal \<Rightarrow>
    int \<Rightarrow> nat \<Rightarrow> go_error + ReverseExpectationsResult" where
  "bisect L valueAt target tolerance increasing low high iteration 0 =
     Inr \<lparr>rer_implied_value = [], rer_iterations = iteration - 1, rer_converged = False\<rparr>"
| "bisect L valueAt target tolerance increasing low high iteration (Suc left) =
     res_bind (add L low high) (\<lambda>total.
     res_bind (MustDecimal L ''2'') (\<lambda>two.
     res_bind (divide L total two) (\<lambda>candidate.
     res_bind (valueAt candidate) (\<lambda>enterprise.
     res_bind (subtract L enterprise target) (\<lambda>difference.
       if sign_of L (or_empty (absolute L difference)) tolerance \<le> 0 then
         Inr \<lparr>rer_implied_value = candidate, rer_iterations = iteration, rer_converged = True\<rparr>
       else if (sign_of L difference (dec_zero L) > 0) = increasing then
         bisect L valueAt target tolerance increasing low candidate (iteration + 1) left
       else bisect L valueAt target tolerance increasing candidate high (iteration + 1) left)))))"

definition reverseFCFFAssumption :: "'d decimal_lib \<Rightarrow> Decimal \<Rightarrow> Decimal \<Rightarrow> Decimal \<Rightarrow> int \<Rightarrow> Decimal \<Rightarrow> bool \<Rightarrow>
    (Decimal \<Rightarrow> go_error + Decimal) \<Rightarrow> go_error + ReverseExpectationsResult" where
  "reverseFCFFAssumption L target low high maxIterations tolerance increasing valueAt =
     (if maxIterations < 1 then Inl (ErrorsNew ''iteration budget must be positive'')
      else if sign_of L target (dec_zero L) \<le> 0 then Inl (ErrorsNew ''target enterprise value must be positive'')
      else bisect L valueAt target tolerance increasing low high 1 (nat maxIterations))"

definition ReverseRevenueGrowth :: "'d decimal_lib \<Rightarrow> Decimal \<Rightarrow> Decimal \<Rightarrow> Decimal \<Rightarrow> Decimal \<Rightarrow> Decimal \<Rightarrow> Decimal \<Rightarrow>
    Decimal \<Rightarrow> int \<Rightarrow> int \<Rightarrow> Decimal \<Rightarrow> go_error + ReverseExpectationsResult" where
  "ReverseRevenueGrowth L targetEnterpriseValue baseRevenue operatingMargin taxRate reinvestmentRate discountRate
      terminalGrowth years maxIterations tolerance =
     check_then (first_err
       [fail_if (years < 1 \<or> maxIterations < 1) (ErrorsNew ''years and iterations must be positive''),
        fail_if (sign_of L targetEnterpriseValue (dec_zero L) \<le> 0) (ErrorsNew ''target enterprise value must be positive''),
        fail_if (sign_of L baseRevenue (dec_zero L) \<le> 0) (ErrorsNew ''base revenue must be positive''),
        validateUnitRate L taxRate ''tax rate'',
        validateUnitRate L reinvestmentRate ''reinvestment rate''])
     (res_bind (MustDecimal L ''-0.50'') (\<lambda>low.
      res_bind (MustDecimal L ''1.00'') (\<lambda>high.
        bisect L (\<lambda>candidate. enterprise_of_path L discountRate terminalGrowth
            (fcffFromRevenuePath L baseRevenue candidate operatingMargin taxRate reinvestmentRate years))
          targetEnterpriseValue tolerance True low high 1 (nat maxIterations))))"

definition ReverseOperatingMargin :: "'d decimal_lib \<Rightarrow> Decimal \<Rightarrow> Decimal \<Rightarrow> Decimal \<Rightarrow> Decimal \<Rightarrow> Decimal \<Rightarrow> Decimal \<Rightarrow>
    Decimal \<Rightarrow> int \<Rightarrow> int \<Rightarrow> Decimal \<Rightarrow> go_error + ReverseExpectationsResult" where
  "ReverseOperatingMargin L targetEnterpriseValue baseRevenue revenueGrowth taxRate reinvestmentRate discountRate
      terminalGrowth years maxIterations tolerance =
     res_bind (MustDecimal L ''0'') (\<lambda>low.
     res_bind (MustDecimal L ''0.80'') (\<lambda>high.
       reverseFCFFAssumption L targetEnterpriseValue low high maxIterations tolerance True
         (\<lambda>candidate. enterprise_of_path L discountRate terminalGrowth
            (fcffFromRevenuePath L baseRevenue revenueGrowth candidate taxRate reinvestmentRate years))))"

definition ReverseReinvestmentRate :: "'d decimal_lib \<Rightarrow> Decimal \<Rightarrow> Decimal \<Rightarrow> Decimal \<Rightarrow> Decimal \<Rightarrow> Decimal \<Rightarrow> Decimal \<Rightarrow>
    Decimal \<Rightarrow> int \<Rightarrow> int \<Rightarrow> Decimal \<Rightarrow> go_error + ReverseExpectationsResult" where
  "ReverseReinvestmentRate L targetEnterpriseValue baseRevenue revenueGrowth operatingMargin taxRate discountRate
      terminalGrowth years maxIterations tolerance =
     res_bind (MustDecimal L ''0'') (\<lambda>low.
     res_bind (MustDecimal L ''0.999999'') (\<lambda>high.
       reverseFCFFAssumption L targetEnterpriseValue low high maxIterations tolerance False
         (\<lambda>candidate. enterprise_of_path L discountRate terminalGrowth
            (fcffFromRevenuePath L baseRevenue revenueGrowth operatingMargin taxRate candidate years))))"

record ReverseDCFResult =
  rdr_implied_growth :: Decimal
  rdr_iterations :: int
  rdr_converged :: bool

fun reverse_dcf :: "'d decimal_lib \<Rightarrow> Decimal list \<Rightarrow> Decimal \<Rightarrow> Decimal \<Rightarrow> Decimal \<Rightarrow> Decimal \<Rightarrow> Decimal \<Rightarrow> Decimal \<Rightarrow>
    int \<Rightarrow> nat \<Rightarrow> go_error + ReverseDCFResult" where
  "reverse_dcf L forecast discountRate target tolerance two low high iteration 0 =
     Inr \<lparr>rdr_implied_growth = [], rdr_iterations = iteration - 1, rdr_converged = False\<rparr>"
| "reverse_dcf L forecast discountRate target tolerance two low high iteration (Suc left) =
     res_bind (add L low high) (\<lambda>total.
     res_bind (divide L total two) (\<lambda>mid.
     res_bind (FCFFDCF L forecast discountRate mid) (\<lambda>result.
     res_bind (subtract L (dcf_enterprise_value result) target) (\<lambda>difference.
     res_bind (absolute L difference) (\<lambda>absoluteDifference.
       if sign_of L absoluteDifference tolerance \<le> 0 then
         Inr \<lparr>rdr_implied_growth = mid, rdr_iterations = iteration, rdr_converged = True\<rparr>
       else if sign_of L difference (dec_zero L) > 0 then
         reverse_dcf L forecast discountRate target tolerance two low mid (iteration + 1) left
       else reverse_dcf L forecast discountRate target tolerance two mid high (iteration + 1) left)))))"

definition ReverseDCF :: "'d decimal_lib \<Rightarrow> Decimal \<Rightarrow> Decimal \<Rightarrow> Decimal \<Rightarrow> int \<Rightarrow> Decimal \<Rightarrow> int \<Rightarrow> go_error + ReverseDCFResult" where
  "ReverseDCF L targetEnterpriseValue baseFCFF discountRate years tolerance maxIterations =
     (if years < 1 \<or> maxIterations < 1 then Inl (ErrorsNew ''years and max iterations must be positive'')
      else if sign_of L targetEnterpriseValue (dec_zero L) \<le> 0 then
        Inl (ErrorsNew ''target enterprise value must be positive'')
      else
        res_bind (MustDecimal L ''-0.99'') (\<lambda>low.
        res_bind (MustDecimal L ''0.0000000001'') (\<lambda>margin.
        res_bind (subtract L discountRate margin) (\<lambda>high.
        res_bind (MustDecimal L ''2'') (\<lambda>two.
          reverse_dcf L (replicate (nat years) baseFCFF) discountRate targetEnterpriseValue tolerance two low high 1
            (nat maxIterations))))))"

section \<open>The grid, the tornado and the scenarios\<close>

record SensitivityCell =
  sec_discount_rate :: Decimal
  sec_terminal_growth :: Decimal
  sec_enterprise_value :: Decimal

record SensitivityResult =
  ser_rows :: int
  ser_columns :: int
  ser_cells :: "SensitivityCell list"
  ser_monotonic_discount_rate :: bool
  ser_monotonic_terminal_growth :: bool

text \<open>The cells in the order of the two loops, row by row.\<close>

definition grid_cells :: "'d decimal_lib \<Rightarrow> Decimal list \<Rightarrow> Decimal list \<Rightarrow> Decimal list \<Rightarrow> go_error + SensitivityCell list" where
  "grid_cells L forecast discountRates terminalGrowthRates =
     map_res (\<lambda>(rate, growth). res_bind (FCFFDCF L forecast rate growth) (\<lambda>calculation. Inr
        \<lparr>sec_discount_rate = rate, sec_terminal_growth = growth, sec_enterprise_value = dcf_enterprise_value calculation\<rparr>))
       (concat (map (\<lambda>rate. map (Pair rate) terminalGrowthRates) discountRates))"

definition DCFGrid :: "'d decimal_lib \<Rightarrow> Decimal list \<Rightarrow> Decimal list \<Rightarrow> Decimal list \<Rightarrow> go_error + SensitivityResult" where
  "DCFGrid L forecast discountRates terminalGrowthRates =
     (if discountRates = [] \<or> terminalGrowthRates = [] then Inl (ErrorsNew ''both sensitivity axes are required'')
      else
        res_bind (grid_cells L forecast discountRates terminalGrowthRates) (\<lambda>cells.
          (let columns = length terminalGrowthRates;
               ev = (\<lambda>k. sec_enterprise_value (cells ! k)) in Inr
           \<lparr>ser_rows = int (length discountRates), ser_columns = int columns, ser_cells = cells,
            ser_monotonic_discount_rate =
              list_all (\<lambda>k. sign_of L (ev k) (ev (k - columns)) < 0) [columns..<length cells],
            ser_monotonic_terminal_growth =
              list_all (\<lambda>k. k mod columns = 0 \<or> sign_of L (ev k) (ev (k - 1)) > 0) [0..<length cells]\<rparr>)))"

record TornadoInput =
  tor_name :: string
  tor_low_value :: Decimal
  tor_base_value :: Decimal
  tor_high_value :: Decimal
  tor_low_impact :: Decimal
  tor_high_impact :: Decimal

text \<open>The rate and the growth of the low and of the high calculation.\<close>

definition tornado_rates :: "'d decimal_lib \<Rightarrow> Decimal \<Rightarrow> Decimal \<Rightarrow> string \<Rightarrow> Decimal \<times> Decimal \<times> Decimal \<Rightarrow>
    go_error + (Decimal \<times> Decimal) \<times> (Decimal \<times> Decimal)" where
  "tornado_rates L baseDiscountRate baseTerminalGrowth name bounds =
     (case bounds of (low, base, high) \<Rightarrow>
        if sign_of L low base \<ge> 0 \<or> sign_of L base high \<ge> 0 then
          Inl (ErrorsNew ''DCF tornado values must be strictly ordered low, base, high'')
        else if name = ''discount_rate'' then
          (if sign_of L base baseDiscountRate \<noteq> 0 then
             Inl (ErrorsNew ''discount-rate tornado base must match the DCF base'')
           else Inr ((low, baseTerminalGrowth), (high, baseTerminalGrowth)))
        else if name = ''terminal_growth'' then
          (if sign_of L base baseTerminalGrowth \<noteq> 0 then
             Inl (ErrorsNew ''terminal-growth tornado base must match the DCF base'')
           else Inr ((baseDiscountRate, low), (baseDiscountRate, high)))
        else Inl (ErrorsNew ''unsupported DCF tornado input''))"

definition tornado_input :: "'d decimal_lib \<Rightarrow> Decimal list \<Rightarrow> Decimal \<Rightarrow> Decimal \<Rightarrow> AdvancedDCFResult \<Rightarrow>
    string \<times> Decimal \<times> Decimal \<times> Decimal \<Rightarrow> go_error + TornadoInput" where
  "tornado_input L forecast baseDiscountRate baseTerminalGrowth base entry =
     (case entry of (name, lowValue, baseValue, highValue) \<Rightarrow>
        res_bind (tornado_rates L baseDiscountRate baseTerminalGrowth name (lowValue, baseValue, highValue))
          (\<lambda>((lowRate, lowGrowth), (highRate, highGrowth)).
            res_bind (MultiStageDCF L forecast lowRate (perpetuity lowGrowth) False) (\<lambda>low.
            res_bind (MultiStageDCF L forecast highRate (perpetuity highGrowth) False) (\<lambda>high.
            res_bind (subtract L (adr_enterprise_value low) (adr_enterprise_value base)) (\<lambda>lowImpact.
            res_bind (subtract L (adr_enterprise_value high) (adr_enterprise_value base)) (\<lambda>highImpact. Inr
              \<lparr>tor_name = name, tor_low_value = lowValue, tor_base_value = baseValue, tor_high_value = highValue,
               tor_low_impact = lowImpact, tor_high_impact = highImpact\<rparr>))))))"

definition tornado_swing :: "'d decimal_lib \<Rightarrow> TornadoInput \<Rightarrow> Decimal" where
  "tornado_swing L input =
     or_empty (add L (or_empty (absolute L (tor_low_impact input))) (or_empty (absolute L (tor_high_impact input))))"

definition tornado_less :: "'d decimal_lib \<Rightarrow> TornadoInput \<Rightarrow> TornadoInput \<Rightarrow> bool" where
  "tornado_less L x y \<longleftrightarrow>
     (if sign_of L (tornado_swing L x) (tornado_swing L y) = 0 then tor_name x < tor_name y
      else sign_of L (tornado_swing L x) (tornado_swing L y) > 0)"

text \<open>The inputs are a map; its names are visited in their order.\<close>

definition DCFTornado :: "'d decimal_lib \<Rightarrow> (TornadoInput list \<Rightarrow> TornadoInput list) \<Rightarrow> Decimal list \<Rightarrow> Decimal \<Rightarrow> Decimal \<Rightarrow>
    (string \<times> Decimal \<times> Decimal \<times> Decimal) list \<Rightarrow> go_error + TornadoInput list" where
  "DCFTornado L order forecast baseDiscountRate baseTerminalGrowth inputs =
     res_bind (MultiStageDCF L forecast baseDiscountRate (perpetuity baseTerminalGrowth) False) (\<lambda>base.
     res_bind (map_res (tornado_input L forecast baseDiscountRate baseTerminalGrowth base) (sort_key fst inputs)) (\<lambda>result.
       Inr (order result)))"

record DCFScenario =
  dsc_name :: string
  dsc_discount_rate :: Decimal
  dsc_terminal_growth :: Decimal
  dsc_result :: AdvancedDCFResult

definition DCFScenarios :: "'d decimal_lib \<Rightarrow> Decimal list \<Rightarrow> (string \<times> Decimal \<times> Decimal) list \<Rightarrow> go_error + DCFScenario list" where
  "DCFScenarios L forecast scenarios =
     (if scenarios = [] then Inl (ErrorsNew ''at least one scenario is required'')
      else if [] \<in> fst ` set scenarios then Inl (ErrorsNew ''scenario names cannot be empty'')
      else map_res (\<lambda>(name, rate, growth).
          res_bind (MultiStageDCF L forecast rate (perpetuity growth) False) (\<lambda>result. Inr
            \<lparr>dsc_name = name, dsc_discount_rate = rate, dsc_terminal_growth = growth, dsc_result = result\<rparr>))
        (sort_key fst scenarios))"

section \<open>Period-aligned metrics (comparison.go)\<close>

record ComparableMetric =
  cmm_company :: string
  cmm_value :: Decimal
  cmm_period :: string
  cmm_unit :: string
  cmm_currency :: string

record ComparisonResult =
  cmr_comparable :: bool
  cmr_warnings :: "string list"

definition incomplete_metric :: "ComparableMetric \<Rightarrow> bool" where
  "incomplete_metric metric \<longleftrightarrow> cmm_company metric = [] \<or> cmm_period metric = [] \<or> cmm_unit metric = []"

definition metric_warnings :: "ComparableMetric \<Rightarrow> ComparableMetric \<Rightarrow> string list" where
  "metric_warnings reference metric =
     (if cmm_period metric \<noteq> cmm_period reference then [''period_mismatch''] else []) @
     (if cmm_unit metric \<noteq> cmm_unit reference then [''unit_mismatch''] else []) @
     (if cmm_currency metric \<noteq> cmm_currency reference then [''currency_mismatch''] else [])"

definition PeriodAligned :: "ComparableMetric list \<Rightarrow> string \<Rightarrow> go_error + ComparisonResult" where
  "PeriodAligned metrics policy =
     check_then (first_err
       [fail_if (length metrics < 2) (ErrorsNew ''at least two company metrics are required''),
        fail_if (policy \<noteq> ''exact'') (ErrorsNew ''unsupported alignment policy''),
        fail_if (list_ex incomplete_metric metrics) (ErrorsNew ''company, period, and unit are required'')])
     (let warnings = remdups_adj (sort (concat (map (metric_warnings (hd metrics)) (tl metrics)))) in
      Inr \<lparr>cmr_comparable = (warnings = []), cmr_warnings = warnings\<rparr>)"

end
