(* ===== verification/Go_Float.thy ===== *)
theory Go_Float
  imports Go_Lists
begin

text \<open>
  \<open>float64\<close> arithmetic as IEEE 754 and the Go specification define it: signed zeros, infinities, one
  value that is not a number, results rounded to nearest with ties to even. Multiplications are
  not fused with additions, as on amd64. \<open>strconv.ParseFloat\<close> is modelled on decimal texts (the code
  parses only texts that the decimal library has accepted), \<open>strconv.FormatFloat\<close> for the format
  \<open>g\<close> with 17 digits.
\<close>

section \<open>Values\<close>

text \<open>\<open>FNum x\<close> is a finite number other than zero; the flag of the others is their sign.\<close>

datatype double = FZero bool | FNum rat | FInf bool | FNaN

definition fl :: "rat \<Rightarrow> double" where
  "fl x = (let r = round_double x in
     if r = 0 then FZero (x < 0) else if exponent_of \<bar>r\<bar> > 1023 then FInf (x < 0) else FNum r)"

fun f_negative :: "double \<Rightarrow> bool" where
  "f_negative (FZero s) = s"
| "f_negative (FNum x) = (x < 0)"
| "f_negative (FInf s) = s"
| "f_negative FNaN = False"

fun f_value :: "double \<Rightarrow> rat" where
  "f_value (FNum x) = x"
| "f_value _ = 0"

fun f_finite :: "double \<Rightarrow> bool" where
  "f_finite (FZero s) = True"
| "f_finite (FNum x) = True"
| "f_finite _ = False"

section \<open>Arithmetic\<close>

fun f_neg :: "double \<Rightarrow> double" where
  "f_neg (FZero s) = FZero (\<not> s)"
| "f_neg (FNum x) = FNum (- x)"
| "f_neg (FInf s) = FInf (\<not> s)"
| "f_neg FNaN = FNaN"

fun f_abs :: "double \<Rightarrow> double" where
  "f_abs (FZero s) = FZero False"
| "f_abs (FNum x) = FNum \<bar>x\<bar>"
| "f_abs (FInf s) = FInf False"
| "f_abs FNaN = FNaN"

fun f_add :: "double \<Rightarrow> double \<Rightarrow> double" where
  "f_add FNaN y = FNaN"
| "f_add x FNaN = FNaN"
| "f_add (FInf s) (FInf t) = (if s = t then FInf s else FNaN)"
| "f_add (FInf s) y = FInf s"
| "f_add x (FInf t) = FInf t"
| "f_add (FZero s) (FZero t) = FZero (s \<and> t)"
| "f_add (FZero s) (FNum y) = FNum y"
| "f_add (FNum x) (FZero t) = FNum x"
| "f_add (FNum x) (FNum y) = fl (x + y)"

definition f_sub :: "double \<Rightarrow> double \<Rightarrow> double" where
  "f_sub x y = f_add x (f_neg y)"

fun f_mul :: "double \<Rightarrow> double \<Rightarrow> double" where
  "f_mul FNaN y = FNaN"
| "f_mul x FNaN = FNaN"
| "f_mul (FInf s) (FZero t) = FNaN"
| "f_mul (FZero s) (FInf t) = FNaN"
| "f_mul (FInf s) y = FInf (s \<noteq> f_negative y)"
| "f_mul x (FInf t) = FInf (f_negative x \<noteq> t)"
| "f_mul (FNum x) (FNum y) = fl (x * y)"
| "f_mul x y = FZero (f_negative x \<noteq> f_negative y)"

fun f_div :: "double \<Rightarrow> double \<Rightarrow> double" where
  "f_div FNaN y = FNaN"
| "f_div x FNaN = FNaN"
| "f_div (FInf s) (FInf t) = FNaN"
| "f_div (FZero s) (FZero t) = FNaN"
| "f_div (FInf s) y = FInf (s \<noteq> f_negative y)"
| "f_div x (FInf t) = FZero (f_negative x \<noteq> t)"
| "f_div (FNum x) (FNum y) = fl (x / y)"
| "f_div (FZero s) y = FZero (s \<noteq> f_negative y)"
| "f_div x (FZero t) = FInf (f_negative x \<noteq> t)"

text \<open>The square root of a natural number, rounded down; the root of a number, rounded to the
  nearest multiple of the unit of its binade.\<close>

function isqrt :: "int \<Rightarrow> int" where
  "isqrt n = (if n \<le> 0 then 0 else
     (let r = 2 * isqrt (n div 4) in if (r + 1) * (r + 1) \<le> n then r + 1 else r))"
  by auto
termination by (relation "measure nat") auto

declare isqrt.simps [simp del]

definition sqrt_positive :: "rat \<Rightarrow> rat" where
  "sqrt_positive x =
     (let unit = pow2 (exponent_of x div 2 - 52); y = x / (unit * unit); s = isqrt \<lfloor>y\<rfloor>;
          middle = (of_int s + 1 / 2) * (of_int s + 1 / 2) in
      of_int (if y < middle then s else if y > middle then s + 1 else if even s then s else s + 1) * unit)"

fun f_sqrt :: "double \<Rightarrow> double" where
  "f_sqrt (FZero s) = FZero s"
| "f_sqrt (FNum x) = (if x < 0 then FNaN else FNum (sqrt_positive x))"
| "f_sqrt (FInf s) = (if s then FNaN else FInf False)"
| "f_sqrt FNaN = FNaN"

definition f_int :: "int \<Rightarrow> double" where
  "f_int n = (if n = 0 then FZero False else fl (of_int n))"

definition f_max :: double where
  "f_max = FNum ((2 - pow2 (- 52)) * pow2 1023)"

section \<open>Comparisons\<close>

fun f_lt :: "double \<Rightarrow> double \<Rightarrow> bool" where
  "f_lt FNaN y = False"
| "f_lt x FNaN = False"
| "f_lt (FInf s) (FInf t) = (s \<and> \<not> t)"
| "f_lt (FInf s) y = s"
| "f_lt x (FInf t) = (\<not> t)"
| "f_lt x y = (f_value x < f_value y)"

fun f_eq :: "double \<Rightarrow> double \<Rightarrow> bool" where
  "f_eq FNaN y = False"
| "f_eq x FNaN = False"
| "f_eq (FInf s) (FInf t) = (s = t)"
| "f_eq (FInf s) y = False"
| "f_eq x (FInf t) = False"
| "f_eq x y = (f_value x = f_value y)"

definition f_le :: "double \<Rightarrow> double \<Rightarrow> bool" where
  "f_le x y \<longleftrightarrow> f_lt x y \<or> f_eq x y"

lemma f_lt_finite: "f_finite x \<Longrightarrow> f_finite y \<Longrightarrow> f_lt x y \<longleftrightarrow> f_value x < f_value y"
  by (cases x; cases y) auto

lemma f_le_finite: "f_finite x \<Longrightarrow> f_finite y \<Longrightarrow> f_le x y \<longleftrightarrow> f_value x \<le> f_value y"
  by (cases x; cases y) (auto simp: f_le_def)

text \<open>\<open>sort.Float64s\<close> puts values that are no number first.\<close>

definition float_less :: "double \<Rightarrow> double \<Rightarrow> bool" where
  "float_less x y \<longleftrightarrow> f_lt x y \<or> (x = FNaN \<and> y \<noteq> FNaN)"

interpretation float_order: slice_order float_less
proof
  have "f_lt x y \<Longrightarrow> \<not> f_lt y x" for x y by (cases x; cases y) auto
  then show "\<not> float_less y x" if "float_less x y" for x y
    using that by (cases x; cases y) (auto simp: float_less_def)
  show "float_less x y \<or> float_less y z" if "float_less x z" for x y z
    using that by (cases x; cases y; cases z) (auto simp: float_less_def)
qed

section \<open>Text\<close>

function int_digits :: "int \<Rightarrow> string" where
  "int_digits n = (if n < 10 then [char_of (48 + n)] else int_digits (n div 10) @ [char_of (48 + n mod 10)])"
  by auto
termination by (relation "measure nat") auto

declare int_digits.simps [simp del]

definition digits_value :: "string \<Rightarrow> int" where
  "digits_value s = foldl (\<lambda>a c. 10 * a + (of_char c - 48)) 0 s"

text \<open>The digits, the number of decimals and the exponent of a decimal text.\<close>

definition all_digits :: "string \<Rightarrow> bool" where
  "all_digits s \<longleftrightarrow> list_all (\<lambda>c. CHR ''0'' \<le> c \<and> c \<le> CHR ''9'') s"

definition signed_text :: "string \<Rightarrow> bool \<times> string" where
  "signed_text s = (case s of [] \<Rightarrow> (False, []) | c # t \<Rightarrow>
     if c = CHR ''-'' then (True, t) else if c = CHR ''+'' then (False, t) else (False, s))"

definition exponent_text :: "string \<Rightarrow> int option" where
  "exponent_text s = (case s of [] \<Rightarrow> Some 0 | e # t \<Rightarrow>
     (case signed_text t of (neg, digits) \<Rightarrow>
        if digits \<noteq> [] \<and> all_digits digits then Some (if neg then - digits_value digits else digits_value digits)
        else None))"

definition decimal_number :: "string \<Rightarrow> (bool \<times> rat) option" where
  "decimal_number s =
     (case signed_text s of (neg, body) \<Rightarrow>
        (let mantissa = takeWhile (\<lambda>c. c \<noteq> CHR ''e'' \<and> c \<noteq> CHR ''E'') body;
             whole = takeWhile (\<lambda>c. c \<noteq> CHR ''.'') mantissa; part = drop (length whole + 1) mantissa in
         if whole @ part = [] \<or> \<not> all_digits (whole @ part) then None
         else (case exponent_text (drop (length mantissa) body) of None \<Rightarrow> None
           | Some e \<Rightarrow> Some (neg, of_int (digits_value (whole @ part)) *
               (let k = e - int (length part) in if 0 \<le> k then 10 ^ nat k else 1 / 10 ^ nat (- k))))))"

text \<open>A number beyond the range is an error, and so is a text that is no decimal number.\<close>

definition ParseFloat :: "string \<Rightarrow> go_error + double" where
  "ParseFloat s =
     (case decimal_number s of None \<Rightarrow> Inl (ErrorsNew ''invalid syntax'')
      | Some (neg, x) \<Rightarrow>
          (case fl x of FInf _ \<Rightarrow> Inl (ErrorsNew ''value out of range'')
           | FZero _ \<Rightarrow> Inr (FZero neg)
           | r \<Rightarrow> Inr (if neg then f_neg r else r)))"

text \<open>The exponent \<open>k\<close> with \<open>10 ^ k \<le> x < 10 ^ (k + 1)\<close>: counting digits.\<close>

definition pow10 :: "int \<Rightarrow> rat" where
  "pow10 e = (if 0 \<le> e then 10 ^ nat e else 1 / 10 ^ nat (- e))"

definition decimal_exponent :: "rat \<Rightarrow> int" where
  "decimal_exponent x = (case quotient_of x of (p, q) \<Rightarrow>
     let e = int (length (int_digits p)) - int (length (int_digits q)) in if pow10 e \<le> x then e else e - 1)"

text \<open>The 17 significant digits without the zeros at their end, and the place of the point.\<close>

fun trim_zeros :: "string \<Rightarrow> string" where
  "trim_zeros s = rev (dropWhile (\<lambda>c. c = CHR ''0'') (rev s))"

definition digits17 :: "rat \<Rightarrow> string \<times> int" where
  "digits17 x = (if x = 0 then ([], 0) else
     (let k = decimal_exponent x; n = round_half_even (x * pow10 (16 - k)) in
      if n = 10 ^ 17 then (''1'', k + 2) else (trim_zeros (int_digits n), k + 1)))"

definition format_e :: "string \<Rightarrow> int \<Rightarrow> string" where
  "format_e digits exponent =
     take 1 digits @ (if length digits > 1 then CHR ''.'' # drop 1 digits else []) @ ''e'' @
     (if exponent < 0 then ''-'' else ''+'') @ pad_zero 2 (int_digits \<bar>exponent\<bar>)"

definition format_f :: "string \<Rightarrow> int \<Rightarrow> string" where
  "format_f digits point =
     (if point \<le> 0 then ''0'' else take (nat point) digits @ replicate (nat point - length digits) (CHR ''0'')) @
     (if int (length digits) > point
      then CHR ''.'' # replicate (nat (- point)) (CHR ''0'') @ drop (nat point) digits else [])"

fun FormatFloat :: "double \<Rightarrow> string" where
  "FormatFloat FNaN = ''NaN''"
| "FormatFloat (FInf s) = (if s then ''-Inf'' else ''+Inf'')"
| "FormatFloat x =
     (case digits17 \<bar>f_value x\<bar> of (digits, point) \<Rightarrow>
        (if f_negative x then ''-'' else []) @
        (let eprec = (if int (length digits) \<ge> point then int (length digits) else 17) in
         if point - 1 < - 4 \<or> point - 1 \<ge> eprec then format_e digits (point - 1) else format_f digits point))"

end
