(* ===== verification/Finance_Statistics.thy ===== *)
theory Finance_Statistics
  imports Go_Float Finance_Formulas
begin

text \<open>
  Statistics over \<open>float64\<close> (\<open>internal/finance\<close>: \<open>peer_association.go\<close>, \<open>statistics.go\<close>,
  \<open>analysis_complete.go\<close>, \<open>Stability\<close> of \<open>quality.go\<close>). The sorts are parameters: \<open>sort.Float64s\<close> may
  return zeros of both signs in any order.
\<close>

section \<open>Multiples, peers and associations (peer_association.go)\<close>

datatype ValueLevel = ValueLevelEquity | ValueLevelEnterprise | OtherLevel string

datatype MultipleKind = MultiplePE | MultiplePriceBook | MultiplePriceFCF | MultipleEVRevenue | MultipleEVEBITDA
  | MultipleEVEBIT | OtherMultiple string

fun expected_level :: "MultipleKind \<Rightarrow> ValueLevel option" where
  "expected_level (OtherMultiple _) = None"
| "expected_level kind =
     Some (if kind \<in> {MultiplePE, MultiplePriceBook, MultiplePriceFCF} then ValueLevelEquity else ValueLevelEnterprise)"

abbreviation f_zero :: double where "f_zero \<equiv> FZero False"

definition TypedMultiple :: "MultipleKind \<Rightarrow> ValueLevel \<Rightarrow> double \<Rightarrow> double \<Rightarrow> go_error + double" where
  "TypedMultiple kind level numerator denominator =
     (case expected_level kind of None \<Rightarrow> Inl (ErrorsNew ''unsupported multiple kind'')
      | Some expectedLevel \<Rightarrow>
          if level \<noteq> expectedLevel then
            Inl (ErrorsNew ''value_level_mismatch: numerator and denominator belong to different value levels'')
          else if f_le denominator f_zero \<or> \<not> f_finite numerator \<or> \<not> f_finite denominator then
            Inl (ErrorsNew ''multiple requires finite numerator and positive denominator'')
          else Inr (f_div numerator denominator))"

definition median :: "double list \<Rightarrow> double" where
  "median ds = (let middle = length ds div 2 in
     if odd (length ds) then ds ! middle
     else f_div (f_add (ds ! (middle - 1)) (ds ! middle)) (f_int 2))"

record PeerStatisticsResult =
  psr_subject_value :: double
  psr_median :: double
  psr_percentile :: double
  psr_median_absolute_deviation :: double
  psr_robust_z_score :: double
  psr_observations :: int

definition PeerStatistics :: "(double list \<Rightarrow> double list) \<Rightarrow> double list \<Rightarrow> double \<Rightarrow> int \<Rightarrow> go_error + PeerStatisticsResult" where
  "PeerStatistics order peers subject minimumSample =
     (if minimumSample < 3 \<or> int (length peers) < minimumSample then
        Inl (ErrorsNew ''peer sample is below the declared minimum'')
      else if \<not> list_all f_finite (peers @ [subject]) then Inl (ErrorsNew ''peer values must be finite'')
      else
        (let sorted_peers = order peers; medianValue = median sorted_peers;
             deviations = map (\<lambda>d. f_abs (f_sub d medianValue)) sorted_peers;
             lessOrEqual = length (filter (\<lambda>d. f_le d subject) sorted_peers);
             mad = median (order deviations) in Inr
         \<lparr>psr_subject_value = subject, psr_median = medianValue,
          psr_percentile = f_div (f_int (int lessOrEqual)) (f_int (int (length peers))),
          psr_median_absolute_deviation = mad,
          psr_robust_z_score = (if f_eq mad f_zero then f_zero
            else f_div (f_mul (fl (6744897501960817 / 10 ^ 16)) (f_sub subject medianValue)) mad),
          psr_observations = int (length peers)\<rparr>))"

record DuPontResult =
  dpr_net_margin :: double
  dpr_asset_turnover :: double
  dpr_financial_leverage :: double
  dpr_return_on_equity :: double

definition DuPont :: "double \<Rightarrow> double \<Rightarrow> double \<Rightarrow> double \<Rightarrow> go_error + DuPontResult" where
  "DuPont netIncome revenue averageAssets averageEquity =
     (if f_le revenue f_zero \<or> f_le averageAssets f_zero \<or> f_le averageEquity f_zero then
        Inl (ErrorsNew ''DuPont denominators must be positive'')
      else
        (let margin = f_div netIncome revenue; turnover = f_div revenue averageAssets;
             leverage = f_div averageAssets averageEquity in Inr
         \<lparr>dpr_net_margin = margin, dpr_asset_turnover = turnover, dpr_financial_leverage = leverage,
          dpr_return_on_equity = f_mul (f_mul margin turnover) leverage\<rparr>))"

record AssociationResult =
  asr_label :: string
  asr_slope :: double
  asr_intercept :: double
  asr_correlation :: double
  asr_r_squared :: double
  asr_observations :: int
  asr_lag :: int

definition f_sum :: "double list \<Rightarrow> double" where
  "f_sum ds = foldl f_add f_zero ds"

definition LaggedAssociation :: "double list \<Rightarrow> double list \<Rightarrow> int \<Rightarrow> int \<Rightarrow> go_error + AssociationResult" where
  "LaggedAssociation x y lag minimumSample =
     (if length x \<noteq> length y \<or> lag < 0 \<or> lag \<ge> int (length x) then
        Inl (ErrorsNew ''aligned equal-length series and a valid non-negative lag are required'')
      else
        (let left = take (length x - nat lag) x; right = drop (nat lag) y in
         if int (length left) < minimumSample \<or> minimumSample < 3 then
           Inl (ErrorsNew ''association sample is below the declared minimum'')
         else if \<not> list_all f_finite left \<or> \<not> list_all f_finite right then
           Inl (ErrorsNew ''association values must be finite'')
         else
           (let meanX = f_div (f_sum left) (f_int (int (length left)));
                meanY = f_div (f_sum right) (f_int (int (length right)));
                dxs = map (\<lambda>d. f_sub d meanX) left; dys = map (\<lambda>d. f_sub d meanY) right;
                covariance = f_sum (map2 f_mul dxs dys);
                varianceX = f_sum (map2 f_mul dxs dxs);
                varianceY = f_sum (map2 f_mul dys dys) in
            if f_eq varianceX f_zero \<or> f_eq varianceY f_zero then
              Inl (ErrorsNew ''association requires non-zero variance'')
            else
              (let slope = f_div covariance varianceX;
                   correlation = f_div covariance (f_sqrt (f_mul varianceX varianceY)) in Inr
               \<lparr>asr_label = ''statistical_association_not_causality'', asr_slope = slope,
                asr_intercept = f_sub meanY (f_mul slope meanX), asr_correlation = correlation,
                asr_r_squared = f_mul correlation correlation, asr_observations = int (length left),
                asr_lag = lag\<rparr>))))"

definition LinearAssociation :: "double list \<Rightarrow> double list \<Rightarrow> int \<Rightarrow> go_error + AssociationResult" where
  "LinearAssociation x y minimumSample = LaggedAssociation x y 0 minimumSample"

section \<open>Returns and moments (statistics.go)\<close>

definition validateFinite :: "double list \<Rightarrow> nat \<Rightarrow> go_error option" where
  "validateFinite ds minimum = first_err
     [fail_if (length ds < minimum) (ErrorsNew ''series does not meet minimum sample''),
      fail_if (\<not> list_all f_finite ds) (ErrorsNew ''series contains non-finite values'')]"

definition TotalReturn :: "double \<Rightarrow> double \<Rightarrow> double \<Rightarrow> go_error + double" where
  "TotalReturn startPrice endPrice distributions =
     check_then (validateFinite [startPrice, endPrice, distributions] 3)
       (if f_le startPrice f_zero \<or> f_lt endPrice f_zero \<or> f_lt distributions f_zero then
          Inl (ErrorsNew ''start price must be positive; end price and distributions cannot be negative'')
        else Inr (f_div (f_sub (f_add endPrice distributions) startPrice) startPrice))"

definition Returns :: "double list \<Rightarrow> go_error + double list" where
  "Returns prices =
     check_then (validateFinite prices 2)
       (map_res (\<lambda>(previous, current).
          if f_eq previous f_zero then Inl (ErrorsNew ''return base cannot be zero'')
          else Inr (f_sub (f_div current previous) (f_int 1))) (zip prices (tl prices)))"

definition mean :: "double list \<Rightarrow> double" where
  "mean ds = f_div (f_sum ds) (f_int (int (length ds)))"

definition Covariance :: "double list \<Rightarrow> double list \<Rightarrow> int \<Rightarrow> go_error + double" where
  "Covariance left right ddof =
     check_then (first_err
       [fail_if (length left \<noteq> length right) (ErrorsNew ''series lengths differ''),
        validateFinite left 2, validateFinite right 2,
        fail_if (ddof < 0 \<or> int (length left) - ddof \<le> 0) (ErrorsNew ''invalid degrees of freedom'')])
     (let leftMean = mean left; rightMean = mean right in
      Inr (f_div (f_sum (map2 (\<lambda>x y. f_mul (f_sub x leftMean) (f_sub y rightMean)) left right))
        (f_int (int (length left) - ddof))))"

definition Variance :: "double list \<Rightarrow> int \<Rightarrow> go_error + double" where
  "Variance ds ddof = Covariance ds ds ddof"

definition Volatility :: "double list \<Rightarrow> double \<Rightarrow> int \<Rightarrow> go_error + double" where
  "Volatility returns periodsPerYear ddof =
     (if f_le periodsPerYear f_zero \<or> \<not> f_finite periodsPerYear then
        Inl (ErrorsNew ''periods per year must be finite and positive'')
      else res_bind (Variance returns ddof) (\<lambda>variance. Inr (f_mul (f_sqrt variance) (f_sqrt periodsPerYear))))"

record DrawdownResult =
  dwr_series :: "double list"
  dwr_maximum :: double

fun drawdowns :: "double \<Rightarrow> double \<Rightarrow> double list \<Rightarrow> go_error + double list \<times> double" where
  "drawdowns peak maximum [] = Inr ([], maximum)"
| "drawdowns peak maximum (wealth # wealthIndex) =
     (if f_le wealth f_zero then Inl (ErrorsNew ''wealth index must remain positive'')
      else
        (let peak = (if f_lt peak wealth then wealth else peak);
             loss = f_sub (f_div wealth peak) (f_int 1) in
         res_bind (drawdowns peak (if f_lt loss maximum then loss else maximum) wealthIndex) (\<lambda>(series, maximum).
           Inr (loss # series, maximum))))"

definition Drawdown :: "double list \<Rightarrow> go_error + DrawdownResult" where
  "Drawdown wealthIndex =
     check_then (validateFinite wealthIndex 1)
       (res_bind (drawdowns (f_neg f_max) f_zero wealthIndex) (\<lambda>(series, maximum).
          Inr \<lparr>dwr_series = series, dwr_maximum = maximum\<rparr>))"

definition Beta :: "double list \<Rightarrow> double list \<Rightarrow> int \<Rightarrow> go_error + double \<times> int" where
  "Beta securityReturns benchmarkReturns ddof =
     res_bind (Covariance securityReturns benchmarkReturns ddof) (\<lambda>covariance.
     res_bind (Variance benchmarkReturns ddof) (\<lambda>benchmarkVariance.
       if f_eq benchmarkVariance f_zero then Inl (ErrorsNew ''benchmark variance is zero'')
       else Inr (f_div covariance benchmarkVariance, int (length securityReturns))))"

definition Correlation :: "double list \<Rightarrow> double list \<Rightarrow> int \<Rightarrow> go_error + double" where
  "Correlation left right ddof =
     res_bind (Covariance left right ddof) (\<lambda>covariance.
     res_bind (Variance left ddof) (\<lambda>leftVariance.
     res_bind (Variance right ddof) (\<lambda>rightVariance.
       (let denominator = f_sqrt (f_mul leftVariance rightVariance) in
        if f_eq denominator f_zero then Inl (ErrorsNew ''correlation is undefined for a constant series'')
        else Inr (f_div covariance denominator)))))"

definition window_of :: "nat \<Rightarrow> nat \<Rightarrow> 'a list \<Rightarrow> 'a list" where
  "window_of start n xs = take n (drop start xs)"

definition RollingCorrelation :: "double list \<Rightarrow> double list \<Rightarrow> int \<Rightarrow> go_error + double list" where
  "RollingCorrelation left right window =
     (if length left \<noteq> length right then Inl (ErrorsNew ''series lengths differ'')
      else if window < 2 \<or> window > int (length left) then
        Inl (ErrorsNew ''window must be between two and the series length'')
      else map_res (\<lambda>start. Correlation (window_of start (nat window) left) (window_of start (nat window) right) 1)
        [0..<length left - nat window + 1])"

record RollingMarketWindow =
  rmw_start :: int
  rmw_end :: int
  rmw_covariance :: double
  rmw_correlation :: double
  rmw_beta :: double
  rmw_slope :: double
  rmw_intercept :: double
  rmw_r_squared :: double
  rmw_observations :: int

definition RollingMarketStatistics :: "double list \<Rightarrow> double list \<Rightarrow> int \<Rightarrow> go_error + RollingMarketWindow list" where
  "RollingMarketStatistics securityReturns benchmarkReturns window =
     (if length securityReturns \<noteq> length benchmarkReturns then Inl (ErrorsNew ''series lengths differ'')
      else if window < 3 \<or> window > int (length securityReturns) then
        Inl (ErrorsNew ''window must be between three and the series length'')
      else map_res (\<lambda>start.
        (let security = window_of start (nat window) securityReturns;
             benchmark = window_of start (nat window) benchmarkReturns in
         res_bind (Covariance security benchmark 1) (\<lambda>covariance.
         res_bind (Correlation security benchmark 1) (\<lambda>correlation.
         res_bind (Beta security benchmark 1) (\<lambda>(beta, observations).
         res_bind (LinearAssociation benchmark security 3) (\<lambda>association. Inr
           \<lparr>rmw_start = int start, rmw_end = int start + window - 1, rmw_covariance = covariance,
            rmw_correlation = correlation, rmw_beta = beta, rmw_slope = asr_slope association,
            rmw_intercept = asr_intercept association, rmw_r_squared = asr_r_squared association,
            rmw_observations = observations\<rparr>))))))
        [0..<length securityReturns - nat window + 1])"

section \<open>Stability (quality.go)\<close>

record StabilityResult =
  sbr_mean :: double
  sbr_standard_deviation :: double
  sbr_coefficient_variation :: double
  sbr_observations :: int

definition Stability :: "Decimal list \<Rightarrow> go_error + StabilityResult" where
  "Stability ds =
     (if length ds < 3 then Inl (ErrorsNew ''stability requires at least three observations'')
      else
        (case map_res ParseFloat ds of Inl _ \<Rightarrow> Inl (ErrorsNew ''stability values must be finite'')
         | Inr converted \<Rightarrow>
             if \<not> list_all f_finite converted then Inl (ErrorsNew ''stability values must be finite'')
             else
               (let average = mean converted;
                    variance = f_div (f_sum (map (\<lambda>d. f_mul (f_sub d average) (f_sub d average)) converted))
                      (f_int (int (length converted) - 1));
                    standardDeviation = f_sqrt variance in Inr
                \<lparr>sbr_mean = average, sbr_standard_deviation = standardDeviation,
                 sbr_coefficient_variation =
                   (if f_eq average f_zero then FInf False else f_div standardDeviation (f_abs average)),
                 sbr_observations = int (length ds)\<rparr>)))"

section \<open>Peer cohorts and bands (analysis_complete.go)\<close>

record PeerObservation =
  pob_company_id :: string
  pob_value :: double
  pob_observed_at :: gotime
  pob_currency :: string
  pob_fiscal_period :: string
  pob_definition_id :: string

record PeerCohortPolicy =
  pcp_as_of :: gotime
  pcp_currency :: string
  pcp_fiscal_period :: string
  pcp_definition_id :: string
  pcp_minimum_sample :: int
  pcp_maximum_age_days :: int
  pcp_winsorize_percent :: double

record PeerCohort =
  pch_values :: "double list"
  pch_included_ids :: "string list"
  pch_excluded :: "(string \<times> string) list"
  pch_observation_date :: gotime

definition peer_less :: "PeerObservation \<Rightarrow> PeerObservation \<Rightarrow> bool" where
  "peer_less x y \<longleftrightarrow>
     (if pob_company_id x = pob_company_id y then time_before (pob_observed_at x) (pob_observed_at y)
      else pob_company_id x < pob_company_id y)"

definition exclusion :: "PeerObservation list \<Rightarrow> PeerCohortPolicy \<Rightarrow> PeerObservation \<Rightarrow> string" where
  "exclusion observations policy observation =
     (if pob_company_id observation = [] then ''missing_company''
      else if length (filter (\<lambda>p. pob_company_id p = pob_company_id observation) observations) > 1 then
        ''duplicate_or_missing_company''
      else if time_after (pob_observed_at observation) (pcp_as_of policy) then ''future_observation''
      else if time_sub (pcp_as_of policy) (pob_observed_at observation) >
          wrap64 (pcp_maximum_age_days policy * 24 * hour_ns) then ''stale_observation''
      else if pob_currency observation \<noteq> pcp_currency policy then ''currency_mismatch''
      else if pob_fiscal_period observation \<noteq> pcp_fiscal_period policy then ''period_mismatch''
      else if pob_definition_id observation \<noteq> pcp_definition_id policy then ''definition_mismatch''
      else if \<not> f_finite (pob_value observation) then ''non_finite_value''
      else [])"

definition winsorized :: "(double list \<Rightarrow> double list) \<Rightarrow> double \<Rightarrow> double list \<Rightarrow> double list" where
  "winsorized order percent ds =
     (let ordered_values = order ds; n = f_int (int (length ds) - 1);
          low = ordered_values ! nat \<lfloor>f_value (f_mul n percent)\<rfloor>;
          high = ordered_values ! nat \<lfloor>f_value (f_mul n (f_sub (f_int 1) percent))\<rfloor> in
      map (\<lambda>d. if f_lt d low then low else if f_lt high d then high else d) ds)"

definition GovernPeerCohort :: "(PeerObservation list \<Rightarrow> PeerObservation list) \<Rightarrow> (double list \<Rightarrow> double list) \<Rightarrow>
    PeerObservation list \<Rightarrow> PeerCohortPolicy \<Rightarrow> go_error + PeerCohort" where
  "GovernPeerCohort order sort_floats observations policy =
     (if is_zero_time (pcp_as_of policy) \<or> pcp_minimum_sample policy < 3 \<or> pcp_maximum_age_days policy < 0 \<or>
         f_lt (pcp_winsorize_percent policy) f_zero \<or> f_le (fl (1 / 2)) (pcp_winsorize_percent policy) \<or>
         pcp_currency policy = [] \<or> pcp_fiscal_period policy = [] \<or> pcp_definition_id policy = [] then
        Inl (ErrorsNew ''peer cohort policy is invalid'')
      else
        (let reason = exclusion observations policy; peers = order observations;
             included = filter (\<lambda>p. reason p = []) peers; ds = map pob_value included in
         if int (length ds) < pcp_minimum_sample policy then
           Inl (ErrorsNew ''compatible peer population is below the declared minimum'')
         else Inr
           \<lparr>pch_values = (if f_lt f_zero (pcp_winsorize_percent policy)
              then winsorized sort_floats (pcp_winsorize_percent policy) ds else ds),
            pch_included_ids = map pob_company_id included,
            pch_excluded = map (\<lambda>p. (pob_company_id p, reason p)) (filter (\<lambda>p. reason p \<noteq> []) peers),
            pch_observation_date = pcp_as_of policy\<rparr>))"

record HistoricalBandResult =
  hbr_current :: double
  hbr_minimum :: double
  hbr_first_quartile :: double
  hbr_median :: double
  hbr_third_quartile :: double
  hbr_maximum :: double
  hbr_percentile :: double
  hbr_observations :: int
  hbr_interpretation :: string

definition quantile :: "double list \<Rightarrow> double \<Rightarrow> double" where
  "quantile ds p =
     (let position = f_mul p (f_int (int (length ds) - 1));
          left = \<lfloor>f_value position\<rfloor>; right = \<lceil>f_value position\<rceil> in
      if left = right then ds ! nat left
      else (let weight = f_sub position (f_int left) in
        f_add (f_mul (ds ! nat left) (f_sub (f_int 1) weight)) (f_mul (ds ! nat right) weight)))"

definition HistoricalBand :: "(double list \<Rightarrow> double list) \<Rightarrow> double list \<Rightarrow> double \<Rightarrow> int \<Rightarrow> go_error + HistoricalBandResult" where
  "HistoricalBand order history current minimumSample =
     (if int (length history) < minimumSample \<or> minimumSample < 5 \<or> \<not> f_finite current then
        Inl (ErrorsNew ''historical band sample is below the declared minimum'')
      else if \<not> list_all f_finite history then Inl (ErrorsNew ''historical band values must be finite'')
      else
        (let ds = order history; lessOrEqual = length (filter (\<lambda>d. f_le d current) ds) in Inr
         \<lparr>hbr_current = current, hbr_minimum = hd ds, hbr_first_quartile = quantile ds (fl (1 / 4)),
          hbr_median = quantile ds (fl (1 / 2)), hbr_third_quartile = quantile ds (fl (3 / 4)), hbr_maximum = last ds,
          hbr_percentile = f_div (f_int (int lessOrEqual)) (f_int (int (length ds))),
          hbr_observations = int (length ds),
          hbr_interpretation = ''historical_position_only_not_mean_reversion''\<rparr>))"

section \<open>Train and test (analysis_complete.go)\<close>

record TimedPair =
  tpr_at :: gotime
  tpr_driver :: "double option"
  tpr_outcome :: "double option"

record AssociationDiagnostics =
  adg_result :: AssociationResult
  adg_window_start :: gotime
  adg_window_end :: gotime
  adg_missing_pairs :: int
  adg_input_pairs :: int
  adg_train_observations :: int
  adg_test_observations :: int
  adg_test_rmse :: double
  adg_stability_gap :: double
  adg_confidence_class :: string
  adg_evidence_class :: string

definition pair_less :: "TimedPair \<Rightarrow> TimedPair \<Rightarrow> bool" where
  "pair_less x y \<longleftrightarrow> time_before (tpr_at x) (tpr_at y)"

definition check_pairs :: "TimedPair list \<Rightarrow> go_error option" where
  "check_pairs pairs = range_err (\<lambda>_ (previous, pair). first_err
     [fail_if (is_zero_time (tpr_at pair) \<or> (case previous of None \<Rightarrow> False | Some p \<Rightarrow> tpr_at p = tpr_at pair))
        (ErrorsNew ''association timestamps must be present and unique''),
      fail_if (case tpr_driver pair of None \<Rightarrow> False | Some d \<Rightarrow> \<not> f_finite d)
        (ErrorsNew ''association values must be finite''),
      fail_if (case tpr_outcome pair of None \<Rightarrow> False | Some d \<Rightarrow> \<not> f_finite d)
        (ErrorsNew ''association values must be finite'')])
     (zip (None # map Some pairs) pairs)"

text \<open>The drivers and the outcomes \<open>lag\<close> places later, where both are present.\<close>

definition lagged_pairs :: "nat \<Rightarrow> TimedPair list \<Rightarrow> (double \<times> double \<times> gotime) list" where
  "lagged_pairs lag pairs = concat (map (\<lambda>(before, after).
     (case (tpr_driver before, tpr_outcome after) of
        (Some driver, Some outcome) \<Rightarrow> [(driver, outcome, tpr_at after)] | _ \<Rightarrow> []))
     (zip pairs (drop lag pairs)))"

definition squared_error :: "AssociationResult \<Rightarrow> double \<times> double \<times> gotime \<Rightarrow> double" where
  "squared_error train entry =
     (case entry of (driver, outcome, _) \<Rightarrow>
        (let delta = f_sub (f_add (asr_intercept train) (f_mul (asr_slope train) driver)) outcome in f_mul delta delta))"

definition TrainTestLaggedAssociation :: "(TimedPair list \<Rightarrow> TimedPair list) \<Rightarrow> TimedPair list \<Rightarrow> int \<Rightarrow> int \<Rightarrow> gotime \<Rightarrow>
    go_error + AssociationDiagnostics" where
  "TrainTestLaggedAssociation order pairs lag minimumTrain trainCutoff =
     (if is_zero_time trainCutoff \<or> pairs = [] then Inl (ErrorsNew ''pairs and train cutoff are required'')
      else if lag < 0 \<or> lag \<ge> int (length pairs) then
        Inl (ErrorsNew ''lag is outside the available population'')
      else
        (let series = order pairs in
         check_then (check_pairs series)
           (let entries = lagged_pairs (nat lag) series;
                train_part = takeWhile (\<lambda>(_, _, at_time). \<not> time_after at_time trainCutoff) entries;
                test_part = drop (length train_part) entries in
            if int (length train_part) < minimumTrain \<or> test_part = [] then
              Inl (ErrorsNew ''train/test population is insufficient'')
            else
              res_bind (LaggedAssociation (map fst train_part) (map (fst \<circ> snd) train_part) 0 minimumTrain) (\<lambda>train.
              res_bind (LaggedAssociation (map fst entries) (map (fst \<circ> snd) entries) 0 minimumTrain) (\<lambda>full.
                (let testErrors = map (squared_error train) test_part;
                     rmse = f_sqrt (f_div (f_sum testErrors) (f_int (int (length testErrors))));
                     stability = f_abs (f_sub (asr_correlation train) (asr_correlation full)) in Inr
                 \<lparr>adg_result = train\<lparr>asr_lag := lag\<rparr>, adg_window_start = snd (snd (hd entries)),
                  adg_window_end = snd (snd (last entries)),
                  adg_missing_pairs = int (length pairs) - lag - int (length entries),
                  adg_input_pairs = int (length pairs), adg_train_observations = asr_observations train,
                  adg_test_observations = int (length testErrors), adg_test_rmse = rmse,
                  adg_stability_gap = stability,
                  adg_confidence_class =
                    (if length testErrors \<ge> 10 \<and> f_le stability (fl (1 / 10)) then ''stable_association'' else ''exploratory''),
                  adg_evidence_class = ''statistical_association_not_mechanism_or_causality''\<rparr>))))))"

end
