(* ===== verification/Engine_Inputs.thy ===== *)
theory Engine_Inputs
  imports Finance_Valuation Finance_Statistics Runtime_Data Capability
begin

text \<open>
  The inputs of the deterministic engine (\<open>internal/engine/executor.go\<close>): the set of inputs by
  identifier, its scalars and series, the checks of currencies, periods and units, and the outputs
  of a receipt. The set is a Go map; the order in which a loop visits it is a parameter (\<open>visiting\<close>).
\<close>

section \<open>Identifiers with an index\<close>

text \<open>The text before and after the last point, if there is one.\<close>

definition split_last :: "string \<Rightarrow> (string \<times> string) option" where
  "split_last s =
     (let suffix = rev (takeWhile (\<lambda>c. c \<noteq> CHR ''.'') (rev s)) in
      if length suffix = length s then None else Some (take (length s - length suffix - 1) s, suffix))"

definition inputBase :: "string \<Rightarrow> string" where
  "inputBase inputID =
     (case split_last inputID of None \<Rightarrow> inputID
      | Some (base, suffix) \<Rightarrow> if \<not> snd (Atoi suffix) then base else inputID)"

section \<open>The set of inputs\<close>

type_synonym inputSet = "EngineInput list"

definition newInputSet :: "'d decimal_lib \<Rightarrow> EngineInput list \<Rightarrow> go_error + inputSet" where
  "newInputSet L inputs =
     (case scan_unique no_check ei_input_id
        (\<lambda>_ input. Errorf ''duplicate input %q'' [FStr (ei_input_id input)])
        (\<lambda>_ input. case ParseDecimal L (qt_value (ei_quantity input)) of Inr _ \<Rightarrow> None
           | Inl err \<Rightarrow> Some (Wrapf ''input %q is not canonical decimal data: %w'' [FStr (ei_input_id input)] err))
        inputs of
        Some err \<Rightarrow> Inl err
      | None \<Rightarrow> Inr inputs)"

definition has_input :: "inputSet \<Rightarrow> string \<Rightarrow> bool" where
  "has_input inputs name \<longleftrightarrow>
     list_ex (\<lambda>input. ei_input_id input = name) inputs \<or>
     list_ex (\<lambda>input. starts_with (ei_input_id input) (name @ ''.'')) inputs"

definition input_of :: "inputSet \<Rightarrow> string \<Rightarrow> go_error + EngineInput" where
  "input_of inputs name =
     (case index_by ei_input_id inputs name of None \<Rightarrow> Inl (Errorf ''missing input %q'' [FStr name])
      | Some input \<Rightarrow> Inr input)"

definition decimal_input :: "'d decimal_lib \<Rightarrow> inputSet \<Rightarrow> string \<Rightarrow> go_error + Decimal" where
  "decimal_input L inputs name = res_bind (input_of inputs name) (\<lambda>input. ParseDecimal L (qt_value (ei_quantity input)))"

definition float_input :: "inputSet \<Rightarrow> string \<Rightarrow> go_error + double" where
  "float_input inputs name = res_bind (input_of inputs name) (\<lambda>input.
     (case ParseFloat (qt_value (ei_quantity input)) of
        Inl err \<Rightarrow> Inl (Wrapf ''parse %q as float64: %w'' [FStr name] err) | Inr d \<Rightarrow> Inr d))"

definition integer_input :: "inputSet \<Rightarrow> string \<Rightarrow> go_error + int" where
  "integer_input inputs name = res_bind (input_of inputs name) (\<lambda>input.
     (case Atoi (qt_value (ei_quantity input)) of
        (n, True) \<Rightarrow> Inl (Wrapf ''parse %q as integer: %w'' [FStr name] (ErrorsNew ''strconv.Atoi'')) | (n, False) \<Rightarrow> Inr n))"

text \<open>The members of a series with their indices, in the order of the visiting. Members with equal
  indices are refused below in whatever order they are sorted.\<close>

definition series_member :: "string \<Rightarrow> EngineInput \<Rightarrow> go_error + int \<times> EngineInput" where
  "series_member name input =
     (case Atoi (drop (length name + 1) (ei_input_id input)) of
        (index, failed) \<Rightarrow>
          if failed \<or> index < 0 then
            Inl (Errorf ''series %q has invalid index %q'' [FStr name, FStr (ei_input_id input)])
          else Inr (index, input))"

definition series :: "(inputSet \<Rightarrow> inputSet) \<Rightarrow> inputSet \<Rightarrow> string \<Rightarrow> go_error + EngineInput list" where
  "series visiting inputs name =
     res_bind (map_res (series_member name)
         (filter (\<lambda>input. starts_with (ei_input_id input) (name @ ''.'')) (visiting inputs))) (\<lambda>members.
       if members = [] then Inl (Errorf ''series %q is empty'' [FStr name])
       else
         (let ordered_members = sort_key fst members in
          if map fst ordered_members \<noteq> map int [0..<length members] then
            Inl (Errorf ''series %q must use contiguous zero-based indices'' [FStr name])
          else Inr (map snd ordered_members)))"

definition decimalSeries :: "'d decimal_lib \<Rightarrow> (inputSet \<Rightarrow> inputSet) \<Rightarrow> inputSet \<Rightarrow> string \<Rightarrow> go_error + Decimal list" where
  "decimalSeries L visiting inputs name = res_bind (series visiting inputs name) (\<lambda>members.
     map_res (\<lambda>input. ParseDecimal L (qt_value (ei_quantity input))) members)"

definition floatSeries :: "(inputSet \<Rightarrow> inputSet) \<Rightarrow> inputSet \<Rightarrow> string \<Rightarrow> go_error + double list" where
  "floatSeries visiting inputs name = res_bind (series visiting inputs name) (\<lambda>members.
     map_res (\<lambda>input. ParseFloat (qt_value (ei_quantity input))) members)"

section \<open>Currencies and periods\<close>

definition is_money :: "EngineInput \<Rightarrow> bool" where
  "is_money input \<longleftrightarrow> qt_unit (ei_quantity input) = ''currency'' \<or> qt_unit (ei_quantity input) = ''currency_per_share''"

text \<open>The loops carry the currency (the period) of the inputs visited so far, empty at first.\<close>

fun check_currencies :: "string \<Rightarrow> EngineInput list \<Rightarrow> go_error option" where
  "check_currencies monetaryCurrency [] = None"
| "check_currencies monetaryCurrency (input # inputs) =
     (if is_money input then
        (if length (qt_currency (ei_quantity input)) \<noteq> 3 then
           Some (ErrorsNew ''currency_mismatch: monetary input requires a three-letter currency'')
         else if monetaryCurrency = [] then check_currencies (qt_currency (ei_quantity input)) inputs
         else if monetaryCurrency \<noteq> qt_currency (ei_quantity input) then
           Some (ErrorsNew ''currency_mismatch: monetary inputs use different currencies'')
         else check_currencies monetaryCurrency inputs)
      else if qt_currency (ei_quantity input) \<noteq> [] then
        Some (ErrorsNew ''currency_mismatch: non-monetary input declares a currency'')
      else check_currencies monetaryCurrency inputs)"

fun check_periods :: "string \<Rightarrow> EngineInput list \<Rightarrow> go_error option" where
  "check_periods period [] = None"
| "check_periods period (input # inputs) =
     (if qt_period (ei_quantity input) = [] then
        Some (ErrorsNew ''period_mismatch: aligned operation requires an input period'')
      else if period = [] then check_periods (qt_period (ei_quantity input)) inputs
      else if period \<noteq> qt_period (ei_quantity input) then
        Some (ErrorsNew ''period_mismatch: aligned operation received different periods'')
      else check_periods period inputs)"

definition periodAligned :: "string list" where
  "periodAligned =
     [''accounting.balance_sheet_identity'', ''financial.margin'',
      ''financial.free_cash_flow'', ''financial.cash_conversion'',
      ''financial.capex_intensity'', ''financial.roic_proxy'',
      ''financial.net_debt'', ''financial.current_ratio'', ''financial.debt_to_equity'',
      ''financial.earnings_per_share'', ''financial.quality_of_earnings'',
      ''financial.invested_capital'',
      ''financial.operating_working_capital'', ''financial.net_capex'',
      ''financial.reinvestment'', ''financial.fcff_from_nopat'',
      ''financial.fcfe'', ''financial.operating_margin'',
      ''financial.accrual_intensity'', ''financial.cash_conversion_cycle'',
      ''financial.quick_ratio'', ''financial.cash_ratio'',
      ''financial.cash_conversion_ebitda'', ''financial.cash_conversion_operating_profit'',
      ''financial.reinvestment_rate'', ''financial.interest_coverage'',
      ''financial.capital_allocation_bridge'',
      ''valuation.enterprise_to_equity_detailed'', ''valuation.price_to_book'']"

definition validateMetadata :: "(inputSet \<Rightarrow> inputSet) \<Rightarrow> inputSet \<Rightarrow> string \<Rightarrow> go_error option" where
  "validateMetadata visiting inputs operationID = first_err
     [check_currencies [] (visiting inputs),
      (if operationID \<in> set periodAligned then check_periods [] (visiting inputs) else None)]"

section \<open>Units\<close>

type_synonym unitRule = "(string \<times> string list) list"

definition tier0_unit_rules :: "(string \<times> unitRule) list" where
  "tier0_unit_rules = [
    (''accounting.balance_sheet_identity'',
      [(''assets'', [''currency'']), (''liabilities'', [''currency'']), (''equity'', [''currency''])]),
    (''financial.revenue_growth'', [(''revenue_current'', [''currency'']), (''revenue_prior'', [''currency''])]),
    (''financial.cagr'',
      [(''value_start'', [''currency'', ''count'', ''index_point'']),
       (''value_end'', [''currency'', ''count'', ''index_point'']), (''years'', [''years''])]),
    (''financial.margin'', [(''numerator'', [''currency'']), (''revenue'', [''currency''])]),
    (''financial.free_cash_flow'', [(''operating_cash_flow'', [''currency'']), (''capital_expenditure'', [''currency''])]),
    (''financial.cash_conversion'', [(''operating_cash_flow'', [''currency'']), (''net_income'', [''currency''])]),
    (''financial.capex_intensity'', [(''capital_expenditure'', [''currency'']), (''revenue'', [''currency''])]),
    (''financial.net_debt'', [(''debt'', [''currency'']), (''cash_and_equivalents'', [''currency''])]),
    (''financial.dilution'', [(''shares_current'', [''shares'']), (''shares_prior'', [''shares''])]),
    (''financial.roic_proxy'', [(''nopat'', [''currency'']), (''invested_capital'', [''currency''])]),
    (''financial.current_ratio'', [(''current_assets'', [''currency'']), (''current_liabilities'', [''currency''])]),
    (''financial.debt_to_equity'', [(''debt'', [''currency'']), (''equity'', [''currency''])]),
    (''financial.earnings_per_share'', [(''net_income'', [''currency'']), (''diluted_shares'', [''shares''])]),
    (''financial.quality_of_earnings'', [(''operating_cash_flow'', [''currency'']), (''net_income'', [''currency''])]),
    (''valuation.fcff_dcf'',
      [(''fcff_forecast'', [''currency'']), (''discount_rate'', [''ratio'']), (''terminal_growth'', [''ratio''])]),
    (''valuation.reverse_dcf'',
      [(''enterprise_value'', [''currency'']), (''base_fcff'', [''currency'']), (''discount_rate'', [''ratio'']),
       (''years'', [''years''])]),
    (''valuation.enterprise_to_equity'',
      [(''enterprise_value'', [''currency'']), (''net_debt'', [''currency'']),
       (''non_operating_assets'', [''currency'']), (''diluted_shares'', [''shares''])]),
    (''valuation.peer_multiple'',
      [(''market_value'', [''currency'', ''currency_per_share'']),
       (''metric_value'', [''currency'', ''currency_per_share''])]),
    (''valuation.wacc'',
      [(''equity_value'', [''currency'']), (''debt_value'', [''currency'']), (''cost_of_equity'', [''ratio'']),
       (''pre_tax_cost_of_debt'', [''ratio'']), (''tax_rate'', [''ratio''])]),
    (''economics.real_rate'', [(''nominal_rate'', [''ratio'']), (''inflation_measure'', [''ratio''])]),
    (''economics.yield_curve'', [(''long_yield'', [''ratio'']), (''short_yield'', [''ratio''])]),
    (''market.total_return'',
      [(''start_price'', [''currency'']), (''end_price'', [''currency'']), (''distributions'', [''currency''])]),
    (''market.volatility'', [(''returns'', [''ratio'']), (''periods_per_year'', [''count'']), (''ddof'', [''count''])]),
    (''market.drawdown'', [(''wealth_index'', [''index_point''])]),
    (''market.beta'', [(''security_returns'', [''ratio'']), (''benchmark_returns'', [''ratio'']), (''ddof'', [''count''])]),
    (''market.rolling_correlation'',
      [(''series_x'', [''ratio'', ''index_point'']), (''series_y'', [''ratio'', ''index_point'']),
       (''window'', [''count''])]),
    (''comparison.period_aligned'', [(''company_metrics'', [''currency''])]),
    (''scenario.sensitivity_matrix'',
      [(''fcff_forecast'', [''currency'']), (''discount_rates'', [''ratio'']),
       (''terminal_growth_rates'', [''ratio''])])]"

definition intelligence_unit_rules :: "(string \<times> unitRule) list" where
  "intelligence_unit_rules = [
    (''financial.nopat'', [(''operating_income'', [''currency'']), (''tax_rate'', [''ratio''])]),
    (''financial.invested_capital'',
      [(''operating_assets'', [''currency'']), (''non_interest_bearing_operating_liabilities'', [''currency'']),
       (''debt'', [''currency'']), (''equity'', [''currency'']), (''cash_and_equivalents'', [''currency'']),
       (''non_operating_assets'', [''currency''])]),
    (''financial.average_invested_capital'',
      [(''invested_capital_beginning'', [''currency'']), (''invested_capital_ending'', [''currency''])]),
    (''financial.operating_working_capital'',
      [(''accounts_receivable'', [''currency'']), (''inventory'', [''currency'']),
       (''other_operating_current_assets'', [''currency'']), (''accounts_payable'', [''currency'']),
       (''other_operating_current_liabilities'', [''currency''])]),
    (''financial.change_in_working_capital'',
      [(''operating_working_capital_ending'', [''currency'']),
       (''operating_working_capital_beginning'', [''currency''])]),
    (''financial.net_capex'',
      [(''capital_expenditure'', [''currency'']), (''depreciation_and_amortization'', [''currency''])]),
    (''financial.reinvestment'',
      [(''net_capex'', [''currency'']), (''change_in_working_capital'', [''currency'']),
       (''acquisitions'', [''currency''])]),
    (''financial.fcff_from_nopat'', [(''nopat'', [''currency'']), (''reinvestment'', [''currency''])]),
    (''financial.fcfe'',
      [(''net_income'', [''currency'']), (''capital_expenditure'', [''currency'']),
       (''depreciation_and_amortization'', [''currency'']), (''change_in_working_capital'', [''currency'']),
       (''net_borrowing'', [''currency''])]),
    (''financial.roic'', [(''nopat'', [''currency'']), (''average_invested_capital'', [''currency''])]),
    (''financial.incremental_roic'',
      [(''change_in_nopat'', [''currency'']), (''change_in_invested_capital'', [''currency''])]),
    (''financial.roce'',
      [(''ebit'', [''currency'']), (''total_assets'', [''currency'']), (''current_liabilities'', [''currency''])]),
    (''financial.value_creation_spread'', [(''roic'', [''ratio'']), (''wacc'', [''ratio''])]),
    (''financial.reinvestment_rate'', [(''reinvestment'', [''currency'']), (''nopat'', [''currency''])]),
    (''financial.fundamental_growth'', [(''return_on_capital'', [''ratio'']), (''reinvestment_rate'', [''ratio''])]),
    (''financial.operating_margin'', [(''operating_income'', [''currency'']), (''revenue'', [''currency''])]),
    (''financial.incremental_margin'',
      [(''operating_income_current'', [''currency'']), (''operating_income_prior'', [''currency'']),
       (''revenue_current'', [''currency'']), (''revenue_prior'', [''currency''])]),
    (''financial.accrual_intensity'',
      [(''net_income'', [''currency'']), (''operating_cash_flow'', [''currency'']),
       (''average_assets'', [''currency''])]),
    (''financial.cash_conversion_cycle'',
      [(''days_sales_outstanding'', [''days'']), (''days_inventory_outstanding'', [''days'']),
       (''days_payables_outstanding'', [''days''])]),
    (''financial.quick_ratio'',
      [(''cash_and_equivalents'', [''currency'']), (''marketable_securities'', [''currency'']),
       (''accounts_receivable'', [''currency'']), (''current_liabilities'', [''currency''])]),
    (''financial.cash_ratio'',
      [(''cash_and_equivalents'', [''currency'']), (''marketable_securities'', [''currency'']),
       (''current_liabilities'', [''currency''])]),
    (''financial.interest_coverage'', [(''ebit'', [''currency'']), (''interest_expense'', [''currency''])]),
    (''financial.net_debt_to_ebitda'', [(''net_debt'', [''currency'']), (''ebitda'', [''currency''])]),
    (''financial.cash_conversion_ebitda'', [(''operating_cash_flow'', [''currency'']), (''ebitda'', [''currency''])]),
    (''financial.cash_conversion_operating_profit'',
      [(''operating_cash_flow'', [''currency'']), (''operating_profit'', [''currency''])]),
    (''financial.buyback_yield'', [(''net_repurchases'', [''currency'']), (''market_capitalization'', [''currency''])]),
    (''financial.dividend_yield'', [(''dividends_paid'', [''currency'']), (''market_capitalization'', [''currency''])]),
    (''financial.net_payout_yield'',
      [(''net_repurchases'', [''currency'']), (''dividends_paid'', [''currency'']),
       (''market_capitalization'', [''currency''])]),
    (''financial.shareholder_yield'',
      [(''net_repurchases'', [''currency'']), (''dividends_paid'', [''currency'']),
       (''net_debt_reduction'', [''currency'']), (''market_capitalization'', [''currency''])]),
    (''financial.capital_allocation_bridge'',
      [(''operating_cash_flow'', [''currency'']), (''debt_issuance'', [''currency'']),
       (''equity_issuance'', [''currency'']), (''asset_sales'', [''currency'']),
       (''capital_expenditure'', [''currency'']), (''acquisitions'', [''currency'']),
       (''debt_repayment'', [''currency'']), (''dividends'', [''currency'']), (''repurchases'', [''currency'']),
       (''reported_change_in_cash'', [''currency'']), (''tolerance'', [''currency''])]),
    (''valuation.capm'',
      [(''risk_free_rate'', [''ratio'']), (''beta'', [''ratio'']), (''equity_risk_premium'', [''ratio''])]),
    (''valuation.unlever_beta'',
      [(''levered_beta'', [''ratio'']), (''debt'', [''currency'']), (''equity'', [''currency'']),
       (''tax_rate'', [''ratio''])]),
    (''valuation.relever_beta'',
      [(''unlevered_beta'', [''ratio'']), (''debt'', [''currency'']), (''equity'', [''currency'']),
       (''tax_rate'', [''ratio''])]),
    (''valuation.multistage_dcf_perpetuity'',
      [(''fcff_forecast'', [''currency'']), (''discount_rate'', [''ratio'']), (''terminal_growth'', [''ratio'']),
       (''mid_year'', [''boolean''])]),
    (''valuation.multistage_dcf_exit'',
      [(''fcff_forecast'', [''currency'']), (''discount_rate'', [''ratio'']), (''exit_metric'', [''currency'']),
       (''exit_multiple'', [''ratio'']), (''mid_year'', [''boolean''])]),
    (''valuation.dividend_discount'',
      [(''dividend_forecast'', [''currency'']), (''cost_of_equity'', [''ratio'']), (''terminal_growth'', [''ratio'']),
       (''mid_year'', [''boolean''])]),
    (''valuation.reverse_revenue_growth'',
      [(''enterprise_value'', [''currency'']), (''base_revenue'', [''currency'']),
       (''operating_margin'', [''ratio'']), (''tax_rate'', [''ratio'']), (''reinvestment_rate'', [''ratio'']),
       (''discount_rate'', [''ratio'']), (''terminal_growth'', [''ratio'']), (''years'', [''years''])]),
    (''valuation.reverse_operating_margin'',
      [(''enterprise_value'', [''currency'']), (''base_revenue'', [''currency'']), (''revenue_growth'', [''ratio'']),
       (''tax_rate'', [''ratio'']), (''reinvestment_rate'', [''ratio'']), (''discount_rate'', [''ratio'']),
       (''terminal_growth'', [''ratio'']), (''years'', [''years''])]),
    (''valuation.reverse_reinvestment_rate'',
      [(''enterprise_value'', [''currency'']), (''base_revenue'', [''currency'']), (''revenue_growth'', [''ratio'']),
       (''operating_margin'', [''ratio'']), (''tax_rate'', [''ratio'']), (''discount_rate'', [''ratio'']),
       (''terminal_growth'', [''ratio'']), (''years'', [''years''])]),
    (''valuation.implied_roic'', [(''growth_rate'', [''ratio'']), (''reinvestment_rate'', [''ratio''])]),
    (''valuation.enterprise_to_equity_detailed'',
      [(''enterprise_value'', [''currency'']), (''debt'', [''currency'']), (''cash'', [''currency'']),
       (''investments'', [''currency'']), (''minority_interest'', [''currency'']), (''option_value'', [''currency'']),
       (''diluted_shares'', [''shares''])]),
    (''valuation.ev_to_ebitda'', [(''enterprise_value'', [''currency'']), (''ebitda'', [''currency''])]),
    (''valuation.ev_to_revenue'', [(''enterprise_value'', [''currency'']), (''revenue'', [''currency''])]),
    (''valuation.ev_to_ebit'', [(''enterprise_value'', [''currency'']), (''ebit'', [''currency''])]),
    (''valuation.price_to_earnings'', [(''equity_market_value'', [''currency'']), (''net_income'', [''currency''])]),
    (''valuation.price_to_book'', [(''equity_market_value'', [''currency'']), (''book_equity'', [''currency''])]),
    (''valuation.price_to_fcf'', [(''equity_market_value'', [''currency'']), (''free_cash_flow_to_equity'', [''currency''])]),
    (''valuation.fcf_yield'', [(''free_cash_flow_to_equity'', [''currency'']), (''equity_market_value'', [''currency''])]),
    (''valuation.earnings_yield'', [(''net_income'', [''currency'']), (''equity_market_value'', [''currency''])]),
    (''comparison.dupont'',
      [(''net_income'', [''currency'']), (''revenue'', [''currency'']), (''average_assets'', [''currency'']),
       (''average_equity'', [''currency''])]),
    (''comparison.peer_statistics'',
      [(''peer_values'', [''ratio'']), (''subject_value'', [''ratio'']), (''minimum_sample'', [''count''])]),
    (''economics.lagged_association'',
      [(''driver_series'', [''ratio'', ''index_point'']), (''outcome_series'', [''ratio'', ''index_point'']),
       (''lag'', [''count'']), (''minimum_sample'', [''count''])])]"

definition governedUnitRules :: "(string \<times> unitRule) list" where
  "governedUnitRules = tier0_unit_rules @ intelligence_unit_rules"

text \<open>What \<open>%v\<close> prints for a slice of strings.\<close>

definition sprint_strings :: "string list \<Rightarrow> string" where
  "sprint_strings xs = ''['' @ join '' '' xs @ '']''"

definition validateUnits :: "(inputSet \<Rightarrow> inputSet) \<Rightarrow> inputSet \<Rightarrow> string \<Rightarrow> go_error option" where
  "validateUnits visiting inputs operationID =
     (case map_of governedUnitRules operationID of None \<Rightarrow> None
      | Some unit_rules \<Rightarrow> range_err (\<lambda>_ input.
          (case map_of unit_rules (inputBase (ei_input_id input)) of None \<Rightarrow> None
           | Some allowed \<Rightarrow> fail_if (qt_unit (ei_quantity input) \<notin> set allowed)
               (Errorf ''unit_mismatch: input %q requires one of %v, got %q''
                  [FStr (ei_input_id input), FStr (sprint_strings allowed), FStr (qt_unit (ei_quantity input))])))
          (visiting inputs))"

section \<open>Outputs\<close>

definition output_of :: "string \<Rightarrow> string \<Rightarrow> string \<Rightarrow> string \<Rightarrow> ReceiptOutput" where
  "output_of outputID value_text unit currency =
     \<lparr>ro_output_id = outputID,
      ro_quantity = \<lparr>qt_value = value_text, qt_unit = unit, qt_currency = currency, qt_scale = 0, qt_period = [], qt_as_of = None\<rparr>,
      ro_status = ''derived''\<rparr>"

definition decimalOutput :: "string \<Rightarrow> Decimal \<Rightarrow> string \<Rightarrow> string \<Rightarrow> ReceiptOutput" where
  "decimalOutput outputID d unit currency = output_of outputID d unit currency"

definition floatOutput :: "string \<Rightarrow> double \<Rightarrow> string \<Rightarrow> ReceiptOutput" where
  "floatOutput outputID d unit = output_of outputID (FormatFloat d) unit []"

definition intOutput :: "string \<Rightarrow> int \<Rightarrow> string \<Rightarrow> ReceiptOutput" where
  "intOutput outputID n unit = output_of outputID (itoa n) unit []"

definition boolOutput :: "string \<Rightarrow> bool \<Rightarrow> ReceiptOutput" where
  "boolOutput outputID b = output_of outputID (if b then ''1'' else ''0'') ''boolean'' []"

text \<open>The currency of the first input, in the order of the identifiers, that has one.\<close>

definition firstCurrency :: "inputSet \<Rightarrow> string" where
  "firstCurrency inputs =
     (case find (\<lambda>input. qt_currency (ei_quantity input) \<noteq> []) (sort_key ei_input_id inputs) of
        None \<Rightarrow> [] | Some input \<Rightarrow> qt_currency (ei_quantity input))"

end
