(* ===== verification/Engine_Dispatch.thy ===== *)
theory Engine_Dispatch
  imports Engine_Inputs
begin

text \<open>
  The dispatch of the deterministic operations (\<open>internal/engine/dispatch.go\<close>). The cases of the
  switch are rows of tables, in the order of the code: the identifier of an operation and the
  outputs, invariants and warnings that its case returns. Labels that share a case have a row
  each. The invariants and warnings that the code returns beside an error are dropped by its only
  caller, and left out here.
\<close>

type_synonym dispatched = "go_error + ReceiptOutput list \<times> InvariantResult list \<times> string list"

section \<open>Inputs and outputs of a case\<close>

definition with1 :: "'d decimal_lib \<Rightarrow> inputSet \<Rightarrow> string \<Rightarrow> (Decimal \<Rightarrow> go_error + 'b) \<Rightarrow> go_error + 'b" where
  "with1 L inputs a f = res_bind (decimal_input L inputs a) f"

definition with2 :: "'d decimal_lib \<Rightarrow> inputSet \<Rightarrow> string \<Rightarrow> string \<Rightarrow> (Decimal \<Rightarrow> Decimal \<Rightarrow> go_error + 'b) \<Rightarrow> go_error + 'b" where
  "with2 L inputs a b f = with1 L inputs a (\<lambda>x. with1 L inputs b (f x))"

definition with3 :: "'d decimal_lib \<Rightarrow> inputSet \<Rightarrow> string \<Rightarrow> string \<Rightarrow> string \<Rightarrow> (Decimal \<Rightarrow> Decimal \<Rightarrow> Decimal \<Rightarrow> go_error + 'b) \<Rightarrow>
    go_error + 'b" where
  "with3 L inputs a b c f = with1 L inputs a (\<lambda>x. with2 L inputs b c (f x))"

definition with_all :: "'d decimal_lib \<Rightarrow> inputSet \<Rightarrow> string list \<Rightarrow> (Decimal list \<Rightarrow> go_error + 'b) \<Rightarrow> go_error + 'b" where
  "with_all L inputs names f = res_bind (map_res (decimal_input L inputs) names) f"

definition one_output :: "ReceiptOutput \<Rightarrow> dispatched" where
  "one_output result = Inr ([result], [], [])"

definition ratioOutput :: "string \<Rightarrow> go_error + Decimal \<Rightarrow> dispatched" where
  "ratioOutput outputID result = res_bind result (\<lambda>d. one_output (decimalOutput outputID d ''ratio'' []))"

definition moneyOutput :: "string \<Rightarrow> string \<Rightarrow> go_error + Decimal \<Rightarrow> dispatched" where
  "moneyOutput currency outputID result = res_bind result (\<lambda>d. one_output (decimalOutput outputID d ''currency'' currency))"

definition passed_invariant :: "string \<Rightarrow> string \<Rightarrow> InvariantResult" where
  "passed_invariant invariantID detail = \<lparr>iv_invariant_id = invariantID, iv_passed = True, iv_detail = detail\<rparr>"

definition numbered :: "string \<Rightarrow> (string \<Rightarrow> 'a \<Rightarrow> ReceiptOutput) \<Rightarrow> 'a list \<Rightarrow> ReceiptOutput list" where
  "numbered prefix form xs = map (\<lambda>(index, x). form (prefix @ ''.'' @ itoa (int index)) x) (enumerate 0 xs)"

section \<open>Statements and ratios\<close>

definition balance_sheet_case :: "'d decimal_lib \<Rightarrow> string \<Rightarrow> inputSet \<Rightarrow> dispatched" where
  "balance_sheet_case L currency inputs =
     with3 L inputs ''assets'' ''liabilities'' ''equity'' (\<lambda>assets liabilities equity.
       res_bind (MustDecimal L ''0.01'') (\<lambda>tolerance.
       res_bind (BalanceSheetIdentity L assets liabilities equity tolerance) (\<lambda>result.
         if \<not> bsr_within_tolerance result then Inl (ErrorsNew ''invariant_failed: balance sheet does not reconcile'')
         else Inr ([decimalOutput ''difference'' (bsr_difference result) ''currency'' currency,
             boolOutput ''within_tolerance'' True],
           [passed_invariant ''assets_equals_liabilities_plus_equity''
             ''absolute difference must not exceed 0.01 source-currency units''], []))))"

definition statement_cases :: "'d decimal_lib \<Rightarrow> string \<Rightarrow> inputSet \<Rightarrow> (string \<times> dispatched) list" where
  "statement_cases L currency inputs =
     [(''accounting.balance_sheet_identity'', balance_sheet_case L currency inputs),
      (''financial.revenue_growth'', with2 L inputs ''revenue_current'' ''revenue_prior'' (\<lambda>current prior.
         ratioOutput ''growth_rate'' (Growth L current prior))),
      (''financial.cagr'', with3 L inputs ''value_start'' ''value_end'' ''years'' (\<lambda>start end_value years.
         ratioOutput ''cagr'' (CAGR L start end_value years))),
      (''financial.margin'', with2 L inputs ''numerator'' ''revenue'' (\<lambda>numerator revenue.
         ratioOutput ''margin'' (Margin L numerator revenue))),
      (''financial.free_cash_flow'', with2 L inputs ''operating_cash_flow'' ''capital_expenditure'' (\<lambda>ocf capex.
         moneyOutput currency ''free_cash_flow'' (FreeCashFlow L ocf capex))),
      (''financial.cash_conversion'', with2 L inputs ''operating_cash_flow'' ''net_income'' (\<lambda>ocf income.
         ratioOutput ''cash_conversion'' (CashConversion L ocf income))),
      (''financial.capex_intensity'', with2 L inputs ''capital_expenditure'' ''revenue'' (\<lambda>capex revenue.
         ratioOutput ''capex_intensity'' (CapexIntensity L capex revenue))),
      (''financial.net_debt'', with2 L inputs ''debt'' ''cash_and_equivalents'' (\<lambda>debt cash.
         moneyOutput currency ''net_debt'' (NetDebt L debt cash))),
      (''financial.dilution'', with2 L inputs ''shares_current'' ''shares_prior'' (\<lambda>current prior.
         ratioOutput ''dilution_rate'' (Dilution L current prior))),
      (''financial.roic_proxy'', with2 L inputs ''nopat'' ''invested_capital'' (\<lambda>nopat capital.
         ratioOutput ''roic_proxy'' (ROICProxy L nopat capital))),
      (''financial.current_ratio'', with2 L inputs ''current_assets'' ''current_liabilities'' (\<lambda>assets liabilities.
         ratioOutput ''current_ratio'' (CurrentRatio L assets liabilities))),
      (''financial.debt_to_equity'', with2 L inputs ''debt'' ''equity'' (\<lambda>debt equity.
         ratioOutput ''debt_to_equity'' (DebtToEquity L debt equity))),
      (''financial.earnings_per_share'', with2 L inputs ''net_income'' ''diluted_shares'' (\<lambda>income shares.
         res_bind (EarningsPerShare L income shares) (\<lambda>d.
           one_output (decimalOutput ''earnings_per_share'' d ''currency_per_share'' currency)))),
      (''financial.quality_of_earnings'', with2 L inputs ''operating_cash_flow'' ''net_income'' (\<lambda>ocf income.
         res_bind (QualityOfEarnings L ocf income) (\<lambda>result.
           Inr ([decimalOutput ''accrual_gap'' (qer_accrual_gap result) ''currency'' currency,
             decimalOutput ''cash_conversion'' (qer_cash_conversion result) ''ratio'' []], [], []))))]"

section \<open>Capital, cash flow and returns\<close>

definition invested_capital_case :: "'d decimal_lib \<Rightarrow> string \<Rightarrow> inputSet \<Rightarrow> dispatched" where
  "invested_capital_case L currency inputs =
     with_all L inputs [''operating_assets'', ''non_interest_bearing_operating_liabilities'', ''debt'', ''equity'',
         ''cash_and_equivalents'', ''non_operating_assets''] (\<lambda>ds.
       res_bind (InvestedCapital L (ds ! 0) (ds ! 1) (ds ! 2) (ds ! 3) (ds ! 4) (ds ! 5)) (\<lambda>result.
       res_bind (absolute L (icr_difference result)) (\<lambda>absoluteDifference.
       res_bind (MustDecimal L ''0.01'') (\<lambda>tolerance.
       res_bind (DecimalLessThanOrEqual L absoluteDifference tolerance) (\<lambda>reconciles.
         if \<not> reconciles then Inl (ErrorsNew ''invariant_failed: invested-capital approaches do not reconcile'')
         else Inr ([decimalOutput ''operating_approach'' (icr_operating_approach result) ''currency'' currency,
             decimalOutput ''financing_approach'' (icr_financing_approach result) ''currency'' currency,
             decimalOutput ''difference'' (icr_difference result) ''currency'' currency],
           [passed_invariant ''invested_capital_approaches_reconcile''
             ''absolute difference must not exceed 0.01 source-currency units''], []))))))"

definition capital_cases :: "'d decimal_lib \<Rightarrow> string \<Rightarrow> inputSet \<Rightarrow> (string \<times> dispatched) list" where
  "capital_cases L currency inputs =
     [(''financial.nopat'', with2 L inputs ''operating_income'' ''tax_rate'' (\<lambda>operatingIncome taxRate.
         moneyOutput currency ''nopat'' (NOPAT L operatingIncome taxRate))),
      (''financial.invested_capital'', invested_capital_case L currency inputs),
      (''financial.average_invested_capital'',
       with2 L inputs ''invested_capital_beginning'' ''invested_capital_ending'' (\<lambda>beginning ending.
         moneyOutput currency ''average_invested_capital'' (AverageInvestedCapital L beginning ending))),
      (''financial.operating_working_capital'', with_all L inputs
         [''accounts_receivable'', ''inventory'', ''other_operating_current_assets'', ''accounts_payable'',
          ''other_operating_current_liabilities''] (\<lambda>ds.
         moneyOutput currency ''operating_working_capital''
           (OperatingWorkingCapital L (ds ! 0) (ds ! 1) (ds ! 2) (ds ! 3) (ds ! 4)))),
      (''financial.change_in_working_capital'',
       with2 L inputs ''operating_working_capital_ending'' ''operating_working_capital_beginning'' (\<lambda>ending beginning.
         moneyOutput currency ''change_in_working_capital'' (ChangeInWorkingCapital L ending beginning))),
      (''financial.net_capex'',
       with2 L inputs ''capital_expenditure'' ''depreciation_and_amortization'' (\<lambda>capex depreciation.
         moneyOutput currency ''net_capex'' (NetCapitalExpenditure L capex depreciation))),
      (''financial.reinvestment'',
       with3 L inputs ''net_capex'' ''change_in_working_capital'' ''acquisitions'' (\<lambda>netCapex workingCapital acquisitions.
         moneyOutput currency ''reinvestment'' (Reinvestment L netCapex workingCapital acquisitions))),
      (''financial.fcff_from_nopat'', with2 L inputs ''nopat'' ''reinvestment'' (\<lambda>nopat reinvestment.
         moneyOutput currency ''fcff'' (FCFFFromNOPAT L nopat reinvestment))),
      (''financial.fcfe'', with_all L inputs
         [''net_income'', ''capital_expenditure'', ''depreciation_and_amortization'', ''change_in_working_capital'',
          ''net_borrowing''] (\<lambda>ds.
         moneyOutput currency ''fcfe'' (FCFE L (ds ! 0) (ds ! 1) (ds ! 2) (ds ! 3) (ds ! 4)))),
      (''financial.roic'', with2 L inputs ''nopat'' ''average_invested_capital'' (\<lambda>nopat capital.
         ratioOutput ''roic'' (ROIC L nopat capital))),
      (''financial.incremental_roic'', with2 L inputs ''change_in_nopat'' ''change_in_invested_capital'' (\<lambda>nopat capital.
         ratioOutput ''incremental_roic'' (IncrementalROIC L nopat capital))),
      (''financial.roce'', with3 L inputs ''ebit'' ''total_assets'' ''current_liabilities'' (\<lambda>ebit assets liabilities.
         ratioOutput ''roce'' (ROCE L ebit assets liabilities))),
      (''financial.value_creation_spread'', with2 L inputs ''roic'' ''wacc'' (\<lambda>roic wacc.
         ratioOutput ''value_creation_spread'' (ValueCreationSpread L roic wacc))),
      (''financial.reinvestment_rate'', with2 L inputs ''reinvestment'' ''nopat'' (\<lambda>reinvestment nopat.
         ratioOutput ''reinvestment_rate'' (ReinvestmentRate L reinvestment nopat))),
      (''financial.fundamental_growth'',
       with2 L inputs ''return_on_capital'' ''reinvestment_rate'' (\<lambda>returnOnCapital reinvestmentRate.
         ratioOutput ''fundamental_growth'' (FundamentalGrowth L returnOnCapital reinvestmentRate)))]"

section \<open>Quality and shareholder returns\<close>

definition conversion_case :: "'d decimal_lib \<Rightarrow> inputSet \<Rightarrow> string \<Rightarrow> string \<Rightarrow> string \<Rightarrow> dispatched" where
  "conversion_case L inputs denominatorName kind outputID =
     with2 L inputs ''operating_cash_flow'' denominatorName (\<lambda>cashFlow denominator.
       ratioOutput outputID (res_bind (TypedCashConversion L kind cashFlow denominator) (\<lambda>result. Inr (ccr_value result))))"

definition capital_bridge_case :: "'d decimal_lib \<Rightarrow> string \<Rightarrow> inputSet \<Rightarrow> dispatched" where
  "capital_bridge_case L currency inputs =
     with_all L inputs [''operating_cash_flow'', ''debt_issuance'', ''equity_issuance'', ''asset_sales'',
         ''capital_expenditure'', ''acquisitions'', ''debt_repayment'', ''dividends'', ''repurchases'',
         ''reported_change_in_cash'', ''tolerance''] (\<lambda>ds.
       res_bind (CapitalAllocationBridge L (ds ! 0) (ds ! 1) (ds ! 2) (ds ! 3) (ds ! 4) (ds ! 5) (ds ! 6) (ds ! 7)
           (ds ! 8) (ds ! 9) (ds ! 10)) (\<lambda>result.
         if \<not> car_within_tolerance result then
           Inl (ErrorsNew ''invariant_failed: capital allocation bridge does not reconcile'')
         else Inr ([decimalOutput ''total_sources'' (car_total_sources result) ''currency'' currency,
             decimalOutput ''total_uses'' (car_total_uses result) ''currency'' currency,
             decimalOutput ''implied_change_in_cash'' (car_implied_change_in_cash result) ''currency'' currency,
             decimalOutput ''reconciliation_gap'' (car_reconciliation_gap result) ''currency'' currency,
             boolOutput ''within_tolerance'' (car_within_tolerance result)],
           [passed_invariant ''capital_allocation_reconciles''
             ''cash sources less uses must reconcile to reported change within tolerance''], [])))"

definition quality_cases :: "'d decimal_lib \<Rightarrow> inputSet \<Rightarrow> (string \<times> dispatched) list" where
  "quality_cases L inputs =
     [(''financial.operating_margin'', with2 L inputs ''operating_income'' ''revenue'' (\<lambda>operatingIncome revenue.
         res_bind (ProfitMargin L MarginOperating operatingIncome revenue) (\<lambda>result.
           ratioOutput ''operating_margin'' (Inr (tmg_value result))))),
      (''financial.incremental_margin'', with_all L inputs
         [''operating_income_current'', ''operating_income_prior'', ''revenue_current'', ''revenue_prior''] (\<lambda>ds.
         ratioOutput ''incremental_margin'' (IncrementalMargin L (ds ! 0) (ds ! 1) (ds ! 2) (ds ! 3)))),
      (''financial.accrual_intensity'',
       with3 L inputs ''net_income'' ''operating_cash_flow'' ''average_assets'' (\<lambda>income cashFlow assets.
         ratioOutput ''accrual_intensity'' (AccrualIntensity L income cashFlow assets))),
      (''financial.cash_conversion_cycle'',
       with3 L inputs ''days_sales_outstanding'' ''days_inventory_outstanding'' ''days_payables_outstanding'' (\<lambda>dso dio dpo.
         res_bind (CashConversionCycle L dso dio dpo) (\<lambda>d.
           one_output (decimalOutput ''cash_conversion_cycle'' d ''days'' [])))),
      (''financial.quick_ratio'', with_all L inputs
         [''cash_and_equivalents'', ''marketable_securities'', ''accounts_receivable'', ''current_liabilities''] (\<lambda>ds.
         ratioOutput ''quick_ratio'' (QuickRatio L (ds ! 0) (ds ! 1) (ds ! 2) (ds ! 3)))),
      (''financial.cash_ratio'', with_all L inputs
         [''cash_and_equivalents'', ''marketable_securities'', ''current_liabilities''] (\<lambda>ds.
         ratioOutput ''cash_ratio'' (CashRatio L (ds ! 0) (ds ! 1) (ds ! 2)))),
      (''financial.interest_coverage'', with2 L inputs ''ebit'' ''interest_expense'' (\<lambda>ebit interest.
         ratioOutput ''interest_coverage'' (InterestCoverage L ebit interest))),
      (''financial.net_debt_to_ebitda'', with2 L inputs ''net_debt'' ''ebitda'' (\<lambda>netDebt ebitda.
         ratioOutput ''net_debt_to_ebitda'' (NetDebtToEBITDA L netDebt ebitda))),
      (''financial.cash_conversion_ebitda'',
       conversion_case L inputs ''ebitda'' CashConversionEBITDA ''cash_conversion_ebitda''),
      (''financial.cash_conversion_operating_profit'',
       conversion_case L inputs ''operating_profit'' CashConversionOperatingProfit ''cash_conversion_operating_profit'')]"

definition shareholder_cases :: "'d decimal_lib \<Rightarrow> string \<Rightarrow> inputSet \<Rightarrow> (string \<times> dispatched) list" where
  "shareholder_cases L currency inputs =
     [(''financial.buyback_yield'', with2 L inputs ''market_capitalization'' ''net_repurchases'' (\<lambda>marketCapitalization amount.
         ratioOutput ''buyback_yield'' (BuybackYield L amount marketCapitalization))),
      (''financial.dividend_yield'', with2 L inputs ''market_capitalization'' ''dividends_paid'' (\<lambda>marketCapitalization amount.
         ratioOutput ''dividend_yield'' (DividendYield L amount marketCapitalization))),
      (''financial.net_payout_yield'',
       with3 L inputs ''net_repurchases'' ''dividends_paid'' ''market_capitalization''
         (\<lambda>repurchases dividends marketCapitalization.
           ratioOutput ''net_payout_yield'' (NetPayoutYield L repurchases dividends marketCapitalization))),
      (''financial.shareholder_yield'', with_all L inputs
         [''net_repurchases'', ''dividends_paid'', ''net_debt_reduction'', ''market_capitalization''] (\<lambda>ds.
         ratioOutput ''shareholder_yield'' (ShareholderYield L (ds ! 0) (ds ! 1) (ds ! 2) (ds ! 3)))),
      (''financial.capital_allocation_bridge'', capital_bridge_case L currency inputs)]"

section \<open>Valuation\<close>

definition beta_cases :: "'d decimal_lib \<Rightarrow> inputSet \<Rightarrow> (string \<times> dispatched) list" where
  "beta_cases L inputs =
     [(''valuation.capm'',
       with3 L inputs ''risk_free_rate'' ''beta'' ''equity_risk_premium'' (\<lambda>riskFree beta premium.
         ratioOutput ''cost_of_equity'' (CAPM L riskFree beta premium))),
      (''valuation.unlever_beta'', with_all L inputs [''levered_beta'', ''debt'', ''equity'', ''tax_rate''] (\<lambda>ds.
         ratioOutput ''unlevered_beta'' (UnleverBeta L (ds ! 0) (ds ! 1) (ds ! 2) (ds ! 3)))),
      (''valuation.relever_beta'', with_all L inputs [''unlevered_beta'', ''debt'', ''equity'', ''tax_rate''] (\<lambda>ds.
         ratioOutput ''relevered_beta'' (ReleverBeta L (ds ! 0) (ds ! 1) (ds ! 2) (ds ! 3))))]"

definition mid_year :: "inputSet \<Rightarrow> go_error + bool" where
  "mid_year inputs =
     (case integer_input inputs ''mid_year'' of Inl _ \<Rightarrow> Inl (ErrorsNew ''mid_year must be encoded as zero or one'')
      | Inr n \<Rightarrow> if n \<noteq> 0 \<and> n \<noteq> 1 then Inl (ErrorsNew ''mid_year must be encoded as zero or one'') else Inr (n = 1))"

definition dcf_outputs :: "string \<Rightarrow> string \<Rightarrow> AdvancedDCFResult \<Rightarrow> dispatched" where
  "dcf_outputs currency valueID result =
     Inr ([decimalOutput valueID (adr_enterprise_value result) ''currency'' currency,
       decimalOutput ''explicit_present_value'' (adr_explicit_present_value result) ''currency'' currency,
       decimalOutput ''terminal_value'' (adr_terminal_value result) ''currency'' currency,
       decimalOutput ''terminal_present_value'' (adr_terminal_present_value result) ''currency'' currency,
       decimalOutput ''terminal_value_share'' (adr_terminal_value_share result) ''ratio'' []], [], adr_warnings result)"

definition multistage_case :: "'d decimal_lib \<Rightarrow> (inputSet \<Rightarrow> inputSet) \<Rightarrow> string \<Rightarrow> inputSet \<Rightarrow> go_error + TerminalAssumption \<Rightarrow>
    dispatched" where
  "multistage_case L visiting currency inputs terminal =
     res_bind (decimalSeries L visiting inputs ''fcff_forecast'') (\<lambda>forecast.
     with1 L inputs ''discount_rate'' (\<lambda>discountRate.
     res_bind (mid_year inputs) (\<lambda>midYear.
     res_bind terminal (\<lambda>terminal.
     res_bind (MultiStageDCF L forecast discountRate terminal midYear) (dcf_outputs currency ''enterprise_value'')))))"

definition dividend_discount_case :: "'d decimal_lib \<Rightarrow> (inputSet \<Rightarrow> inputSet) \<Rightarrow> string \<Rightarrow> inputSet \<Rightarrow> dispatched" where
  "dividend_discount_case L visiting currency inputs =
     res_bind (decimalSeries L visiting inputs ''dividend_forecast'') (\<lambda>dividends.
     with2 L inputs ''cost_of_equity'' ''terminal_growth'' (\<lambda>costOfEquity terminalGrowth.
     res_bind (mid_year inputs) (\<lambda>midYear.
     res_bind (DividendDiscountModel L dividends costOfEquity terminalGrowth midYear) (dcf_outputs currency ''equity_value''))))"

definition reverse_outputs :: "string \<Rightarrow> string \<Rightarrow> string \<Rightarrow> ReverseExpectationsResult \<Rightarrow> dispatched" where
  "reverse_outputs outputID invariantID message result =
     (if \<not> rer_converged result then Inl (ErrorsNew message)
      else Inr ([decimalOutput outputID (rer_implied_value result) ''ratio'' [],
        intOutput ''iterations'' (rer_iterations result) ''count''], [passed_invariant invariantID []], []))"

definition reverse_growth_case :: "'d decimal_lib \<Rightarrow> inputSet \<Rightarrow> dispatched" where
  "reverse_growth_case L inputs =
     with_all L inputs [''enterprise_value'', ''base_revenue'', ''operating_margin'', ''tax_rate'', ''reinvestment_rate'',
         ''discount_rate'', ''terminal_growth''] (\<lambda>ds.
       res_bind (integer_input inputs ''years'') (\<lambda>years.
       res_bind (MustDecimal L ''0.00000001'') (\<lambda>tolerance.
       res_bind (ReverseRevenueGrowth L (ds ! 0) (ds ! 1) (ds ! 2) (ds ! 3) (ds ! 4) (ds ! 5) (ds ! 6) years 256 tolerance)
         (reverse_outputs ''implied_revenue_growth'' ''reverse_revenue_growth_converged''
           ''non_convergent: reverse revenue growth exhausted iteration budget''))))"

definition reverse_case :: "'d decimal_lib \<Rightarrow> inputSet \<Rightarrow> string \<Rightarrow> string \<Rightarrow>
    (Decimal list \<Rightarrow> Decimal \<Rightarrow> int \<Rightarrow> Decimal \<Rightarrow> go_error + ReverseExpectationsResult) \<Rightarrow> dispatched" where
  "reverse_case L inputs lastInput outputID solve =
     with_all L inputs [''enterprise_value'', ''base_revenue'', ''revenue_growth'', ''tax_rate'', ''discount_rate'',
         ''terminal_growth''] (\<lambda>ds.
       res_bind (integer_input inputs ''years'') (\<lambda>years.
       with1 L inputs lastInput (\<lambda>assumption.
       res_bind (MustDecimal L ''0.00000001'') (\<lambda>tolerance.
       res_bind (solve ds assumption years tolerance)
         (reverse_outputs outputID (outputID @ ''_converged'')
           ''non_convergent: reverse expectation exhausted iteration budget'')))))"

definition reverse_margin_case :: "'d decimal_lib \<Rightarrow> inputSet \<Rightarrow> dispatched" where
  "reverse_margin_case L inputs = reverse_case L inputs ''reinvestment_rate'' ''implied_operating_margin''
     (\<lambda>ds reinvestmentRate years tolerance.
       ReverseOperatingMargin L (ds ! 0) (ds ! 1) (ds ! 2) (ds ! 3) reinvestmentRate (ds ! 4) (ds ! 5) years 256 tolerance)"

definition reverse_reinvestment_case :: "'d decimal_lib \<Rightarrow> inputSet \<Rightarrow> dispatched" where
  "reverse_reinvestment_case L inputs = reverse_case L inputs ''operating_margin'' ''implied_reinvestment_rate''
     (\<lambda>ds operatingMargin years tolerance.
       ReverseReinvestmentRate L (ds ! 0) (ds ! 1) (ds ! 2) operatingMargin (ds ! 3) (ds ! 4) (ds ! 5) years 256 tolerance)"

definition detailed_bridge_case :: "'d decimal_lib \<Rightarrow> string \<Rightarrow> inputSet \<Rightarrow> dispatched" where
  "detailed_bridge_case L currency inputs =
     with_all L inputs [''enterprise_value'', ''debt'', ''cash'', ''investments'', ''minority_interest'', ''option_value'',
         ''diluted_shares''] (\<lambda>ds.
       res_bind (DetailedEnterpriseToEquity L (ds ! 0) (ds ! 1) (ds ! 2) (ds ! 3) (ds ! 4) (ds ! 5) (ds ! 6)) (\<lambda>result.
         Inr ([decimalOutput ''equity_value'' (eeb_equity_value result) ''currency'' currency,
           decimalOutput ''value_per_diluted_share'' (eeb_value_per_diluted_share result) ''currency_per_share'' currency],
           [], [])))"

definition multistage_cases :: "'d decimal_lib \<Rightarrow> (inputSet \<Rightarrow> inputSet) \<Rightarrow> string \<Rightarrow> inputSet \<Rightarrow> (string \<times> dispatched) list" where
  "multistage_cases L visiting currency inputs =
     [(''valuation.multistage_dcf_perpetuity'', multistage_case L visiting currency inputs
         (with1 L inputs ''terminal_growth'' (\<lambda>growth. Inr (perpetuity growth)))),
      (''valuation.multistage_dcf_exit'', multistage_case L visiting currency inputs
         (with2 L inputs ''exit_metric'' ''exit_multiple'' (\<lambda>exitMetric exitMultiple. Inr
           \<lparr>tas_method = TerminalExitMultiple, tas_growth_rate = [], tas_exit_metric = exitMetric,
            tas_exit_multiple = exitMultiple\<rparr>))),
      (''valuation.dividend_discount'', dividend_discount_case L visiting currency inputs),
      (''valuation.reverse_revenue_growth'', reverse_growth_case L inputs),
      (''valuation.reverse_operating_margin'', reverse_margin_case L inputs),
      (''valuation.reverse_reinvestment_rate'', reverse_reinvestment_case L inputs),
      (''valuation.implied_roic'', with2 L inputs ''growth_rate'' ''reinvestment_rate'' (\<lambda>growth reinvestment.
         ratioOutput ''implied_roic'' (ImpliedReturnOnCapital L growth reinvestment))),
      (''valuation.enterprise_to_equity_detailed'', detailed_bridge_case L currency inputs)]"

definition multiple_cases :: "'d decimal_lib \<Rightarrow> inputSet \<Rightarrow> (string \<times> dispatched) list" where
  "multiple_cases L inputs =
     [(''valuation.ev_to_ebitda'', with2 L inputs ''enterprise_value'' ''ebitda'' (\<lambda>enterprise denominator.
         ratioOutput ''ev_to_ebitda'' (EnterpriseValueToEBITDA L enterprise denominator))),
      (''valuation.ev_to_revenue'', with2 L inputs ''enterprise_value'' ''revenue'' (\<lambda>enterprise denominator.
         ratioOutput ''ev_to_revenue'' (EnterpriseValueToRevenue L enterprise denominator))),
      (''valuation.ev_to_ebit'', with2 L inputs ''enterprise_value'' ''ebit'' (\<lambda>enterprise denominator.
         ratioOutput ''ev_to_ebit'' (EnterpriseValueToEBIT L enterprise denominator))),
      (''valuation.price_to_earnings'', with2 L inputs ''equity_market_value'' ''net_income'' (\<lambda>marketValue denominator.
         ratioOutput ''price_to_earnings'' (PriceToEarnings L marketValue denominator))),
      (''valuation.price_to_book'', with2 L inputs ''equity_market_value'' ''book_equity'' (\<lambda>marketValue denominator.
         ratioOutput ''price_to_book'' (PriceToBook L marketValue denominator))),
      (''valuation.price_to_fcf'', with2 L inputs ''equity_market_value'' ''free_cash_flow_to_equity'' (\<lambda>marketValue denominator.
         ratioOutput ''price_to_fcf'' (PriceToFreeCashFlow L marketValue denominator))),
      (''valuation.fcf_yield'', with2 L inputs ''equity_market_value'' ''free_cash_flow_to_equity'' (\<lambda>marketValue denominator.
         ratioOutput ''fcf_yield'' (FreeCashFlowYield L denominator marketValue))),
      (''valuation.earnings_yield'', with2 L inputs ''equity_market_value'' ''net_income'' (\<lambda>marketValue denominator.
         ratioOutput ''earnings_yield'' (EarningsYield L denominator marketValue)))]"

definition fcff_dcf_case :: "'d decimal_lib \<Rightarrow> (inputSet \<Rightarrow> inputSet) \<Rightarrow> string \<Rightarrow> inputSet \<Rightarrow> dispatched" where
  "fcff_dcf_case L visiting currency inputs =
     res_bind (decimalSeries L visiting inputs ''fcff_forecast'') (\<lambda>forecast.
     with2 L inputs ''discount_rate'' ''terminal_growth'' (\<lambda>rate growth.
     res_bind (FCFFDCF L forecast rate growth) (\<lambda>result.
       Inr ([decimalOutput ''enterprise_value'' (dcf_enterprise_value result) ''currency'' currency,
         decimalOutput ''explicit_present_value'' (dcf_explicit_present_value result) ''currency'' currency,
         decimalOutput ''terminal_present_value'' (dcf_terminal_present_value result) ''currency'' currency] @
         numbered ''present_values'' (\<lambda>outputID d. decimalOutput outputID d ''currency'' currency) (dcf_present_values result),
         [], []))))"

definition reverse_dcf_case :: "'d decimal_lib \<Rightarrow> inputSet \<Rightarrow> dispatched" where
  "reverse_dcf_case L inputs =
     with3 L inputs ''enterprise_value'' ''base_fcff'' ''discount_rate'' (\<lambda>target base rate.
     res_bind (integer_input inputs ''years'') (\<lambda>years.
     res_bind (MustDecimal L ''0.00000001'') (\<lambda>tolerance.
     res_bind (ReverseDCF L target base rate years tolerance 256) (\<lambda>result.
       if \<not> rdr_converged result then Inl (ErrorsNew ''non_convergent: reverse DCF exhausted iteration budget'')
       else Inr ([decimalOutput ''implied_growth'' (rdr_implied_growth result) ''ratio'' [],
         intOutput ''iterations'' (rdr_iterations result) ''count''], [passed_invariant ''reverse_dcf_converged'' []], [])))))"

definition dcf_cases :: "'d decimal_lib \<Rightarrow> (inputSet \<Rightarrow> inputSet) \<Rightarrow> string \<Rightarrow> inputSet \<Rightarrow> (string \<times> dispatched) list" where
  "dcf_cases L visiting currency inputs =
     [(''valuation.fcff_dcf'', fcff_dcf_case L visiting currency inputs),
      (''valuation.reverse_dcf'', reverse_dcf_case L inputs),
      (''valuation.enterprise_to_equity'', with_all L inputs
         [''enterprise_value'', ''net_debt'', ''non_operating_assets'', ''diluted_shares''] (\<lambda>ds.
         res_bind (EnterpriseToEquity L (ds ! 0) (ds ! 1) (ds ! 2) (ds ! 3)) (\<lambda>result.
           Inr ([decimalOutput ''equity_value'' (ebr_equity_value result) ''currency'' currency,
             decimalOutput ''value_per_share'' (ebr_value_per_share result) ''currency_per_share'' currency], [], [])))),
      (''valuation.peer_multiple'', with2 L inputs ''market_value'' ''metric_value'' (\<lambda>market metric.
         ratioOutput ''multiple'' (PeerMultiple L market metric))),
      (''valuation.wacc'', with_all L inputs
         [''equity_value'', ''debt_value'', ''cost_of_equity'', ''pre_tax_cost_of_debt'', ''tax_rate''] (\<lambda>ds.
         ratioOutput ''wacc'' (WACC L (ds ! 0) (ds ! 1) (ds ! 2) (ds ! 3) (ds ! 4)))),
      (''economics.real_rate'', with2 L inputs ''nominal_rate'' ''inflation_measure'' (\<lambda>nominal inflation.
         ratioOutput ''real_rate'' (RealRate L nominal inflation))),
      (''economics.yield_curve'', with2 L inputs ''long_yield'' ''short_yield'' (\<lambda>longYield shortYield.
         ratioOutput ''spread'' (YieldCurveSpread L longYield shortYield)))]"

section \<open>Statistics\<close>

definition dupont_case :: "inputSet \<Rightarrow> dispatched" where
  "dupont_case inputs =
     res_bind (map_res (float_input inputs) [''net_income'', ''revenue'', ''average_assets'', ''average_equity'']) (\<lambda>ds.
     res_bind (DuPont (ds ! 0) (ds ! 1) (ds ! 2) (ds ! 3)) (\<lambda>result.
       Inr ([floatOutput ''net_margin'' (dpr_net_margin result) ''ratio'',
         floatOutput ''asset_turnover'' (dpr_asset_turnover result) ''ratio'',
         floatOutput ''financial_leverage'' (dpr_financial_leverage result) ''ratio'',
         floatOutput ''return_on_equity'' (dpr_return_on_equity result) ''ratio''], [], [])))"

definition peer_statistics_case :: "(inputSet \<Rightarrow> inputSet) \<Rightarrow> (double list \<Rightarrow> double list) \<Rightarrow> inputSet \<Rightarrow> dispatched" where
  "peer_statistics_case visiting order inputs =
     res_bind (floatSeries visiting inputs ''peer_values'') (\<lambda>peers.
     res_bind (float_input inputs ''subject_value'') (\<lambda>subject.
     res_bind (integer_input inputs ''minimum_sample'') (\<lambda>minimum.
     res_bind (PeerStatistics order peers subject minimum) (\<lambda>result.
       Inr ([floatOutput ''median'' (psr_median result) ''ratio'', floatOutput ''percentile'' (psr_percentile result) ''ratio'',
         floatOutput ''median_absolute_deviation'' (psr_median_absolute_deviation result) ''ratio'',
         floatOutput ''robust_z_score'' (psr_robust_z_score result) ''ratio'',
         intOutput ''observations'' (psr_observations result) ''count''], [], [])))))"

definition lagged_association_case :: "(inputSet \<Rightarrow> inputSet) \<Rightarrow> inputSet \<Rightarrow> dispatched" where
  "lagged_association_case visiting inputs =
     res_bind (floatSeries visiting inputs ''driver_series'') (\<lambda>driver.
     res_bind (floatSeries visiting inputs ''outcome_series'') (\<lambda>outcome.
     res_bind (integer_input inputs ''lag'') (\<lambda>lag.
     res_bind (integer_input inputs ''minimum_sample'') (\<lambda>minimum.
     res_bind (LaggedAssociation driver outcome lag minimum) (\<lambda>result.
       Inr ([floatOutput ''slope'' (asr_slope result) ''ratio'', floatOutput ''intercept'' (asr_intercept result) ''ratio'',
         floatOutput ''correlation'' (asr_correlation result) ''ratio'', floatOutput ''r_squared'' (asr_r_squared result) ''ratio'',
         intOutput ''observations'' (asr_observations result) ''count'', intOutput ''lag'' (asr_lag result) ''count''],
         [], [''statistical_association_not_causality'']))))))"

definition ddof_of :: "inputSet \<Rightarrow> go_error + int" where
  "ddof_of inputs = (if has_input inputs ''ddof'' then integer_input inputs ''ddof'' else Inr 1)"

definition market_cases :: "(inputSet \<Rightarrow> inputSet) \<Rightarrow> inputSet \<Rightarrow> (string \<times> dispatched) list" where
  "market_cases visiting inputs =
     [(''market.total_return'',
       res_bind (map_res (float_input inputs) [''start_price'', ''end_price'', ''distributions'']) (\<lambda>ds.
       res_bind (TotalReturn (ds ! 0) (ds ! 1) (ds ! 2)) (\<lambda>d. one_output (floatOutput ''total_return'' d ''ratio'')))),
      (''market.volatility'',
       res_bind (floatSeries visiting inputs ''returns'') (\<lambda>returns.
       res_bind (float_input inputs ''periods_per_year'') (\<lambda>periods.
       res_bind (ddof_of inputs) (\<lambda>ddof.
       res_bind (Volatility returns periods ddof) (\<lambda>d. one_output (floatOutput ''volatility'' d ''ratio'')))))),
      (''market.drawdown'',
       res_bind (floatSeries visiting inputs ''wealth_index'') (\<lambda>wealth.
       res_bind (Drawdown wealth) (\<lambda>result.
         Inr (floatOutput ''maximum_drawdown'' (dwr_maximum result) ''ratio'' #
           numbered ''drawdown_series'' (\<lambda>outputID d. floatOutput outputID d ''ratio'') (dwr_series result), [], [])))),
      (''market.beta'',
       res_bind (floatSeries visiting inputs ''security_returns'') (\<lambda>security.
       res_bind (floatSeries visiting inputs ''benchmark_returns'') (\<lambda>benchmark.
       res_bind (ddof_of inputs) (\<lambda>ddof.
       res_bind (Beta security benchmark ddof) (\<lambda>(d, observations).
         Inr ([floatOutput ''beta'' d ''ratio'', intOutput ''observations'' observations ''count''], [], [])))))),
      (''market.rolling_correlation'',
       res_bind (floatSeries visiting inputs ''series_x'') (\<lambda>left.
       res_bind (floatSeries visiting inputs ''series_y'') (\<lambda>right.
       res_bind (integer_input inputs ''window'') (\<lambda>window.
       res_bind (RollingCorrelation left right window) (\<lambda>ds.
         Inr (numbered ''rolling_correlation'' (\<lambda>outputID d. floatOutput outputID d ''ratio'') ds, [], []))))))]"

definition statistics_cases :: "(inputSet \<Rightarrow> inputSet) \<Rightarrow> (double list \<Rightarrow> double list) \<Rightarrow> inputSet \<Rightarrow> (string \<times> dispatched) list" where
  "statistics_cases visiting order inputs =
     [(''comparison.dupont'', dupont_case inputs),
      (''comparison.peer_statistics'', peer_statistics_case visiting order inputs),
      (''economics.lagged_association'', lagged_association_case visiting inputs)]"

section \<open>Comparison and sensitivity\<close>

definition metric_of :: "'d decimal_lib \<Rightarrow> nat \<times> EngineInput \<Rightarrow> go_error + ComparableMetric" where
  "metric_of L entry = (case entry of (index, input) \<Rightarrow>
     res_bind (ParseDecimal L (qt_value (ei_quantity input))) (\<lambda>d. Inr
       \<lparr>cmm_company = ''company-'' @ itoa (int index), cmm_value = d, cmm_period = qt_period (ei_quantity input),
        cmm_unit = qt_unit (ei_quantity input), cmm_currency = qt_currency (ei_quantity input)\<rparr>))"

definition period_aligned_case :: "'d decimal_lib \<Rightarrow> (inputSet \<Rightarrow> inputSet) \<Rightarrow> inputSet \<Rightarrow> dispatched" where
  "period_aligned_case L visiting inputs =
     res_bind (series visiting inputs ''company_metrics'') (\<lambda>members.
     res_bind (map_res (metric_of L) (enumerate 0 members)) (\<lambda>metrics.
     res_bind (PeriodAligned metrics ''exact'') (\<lambda>result.
       if \<not> cmr_comparable result then
         Inl (Errorf ''incomparable_inputs: %v'' [FStr (sprint_strings (cmr_warnings result))])
       else Inr ([boolOutput ''comparison'' (cmr_comparable result)], [], cmr_warnings result))))"

definition sensitivity_case :: "'d decimal_lib \<Rightarrow> (inputSet \<Rightarrow> inputSet) \<Rightarrow> string \<Rightarrow> inputSet \<Rightarrow> dispatched" where
  "sensitivity_case L visiting currency inputs =
     res_bind (decimalSeries L visiting inputs ''fcff_forecast'') (\<lambda>forecast.
     res_bind (decimalSeries L visiting inputs ''discount_rates'') (\<lambda>rates.
     res_bind (decimalSeries L visiting inputs ''terminal_growth_rates'') (\<lambda>growths.
     res_bind (DCFGrid L forecast rates growths) (\<lambda>result.
       Inr ([intOutput ''rows'' (ser_rows result) ''count'', intOutput ''columns'' (ser_columns result) ''count'',
         boolOutput ''monotonic_discount_rate'' (ser_monotonic_discount_rate result),
         boolOutput ''monotonic_terminal_growth'' (ser_monotonic_terminal_growth result)] @
         numbered ''scenario_matrix'' (\<lambda>outputID cell. decimalOutput outputID (sec_enterprise_value cell) ''currency'' currency)
           (ser_cells result), [], [])))))"

definition comparison_cases :: "'d decimal_lib \<Rightarrow> (inputSet \<Rightarrow> inputSet) \<Rightarrow> string \<Rightarrow> inputSet \<Rightarrow> (string \<times> dispatched) list" where
  "comparison_cases L visiting currency inputs =
     [(''comparison.period_aligned'', period_aligned_case L visiting inputs),
      (''scenario.sensitivity_matrix'', sensitivity_case L visiting currency inputs)]"

section \<open>The switch\<close>

definition dispatch_cases :: "'d decimal_lib \<Rightarrow> (inputSet \<Rightarrow> inputSet) \<Rightarrow> (double list \<Rightarrow> double list) \<Rightarrow> inputSet \<Rightarrow>
    (string \<times> dispatched) list" where
  "dispatch_cases L visiting order inputs =
     (let currency = firstCurrency inputs in
      statement_cases L currency inputs @ capital_cases L currency inputs @ quality_cases L inputs @
      shareholder_cases L currency inputs @ beta_cases L inputs @ multistage_cases L visiting currency inputs @
      multiple_cases L inputs @ statistics_cases visiting order inputs @ dcf_cases L visiting currency inputs @
      market_cases visiting inputs @ comparison_cases L visiting currency inputs)"

definition dispatch :: "'d decimal_lib \<Rightarrow> (inputSet \<Rightarrow> inputSet) \<Rightarrow> (double list \<Rightarrow> double list) \<Rightarrow> string \<Rightarrow> inputSet \<Rightarrow> dispatched" where
  "dispatch L visiting order operationID inputs =
     (case map_of (dispatch_cases L visiting order inputs) operationID of
        None \<Rightarrow> Inl (ErrorsNew ''unsupported registered operation'') | Some result \<Rightarrow> result)"

end
