(* ===== verification/Engine_Execute.thy ===== *)
theory Engine_Execute
  imports Engine_Dispatch
begin

text \<open>
  The executor of the deterministic engine (\<open>internal/engine/executor.go\<close>): a request is checked,
  calculated and answered with a receipt that carries its own digest, or with a failure. JSON and
  SHA-256 are parameters, and so are the texts of errors and times, which only enter identifiers
  and messages.
\<close>

record 'd Executor =
  ex_decimal :: "'d decimal_lib"
  ex_apd :: "'d apd_lib"
  ex_code_commit :: string
  ex_now :: gotime
  ex_visiting :: "inputSet \<Rightarrow> inputSet"
  ex_sort_floats :: "double list \<Rightarrow> double list"
  ex_hash_request :: "EngineRequest \<Rightarrow> go_error + string"
  ex_hash_receipt :: "CalculationReceipt \<Rightarrow> go_error + string"
  ex_short_hash :: "string \<Rightarrow> string"
  ex_time_text :: "gotime \<Rightarrow> string"
  ex_error_text :: "go_error \<Rightarrow> string"

abbreviation Version :: string where "Version \<equiv> ''0.1.0''"

text \<open>\<open>NewWithClock\<close> refuses a blank commit; a clock is always given.\<close>

definition NewWithClock :: "'d Executor \<Rightarrow> go_error + 'd Executor" where
  "NewWithClock executor =
     (if blank (ex_code_commit executor) then Inl (ErrorsNew ''code commit is required'') else Inr executor)"

section \<open>Codes of errors\<close>

text \<open>The literal beginning of the text of an error; a code followed by a colon is its prefix
  exactly if it is a prefix of the text.\<close>

fun error_head :: "go_error \<Rightarrow> string" where
  "error_head (ErrorsNew s) = s"
| "error_head (Errorf f args) = f"
| "error_head (Wrapf f args err) = f"
| "error_head (Sentinel s) = s"
| "error_head (Foreign s temporary wrapped) = s"
| "error_head DeadlineExceeded = ''context deadline exceeded''"
| "error_head Canceled = ''context canceled''"
| "error_head (Panic s) = []"

definition has_code :: "go_error \<Rightarrow> string \<Rightarrow> bool" where
  "has_code err code \<longleftrightarrow> starts_with (error_head err) (code @ '':'')"

definition isCodedError :: "go_error \<Rightarrow> bool" where
  "isCodedError err \<longleftrightarrow> list_ex (has_code err) [''incomparable_inputs'', ''non_convergent'', ''invariant_failed'']"

definition failure_codes :: "string list" where
  "failure_codes = [''unauthorized_capability'', ''unit_mismatch'', ''currency_mismatch'', ''period_mismatch'',
     ''incomparable_inputs'', ''non_convergent'', ''invariant_failed'', ''invalid_request'']"

definition classifyFailure :: "go_error \<Rightarrow> string" where
  "classifyFailure err = (case find (has_code err) failure_codes of None \<Rightarrow> ''invalid_request'' | Some code \<Rightarrow> code)"

text \<open>A panic is not an error that could be wrapped: it leaves the call.\<close>

fun invalid :: "go_error \<Rightarrow> go_error" where
  "invalid (Panic s) = Panic s"
| "invalid err = Wrapf ''invalid_request: %w'' [] err"

section \<open>The calculation\<close>

definition check_assumptions :: "Operation \<Rightarrow> EngineRequest \<Rightarrow> go_error option" where
  "check_assumptions operation request =
     (if \<not> op_assumptions_allowed operation then first_err
        [fail_if (er_assumptions request \<noteq> []) (ErrorsNew ''invalid_request: operation does not allow assumptions''),
         range_err (\<lambda>_ input. fail_if (ei_status input = ''assumed'')
           (ErrorsNew ''invalid_request: operation does not allow assumed inputs'')) (er_inputs request)]
      else range_err (\<lambda>_ input. fail_if (ei_status input = ''assumed'' \<and> er_assumptions request = [])
        (ErrorsNew ''invalid_request: assumed input requires an explicit assumption'')) (er_inputs request))"

definition check_request :: "'d decimal_lib \<Rightarrow> Operation \<Rightarrow> EngineRequest \<Rightarrow> go_error option" where
  "check_request L operation request = first_err
     [fail_if (er_engine_id request \<noteq> op_engine operation \<or> er_formula_version request \<noteq> op_formula_version operation \<or>
         er_precision_policy request \<noteq> op_numerical_policy operation)
        (ErrorsNew ''invalid_request: engine, formula version, or numerical policy differs from registry''),
      check_assumptions operation request,
      range_err (\<lambda>_ requestedOutput. fail_if (requestedOutput \<notin> set (op_outputs operation))
        (Errorf ''invalid_request: output %q is not registered'' [FStr requestedOutput])) (er_requested_outputs request)]"

definition check_inputs :: "(inputSet \<Rightarrow> inputSet) \<Rightarrow> Operation \<Rightarrow> EngineRequest \<Rightarrow> inputSet \<Rightarrow> go_error option" where
  "check_inputs visiting operation request inputs = first_err
     [range_err (\<lambda>_ required. fail_if (\<not> has_input inputs required)
        (Errorf ''invalid_request: missing required input %q'' [FStr required])) (op_required_inputs operation),
      range_err (\<lambda>_ input. fail_if (inputBase (ei_input_id input) \<notin> set (op_required_inputs operation) \<and>
          inputBase (ei_input_id input) \<noteq> ''ddof'')
        (Errorf ''invalid_request: unexpected input %q'' [FStr (ei_input_id input)])) (visiting inputs),
      validateMetadata visiting inputs (er_operation_id request),
      validateUnits visiting inputs (er_operation_id request),
      range_err (\<lambda>_ input. fail_if (case qt_as_of (ei_quantity input) of None \<Rightarrow> False
          | Some t \<Rightarrow> time_after t (sc_as_of (er_scope request)))
        (ErrorsNew ''invalid_request: input is not available at request as_of'')) (er_inputs request)]"

definition dispatch_request :: "'d Executor \<Rightarrow> EngineRequest \<Rightarrow> inputSet \<Rightarrow> dispatched" where
  "dispatch_request executor request inputs =
     (case dispatch (ex_decimal executor) (ex_visiting executor) (ex_sort_floats executor) (er_operation_id request) inputs of
        Inl err \<Rightarrow> Inl (if isCodedError err then err else invalid err)
      | Inr (outputs, invariants, warnings) \<Rightarrow>
          Inr (outputs, passed_invariant ''tier0_registry_match'' [] # invariants, warnings))"

definition calculate :: "'d Executor \<Rightarrow> EngineRequest \<Rightarrow> dispatched" where
  "calculate executor request =
     (case ValidateEngineRequest (ex_apd executor) request of Some err \<Rightarrow> Inl (invalid err)
      | None \<Rightarrow>
     (case RuntimeRegistry of Inl err \<Rightarrow> Inl err
      | Inr registry \<Rightarrow>
     (case GetOperation registry (er_operation_id request) of
        None \<Rightarrow> Inl (ErrorsNew ''unauthorized_capability: operation is not registered'')
      | Some operation \<Rightarrow>
          if \<not> Authorizes registry (er_requested_by request) (er_operation_id request) then
            Inl (ErrorsNew ''unauthorized_capability: role cannot execute operation'')
          else check_then (check_request (ex_decimal executor) operation request)
            (case newInputSet (ex_decimal executor) (er_inputs request) of Inl err \<Rightarrow> Inl (invalid err)
             | Inr inputs \<Rightarrow>
                 check_then (check_inputs (ex_visiting executor) operation request inputs)
                   (dispatch_request executor request inputs)))))"

section \<open>Receipts and failures\<close>

definition evidenceRefs :: "EngineInput list \<Rightarrow> string list" where
  "evidenceRefs inputs = sort (remdups (concat (map ei_evidence_refs inputs)))"

definition engine_failure :: "'d Executor \<Rightarrow> EngineRequest \<Rightarrow> string \<Rightarrow> go_error \<Rightarrow> FailureReceipt" where
  "engine_failure executor request code err =
     \<lparr>fr_schema_version = SchemaVersionV1,
      fr_failure_id = ''failure-'' @ ex_short_hash executor (er_request_id request @ [CHR 0x0A] @ code @ [CHR 0x0A] @
        ex_error_text executor err @ [CHR 0x0A] @ ex_time_text executor (ex_now executor)),
      fr_run_id = er_run_id request, fr_step_id = er_step_id request,
      fr_component_id = ''deterministic-engine/'' @ Version, fr_failure_code = code,
      fr_message = ex_error_text executor err, fr_retryable = False,
      fr_evidence_refs = evidenceRefs (er_inputs request), fr_created_at = ex_now executor\<rparr>"

definition receipt_of :: "'d Executor \<Rightarrow> EngineRequest \<Rightarrow> string \<Rightarrow> ReceiptOutput list \<Rightarrow> InvariantResult list \<Rightarrow> string list \<Rightarrow>
    CalculationReceipt" where
  "receipt_of executor request inputSHA outputs invariants warnings =
     \<lparr>cr_schema_version = SchemaVersionV1,
      cr_receipt_id = ''receipt-'' @ ex_short_hash executor (er_request_id request @ [CHR 0x0A] @
        ex_time_text executor (ex_now executor)),
      cr_request_id = er_request_id request, cr_engine_id = er_engine_id request, cr_engine_version = Version,
      cr_operation_id = er_operation_id request, cr_formula_version = er_formula_version request,
      cr_scope = er_scope request, cr_status = ReceiptSuccess, cr_normalized_inputs = er_inputs request,
      cr_assumptions = er_assumptions request, cr_intermediate_values = [], cr_outputs = outputs,
      cr_invariant_results = invariants, cr_tolerance_policy = er_precision_policy request, cr_warnings = warnings,
      cr_evidence_refs = evidenceRefs (er_inputs request), cr_dataset_versions = [],
      cr_source_as_of = sc_as_of (er_scope request), cr_code_commit = ex_code_commit executor,
      cr_input_sha256 = inputSHA, cr_receipt_sha256 = [], cr_generated_at = ex_now executor\<rparr>"

definition receiptDigest :: "'d Executor \<Rightarrow> CalculationReceipt \<Rightarrow> go_error + string" where
  "receiptDigest executor receipt = ex_hash_receipt executor (receipt\<lparr>cr_receipt_sha256 := []\<rparr>)"

record EngineResult =
  egr_receipt :: "CalculationReceipt option"
  egr_failure :: "FailureReceipt option"

definition refused :: "'d Executor \<Rightarrow> EngineRequest \<Rightarrow> string \<Rightarrow> go_error \<Rightarrow> go_error + EngineResult" where
  "refused executor request code err =
     Inr \<lparr>egr_receipt = None, egr_failure = Some (engine_failure executor request code err)\<rparr>"

text \<open>A panic of the calculation leaves \<open>Execute\<close>.\<close>

definition Execute :: "'d Executor \<Rightarrow> EngineRequest \<Rightarrow> go_error + EngineResult" where
  "Execute executor request =
     (case calculate executor request of
        Inl (Panic s) \<Rightarrow> Inl (Panic s)
      | Inl err \<Rightarrow> refused executor request (classifyFailure err) err
      | Inr (outputs, invariants, warnings) \<Rightarrow>
          (case ex_hash_request executor request of Inl err \<Rightarrow> refused executor request ''internal_error'' err
           | Inr inputSHA \<Rightarrow>
               (let receipt = receipt_of executor request inputSHA outputs invariants warnings in
                case receiptDigest executor receipt of Inl err \<Rightarrow> refused executor request ''internal_error'' err
                | Inr receiptHash \<Rightarrow>
                    (let receipt = receipt\<lparr>cr_receipt_sha256 := receiptHash\<rparr> in
                     case ValidateCalculationReceipt (ex_apd executor) receipt of
                       Some err \<Rightarrow> refused executor request ''internal_error'' err
                     | None \<Rightarrow> Inr \<lparr>egr_receipt = Some receipt, egr_failure = None\<rparr>))))"

end
