(* ===== verification/Engine_Outputs.thy ===== *)
theory Engine_Outputs
  imports Engine_Execute
begin

text \<open>
  What the cases of the switch deliver: an operation that succeeds has each output that the registry
  lists for it, by its name or as a numbered series. The one exception is the output
  \<open>warnings\<close> of \<open>comparison.period_aligned\<close>, which no case delivers.
\<close>

section \<open>Rows of the switch\<close>

lemma tier0_names:
  "map fst (statement_cases L currency inputs @ dcf_cases L visiting currency inputs @ market_cases visiting inputs @
     comparison_cases L visiting currency inputs) = map op_operation_id tier0Operations"
  unfolding tier0_ids statement_cases_def dcf_cases_def market_cases_def comparison_cases_def
  by (simp only: list.map append.simps fst_conv)

lemma intelligence_names:
  "map fst (capital_cases L currency inputs @ quality_cases L inputs @ shareholder_cases L currency inputs @
     beta_cases L inputs @ multistage_cases L visiting currency inputs @ multiple_cases L inputs @
     statistics_cases visiting order inputs) = map op_operation_id financialIntelligenceOperations"
  unfolding intelligence_ids capital_cases_def quality_cases_def shareholder_cases_def beta_cases_def multistage_cases_def
    multiple_cases_def statistics_cases_def
  by (simp only: list.map append.simps fst_conv)

text \<open>The rows of the switch in the order of the registry.\<close>

definition registry_rows :: "'d decimal_lib \<Rightarrow> (inputSet \<Rightarrow> inputSet) \<Rightarrow> (double list \<Rightarrow> double list) \<Rightarrow> inputSet \<Rightarrow>
    (string \<times> dispatched) list" where
  "registry_rows L visiting order inputs =
     (let currency = firstCurrency inputs in
      (statement_cases L currency inputs @ dcf_cases L visiting currency inputs @ market_cases visiting inputs @
       comparison_cases L visiting currency inputs) @
      (capital_cases L currency inputs @ quality_cases L inputs @ shareholder_cases L currency inputs @
       beta_cases L inputs @ multistage_cases L visiting currency inputs @ multiple_cases L inputs @
       statistics_cases visiting order inputs))"

lemma registry_rows_names:
  "map fst (registry_rows L visiting order inputs) = map op_operation_id (tier0Operations @ financialIntelligenceOperations)"
  unfolding registry_rows_def Let_def map_append [of fst "statement_cases L (firstCurrency inputs) inputs @ _"]
    tier0_names intelligence_names by simp

lemma registry_rows_mset: "mset (dispatch_cases L visiting order inputs) = mset (registry_rows L visiting order inputs)"
  by (simp add: dispatch_cases_def registry_rows_def Let_def ac_simps)

lemma dispatch_cases_distinct: "distinct (map fst (dispatch_cases L visiting order inputs))"
proof -
  have "mset (map fst (dispatch_cases L visiting order inputs)) = mset (map fst (registry_rows L visiting order inputs))"
    by (simp add: registry_rows_mset)
  then show ?thesis
    using runtime_ids_distinct mset_eq_imp_distinct_iff unfolding registry_rows_names by blast
qed

lemma dispatch_row:
  assumes "(operationID, result) \<in> set (registry_rows L visiting order inputs)"
  shows "dispatch L visiting order operationID inputs = result"
proof -
  have "(operationID, result) \<in> set (dispatch_cases L visiting order inputs)"
    using assms registry_rows_mset mset_eq_setD by blast
  then have "map_of (dispatch_cases L visiting order inputs) operationID = Some result"
    using dispatch_cases_distinct by (rule map_of_is_SomeI [rotated])
  then show ?thesis by (simp add: dispatch_def)
qed

section \<open>Outputs that are delivered\<close>

text \<open>An output is delivered by its name, or as a series under its name with a number.\<close>

definition delivers :: "ReceiptOutput list \<Rightarrow> string \<Rightarrow> bool" where
  "delivers outputs outputID \<longleftrightarrow>
     (\<exists>result \<in> set outputs. ro_output_id result = outputID \<or> (\<exists>n. ro_output_id result = outputID @ ''.'' @ itoa n))"

definition emits :: "string list \<Rightarrow> dispatched \<Rightarrow> bool" where
  "emits names result \<longleftrightarrow> (case result of Inl _ \<Rightarrow> True | Inr (outputs, _, _) \<Rightarrow> list_all (delivers outputs) names)"

definition promised :: "Operation \<Rightarrow> string list" where
  "promised operation = filter (\<lambda>outputID. outputID \<noteq> ''warnings'') (op_outputs operation)"

lemma output_ids [simp]:
  "ro_output_id (decimalOutput outputID d unit currency) = outputID" "ro_output_id (floatOutput outputID x unit) = outputID"
  "ro_output_id (intOutput outputID n unit) = outputID" "ro_output_id (boolOutput outputID b) = outputID"
  by (simp_all add: decimalOutput_def floatOutput_def intOutput_def boolOutput_def output_of_def)

lemma delivers_here: "ro_output_id result = outputID \<Longrightarrow> delivers (result # outputs) outputID"
  and delivers_later: "delivers outputs outputID \<Longrightarrow> delivers (result # outputs) outputID"
  by (auto simp: delivers_def)

lemma delivers_numbered:
  assumes "xs \<noteq> []" and "\<And>name x. ro_output_id (form name x) = name"
  shows "delivers (numbered outputID form xs) outputID"
proof -
  have "form (outputID @ ''.'' @ itoa 0) (hd xs) \<in> set (numbered outputID form xs)"
    using assms(1) by (cases xs) (simp_all add: numbered_def)
  with assms(2) show ?thesis unfolding delivers_def by blast
qed

lemma emits_error: "emits names (Inl message)"
  and emits_outputs: "list_all (delivers outputs) names \<Longrightarrow> emits names (Inr (outputs, invariants, warnings))"
  and emits_check: "(err = None \<Longrightarrow> emits names result) \<Longrightarrow> emits names (check_then err result)"
  and emits_if: "(b \<Longrightarrow> emits names result) \<Longrightarrow> (\<not> b \<Longrightarrow> emits names result') \<Longrightarrow> emits names (if b then result else result')"
  by (simp_all add: emits_def check_then_def split: option.splits)

lemma emits_bind: "(\<And>x. r = Inr x \<Longrightarrow> emits names (f x)) \<Longrightarrow> emits names (res_bind r f)"
  by (cases r) (simp_all add: emits_error)

lemma emits_with:
  "(\<And>x. emits names (f1 x)) \<Longrightarrow> emits names (with1 L inputs a f1)"
  "(\<And>x y. emits names (f2 x y)) \<Longrightarrow> emits names (with2 L inputs a b f2)"
  "(\<And>x y z. emits names (f3 x y z)) \<Longrightarrow> emits names (with3 L inputs a b c f3)"
  "(\<And>xs. emits names (fs xs)) \<Longrightarrow> emits names (with_all L inputs as fs)"
  by (simp_all add: with1_def with2_def with3_def with_all_def emits_bind)

lemma emits_one: "ro_output_id result = outputID \<Longrightarrow> emits [outputID] (one_output result)"
  by (simp add: emits_def one_output_def delivers_def)

lemma emits_ratio: "emits [outputID] (ratioOutput outputID r)"
  and emits_money: "emits [outputID] (moneyOutput currency outputID r)"
  unfolding ratioOutput_def moneyOutput_def by (intro emits_bind emits_one output_ids)+

lemma emits_prod: "(\<And>x y. emits names (f x y)) \<Longrightarrow> emits names (case p of (x, y) \<Rightarrow> f x y)"
  by (cases p) simp

lemma delivers_append: "delivers (outputs @ outputs') outputID \<longleftrightarrow> delivers outputs outputID \<or> delivers outputs' outputID"
  by (auto simp: delivers_def)

lemmas deliver_simps = delivers_here delivers_later delivers_append delivers_numbered

lemmas emits_rules = emits_prod emits_with emits_ratio emits_money emits_bind emits_if emits_error emits_one [OF output_ids(1)] emits_one [OF output_ids(2)]
  emits_outputs

lemma emits_reverse: "emits [outputID, ''iterations''] (reverse_outputs outputID invariantID message result)"
  unfolding reverse_outputs_def by (intro emits_rules) (simp add: deliver_simps)


lemma present_values_length:
  "present_values L onePlusRate midYear index explicit forecast = Inr (result, presents) \<Longrightarrow> length presents = length forecast"
proof (induction forecast arbitrary: index explicit presents)
  case (Cons flow forecast)
  then show ?case by (auto simp: res_bind_Inr)
qed simp

lemma FCFFDCF_presents: "FCFFDCF L forecast rate growth = Inr result \<Longrightarrow> dcf_present_values result \<noteq> []"
  by (auto simp: FCFFDCF_def dest!: present_values_length)

lemma drawdowns_length: "drawdowns peak maximum wealth = Inr (losses, worst) \<Longrightarrow> length losses = length wealth"
proof (induction wealth arbitrary: peak maximum losses)
  case (Cons w wealth)
  then show ?case by (auto simp: Let_def split: if_splits)
qed simp

lemma Drawdown_series: "Drawdown wealth = Inr result \<Longrightarrow> dwr_series result \<noteq> []"
  by (auto simp: Drawdown_def validateFinite_def dest!: drawdowns_length)

lemma RollingCorrelation_series: "RollingCorrelation left right window = Inr ds \<Longrightarrow> ds \<noteq> []"
  by (auto simp: RollingCorrelation_def map_res_Inr split: if_splits)

lemma DCFGrid_cells:
  assumes "DCFGrid L forecast rates growths = Inr result"
  shows "ser_cells result \<noteq> []"
proof -
  have axes: "rates \<noteq> []" "growths \<noteq> []" using assms by (auto simp: DCFGrid_def)
  obtain cells where "grid_cells L forecast rates growths = Inr cells" "ser_cells result = cells"
    using assms axes by (auto simp: DCFGrid_def Let_def)
  moreover have "concat (map (\<lambda>rate. map (Pair rate) growths) rates) \<noteq> []"
    using axes by (cases rates; cases growths) simp_all
  ultimately show ?thesis by (auto simp: grid_cells_def map_res_Inr list_all2_Nil2)
qed

lemma tier0_cases_emit:
  "emits [''difference'', ''within_tolerance''] (balance_sheet_case L currency inputs)"
  "emits [''implied_growth''] (reverse_dcf_case L inputs)"
  "emits [''enterprise_value'', ''present_values''] (fcff_dcf_case L visiting currency inputs)"
  "emits [''comparison''] (period_aligned_case L visiting inputs)"
  "emits [''scenario_matrix''] (sensitivity_case L visiting currency inputs)"
  unfolding balance_sheet_case_def reverse_dcf_case_def fcff_dcf_case_def period_aligned_case_def sensitivity_case_def
  by (intro emits_rules; simp add: deliver_simps FCFFDCF_presents DCFGrid_cells)+

lemma emits_dcf:
  "set names \<subseteq> set [valueID, ''explicit_present_value'', ''terminal_value'', ''terminal_present_value'', ''terminal_value_share''] \<Longrightarrow>
     emits names (dcf_outputs currency valueID result)"
  unfolding dcf_outputs_def by (intro emits_outputs) (auto simp: list_all_iff deliver_simps)

text \<open>Each row delivers what the operation with its name promises.\<close>

lemma promised_op: "promised (op operationID engine description policy inputs outputs roles assumptions) =
    filter (\<lambda>outputID. outputID \<noteq> ''warnings'') outputs"
  by (simp add: promised_def op_def)

lemma tier0_emits:
  "list_all2 (\<lambda>operation row. emits (promised operation) (snd row)) tier0Operations
     (statement_cases L currency inputs @ dcf_cases L visiting currency inputs @ market_cases visiting inputs @
      comparison_cases L visiting currency inputs)"
  unfolding tier0Operations_def statement_cases_def dcf_cases_def market_cases_def comparison_cases_def
  apply (simp only: append.simps list_all2_Cons list.rel_intros(1) snd_conv promised_op filter.simps)
  apply (simp del: map_res.simps)
  by (intro conjI; (rule tier0_cases_emit |
        (intro emits_rules; simp add: deliver_simps Drawdown_series RollingCorrelation_series)))

lemma intelligence_emits:
  "list_all2 (\<lambda>operation row. emits (promised operation) (snd row)) financialIntelligenceOperations
     (capital_cases L currency inputs @ quality_cases L inputs @ shareholder_cases L currency inputs @
      beta_cases L inputs @ multistage_cases L visiting currency inputs @ multiple_cases L inputs @
      statistics_cases visiting order inputs)"
  unfolding financialIntelligenceOperations_def capital_cases_def quality_cases_def shareholder_cases_def beta_cases_def
    multistage_cases_def multiple_cases_def statistics_cases_def
  apply (simp only: append.simps list_all2_Cons list.rel_intros(1) snd_conv promised_op filter.simps)
  apply (simp del: map_res.simps)
  apply (simp only: invested_capital_case_def conversion_case_def capital_bridge_case_def multistage_case_def
    dividend_discount_case_def reverse_growth_case_def reverse_margin_case_def reverse_reinvestment_case_def
    reverse_case_def detailed_bridge_case_def dupont_case_def peer_statistics_case_def lagged_association_case_def)
  by (intro conjI; (intro emits_rules emits_reverse emits_dcf; simp add: deliver_simps))

text \<open>A registered operation that succeeds has delivered all it promises.\<close>

lemma operations_deliver:
  assumes "operation \<in> set (tier0Operations @ financialIntelligenceOperations)"
  shows "emits (promised operation) (dispatch L visiting order (op_operation_id operation) inputs)"
proof -
  let ?operations = "tier0Operations @ financialIntelligenceOperations" and ?rows = "registry_rows L visiting order inputs"
  have all: "list_all2 (\<lambda>operation row. emits (promised operation) (snd row)) ?operations ?rows"
    unfolding registry_rows_def Let_def by (rule list_all2_appendI [OF tier0_emits intelligence_emits])
  obtain k where k: "k < length ?operations" "?operations ! k = operation"
    using assms by (meson in_set_conv_nth)
  have len: "length ?rows = length ?operations" using list_all2_lengthD [OF all] by simp
  have "fst (?rows ! k) = op_operation_id operation"
    using k len registry_rows_names [of L visiting order inputs] by (metis nth_map)
  then have "(op_operation_id operation, snd (?rows ! k)) \<in> set ?rows"
    using k(1) len by (metis nth_mem prod.collapse)
  then have "dispatch L visiting order (op_operation_id operation) inputs = snd (?rows ! k)"
    by (rule dispatch_row)
  with list_all2_nthD [OF all k(1)] k(2) show ?thesis by simp
qed

end
