(* ===== verification/Finance_Laws.thy ===== *)
theory Finance_Laws
  imports Finance_Valuation Decimal_Instance
begin

text \<open>
  What the formulas compute, under the documented laws of the decimal library: the numbers that
  results stand for, the guards of denominators, the monotonicity that the inverses rest on, and
  that a converged inverse is a solution.
\<close>

section \<open>Numbers of results\<close>

named_theorems decimal_num "numbers that the results of decimal operations stand for"

lemma raw_Inr: "raw L d = Inr x \<longleftrightarrow> dec_new L d = Inr x"
  by (simp add: raw_def split: sum.splits)

lemma binary_Inr: "binary L operation s t = Inr n \<longleftrightarrow> decimalBinary L operation s t = Inr n"
  by (auto simp: binary_def decimalBinary_def canonical_def raw_Inr split: sum.splits)

lemma absolute_Inr: "absolute L s = Inr n \<longleftrightarrow> decimalAbs L s = Inr n"
  by (auto simp: absolute_def decimalAbs_def canonical_def raw_Inr split: sum.splits)

lemma compare_Inr: "compare L s t = Inr c \<longleftrightarrow> decimalCompare L s t = Inr c"
  by (auto simp: compare_def decimalCompare_def raw_Inr split: sum.splits)

lemma divide_Inr: "divide L s t = Inr n \<longleftrightarrow> t \<noteq> ''0'' \<and> decimalBinary L (dec_quo L) s t = Inr n"
  by (simp add: divide_def binary_Inr)

lemma ratio_divide: "ratio L s t = divide L s t"
  by (simp add: ratio_def divide_def)

lemmas results_Inr = add_def subtract_def multiply_def power_def binary_Inr absolute_Inr divide_Inr ratio_divide

lemma result_canonical:
  "add L s t = Inr n \<Longrightarrow> canonical_text L n" "subtract L s t = Inr n \<Longrightarrow> canonical_text L n"
  "multiply L s t = Inr n \<Longrightarrow> canonical_text L n" "divide L s t = Inr n \<Longrightarrow> canonical_text L n"
  "power L s t = Inr n \<Longrightarrow> canonical_text L n" "absolute L s = Inr n \<Longrightarrow> canonical_text L n"
  by (auto simp: results_Inr dest: decimalBinary_canonical decimalAbs_canonical)

lemma must_canonical: "MustDecimal L t = Inr d \<Longrightarrow> canonical_text L d"
  by (auto simp: MustDecimal_def canonical_text_def split: sum.splits)

lemma result_num:
  assumes "decimal_laws L num rnd" and "canonical_text L s" and "canonical_text L t"
  shows "add L s t = Inr n \<Longrightarrow> num n = rnd (num s + num t)"
    and "subtract L s t = Inr n \<Longrightarrow> num n = rnd (num s - num t)"
    and "multiply L s t = Inr n \<Longrightarrow> num n = rnd (num s * num t)"
    and "divide L s t = Inr n \<Longrightarrow> num t \<noteq> 0 \<and> num n = rnd (num s / num t)"
    and "power L s t = Inr n \<Longrightarrow> 0 < num s \<Longrightarrow> 0 < num n"
    and "absolute L s = Inr n \<Longrightarrow> num n = rnd \<bar>num s\<bar>"
  using decimal_results [OF assms] by (simp_all add: results_Inr)

lemma literals_num:
  assumes "decimal_laws L num rnd"
  shows "dec_zero L = ''0''" "dec_one L = ''1''" "num ''0'' = 0" "num ''1'' = 1"
    "canonical_text L ''0''" "canonical_text L ''1''"
  using assms by (auto simp: decimal_laws_def dec_zero_def dec_one_def or_empty_def MustDecimal_def canonical_text_def)

lemma sign_num:
  assumes "decimal_laws L num rnd" and "canonical_text L s" and "canonical_text L t"
  shows "sign_of L s t < 0 \<longleftrightarrow> num s < num t" and "sign_of L s t \<le> 0 \<longleftrightarrow> num s \<le> num t"
    and "sign_of L s t = 0 \<longleftrightarrow> num s = num t"
proof -
  obtain c where c: "decimalCompare L s t = Inr c" "c < 0 \<longleftrightarrow> num s < num t" "c > 0 \<longleftrightarrow> num t < num s" "c = 0 \<longleftrightarrow> num s = num t"
    by (rule decimal_compare [OF assms])
  have "compare L s t = Inr c" using c(1) by (simp add: compare_Inr)
  then have "sign_of L s t = c" by (simp add: sign_of_def)
  with c(2-4) show "sign_of L s t < 0 \<longleftrightarrow> num s < num t" "sign_of L s t \<le> 0 \<longleftrightarrow> num s \<le> num t"
    "sign_of L s t = 0 \<longleftrightarrow> num s = num t" by linarith+
qed

lemma rounding_mono:
  assumes "decimal_laws L num rnd" and "x \<le> y"
  shows "rnd x \<le> rnd y"
  using assms by (auto simp: decimal_laws_def rounding_def dest: monoD)

lemma rounding_signs:
  assumes "decimal_laws L num rnd"
  shows "0 < rnd x \<longleftrightarrow> 0 < x" and "0 \<le> rnd x \<longleftrightarrow> 0 \<le> x"
proof -
  have "rounding rnd" using assms by (simp add: decimal_laws_def)
  from rounding_sign(1,2) [OF this, of x] show "0 < rnd x \<longleftrightarrow> 0 < x" "0 \<le> rnd x \<longleftrightarrow> 0 \<le> x" by linarith+
qed

section \<open>Computing with the library of fractions\<close>

lemma fraction_inject [simp]: "fraction x = fraction y \<longleftrightarrow> x = y"
  using fraction_value_fraction by metis

lemma fraction_of_int: "itoa n = fraction (of_int n)"
  by (simp add: fraction_def)

lemma fraction_must: "dec_new fraction_lib t = Inr x \<Longrightarrow> trim_space t = t \<Longrightarrow> MustDecimal fraction_lib t = Inr (fraction x)"
  by (simp add: MustDecimal_def ParseDecimal_def) (simp add: fraction_lib_def)

lemma fraction_literals:
  "MustDecimal fraction_lib ''-1'' = Inr (fraction (- 1))" "MustDecimal fraction_lib ''2'' = Inr (fraction 2)"
  "MustDecimal fraction_lib ''-0.99'' = Inr (fraction (- 99 / 100))"
  "MustDecimal fraction_lib ''0.0000000001'' = Inr (fraction (1 / 10000000000))" "MustDecimal fraction_lib ''0'' = Inr (fraction 0)" "MustDecimal fraction_lib ''0.80'' = Inr (fraction (4 / 5))"
  by (rule fraction_must; code_simp)+

lemma fraction_calculus:
  "add fraction_lib (fraction x) (fraction y) = Inr (fraction (x + y))"
  "subtract fraction_lib (fraction x) (fraction y) = Inr (fraction (x - y))"
  "multiply fraction_lib (fraction x) (fraction y) = Inr (fraction (x * y))"
  "y \<noteq> 0 \<Longrightarrow> divide fraction_lib (fraction x) (fraction y) = Inr (fraction (x / y))"
  "absolute fraction_lib (fraction x) = Inr (fraction \<bar>x\<bar>)"
  "power fraction_lib (fraction x) (fraction (numeral k)) = Inr (fraction (x ^ numeral k))"
  "power fraction_lib (fraction x) (fraction 1) = Inr (fraction x)"
  "sign_of fraction_lib (fraction x) (fraction y) = (if x < y then - 1 else if x = y then 0 else 1)"
  "dec_zero fraction_lib = fraction 0" "dec_one fraction_lib = fraction 1"
  "compare fraction_lib (fraction x) (fraction y) = Inr (if x < y then - 1 else if x = y then 0 else 1)"
  "MustDecimal fraction_lib (itoa n) = Inr (fraction (of_int n))"
proof -
  show order: "compare fraction_lib (fraction x) (fraction y) = Inr (if x < y then - 1 else if x = y then 0 else 1)"
    by (simp add: compare_Inr)
  then show "sign_of fraction_lib (fraction x) (fraction y) = (if x < y then - 1 else if x = y then 0 else 1)"
    by (simp add: sign_of_def)
  show "dec_zero fraction_lib = fraction 0" "dec_one fraction_lib = fraction 1"
    unfolding literals_num(1,2) [OF fraction_laws] fraction_numerals by (rule refl)+
  show "y \<noteq> 0 \<Longrightarrow> divide fraction_lib (fraction x) (fraction y) = Inr (fraction (x / y))"
    by (simp add: divide_Inr fraction_binary fraction_operations fraction_numerals [symmetric])
qed (simp_all add: results_Inr fraction_binary fraction_operations fraction_of_int MustDecimal_def)

lemma canonical_fractions [simp]: "canonical_text fraction_lib (fraction x)"
  unfolding canonical_fraction by blast

section \<open>Ratios and reconciliations\<close>

text \<open>
  The ratios of the engine never divide by a number that is not positive: a result means that
  the denominator is positive, and is the rounded quotient; a denominator that is zero or negative
  is an error, the one that names it.
\<close>

theorem ratios_guard_their_denominator:
  assumes "decimal_laws L num rnd" and "canonical_text L numerator" and "canonical_text L denominator"
  shows "(num denominator \<le> 0 \<longrightarrow>
      positiveDenominatorRatio L numerator denominator name = Inl (ErrorsNew (name @ '' must be positive''))) \<and>
    (\<forall>result. positiveDenominatorRatio L numerator denominator name = Inr result \<longrightarrow>
      0 < num denominator \<and> num result = rnd (num numerator / num denominator))"
  using sign_num(2) [OF assms(1,3) literals_num(5) [OF assms(1)]] result_num(4) [OF assms] literals_num [OF assms(1)]
  by (auto simp: positiveDenominatorRatio_def not_le split: if_splits)

theorem ratios_guard_their_denominator_witness:
  "positiveDenominatorRatio fraction_lib (fraction 3) (fraction 2) ''shares'' = Inr (fraction (3 / 2)) \<and>
   0 < fraction_value (fraction 2) \<and> fraction_value (fraction (3 / 2)) = fraction_value (fraction 3) / fraction_value (fraction 2)"
proof -
  have "positiveDenominatorRatio fraction_lib (fraction 3) (fraction 2) ''shares'' = Inr (fraction (3 / 2))"
    by (simp add: positiveDenominatorRatio_def fraction_calculus)
  moreover from this have "0 < fraction_value (fraction 2) \<and>
      fraction_value (fraction (3 / 2)) = fraction_value (fraction 3) / fraction_value (fraction 2)"
    using ratios_guard_their_denominator [OF fraction_laws, of "fraction 3" "fraction 2" "''shares''"]
    by simp
  ultimately show ?thesis by simp
qed

text \<open>
  The identity of a balance sheet holds within the tolerance exactly if the rounded difference
  of the assets and the rounded sum of liabilities and equity is within it.
\<close>

theorem balance_sheets_reconcile:
  assumes "decimal_laws L num rnd" and "list_all (canonical_text L) [assets, liabilities, equity, tolerance]"
    and "BalanceSheetIdentity L assets liabilities equity tolerance = Inr result"
  shows "0 \<le> num tolerance \<and> num (bsr_difference result) = rnd (num assets - rnd (num liabilities + num equity)) \<and>
    (bsr_within_tolerance result \<longleftrightarrow> rnd \<bar>num (bsr_difference result)\<bar> \<le> num tolerance)"
proof -
  obtain right difference distance c where steps: "add L liabilities equity = Inr right"
    "subtract L assets right = Inr difference" "absolute L difference = Inr distance"
    "compare L distance tolerance = Inr c" "\<not> (case compare L tolerance (dec_zero L) of Inl _ \<Rightarrow> True | Inr sign \<Rightarrow> sign < 0)"
    and result: "result = \<lparr>bsr_difference = difference, bsr_within_tolerance = (c \<le> 0)\<rparr>"
    using assms(3) unfolding BalanceSheetIdentity_def by (auto split: if_splits)
  have canonical: "canonical_text L assets" "canonical_text L liabilities" "canonical_text L equity" "canonical_text L tolerance"
    "canonical_text L right" "canonical_text L difference" "canonical_text L distance"
    using assms(2) result_canonical steps(1-3) by auto
  have "num difference = rnd (num assets - rnd (num liabilities + num equity))"
    using result_num(2) [OF assms(1) canonical(1,5) steps(2)] result_num(1) [OF assms(1) canonical(2,3) steps(1)] by simp
  moreover have "num distance = rnd \<bar>num difference\<bar>" by (rule result_num(6) [OF assms(1) canonical(6) canonical(6) steps(3)])
  moreover have "c \<le> 0 \<longleftrightarrow> num distance \<le> num tolerance"
    using sign_num(2) [OF assms(1) canonical(7,4)] steps(4) by (simp add: sign_of_def)
  moreover have "0 \<le> num tolerance"
  proof -
    have "\<not> sign_of L tolerance ''0'' < 0"
      using steps(5) literals_num(1) [OF assms(1)] by (auto simp: sign_of_def split: sum.splits)
    then show ?thesis
      using sign_num(1) [OF assms(1) canonical(4) literals_num(5) [OF assms(1)]] literals_num(3) [OF assms(1)] by simp
  qed
  ultimately show ?thesis by (simp add: result)
qed

theorem balance_sheets_reconcile_witness:
  "bsr_within_tolerance \<lparr>bsr_difference = fraction 1, bsr_within_tolerance = True\<rparr> \<and>
   \<bar>fraction_value (fraction 1)\<bar> \<le> fraction_value (fraction 2)"
proof -
  have "BalanceSheetIdentity fraction_lib (fraction 10) (fraction 6) (fraction 3) (fraction 2) =
      Inr \<lparr>bsr_difference = fraction 1, bsr_within_tolerance = True\<rparr>"
    by (simp add: BalanceSheetIdentity_def fraction_calculus)
  moreover have "list_all (canonical_text fraction_lib) [fraction 10, fraction 6, fraction 3, fraction 2]"
    by simp
  ultimately show ?thesis
    using balance_sheets_reconcile [OF fraction_laws, of "fraction 10" "fraction 6" "fraction 3" "fraction 2"
        "\<lparr>bsr_difference = fraction 1, bsr_within_tolerance = True\<rparr>"] by simp
qed

section \<open>Discounted cash flows grow with the growth\<close>

lemma growing_perpetuity_num:
  assumes "decimal_laws L num rnd" and "canonical_text L flow" and "canonical_text L rate" and "canonical_text L growth"
    and "growing_perpetuity L flow rate growth = Inr n"
  shows "canonical_text L n"
    and "num n = rnd (rnd (num flow * rnd (1 + num growth)) / rnd (num rate - num growth))"
proof -
  obtain onePlusGrowth terminalFlow spread where steps: "add L (dec_one L) growth = Inr onePlusGrowth"
    "multiply L flow onePlusGrowth = Inr terminalFlow" "subtract L rate growth = Inr spread"
    "divide L terminalFlow spread = Inr n"
    using assms(5) unfolding growing_perpetuity_def by auto
  note canonical = result_canonical(1) [OF steps(1)] result_canonical(3) [OF steps(2)] result_canonical(2) [OF steps(3)]
  show "canonical_text L n" by (rule result_canonical(4) [OF steps(4)])
  have "num onePlusGrowth = rnd (1 + num growth)"
    using result_num(1) [OF assms(1) literals_num(6) [OF assms(1)] assms(4)] steps(1) literals_num [OF assms(1)] by simp
  then show "num n = rnd (rnd (num flow * rnd (1 + num growth)) / rnd (num rate - num growth))"
    using result_num(4) [OF assms(1) canonical(2,3) steps(4)] result_num(3) [OF assms(1,2) canonical(1) steps(2)]
      result_num(2) [OF assms(1,3,4) steps(3)] by simp
qed

lemma map_sum_eq_Inr:
  assumes "map_sum f g z = Inr y"
  obtains x where "z = Inr x" and "g x = y"
  using assms by (cases z) auto

lemma quotient_mono:
  fixes a b c d :: rat
  assumes "0 \<le> a" and "a \<le> b" and "0 < d" and "d \<le> c"
  shows "a / c \<le> b / d"
  using assms by (intro frac_le) simp_all

lemma perpetuity_mono:
  assumes laws: "decimal_laws L num rnd" and canonical: "canonical_text L flow" "canonical_text L rate"
    "canonical_text L growth" "canonical_text L growth'"
    and growth: "- 1 \<le> num growth" "num growth \<le> num growth'" "num growth' < num rate"
    and results: "growing_perpetuity L flow rate growth = Inr n" "growing_perpetuity L flow rate growth' = Inr n'"
  shows "0 \<le> num flow \<Longrightarrow> num n \<le> num n'" and "num flow \<le> 0 \<Longrightarrow> num n' \<le> num n"
proof -
  note mono = rounding_mono [OF laws] and signs = rounding_signs [OF laws]
  note nums = growing_perpetuity_num(2) [OF laws canonical(1,2,3) results(1)] growing_perpetuity_num(2) [OF laws canonical(1,2,4) results(2)]
  have spreads: "0 < rnd (num rate - num growth')" "rnd (num rate - num growth') \<le> rnd (num rate - num growth)"
    using growth by (simp_all add: signs mono)
  have factors: "0 \<le> rnd (1 + num growth)" "rnd (1 + num growth) \<le> rnd (1 + num growth')"
    using growth by (simp_all add: signs mono)
  show "num n \<le> num n'" if flow: "0 \<le> num flow"
    unfolding nums
    by (rule mono [OF quotient_mono [OF _ _ spreads]]) (use flow factors in \<open>simp_all add: signs mono mult_left_mono\<close>)
  show "num n' \<le> num n" if flow: "num flow \<le> 0"
  proof -
    have "num flow * rnd (1 + num growth) \<le> 0" using flow factors by (simp add: mult_nonpos_nonneg)
    then have "rnd (num flow * rnd (1 + num growth)) \<le> 0" using signs(1) [of "num flow * rnd (1 + num growth)"] by linarith
    moreover have "rnd (num flow * rnd (1 + num growth')) \<le> rnd (num flow * rnd (1 + num growth))"
      by (rule mono, rule mult_left_mono_neg) (use flow factors in simp_all)
    ultimately have "- rnd (num flow * rnd (1 + num growth)) / rnd (num rate - num growth) \<le>
        - rnd (num flow * rnd (1 + num growth')) / rnd (num rate - num growth')"
      using spreads by (intro quotient_mono) simp_all
    then show ?thesis unfolding nums by (intro mono) simp
  qed
qed

lemma FCFFDCF_Inr:
  assumes "decimal_laws L num rnd" and "canonical_text L rate" and "canonical_text L growth"
    and "FCFFDCF L forecast rate growth = Inr result"
  shows "\<exists>onePlusRate explicit presentValues terminalValue terminalPeriod terminalFactor terminalPresent.
    forecast \<noteq> [] \<and> num growth < num rate \<and> add L (dec_one L) rate = Inr onePlusRate \<and>
    present_values L onePlusRate False 0 (dec_zero L) forecast = Inr (explicit, presentValues) \<and>
    growing_perpetuity L (last forecast) rate growth = Inr terminalValue \<and>
    MustDecimal L (itoa (int (length forecast))) = Inr terminalPeriod \<and>
    power L onePlusRate terminalPeriod = Inr terminalFactor \<and>
    divide L terminalValue terminalFactor = Inr terminalPresent \<and>
    add L explicit terminalPresent = Inr (dcf_enterprise_value result)"
proof -
  have "\<not> sign_of L rate growth \<le> 0" using assms(4) by (auto simp: FCFFDCF_def)
  then have "num growth < num rate" using sign_num(2) [OF assms(1-3)] by simp
  with assms(4) show ?thesis by (auto simp: FCFFDCF_def)
qed

lemma present_values_canonical:
  assumes "present_values L onePlusRate midYear index explicit forecast = Inr (result, presents)" and "canonical_text L explicit"
  shows "canonical_text L result"
  using assms
proof (induction forecast arbitrary: index explicit presents)
  case (Cons flow forecast)
  then show ?case by (auto dest: result_canonical)
qed simp

text \<open>The enterprise value moves as the value of the perpetuity does.\<close>

lemma value_follows_perpetuity:
  assumes laws: "decimal_laws L num rnd"
    and canonical: "canonical_text L (last forecast)" "canonical_text L rate" "canonical_text L growth" "canonical_text L growth'"
    and results: "FCFFDCF L forecast rate growth = Inr result" "FCFFDCF L forecast rate growth' = Inr result'" and "- 1 < num rate"
  obtains terminal terminal' where "num growth' < num rate"
    "growing_perpetuity L (last forecast) rate growth = Inr terminal"
    "growing_perpetuity L (last forecast) rate growth' = Inr terminal'"
    "num terminal \<le> num terminal' \<Longrightarrow> num (dcf_enterprise_value result) \<le> num (dcf_enterprise_value result')"
    "num terminal' \<le> num terminal \<Longrightarrow> num (dcf_enterprise_value result') \<le> num (dcf_enterprise_value result)"
proof -
  note mono = rounding_mono [OF laws] and signs = rounding_signs [OF laws] and literals = literals_num [OF laws]
  obtain onePlusRate explicit presents terminal period factor present where steps:
    "add L (dec_one L) rate = Inr onePlusRate" "present_values L onePlusRate False 0 (dec_zero L) forecast = Inr (explicit, presents)"
    "growing_perpetuity L (last forecast) rate growth = Inr terminal" "MustDecimal L (itoa (int (length forecast))) = Inr period"
    "power L onePlusRate period = Inr factor" "divide L terminal factor = Inr present"
    "add L explicit present = Inr (dcf_enterprise_value result)"
    using FCFFDCF_Inr [OF laws canonical(2,3) results(1)] by blast
  obtain terminal' present' where steps': "num growth' < num rate"
    "growing_perpetuity L (last forecast) rate growth' = Inr terminal'" "divide L terminal' factor = Inr present'"
    "add L explicit present' = Inr (dcf_enterprise_value result')"
    using FCFFDCF_Inr [OF laws canonical(2,4) results(2)] steps by auto
  have explicit: "canonical_text L explicit"
    using present_values_canonical [OF steps(2)] literals by simp
  note one = result_canonical(1) [OF steps(1)] and period = must_canonical [OF steps(4)]
  have "num onePlusRate = rnd (1 + num rate)"
    using result_num(1) [OF laws literals(6) canonical(2)] steps(1) literals by simp
  then have "0 < num onePlusRate" using signs(1) [of "1 + num rate"] assms(8) by simp
  then have factor: "0 < num factor" by (rule result_num(5) [OF laws one period steps(5)])
  note divided = result_num(4) [OF laws growing_perpetuity_num(1) [OF laws canonical(1-3) steps(3)] result_canonical(5) [OF steps(5)] steps(6)]
    result_num(4) [OF laws growing_perpetuity_num(1) [OF laws canonical(1,2,4) steps'(2)] result_canonical(5) [OF steps(5)] steps'(3)]
  note summed = result_num(1) [OF laws explicit result_canonical(4) [OF steps(6)] steps(7)]
    result_num(1) [OF laws explicit result_canonical(4) [OF steps'(3)] steps'(4)]
  show thesis
    by (rule that [OF steps'(1) steps(3) steps'(2)])
      (use divided factor in \<open>simp_all add: summed mono divide_right_mono\<close>)
qed

text \<open>
  C18: The enterprise value follows the terminal growth: for canonical arguments of a decimal library
  whose results are rounded exact results, a discount rate above minus one and a growth of at least
  minus one, more growth never gives less value if the last flow of the forecast is not negative, and
  never gives more value if it is not positive. Rounding does not break this. The first half is the
  monotonicity that halving the interval in \<open>ReverseDCF\<close> relies on.
\<close>

theorem more_growth_is_more_value:
  assumes laws: "decimal_laws L num rnd"
    and canonical: "canonical_text L (last forecast)" "canonical_text L rate" "canonical_text L growth" "canonical_text L growth'"
    and results: "FCFFDCF L forecast rate growth = Inr result" "FCFFDCF L forecast rate growth' = Inr result'"
    and "- 1 < num rate" and "- 1 \<le> num growth" and "num growth \<le> num growth'"
  shows "(0 \<le> num (last forecast) \<longrightarrow> num (dcf_enterprise_value result) \<le> num (dcf_enterprise_value result')) \<and>
    (num (last forecast) \<le> 0 \<longrightarrow> num (dcf_enterprise_value result') \<le> num (dcf_enterprise_value result))"
proof -
  obtain terminal terminal' where terminal: "num growth' < num rate"
    "growing_perpetuity L (last forecast) rate growth = Inr terminal"
    "growing_perpetuity L (last forecast) rate growth' = Inr terminal'"
    and follows: "num terminal \<le> num terminal' \<Longrightarrow> num (dcf_enterprise_value result) \<le> num (dcf_enterprise_value result')"
    "num terminal' \<le> num terminal \<Longrightarrow> num (dcf_enterprise_value result') \<le> num (dcf_enterprise_value result)"
    using value_follows_perpetuity [OF laws canonical results assms(8)] by blast
  note perpetuity_mono [OF laws canonical assms(9,10) terminal]
  with follows show ?thesis by blast
qed

theorem more_growth_is_more_value_witness:
  "(fraction_value (fraction 1000) \<le> fraction_value (fraction 2000)) \<and>
   map_sum (\<lambda>err. err) dcf_enterprise_value (FCFFDCF fraction_lib [fraction 100] (fraction (1 / 10)) (fraction (1 / 20))) =
     Inr (fraction 2000)"
proof -
  have values_of:
    "map_sum (\<lambda>err. err) dcf_enterprise_value (FCFFDCF fraction_lib [fraction 100] (fraction (1 / 10)) (fraction 0)) = Inr (fraction 1000)"
    "map_sum (\<lambda>err. err) dcf_enterprise_value (FCFFDCF fraction_lib [fraction 100] (fraction (1 / 10)) (fraction (1 / 20))) =
      Inr (fraction 2000)"
    by (simp_all add: check_then_def FCFFDCF_def growing_perpetuity_def rate_floor_def fraction_literals fraction_calculus)
  obtain low high where dcf: "FCFFDCF fraction_lib [fraction 100] (fraction (1 / 10)) (fraction 0) = Inr low"
    "dcf_enterprise_value low = fraction 1000"
    "FCFFDCF fraction_lib [fraction 100] (fraction (1 / 10)) (fraction (1 / 20)) = Inr high" "dcf_enterprise_value high = fraction 2000"
    using values_of by (auto elim!: map_sum_eq_Inr)
  have "fraction_value (dcf_enterprise_value low) \<le> fraction_value (dcf_enterprise_value high)"
    using more_growth_is_more_value [OF fraction_laws _ canonical_fractions canonical_fractions canonical_fractions dcf(1,3)] by simp
  with dcf values_of show ?thesis by simp
qed

section \<open>Inverses\<close>

definition solves :: "'d decimal_lib \<Rightarrow> (Decimal \<Rightarrow> go_error + Decimal) \<Rightarrow> Decimal \<Rightarrow> Decimal \<Rightarrow> Decimal \<Rightarrow> bool" where
  "solves L valueAt target tolerance d \<longleftrightarrow>
     (\<exists>enterprise difference. valueAt d = Inr enterprise \<and> subtract L enterprise target = Inr difference \<and>
        sign_of L (or_empty (absolute L difference)) tolerance \<le> 0)"

lemma bisect_outcome:
  "bisect L valueAt target tolerance increasing low high iteration left = Inr result \<Longrightarrow>
    (if rer_converged result then iteration \<le> rer_iterations result \<and> rer_iterations result < iteration + int left \<and>
        solves L valueAt target tolerance (rer_implied_value result)
     else rer_iterations result = iteration + int left - 1)"
proof (induction left arbitrary: low high iteration)
  case (Suc left)
  show ?case
    using Suc.prems Suc.IH by (fastforce simp: solves_def split: if_splits)
qed auto

lemma reverse_dcf_outcome:
  "reverse_dcf L forecast rate target tolerance two low high iteration left = Inr result \<Longrightarrow>
    (if rdr_converged result then iteration \<le> rdr_iterations result \<and> rdr_iterations result < iteration + int left \<and>
        (\<exists>dcf difference distance. FCFFDCF L forecast rate (rdr_implied_growth result) = Inr dcf \<and>
           subtract L (dcf_enterprise_value dcf) target = Inr difference \<and> absolute L difference = Inr distance \<and>
           sign_of L distance tolerance \<le> 0 \<and> canonical_text L (rdr_implied_growth result))
     else rdr_iterations result = iteration + int left - 1)"
proof (induction left arbitrary: low high iteration)
  case (Suc left)
  show ?case
    using Suc.prems Suc.IH by (fastforce split: if_splits dest: result_canonical)
qed auto

text \<open>
  C17: Looking for the growth that explains a price ends within the iterations it was given, and an
  answer that claims to have converged is one: the discounted cash flows at the implied growth give a
  value whose rounded distance from the target is within the tolerance. Without convergence all the
  iterations were used.
\<close>

theorem implied_growth_explains_the_target:
  assumes "decimal_laws L num rnd" and "canonical_text L target" and "canonical_text L tolerance" and "canonical_text L rate"
    and "ReverseDCF L target base rate years tolerance iterations = Inr result"
  shows "0 < years \<and> 0 < num target \<and>
    (if rdr_converged result then
       1 \<le> rdr_iterations result \<and> rdr_iterations result \<le> iterations \<and>
       (\<exists>dcf. FCFFDCF L (replicate (nat years) base) rate (rdr_implied_growth result) = Inr dcf \<and>
          rnd \<bar>rnd (num (dcf_enterprise_value dcf) - num target)\<bar> \<le> num tolerance)
     else rdr_iterations result = iterations)"
proof -
  obtain two low high where bounds: "1 \<le> years" "1 \<le> iterations" "\<not> sign_of L target (dec_zero L) \<le> 0"
    and run: "reverse_dcf L (replicate (nat years) base) rate target tolerance two low high 1 (nat iterations) = Inr result"
    using assms(5) unfolding ReverseDCF_def by (auto simp: not_less split: if_splits)
  have positive: "0 < num target"
    using bounds(3) sign_num(2) [OF assms(1,2) literals_num(5) [OF assms(1)]] literals_num [OF assms(1)] by simp
  show ?thesis
  proof (cases "rdr_converged result")
    case True
    then obtain dcf difference distance where found:
      "FCFFDCF L (replicate (nat years) base) rate (rdr_implied_growth result) = Inr dcf"
      "subtract L (dcf_enterprise_value dcf) target = Inr difference" "absolute L difference = Inr distance"
      "sign_of L distance tolerance \<le> 0" "canonical_text L (rdr_implied_growth result)"
      and within: "1 \<le> rdr_iterations result" "rdr_iterations result < 1 + int (nat iterations)"
      using reverse_dcf_outcome [OF run] by auto
    have "canonical_text L (dcf_enterprise_value dcf)"
      using FCFFDCF_Inr [OF assms(1,4) found(5,1)] result_canonical(1) by blast
    then have "num difference = rnd (num (dcf_enterprise_value dcf) - num target)"
      by (rule result_num(2) [OF assms(1) _ assms(2) found(2)])
    moreover have "num distance = rnd \<bar>num difference\<bar>"
      using result_num(6) [OF assms(1) result_canonical(2) [OF found(2)] result_canonical(2) [OF found(2)] found(3)] .
    moreover have "num distance \<le> num tolerance"
      using sign_num(2) [OF assms(1) result_canonical(6) [OF found(3)] assms(3)] found(4) by simp
    ultimately show ?thesis using True bounds positive within found(1) by auto
  next
    case False
    then show ?thesis using reverse_dcf_outcome [OF run] bounds positive by simp
  qed
qed

theorem implied_growth_explains_the_target_witness:
  "\<exists>result dcf. ReverseDCF fraction_lib (fraction 200) (fraction 100) (fraction (1 / 10)) 1 (fraction 50) 5 = Inr result \<and>
     FCFFDCF fraction_lib [fraction 100] (fraction (1 / 10)) (rdr_implied_growth result) = Inr dcf \<and>
     \<bar>fraction_value (dcf_enterprise_value dcf) - fraction_value (fraction 200)\<bar> \<le> fraction_value (fraction 50)"
proof -
  have "map_sum (\<lambda>err. err) rdr_converged (ReverseDCF fraction_lib (fraction 200) (fraction 100) (fraction (1 / 10)) 1 (fraction 50) 5) =
      Inr True"
    by (simp add: check_then_def ReverseDCF_def eval_nat_numeral FCFFDCF_def growing_perpetuity_def rate_floor_def fraction_literals
        fraction_calculus or_empty_def)
  then obtain result where result: "ReverseDCF fraction_lib (fraction 200) (fraction 100) (fraction (1 / 10)) 1 (fraction 50) 5 = Inr result"
    "rdr_converged result"
    by (auto elim!: map_sum_eq_Inr)
  then show ?thesis
    using implied_growth_explains_the_target [OF fraction_laws _ _ _ result(1)] result by auto
qed

section \<open>Years that are negative\<close>

text \<open>
  A negative number of years is not an error of the margin a price implies: the forecast of the
  path is made with it, which panics.
\<close>

theorem negative_years_panic:
  "ReverseOperatingMargin fraction_lib (fraction 200) (fraction 100) (fraction 0) (fraction (1 / 4)) (fraction (1 / 2))
     (fraction (1 / 10)) (fraction 0) (- 1) 5 (fraction 1) = Inl (Panic ''makeslice: len out of range'')"
  by (simp add: ReverseOperatingMargin_def reverseFCFFAssumption_def eval_nat_numeral enterprise_of_path_def
      fcffFromRevenuePath_def fraction_literals fraction_calculus)

end
