(* ===== verification/Engine_Laws.thy ===== *)
theory Engine_Laws
  imports Engine_Outputs Finance_Laws
begin

text \<open>
  What the executor promises: a receipt it issues is governed by the registry, is verified by its
  own digest and copies the request; every call that returns gives a receipt or a failure, never
  both; the order in which Go visits the map of inputs does not change a receipt; and the switch of
  the operations covers the registry.
\<close>

section \<open>The registry of the engine\<close>

lemma RuntimeRegistry_eq: "RuntimeRegistry = Inr (tier0Operations @ financialIntelligenceOperations)"
  by (simp add: RuntimeRegistry_def NewCapabilityRegistry_runtime)

section \<open>Requests that are calculated\<close>

definition governed :: "Operation \<Rightarrow> EngineRequest \<Rightarrow> bool" where
  "governed operation request \<longleftrightarrow>
     op_operation_id operation = er_operation_id request \<and> er_requested_by request \<in> set (op_allowed_roles operation) \<and>
     er_engine_id request = op_engine operation \<and> er_formula_version request = op_formula_version operation \<and>
     er_precision_policy request = op_numerical_policy operation \<and>
     set (er_requested_outputs request) \<subseteq> set (op_outputs operation) \<and>
     list_all (has_input (er_inputs request)) (op_required_inputs operation)"

definition assumed :: "EngineInput \<Rightarrow> bool" where
  "assumed input \<longleftrightarrow> ei_status input = ''assumed''"

definition disclosed :: "Operation \<Rightarrow> EngineRequest \<Rightarrow> bool" where
  "disclosed operation request \<longleftrightarrow>
     (if op_assumptions_allowed operation then list_ex assumed (er_inputs request) \<longrightarrow> er_assumptions request \<noteq> []
      else er_assumptions request = [] \<and> \<not> list_ex assumed (er_inputs request))"

definition available :: "EngineRequest \<Rightarrow> EngineInput \<Rightarrow> bool" where
  "available request input \<longleftrightarrow>
     (case qt_as_of (ei_quantity input) of None \<Rightarrow> True | Some t \<Rightarrow> \<not> time_after t (sc_as_of (er_scope request)))"

lemma newInputSet_Inr: "newInputSet L inputs = Inr xs \<Longrightarrow> xs = inputs"
  by (simp add: newInputSet_def split: option.splits)

lemma range_fail_None: "range_err (\<lambda>_ x. fail_if (P x) (e x)) xs = None \<longleftrightarrow> list_all (\<lambda>x. \<not> P x) xs"
  unfolding list_all_iff by (rule range_err_None_uniform) (simp add: fail_if_def)

lemma check_assumptions_None: "check_assumptions operation request = None \<Longrightarrow> disclosed operation request"
  by (auto simp: check_assumptions_def disclosed_def assumed_def range_fail_None list_all_iff list_ex_iff split: if_splits)

lemma check_request_None:
  "check_request L operation request = None \<Longrightarrow> er_engine_id request = op_engine operation \<and>
    er_formula_version request = op_formula_version operation \<and> er_precision_policy request = op_numerical_policy operation \<and>
    set (er_requested_outputs request) \<subseteq> set (op_outputs operation) \<and> disclosed operation request"
  by (auto simp: check_request_def fail_if_def range_err_None_uniform [where P = "\<lambda>x. x \<in> set (op_outputs operation)"]
      check_assumptions_None split: if_splits)

lemma check_inputs_None:
  assumes "check_inputs visiting operation request inputs = None"
  shows "list_all (has_input inputs) (op_required_inputs operation)"
    and "list_all (available request) (er_inputs request)"
    and "list_all (\<lambda>input. inputBase (ei_input_id input) \<in> set (op_required_inputs operation) \<or>
      inputBase (ei_input_id input) = ''ddof'') (visiting inputs)"
    and "check_currencies [] (visiting inputs) = None"
  using assms by (simp_all add: check_inputs_def range_fail_None available_def validateMetadata_def not_le list_all_iff
      split: option.splits)

lemma calculate_Inr:
  assumes "calculate executor request = Inr result"
  obtains operation where "operation \<in> set (tier0Operations @ financialIntelligenceOperations)" and "governed operation request"
    and "disclosed operation request"
    and "list_all (available request) (er_inputs request)" and "ValidateEngineRequest (ex_apd executor) request = None"
    and "dispatch_request executor request (er_inputs request) = Inr result"
proof -
  let ?registry = "tier0Operations @ financialIntelligenceOperations"
  obtain operation inputs where found: "GetOperation ?registry (er_operation_id request) = Some operation"
    "Authorizes ?registry (er_requested_by request) (er_operation_id request)"
    "check_request (ex_decimal executor) operation request = None"
    "newInputSet (ex_decimal executor) (er_inputs request) = Inr inputs"
    "check_inputs (ex_visiting executor) operation request inputs = None"
    "dispatch_request executor request inputs = Inr result" "ValidateEngineRequest (ex_apd executor) request = None"
    using assms unfolding calculate_def RuntimeRegistry_eq by (auto split: option.splits sum.splits if_splits)
  have "operation \<in> set ?registry \<and> op_operation_id operation = er_operation_id request"
    using found(1) unfolding GetOperation_def by (rule index_by_Some)
  moreover have "er_requested_by request \<in> set (op_allowed_roles operation)"
    using found(1,2) by (simp add: Authorizes_def GetOperation_def)
  moreover note check_request_None [OF found(3)] newInputSet_Inr [OF found(4)] check_inputs_None [OF found(5)] found(6,7)
  ultimately show thesis using that unfolding governed_def by blast
qed

section \<open>Receipts\<close>

definition copies :: "CalculationReceipt \<Rightarrow> EngineRequest \<Rightarrow> bool" where
  "copies receipt request \<longleftrightarrow>
     cr_request_id receipt = er_request_id request \<and> cr_operation_id receipt = er_operation_id request \<and>
     cr_engine_id receipt = er_engine_id request \<and> cr_formula_version receipt = er_formula_version request \<and>
     cr_tolerance_policy receipt = er_precision_policy request \<and> cr_scope receipt = er_scope request \<and>
     cr_normalized_inputs receipt = er_inputs request \<and> cr_assumptions receipt = er_assumptions request \<and>
     cr_status receipt = ReceiptSuccess \<and> list_all iv_passed (cr_invariant_results receipt) \<and> cr_outputs receipt \<noteq> []"

lemma Execute_receipt:
  assumes "Execute executor request = Inr result" and "egr_receipt result = Some receipt"
  obtains outputs invariants warnings inputSHA receiptHash where
    "calculate executor request = Inr (outputs, invariants, warnings)"
    and "ex_hash_request executor request = Inr inputSHA"
    and "receiptDigest executor (receipt_of executor request inputSHA outputs invariants warnings) = Inr receiptHash"
    and "receipt = (receipt_of executor request inputSHA outputs invariants warnings)\<lparr>cr_receipt_sha256 := receiptHash\<rparr>"
    and "ValidateCalculationReceipt (ex_apd executor) receipt = None"
proof -
  obtain outputs invariants warnings where calculated: "calculate executor request = Inr (outputs, invariants, warnings)"
    using assms by (auto simp: Execute_def refused_def split: sum.splits go_error.splits)
  obtain inputSHA where hashed: "ex_hash_request executor request = Inr inputSHA"
    using assms calculated by (auto simp: Execute_def refused_def split: sum.splits)
  let ?receipt = "receipt_of executor request inputSHA outputs invariants warnings"
  obtain receiptHash where digest: "receiptDigest executor ?receipt = Inr receiptHash"
    using assms calculated hashed by (auto simp: Execute_def refused_def Let_def split: sum.splits)
  have "receipt = ?receipt\<lparr>cr_receipt_sha256 := receiptHash\<rparr> \<and> ValidateCalculationReceipt (ex_apd executor) receipt = None"
    using assms calculated hashed digest by (auto simp: Execute_def refused_def Let_def split: option.splits)
  with that calculated hashed digest show thesis by blast
qed

lemma successful_receipt:
  assumes "ValidateCalculationReceipt L receipt = None" and "cr_status receipt = ReceiptSuccess"
  shows "cr_outputs receipt \<noteq> [] \<and> list_all iv_passed (cr_invariant_results receipt)"
proof -
  have "first_err
      [fail_if (cr_outputs receipt = []) (ErrorsNew ''successful receipt requires outputs''),
       range_err (\<lambda>_ invariant. fail_if (\<not> iv_passed invariant)
         (Errorf ''successful receipt has failed invariant %q'' [FStr (iv_invariant_id invariant)]))
         (cr_invariant_results receipt)] = None"
    using assms unfolding ValidateCalculationReceipt_def first_err_Cons_None by simp
  then show ?thesis by (simp add: range_fail_None)
qed

lemma receiptDigest_update: "receiptDigest executor (receipt\<lparr>cr_receipt_sha256 := h\<rparr>) = receiptDigest executor receipt"
  by (simp add: receiptDigest_def)

lemma copies_request:
  assumes "Execute executor request = Inr result" and "egr_receipt result = Some receipt"
  shows "copies receipt request"
proof (rule Execute_receipt [OF assms])
  fix outputs invariants warnings inputSHA receiptHash
  assume receipt: "receipt = (receipt_of executor request inputSHA outputs invariants warnings)\<lparr>cr_receipt_sha256 := receiptHash\<rparr>"
    and valid: "ValidateCalculationReceipt (ex_apd executor) receipt = None"
  have status: "cr_status receipt = ReceiptSuccess" by (simp add: receipt receipt_of_def)
  have "cr_outputs receipt \<noteq> [] \<and> list_all iv_passed (cr_invariant_results receipt)"
    by (rule successful_receipt [OF valid status])
  with status show ?thesis unfolding copies_def by (simp add: receipt) (simp add: receipt_of_def)
qed

text \<open>The outputs of a calculation are those of the case of its operation.\<close>

lemma calculated_outputs:
  assumes "dispatch_request executor request inputs = Inr (outputs, invariants, warnings)"
    and "operation \<in> set (tier0Operations @ financialIntelligenceOperations)"
    and "op_operation_id operation = er_operation_id request"
  shows "set (op_outputs operation) - {''warnings''} \<subseteq> {outputID. delivers outputs outputID}"
proof -
  obtain cased where "dispatch (ex_decimal executor) (ex_visiting executor) (ex_sort_floats executor) (op_operation_id operation) inputs =
      Inr (outputs, cased, warnings)"
    using assms(1,3) by (auto simp: dispatch_request_def split: sum.splits)
  with operations_deliver [OF assms(2), of "ex_decimal executor" "ex_visiting executor" "ex_sort_floats executor" inputs]
  have "list_all (delivers outputs) (promised operation)" by (simp add: emits_def)
  then show ?thesis by (auto simp: promised_def list_all_iff)
qed

text \<open>
  C13: A receipt that the engine issues is governed: its operation is registered, the requesting
  role is allowed it, and the receipt carries the engine, the formula version and the numerical
  policy of the registry; every requested output is registered, and every registered output but
  \<open>warnings\<close> is in the receipt, by its name or as a numbered series; every required input is there and none is later than the scope; assumptions are disclosed
  where they are allowed and absent where not. The receipt copies the request, all its invariants
  passed, and \<open>VerifyReceipt\<close> accepts it. It may hold outputs beside the registered ones.
\<close>

theorem issued_receipts_are_governed:
  assumes "Execute executor request = Inr result" and "egr_receipt result = Some receipt"
  shows "VerifyReceipt (ex_apd executor) (receiptDigest executor) receipt = None \<and> copies receipt request \<and>
    (\<exists>operation. operation \<in> set (tier0Operations @ financialIntelligenceOperations) \<and>
       governed operation request \<and> disclosed operation request \<and>
       cr_engine_id receipt = op_engine operation \<and> cr_formula_version receipt = op_formula_version operation \<and>
       cr_tolerance_policy receipt = op_numerical_policy operation \<and>
       set (op_outputs operation) - {''warnings''} \<subseteq> {outputID. delivers (cr_outputs receipt) outputID}) \<and>
    list_all (available request) (er_inputs request)"
proof -
  obtain outputs invariants warnings inputSHA receiptHash where steps:
    "calculate executor request = Inr (outputs, invariants, warnings)" "ex_hash_request executor request = Inr inputSHA"
    "receiptDigest executor (receipt_of executor request inputSHA outputs invariants warnings) = Inr receiptHash"
    "receipt = (receipt_of executor request inputSHA outputs invariants warnings)\<lparr>cr_receipt_sha256 := receiptHash\<rparr>"
    "ValidateCalculationReceipt (ex_apd executor) receipt = None"
    by (rule Execute_receipt [OF assms])
  have "VerifyReceipt (ex_apd executor) (receiptDigest executor) receipt = None"
    unfolding VerifyReceipt_def steps(5) using steps(3) by (simp add: steps(4) receiptDigest_update)
  moreover have copy: "copies receipt request" by (rule copies_request [OF assms])
  moreover obtain operation where operation: "operation \<in> set (tier0Operations @ financialIntelligenceOperations)"
    "governed operation request" "disclosed operation request"
    and inputs: "list_all (available request) (er_inputs request)"
    and dispatched: "dispatch_request executor request (er_inputs request) = Inr (outputs, invariants, warnings)"
    by (rule calculate_Inr [OF steps(1)])
  moreover have "cr_outputs receipt = outputs" by (simp add: steps(4) receipt_of_def)
  then have "set (op_outputs operation) - {''warnings''} \<subseteq> {outputID. delivers (cr_outputs receipt) outputID}"
    using calculated_outputs [OF dispatched operation(1)] operation(2) by (simp add: governed_def)
  moreover have "cr_engine_id receipt = op_engine operation" "cr_formula_version receipt = op_formula_version operation"
    "cr_tolerance_policy receipt = op_numerical_policy operation"
    using copy operation(2) by (simp_all add: copies_def governed_def)
  ultimately show ?thesis by (intro conjI exI [of _ operation])
qed

section \<open>Receipts or failures\<close>

text \<open>
  C15: A call that returns gives a receipt or a failure and never both, and only a panic of a
  formula leaves the call. A failure names the run and the step, is never to be retried and carries
  one of the documented codes, or the internal one.
\<close>

theorem execute_answers_once:
  "case Execute executor request of
     Inl err \<Rightarrow> (\<exists>s. err = Panic s \<and> calculate executor request = Inl err)
   | Inr result \<Rightarrow>
       (egr_receipt result = None) \<noteq> (egr_failure result = None) \<and>
       (case egr_failure result of None \<Rightarrow> True
        | Some refusal \<Rightarrow> fr_run_id refusal = er_run_id request \<and> fr_step_id refusal = er_step_id request \<and>
            \<not> fr_retryable refusal \<and> fr_failure_code refusal \<in> set (''internal_error'' # failure_codes))"
proof -
  have code: "classifyFailure err \<in> set failure_codes" for err
  proof (cases "find (has_code err) failure_codes")
    case None
    then show ?thesis by (simp add: classifyFailure_def failure_codes_def)
  next
    case (Some code)
    then have "code \<in> set failure_codes" unfolding find_Some_iff by auto
    with Some show ?thesis by (simp add: classifyFailure_def)
  qed
  then show ?thesis
    by (auto simp: Execute_def refused_def engine_failure_def Let_def split: sum.splits go_error.splits option.splits)
qed

section \<open>The order of the inputs\<close>

definition permuting :: "('a list \<Rightarrow> 'a list) \<Rightarrow> bool" where
  "permuting visiting \<longleftrightarrow> (\<forall>xs. mset (visiting xs) = mset xs)"

definition agree :: "go_error + 'a \<Rightarrow> go_error + 'a \<Rightarrow> bool" where
  "agree r r' \<longleftrightarrow> (\<forall>x. r = Inr x \<longleftrightarrow> r' = Inr x)"

lemma agree_refl [intro, simp]: "agree r r"
  by (simp add: agree_def)

lemma agree_bind [intro]: "agree r r' \<Longrightarrow> (\<And>x. agree (f x) (f' x)) \<Longrightarrow> agree (res_bind r f) (res_bind r' f')"
proof -
  assume r: "agree r r'" and f: "\<And>x. agree (f x) (f' x)"
  show "agree (res_bind r f) (res_bind r' f')"
  proof (cases r)
    case (Inl err)
    with r have "isl r'" unfolding agree_def by (metis old.sum.exhaust sum.disc(1) sum.distinct(1))
    with Inl show ?thesis by (auto simp: agree_def isl_def)
  next
    case (Inr x)
    with r have "r' = Inr x" unfolding agree_def by blast
    with Inr f [of x] show ?thesis by simp
  qed
qed

lemma agree_check [intro]: "(c = None \<longleftrightarrow> c' = None) \<Longrightarrow> agree r r' \<Longrightarrow> agree (check_then c r) (check_then c' r')"
  by (auto simp: agree_def)

lemma map_res_total: "map_res f xs = Inr ys \<longleftrightarrow> list_all (\<lambda>x. \<not> isl (f x)) xs \<and> ys = map (\<lambda>x. projr (f x)) xs"
proof (induction xs arbitrary: ys)
  case (Cons x xs)
  then show ?case by (cases "f x") auto
qed auto

lemma permuting_set: "permuting visiting \<Longrightarrow> set (visiting xs) = set xs"
  unfolding permuting_def by (metis mset_eq_setD)

lemma permuting_mset: "permuting v \<Longrightarrow> permuting w \<Longrightarrow> mset (v xs) = mset (w xs)"
  by (simp add: permuting_def)

lemma series_Inr:
  assumes "permuting v" and "permuting w" and "series v inputs name = Inr ys"
  shows "series w inputs name = Inr ys"
proof -
  let ?P = "\<lambda>input. starts_with (ei_input_id input) (name @ ''.'')"
  obtain ms where ms: "map_res (series_member name) (filter ?P (v inputs)) = Inr ms" "ms \<noteq> []"
    "map fst (sort_key fst ms) = map int [0..<length ms]" "ys = map snd (sort_key fst ms)"
    using assms(3) by (auto simp: series_def Let_def split: if_splits)
  define ms' where "ms' = map (\<lambda>x. projr (series_member name x)) (filter ?P (w inputs))"
  have same: "mset (filter ?P (w inputs)) = mset (filter ?P (v inputs))"
    by (simp add: permuting_mset [OF assms(1,2)])
  have run: "map_res (series_member name) (filter ?P (w inputs)) = Inr ms'"
    using ms(1) mset_eq_setD [OF same] unfolding map_res_total ms'_def list_all_iff by simp
  have "ms = map (\<lambda>x. projr (series_member name x)) (filter ?P (v inputs))" using ms(1) by (simp add: map_res_total)
  then have mset: "mset ms' = mset ms" by (simp add: ms'_def same del: mset_filter)
  have "distinct (map fst (sort_key fst ms))" unfolding ms(3) by (simp add: distinct_map)
  then have "inj_on fst (set ms')" using mset_eq_setD [OF mset] by (simp add: distinct_map)
  then have sorted: "sort_key fst ms' = sort_key fst ms"
    using mset by (intro sort_key_inj_key_eq) simp_all
  have "length ms' = length ms" using mset by (rule mset_eq_length)
  moreover from this ms(2) have "ms' \<noteq> []" by auto
  ultimately show ?thesis using run ms(3,4) by (simp add: series_def sorted)
qed

lemma series_agree [intro]:
  assumes "permuting v" and "permuting w"
  shows "agree (series v inputs name) (series w inputs name)"
  using series_Inr [OF assms] series_Inr [OF assms(2,1)] unfolding agree_def by blast

lemma typed_series_agree [intro]:
  assumes "permuting v" and "permuting w"
  shows "agree (decimalSeries L v inputs name) (decimalSeries L w inputs name)"
    and "agree (floatSeries v inputs name) (floatSeries w inputs name)"
  using assms unfolding decimalSeries_def floatSeries_def by blast+

section \<open>The tables in two orders\<close>

definition same_rows :: "(string \<times> dispatched) list \<Rightarrow> (string \<times> dispatched) list \<Rightarrow> bool" where
  "same_rows = list_all2 (\<lambda>(key, r) (key', r'). key = key' \<and> agree r r')"

lemma same_rows_refl [intro, simp]: "same_rows rows rows"
  unfolding same_rows_def by (induction rows) auto

lemma same_rows_append [intro]: "same_rows rows rows' \<Longrightarrow> same_rows rest rest' \<Longrightarrow> same_rows (rows @ rest) (rows' @ rest')"
  unfolding same_rows_def by (rule list_all2_appendI)

lemma same_rows_Cons [intro]: "agree r r' \<Longrightarrow> same_rows rows rows' \<Longrightarrow> same_rows ((key, r) # rows) ((key, r') # rows')"
  by (simp add: same_rows_def)

lemma same_rows_find:
  assumes "same_rows rows rows'"
  shows "agree (case map_of rows key of None \<Rightarrow> Inl err | Some r \<Rightarrow> r) (case map_of rows' key of None \<Rightarrow> Inl err | Some r \<Rightarrow> r)"
  using assms unfolding same_rows_def by induction auto

lemma visiting_cases:
  assumes "permuting v" and "permuting w"
  shows "same_rows (multistage_cases L v currency inputs) (multistage_cases L w currency inputs)"
    and "same_rows (statistics_cases v order inputs) (statistics_cases w order inputs)"
    and "same_rows (dcf_cases L v currency inputs) (dcf_cases L w currency inputs)"
    and "same_rows (market_cases v inputs) (market_cases w inputs)"
    and "same_rows (comparison_cases L v currency inputs) (comparison_cases L w currency inputs)"
proof -
  note series = typed_series_agree [OF assms] series_agree [OF assms]
  note rows = same_rows_Cons same_rows_refl agree_bind series agree_refl
  show "same_rows (multistage_cases L v currency inputs) (multistage_cases L w currency inputs)"
    unfolding multistage_cases_def multistage_case_def dividend_discount_case_def by (intro rows)
  show "same_rows (statistics_cases v order inputs) (statistics_cases w order inputs)"
    unfolding statistics_cases_def peer_statistics_case_def lagged_association_case_def by (intro rows)
  show "same_rows (dcf_cases L v currency inputs) (dcf_cases L w currency inputs)"
    unfolding dcf_cases_def fcff_dcf_case_def by (intro rows)
  show "same_rows (market_cases v inputs) (market_cases w inputs)"
    unfolding market_cases_def by (intro rows)
  show "same_rows (comparison_cases L v currency inputs) (comparison_cases L w currency inputs)"
    unfolding comparison_cases_def period_aligned_case_def sensitivity_case_def by (intro rows)
qed

lemma dispatch_agree:
  assumes "permuting v" and "permuting w"
  shows "agree (dispatch L v order operationID inputs) (dispatch L w order operationID inputs)"
  unfolding dispatch_def dispatch_cases_def Let_def
  by (intro same_rows_find same_rows_append same_rows_refl visiting_cases [OF assms])

section \<open>The checks in two orders\<close>

definition currency_of :: "EngineInput \<Rightarrow> string" where
  "currency_of input = qt_currency (ei_quantity input)"

lemma check_currencies_None:
  "check_currencies c xs = None \<longleftrightarrow>
    (\<exists>d. (c \<noteq> [] \<longrightarrow> d = c) \<and>
      (\<forall>x \<in> set xs. if is_money x then length (currency_of x) = 3 \<and> currency_of x = d else currency_of x = []))"
proof (induction xs arbitrary: c)
  case (Cons x xs)
  have nonempty: "length s = 3 \<Longrightarrow> s \<noteq> []" for s :: string by auto
  show ?case
    by (cases "is_money x"; cases "length (currency_of x) = 3"; cases "c = []")
      (auto simp: Cons.IH currency_of_def [of x] dest: nonempty)
qed auto

lemma check_periods_None:
  "check_periods p xs = None \<longleftrightarrow>
    (\<exists>d. (p \<noteq> [] \<longrightarrow> d = p) \<and> (\<forall>x \<in> set xs. qt_period (ei_quantity x) \<noteq> [] \<and> qt_period (ei_quantity x) = d))"
proof (induction xs arbitrary: p)
  case (Cons x xs)
  show ?case by (cases "qt_period (ei_quantity x) = []"; cases "p = []") (auto simp: Cons.IH)
qed auto

lemma validateUnits_None:
  "validateUnits v inputs operationID = None \<longleftrightarrow>
    (case map_of governedUnitRules operationID of None \<Rightarrow> True
     | Some unit_rules \<Rightarrow> \<forall>input \<in> set (v inputs).
         (case map_of unit_rules (inputBase (ei_input_id input)) of None \<Rightarrow> True
          | Some allowed \<Rightarrow> qt_unit (ei_quantity input) \<in> set allowed))"
  by (auto simp: validateUnits_def range_err_None_uniform [where P = "\<lambda>input.
      (case map_of unit_rules (inputBase (ei_input_id input)) of None \<Rightarrow> True
       | Some allowed \<Rightarrow> qt_unit (ei_quantity input) \<in> set allowed)" for unit_rules] split: option.splits)

lemma check_inputs_order:
  assumes "permuting v" and "permuting w"
  shows "check_inputs v operation request inputs = None \<longleftrightarrow> check_inputs w operation request inputs = None"
proof -
  have same: "set (v inputs) = set (w inputs)" by (simp add: permuting_set [OF assms(1)] permuting_set [OF assms(2)])
  have "check_currencies [] (v inputs) = None \<longleftrightarrow> check_currencies [] (w inputs) = None"
    "check_periods [] (v inputs) = None \<longleftrightarrow> check_periods [] (w inputs) = None"
    "validateUnits v inputs operationID = None \<longleftrightarrow> validateUnits w inputs operationID = None" for operationID
    unfolding check_currencies_None check_periods_None validateUnits_None same by (rule refl)+
  then show ?thesis
    unfolding check_inputs_def validateMetadata_def first_err_Cons_None range_fail_None list_all_iff same
    by (simp add: first_err_Cons_None)
qed

lemma calculate_order:
  assumes "permuting (ex_visiting executor)" and "permuting w"
  shows "agree (calculate executor request) (calculate (executor\<lparr>ex_visiting := w\<rparr>) request)"
proof -
  have "agree (dispatch_request executor request inputs) (dispatch_request (executor\<lparr>ex_visiting := w\<rparr>) request inputs)" for inputs
    using dispatch_agree [OF assms, of "ex_decimal executor" "ex_sort_floats executor" "er_operation_id request" inputs]
    by (auto simp: dispatch_request_def agree_def split: sum.splits)
  moreover note check_inputs_order [OF assms]
  ultimately have checked: "agree
      (check_then (check_inputs (ex_visiting executor) operation request inputs) (dispatch_request executor request inputs))
      (check_then (check_inputs w operation request inputs) (dispatch_request (executor\<lparr>ex_visiting := w\<rparr>) request inputs))"
    for operation inputs
    by (rule agree_check [rotated])
  then have listed: "agree
      (case newInputSet L xs of Inl err \<Rightarrow> Inl (invalid err) | Inr inputs \<Rightarrow>
         check_then (check_inputs (ex_visiting executor) operation request inputs) (dispatch_request executor request inputs))
      (case newInputSet L xs of Inl err \<Rightarrow> Inl (invalid err) | Inr inputs \<Rightarrow>
         check_then (check_inputs w operation request inputs) (dispatch_request (executor\<lparr>ex_visiting := w\<rparr>) request inputs))"
    for L :: "'a decimal_lib" and operation xs
    by (cases "newInputSet L xs") simp_all
  have parts: "ex_visiting (executor\<lparr>ex_visiting := w\<rparr>) = w" "ex_decimal (executor\<lparr>ex_visiting := w\<rparr>) = ex_decimal executor"
    "ex_apd (executor\<lparr>ex_visiting := w\<rparr>) = ex_apd executor"
    by simp_all
  show ?thesis
  proof (cases "GetOperation (tier0Operations @ financialIntelligenceOperations) (er_operation_id request)")
    case None
    then show ?thesis
      unfolding calculate_def RuntimeRegistry_eq sum.case None option.case
      by (cases "ValidateEngineRequest (ex_apd executor) request") simp_all
  next
    case (Some operation)
    show ?thesis
      unfolding calculate_def RuntimeRegistry_eq sum.case Some option.case parts
      by (cases "ValidateEngineRequest (ex_apd executor) request") (simp_all add: agree_check [OF refl listed])
  qed
qed

text \<open>
  C14: Receipts do not depend on the order in which Go happens to visit the map of inputs: two
  executors that differ in it only issue the same receipts for the same requests.
\<close>

theorem receipts_ignore_the_map_order:
  assumes "permuting (ex_visiting executor)" and "permuting visiting"
  shows "(\<exists>result. Execute executor request = Inr result \<and> egr_receipt result = Some receipt) \<longleftrightarrow>
    (\<exists>result. Execute (executor\<lparr>ex_visiting := visiting\<rparr>) request = Inr result \<and> egr_receipt result = Some receipt)"
proof -
  have issued: "(\<exists>result. Execute executor request = Inr result \<and> egr_receipt result = Some receipt) \<longleftrightarrow>
      (\<exists>outputs invariants warnings inputSHA receiptHash.
        calculate executor request = Inr (outputs, invariants, warnings) \<and> ex_hash_request executor request = Inr inputSHA \<and>
        receiptDigest executor (receipt_of executor request inputSHA outputs invariants warnings) = Inr receiptHash \<and>
        receipt = (receipt_of executor request inputSHA outputs invariants warnings)\<lparr>cr_receipt_sha256 := receiptHash\<rparr> \<and>
        ValidateCalculationReceipt (ex_apd executor) receipt = None)" for executor :: "'a Executor"
  proof
    assume "\<exists>result. Execute executor request = Inr result \<and> egr_receipt result = Some receipt"
    then obtain result where "Execute executor request = Inr result" "egr_receipt result = Some receipt" by blast
    from Execute_receipt [OF this] show "\<exists>outputs invariants warnings inputSHA receiptHash.
        calculate executor request = Inr (outputs, invariants, warnings) \<and> ex_hash_request executor request = Inr inputSHA \<and>
        receiptDigest executor (receipt_of executor request inputSHA outputs invariants warnings) = Inr receiptHash \<and>
        receipt = (receipt_of executor request inputSHA outputs invariants warnings)\<lparr>cr_receipt_sha256 := receiptHash\<rparr> \<and>
        ValidateCalculationReceipt (ex_apd executor) receipt = None" by metis
  qed (auto simp: Execute_def Let_def)
  have "receiptDigest (executor\<lparr>ex_visiting := visiting\<rparr>) = receiptDigest executor"
    "receipt_of (executor\<lparr>ex_visiting := visiting\<rparr>) = receipt_of executor"
    by (simp_all add: fun_eq_iff receiptDigest_def receipt_of_def)
  then show ?thesis
    unfolding issued using calculate_order [OF assms, of request] by (simp add: agree_def)
qed

section \<open>Every registered operation has a case\<close>

lemma unit_rule_names:
  "map fst tier0_unit_rules = map op_operation_id tier0Operations"
  "map fst intelligence_unit_rules = map op_operation_id financialIntelligenceOperations"
  unfolding tier0_ids intelligence_ids tier0_unit_rules_def intelligence_unit_rules_def
  by (simp_all only: list.map fst_conv)

text \<open>
  C16: The switch of the engine and the registry name the same operations, each exactly once, so
  that no registered operation ends in the default case and no case is unreachable; and the
  table of units has a rule for each of them.
\<close>

theorem switch_covers_the_registry:
  "mset (map fst (dispatch_cases L visiting order inputs)) =
     mset (map op_operation_id (tier0Operations @ financialIntelligenceOperations)) \<and>
   distinct (map fst (dispatch_cases L visiting order inputs)) \<and>
   map fst governedUnitRules = map op_operation_id (tier0Operations @ financialIntelligenceOperations)"
proof (intro conjI)
  have "mset (map fst (dispatch_cases L visiting order inputs)) = mset (map fst (registry_rows L visiting order inputs))"
    by (simp add: registry_rows_mset)
  then show "mset (map fst (dispatch_cases L visiting order inputs)) =
      mset (map op_operation_id (tier0Operations @ financialIntelligenceOperations))"
    unfolding registry_rows_names .
  show "distinct (map fst (dispatch_cases L visiting order inputs))" by (rule dispatch_cases_distinct)
  show "map fst governedUnitRules = map op_operation_id (tier0Operations @ financialIntelligenceOperations)"
    by (simp only: governedUnitRules_def unit_rule_names map_append)
qed

section \<open>An executor\<close>

definition fraction_apd :: "rat apd_lib" where
  "fraction_apd = \<lparr>
     apd_parse = (\<lambda>s. case dec_new fraction_lib s of Inl _ \<Rightarrow> None | Inr r \<Rightarrow> Some r), apd_is_finite = (\<lambda>_. True),
     apd_negative = (\<lambda>r. r < 0), apd_make_positive = (\<lambda>r. \<bar>r\<bar>), apd_base_sub = (\<lambda>x y. x - y),
     apd_cmp = (\<lambda>x y. if x < y then - 1 else if x = y then 0 else 1)\<rparr>"

definition sample_executor :: "rat Executor" where
  "sample_executor = \<lparr>
     ex_decimal = fraction_lib, ex_apd = fraction_apd, ex_code_commit = ''commit'', ex_now = 20000000,
     ex_visiting = (\<lambda>xs. xs), ex_sort_floats = (\<lambda>xs. xs), ex_hash_request = (\<lambda>_. Inr ''input-digest''),
     ex_hash_receipt = (\<lambda>receipt. Inr (''digest of '' @ cr_receipt_id receipt)), ex_short_hash = (\<lambda>s. take 16 s),
     ex_time_text = (\<lambda>_. ''now''), ex_error_text = error_head\<rparr>"

definition money_input :: "string \<Rightarrow> string \<Rightarrow> EngineInput" where
  "money_input inputID value_text =
     \<lparr>ei_input_id = inputID,
      ei_quantity = \<lparr>qt_value = value_text, qt_unit = ''currency'', qt_currency = ''USD'', qt_scale = 0, qt_period = ''2024'',
        qt_as_of = None\<rparr>,
      ei_status = ''reported'', ei_evidence_refs = [''evidence-'' @ inputID]\<rparr>"

definition net_debt_request :: EngineRequest where
  "net_debt_request =
     \<lparr>er_schema_version = SchemaVersionV1, er_request_id = ''request-1'', er_run_id = ''run-1'', er_step_id = ''step-1'',
      er_requested_by = ValuationRole, er_engine_id = ''financial'', er_operation_id = ''financial.net_debt'',
      er_formula_version = ''1.0.0'',
      er_scope = \<lparr>sc_company_ids = [''company''], sc_security_ids = [], sc_periods = [''2024''], sc_as_of = 19000000\<rparr>,
      er_inputs = [money_input ''debt'' (fraction 9), money_input ''cash_and_equivalents'' (fraction 4)], er_assumptions = [],
      er_precision_policy = ''money-decimal/v1'', er_requested_outputs = [''net_debt'']\<rparr>"

definition net_debt_operation :: Operation where
  "net_debt_operation =
     op ''financial.net_debt'' ''financial'' ''Bridge gross debt and cash to net debt.'' ''money-decimal/v1''
        [''debt'', ''cash_and_equivalents''] [''net_debt''] financialRoles False"

lemma fraction_digits: "fraction 9 = ''9''" "fraction 5 = ''5''" "fraction 4 = ''4''"
  by code_simp+

lemma sample_checks:
  "ValidateEngineRequest fraction_apd net_debt_request = None"
  by code_simp

lemma sample_operation:
  "GetOperation (tier0Operations @ financialIntelligenceOperations) ''financial.net_debt'' =
    Some net_debt_operation"
  by code_simp

lemma dispatch_net_debt:
  "dispatch L visiting order ''financial.net_debt'' inputs =
    with2 L inputs ''debt'' ''cash_and_equivalents'' (\<lambda>debt cash.
      moneyOutput (firstCurrency inputs) ''net_debt'' (NetDebt L debt cash))"
  by (simp add: dispatch_def dispatch_cases_def Let_def statement_cases_def map_add_def)

lemma sample_dispatch:
  "dispatch fraction_lib (\<lambda>xs. xs) (\<lambda>xs. xs) ''financial.net_debt'' (er_inputs net_debt_request) =
    Inr ([decimalOutput ''net_debt'' ''5'' ''currency'' ''USD''], [], [])"
proof -
  have inputs: "decimal_input fraction_lib (er_inputs net_debt_request) ''debt'' = Inr (fraction 9)"
    "decimal_input fraction_lib (er_inputs net_debt_request) ''cash_and_equivalents'' = Inr (fraction 4)"
    "firstCurrency (er_inputs net_debt_request) = ''USD''"
    by (simp_all add: decimal_input_def input_of_def index_by_def net_debt_request_def money_input_def firstCurrency_def
        sort_key_simps)
  show ?thesis
    unfolding dispatch_net_debt with2_def with1_def inputs using fraction_calculus(2) [of 9 4]
    by (simp add: NetDebt_def moneyOutput_def one_output_def fraction_digits)
qed

lemma sample_inputs:
  "newInputSet fraction_lib (er_inputs net_debt_request) = Inr (er_inputs net_debt_request)"
  by code_simp

lemma sample_check_request: "check_request fraction_lib net_debt_operation net_debt_request = None"
  by code_simp

lemma sample_check_inputs:
  "check_inputs (\<lambda>xs. xs) net_debt_operation net_debt_request (er_inputs net_debt_request) = None"
  by code_simp

lemma sample_calculated:
  "calculate sample_executor net_debt_request =
    Inr ([decimalOutput ''net_debt'' ''5'' ''currency'' ''USD''], [passed_invariant ''tier0_registry_match'' []], [])"
proof -
  have parts: "ex_apd sample_executor = fraction_apd" "ex_decimal sample_executor = fraction_lib"
    "ex_visiting sample_executor = (\<lambda>xs. xs)" "ex_sort_floats sample_executor = (\<lambda>xs. xs)"
    "er_operation_id net_debt_request = ''financial.net_debt''"
    by (simp_all add: sample_executor_def net_debt_request_def)
  have authorized: "Authorizes (tier0Operations @ financialIntelligenceOperations) (er_requested_by net_debt_request) ''financial.net_debt''"
    using sample_operation by (simp add: Authorizes_def GetOperation_def net_debt_request_def net_debt_operation_def op_def)
  show ?thesis
    unfolding calculate_def RuntimeRegistry_eq sum.case parts sample_checks option.case sample_operation
      sample_inputs check_then_def sample_check_request sample_check_inputs
      dispatch_request_def sample_dispatch prod.case
    using authorized by simp
qed

lemma sample_executed:
  "case Execute sample_executor net_debt_request of Inl _ \<Rightarrow> False
   | Inr result \<Rightarrow> egr_failure result = None \<and> egr_receipt result \<noteq> None"
  unfolding Execute_def sample_calculated by code_simp

theorem issued_receipts_are_governed_witness:
  "\<exists>result receipt. Execute sample_executor net_debt_request = Inr result \<and> egr_receipt result = Some receipt \<and>
     VerifyReceipt fraction_apd (receiptDigest sample_executor) receipt = None \<and> copies receipt net_debt_request \<and>
     cr_engine_id receipt = ''financial'' \<and> cr_tolerance_policy receipt = ''money-decimal/v1'' \<and> cr_outputs receipt = [decimalOutput ''net_debt'' ''5'' ''currency'' ''USD'']"
proof -
  obtain result receipt where result: "Execute sample_executor net_debt_request = Inr result" "egr_receipt result = Some receipt"
    using sample_executed by (auto split: sum.splits)
  moreover have "cr_outputs receipt = [decimalOutput ''net_debt'' ''5'' ''currency'' ''USD'']"
    by (rule Execute_receipt [OF result]) (simp add: sample_calculated receipt_of_def)
  moreover have apd: "ex_apd sample_executor = fraction_apd" by (simp add: sample_executor_def)
  note governed_receipt = issued_receipts_are_governed [OF result, unfolded apd]
  then have "cr_engine_id receipt = ''financial''" "cr_tolerance_policy receipt = ''money-decimal/v1''"
    by (simp_all add: copies_def net_debt_request_def)
  ultimately show ?thesis using governed_receipt by blast
qed

theorem receipts_ignore_the_map_order_witness:
  "\<exists>result receipt. Execute (sample_executor\<lparr>ex_visiting := rev\<rparr>) net_debt_request = Inr result \<and>
     egr_receipt result = Some receipt \<and> copies receipt net_debt_request"
proof -
  obtain result receipt where result: "Execute sample_executor net_debt_request = Inr result" "egr_receipt result = Some receipt"
    using sample_executed by (auto split: sum.splits)
  have "permuting (ex_visiting sample_executor)" "permuting rev" by (simp_all add: sample_executor_def permuting_def)
  then obtain reversed where "Execute (sample_executor\<lparr>ex_visiting := rev\<rparr>) net_debt_request = Inr reversed"
    "egr_receipt reversed = Some receipt"
    using receipts_ignore_the_map_order [of sample_executor rev net_debt_request receipt] result by blast
  moreover from this have "copies receipt net_debt_request"
    by (rule copies_request)
  ultimately show ?thesis by blast
qed

end
