(* ===== verification/Spec2Isabelle.thy ===== *)
theory Spec2Isabelle
  imports Samples Guards Comparability_Laws Exec_Failure Release_Laws Role_Profiles Period_Laws Engine_Laws
begin

text \<open>
  SignalForge answers research questions about companies with a fixed procedure around
  components that may be wrong (language models). This library models the parts of the Go
  program under \<open>internal/\<close> that decide whether an answer may be released and what its numbers
  are: the contracts of the artifacts, the planner, the orchestrator and the registries they use,
  the evidence fabric, the release policy, and the deterministic engine with its formulas.

  \<^bold>\<open>How the parts interact.\<close> \<open>Runtime.Run\<close> validates a request, lets the planner build a plan
  (routes of the taxonomy, roles, operations), runs the specialist steps in waves of
  goroutines, lets the review steps approve or narrow the packets, lets the final analyst
  synthesize, and releases the answer with a saved trace, or fails with a receipt. The numbers of
  the specialists come from the engine: \<open>Executor.Execute\<close> checks a request against the registry of
  operations, calculates with the formulas of \<open>internal/finance\<close>, and answers with a receipt that
  carries its own digest, or with a failure; receipts are part of the packets that the runtime
  validates.

  \<^bold>\<open>Theories.\<close>
  \<^item> \<open>Prelude\<close>: errors as values, chains and loops of checks; \<open>GoStd\<close>: the string, time and
    float functions of Go's library that the code calls.
  \<^item> \<open>Contracts_Data\<close>: the structs of \<open>internal/contracts\<close> as records;
    \<open>Contracts_Validate\<close>, \<open>Research_Validate\<close>, \<open>Plan_Cycle\<close>, \<open>Plan_Validate\<close>: its
    validators; \<open>Packet_Laws\<close>: the packet contract that \<open>ValidateContextPacket\<close> decides.
  \<^item> \<open>Roles\<close>, \<open>Capability\<close> (with the tool gate), \<open>Taxonomy\<close>, \<open>Planner\<close>: the packages of the
    same names; \<open>Planner_Laws\<close>: what a built plan contains.
  \<^item> \<open>Runtime_Data\<close>, \<open>Runtime_Env\<close>, \<open>Interleaving\<close>, \<open>Context_Waves\<close>, \<open>Review\<close>, \<open>Pruning\<close>,
    \<open>Runtime\<close>: \<open>internal/orchestrator/runtime.go\<close>; \<open>Context_Laws\<close>, \<open>Review_Laws\<close>,
    \<open>Trace_Laws\<close>, \<open>Run_Laws\<close>: what its stages and a whole run guarantee.
  \<^item> \<open>Hex\<close>, \<open>Run_Id\<close>: run identifiers (\<open>internal/runid\<close>); \<open>Guards\<close>: the permission policy and
    the circuit breaker (\<open>internal/permissions\<close>, \<open>internal/resilience\<close>); \<open>Evidence_Validate\<close>:
    manifests and traces; \<open>Activation_Data\<close>, \<open>Activation_Validate\<close>, \<open>Activation_Laws\<close>: the records
    of \<open>internal/contracts/activation.go\<close>, their content hashes and validators.
  \<^item> \<open>Go_Numbers\<close>, \<open>Go_Text\<close>: 64-bit integers, the rounding of \<open>float64\<close>, durations, and the
    string functions of the later packages; \<open>Comparability\<close>, \<open>Comparability_Laws\<close>: the evaluation
    of a pair of metrics (\<open>internal/comparability\<close>).
  \<^item> \<open>Exec_Text\<close>, \<open>Exec_Data\<close>, \<open>Exec_Apply\<close>, \<open>Exec_Plan\<close>: \<open>internal/executionplan/plan.go\<close>, the
    projection of a run that the workspace shows: safe texts, records and validation, the handlers
    of events, the first projection of a plan. \<open>Exec_Laws\<close>, \<open>Exec_Structure\<close>: what events keep, and
    that the derived fields always validate; \<open>Exec_Eval\<close>, \<open>Exec_Samples\<close>: runs computed without
    the derived fields; \<open>Exec_Safety\<close>, \<open>Exec_Failure\<close>: the guarantees for whole runs.
  \<^item> \<open>Go_Lists\<close>: slices and the sorts of \<open>sort.Slice\<close>; \<open>Evidence_Fabric\<close>, \<open>Evidence_Resolver\<close>:
    the evidence fabric (\<open>internal/evidencefabric\<close>), which validates an index of evidence, admits
    candidates, ranks them and resolves a question to a bundle or a gap; \<open>Fabric_Laws\<close>,
    \<open>Fabric_Safety\<close>: what a resolved bundle contains.
  \<^item> \<open>Release_Policy\<close>, \<open>Release_Laws\<close>: the policy that decides about one claim with its evidence
    (\<open>internal/releasepolicy\<close>); \<open>Role_Profiles\<close>: the profiles of the roles
    (\<open>internal/roleprofiles\<close>).
  \<^item> \<open>Decimals\<close>: decimal numbers as their canonical texts (\<open>internal/numeric\<close>) and the laws of
    the decimal library; \<open>Decimal_Instance\<close>: a library that keeps these laws, for the witnesses.
  \<^item> \<open>Financial_Period\<close>, \<open>Period_Audit\<close>: observations, trailing twelve months, trends, audits and
    annual windows (\<open>internal/financialperiod\<close>); \<open>Period_Laws\<close>: their correctness.
  \<^item> \<open>Finance_Formulas\<close>, \<open>Finance_Ratios\<close>, \<open>Finance_Valuation\<close>, \<open>Finance_Statistics\<close>: the formulas
    of \<open>internal/finance\<close>, over decimals and over \<open>float64\<close> (\<open>Go_Float\<close>: IEEE doubles, their arithmetic
    and texts); \<open>Finance_Laws\<close>: what the formulas compute, and that a converged inverse is a solution.
  \<^item> \<open>Engine_Inputs\<close>, \<open>Engine_Dispatch\<close>, \<open>Engine_Execute\<close>: the deterministic engine
    (\<open>internal/engine\<close>): the set of inputs with its units, the case of each operation, the executor
    with receipts and failures; \<open>Engine_Outputs\<close>: each case delivers the outputs of the registry;
    \<open>Engine_Laws\<close>: what an issued receipt guarantees.
  \<^item> \<open>Samples\<close>: concrete inputs for the witnesses.

  \<^bold>\<open>State and operations.\<close> Structs are records with a prefix for each type (\<open>rq_\<close> request,
  \<open>pl_\<close> plan, \<open>st_\<close> step, \<open>pk_\<close> packet, \<open>cp_\<close> critique, \<open>fa_\<close> answer, \<open>trc_\<close> trace). A function
  keeps its Go name; a loop or block of a long function that has its own definition is named
  after what it does. The maps that are only looked up are lists (\<open>index_by\<close>, the last entry
  wins); a loop over a map whose order Go leaves open runs in list order, with a lemma that the
  order does not matter where it could.

  \<^bold>\<open>Parameters.\<close> The specialist, reviewer and synthesizer adapters and the trace store are
  arbitrary functions of a call and its attempt; the clock, the cancellation of the context and
  the schedule of the goroutines are arbitrary functions; the decimal library and the digests of
  receipts, sealed records and projections (JSON and SHA-256) are parameters, and so are the
  parser of URLs, the natural logarithm, the tables of Unicode letters, the result of an unstable
  sort (any function that \<open>sorts\<close>), the order in which Go visits a map, and the texts of errors and
  times that enter the identifiers of receipts. No hypothesis is made about any of them, except
  where a property names one (\<open>sorts\<close>, \<open>permuting\<close>, \<open>cooperative\<close>, \<open>decimal_laws\<close>: arithmetic of the decimal
  library is exact arithmetic followed by a monotone rounding, \<open>trimmed\<close>: a tool event has no blanks
  around its step identifier, and \<open>runtime_ok\<close>: the role registry
  is one that \<open>NewRegistry\<close> returned).

  \<^bold>\<open>Bounds and fuel.\<close> The cycle search has one unit of fuel for each identifier and one more,
  which is enough for every plan (\<open>cycle_search_is_exact\<close>). The passes of a review are counted
  down from the repair budget, and the last pass always decides
  (\<open>review_decides_within_budget\<close>). A wave with a limit below one would not end; \<open>Run\<close> is
  then \<open>None\<close>, and \<open>run_returns\<close> shows that this never happens. The inverses of the valuations count
  their iterations down from the budget they are given (256 in the engine), so they always end.

  \<^bold>\<open>Not modelled.\<close> Deadlines are not measured: they reach the runtime only as the errors its
  adapters return and as \<open>ctx.Err()\<close>. Files, HTTP, JSON, prompts and hashing are not
  modelled, and neither are nil pointers to projections. Memory is unbounded, and so are the lengths
  of slices and the failures that the circuit breaker counts; float products and
  sums are rounded one by one (Go may fuse them on other processors than amd64), and
  \<open>strconv.ParseFloat\<close> is modelled on decimal texts, the only ones that reach it. The server of the
  workspace, the adapters to language models, ingestion and parsing of documents, the metric
  catalogues, evaluation and the commands are input, output and glue around these parts. The texts of errors are kept as format strings with their arguments.
\<close>

section \<open>A run\<close>

text \<open>
  C1: An answer is released only if the request is valid, the plan was built from it, every
  review step of the plan approved, the two mandatory gates (risk and contrarian review, evidence
  critique) among them, every packet given to the synthesizer is valid and carries the authority
  of the request, the answer is valid and the synthesizer's for exactly these packets and
  approvals, and the trace has been saved.
\<close>

theorem release_is_gated:
  assumes "runtime_ok runtime" and "Run runtime request = Some (result, saves)"
    and "res_answer result = Some answer"
  shows "\<exists>plan. Build (rt_planner runtime) request = Inr plan \<and>
    safe_release runtime request plan result answer \<and>
    (\<forall>gate \<in> {RiskContrarian, EvidenceCritic}. \<exists>report \<in> set (res_critiques result).
       cp_reviewer_role report = gate \<and> cp_decision report = CritiqueApprove \<and>
       cp_run_id report = rq_run_id request \<and> ValidateCritiqueReport report = None)"
proof -
  obtain plan where plan: "Build (rt_planner runtime) request = Inr plan"
    and release: "safe_release runtime request plan result answer"
    using Run_safe_release [OF assms] by blast
  have gate: "\<exists>step \<in> set (steps_of_kind ''review'' (pl_steps plan)). st_role_id step = gate"
    if "gate \<in> {RiskContrarian, EvidenceCritic}" for gate
    using gates_of_plan [OF plan] that by auto
  obtain approvals where approvals: "list_all2 (approves request) (steps_of_kind ''review'' (pl_steps plan)) approvals"
    "set approvals \<subseteq> set (res_critiques result)"
    using release unfolding safe_release_def by blast
  have "\<exists>report \<in> set (res_critiques result). approves request step report"
    if "step \<in> set (steps_of_kind ''review'' (pl_steps plan))" for step
    using approvals_of_steps [OF approvals(1) that] approvals(2) by blast
  with gate have "\<exists>report \<in> set (res_critiques result). cp_reviewer_role report = gate \<and>
      cp_decision report = CritiqueApprove \<and> cp_run_id report = rq_run_id request \<and>
      ValidateCritiqueReport report = None" if "gate \<in> {RiskContrarian, EvidenceCritic}" for gate
    using that unfolding approves_def report_ok_def by metis
  with plan release show ?thesis by blast
qed

theorem release_is_gated_witness:
  "\<exists>result saves answer plan. Run sample_runtime sample_request = Some (result, saves) \<and>
     res_answer result = Some answer \<and> safe_release sample_runtime sample_request plan result answer"
  using sample_release release_is_gated [OF sample_runtime_ok, of sample_request] by blast

text \<open>
  C2: Graceful degradation: for a valid request that needs no clarification, the default planner
  always has a plan, and if one specialist step of it has a packet, the reviewers approve, the
  synthesizer answers and the trace can be saved, then the run releases an answer, however many
  of the other specialists fail.
\<close>

theorem run_degrades_gracefully:
  assumes "ValidateResearchRequest request = None" and "\<not> needs_clarification request"
    and "rt_planner runtime = default_builder"
    and "\<And>plan. Build default_builder request = Inr plan \<Longrightarrow> cooperative runtime request plan"
  shows "\<exists>result saves answer. Run runtime request = Some (result, saves) \<and> res_answer result = Some answer"
proof -
  obtain plan where "Build default_builder request = Inr plan"
    using default_plan_total [OF assms(1)] assms(2) by (auto simp: DefaultBuilder_eq)
  with assms(3,4) Run_cooperates [of runtime request plan] show ?thesis by simp
qed

theorem run_degrades_gracefully_witness:
  "\<exists>result saves answer. Run sample_runtime sample_request = Some (result, saves) \<and> res_answer result = Some answer"
  by (rule run_degrades_gracefully [OF sample_request_valid sample_request_clear _ sample_cooperates]) simp_all

text \<open>
  C3: A run always returns, with exactly one of an answer and a failure receipt; the trace it
  returns is the last one it handed to the trace store, which is called once or, when saving a
  completed trace fails, twice.
\<close>

theorem run_returns:
  "\<exists>result saves. Run runtime request = Some (result, saves) \<and>
     (res_answer result = None) = (res_failure result \<noteq> None) \<and>
     saves \<noteq> [] \<and> length saves \<le> 2 \<and> last saves = res_trace result"
proof -
  obtain outcome where "Run runtime request = Some outcome" using Run_returns by blast
  with Run_outcome_ok [OF this] show ?thesis by (cases outcome) (auto simp: outcome_ok_def)
qed

text \<open>
  C4: The trace of a run is a well-formed event log: its events are numbered from one without
  gaps, each belongs to the run, the trace names the run and the request, and the failure
  receipt of a failed run is listed among the failures of the trace.
\<close>

theorem run_trace_well_formed:
  assumes "Run runtime request = Some (result, saves)"
  shows "map evt_sequence (trc_events (res_trace result)) = [1..int (length (trc_events (res_trace result)))] \<and>
    (\<forall>e \<in> set (trc_events (res_trace result)). evt_run_id e = rq_run_id request) \<and>
    trc_run_id (res_trace result) = rq_run_id request \<and>
    trc_request_id (res_trace result) = rq_request_id request \<and>
    (\<forall>receipt. res_failure result = Some receipt \<longrightarrow> fr_run_id receipt = rq_run_id request \<and>
       fr_failure_id receipt \<in> set (trc_failures (res_trace result)))"
  using Run_outcome_ok [OF assms] by (auto simp: outcome_ok_def trace_numbered_def)

theorem run_trace_well_formed_witness:
  "\<exists>result saves. Run sample_runtime sample_request = Some (result, saves) \<and>
     map evt_sequence (trc_events (res_trace result)) = [1..int (length (trc_events (res_trace result)))]"
  using sample_release run_trace_well_formed [of sample_runtime sample_request] by blast

section \<open>The context stage\<close>

text \<open>
  C5: The order in which the goroutines of a wave run does not matter: under any schedule the
  context stage returns the same packets and failures in the same order and the same maximum
  concurrency, and emits the same events up to their order.
\<close>

theorem context_waves_schedule_independent:
  assumes "1 \<le> limit"
  shows "\<exists>x y. runContextWaves runtime request steps limit = Some x \<and>
    runContextWaves (runtime\<lparr>rt_schedule := schedule\<rparr>) request steps limit = Some y \<and>
    wo_packets x = wo_packets y \<and> wo_failures x = wo_failures y \<and> wo_maximum x = wo_maximum y \<and>
    mset (wo_emissions x) = mset (wo_emissions y)"
  unfolding runContextWaves_def same_outcome_def [symmetric]
  by (rule run_waves_schedule [OF assms]) (simp add: same_outcome_def)

theorem context_waves_schedule_independent_witness:
  "\<exists>x y. runContextWaves sample_runtime sample_request [sample_step] 2 = Some x \<and>
    runContextWaves (sample_runtime\<lparr>rt_schedule := \<lambda>_ _. [1, 0, 1]\<rparr>) sample_request [sample_step] 2 = Some y \<and>
    wo_packets x = wo_packets y"
  using context_waves_schedule_independent
    [of 2 sample_runtime sample_request "[sample_step]" "\<lambda>_ _. [1, 0, 1]"] by auto

text \<open>
  Every step of a wave that is run has exactly one outcome: the packets are the successes
  and the failures the errors of the steps, in the order of the waves and of the plan; no more
  steps run at the same time than the limit allows; and unless the context is cancelled all
  waves are run.
\<close>

theorem context_waves_outcomes:
  assumes "1 \<le> limit"
  shows "\<exists>outcome ran rest. runContextWaves runtime request steps limit = Some outcome \<and>
    [1..maximum_wave steps] = ran @ rest \<and>
    wo_packets outcome = successes (map (step_outcome runtime request) (steps_of_waves steps ran)) \<and>
    wo_failures outcome = errors (map (step_outcome runtime request) (steps_of_waves steps ran)) \<and>
    length (wo_packets outcome) + length (wo_failures outcome) = length (steps_of_waves steps ran) \<and>
    int (wo_maximum outcome) \<le> limit \<and>
    ((\<forall>w. rt_ctx_err runtime (AfterWave w) = None) \<longrightarrow> rest = [])"
proof -
  obtain outcome ran rest where "runContextWaves runtime request steps limit = Some outcome"
    "[1..maximum_wave steps] = ran @ rest"
    "wo_packets outcome = successes (map (step_outcome runtime request) (steps_of_waves steps ran))"
    "wo_failures outcome = errors (map (step_outcome runtime request) (steps_of_waves steps ran))"
    "wo_maximum outcome \<le> nat limit"
    "(\<forall>w. rt_ctx_err runtime (AfterWave w) = None) \<Longrightarrow> rest = []"
    using runContextWaves_done [OF assms, of runtime request steps] by metis
  with assms show ?thesis
    by (intro exI [of _ outcome] exI [of _ ran] exI [of _ rest]) (auto simp: length_successes_errors)
qed

theorem context_waves_outcomes_witness:
  "\<exists>outcome. runContextWaves sample_runtime sample_request [sample_step] 2 = Some outcome \<and>
     length (wo_packets outcome) + length (wo_failures outcome) = 1"
proof -
  have "1 \<le> (2 :: int)" by simp
  from context_waves_outcomes [OF this, of sample_runtime sample_request "[sample_step]"]
  obtain outcome ran rest where o: "runContextWaves sample_runtime sample_request [sample_step] 2 = Some outcome"
    "[1..maximum_wave [sample_step]] = ran @ rest"
    "length (wo_packets outcome) + length (wo_failures outcome) = length (steps_of_waves [sample_step] ran)"
    "(\<forall>w. rt_ctx_err sample_runtime (AfterWave w) = None) \<longrightarrow> rest = []"
    by blast
  have "maximum_wave [sample_step] = 1" by code_simp
  with o(2,4) have "ran = [1]" by simp
  moreover have "length (steps_of_waves [sample_step] [1]) = 1" by code_simp
  ultimately show ?thesis using o(1,3) by auto
qed

text \<open>
  C6: A specialist cannot change its authority: a packet the runtime accepts satisfies the packet
  contract, is for the run, step and role that were asked, and carries the authority state and
  references of the request, whatever the specialist wrote there.
\<close>

theorem specialist_packet_is_bound:
  assumes "runtime_ok runtime" and "snd (callSpecialist runtime request step) = Inr packet"
  shows "ValidateContextPacket (rt_decimal runtime) packet = None \<and>
    pk_run_id packet = cq_run_id request \<and> pk_step_id packet = cq_step_id request \<and>
    pk_specialist_role packet = cq_specialist_role request \<and>
    pk_authority_state packet = cq_authority_state request \<and>
    pk_authority_refs packet = cq_authority_refs request"
  using callSpecialist_bound [OF _ assms(2)] assms(1) attempt_budget_bounds
  by (auto simp: runtime_ok_def packet_bound_def ValidateContextPacket_None)

theorem specialist_packet_is_bound_witness:
  "\<exists>packet. snd (callSpecialist sample_runtime (contextRequest sample_request sample_step) sample_step) = Inr packet \<and>
     pk_authority_state packet = ''data_ready''"
proof -
  obtain packet where p: "snd (callSpecialist sample_runtime (contextRequest sample_request sample_step) sample_step)
      = Inr packet" using sample_call by blast
  from specialist_packet_is_bound [OF sample_runtime_ok p]
  have "pk_authority_state packet = ''data_ready''" by (simp add: contextRequest_def sample_request_def)
  with p show ?thesis by blast
qed

text \<open>
  C26: A call of a specialist, reviewer or synthesizer is made once or twice, the k-th call being
  the k-th attempt; a second attempt is only made after a retryable error, and the calls stop early
  only at a success or an error that is not retryable.
\<close>

theorem retries_are_bounded:
  assumes "runtime_ok runtime"
  shows "let budget = attempt_budget (rt_roles runtime) roleID; made = attempts call error budget 0 in
    1 \<le> length made \<and> length made \<le> 2 \<and> (\<forall>k < length made. made ! k = call k) \<and>
    (length made = 2 \<longrightarrow> (\<exists>e. error (call 0) = Some e \<and> retryable e)) \<and>
    (length made < budget \<longrightarrow> (\<forall>e. error (last made) = Some e \<longrightarrow> \<not> retryable e))"
proof -
  let ?budget = "attempt_budget (rt_roles runtime) roleID"
  let ?made = "attempts call error ?budget 0"
  have budget: "1 \<le> ?budget" "?budget \<le> 2"
    using assms attempt_budget_bounds by (auto simp: runtime_ok_def)
  then have "?made \<noteq> []" by (intro attempts_nonempty) simp
  then have "1 \<le> length ?made" by (simp add: Suc_leI)
  moreover have "length ?made \<le> 2" using attempts_bounded [of call error ?budget 0] budget by linarith
  moreover have calls: "?made ! k = call k" if "k < length ?made" for k using attempts_calls [OF that] by simp
  moreover have "\<exists>e. error (call 0) = Some e \<and> retryable e" if "length ?made = 2"
    using attempts_retried [of 0 call error ?budget 0] calls [of 0] that by simp
  moreover have "\<forall>e. error (last ?made) = Some e \<longrightarrow> \<not> retryable e" if "length ?made < ?budget"
    using attempts_stopped [OF that] by auto
  ultimately show ?thesis unfolding Let_def by blast
qed

theorem retries_are_bounded_witness:
  "length (attempts (\<lambda>k. if k = 0 then Inl DeadlineExceeded else Inr k) result_error
     (attempt_budget (rt_roles sample_runtime) RiskContrarian) 0) \<le> 2"
  using retries_are_bounded [OF sample_runtime_ok, of RiskContrarian
      "\<lambda>k. if k = 0 then Inl DeadlineExceeded else Inr k" result_error]
  unfolding Let_def by blast
section \<open>Reviews\<close>

text \<open>
  C27: A review only removes claims: from valid packets it leads to valid packets with the same
  identity, scope and authority and with a sublist of their findings, counterevidence, evidence
  and receipts; its reports are valid reports of the step's role for the run, at least one and at
  most two more than the repair budget.
\<close>

theorem review_only_narrows:
  assumes "\<forall>p \<in> set packets. ValidateContextPacket (rt_decimal runtime) p = None"
    and "snd (runReview runtime request plan step packets prior) = Inr (reports, reviewed_packets)"
  shows "(\<forall>p \<in> set reviewed_packets. ValidateContextPacket (rt_decimal runtime) p = None) \<and>
    list_all2 narrower reviewed_packets packets \<and> claims_of reviewed_packets \<subseteq> claims_of packets \<and>
    reports \<noteq> [] \<and> length reports \<le> nat (pl_max_repair_passes plan + 1) + 1 \<and>
    (\<forall>report \<in> set reports. ValidateCritiqueReport report = None \<and>
       cp_run_id report = rq_run_id request \<and> cp_reviewer_role report = st_role_id step)"
proof -
  have "packets_ok (rt_decimal runtime) packets"
    using assms(1) by (simp add: packets_ok_def ValidateContextPacket_None)
  moreover have "snd (review_passes runtime request plan step (nat (pl_max_repair_passes plan + 1)) 0 packets []
      prior) = Inr (reports, reviewed_packets)"
    using assms(2) by (simp add: runReview_def prepend_emission_def)
  ultimately have follow: "packets_follow (rt_decimal runtime) reviewed_packets packets"
    and reports: "reports \<noteq> []" "length reports \<le> nat (pl_max_repair_passes plan + 1) + 1"
      "\<forall>r \<in> set reports. report_ok request step r"
    using review_passes_follow by fastforce+
  then have narrow: "list_all2 narrower reviewed_packets packets" by (simp add: packets_follow_def)
  have "claims_of reviewed_packets \<subseteq> claims_of packets"
    using narrow
  proof (induction rule: list_all2_induct)
    case (Cons q qs p ps)
    then show ?case using narrower_claims [of q p] by (simp only: list.set UN_insert) blast
  qed simp
  with follow narrow reports show ?thesis
    by (simp add: packets_follow_def packets_ok_def ValidateContextPacket_None report_ok_def)
qed

theorem review_only_narrows_witness:
  "\<exists>reports reviewed_packets. snd (runReview sample_runtime sample_request sample_review_plan sample_step
      [sample_findings_packet] []) = Inr (reports, reviewed_packets) \<and>
    claims_of reviewed_packets \<subseteq> claims_of [sample_findings_packet]"
proof -
  have valid: "\<forall>p \<in> set [sample_findings_packet]. ValidateContextPacket (rt_decimal sample_runtime) p = None"
    by (simp add: sample_findings_valid)
  obtain reports where r: "snd (runReview sample_runtime sample_request sample_review_plan sample_step
      [sample_findings_packet] []) = Inr (reports, [sample_findings_packet])"
    using sample_review by blast
  from review_only_narrows [OF valid r] r show ?thesis by blast
qed

text \<open>
  C28: A review always comes to a decision of its own: with valid packets its loop never ends by
  exhausting the repair budget, since allowing any number of further passes changes nothing.
\<close>

theorem review_decides_within_budget:
  assumes "\<forall>p \<in> set packets. ValidateContextPacket (rt_decimal runtime) p = None"
    and "0 \<le> pl_max_repair_passes plan"
  shows "prepend_emission (st_step_id step, ''review'', ''started'', routeAttributes step)
      (review_passes runtime request plan step (nat (pl_max_repair_passes plan + 1) + extra) 0 packets [] prior) =
    runReview runtime request plan step packets prior"
proof -
  have "packets_ok (rt_decimal runtime) packets"
    using assms(1) by (simp add: packets_ok_def ValidateContextPacket_None)
  from review_passes_enough [OF this assms(2), of _ request step extra "[]" prior]
  show ?thesis by (simp add: runReview_def)
qed

theorem review_decides_within_budget_witness:
  "prepend_emission (st_step_id sample_step, ''review'', ''started'', routeAttributes sample_step)
      (review_passes sample_runtime sample_request sample_review_plan sample_step
        (nat (pl_max_repair_passes sample_review_plan + 1) + 7) 0 [sample_findings_packet] [] []) =
    runReview sample_runtime sample_request sample_review_plan sample_step [sample_findings_packet] []"
  by (rule review_decides_within_budget) (simp_all add: sample_findings_valid sample_review_plan_def)

text \<open>
  C29: Narrowing removes exactly the claims that the critique rejects or raises an issue about:
  valid packets stay valid packets, one for each, and the answer "changed" is true exactly if one
  of the rejected claims was there.
\<close>

theorem narrowing_removes_rejected_claims:
  assumes "\<forall>p \<in> set packets. ValidateContextPacket L p = None"
  shows "let (narrowed, changed) = narrowContextPackets L packets report;
      rejected = set (cp_rejected_claims report) \<union> (\<Union>issue \<in> set (cp_issues report). set (ci_claim_refs issue))
    in claims_of narrowed = claims_of packets - rejected \<and> list_all2 narrower narrowed packets \<and>
      (\<forall>p \<in> set narrowed. ValidateContextPacket L p = None) \<and>
      (changed \<longleftrightarrow> claims_of packets \<inter> rejected \<noteq> {})"
proof -
  have rejected: "set (cp_rejected_claims report) \<union> (\<Union>issue \<in> set (cp_issues report). set (ci_claim_refs issue)) =
      set (rejected_claims report)" by (simp add: rejected_claims_def)
  have ok: "packets_ok L packets" using assms by (simp add: packets_ok_def ValidateContextPacket_None)
  note follow = packets_follow_drop [OF ok, of "rejected_claims report"]
  show ?thesis
  proof (cases "rejected_claims report = []")
    case True
    with ok show ?thesis
      unfolding rejected Let_def narrowContextPackets_def
      by (simp add: narrower_list_refl packets_ok_def ValidateContextPacket_None)
  next
    case False
    have "narrowContextPackets L packets report = (map (drop_claims (rejected_claims report)) packets,
        claims_of packets \<inter> set (rejected_claims report) \<noteq> {})"
      using narrowContextPackets_eq [of packets L report] ok False by (simp add: packets_ok_def)
    moreover have "\<forall>p \<in> set (map (drop_claims (rejected_claims report)) packets). ValidateContextPacket L p = None"
      and "list_all2 narrower (map (drop_claims (rejected_claims report)) packets) packets"
      using follow unfolding packets_follow_def packets_ok_def ValidateContextPacket_None by blast+
    ultimately show ?thesis
      using claims_drop [of "rejected_claims report" packets]
      unfolding rejected Let_def by (simp only: prod.case simp_thms)
  qed
qed

theorem narrowing_removes_rejected_claims_witness:
  "claims_of (fst (narrowContextPackets no_decimals [sample_findings_packet] sample_narrowing)) =
     {''claim-1'', ''claim-3''}"
proof -
  have valid: "\<forall>p \<in> set [sample_findings_packet]. ValidateContextPacket no_decimals p = None"
    by (simp add: sample_findings_valid)
  have claims: "claims_of [sample_findings_packet] = {''claim-1'', ''claim-2'', ''claim-3''}"
    by (simp add: sample_findings_packet_def sample_claim_def insert_commute)
  obtain narrowed changed where n: "narrowContextPackets no_decimals [sample_findings_packet] sample_narrowing =
      (narrowed, changed)" by fastforce
  have "cp_rejected_claims sample_narrowing = [''claim-2'']" "cp_issues sample_narrowing = []"
    by (simp_all add: sample_narrowing_def zeroCritiqueReport_def)
  with narrowing_removes_rejected_claims [OF valid, of sample_narrowing]
  have "claims_of narrowed = {''claim-1'', ''claim-2'', ''claim-3''} - {''claim-2''}"
    unfolding n Let_def prod.case claims by simp
  also have "\<dots> = {''claim-1'', ''claim-3''}" by auto
  finally show ?thesis unfolding n fst_conv .
qed

text \<open>
  A critique that approves some claims explicitly can close a review on exactly these: if
  all of them are there, the packets keep them and nothing else, stay valid, and the approval
  that is recorded rejects nothing; if one is missing, nothing is approved.
\<close>

theorem approved_subset_is_exact:
  assumes "\<forall>p \<in> set packets. ValidateContextPacket L p = None"
  shows "(case closeExplicitlyApprovedSubset L packets report of
      Some (kept, approval) \<Rightarrow> claims_of kept = set (cp_approved_claims report) \<and>
        list_all2 narrower kept packets \<and> (\<forall>p \<in> set kept. ValidateContextPacket L p = None) \<and>
        cp_decision approval = CritiqueApprove \<and> cp_rejected_claims approval = [] \<and>
        cp_approved_claims approval = cp_approved_claims report \<and> ValidateCritiqueReport approval = None
    | None \<Rightarrow> cp_approved_claims report = [] \<or> \<not> set (cp_approved_claims report) \<subseteq> claims_of packets \<or>
        ValidateCritiqueReport (approval_of report) \<noteq> None)"
proof -
  have ok: "packets_ok L packets" using assms by (simp add: packets_ok_def ValidateContextPacket_None)
  then have eq: "closeExplicitlyApprovedSubset L packets report =
    (if cp_approved_claims report \<noteq> [] \<and> set (cp_approved_claims report) \<subseteq> claims_of packets \<and>
        ValidateCritiqueReport (approval_of report) = None
     then Some (map (restrict_claims (cp_approved_claims report)) packets, approval_of report) else None)"
    using closeExplicitlyApprovedSubset_eq [of packets L report] by (simp add: packets_ok_def)
  show ?thesis
  proof (cases "cp_approved_claims report \<noteq> [] \<and> set (cp_approved_claims report) \<subseteq> claims_of packets \<and>
        ValidateCritiqueReport (approval_of report) = None")
    case True
    with packets_follow_restrict [OF ok, of "cp_approved_claims report"]
      claims_restrict [of "cp_approved_claims report" packets]
    have "claims_of (map (restrict_claims (cp_approved_claims report)) packets) = set (cp_approved_claims report)"
      by (simp only: Int_absorb1)
    with True packets_follow_restrict [OF ok, of "cp_approved_claims report"] show ?thesis
      unfolding eq if_P [OF True] option.case prod.case packets_follow_def packets_ok_def ValidateContextPacket_None
      by (simp add: approval_of_def del: set_map)
  next
    case False
    show ?thesis unfolding eq if_not_P [OF False] option.case using False by (simp only: de_Morgan_conj simp_thms)
  qed
qed

theorem approved_subset_is_exact_witness:
  "case closeExplicitlyApprovedSubset no_decimals [sample_findings_packet] sample_narrowing of
     Some (kept, approval) \<Rightarrow> claims_of kept = {''claim-1''} | None \<Rightarrow> False"
proof -
  have valid: "\<forall>p \<in> set [sample_findings_packet]. ValidateContextPacket no_decimals p = None"
    by (simp add: sample_findings_valid)
  have "closeExplicitlyApprovedSubset no_decimals [sample_findings_packet] sample_narrowing \<noteq> None"
    by code_simp
  moreover have "cp_approved_claims sample_narrowing = [''claim-1'']" by (simp add: sample_narrowing_def)
  ultimately show ?thesis
    using approved_subset_is_exact [OF valid, of sample_narrowing]
    by (cases "closeExplicitlyApprovedSubset no_decimals [sample_findings_packet] sample_narrowing") auto
qed

section \<open>Packets\<close>

text \<open>
  A packet that passes \<open>ValidateContextPacket\<close> is closed and point in time: every
  reference of its findings and counterevidence points to evidence, an assumption, a receipt, a
  numerical variable or a relation of the packet, nothing in it is younger than its scope, and
  the identifiers of evidence, receipts and numerical values are unique.
\<close>

theorem valid_packet_is_closed:
  assumes "ValidateContextPacket L packet = None"
  shows "(\<forall>f \<in> set (packet_findings packet).
      set (fd_evidence_refs f) \<subseteq> ev_evidence_id ` set (pk_evidence packet) \<and>
      set (fd_assumption_refs f) \<subseteq> trim_space ` set (pk_assumptions packet) \<and>
      set (fd_calculation_refs f) \<subseteq> cr_receipt_id ` set (pk_calculation_receipts packet) \<and>
      set (fd_numerical_refs f) \<subseteq> set (numerical_ids (pk_numerical_context packet)) \<and>
      fd_valid_as_of f \<le> sc_as_of (pk_scope packet)) \<and>
    (\<forall>e \<in> set (pk_evidence packet). ev_as_of e \<le> sc_as_of (pk_scope packet)) \<and>
    (\<forall>r \<in> set (pk_calculation_receipts packet). cr_source_as_of r \<le> sc_as_of (pk_scope packet)) \<and>
    (\<forall>c. pk_numerical_context packet = Some c \<longrightarrow> nc_run_id c = pk_run_id packet \<and>
       nc_as_of c \<le> sc_as_of (pk_scope packet) \<and> distinct (map nv_variable_id (nc_variables c)) \<and>
       distinct (map nr_relation_id (nc_relations c))) \<and>
    distinct (map ev_evidence_id (pk_evidence packet)) \<and>
    distinct (map cr_receipt_id (pk_calculation_receipts packet))"
proof -
  have ok: "packet_ok L packet" using assms by (simp only: ValidateContextPacket_None)
  then have "\<forall>f \<in> set (packet_findings packet). finding_ok (sc_as_of (pk_scope packet))
      (ev_evidence_id ` set (pk_evidence packet)) (trim_space ` set (pk_assumptions packet))
      (cr_receipt_id ` set (pk_calculation_receipts packet)) (set (numerical_ids (pk_numerical_context packet))) f"
    unfolding packet_ok_def by (elim conjE)
  moreover have "\<forall>e \<in> set (pk_evidence packet). evidence_item_ok (sc_as_of (pk_scope packet)) e"
    using ok unfolding packet_ok_def by (elim conjE)
  moreover have "distinct (map ev_evidence_id (pk_evidence packet))"
    using ok unfolding packet_ok_def by (elim conjE)
  moreover have "receipts_ok L (sc_as_of (pk_scope packet)) (pk_calculation_receipts packet)"
    using ok unfolding packet_ok_def by (elim conjE)
  moreover have numerical: "packet_numerical_ok L (pk_run_id packet) (sc_as_of (pk_scope packet))
      (cr_receipt_id ` set (pk_calculation_receipts packet)) (pk_numerical_context packet)"
    using ok unfolding packet_ok_def by (elim conjE)
  moreover have "\<forall>c. pk_numerical_context packet = Some c \<longrightarrow> nc_run_id c = pk_run_id packet \<and>
       nc_as_of c \<le> sc_as_of (pk_scope packet) \<and> distinct (map nv_variable_id (nc_variables c)) \<and>
       distinct (map nr_relation_id (nc_relations c))"
    using numerical unfolding packet_numerical_ok_def numerical_ok_def variables_ok_def relations_ok_def by blast
  ultimately show ?thesis
    unfolding finding_ok_def evidence_item_ok_def receipts_ok_def by blast
qed

theorem valid_packet_is_closed_witness:
  "ev_evidence_id ` set (pk_evidence sample_findings_packet) \<supseteq> {''claim-1-evidence'', ''claim-3-evidence''}"
proof -
  have refs: "\<forall>f \<in> set (packet_findings sample_findings_packet).
      set (fd_evidence_refs f) \<subseteq> ev_evidence_id ` set (pk_evidence sample_findings_packet)"
    using valid_packet_is_closed [OF sample_findings_valid] by (elim conjE) simp
  have "sample_claim ''claim-1'' \<in> set (packet_findings sample_findings_packet)"
    "sample_claim ''claim-3'' \<in> set (packet_findings sample_findings_packet)"
    by (simp_all add: sample_findings_packet_def)
  from this [THEN bspec [OF refs]] show ?thesis by (simp add: sample_claim_def)
qed

text \<open>
  C30: Pruning a valid packet, after any claims have been dropped from it, leaves a valid packet:
  the references of the remaining claims still resolve, although evidence, receipts, numerical
  variables and relations that no claim needs any more are gone.
\<close>

theorem pruning_keeps_packets_valid:
  assumes "ValidateContextPacket L packet = None"
  shows "ValidateContextPacket L (prunePacketReferences (packet\<lparr>pk_findings := filter P (pk_findings packet),
      pk_counterevidence := filter Q (pk_counterevidence packet)\<rparr>)) = None"
  using assms unfolding ValidateContextPacket_None by (intro packet_ok_prune packet_ok_restrict)

theorem pruning_keeps_packets_valid_witness:
  "ValidateContextPacket no_decimals (prunePacketReferences (sample_findings_packet\<lparr>
     pk_findings := filter (\<lambda>f. fd_claim_id f = ''claim-2'') (pk_findings sample_findings_packet),
     pk_counterevidence := filter (\<lambda>f. False) (pk_counterevidence sample_findings_packet)\<rparr>)) = None"
  by (rule pruning_keeps_packets_valid [OF sample_findings_valid])

text \<open>
  \<open>retainVariable\<close> returns, for any numerical variables, cycles of baselines
  included, and retains exactly the variables that the given identifiers reach through baseline
  references.
\<close>

theorem retained_variables_are_reachable:
  "set (retainVariable vars pending []) =
     {y \<in> nv_variable_id ` set vars. \<exists>x \<in> set pending. (x, y) \<in>
        {(a, b). \<exists>v. index_by nv_variable_id vars a = Some v \<and> b \<in> set (nv_baseline_refs v)}\<^sup>*}"
  using retainVariable_closure [of "[]" vars "{}" pending]
  by (auto simp: baseline_closure_def baseline_edges_def)

section \<open>Plans\<close>

text \<open>
  C31: \<open>ValidateResearchPlan\<close> accepts exactly the plans that satisfy the plan contract:
  unique complete steps within the deadline, at most eight specialist steps, no more of them in a
  wave than may run in parallel, exactly one synthesis step, dependencies that exist and lead to
  earlier waves, and no dependency cycle.
\<close>

theorem plan_validator_decides_contract: "ValidateResearchPlan plan = None \<longleftrightarrow> plan_ok plan"
  by (rule ValidateResearchPlan_None)

text \<open>
  C32: The cycle search of the plan validator ends within the fuel of one nested call for each
  identifier and answers true exactly if the dependency relation of the steps has a cycle.
\<close>

theorem cycle_search_is_exact:
  "hasPlanCycle_run steps = Some (\<exists>id. (id, id) \<in> {(x, y). y \<in> set (plan_deps steps x)}\<^sup>+)"
  using hasPlanCycle_run_eq [of steps] by (simp add: depends_on_def acyclic_def)

text \<open>
  C33: Every plan that is built has the two mandatory gates: a risk and contrarian review and an
  evidence critique that wait for every specialist step, the critique also for the risk review,
  and a synthesis step of the final analyst that waits for every review step.
\<close>

theorem built_plan_has_gates:
  assumes "Build builder request = Inr plan"
  shows "ValidateResearchPlan plan = None \<and>
    (\<exists>risk critic synthesis. {risk, critic, synthesis} \<subseteq> set (pl_steps plan) \<and>
    st_kind risk = ''review'' \<and> st_role_id risk = RiskContrarian \<and>
    st_kind critic = ''review'' \<and> st_role_id critic = EvidenceCritic \<and>
    st_kind synthesis = ''synthesis'' \<and> st_role_id synthesis = FinalResearchAnalyst \<and>
    st_step_id risk \<in> set (st_depends_on critic) \<and>
    (\<forall>s \<in> set (pl_steps plan). st_kind s = ''context'' \<longrightarrow>
       st_step_id s \<in> set (st_depends_on risk) \<inter> set (st_depends_on critic)) \<and>
    (\<forall>s \<in> set (pl_steps plan). st_kind s = ''review'' \<longrightarrow> st_step_id s \<in> set (st_depends_on synthesis)))"
proof -
  have "plan_ok plan" using assms by (rule Build_planned)
  with gates_of_plan [OF assms] show ?thesis unfolding ValidateResearchPlan_None by blast
qed

theorem built_plan_has_gates_witness:
  "\<exists>plan. Build default_builder sample_request = Inr plan \<and>
     (\<exists>s \<in> set (pl_steps plan). st_kind s = ''review'' \<and> st_role_id s = RiskContrarian) \<and>
     (\<exists>s \<in> set (pl_steps plan). st_kind s = ''review'' \<and> st_role_id s = EvidenceCritic)"
proof -
  obtain plan where plan: "Build default_builder sample_request = Inr plan" using sample_plan by blast
  from built_plan_has_gates [OF plan] plan show ?thesis by blast
qed

text \<open>
  A plan gives a step only operations that the question asks for and that the capability
  registry authorizes for the role of the step, and every role whose authority a requested output
  needs has a specialist step.
\<close>

theorem built_plan_authority:
  assumes "Build builder request = Inr plan"
  shows "(\<forall>s \<in> set (pl_steps plan). \<forall>c \<in> set (st_capability_ids s).
        Authorizes (bd_capabilities builder) (st_role_id s) c \<and>
        c \<in> set (detectOperations (rq_user_text request))) \<and>
    (\<forall>out \<in> set (rq_requested_outputs request). \<forall>r \<in> set (output_authority request [] out).
        \<exists>s \<in> set (pl_steps plan). st_kind s = ''context'' \<and> st_role_id s = r)"
  by (rule authority_of_plan [OF assms])

theorem built_plan_authority_witness:
  "\<exists>plan. Build default_builder sample_request = Inr plan \<and>
     (\<exists>s \<in> set (pl_steps plan). st_kind s = ''context'' \<and> st_role_id s = ValuationRole)"
proof -
  obtain plan where plan: "Build default_builder sample_request = Inr plan" using sample_plan by blast
  have "''scenarios'' \<in> set (rq_requested_outputs sample_request)" by (simp add: sample_request_def)
  moreover have "ValuationRole \<in> set (output_authority sample_request [] ''scenarios'')"
    by (simp add: output_authority_def append_unique_def Let_def)
  ultimately show ?thesis using built_plan_authority [OF plan] plan by blast
qed

text \<open>
  For a valid request the default planner fails in exactly one way: it asks for clarification
  if and only if the request names ambiguities or leaves its company open, and otherwise returns
  a valid plan for the request, never an error of its own.
\<close>

theorem default_planner_total:
  assumes "ValidateResearchRequest request = None"
  shows "if needs_clarification request
    then res_bind DefaultBuilder (\<lambda>b. Build b request) = Inl ErrClarificationRequired
    else \<exists>plan. res_bind DefaultBuilder (\<lambda>b. Build b request) = Inr plan \<and>
      ValidateResearchPlan plan = None \<and> pl_run_id plan = rq_run_id request \<and>
      pl_request_id plan = rq_request_id request"
  by (rule default_plan_total [OF assms])

theorem default_planner_total_witness:
  "\<exists>plan. res_bind DefaultBuilder (\<lambda>b. Build b sample_request) = Inr plan \<and> pl_run_id plan = ''run-1''"
  using default_planner_total [OF sample_request_valid] sample_request_clear by auto

section \<open>Roles, operations and routes\<close>

text \<open>
  The tool gate lets a role run an operation exactly if the role is registered and may use
  the deterministic engine, the operation is registered, names the role, has no side effect, a
  positive timeout and both schemas.
\<close>

theorem tool_gate_decides:
  "Authorize gate roleID operationID = Inr operation \<longleftrightarrow>
     (\<exists>role. GetRole (tg_roles gate) roleID = Some role \<and>
        ''engine.execute'' \<in> set (rl_allowed_tools role)) \<and>
     GetOperation (tg_capabilities gate) operationID = Some operation \<and>
     roleID \<in> set (op_allowed_roles operation) \<and>
     op_side_effect_class operation = ''none'' \<and> 0 < op_timeout_ms operation \<and>
     op_input_schema operation \<noteq> [] \<and> op_output_schema operation \<noteq> []"
  by (rule Authorize_Inr)

text \<open>
  With the default roles neither reviewers nor the final analyst nor the control roles can
  run a deterministic operation, whatever the capability registry allows.
\<close>

theorem reviewers_cannot_execute:
  "\<forall>roleID \<in> set [RequestInterpreter, ResearchOrchestrator, BusinessStrategy, RiskContrarian, EvidenceCritic,
       FinalResearchAnalyst].
     Authorize \<lparr>tg_capabilities = registry, tg_roles = defaultRoles\<rparr> roleID operationID =
       Inl (ErrorsNew ''role cannot invoke the deterministic engine'')"
proof -
  have roles: "list_all (\<lambda>r. case GetRole defaultRoles r of None \<Rightarrow> False
      | Some role \<Rightarrow> ''engine.execute'' \<notin> set (rl_allowed_tools role))
    [RequestInterpreter, ResearchOrchestrator, BusinessStrategy, RiskContrarian, EvidenceCritic,
       FinalResearchAnalyst]"
    by code_simp
  show ?thesis
  proof (rule ballI)
    fix roleID
    assume "roleID \<in> set [RequestInterpreter, ResearchOrchestrator, BusinessStrategy, RiskContrarian,
        EvidenceCritic, FinalResearchAnalyst]"
    with roles [unfolded list_all_iff] have "case GetRole defaultRoles roleID of None \<Rightarrow> False
      | Some role \<Rightarrow> ''engine.execute'' \<notin> set (rl_allowed_tools role)"
      by (rule bspec)
    then show "Authorize \<lparr>tg_capabilities = registry, tg_roles = defaultRoles\<rparr> roleID operationID =
       Inl (ErrorsNew ''role cannot invoke the deterministic engine'')"
      by (cases "GetRole defaultRoles roleID") (simp_all add: Authorize_def)
  qed
qed

theorem reviewers_cannot_execute_witness:
  "Authorize \<lparr>tg_capabilities = tier0Operations, tg_roles = defaultRoles\<rparr> EvidenceCritic
     ''financial.revenue_growth'' = Inl (ErrorsNew ''role cannot invoke the deterministic engine'')"
  by (rule bspec [OF reviewers_cannot_execute]) simp

text \<open>
  A role registry answers what was registered: each definition is found under its own
  identifier and under no other, and the listing has exactly the definitions, sorted by
  identifier.
\<close>

theorem role_registry_roundtrip:
  assumes "NewRoleRegistry definitions = Inr registry"
  shows "(\<forall>role \<in> set definitions. GetRole registry (rl_role_id role) = Some role) \<and>
    (\<forall>id. GetRole registry id = None \<longleftrightarrow> id \<notin> rl_role_id ` set definitions) \<and>
    sorted (map rl_role_id (ListRoles registry)) \<and> set (ListRoles registry) = set definitions \<and>
    (\<forall>role \<in> set definitions. rl_max_retries role \<in> {0, 1} \<and> 0 < rl_timeout_ms role)"
  using role_registry.get_registered [OF assms] role_registry.get_unknown [OF assms]
    role_registry.listed_sorted [OF assms] assms
  by (auto simp: role_registry.build_Inr validateRole_def)

theorem role_registry_roundtrip_witness:
  "GetRole defaultRoles (rl_role_id (hd defaultRoles)) = Some (hd defaultRoles)"
proof -
  have "hd defaultRoles \<in> set defaultRoles" by (rule hd_in_set) (simp add: defaultRoles_def)
  then show ?thesis using role_registry_roundtrip [OF NewRoleRegistry_default] by (elim conjE) (rule bspec)
qed

text \<open>
  Starting the program never panics: the built-in roles and all three built-in operation
  registries are accepted as they are.
\<close>

theorem built_in_registries_load:
  "DefaultRegistry = Inr defaultRoles \<and> Tier0Registry = Inr tier0Operations \<and>
   FinancialIntelligenceRegistry = Inr financialIntelligenceOperations \<and>
   RuntimeRegistry = Inr (tier0Operations @ financialIntelligenceOperations)"
  by (simp add: DefaultRegistry_eq Tier0Registry_eq FinancialIntelligenceRegistry_def RuntimeRegistry_def
      NewCapabilityRegistry_intelligence NewCapabilityRegistry_runtime)

text \<open>
  For every known intent and any question the router has a route, which names at least one
  specialist role, each once and all of them specialist roles, and only the two review roles.
\<close>

theorem routes_are_well_formed:
  assumes "ValidateIntent intent = None"
  shows "\<exists>route. PlanRoute question intent material = Inr route \<and>
    set (ru_context_roles route) \<subseteq> set contextRoleIDs \<and> distinct (ru_context_roles route) \<and>
    ru_context_roles route \<noteq> [] \<and> set (ru_review_roles route) \<subseteq> {RiskContrarian, EvidenceCritic}"
proof -
  obtain route where "PlanRoute question intent material = Inr route" using PlanRoute_total [OF assms] by blast
  with PlanRoute_ok [OF this] show ?thesis by (auto simp: route_ok_def)
qed

theorem routes_are_well_formed_witness:
  "\<exists>route. PlanRoute ''compare margins'' IntentValuation True = Inr route \<and> ru_context_roles route \<noteq> []"
proof -
  have "ValidateIntent IntentValuation = None" by (simp add: ValidateIntent_None taxonomy_intents)
  from routes_are_well_formed [OF this] show ?thesis by blast
qed

text \<open>
  The request validator's loop over its labelled slices accepts independently of the order
  in which Go visits the map: exactly if no slice has an empty or a repeated value.
\<close>

theorem labelled_slices_order_independent:
  assumes "mset labelled = mset visited"
  shows "(labelled_unique visited = None) = (labelled_unique labelled = None) \<and>
    (labelled_unique visited = None) =
      list_all (\<lambda>(label, values). list_all (\<lambda>v. \<not> blank v) values \<and> distinct values) labelled"
  using mset_eq_setD [OF assms] by (simp add: labelled_unique_None labelled_ok_def list_all_iff)

theorem labelled_slices_order_independent_witness:
  "labelled_unique [(''risk_flags'', [''a'', ''b'']), (''assumptions'', [''c'', ''c''])] \<noteq> None"
proof -
  have "mset [(''assumptions'', [''c'', ''c'']), (''risk_flags'', [''a'', ''b''])] =
      mset [(''risk_flags'', [''a'', ''b'']), (''assumptions'', [''c'', ''c''])]" by simp
  from labelled_slices_order_independent [OF this] show ?thesis by auto
qed

end
